(* ===== verification/Cordium_Prelude.thy ===== *)
theory Cordium_Prelude
  imports Main "HOL-Library.Word" "HOL-Library.Sublist" "HOL-Library.List_Lexorder"
    "HOL-Library.Char_ord"
begin

text \<open>
  Shared vocabulary of the development: the error values the Go code returns, a
  state-and-error monad for its handlers, the functions of the Go packages
  \<open>strings\<close>, \<open>strconv\<close> and \<open>fmt\<close> the program calls, and generic lemmas on lists.
  Logging (\<open>zap\<close>) has no effect on any result and is left out everywhere.
\<close>

named_theorems io_simps \<open>when a handler step succeeds or fails\<close>

section \<open>Errors and handlers\<close>

text \<open>
  One constructor per error constructor the code calls: \<open>serr\<close> and \<open>grpcutils\<close> build
  gRPC status errors, \<open>errors.Errorf\<close> plain ones, \<open>VolumeMountError\<close> is the error type of
  \<open>wsutils\<close>, \<open>ExtErr\<close> is an error that an external service returned, and \<open>Panic\<close> stands for
  the panic of a nil dereference or an index out of range.
\<close>

datatype err =
    InvalidArg string
  | Unauthorized string
  | NotFoundErr string
  | AlreadyExists string
  | Internal string
  | InternalWithErr err
  | K8sNotFoundOrInternalWithErr err
  | Errorf string
  | VolumeMountError string string
  | ExtErr nat string
  | Panic string

text \<open>
  A handler takes the state of the outside world (the resource server, Kubernetes, the
  clock) and returns an error or a result, with the new state of the world.
\<close>

type_synonym ('w, 'a) io = "'w \<Rightarrow> (err + 'a) \<times> 'w"

definition retE :: "'a \<Rightarrow> ('w, 'a) io" where
  "retE x = (\<lambda>w. (Inr x, w))"

definition throwE :: "err \<Rightarrow> ('w, 'a) io" where
  "throwE e = (\<lambda>w. (Inl e, w))"

definition bindE :: "('w, 'a) io \<Rightarrow> ('a \<Rightarrow> ('w, 'b) io) \<Rightarrow> ('w, 'b) io" where
  "bindE m f = (\<lambda>w. case m w of (Inl e, w') \<Rightarrow> (Inl e, w') | (Inr x, w') \<Rightarrow> f x w')"

text \<open>A call that only reads the world, e.g. a Get or a List of the resource server.\<close>

definition readE :: "('w \<Rightarrow> err + 'a) \<Rightarrow> ('w, 'a) io" where
  "readE g = (\<lambda>w. (g w, w))"

text \<open>A call whose error the code inspects (\<open>x, err := f(); if err != nil ...\<close>).\<close>

definition tryE :: "('w, 'a) io \<Rightarrow> ('w, err + 'a) io" where
  "tryE m = (\<lambda>w. case m w of (r, w') \<Rightarrow> (Inr r, w'))"

definition throw_if :: "bool \<Rightarrow> err \<Rightarrow> ('w, unit) io" where
  "throw_if c e = (if c then throwE e else retE ())"

definition checkE :: "err option \<Rightarrow> ('w, unit) io" where
  "checkE r = (case r of Some e \<Rightarrow> throwE e | None \<Rightarrow> retE ())"

definition liftE :: "err + 'a \<Rightarrow> ('w, 'a) io" where
  "liftE r = (\<lambda>w. (r, w))"

text \<open>A check that only reads the world.\<close>

definition checkR :: "('w \<Rightarrow> err option) \<Rightarrow> ('w, unit) io" where
  "checkR f = (\<lambda>w. checkE (f w) w)"

text \<open>Sequencing of results without a world.\<close>

definition bindS :: "err + 'a \<Rightarrow> ('a \<Rightarrow> err + 'b) \<Rightarrow> err + 'b" where
  "bindS r f = (case r of Inl e \<Rightarrow> Inl e | Inr x \<Rightarrow> f x)"

definition mapErrS :: "(err \<Rightarrow> err) \<Rightarrow> err + 'a \<Rightarrow> err + 'a" where
  "mapErrS f r = (case r of Inl e \<Rightarrow> Inl (f e) | Inr x \<Rightarrow> Inr x)"

definition checkS :: "err option \<Rightarrow> err + unit" where
  "checkS r = (case r of Some e \<Rightarrow> Inl e | None \<Rightarrow> Inr ())"

text \<open>\<open>if err != nil { return nil, f(err) }\<close>\<close>

definition mapErrE :: "(err \<Rightarrow> err) \<Rightarrow> ('w, 'a) io \<Rightarrow> ('w, 'a) io" where
  "mapErrE f m = (\<lambda>w. case m w of (Inl e, w') \<Rightarrow> (Inl (f e), w') | (Inr x, w') \<Rightarrow> (Inr x, w'))"

fun forE :: "'a list \<Rightarrow> ('a \<Rightarrow> ('w, unit) io) \<Rightarrow> ('w, unit) io" where
  "forE [] f = retE ()"
| "forE (x # xs) f = bindE (f x) (\<lambda>_. forE xs f)"

lemma bindE_Inr [io_simps]:
  "bindE m f w = (Inr y, w') \<longleftrightarrow> (\<exists>x w1. m w = (Inr x, w1) \<and> f x w1 = (Inr y, w'))"
  by (auto simp: bindE_def split: prod.splits sum.splits)

lemma bindE_Inl:
  "bindE m f w = (Inl e, w') \<longleftrightarrow>
     m w = (Inl e, w') \<or> (\<exists>x w1. m w = (Inr x, w1) \<and> f x w1 = (Inl e, w'))"
  by (auto simp: bindE_def split: prod.splits sum.splits)

lemma retE_eq [io_simps]: "retE x w = (r, w') \<longleftrightarrow> r = Inr x \<and> w' = w"
  by (auto simp: retE_def)

lemma throwE_eq [io_simps]: "throwE e w = (r, w') \<longleftrightarrow> r = Inl e \<and> w' = w"
  by (auto simp: throwE_def)

lemma readE_eq [io_simps]: "readE g w = (r, w') \<longleftrightarrow> g w = r \<and> w' = w"
  by (auto simp: readE_def)

lemma liftE_eq [io_simps]: "liftE g w = (r, w') \<longleftrightarrow> g = r \<and> w' = w"
  by (auto simp: liftE_def)

lemma throw_if_Inr [io_simps]: "throw_if c e w = (Inr u, w') \<longleftrightarrow> \<not> c \<and> w' = w"
  by (auto simp: throw_if_def retE_def throwE_def)

lemma throw_if_Inl [io_simps]: "throw_if c e w = (Inl e', w') \<longleftrightarrow> c \<and> e' = e \<and> w' = w"
  by (auto simp: throw_if_def retE_def throwE_def)

lemma checkE_Inr [io_simps]: "checkE r w = (Inr u, w') \<longleftrightarrow> r = None \<and> w' = w"
  by (auto simp: checkE_def retE_def throwE_def split: option.splits)

lemma checkE_Inl [io_simps]: "checkE r w = (Inl e, w') \<longleftrightarrow> r = Some e \<and> w' = w"
  by (auto simp: checkE_def retE_def throwE_def split: option.splits)

lemma checkR_Inr [io_simps]: "checkR f w = (Inr u, w') \<longleftrightarrow> f w = None \<and> w' = w"
  by (simp add: checkR_def checkE_Inr)

lemma checkR_Inl [io_simps]: "checkR f w = (Inl e, w') \<longleftrightarrow> f w = Some e \<and> w' = w"
  by (simp add: checkR_def checkE_Inl)

lemma bindS_Inr [io_simps]: "bindS r f = Inr y \<longleftrightarrow> (\<exists>x. r = Inr x \<and> f x = Inr y)"
  by (cases r) (auto simp: bindS_def)

lemma mapErrS_Inr [io_simps]: "mapErrS f r = Inr y \<longleftrightarrow> r = Inr y"
  by (cases r) (auto simp: mapErrS_def)

lemma mapErrS_Inl [io_simps]: "mapErrS f r = Inl e \<longleftrightarrow> (\<exists>e0. r = Inl e0 \<and> e = f e0)"
  by (cases r) (auto simp: mapErrS_def)

lemma checkS_Inr [io_simps]: "checkS r = Inr u \<longleftrightarrow> r = None"
  by (cases r) (auto simp: checkS_def)

lemma mapErrE_Inr [io_simps]: "mapErrE f m w = (Inr x, w') \<longleftrightarrow> m w = (Inr x, w')"
  by (auto simp: mapErrE_def split: prod.splits sum.splits)

lemma mapErrE_Inl [io_simps]:
  "mapErrE f m w = (Inl e, w') \<longleftrightarrow> (\<exists>e0. m w = (Inl e0, w') \<and> e = f e0)"
  by (auto simp: mapErrE_def split: prod.splits sum.splits)

lemma tryE_eq [io_simps]: "tryE m w = (Inr r, w') \<longleftrightarrow> m w = (r, w')"
  by (auto simp: tryE_def split: prod.splits)

lemma tryE_Inl [io_simps]: "tryE m w = (Inl e, w') \<longleftrightarrow> False"
  by (auto simp: tryE_def split: prod.splits)

lemma bindE_tryE_readE [io_simps]: "bindE (tryE (readE g)) f w = f (g w) w"
  by (simp add: bindE_def tryE_def readE_def)

lemma bindE_tryE_Inl: "m w = (Inl e, w1) \<Longrightarrow> bindE (tryE m) f w = f (Inl e) w1"
  by (simp add: bindE_def tryE_def)

lemma bindE_tryE_Inr: "m w = (Inr x, w1) \<Longrightarrow> bindE (tryE m) f w = f (Inr x) w1"
  by (simp add: bindE_def tryE_def)

lemma io_eval [simp]:
  "bindE (retE x) f = f x"
  "bindE (throwE e) f = throwE e"
  by (auto simp: bindE_def retE_def throwE_def)

text \<open>Read-only handlers: whatever they return, the world is unchanged.\<close>

definition read_only :: "('w, 'a) io \<Rightarrow> bool" where
  "read_only m \<longleftrightarrow> (\<forall>w r w'. m w = (r, w') \<longrightarrow> w' = w)"

lemma read_only_intros [intro!]:
  "read_only (retE x)" "read_only (throwE e)" "read_only (readE g)" "read_only (throw_if c e)"
  "read_only (checkE r)" "read_only (liftE s)" "read_only (checkR f)"
  by (auto simp: read_only_def retE_def throwE_def readE_def throw_if_def checkR_def checkE_def liftE_def
      split: option.splits)

lemma read_only_bindE [intro!]:
  "read_only m \<Longrightarrow> (\<And>x. read_only (f x)) \<Longrightarrow> read_only (bindE m f)"
  unfolding read_only_def bindE_def by (auto split: prod.splits sum.splits) metis+

lemma read_only_mapErrE [intro!]: "read_only m \<Longrightarrow> read_only (mapErrE f m)"
  by (auto simp: read_only_def mapErrE_def split: prod.splits sum.splits)

lemma read_only_tryE [intro!]: "read_only m \<Longrightarrow> read_only (tryE m)"
  by (auto simp: read_only_def tryE_def split: prod.splits)

lemma read_only_forE [intro!]: "(\<And>x. read_only (f x)) \<Longrightarrow> read_only (forE xs f)"
  by (induction xs) auto

lemma read_onlyD: "read_only m \<Longrightarrow> m w = (r, w') \<Longrightarrow> w' = w"
  by (auto simp: read_only_def)

text \<open>A request that is refused: an error, and nothing is changed.\<close>

definition refused :: "(err + 'a) \<times> 'w \<Rightarrow> 'w \<Rightarrow> bool" where
  "refused r w \<longleftrightarrow> (\<exists>e. r = (Inl e, w))"

lemma refused_bindE: "refused (m w) w \<Longrightarrow> refused (bindE m f w) w"
  by (auto simp: refused_def bindE_def)

lemma refused_bindE_read:
  assumes "read_only m" "\<And>x. m w = (Inr x, w) \<Longrightarrow> refused (f x w) w"
  shows "refused (bindE m f w) w"
proof (cases "m w")
  case (Pair r w')
  then have "w' = w" by (rule read_onlyD[OF assms(1)])
  then show ?thesis
    using Pair assms(2) by (cases r) (auto simp: refused_def bindE_def)
qed

lemma refused_simps [simp]:
  "refused (throwE e w) w" "refused (throw_if c e w) w \<longleftrightarrow> c" "\<not> refused (Inr x, w') w" "\<not> refused (retE y w) w"
  by (auto simp: refused_def throwE_def throw_if_def retE_def)

lemma refused_readE [simp]:
  "refused (bindE (readE g) f w) w \<longleftrightarrow> (case g w of Inl _ \<Rightarrow> True | Inr x \<Rightarrow> refused (f x w) w)"
  by (auto simp: refused_def bindE_def readE_def split: sum.splits)

lemma refused_liftE [simp]:
  "refused (bindE (liftE s) f w) w \<longleftrightarrow> (case s of Inl _ \<Rightarrow> True | Inr x \<Rightarrow> refused (f x w) w)"
  by (auto simp: refused_def bindE_def liftE_def split: sum.splits)

lemma refused_checks [simp]:
  "refused (bindE (checkE c) f w) w \<longleftrightarrow> c \<noteq> None \<or> refused (f () w) w"
  "refused (bindE (checkR d) f w) w \<longleftrightarrow> d w \<noteq> None \<or> refused (f () w) w"
  "refused (bindE (throw_if b e) f w) w \<longleftrightarrow> b \<or> refused (f () w) w"
  by (auto simp: refused_def bindE_def throw_if_def retE_def throwE_def checkE_def checkR_def split: option.splits)

lemma refused_mapErrE [simp]: "refused (bindE (mapErrE h m) f w) w \<longleftrightarrow> refused (bindE m f w) w"
  by (auto simp: refused_def bindE_def mapErrE_def split: sum.splits prod.splits)

end
