(* ===== verification/Go_Strings.thy ===== *)
theory Go_Strings
  imports Cordium_Prelude
begin

text \<open>
  The functions of Go's \<open>strings\<close>, \<open>strconv\<close> and \<open>path\<close> packages that the program calls.
  A Go string is a sequence of bytes, here a list of characters (bytes); \<open>len\<close> is \<open>length\<close>.
\<close>

section \<open>Searching\<close>

text \<open>\<open>strings.HasPrefix\<close>, \<open>strings.HasSuffix\<close>\<close>

definition hasPrefix :: "string \<Rightarrow> string \<Rightarrow> bool" where
  "hasPrefix s p \<longleftrightarrow> take (length p) s = p"

definition hasSuffix :: "string \<Rightarrow> string \<Rightarrow> bool" where
  "hasSuffix s p \<longleftrightarrow> hasPrefix (rev s) (rev p)"

lemma hasPrefix_conv: "hasPrefix s p \<longleftrightarrow> (\<exists>r. s = p @ r)"
  unfolding hasPrefix_def by (metis append_eq_conv_conj append_take_drop_id)

lemma hasPrefix_append [simp]: "hasPrefix (p @ r) p"
  by (simp add: hasPrefix_def)

lemma hasSuffix_conv: "hasSuffix s p \<longleftrightarrow> (\<exists>r. s = r @ p)"
  unfolding hasSuffix_def hasPrefix_conv by (metis rev_append rev_rev_ident)

text \<open>\<open>strings.Index\<close>: the position of the first occurrence, \<open>None\<close> for -1.\<close>

fun strIndex :: "string \<Rightarrow> string \<Rightarrow> nat option" where
  "strIndex [] p = (if p = [] then Some 0 else None)"
| "strIndex (c # s) p = (if hasPrefix (c # s) p then Some 0 else map_option Suc (strIndex s p))"

definition strContains :: "string \<Rightarrow> string \<Rightarrow> bool" where
  "strContains s p \<longleftrightarrow> strIndex s p \<noteq> None"

lemma strIndex_Some:
  "strIndex s p = Some i \<Longrightarrow> i + length p \<le> length s \<and> hasPrefix (drop i s) p"
proof (induction s p arbitrary: i rule: strIndex.induct)
  case (1 p)
  then show ?case by (auto simp: hasPrefix_def split: if_splits)
next
  case (2 c s p)
  show ?case
  proof (cases "hasPrefix (c # s) p")
    case True
    then have "length p \<le> length (c # s)"
      unfolding hasPrefix_def by (metis length_take min.cobounded1)
    with True 2 show ?thesis by auto
  next
    case False
    with 2 show ?thesis by auto
  qed
qed

lemma strIndex_None_iff: "strIndex s p = None \<longleftrightarrow> (\<nexists>a b. s = a @ p @ b)"
proof (induction s p rule: strIndex.induct)
  case (1 p)
  show ?case by auto
next
  case (2 c s p)
  show ?case
  proof (cases "hasPrefix (c # s) p")
    case True
    then obtain r where "c # s = [] @ p @ r" by (auto simp: hasPrefix_conv)
    with True show ?thesis by (metis option.distinct(1) strIndex.simps(2))
  next
    case False
    have "(\<exists>a b. c # s = a @ p @ b) \<longleftrightarrow> (\<exists>a b. s = a @ p @ b)"
    proof
      assume "\<exists>a b. c # s = a @ p @ b"
      then obtain a b where ab: "c # s = a @ p @ b" by blast
      with False have "a \<noteq> []" by (auto simp: hasPrefix_conv)
      with ab show "\<exists>a b. s = a @ p @ b" by (cases a) auto
    next
      assume "\<exists>a b. s = a @ p @ b"
      then show "\<exists>a b. c # s = a @ p @ b" by (metis append_Cons)
    qed
    with False 2 show ?thesis by simp
  qed
qed

lemma strContains_iff: "strContains s p \<longleftrightarrow> (\<exists>a b. s = a @ p @ b)"
  using strIndex_None_iff [of s p] by (auto simp: strContains_def)

section \<open>Splitting and joining\<close>

text \<open>\<open>strings.Split(s, sep)\<close> with a one-byte separator: never empty.\<close>

fun splitOn :: "char \<Rightarrow> string \<Rightarrow> string list" where
  "splitOn c [] = [[]]"
| "splitOn c (x # s) =
     (if x = c then [] # splitOn c s
      else (case splitOn c s of [] \<Rightarrow> [[x]] | f # fs \<Rightarrow> (x # f) # fs))"

fun joinWith :: "string \<Rightarrow> string list \<Rightarrow> string" where
  "joinWith sep [] = []"
| "joinWith sep [f] = f"
| "joinWith sep (f # g # fs) = f @ sep @ joinWith sep (g # fs)"

lemma splitOn_nonempty [simp]: "splitOn c s \<noteq> []"
  by (cases s) (auto split: list.splits)

lemma joinWith_Cons: "fs \<noteq> [] \<Longrightarrow> joinWith sep (f # fs) = f @ sep @ joinWith sep fs"
  by (cases fs) auto

lemma join_splitOn: "joinWith [c] (splitOn c s) = s"
proof (induction s)
  case Nil
  show ?case by simp
next
  case (Cons x s)
  obtain f fs where f: "splitOn c s = f # fs" by (cases "splitOn c s") auto
  show ?case
  proof (cases "x = c")
    case True
    with Cons f show ?thesis by (simp add: joinWith_Cons)
  next
    case False
    with Cons f show ?thesis by (cases fs) auto
  qed
qed

lemma splitOn_no_sep: "f \<in> set (splitOn c s) \<Longrightarrow> c \<notin> set f"
  by (induction s arbitrary: f) (auto split: if_splits list.splits)

lemma splitOn_single: "c \<notin> set s \<Longrightarrow> splitOn c s = [s]"
  by (induction s) auto

lemma splitOn_append: "c \<notin> set f \<Longrightarrow> splitOn c (f @ c # s) = f # splitOn c s"
  by (induction f) auto

lemma splitOn_joinWith:
  "fs \<noteq> [] \<Longrightarrow> \<forall>f \<in> set fs. c \<notin> set f \<Longrightarrow> splitOn c (joinWith [c] fs) = fs"
proof (induction "[c]" fs rule: joinWith.induct)
  case (2 f)
  then show ?case by (simp add: splitOn_single)
qed (auto simp: splitOn_append)

section \<open>Rewriting\<close>

text \<open>
  \<open>strings.ReplaceAll(s, old, new)\<close>: the non-overlapping occurrences from the left. The
  program never calls it with an empty \<open>old\<close>.
\<close>

function replaceAll :: "string \<Rightarrow> string \<Rightarrow> string \<Rightarrow> string" where
  "replaceAll [] old new = []"
| "replaceAll (c # s) old new =
     (if old \<noteq> [] \<and> hasPrefix (c # s) old then new @ replaceAll (drop (length old - 1) s) old new
      else c # replaceAll s old new)"
  by pat_completeness auto
termination
  by (relation "measure (\<lambda>(s, old, new). length s)") auto

lemma strIndex_Cons_None: "strIndex (c # s) p = None \<Longrightarrow> \<not> hasPrefix (c # s) p \<and> strIndex s p = None"
  by (auto split: if_splits)

lemma replaceAll_id: "strIndex s old = None \<Longrightarrow> replaceAll s old new = s"
proof (induction s old new rule: replaceAll.induct)
  case (2 c s old new)
  then show ?case using strIndex_Cons_None [OF 2(3)] by simp
qed simp

definition charLower :: "char \<Rightarrow> char" where
  "charLower c = (let n = of_char c :: nat in if 65 \<le> n \<and> n \<le> 90 then char_of (n + 32) else c)"

text \<open>\<open>strings.ToLower\<close>, on the ASCII names it is applied to.\<close>

definition strToLower :: "string \<Rightarrow> string" where
  "strToLower s = map charLower s"

text \<open>\<open>fmt.Sprintf("%d", n)\<close> of a value that is not negative.\<close>

fun showNat :: "nat \<Rightarrow> string" where
  "showNat n = (if n < 10 then [char_of (48 + n)] else showNat (n div 10) @ [char_of (48 + n mod 10)])"

declare showNat.simps [simp del]

lemma showNat_nonempty [simp]: "showNat n \<noteq> []"
  by (subst showNat.simps) simp

text \<open>
  \<open>strings.TrimSpace\<close>: the white space of Unicode, as the byte sequences that encode it in
  UTF-8 (ASCII white space, U+0085, U+00A0, U+1680, U+2000 to U+200A, U+2028, U+2029, U+202F,
  U+205F and U+3000).
\<close>

definition goSpaces :: "string list" where
  "goSpaces =
     map (\<lambda>n. [char_of n]) [9, 10, 11, 12, 13, 32 :: nat]
     @ [map char_of [0xC2, 0x85 :: nat], map char_of [0xC2, 0xA0 :: nat],
        map char_of [0xE1, 0x9A, 0x80 :: nat]]
     @ map (\<lambda>n. map char_of [0xE2, 0x80, n :: nat])
         [0x80, 0x81, 0x82, 0x83, 0x84, 0x85, 0x86, 0x87, 0x88, 0x89, 0x8A, 0xA8, 0xA9, 0xAF]
     @ [map char_of [0xE2, 0x81, 0x9F :: nat], map char_of [0xE3, 0x80, 0x80 :: nat]]"

fun trimWith :: "nat \<Rightarrow> string list \<Rightarrow> string \<Rightarrow> string" where
  "trimWith 0 sps s = s"
| "trimWith (Suc n) sps s =
     (case find (hasPrefix s) sps of None \<Rightarrow> s | Some p \<Rightarrow> trimWith n sps (drop (length p) s))"

text \<open>Every step removes a byte at least, so the length of the string is fuel enough.\<close>

definition trimSpace :: "string \<Rightarrow> string" where
  "trimSpace s =
     (let l = trimWith (length s) goSpaces s
      in rev (trimWith (length l) (map rev goSpaces) (rev l)))"

section \<open>Paths\<close>

text \<open>
  \<open>path.Clean\<close>: drop empty and \<open>.\<close> elements, let \<open>..\<close> remove the element before it, and
  drop \<open>..\<close> at the root. The elements kept so far are a stack.
\<close>

definition cleanStep :: "bool \<Rightarrow> string list \<Rightarrow> string \<Rightarrow> string list" where
  "cleanStep rooted st f =
     (if f = [] \<or> f = ''.'' then st
      else if f = ''..'' then
        (case st of
           [] \<Rightarrow> if rooted then [] else [''..'']
         | g # st' \<Rightarrow> if g = ''..'' then ''..'' # st else st')
      else f # st)"

definition pathClean :: "string \<Rightarrow> string" where
  "pathClean p =
     (if p = [] then ''.''
      else
        let rooted = hasPrefix p ''/'';
            fs = rev (foldl (cleanStep rooted) [] (splitOn CHR ''/'' p))
        in if rooted then CHR ''/'' # joinWith ''/'' fs
           else if fs = [] then ''.'' else joinWith ''/'' fs)"

text \<open>A rooted path is \<open>/\<close> and elements none of which is empty, \<open>.\<close> or \<open>..\<close>.\<close>

definition cleanElem :: "string \<Rightarrow> bool" where
  "cleanElem f \<longleftrightarrow> f \<noteq> [] \<and> f \<noteq> ''.'' \<and> f \<noteq> ''..'' \<and> CHR ''/'' \<notin> set f"

lemma cleanStep_elem:
  "list_all cleanElem st \<Longrightarrow> CHR ''/'' \<notin> set f \<Longrightarrow> list_all cleanElem (cleanStep True st f)"
  by (cases st) (auto simp: cleanStep_def cleanElem_def)

lemma foldl_cleanStep_elem:
  "list_all cleanElem st \<Longrightarrow> \<forall>f \<in> set fs. CHR ''/'' \<notin> set f \<Longrightarrow>
   list_all cleanElem (foldl (cleanStep True) st fs)"
  by (induction fs arbitrary: st) (simp_all add: cleanStep_elem)

lemma cleanStep_keep: "cleanElem f \<Longrightarrow> cleanStep r st f = f # st"
  by (simp add: cleanStep_def cleanElem_def)

lemma foldl_cleanStep_keep:
  "list_all cleanElem fs \<Longrightarrow> foldl (cleanStep r) st fs = rev fs @ st"
  by (induction fs arbitrary: st) (simp_all add: cleanStep_keep)

lemma hasPrefix_slash: "hasPrefix p ''/'' \<Longrightarrow> \<exists>q. p = CHR ''/'' # q"
  by (auto simp: hasPrefix_conv)

lemma pathClean_rooted:
  assumes "hasPrefix p ''/''"
  obtains fs where "pathClean p = CHR ''/'' # joinWith ''/'' fs" "list_all cleanElem fs"
proof -
  let ?fs = "rev (foldl (cleanStep True) [] (splitOn CHR ''/'' p))"
  have "p \<noteq> []" using hasPrefix_slash [OF assms] by auto
  then have 1: "pathClean p = CHR ''/'' # joinWith ''/'' ?fs"
    using assms by (simp add: pathClean_def Let_def)
  have "list_all cleanElem (foldl (cleanStep True) [] (splitOn CHR ''/'' p))"
    by (rule foldl_cleanStep_elem) (simp, metis splitOn_no_sep)
  then have "list_all cleanElem ?fs" by (simp add: list_all_iff)
  with 1 show ?thesis by (rule that)
qed

lemma pathClean_canonical:
  assumes "list_all cleanElem fs"
  shows "pathClean (CHR ''/'' # joinWith ''/'' fs) = CHR ''/'' # joinWith ''/'' fs"
proof (cases "fs = []")
  case True
  then show ?thesis by (simp add: pathClean_def hasPrefix_def cleanStep_def)
next
  case False
  have "splitOn CHR ''/'' (joinWith ''/'' fs) = fs"
    using False assms by (intro splitOn_joinWith) (auto simp: list_all_iff cleanElem_def)
  then have "splitOn CHR ''/'' (CHR ''/'' # joinWith ''/'' fs) = [] # fs" by simp
  then have "foldl (cleanStep True) [] (splitOn CHR ''/'' (CHR ''/'' # joinWith ''/'' fs)) = rev fs"
    using foldl_cleanStep_keep [OF assms] by (simp add: cleanStep_def)
  then show ?thesis by (simp add: pathClean_def hasPrefix_def)
qed

theorem pathClean_idem_rooted:
  "hasPrefix p ''/'' \<Longrightarrow> pathClean (pathClean p) = pathClean p"
  by (erule pathClean_rooted) (simp add: pathClean_canonical)

end
