(* ===== verification/Resources.thy ===== *)
theory Resources
  imports Go_Strings
begin

text \<open>
  The resources of the API (the messages of \<open>apis/main/cordiumv1\<close>), as records with the
  fields the modelled code reads or writes. A pointer that may be nil is an option, a oneof
  is a datatype with a constructor for "not set", a uint32 is a \<open>32 word\<close>. An enum whose
  \<open>default\<close> branch the code relies on keeps a constructor for unknown numbers.
\<close>

type_synonym u32 = "32 word"
type_synonym u64 = "64 word"

text \<open>A timestamp, in nanoseconds since the epoch.\<close>

type_synonym time = int

section \<open>Metadata and references\<close>

record object_ref =
  refUid :: string
  refName :: string

record metadata =
  mdUid :: string
  mdName :: string
  mdDisplayName :: string
  mdCreatedAt :: "time option"
  mdIsSystem :: bool
  mdIsSystemHidden :: bool
  mdIsUserHidden :: bool
  mdSystemLabels :: "(string \<times> string) list option"

definition emptyMetadata :: metadata where
  "emptyMetadata = \<lparr>mdUid = [], mdName = [], mdDisplayName = [], mdCreatedAt = None,
     mdIsSystem = False, mdIsSystemHidden = False, mdIsUserHidden = False, mdSystemLabels = None\<rparr>"

text \<open>\<open>umetav1.GetObjectReference\<close>: the name and the UID of a resource.\<close>

definition GetObjectReference :: "metadata \<Rightarrow> object_ref" where
  "GetObjectReference m = \<lparr>refUid = mdUid m, refName = mdName m\<rparr>"

lemma GetObjectReference_sel [simp]:
  "refUid (GetObjectReference m) = mdUid m" "refName (GetObjectReference m) = mdName m"
  by (simp_all add: GetObjectReference_def)

section \<open>The spec of a Workspace\<close>

datatype password = PwUnset | PwFromSecret string

record registry_auth =
  raUsername :: string
  raPassword :: "password option"

record registry =
  regUrl :: string
  regAuthentication :: "registry_auth option"

record git_image =
  giUrl :: string
  giCheckout :: string
  giDockerfile :: string
  giContext :: string

datatype dockerfile = DfUnset | DfInline string | DfUrl string

datatype repo_image =
    RiUnset
  | RiDevcontainer (riDirPath: string)
  | RiDockerfile (riPath: string) (riContext: string)

datatype image =
    ImgUnset
  | ImgDockerfile dockerfile
  | ImgRegistry registry
  | ImgGit git_image
  | ImgRepository repo_image

record clone_options =
  coBranch :: string
  coCheckout :: string

record http_auth =
  haUsername :: string
  haPassword :: "password option"

datatype repo_auth = AuthUnset | AuthHttp http_auth

record repository =
  repoUrl :: string
  repoCloneOptions :: "clone_options option"
  repoAuthentication :: "repo_auth option"

record additional_repository =
  arName :: string
  arRepository :: "repository option"

record application =
  appName :: string
  appDisplayName :: string
  appPort :: int
  appIsDefault :: bool

text \<open>Milli-cores of CPU, and megabytes of memory and storage.\<close>

record limit =
  limCpu :: "u32 option"
  limMemory :: "u32 option"
  limStorage :: "u32 option"

definition emptyLimit :: limit where
  "emptyLimit = \<lparr>limCpu = None, limMemory = None, limStorage = None\<rparr>"

record spec_var =
  varName :: string
  varValue :: string

datatype env_type = EnvUnset | EnvFromSecret string | EnvValue string

record env_var =
  evKey :: string
  evType :: env_type

record task_env_var =
  teKey :: string
  teValue :: string

datatype task_type = Task_UNKNOWN | Task_ON_CREATE | Task_POST_START | Task_PRE_STOP

datatype on_failure = ON_FAILURE_UNSET | ON_FAILURE_ABORT | ON_FAILURE_CONTINUE

record task =
  tkName :: string
  tkRun :: string
  tkType :: task_type
  tkEnvVars :: "task_env_var list"
  tkWorkingDir :: string
  tkIsBackground :: bool
  tkOnFailure :: on_failure
  tkRunAsRoot :: bool

record feature_option =
  foKey :: string
  foValue :: string

record feature =
  ftReference :: string
  ftOptions :: "feature_option list"

record capabilities =
  capAdd :: "string list"
  capDrop :: "string list"

datatype net_action = Rule_UNSET | Rule_ALLOW | Rule_DENY | Rule_Other int

datatype egress_default =
    Egress_DEFAULT_ACTION_UNSET | Egress_ALLOW_PUBLIC | Egress_DENY | Egress_Other int

record net_rule =
  nrCidrs :: "string list"
  nrAction :: net_action
  nrPorts :: "u32 list"

record egress =
  egRules :: "net_rule list"
  egDefaultAction :: egress_default

record network =
  netEgress :: "egress option"

record volume_mount =
  vmVolumeRef :: "object_ref option"
  vmMountPath :: string
  vmReadOnly :: bool

text \<open>\<open>Runtime.Timeout.Mode\<close>, absent when \<open>Timeout\<close> is nil.\<close>

datatype timeout_mode = Timeout_MODE_UNSET | Timeout_DEFAULT | Timeout_DISABLED

text \<open>
  \<open>rtServeServices\<close> and \<open>rtServeAll\<close> are the fields of \<open>Octelium\<close>, \<open>rtReadOnly\<close> is that of \<open>Filesystem\<close>
  (false when it is nil).
\<close>

record runtime =
  rtEnvVars :: "env_var list"
  rtTasks :: "task list"
  rtCmd :: string
  rtEntrypoint :: string
  rtDevcontainers :: "feature list option"
  rtServeServices :: "string list option"
  rtNetwork :: "network option"
  rtCapabilities :: "capabilities option"
  rtVolumeMounts :: "volume_mount list"
  rtTimeout :: "timeout_mode option"
  rtServeAll :: bool
  rtDisableInit :: bool
  rtReadOnly :: bool
  rtAutoStop :: bool

definition emptyRuntime :: runtime where
  "emptyRuntime = \<lparr>rtEnvVars = [], rtTasks = [], rtCmd = [], rtEntrypoint = [],
     rtDevcontainers = None, rtServeServices = None, rtNetwork = None, rtCapabilities = None,
     rtVolumeMounts = [], rtTimeout = None, rtServeAll = False, rtDisableInit = False, rtReadOnly = False,
     rtAutoStop = False\<rparr>"

record ws_spec =
  spImage :: "image option"
  spRuntime :: "runtime option"
  spRepository :: "repository option"
  spAdditionalRepositories :: "additional_repository list"
  spApplications :: "application list"
  spLimit :: "limit option"
  spVars :: "spec_var list"
  spIsEphemeral :: bool

definition emptySpec :: ws_spec where
  "emptySpec = \<lparr>spImage = None, spRuntime = None, spRepository = None,
     spAdditionalRepositories = [], spApplications = [], spLimit = None, spVars = [],
     spIsEphemeral = False\<rparr>"

section \<open>The status of a Workspace\<close>

datatype ws_state =
    WS_UNKNOWN
  | INIT_REQUEST
  | INITIALIZING
  | PULLING_IMAGE
  | BUILDING_IMAGE
  | STARTING_RUNTIME
  | PREPARING
  | RUNNING
  | STOPPING_REQUEST
  | STOPPING
  | STOPPED

datatype stopping_reason =
    STOPPING_REASON_UNSET | STOPPING_REASON_API | STOPPING_REASON_ERROR | STOPPING_REASON_CLUSTER

datatype failure_type =
    FailHealthCheck
  | FailUnknown
  | FailVolume string
  | FailOther string

record failure =
  flMessage :: string
  flType :: failure_type

record run_config =
  rcVars :: "spec_var list"
  rcRegionRef :: "object_ref option"

record ws_run =
  runId :: string
  runInitializedAt :: "time option"
  runStoppedAt :: "time option"
  runFailure :: "failure option"
  runConfig :: "run_config option"

datatype share_mode = Share_UNSET | Share_MEMBERS | Share_ALL

record shared_port =
  spoMode :: share_mode
  spoApplicationName :: string

datatype space_type = Space_TYPE_UNKNOWN | Space_USER | Space_ORGANIZATION

text \<open>The oneof of \<open>metav1.Duration\<close>: only the seconds are read and written.\<close>

datatype duration = DurSeconds u32 | DurOther string

text \<open>\<open>GetSeconds()\<close> of the duration: 0 when another unit is set.\<close>

fun durGetSeconds :: "duration \<Rightarrow> u32" where
  "durGetSeconds (DurSeconds s) = s"
| "durGetSeconds (DurOther _) = 0"

record ws_status =
  stState :: ws_state
  stUserRef :: "object_ref option"
  stSessionRef :: "object_ref option"
  stRegionRef :: "object_ref option"
  stHostname :: string
  stLastInitializedAt :: "time option"
  stLastActivityAt :: "time option"
  stLastStoppedAt :: "time option"
  stSuccessfulRuns :: u32
  stIsBuild :: bool
  stTemplateRef :: "object_ref option"
  stSpaceRef :: "object_ref option"
  stTotalLastRunsDuration :: "duration option"
  stLastState :: ws_state
  stCurrentStateSetAt :: "time option"
  stLastStateSetAt :: "time option"
  stLastRunningAt :: "time option"
  stFailure :: "failure option"
  stLimit :: "limit option"
  stSharedPorts :: "shared_port list"
  stSpaceType :: space_type
  stStoppingReason :: stopping_reason
  stLastStoppingReason :: stopping_reason
  stRun :: "ws_run option"
  stLastRuns :: "ws_run list"
  stWorkspaceSnapshotRef :: "object_ref option"
  stLastRegionRef :: "object_ref option"

definition emptyStatus :: ws_status where
  "emptyStatus = \<lparr>stState = WS_UNKNOWN, stUserRef = None, stSessionRef = None,
     stRegionRef = None, stHostname = [], stLastInitializedAt = None, stLastActivityAt = None,
     stLastStoppedAt = None, stSuccessfulRuns = 0, stIsBuild = False, stTemplateRef = None,
     stSpaceRef = None, stTotalLastRunsDuration = None, stLastState = WS_UNKNOWN,
     stCurrentStateSetAt = None, stLastStateSetAt = None, stLastRunningAt = None,
     stFailure = None, stLimit = None, stSharedPorts = [], stSpaceType = Space_TYPE_UNKNOWN,
     stStoppingReason = STOPPING_REASON_UNSET, stLastStoppingReason = STOPPING_REASON_UNSET,
     stRun = None, stLastRuns = [], stWorkspaceSnapshotRef = None, stLastRegionRef = None\<rparr>"

record workspace =
  wsMetadata :: metadata
  wsSpec :: ws_spec
  wsStatus :: ws_status

section \<open>Spaces, Memberships and Templates\<close>

record space_limit =
  slDefaultLimit :: "limit option"
  slMaxLimit :: "limit option"

record space_runtime =
  srEnvVars :: "env_var list"
  srTasks :: "task list"
  srCapabilities :: "capabilities option"

record space_spec =
  ssLimit :: "space_limit option"
  ssRuntime :: "space_runtime option"

record space =
  spcMetadata :: metadata
  spcSpec :: space_spec
  spcUserRef :: "object_ref option"
  spcType :: space_type

datatype role = Role_UNKNOWN | Role_OWNER | Role_ADMIN | Role_USER

record user_info =
  uiDisplayName :: string
  uiPicURL :: string

record membership =
  memMetadata :: metadata
  memRole :: role
  memUserRef :: "object_ref option"
  memSpaceRef :: "object_ref option"
  memUserInfo :: "user_info option"
  memGitProviderStateMap :: "(string \<times> string) list"

datatype build_state = Build_UNKNOWN | Build_RUNNING | Build_READY | Build_FAILED

record build =
  bldId :: string
  bldTags :: "string list"
  bldStartedAt :: "time option"
  bldDoneAt :: "time option"
  bldIsCanceled :: bool
  bldFailure :: "failure option"
  bldState :: build_state

record build_info =
  biBuilds :: "build list"
  biCurrentReadyBuildID :: string
  biCurrentRunningBuildID :: string

definition emptyBuildInfo :: build_info where
  "emptyBuildInfo = \<lparr>biBuilds = [], biCurrentReadyBuildID = [], biCurrentRunningBuildID = []\<rparr>"

record template_spec =
  tsImage :: "image option"
  tsRuntime :: "runtime option"
  tsRepository :: "repository option"
  tsAdditionalRepositories :: "additional_repository list"
  tsLimit :: "limit option"
  tsGitProvider :: string
  tsVars :: "spec_var list"

definition emptyTemplateSpec :: template_spec where
  "emptyTemplateSpec = \<lparr>tsImage = None, tsRuntime = None, tsRepository = None,
     tsAdditionalRepositories = [], tsLimit = None, tsGitProvider = [], tsVars = []\<rparr>"

record template =
  tmMetadata :: metadata
  tmSpec :: template_spec
  tmSpaceRef :: "object_ref option"
  tmUserRef :: "object_ref option"
  tmGitProviderRef :: "object_ref option"
  tmBuildInfo :: "build_info option"

section \<open>Volumes and WorkspaceSnapshots\<close>

datatype access_mode =
    ACCESS_MODE_UNSET | ACCESS_MODE_EXCLUSIVE | ACCESS_MODE_SHARED | ACCESS_MODE_Other int

datatype volume_state = Vol_UNKNOWN | Vol_PENDING | Vol_READY | Vol_FAILED

datatype storage_failure = SfUnsupported | SfStorage | SfSourceNotFound | SfUnknown

record res_failure =
  rfMessage :: string
  rfType :: storage_failure

record volume =
  volMetadata :: metadata
  volSize :: "u32 option"
  volAccessMode :: access_mode
  volState :: volume_state
  volSpaceRef :: "object_ref option"
  volUserRef :: "object_ref option"
  volRegionRef :: "object_ref option"
  volCapacity :: "u32 option"
  volReadyAt :: "time option"
  volFailure :: "res_failure option"

datatype snapshot_state = Snap_UNKNOWN | Snap_CREATING | Snap_READY | Snap_FAILED

datatype consistency = CONSISTENCY_UNSET | CONSISTENCY_CRASH | CONSISTENCY_CLEAN

record snapshot =
  snMetadata :: metadata
  snState :: snapshot_state
  snWorkspaceRef :: "object_ref option"
  snUserRef :: "object_ref option"
  snSpaceRef :: "object_ref option"
  snTemplateRef :: "object_ref option"
  snRegionRef :: "object_ref option"
  snSnapshotAt :: "time option"
  snReadyAt :: "time option"
  snRestoreSizeBytes :: u64
  snConsistency :: consistency
  snFailure :: "res_failure option"

section \<open>Secrets, configurations and the resources of Octelium's core API\<close>

datatype secret_data = DataUnset | DataValue string | DataValueBytes string | DataAttrs string

record secret =
  secMetadata :: metadata
  secUserRef :: "object_ref option"
  secSpaceRef :: "object_ref option"
  secData :: "secret_data option"

datatype user_secret_type = UserSecret_DEFAULT | UserSecret_SSH_KEY

record user_secret =
  usMetadata :: metadata
  usType :: user_secret_type
  usUserRef :: "object_ref option"
  usSshPublicKey :: "string option"
  usData :: "secret_data option"

record git_app =
  gaClientID :: string
  gaClientSecret :: "password option"
  gaScopes :: "string list"

record git_oauth =
  gaAuthURL :: string
  gaTokenURL :: string
  gaApp :: git_app

datatype git_provider_type = GpUnset | GpGithub git_app | GpGitlab git_app | GpOauth2 git_oauth

record git_provider =
  gpMetadata :: metadata
  gpType :: git_provider_type
  gpUserRef :: "object_ref option"
  gpSpaceRef :: "object_ref option"

datatype user_env_type = UserEnvUnset | UserEnvValue string | UserEnvFromUserSecret string

record user_env_var =
  ueKey :: string
  ueType :: user_env_type

record dotfiles =
  dfUrl :: string
  dfBranch :: string
  dfAuthentication :: "repo_auth option"

record user_config =
  ucMetadata :: metadata
  ucUserRef :: "object_ref option"
  ucPreferredRegionRef :: "object_ref option"
  ucAgentWorkspaceRef :: "object_ref option"
  ucEnvVars :: "user_env_var list"
  ucTasks :: "task list"
  ucDotfiles :: "dotfiles option"

record ws_limits =
  wlMaxPerUser :: u32
  wlMaxActivePerUser :: u32
  wlBuildLimit :: "limit option"
  wlDefaultOrganizationSpaceLimit :: "limit option"
  wlDefaultUserSpaceLimit :: "limit option"
  wlMaxLimit :: "limit option"
  wlMaxSnapshotsPerUser :: u32

record volume_limits =
  vlMaxPerSpace :: u32
  vlMaxSize :: "u32 option"
  vlDefaultSize :: "u32 option"
  vlMaxMountsPerWorkspace :: u32

datatype rule_effect = Effect_UNKNOWN | Effect_ALLOW | Effect_DENY

text \<open>A condition is a CEL expression; its text is all the code passes on.\<close>

type_synonym condition = string

record ownership_rule =
  owEffect :: rule_effect
  owCondition :: condition

record storage_class_rule =
  scStorageClass :: string
  scCondition :: condition

record snapshot_class_rule =
  vcVolumeSnapshotClass :: string
  vcCondition :: condition

record ws_timeout =
  toDefault :: "duration option"
  toUserSpace :: "duration option"
  toOrganizationSpace :: "duration option"
  toAllowNoTimeout :: bool

text \<open>
  The configuration of the cluster. \<open>ccWorkspaceLimit\<close> is \<open>cc.Spec.Workspace.Limit\<close>, absent when
  either pointer is nil, and likewise the others.
\<close>

record cluster_config =
  ccWorkspaceLimit :: "ws_limits option"
  ccVolumeLimit :: "volume_limits option"
  ccVolumeStorageRules :: "storage_class_rule list"
  ccSpaceOwnership :: "ownership_rule list option"
  ccTimeout :: "ws_timeout option"
  ccWorkspaceStorageRules :: "storage_class_rule list"
  ccSnapshotClassRules :: "snapshot_class_rule list"
  ccRuntimeCapabilities :: "capabilities option"

record user =
  usrMetadata :: metadata
  usrEmail :: string

record session =
  sessMetadata :: metadata
  sessUserRef :: "object_ref option"

record region =
  rgnMetadata :: metadata

record user_ctx =
  ictxUser :: user
  ictxSessionUserRef :: object_ref

end
