(* ===== verification/Netip.thy ===== *)
theory Netip
  imports Go_Strings
begin

unbundle bit_operations_syntax

text \<open>
  What the network policies use of Go's \<open>net/netip\<close>: addresses, prefixes, \<open>ParsePrefix\<close>,
  \<open>Masked\<close>, \<open>Contains\<close> and \<open>String\<close>. Addresses have no zone here: \<open>ParsePrefix\<close> refuses
  a zone, so a prefix never has one.
\<close>

section \<open>Addresses and prefixes\<close>

datatype addr = V4 "32 word" | V6 "128 word"

text \<open>A prefix length above the width of the address stands for an invalid prefix.\<close>

datatype ip_prefix = Prefix (pAddr: addr) (pBits: nat)

fun addrWidth :: "addr \<Rightarrow> nat" where
  "addrWidth (V4 _) = 32"
| "addrWidth (V6 _) = 128"

fun Is4 :: "addr \<Rightarrow> bool" where
  "Is4 (V4 _) = True"
| "Is4 (V6 _) = False"

fun Is6 :: "addr \<Rightarrow> bool" where
  "Is6 (V4 _) = False"
| "Is6 (V6 _) = True"

text \<open>The IPv4-mapped addresses \<open>::ffff:0:0/96\<close>.\<close>

fun Is4In6 :: "addr \<Rightarrow> bool" where
  "Is4In6 (V4 _) = False"
| "Is4In6 (V6 a) = (drop_bit 32 a = 0xffff)"

definition prefixIsValid :: "ip_prefix \<Rightarrow> bool" where
  "prefixIsValid p \<longleftrightarrow> pBits p \<le> addrWidth (pAddr p)"

text \<open>\<open>Masked\<close>: the bits after the prefix are cleared.\<close>

fun maskAddr :: "addr \<Rightarrow> nat \<Rightarrow> addr" where
  "maskAddr (V4 a) n = V4 (a AND NOT (mask (32 - n)))"
| "maskAddr (V6 a) n = V6 (a AND NOT (mask (128 - n)))"

definition Masked :: "ip_prefix \<Rightarrow> ip_prefix" where
  "Masked p = Prefix (maskAddr (pAddr p) (pBits p)) (pBits p)"

text \<open>Whether a prefix contains an address of its family.\<close>

fun prefixContains :: "ip_prefix \<Rightarrow> addr \<Rightarrow> bool" where
  "prefixContains (Prefix (V4 p) n) (V4 a) = (drop_bit (32 - n) p = drop_bit (32 - n) a)"
| "prefixContains (Prefix (V6 p) n) (V6 a) = (drop_bit (128 - n) p = drop_bit (128 - n) a)"
| "prefixContains _ _ = False"

lemma Masked_sel [simp]:
  "pBits (Masked p) = pBits p" "pAddr (Masked p) = maskAddr (pAddr p) (pBits p)"
  by (simp_all add: Masked_def)

lemma addrWidth_maskAddr [simp]: "addrWidth (maskAddr a n) = addrWidth a"
  by (cases a) auto

lemma Is4_maskAddr [simp]: "Is4 (maskAddr a n) = Is4 a" "Is6 (maskAddr a n) = Is6 a"
  by (cases a; simp)+

lemma maskAddr_idem [simp]: "maskAddr (maskAddr a n) n = maskAddr a n"
  by (cases a) (simp_all add: and.assoc)

lemma Masked_idem [simp]: "Masked (Masked p) = Masked p"
  by (simp add: Masked_def)

lemma prefixIsValid_Masked [simp]: "prefixIsValid (Masked p) = prefixIsValid p"
  by (simp add: prefixIsValid_def)

lemma drop_bit_and_not_mask:
  "drop_bit k (a AND NOT (mask k)) = drop_bit k (a :: 'a::len word)"
  by (rule bit_word_eqI) (auto simp: bit_simps dest: bit_imp_le_length)

lemma prefixContains_Masked [simp]: "prefixContains (Masked p) a = prefixContains p a"
  by (cases p; cases "pAddr p"; cases a)
    (simp_all add: Masked_def drop_bit_and_not_mask del: drop_bit_and)

lemma prefixContains_family: "prefixContains p a \<Longrightarrow> Is4 (pAddr p) = Is4 a"
  by (cases p; cases "pAddr p"; cases a) auto

lemma Is4_Is6: "Is6 a \<longleftrightarrow> \<not> Is4 a"
  by (cases a) auto

lemma Is4In6_Is6: "Is4In6 a \<Longrightarrow> \<not> Is4 a"
  by (cases a) auto

section \<open>Parsing\<close>

definition isDigit :: "char \<Rightarrow> bool" where
  "isDigit c \<longleftrightarrow> (48 :: nat) \<le> of_char c \<and> of_char c \<le> (57 :: nat)"

definition digitVal :: "char \<Rightarrow> nat" where
  "digitVal c = of_char c - 48"

definition decVal :: "string \<Rightarrow> nat" where
  "decVal s = foldl (\<lambda>n c. 10 * n + digitVal c) 0 s"

text \<open>A field of an IPv4 address: digits, no leading zero, at most 255.\<close>

definition parseV4Field :: "string \<Rightarrow> nat option" where
  "parseV4Field f =
     (if f = [] \<or> \<not> list_all isDigit f then None
      else if length f > 1 \<and> hd f = CHR ''0'' then None
      else if decVal f > 255 then None
      else Some (decVal f))"

fun parseV4Fields :: "string list \<Rightarrow> nat list option" where
  "parseV4Fields [] = Some []"
| "parseV4Fields (f # fs) =
     (case parseV4Field f of None \<Rightarrow> None
      | Some n \<Rightarrow> map_option (\<lambda>ns. n # ns) (parseV4Fields fs))"

definition parseV4Bytes :: "string \<Rightarrow> nat list option" where
  "parseV4Bytes s =
     (let fs = splitOn CHR ''.'' s in if length fs = 4 then parseV4Fields fs else None)"

text \<open>The digits of a number to the given base, most significant first.\<close>

definition ofDigits :: "'a::len word \<Rightarrow> nat list \<Rightarrow> 'a word" where
  "ofDigits base ds = foldl (\<lambda>n d. base * n + of_nat d) 0 ds"

definition parseIPv4 :: "string \<Rightarrow> addr option" where
  "parseIPv4 s = map_option (\<lambda>bs. V4 (ofDigits 256 bs)) (parseV4Bytes s)"

fun hexVal :: "char \<Rightarrow> nat option" where
  "hexVal c =
     (let n = of_char c :: nat
      in if 48 \<le> n \<and> n \<le> 57 then Some (n - 48)
         else if 97 \<le> n \<and> n \<le> 102 then Some (n - 87)
         else if 65 \<le> n \<and> n \<le> 70 then Some (n - 55)
         else None)"

text \<open>
  The groups of an IPv6 address, as in \<open>parseIPv6\<close>: at most 8 groups of 16 bits, \<open>n\<close> of them
  still to come; \<open>acc\<close> holds the groups read so far and \<open>ell\<close> the position of the \<open>::\<close>.
  The last two groups may be written as an IPv4 address. The result is the groups and the
  position of the \<open>::\<close>.
\<close>

fun parseV6Groups :: "nat \<Rightarrow> string \<Rightarrow> nat list \<Rightarrow> nat option \<Rightarrow> (nat list \<times> nat option) option" where
  "parseV6Groups 0 s acc ell = (if s = [] then Some (acc, ell) else None)"
| "parseV6Groups (Suc n) s acc ell =
     (let h = takeWhile (\<lambda>c. hexVal c \<noteq> None) s;
          r = drop (length h) s
      in if h = [] \<or> length h > 4 then None
         else if r \<noteq> [] \<and> hd r = CHR ''.'' then
           (if ell = None \<and> length acc \<noteq> 6 then None
            else if length acc + 2 > 8 then None
            else (case parseV4Bytes s of
                    Some [a, b, c, d] \<Rightarrow> Some (acc @ [256 * a + b, 256 * c + d], ell)
                  | _ \<Rightarrow> None))
         else
           let acc' = acc @ [foldl (\<lambda>v c. 16 * v + the (hexVal c)) 0 h]
           in case r of
                [] \<Rightarrow> Some (acc', ell)
              | c # r1 \<Rightarrow>
                  if c \<noteq> CHR '':'' then None
                  else (case r1 of
                          [] \<Rightarrow> None
                        | c2 # r2 \<Rightarrow>
                            if c2 = CHR '':'' then
                              (if ell \<noteq> None then None
                               else if r2 = [] then Some (acc', Some (length acc'))
                               else parseV6Groups n r2 acc' (Some (length acc')))
                            else parseV6Groups n r1 acc' ell))"

definition expandEllipsis :: "nat list \<times> nat option \<Rightarrow> nat list option" where
  "expandEllipsis r =
     (case r of
        (gs, None) \<Rightarrow> if length gs = 8 then Some gs else None
      | (gs, Some e) \<Rightarrow>
          if length gs < 8 then Some (take e gs @ replicate (8 - length gs) 0 @ drop e gs)
          else None)"

definition parseV6List :: "string \<Rightarrow> nat list option" where
  "parseV6List s =
     (if hasPrefix s ''::'' then
        (if length s = 2 then Some (replicate 8 0)
         else Option.bind (parseV6Groups 8 (drop 2 s) [] (Some 0)) expandEllipsis)
      else Option.bind (parseV6Groups 8 s [] None) expandEllipsis)"

definition parseIPv6 :: "string \<Rightarrow> addr option" where
  "parseIPv6 s = map_option (\<lambda>gs. V6 (ofDigits 65536 gs)) (parseV6List s)"

text \<open>\<open>ParseAddr\<close>: the first of \<open>.\<close>, \<open>:\<close> and \<open>%\<close> decides the family; a zone is refused.\<close>

definition parseAddr :: "string \<Rightarrow> addr option" where
  "parseAddr s =
     (case find (\<lambda>c. c = CHR ''.'' \<or> c = CHR '':'' \<or> c = CHR ''%'') s of
        None \<Rightarrow> None
      | Some c \<Rightarrow>
          if c = CHR ''.'' then parseIPv4 s
          else if c = CHR '':'' \<and> CHR ''%'' \<notin> set s then parseIPv6 s
          else None)"

definition parsePrefixBits :: "string \<Rightarrow> nat \<Rightarrow> nat option" where
  "parsePrefixBits s w =
     (if s = [] \<or> \<not> list_all isDigit s then None
      else if length s > 1 \<and> hd s = CHR ''0'' then None
      else if decVal s > w then None
      else Some (decVal s))"

text \<open>\<open>netip.ParsePrefix\<close>: split at the last slash.\<close>

definition ParsePrefix :: "string \<Rightarrow> ip_prefix option" where
  "ParsePrefix s =
     (let fs = splitOn CHR ''/'' s
      in if length fs < 2 then None
         else
           (case parseAddr (joinWith ''/'' (butlast fs)) of
              None \<Rightarrow> None
            | Some a \<Rightarrow> map_option (Prefix a) (parsePrefixBits (last fs) (addrWidth a))))"

lemma ParsePrefix_valid: "ParsePrefix s = Some p \<Longrightarrow> prefixIsValid p"
  by (auto simp: ParsePrefix_def prefixIsValid_def parsePrefixBits_def Let_def
      split: if_splits option.splits)

section \<open>Printing\<close>

text \<open>The \<open>i\<close>-th digit of \<open>k\<close> bits, counted from the least significant one.\<close>

definition digitAt :: "nat \<Rightarrow> nat \<Rightarrow> 'a::len word \<Rightarrow> nat" where
  "digitAt k i a = unat (take_bit k (drop_bit (k * i) a))"

definition v4String :: "'a::len word \<Rightarrow> string" where
  "v4String a = joinWith ''.'' (map (\<lambda>i. showNat (digitAt 8 i a)) [3, 2, 1, 0])"

definition hexDigit :: "nat \<Rightarrow> char" where
  "hexDigit n = char_of (if n < 10 then 48 + n else 87 + n)"

fun showHex :: "nat \<Rightarrow> string" where
  "showHex n = (if n < 16 then [hexDigit n] else showHex (n div 16) @ [hexDigit (n mod 16)])"

declare showHex.simps [simp del]

definition v6Groups :: "128 word \<Rightarrow> nat list" where
  "v6Groups a = map (\<lambda>i. digitAt 16 i a) [7, 6, 5, 4, 3, 2, 1, 0]"

definition zeroRun :: "nat list \<Rightarrow> nat \<Rightarrow> nat" where
  "zeroRun gs i = length (takeWhile (\<lambda>g. g = 0) (drop i gs))"

text \<open>The first of the longest runs of two zero groups or more: its start and its end.\<close>

definition longestZeroRun :: "nat list \<Rightarrow> (nat \<times> nat) option" where
  "longestZeroRun gs =
     (let best = foldl (\<lambda>b i. if zeroRun gs i > zeroRun gs b then i else b) 0 [0..<8]
      in if zeroRun gs best \<ge> 2 then Some (best, best + zeroRun gs best) else None)"

definition v6String :: "128 word \<Rightarrow> string" where
  "v6String a =
     (let gs = v6Groups a; hex = map showHex gs
      in case longestZeroRun gs of
           None \<Rightarrow> joinWith '':'' hex
         | Some (i, j) \<Rightarrow> joinWith '':'' (take i hex) @ ''::'' @ joinWith '':'' (drop j hex))"

fun addrString :: "addr \<Rightarrow> string" where
  "addrString (V4 a) = v4String a"
| "addrString (V6 a) =
     (if Is4In6 (V6 a) then ''::ffff:'' @ v4String a else v6String a)"

definition prefixString :: "ip_prefix \<Rightarrow> string" where
  "prefixString p =
     (if prefixIsValid p then addrString (pAddr p) @ ''/'' @ showNat (pBits p) else ''invalid Prefix'')"

end
