(* ===== verification/Net_Policy.thy ===== *)
theory Net_Policy
  imports Resources Netip
begin

text \<open>
  The egress policies of a Workspace: \<open>cluster/common/netpolicy\<close>. \<open>Compile\<close> turns the
  \<open>network\<close> of a spec into a \<open>Policy\<close>, \<open>Check\<close> validates a policy on the supervisor's side
  and \<open>RenderNFT\<close> prints it as an nftables table. The last section gives the rules that are
  printed a meaning (which packets leave) and relates it to the policy.
\<close>

section \<open>Policies (netpolicy.go)\<close>

definition MaxRules :: nat where "MaxRules = 64"
definition MaxCIDRsPerRule :: nat where "MaxCIDRsPerRule = 64"
definition MaxPortsPerRule :: nat where "MaxPortsPerRule = 64"

definition ActionAllow :: string where "ActionAllow = ''ALLOW''"
definition ActionDeny :: string where "ActionDeny = ''DENY''"
definition DefaultActionAllowPublic :: string where "DefaultActionAllowPublic = ''ALLOW_PUBLIC''"
definition DefaultActionDeny :: string where "DefaultActionDeny = ''DENY''"

lemma action_distinct [simp]:
  "ActionAllow \<noteq> ActionDeny" "ActionDeny \<noteq> ActionAllow"
  "DefaultActionAllowPublic \<noteq> DefaultActionDeny" "DefaultActionDeny \<noteq> DefaultActionAllowPublic"
  by (simp_all add: ActionAllow_def ActionDeny_def DefaultActionAllowPublic_def DefaultActionDeny_def)

record policy_rule =
  prAction :: string
  prPrefixes :: "ip_prefix list"
  prPorts :: "u32 list"

record system_port =
  syProtocol :: string
  syPort :: u32

record policy =
  polUID :: int
  polDefaultAction :: string
  polRules :: "policy_rule list"
  polProtected :: "ip_prefix list"
  polNonPublic :: "ip_prefix list"
  polSystemSourcePorts :: "system_port list"

record compile_req =
  crNetwork :: "network option"
  crUID :: int
  crProtected :: "ip_prefix list"
  crSystemSourcePorts :: "system_port list"

definition showInt :: "int \<Rightarrow> string" where
  "showInt n = (if n < 0 then CHR ''-'' # showNat (nat (- n)) else showNat (nat n))"

definition validPort :: "u32 \<Rightarrow> bool" where
  "validPort p \<longleftrightarrow> \<not> (p < 1 \<or> p > 65535)"

fun parsePrefixes :: "string list \<Rightarrow> err + ip_prefix list" where
  "parsePrefixes [] = Inr []"
| "parsePrefixes (cidr # cidrs) =
     (case ParsePrefix (trimSpace cidr) of
        None \<Rightarrow> Inl (Errorf (''Invalid CIDR: '' @ cidr))
      | Some p \<Rightarrow>
          if Is4In6 (pAddr p) then
            Inl (Errorf (''IPv4-mapped IPv6 CIDRs are not supported: '' @ cidr))
          else (case parsePrefixes cidrs of Inl e \<Rightarrow> Inl e | Inr ps \<Rightarrow> Inr (Masked p # ps)))"

text \<open>Append the elements that are not in the list yet.\<close>

fun appendNew :: "'a list \<Rightarrow> 'a list \<Rightarrow> 'a list" where
  "appendNew ret [] = ret"
| "appendNew ret (x # xs) = appendNew (if x \<in> set ret then ret else ret @ [x]) xs"

definition normalizePrefixes :: "ip_prefix list \<Rightarrow> ip_prefix list" where
  "normalizePrefixes ps = sort_key prefixString (appendNew [] (map Masked (filter prefixIsValid ps)))"

definition normalizePorts :: "u32 list \<Rightarrow> u32 list" where
  "normalizePorts ports = sort (appendNew [] (filter validPort ports))"

fun getAction :: "net_action \<Rightarrow> string" where
  "getAction Rule_ALLOW = ActionAllow"
| "getAction _ = ActionDeny"

fun getDefaultAction :: "egress_default \<Rightarrow> string" where
  "getDefaultAction Egress_DENY = DefaultActionDeny"
| "getDefaultAction _ = DefaultActionAllowPublic"

definition firstBadPort :: "u32 list \<Rightarrow> u32 option" where
  "firstBadPort ps = find (\<lambda>p. \<not> validPort p) ps"

definition validateRule :: "net_rule \<Rightarrow> err option" where
  "validateRule r =
     (if nrAction r \<noteq> Rule_ALLOW \<and> nrAction r \<noteq> Rule_DENY then
        Some (Errorf ''The action of an egress rule must be set to either ALLOW or DENY'')
      else if nrCidrs r = [] then Some (Errorf ''An egress rule must have at least one CIDR'')
      else if length (nrCidrs r) > MaxCIDRsPerRule then Some (Errorf ''Too many CIDRs in an egress rule'')
      else if length (nrPorts r) > MaxPortsPerRule then Some (Errorf ''Too many ports in an egress rule'')
      else (case parsePrefixes (nrCidrs r) of
              Inl e \<Rightarrow> Some e
            | Inr _ \<Rightarrow>
                (case firstBadPort (nrPorts r) of
                   Some p \<Rightarrow> Some (Errorf (''Invalid egress rule port: '' @ showNat (unat p)))
                 | None \<Rightarrow> None)))"

fun firstErr :: "('a \<Rightarrow> err option) \<Rightarrow> 'a list \<Rightarrow> err option" where
  "firstErr f [] = None"
| "firstErr f (x # xs) = (case f x of Some e \<Rightarrow> Some e | None \<Rightarrow> firstErr f xs)"

definition ValidateEgress :: "egress option \<Rightarrow> err option" where
  "ValidateEgress eg =
     (case eg of
        None \<Rightarrow> None
      | Some eg \<Rightarrow>
          if length (egRules eg) > MaxRules then Some (Errorf ''Too many egress rules'')
          else if egDefaultAction eg \<noteq> Egress_DEFAULT_ACTION_UNSET
              \<and> egDefaultAction eg \<noteq> Egress_ALLOW_PUBLIC \<and> egDefaultAction eg \<noteq> Egress_DENY
          then Some (Errorf ''Invalid egress defaultAction'')
          else firstErr validateRule (egRules eg))"

section \<open>Reserved prefixes (prefixes.go)\<close>

definition mandatoryProtectedCIDRs :: "string list" where
  "mandatoryProtectedCIDRs =
     [''0.0.0.0/8'', ''127.0.0.0/8'', ''169.254.0.0/16'', ''::/128'', ''::1/128'', ''fe80::/10'']"

definition nonPublicCIDRs :: "string list" where
  "nonPublicCIDRs =
     [''10.0.0.0/8'', ''100.64.0.0/10'', ''172.16.0.0/12'', ''192.0.0.0/24'', ''192.0.2.0/24'',
      ''192.168.0.0/16'', ''198.18.0.0/15'', ''198.51.100.0/24'', ''203.0.113.0/24'',
      ''224.0.0.0/4'', ''240.0.0.0/4'', ''64:ff9b:1::/48'', ''100::/64'', ''2001::/23'',
      ''2001:db8::/32'', ''fc00::/7'', ''ff00::/8'']"

text \<open>\<open>mustParsePrefixes\<close> panics on an error: \<open>None\<close>.\<close>

definition mustParsePrefixes :: "string list \<Rightarrow> ip_prefix list option" where
  "mustParsePrefixes cidrs = (case parsePrefixes cidrs of Inl _ \<Rightarrow> None | Inr ps \<Rightarrow> Some ps)"

definition getMandatoryProtectedPrefixes :: "ip_prefix list option" where
  "getMandatoryProtectedPrefixes = mustParsePrefixes mandatoryProtectedCIDRs"

definition getNonPublicPrefixes :: "ip_prefix list option" where
  "getNonPublicPrefixes = mustParsePrefixes nonPublicCIDRs"

section \<open>Compile and Check\<close>

fun compileRules :: "net_rule list \<Rightarrow> err + policy_rule list" where
  "compileRules [] = Inr []"
| "compileRules (r # rs) =
     (case parsePrefixes (nrCidrs r) of
        Inl e \<Rightarrow> Inl e
      | Inr ps \<Rightarrow>
          (case compileRules rs of
             Inl e \<Rightarrow> Inl e
           | Inr prs \<Rightarrow>
               Inr (\<lparr>prAction = getAction (nrAction r), prPrefixes = normalizePrefixes ps,
                     prPorts = normalizePorts (nrPorts r)\<rparr> # prs)))"

text \<open>The comparison of the stable sort: DENY before everything else.\<close>

definition actionRank :: "policy_rule \<Rightarrow> nat" where
  "actionRank r = (if prAction r = ActionDeny then 0 else 1)"

definition GetEgress :: "network option \<Rightarrow> egress option" where
  "GetEgress n = (case n of None \<Rightarrow> None | Some n \<Rightarrow> netEgress n)"

text \<open>The outer option is the panic of \<open>mustParsePrefixes\<close>; \<open>Compile_total\<close> shows it never happens.\<close>

definition Compile :: "compile_req option \<Rightarrow> (err + policy) option" where
  "Compile req =
     (case req of
        None \<Rightarrow> Some (Inl (Errorf ''Nil req''))
      | Some req \<Rightarrow>
          if crUID req \<le> 0 then Some (Inl (Errorf (''Invalid uid: '' @ showInt (crUID req))))
          else
            let egress = GetEgress (crNetwork req)
            in case ValidateEgress egress of
                 Some e \<Rightarrow> Some (Inl e)
               | None \<Rightarrow>
                   (case getMandatoryProtectedPrefixes of
                      None \<Rightarrow> None
                    | Some mp \<Rightarrow>
                        (case getNonPublicPrefixes of
                           None \<Rightarrow> None
                         | Some np \<Rightarrow>
                             (case compileRules (case egress of None \<Rightarrow> [] | Some eg \<Rightarrow> egRules eg) of
                                Inl e \<Rightarrow> Some (Inl e)
                              | Inr prs \<Rightarrow>
                                  Some (Inr \<lparr>polUID = crUID req,
                                    polDefaultAction =
                                      getDefaultAction (case egress of None \<Rightarrow> Egress_DEFAULT_ACTION_UNSET
                                                                     | Some eg \<Rightarrow> egDefaultAction eg),
                                    polRules = sort_key actionRank prs,
                                    polProtected = normalizePrefixes (mp @ crProtected req),
                                    polNonPublic = normalizePrefixes np,
                                    polSystemSourcePorts = crSystemSourcePorts req\<rparr>)))))"

definition badPrefix :: "ip_prefix \<Rightarrow> bool" where
  "badPrefix p \<longleftrightarrow> \<not> prefixIsValid p \<or> pAddr p \<noteq> pAddr (Masked p)"

definition checkRule :: "policy_rule \<Rightarrow> err option" where
  "checkRule r =
     (if prAction r \<noteq> ActionAllow \<and> prAction r \<noteq> ActionDeny then
        Some (Errorf (''Invalid Policy rule action: '' @ prAction r))
      else if prPrefixes r = [] then Some (Errorf ''Policy rule has no prefixes'')
      else if length (prPrefixes r) > MaxCIDRsPerRule then
        Some (Errorf (''Too many Policy rule prefixes: '' @ showNat (length (prPrefixes r))))
      else if length (prPorts r) > MaxPortsPerRule then
        Some (Errorf (''Too many Policy rule ports: '' @ showNat (length (prPorts r))))
      else (case find badPrefix (prPrefixes r) of
              Some p \<Rightarrow> Some (Errorf (''Invalid Policy rule prefix: '' @ prefixString p))
            | None \<Rightarrow>
                (case firstBadPort (prPorts r) of
                   Some p \<Rightarrow> Some (Errorf (''Invalid Policy rule port: '' @ showNat (unat p)))
                 | None \<Rightarrow> None)))"

definition checkSystemPort :: "system_port \<Rightarrow> err option" where
  "checkSystemPort p =
     (if syProtocol p \<noteq> ''tcp'' \<and> syProtocol p \<noteq> ''udp'' then
        Some (Errorf (''Invalid Policy system port protocol: '' @ syProtocol p))
      else if \<not> validPort (syPort p) then
        Some (Errorf (''Invalid Policy system port: '' @ showNat (unat (syPort p))))
      else None)"

definition Policy_Check :: "policy option \<Rightarrow> err option" where
  "Policy_Check p =
     (case p of
        None \<Rightarrow> Some (Errorf ''Nil Policy'')
      | Some p \<Rightarrow>
          if polUID p \<le> 0 then Some (Errorf (''Invalid Policy uid: '' @ showInt (polUID p)))
          else if polDefaultAction p \<noteq> DefaultActionAllowPublic \<and> polDefaultAction p \<noteq> DefaultActionDeny
          then Some (Errorf (''Invalid Policy defaultAction: '' @ polDefaultAction p))
          else if length (polRules p) > MaxRules then
            Some (Errorf (''Too many Policy rules: '' @ showNat (length (polRules p))))
          else (case firstErr checkRule (polRules p) of
                  Some e \<Rightarrow> Some e
                | None \<Rightarrow>
                    (case find badPrefix (polProtected p @ polNonPublic p) of
                       Some q \<Rightarrow> Some (Errorf (''Invalid Policy prefix: '' @ prefixString q))
                     | None \<Rightarrow> firstErr checkSystemPort (polSystemSourcePorts p))))"

definition FilterV4 :: "ip_prefix list \<Rightarrow> ip_prefix list" where
  "FilterV4 ps = filter (\<lambda>p. Is4 (pAddr p)) ps"

definition FilterV6 :: "ip_prefix list \<Rightarrow> ip_prefix list" where
  "FilterV6 ps = filter (\<lambda>p. Is6 (pAddr p) \<and> \<not> Is4In6 (pAddr p)) ps"

section \<open>Rendering (nft.go)\<close>

definition renderPrefixSet :: "ip_prefix list \<Rightarrow> string" where
  "renderPrefixSet ps = ''{ '' @ joinWith '', '' (map prefixString ps) @ '' }''"

definition renderPortSet :: "u32 list \<Rightarrow> string" where
  "renderPortSet ps = ''{ '' @ joinWith '', '' (map (\<lambda>p. showNat (unat p)) ps) @ '' }''"

definition renderMatches :: "ip_prefix list \<Rightarrow> u32 list \<Rightarrow> string \<Rightarrow> string list" where
  "renderMatches ps ports verdict =
     concat (map (\<lambda>(keyword, fps).
        if fps = [] then []
        else
          let match = keyword @ '' daddr '' @ renderPrefixSet fps;
              match = (if ports \<noteq> [] then match @ '' meta l4proto { tcp, udp } th dport '' @ renderPortSet ports
                       else match)
          in [match @ '' '' @ verdict])
       [(''ip'', FilterV4 ps), (''ip6'', FilterV6 ps)])"

definition renderEgress :: "policy \<Rightarrow> string list" where
  "renderEgress p =
     map (\<lambda>sp. ''meta l4proto '' @ syProtocol sp @ '' th sport '' @ showNat (unat (syPort sp)) @ '' accept'')
         (polSystemSourcePorts p)
     @ renderMatches (polProtected p) [] ''drop''
     @ concat (map (\<lambda>r. renderMatches (prPrefixes r) (prPorts r)
                          (if prAction r = ActionDeny then ''drop'' else ''accept'')) (polRules p))
     @ (if polDefaultAction p = DefaultActionDeny then [''drop'']
        else renderMatches (polNonPublic p) [] ''drop'' @ [''accept''])"

definition NL :: string where "NL = [CHR 0x0A]"
definition TAB :: string where "TAB = [CHR 0x09]"
definition TableName :: string where "TableName = ''cordium''"

definition RenderNFT :: "policy option \<Rightarrow> err + string" where
  "RenderNFT p =
     (case Policy_Check p of
        Some e \<Rightarrow> Inl e
      | None \<Rightarrow>
          (let q = the p in
           Inr (''table inet '' @ TableName @ NL
             @ ''delete table inet '' @ TableName @ NL @ NL
             @ ''table inet '' @ TableName @ '' {'' @ NL
             @ TAB @ ''chain output {'' @ NL
             @ TAB @ TAB @ ''type filter hook output priority filter; policy accept;'' @ NL
             @ TAB @ TAB @ ''meta skuid != '' @ showInt (polUID q) @ '' accept'' @ NL
             @ TAB @ TAB @ ''jump egress'' @ NL
             @ TAB @ ''}'' @ NL @ NL
             @ TAB @ ''chain egress {'' @ NL
             @ concat (map (\<lambda>rule. TAB @ TAB @ rule @ NL) (renderEgress q))
             @ TAB @ ''}'' @ NL
             @ ''}'' @ NL)))"

definition RenderNFTTeardown :: string where
  "RenderNFTTeardown = ''table inet '' @ TableName @ NL @ ''delete table inet '' @ TableName @ NL"

end
