(* ===== verification/Nft_Semantics.thy ===== *)
theory Nft_Semantics
  imports Net_Policy "HOL-Library.Code_Target_Nat"
begin

text \<open>
  What the compiled egress policies mean. The first sections give the contracts of the
  operations of \<open>netpolicy.go\<close> (\<open>Compile\<close> never panics and its result passes \<open>Check\<close>; the two
  normalisations). The last ones give the rules that \<open>nft.go\<close> prints a semantics, first match
  on the \<open>egress\<close> chain, and show that it is the one that the Workspace's spec asks for.
\<close>

section \<open>Parsing\<close>

definition okCIDR :: "string \<Rightarrow> bool" where
  "okCIDR c = (case ParsePrefix (trimSpace c) of None \<Rightarrow> False | Some p \<Rightarrow> \<not> Is4In6 (pAddr p))"

definition cidrPrefix :: "string \<Rightarrow> ip_prefix" where
  "cidrPrefix c = the (ParsePrefix (trimSpace c))"

lemma okCIDR_Some: "okCIDR c \<Longrightarrow> ParsePrefix (trimSpace c) = Some (cidrPrefix c)"
  by (simp add: okCIDR_def cidrPrefix_def split: option.splits)

lemma okCIDR_not_mapped: "okCIDR c \<Longrightarrow> \<not> Is4In6 (pAddr (cidrPrefix c))"
  by (simp add: okCIDR_def cidrPrefix_def split: option.splits)

lemma parsePrefixes_ok:
  "list_all okCIDR cs \<Longrightarrow> parsePrefixes cs = Inr (map (\<lambda>c. Masked (cidrPrefix c)) cs)"
  by (induction cs) (simp_all add: okCIDR_Some okCIDR_not_mapped)

lemma parsePrefixes_InrD:
  "parsePrefixes cs = Inr ps \<Longrightarrow> list_all okCIDR cs"
proof (induction cs arbitrary: ps)
  case (Cons c cs)
  then show ?case
    by (auto simp: okCIDR_def split: option.splits if_splits sum.splits)
qed simp

lemma parsePrefixes_Inr_iff:
  "parsePrefixes cs = Inr ps \<longleftrightarrow> list_all okCIDR cs \<and> ps = map (\<lambda>c. Masked (cidrPrefix c)) cs"
  using parsePrefixes_ok parsePrefixes_InrD by fastforce

lemma okCIDR_valid: "okCIDR c \<Longrightarrow> prefixIsValid (cidrPrefix c)"
  by (auto simp: okCIDR_def cidrPrefix_def split: option.splits intro: ParsePrefix_valid)

text \<open>
  The reserved CIDRs of \<open>prefixes.go\<close> all parse. For the IPv6 ones the groups are computed on
  strings, and only then read as a word.
\<close>

definition literal6 :: "string \<Rightarrow> nat list \<Rightarrow> nat \<Rightarrow> bool" where
  "literal6 c gs n \<longleftrightarrow>
     (let fs = splitOn CHR ''/'' c; s = joinWith ''/'' (butlast fs)
      in trimSpace c = c \<and> length fs \<ge> 2
         \<and> find (\<lambda>c. c = CHR ''.'' \<or> c = CHR '':'' \<or> c = CHR ''%'') s = Some CHR '':''
         \<and> CHR ''%'' \<notin> set s \<and> parseV6List s = Some gs \<and> parsePrefixBits (last fs) 128 = Some n)"

lemma literal6_ok:
  "literal6 c gs n \<Longrightarrow> \<not> Is4In6 (V6 (ofDigits 65536 gs)) \<Longrightarrow> okCIDR c"
  by (simp add: literal6_def Let_def okCIDR_def ParsePrefix_def parseAddr_def parseIPv6_def)

lemma literal6_1: "okCIDR ''::/128''"
  by (rule literal6_ok[of _ "[0,0,0,0,0,0,0,0]" 128], code_simp, simp add: ofDigits_def)

lemma literal6_2: "okCIDR ''::1/128''"
  by (rule literal6_ok[of _ "[0,0,0,0,0,0,0,1]" 128], code_simp, simp add: ofDigits_def)

lemma literal6_3: "okCIDR ''fe80::/10''"
  by (rule literal6_ok[of _ "[0xfe80,0,0,0,0,0,0,0]" 10], code_simp, simp add: ofDigits_def)

lemma literal6_4: "okCIDR ''64:ff9b:1::/48''"
  by (rule literal6_ok[of _ "[0x64,0xff9b,1,0,0,0,0,0]" 48], code_simp, simp add: ofDigits_def)

lemma literal6_5: "okCIDR ''100::/64''"
  by (rule literal6_ok[of _ "[0x100,0,0,0,0,0,0,0]" 64], code_simp, simp add: ofDigits_def)

lemma literal6_6: "okCIDR ''2001::/23''"
  by (rule literal6_ok[of _ "[0x2001,0,0,0,0,0,0,0]" 23], code_simp, simp add: ofDigits_def)

lemma literal6_7: "okCIDR ''2001:db8::/32''"
  by (rule literal6_ok[of _ "[0x2001,0xdb8,0,0,0,0,0,0]" 32], code_simp, simp add: ofDigits_def)

lemma literal6_8: "okCIDR ''fc00::/7''"
  by (rule literal6_ok[of _ "[0xfc00,0,0,0,0,0,0,0]" 7], code_simp, simp add: ofDigits_def)

lemma literal6_9: "okCIDR ''ff00::/8''"
  by (rule literal6_ok[of _ "[0xff00,0,0,0,0,0,0,0]" 8], code_simp, simp add: ofDigits_def)

lemmas literal6_oks =
  literal6_1 literal6_2 literal6_3 literal6_4 literal6_5 literal6_6 literal6_7 literal6_8 literal6_9

lemma literal4_oks:
  "okCIDR ''0.0.0.0/8''"
  "okCIDR ''127.0.0.0/8''"
  "okCIDR ''169.254.0.0/16''"
  "okCIDR ''10.0.0.0/8''"
  "okCIDR ''100.64.0.0/10''"
  "okCIDR ''172.16.0.0/12''"
  "okCIDR ''192.0.0.0/24''"
  "okCIDR ''192.0.2.0/24''"
  "okCIDR ''192.168.0.0/16''"
  "okCIDR ''198.18.0.0/15''"
  "okCIDR ''198.51.100.0/24''"
  "okCIDR ''203.0.113.0/24''"
  "okCIDR ''224.0.0.0/4''"
  "okCIDR ''240.0.0.0/4''"
  by code_simp+

lemma mandatory_ok: "list_all okCIDR mandatoryProtectedCIDRs"
  by (simp only: mandatoryProtectedCIDRs_def list.pred_inject literal4_oks literal6_oks simp_thms)

lemma nonPublic_ok: "list_all okCIDR nonPublicCIDRs"
  by (simp only: nonPublicCIDRs_def list.pred_inject literal4_oks literal6_oks simp_thms)

lemma reserved_prefixes:
  "getMandatoryProtectedPrefixes = Some (map (\<lambda>c. Masked (cidrPrefix c)) mandatoryProtectedCIDRs)"
  "getNonPublicPrefixes = Some (map (\<lambda>c. Masked (cidrPrefix c)) nonPublicCIDRs)"
  by (simp_all only: getMandatoryProtectedPrefixes_def getNonPublicPrefixes_def mustParsePrefixes_def
      parsePrefixes_ok[OF mandatory_ok] parsePrefixes_ok[OF nonPublic_ok] sum.case)

lemma Compile_eq:
  "Compile (Some req) =
     (if crUID req \<le> 0 then Some (Inl (Errorf (''Invalid uid: '' @ showInt (crUID req))))
      else case ValidateEgress (GetEgress (crNetwork req)) of
             Some e \<Rightarrow> Some (Inl e)
           | None \<Rightarrow>
             (case compileRules (case GetEgress (crNetwork req) of None \<Rightarrow> [] | Some eg \<Rightarrow> egRules eg) of
                Inl e \<Rightarrow> Some (Inl e)
              | Inr prs \<Rightarrow>
                  Some (Inr \<lparr>polUID = crUID req,
                    polDefaultAction =
                      getDefaultAction (case GetEgress (crNetwork req) of
                          None \<Rightarrow> Egress_DEFAULT_ACTION_UNSET | Some eg \<Rightarrow> egDefaultAction eg),
                    polRules = sort_key actionRank prs,
                    polProtected = normalizePrefixes
                       (map (\<lambda>c. Masked (cidrPrefix c)) mandatoryProtectedCIDRs @ crProtected req),
                    polNonPublic = normalizePrefixes (map (\<lambda>c. Masked (cidrPrefix c)) nonPublicCIDRs),
                    polSystemSourcePorts = crSystemSourcePorts req\<rparr>)))"
  by (simp add: Compile_def reserved_prefixes Let_def split: option.splits)

section \<open>The normalisations\<close>

text \<open>
  \<open>normalizePrefixes\<close> and \<open>normalizePorts\<close> share a contract: they keep the canonical forms of
  the acceptable elements, each once. Where the order of the result is a total order on its
  elements, the result depends only on the set of the elements.
\<close>

locale normaliser =
  fixes norm :: "'a list \<Rightarrow> 'a list" and ok :: "'a \<Rightarrow> bool" and canon :: "'a \<Rightarrow> 'a"
  assumes set_norm: "set (norm xs) = canon ` {x \<in> set xs. ok x}"
    and distinct_norm: "distinct (norm xs)"
    and ok_canon: "ok x \<Longrightarrow> ok (canon x)"
    and canon_canon: "canon (canon x) = canon x"
begin

lemma norm_ok: "x \<in> set (norm xs) \<Longrightarrow> ok x \<and> canon x = x"
  by (auto simp: set_norm ok_canon canon_canon)

lemma norm_length: "length (norm xs) \<le> length xs"
proof -
  have "card (set (norm xs)) \<le> card (set xs)"
    unfolding set_norm by (rule order_trans[OF card_image_le]) (auto intro: card_mono)
  then show ?thesis
    using card_length[of xs] distinct_card[OF distinct_norm[of xs]] by linarith
qed

lemma norm_empty: "norm xs = [] \<longleftrightarrow> (\<forall>x \<in> set xs. \<not> ok x)"
  using set_norm[of xs] by (metis (mono_tags, lifting) empty_Collect_eq image_is_empty set_empty)

lemma norm_norm_set: "set (norm (norm xs)) = set (norm xs)"
proof -
  have "{x \<in> set (norm xs). ok x} = set (norm xs)"
    using norm_ok by auto
  then show ?thesis
    using norm_ok by (force simp: set_norm[of "norm xs"])
qed

end

locale sorted_normaliser = normaliser norm ok canon
  for norm :: "'a::linorder list \<Rightarrow> 'a list" and ok canon +
  assumes sorted_norm: "sorted (norm xs)"
begin

lemma norm_cong: "set (norm xs) = set (norm ys) \<Longrightarrow> norm xs = norm ys"
  by (rule sorted_distinct_set_unique) (auto simp: sorted_norm distinct_norm)

lemma norm_norm: "norm (norm xs) = norm xs"
  by (rule norm_cong) (rule norm_norm_set)

lemma norm_set: "set xs = set ys \<Longrightarrow> norm xs = norm ys"
  by (rule norm_cong) (simp add: set_norm)

end

lemma set_appendNew: "set (appendNew ret xs) = set ret \<union> set xs"
  by (induction ret xs rule: appendNew.induct) auto

lemma distinct_appendNew: "distinct ret \<Longrightarrow> distinct (appendNew ret xs)"
  by (induction ret xs rule: appendNew.induct) auto

interpretation prefix_norm: normaliser normalizePrefixes prefixIsValid Masked
  by unfold_locales (auto simp: normalizePrefixes_def set_appendNew distinct_appendNew)

interpretation port_norm: sorted_normaliser normalizePorts validPort "\<lambda>p. p"
  by unfold_locales (auto simp: normalizePorts_def set_appendNew distinct_appendNew)

lemma normalizePrefixes_sorted: "sorted (map prefixString (normalizePrefixes ps))"
  by (simp add: normalizePrefixes_def)

section \<open>Compile\<close>

lemma Compile_None_or: "Compile None = Some (Inl (Errorf ''Nil req''))"
  by (simp add: Compile_def)

text \<open>A rule and the policy rule it is compiled to.\<close>

definition compiledRule :: "net_rule \<Rightarrow> policy_rule" where
  "compiledRule r = \<lparr>prAction = getAction (nrAction r),
     prPrefixes = normalizePrefixes (map (\<lambda>c. Masked (cidrPrefix c)) (nrCidrs r)),
     prPorts = normalizePorts (nrPorts r)\<rparr>"

lemma compiledRule_sel: "prAction (compiledRule r) = getAction (nrAction r)"
  by (simp add: compiledRule_def)

definition okRule :: "net_rule \<Rightarrow> bool" where
  "okRule r \<longleftrightarrow> (nrAction r = Rule_ALLOW \<or> nrAction r = Rule_DENY) \<and> nrCidrs r \<noteq> []
     \<and> length (nrCidrs r) \<le> MaxCIDRsPerRule \<and> length (nrPorts r) \<le> MaxPortsPerRule
     \<and> list_all okCIDR (nrCidrs r) \<and> list_all validPort (nrPorts r)"

lemma firstErr_None: "firstErr f xs = None \<longleftrightarrow> (\<forall>x \<in> set xs. f x = None)"
  by (induction xs) (auto split: option.splits)

lemma firstBadPort_None: "firstBadPort ps = None \<longleftrightarrow> list_all validPort ps"
  by (auto simp: firstBadPort_def find_None_iff list_all_iff)

lemma validateRule_None: "validateRule r = None \<longleftrightarrow> okRule r"
proof (cases "parsePrefixes (nrCidrs r)")
  case (Inl e)
  then have "\<not> list_all okCIDR (nrCidrs r)"
    using parsePrefixes_ok[of "nrCidrs r"] by auto
  then show ?thesis
    by (simp add: validateRule_def okRule_def Inl)
next
  case (Inr ps)
  then show ?thesis
    using parsePrefixes_InrD[OF Inr]
    by (auto simp: validateRule_def okRule_def not_le simp flip: firstBadPort_None split: option.splits)
qed

lemma compileRules_ok: "list_all okRule rs \<Longrightarrow> compileRules rs = Inr (map compiledRule rs)"
  by (induction rs) (simp_all add: okRule_def compiledRule_def parsePrefixes_ok)

definition egressRules :: "egress option \<Rightarrow> net_rule list" where
  "egressRules eg = (case eg of None \<Rightarrow> [] | Some e \<Rightarrow> egRules e)"

lemma ValidateEgress_None_rules:
  "ValidateEgress eg = None \<Longrightarrow> list_all okRule (egressRules eg) \<and> length (egressRules eg) \<le> MaxRules"
  by (auto simp: ValidateEgress_def egressRules_def firstErr_None validateRule_None list_all_iff
      split: option.splits if_splits)

lemma Compile_Inr:
  assumes "Compile (Some req) = Some (Inr p)"
  shows "crUID req > 0" "ValidateEgress (GetEgress (crNetwork req)) = None"
    "p = \<lparr>polUID = crUID req,
          polDefaultAction =
            getDefaultAction (case GetEgress (crNetwork req) of
                None \<Rightarrow> Egress_DEFAULT_ACTION_UNSET | Some eg \<Rightarrow> egDefaultAction eg),
          polRules = sort_key actionRank (map compiledRule (egressRules (GetEgress (crNetwork req)))),
          polProtected = normalizePrefixes
             (map (\<lambda>c. Masked (cidrPrefix c)) mandatoryProtectedCIDRs @ crProtected req),
          polNonPublic = normalizePrefixes (map (\<lambda>c. Masked (cidrPrefix c)) nonPublicCIDRs),
          polSystemSourcePorts = crSystemSourcePorts req\<rparr>"
proof -
  show "crUID req > 0" and V: "ValidateEgress (GetEgress (crNetwork req)) = None"
    using assms by (auto simp: Compile_eq split: if_splits option.splits)
  then show "p = \<lparr>polUID = crUID req,
          polDefaultAction =
            getDefaultAction (case GetEgress (crNetwork req) of
                None \<Rightarrow> Egress_DEFAULT_ACTION_UNSET | Some eg \<Rightarrow> egDefaultAction eg),
          polRules = sort_key actionRank (map compiledRule (egressRules (GetEgress (crNetwork req)))),
          polProtected = normalizePrefixes
             (map (\<lambda>c. Masked (cidrPrefix c)) mandatoryProtectedCIDRs @ crProtected req),
          polNonPublic = normalizePrefixes (map (\<lambda>c. Masked (cidrPrefix c)) nonPublicCIDRs),
          polSystemSourcePorts = crSystemSourcePorts req\<rparr>"
    using assms compileRules_ok[OF conjunct1[OF ValidateEgress_None_rules[OF V]]]
    by (simp add: Compile_eq egressRules_def)
qed

lemma normalizePrefixes_good: "x \<in> set (normalizePrefixes ps) \<Longrightarrow> \<not> badPrefix x"
  using prefix_norm.norm_ok[of x ps] unfolding badPrefix_def by metis

lemma checkRule_compiledRule: "okRule r \<Longrightarrow> checkRule (compiledRule r) = None"
proof -
  assume r: "okRule r"
  let ?ps = "map (\<lambda>c. Masked (cidrPrefix c)) (nrCidrs r)"
  have "normalizePrefixes ?ps \<noteq> []"
    using r okCIDR_valid by (cases "nrCidrs r") (auto simp: prefix_norm.norm_empty okRule_def)
  moreover have "length (normalizePrefixes ?ps) \<le> MaxCIDRsPerRule"
    using r prefix_norm.norm_length[of ?ps] by (simp add: okRule_def)
  moreover have "length (normalizePorts (nrPorts r)) \<le> MaxPortsPerRule"
    using r port_norm.norm_length[of "nrPorts r"] by (simp add: okRule_def)
  moreover have "find badPrefix (normalizePrefixes ?ps) = None"
    using normalizePrefixes_good by (simp add: find_None_iff)
  moreover have "firstBadPort (normalizePorts (nrPorts r)) = None"
    using port_norm.norm_ok by (auto simp: firstBadPort_None list_all_iff)
  moreover have "getAction (nrAction r) = ActionAllow \<or> getAction (nrAction r) = ActionDeny"
    by (cases "nrAction r") auto
  ultimately show ?thesis
    by (auto simp: checkRule_def compiledRule_def)
qed

lemma Compile_passes_Check:
  assumes "Compile (Some req) = Some (Inr p)"
    and "\<forall>sp \<in> set (crSystemSourcePorts req). checkSystemPort sp = None"
  shows "Policy_Check (Some p) = None"
proof -
  note p = Compile_Inr[OF assms(1)]
  have "firstErr checkRule (polRules p) = None"
    using ValidateEgress_None_rules[OF p(2)] checkRule_compiledRule
    by (auto simp: p(3) firstErr_None list_all_iff)
  moreover have "find badPrefix (polProtected p @ polNonPublic p) = None"
    using normalizePrefixes_good by (auto simp: p(3) find_None_iff)
  moreover have "firstErr checkSystemPort (polSystemSourcePorts p) = None"
    using assms(2) by (simp add: p(3) firstErr_None)
  moreover have "polDefaultAction p = DefaultActionAllowPublic \<or> polDefaultAction p = DefaultActionDeny"
    by (cases "case GetEgress (crNetwork req) of
           None \<Rightarrow> Egress_DEFAULT_ACTION_UNSET | Some eg \<Rightarrow> egDefaultAction eg")
      (simp_all add: p(3))
  ultimately show ?thesis
    using p(1) ValidateEgress_None_rules[OF p(2)] by (auto simp: Policy_Check_def p(3) not_less)
qed

section \<open>The meaning of the rendered rules\<close>

text \<open>The statements that \<open>renderEgress\<close> prints, before they are text.\<close>

datatype verdict = Accept | Drop

datatype stmt =
    SportS string u32 verdict
  | DaddrS bool "ip_prefix list" "u32 list" verdict
  | VerdictS verdict

fun verdictStr :: "verdict \<Rightarrow> string" where
  "verdictStr Accept = ''accept''"
| "verdictStr Drop = ''drop''"

fun stmtString :: "stmt \<Rightarrow> string" where
  "stmtString (SportS proto port v) =
     ''meta l4proto '' @ proto @ '' th sport '' @ showNat (unat port) @ '' '' @ verdictStr v"
| "stmtString (DaddrS v4 ps ports v) =
     (if v4 then ''ip'' else ''ip6'') @ '' daddr '' @ renderPrefixSet ps
     @ (if ports \<noteq> [] then '' meta l4proto { tcp, udp } th dport '' @ renderPortSet ports else [])
     @ '' '' @ verdictStr v"
| "stmtString (VerdictS v) = verdictStr v"

definition matchStmts :: "ip_prefix list \<Rightarrow> u32 list \<Rightarrow> verdict \<Rightarrow> stmt list" where
  "matchStmts ps ports v =
     (if FilterV4 ps = [] then [] else [DaddrS True (FilterV4 ps) ports v])
     @ (if FilterV6 ps = [] then [] else [DaddrS False (FilterV6 ps) ports v])"

definition ruleVerdict :: "policy_rule \<Rightarrow> verdict" where
  "ruleVerdict r = (if prAction r = ActionDeny then Drop else Accept)"

definition egressStmts :: "policy \<Rightarrow> stmt list" where
  "egressStmts p =
     map (\<lambda>sp. SportS (syProtocol sp) (syPort sp) Accept) (polSystemSourcePorts p)
     @ matchStmts (polProtected p) [] Drop
     @ concat (map (\<lambda>r. matchStmts (prPrefixes r) (prPorts r) (ruleVerdict r)) (polRules p))
     @ (if polDefaultAction p = DefaultActionDeny then [VerdictS Drop]
        else matchStmts (polNonPublic p) [] Drop @ [VerdictS Accept])"

lemma renderMatches_stmts: "renderMatches ps ports (verdictStr v) = map stmtString (matchStmts ps ports v)"
  by (simp add: renderMatches_def matchStmts_def Let_def)

lemma renderMatches_lits:
  "renderMatches ps ports ''drop'' = map stmtString (matchStmts ps ports Drop)"
  "renderMatches ps ports ''accept'' = map stmtString (matchStmts ps ports Accept)"
  using renderMatches_stmts[of ps ports Drop] renderMatches_stmts[of ps ports Accept]
  by (simp_all only: verdictStr.simps)

text \<open>The text of the chain is exactly the text of these statements.\<close>

lemma renderEgress_stmts: "renderEgress p = map stmtString (egressStmts p)"
proof -
  have eq: "map (\<lambda>r. renderMatches (prPrefixes r) (prPorts r)
           (if prAction r = ActionDeny then ''drop'' else ''accept'')) (polRules p)
      = map (\<lambda>r. map stmtString (matchStmts (prPrefixes r) (prPorts r) (ruleVerdict r))) (polRules p)"
    by (rule map_cong) (auto simp: ruleVerdict_def renderMatches_lits)
  show ?thesis
    unfolding renderEgress_def egressStmts_def eq
    by (simp add: renderMatches_lits map_concat comp_def del: stmtString.simps(2))
qed

text \<open>A packet that leaves the Workspace: who sent it, where to, over which ports.\<close>

record packet =
  pkUid :: int
  pkDst :: addr
  pkProto :: string
  pkSport :: u32
  pkDport :: u32

definition inPrefixes :: "ip_prefix list \<Rightarrow> addr \<Rightarrow> bool" where
  "inPrefixes ps a \<longleftrightarrow> list_ex (\<lambda>p. prefixContains p a) ps"

definition portsMatch :: "u32 list \<Rightarrow> packet \<Rightarrow> bool" where
  "portsMatch ports pk \<longleftrightarrow> ports = []
     \<or> ((pkProto pk = ''tcp'' \<or> pkProto pk = ''udp'') \<and> pkDport pk \<in> set ports)"

fun stmtMatches :: "stmt \<Rightarrow> packet \<Rightarrow> bool" where
  "stmtMatches (SportS proto port v) pk \<longleftrightarrow> pkProto pk = proto \<and> pkSport pk = port"
| "stmtMatches (DaddrS v4 ps ports v) pk \<longleftrightarrow>
     Is4 (pkDst pk) = v4 \<and> inPrefixes ps (pkDst pk) \<and> portsMatch ports pk"
| "stmtMatches (VerdictS v) pk \<longleftrightarrow> True"

fun stmtVerdict :: "stmt \<Rightarrow> verdict" where
  "stmtVerdict (SportS _ _ v) = v"
| "stmtVerdict (DaddrS _ _ _ v) = v"
| "stmtVerdict (VerdictS v) = v"

text \<open>First match; the base chain, whose policy is accept, decides when nothing matches.\<close>

fun evalStmts :: "stmt list \<Rightarrow> packet \<Rightarrow> verdict" where
  "evalStmts [] pk = Accept"
| "evalStmts (s # ss) pk = (if stmtMatches s pk then stmtVerdict s else evalStmts ss pk)"

text \<open>The \<open>output\<close> chain: only the packets of the Workspace's user jump to \<open>egress\<close>.\<close>

definition nftVerdict :: "policy \<Rightarrow> packet \<Rightarrow> verdict" where
  "nftVerdict p pk = (if pkUid pk \<noteq> polUID p then Accept else evalStmts (egressStmts p) pk)"

lemma evalStmts_append:
  "evalStmts (xs @ ys) pk =
     (if \<exists>s \<in> set xs. stmtMatches s pk then evalStmts xs pk else evalStmts ys pk)"
  by (induction xs) auto

lemma evalStmts_uniform:
  "(\<And>s. s \<in> set xs \<Longrightarrow> stmtVerdict s = v) \<Longrightarrow> \<exists>s \<in> set xs. stmtMatches s pk \<Longrightarrow> evalStmts xs pk = v"
  by (induction xs) auto

definition renderable :: "ip_prefix \<Rightarrow> bool" where
  "renderable p \<longleftrightarrow> \<not> Is4In6 (pAddr p)"

lemma matchStmts_matches:
  "(\<exists>s \<in> set (matchStmts ps ports v). stmtMatches s pk) \<longleftrightarrow>
     inPrefixes (filter renderable ps) (pkDst pk) \<and> portsMatch ports pk"
proof (cases "Is4 (pkDst pk)")
  case True
  then have "inPrefixes (filter renderable ps) (pkDst pk) \<longleftrightarrow> inPrefixes (FilterV4 ps) (pkDst pk)"
    using prefixContains_family Is4In6_Is6
    by (fastforce simp: inPrefixes_def FilterV4_def renderable_def list_ex_iff)
  then show ?thesis
    using True by (auto simp: matchStmts_def inPrefixes_def)
next
  case False
  then have "inPrefixes (filter renderable ps) (pkDst pk) \<longleftrightarrow> inPrefixes (FilterV6 ps) (pkDst pk)"
    using prefixContains_family
    by (fastforce simp: inPrefixes_def FilterV6_def renderable_def list_ex_iff Is4_Is6)
  then show ?thesis
    using False by (auto simp: matchStmts_def inPrefixes_def)
qed

lemma matchStmts_verdict: "s \<in> set (matchStmts ps ports v) \<Longrightarrow> stmtVerdict s = v"
  by (auto simp: matchStmts_def split: if_splits)

lemma evalStmts_matchStmts:
  "evalStmts (matchStmts ps ports v @ ss) pk =
     (if inPrefixes (filter renderable ps) (pkDst pk) \<and> portsMatch ports pk then v
      else evalStmts ss pk)"
  unfolding evalStmts_append matchStmts_matches
  using evalStmts_uniform[OF matchStmts_verdict] matchStmts_matches by auto

definition ruleMatches :: "policy_rule \<Rightarrow> packet \<Rightarrow> bool" where
  "ruleMatches r pk \<longleftrightarrow>
     inPrefixes (filter renderable (prPrefixes r)) (pkDst pk) \<and> portsMatch (prPorts r) pk"

lemma evalStmts_rules:
  "evalStmts (concat (map (\<lambda>r. matchStmts (prPrefixes r) (prPorts r) (ruleVerdict r)) rs) @ ss) pk =
     (case find (\<lambda>r. ruleMatches r pk) rs of Some r \<Rightarrow> ruleVerdict r | None \<Rightarrow> evalStmts ss pk)"
  by (induction rs) (simp_all add: evalStmts_matchStmts ruleMatches_def)

lemma evalStmts_ports:
  "evalStmts (map (\<lambda>sp. SportS (syProtocol sp) (syPort sp) Accept) sps @ ss) pk =
     (if \<exists>sp \<in> set sps. pkProto pk = syProtocol sp \<and> pkSport pk = syPort sp then Accept
      else evalStmts ss pk)"
  by (induction sps) auto

text \<open>When the DENY rules come first, a DENY rule that matches beats every ALLOW rule.\<close>

lemma find_sorted_rank:
  "sorted (map actionRank rs) \<Longrightarrow>
   (case find P rs of Some r \<Rightarrow> ruleVerdict r | None \<Rightarrow> d) =
     (if \<exists>r \<in> set rs. P r \<and> prAction r = ActionDeny then Drop
      else if \<exists>r \<in> set rs. P r then Accept else d)"
proof (induction rs)
  case (Cons r rs)
  then show ?case
    by (cases "P r") (auto simp: ruleVerdict_def actionRank_def split: if_splits)
qed simp

section \<open>What the spec asks for\<close>

definition inCIDRs :: "string list \<Rightarrow> addr \<Rightarrow> bool" where
  "inCIDRs cs a \<longleftrightarrow>
     list_ex (\<lambda>c. case ParsePrefix (trimSpace c) of None \<Rightarrow> False | Some p \<Rightarrow> prefixContains p a) cs"

definition netRuleMatches :: "net_rule \<Rightarrow> packet \<Rightarrow> bool" where
  "netRuleMatches r pk \<longleftrightarrow> inCIDRs (nrCidrs r) (pkDst pk) \<and> portsMatch (nrPorts r) pk"

text \<open>The prefixes of the cluster that the supervisor adds; an IPv4-mapped one is not rendered.\<close>

definition extraProtected :: "ip_prefix list \<Rightarrow> addr \<Rightarrow> bool" where
  "extraProtected ps a \<longleftrightarrow>
     list_ex (\<lambda>p. prefixIsValid p \<and> \<not> Is4In6 (pAddr (Masked p)) \<and> prefixContains p a) ps"

definition protectedDst :: "compile_req \<Rightarrow> packet \<Rightarrow> bool" where
  "protectedDst req pk \<longleftrightarrow> inCIDRs mandatoryProtectedCIDRs (pkDst pk)
     \<or> extraProtected (crProtected req) (pkDst pk)"

definition fromSystemPort :: "compile_req \<Rightarrow> packet \<Rightarrow> bool" where
  "fromSystemPort req pk \<longleftrightarrow>
     list_ex (\<lambda>sp. pkProto pk = syProtocol sp \<and> pkSport pk = syPort sp) (crSystemSourcePorts req)"

definition reqRules :: "compile_req \<Rightarrow> net_rule list" where
  "reqRules req = egressRules (GetEgress (crNetwork req))"

definition reqDenies :: "compile_req \<Rightarrow> bool" where
  "reqDenies req \<longleftrightarrow> (case GetEgress (crNetwork req) of None \<Rightarrow> False
                       | Some eg \<Rightarrow> egDefaultAction eg = Egress_DENY)"

definition specVerdict :: "compile_req \<Rightarrow> packet \<Rightarrow> verdict" where
  "specVerdict req pk =
     (if pkUid pk \<noteq> crUID req \<or> fromSystemPort req pk then Accept
      else if protectedDst req pk then Drop
      else if list_ex (\<lambda>r. nrAction r = Rule_DENY \<and> netRuleMatches r pk) (reqRules req) then Drop
      else if list_ex (\<lambda>r. nrAction r = Rule_ALLOW \<and> netRuleMatches r pk) (reqRules req) then Accept
      else if reqDenies req \<or> inCIDRs nonPublicCIDRs (pkDst pk) then Drop
      else Accept)"

lemma Is4In6_maskAddr: "Is4In6 (maskAddr a n) \<Longrightarrow> Is4In6 a"
proof (cases a)
  case (V6 w)
  assume "Is4In6 (maskAddr a n)"
  then have eq: "drop_bit 32 (w AND NOT (mask (128 - n))) = 0xffff"
    by (simp add: V6)
  have "bit (drop_bit 32 (w AND NOT (mask (128 - n)))) 0"
    unfolding eq by simp
  then have "\<not> 32 < 128 - n"
    by (auto simp: bit_simps)
  then have "drop_bit 32 (w AND NOT (mask (128 - n))) = drop_bit 32 w"
    by (intro bit_word_eqI) (auto simp: bit_simps dest: bit_imp_le_length)
  then show ?thesis
    using eq by (simp add: V6)
qed simp

lemma inPrefixes_set: "set ps = set qs \<Longrightarrow> inPrefixes ps a = inPrefixes qs a"
  by (simp add: inPrefixes_def list_ex_iff)

lemma inPrefixes_normalize:
  "inPrefixes (filter renderable (normalizePrefixes ps)) a \<longleftrightarrow> extraProtected ps a"
  by (auto simp: inPrefixes_def extraProtected_def list_ex_iff prefix_norm.set_norm renderable_def
      simp flip: Masked_sel)

lemma extraProtected_append:
  "extraProtected (ps @ qs) a \<longleftrightarrow> extraProtected ps a \<or> extraProtected qs a"
  by (simp add: extraProtected_def)

lemma extraProtected_CIDRs:
  assumes "list_all okCIDR cs"
  shows "extraProtected (map (\<lambda>c. Masked (cidrPrefix c)) cs) a \<longleftrightarrow> inCIDRs cs a"
proof -
  have "prefixIsValid (cidrPrefix c) \<and> \<not> Is4In6 (maskAddr (pAddr (cidrPrefix c)) (pBits (cidrPrefix c)))
      \<and> ParsePrefix (trimSpace c) = Some (cidrPrefix c)" if "c \<in> set cs" for c
  proof -
    have "okCIDR c"
      using that assms by (simp add: list_all_iff)
    then show ?thesis
      by (metis okCIDR_valid okCIDR_Some okCIDR_not_mapped Is4In6_maskAddr)
  qed
  then show ?thesis
    by (auto simp: extraProtected_def inCIDRs_def list_ex_iff)
qed

lemma portsMatch_normalize:
  "list_all validPort ports \<Longrightarrow> portsMatch (normalizePorts ports) pk = portsMatch ports pk"
  using port_norm.norm_empty[of ports] port_norm.set_norm[of ports]
  by (cases ports) (auto simp: portsMatch_def list_all_iff)

lemma ruleMatches_compiled: "okRule r \<Longrightarrow> ruleMatches (compiledRule r) pk = netRuleMatches r pk"
  by (simp add: ruleMatches_def compiledRule_def inPrefixes_normalize extraProtected_CIDRs
      netRuleMatches_def portsMatch_normalize okRule_def)

lemma getAction_deny: "okRule r \<Longrightarrow> getAction (nrAction r) = ActionDeny \<longleftrightarrow> nrAction r = Rule_DENY"
  by (cases "nrAction r") (auto simp: okRule_def)

lemma getDefaultAction_deny: "getDefaultAction d = DefaultActionDeny \<longleftrightarrow> d = Egress_DENY"
  by (cases d) auto

text \<open>The verdict of a compiled policy is the one the request asks for.\<close>

lemma Compile_verdict:
  assumes "Compile (Some req) = Some (Inr p)"
  shows "nftVerdict p pk = specVerdict req pk"
proof -
  note p = Compile_Inr[OF assms]
  define rs where "rs = reqRules req"
  have ok: "list_all okRule rs"
    using ValidateEgress_None_rules[OF p(2)] by (simp add: rs_def reqRules_def)
  have pol: "polRules p = sort_key actionRank (map compiledRule rs)"
    by (simp add: p(3) rs_def reqRules_def)
  have deny: "(\<exists>r \<in> set (polRules p). ruleMatches r pk \<and> prAction r = ActionDeny) \<longleftrightarrow>
      list_ex (\<lambda>r. nrAction r = Rule_DENY \<and> netRuleMatches r pk) rs"
    using ok by (auto simp: pol list_ex_iff list_all_iff ruleMatches_compiled getAction_deny
        compiledRule_sel)
  have any: "(\<exists>r \<in> set (polRules p). ruleMatches r pk) \<longleftrightarrow> list_ex (\<lambda>r. netRuleMatches r pk) rs"
    using ok by (auto simp: pol list_ex_iff list_all_iff ruleMatches_compiled)
  have allow: "list_ex (\<lambda>r. netRuleMatches r pk) rs \<longleftrightarrow>
      list_ex (\<lambda>r. nrAction r = Rule_DENY \<and> netRuleMatches r pk) rs
      \<or> list_ex (\<lambda>r. nrAction r = Rule_ALLOW \<and> netRuleMatches r pk) rs"
    using ok by (auto simp: list_ex_iff list_all_iff okRule_def)
  have dflt: "polDefaultAction p = DefaultActionDeny \<longleftrightarrow> reqDenies req"
    by (auto simp: p(3) reqDenies_def getDefaultAction_deny split: option.splits)
  have prot: "inPrefixes (filter renderable (polProtected p)) (pkDst pk) \<longleftrightarrow> protectedDst req pk"
    by (simp add: p(3) inPrefixes_normalize extraProtected_append
        extraProtected_CIDRs[OF mandatory_ok] protectedDst_def)
  have nonpub: "inPrefixes (filter renderable (polNonPublic p)) (pkDst pk)
      \<longleftrightarrow> inCIDRs nonPublicCIDRs (pkDst pk)"
    by (simp add: p(3) inPrefixes_normalize extraProtected_CIDRs[OF nonPublic_ok])
  have sys: "(\<exists>sp \<in> set (polSystemSourcePorts p). pkProto pk = syProtocol sp \<and> pkSport pk = syPort sp)
      \<longleftrightarrow> fromSystemPort req pk"
    by (simp add: p(3) fromSystemPort_def list_ex_iff)
  have uid: "polUID p = crUID req"
    by (simp add: p(3))
  have srt: "sorted (map actionRank (polRules p))"
    by (simp add: pol)
  have tail: "evalStmts (if polDefaultAction p = DefaultActionDeny then [VerdictS Drop]
       else matchStmts (polNonPublic p) [] Drop @ [VerdictS Accept]) pk
     = (if reqDenies req \<or> inCIDRs nonPublicCIDRs (pkDst pk) then Drop else Accept)"
    using nonpub by (simp add: dflt evalStmts_matchStmts portsMatch_def)
  show ?thesis
    unfolding nftVerdict_def egressStmts_def evalStmts_ports evalStmts_matchStmts evalStmts_rules
      find_sorted_rank[OF srt] tail sys prot deny any allow uid specVerdict_def rs_def[symmetric]
    by (simp add: portsMatch_def)
qed

section \<open>Properties\<close>

lemma Compile_ok:
  "crUID req > 0 \<Longrightarrow> ValidateEgress (GetEgress (crNetwork req)) = None \<Longrightarrow>
   \<exists>p. Compile (Some req) = Some (Inr p)"
  using compileRules_ok[OF conjunct1[OF ValidateEgress_None_rules]]
  by (auto simp: Compile_eq egressRules_def)

text \<open>
  C1: The nftables rules that \<open>RenderNFT\<close> prints for a compiled policy are the text of a list of
  statements whose first-match verdict on every packet is the one the Workspace's spec asks
  for: packets of other users and from the system's own ports pass, protected destinations
  are dropped, then DENY rules win over ALLOW rules whatever their order in the spec, and
  last the default action decides (ALLOW_PUBLIC still drops the non-public destinations).
\<close>

theorem nft_enforces_spec:
  assumes "Compile (Some req) = Some (Inr p)"
  shows "renderEgress p = map stmtString (egressStmts p) \<and> nftVerdict p pk = specVerdict req pk"
  using Compile_verdict[OF assms] renderEgress_stmts by simp

text \<open>
  To evaluate the examples: a CIDR without a dot in front of its first colon is no IPv4 one,
  so its groups need not be computed.
\<close>

definition dotted :: "string \<Rightarrow> bool" where
  "dotted c \<longleftrightarrow> find (\<lambda>c. c = CHR ''.'' \<or> c = CHR '':'' \<or> c = CHR ''%'') c = Some CHR ''.''"

definition cidrContains :: "string \<Rightarrow> addr \<Rightarrow> bool" where
  "cidrContains c a = (if Is4 a \<and> \<not> dotted (joinWith ''/'' (butlast (splitOn CHR ''/'' (trimSpace c))))
     then False
     else case ParsePrefix (trimSpace c) of None \<Rightarrow> False | Some p \<Rightarrow> prefixContains p a)"

lemma cidrContains_eq:
  "cidrContains c a = (case ParsePrefix (trimSpace c) of None \<Rightarrow> False | Some p \<Rightarrow> prefixContains p a)"
proof -
  have "dotted (joinWith ''/'' (butlast (splitOn CHR ''/'' s)))"
    if "ParsePrefix s = Some p" "Is4 (pAddr p)" for s p
    using that by (auto simp: ParsePrefix_def Let_def parseAddr_def parseIPv6_def dotted_def
        split: if_splits option.splits)
  then show ?thesis
    by (cases "ParsePrefix (trimSpace c)") (auto simp: cidrContains_def dest: prefixContains_family)
qed

lemma inCIDRs_code [code]: "inCIDRs cs a = list_ex (\<lambda>c. cidrContains c a) cs"
  by (simp add: inCIDRs_def cidrContains_eq)

definition exampleReq :: compile_req where
  "exampleReq = \<lparr>crNetwork = Some \<lparr>netEgress = Some
       \<lparr>egRules = [\<lparr>nrCidrs = [''10.1.0.0/16''], nrAction = Rule_ALLOW, nrPorts = [443]\<rparr>,
                   \<lparr>nrCidrs = ['' 10.1.2.3/24''], nrAction = Rule_DENY, nrPorts = []\<rparr>],
        egDefaultAction = Egress_ALLOW_PUBLIC\<rparr>\<rparr>,
     crUID = 1000, crProtected = [], crSystemSourcePorts = []\<rparr>"

definition examplePacket :: "32 word \<Rightarrow> packet" where
  "examplePacket a = \<lparr>pkUid = 1000, pkDst = V4 a, pkProto = ''tcp'', pkSport = 40000, pkDport = 443\<rparr>"

lemma exampleReq_valid: "ValidateEgress (GetEgress (crNetwork exampleReq)) = None"
  by code_simp

lemma exampleReq_compiles: "\<exists>p. Compile (Some exampleReq) = Some (Inr p)"
  by (rule Compile_ok[OF _ exampleReq_valid]) (simp add: exampleReq_def)

lemma nft_enforces_spec_witness:
  "\<exists>p. Compile (Some exampleReq) = Some (Inr p)
     \<and> nftVerdict p (examplePacket 0x0A010203) = Drop \<and> nftVerdict p (examplePacket 0x0A010303) = Accept"
proof -
  obtain p where p: "Compile (Some exampleReq) = Some (Inr p)"
    using exampleReq_compiles by blast
  have "specVerdict exampleReq (examplePacket 0x0A010203) = Drop"
    and "specVerdict exampleReq (examplePacket 0x0A010303) = Accept"
    by code_simp+
  then show ?thesis
    using p nft_enforces_spec[OF p, THEN conjunct2] by metis
qed

text \<open>
  C18: \<open>Compile\<close> never panics, refuses exactly the requests with a uid that is not positive or an
  egress that \<open>ValidateEgress\<close> rejects, and what it returns passes \<open>Check\<close> whenever the system
  ports do.
\<close>

theorem Compile_contract:
  "Compile req \<noteq> None
   \<and> ((\<exists>p. Compile (Some r) = Some (Inr p)) \<longleftrightarrow>
        crUID r > 0 \<and> ValidateEgress (GetEgress (crNetwork r)) = None)
   \<and> (Compile (Some r) = Some (Inr p) \<and> list_all (\<lambda>sp. checkSystemPort sp = None) (crSystemSourcePorts r)
        \<longrightarrow> Policy_Check (Some p) = None)"
proof (intro conjI)
  show "Compile req \<noteq> None"
    by (cases req) (auto simp: Compile_None_or Compile_eq split: option.splits sum.splits)
  show "(\<exists>p. Compile (Some r) = Some (Inr p)) \<longleftrightarrow>
     crUID r > 0 \<and> ValidateEgress (GetEgress (crNetwork r)) = None"
    using Compile_ok Compile_Inr(1,2) by blast
  show "Compile (Some r) = Some (Inr p) \<and> list_all (\<lambda>sp. checkSystemPort sp = None) (crSystemSourcePorts r)
     \<longrightarrow> Policy_Check (Some p) = None"
    using Compile_passes_Check by (auto simp: list_all_iff)
qed

lemma Compile_contract_witness:
  "\<exists>p. Compile (Some exampleReq) = Some (Inr p) \<and> Policy_Check (Some p) = None"
proof -
  obtain p where p: "Compile (Some exampleReq) = Some (Inr p)"
    using exampleReq_compiles by blast
  then show ?thesis
    using Compile_contract[of None exampleReq p] by (auto simp: exampleReq_def)
qed

text \<open>
  The two normalisations keep each acceptable element once, in canonical form and sorted;
  the normalised ports depend only on which ports are given, and normalising again changes
  nothing.
\<close>

theorem normalise_contract:
  "set (normalizePrefixes ps) = Masked ` {p \<in> set ps. prefixIsValid p}
   \<and> distinct (normalizePrefixes ps) \<and> sorted (map prefixString (normalizePrefixes ps))
   \<and> set (normalizePorts xs) = {x \<in> set xs. validPort x} \<and> distinct (normalizePorts xs)
   \<and> sorted (normalizePorts xs) \<and> normalizePorts (normalizePorts xs) = normalizePorts xs
   \<and> (set xs = set ys \<longrightarrow> normalizePorts xs = normalizePorts ys)"
proof (intro conjI impI)
  show "set xs = set ys \<Longrightarrow> normalizePorts xs = normalizePorts ys"
    by (rule port_norm.norm_set)
qed (simp_all only: prefix_norm.set_norm prefix_norm.distinct_norm normalizePrefixes_sorted
    port_norm.set_norm port_norm.distinct_norm port_norm.sorted_norm port_norm.norm_norm image_ident)

lemma normalise_contract_witness:
  "normalizePorts [443, 0, 80, 443] = normalizePorts [80, 443, 0]"
proof -
  have "set [443, 0, 80, 443 :: u32] = set [80, 443, 0]"
    by auto
  then show ?thesis
    using normalise_contract[of "[]" "[443, 0, 80, 443]" "[80, 443, 0]"] by blast
qed

end
