(* ===== verification/Resource_Helpers.thy ===== *)
theory Resource_Helpers
  imports Resources
begin

text \<open>
  The helpers on resources: \<open>pkg/apiutils/ucordiumv1/ucordiumv1.go\<close> (what the state of a
  Workspace, a WorkspaceSnapshot or a Volume means), \<open>cluster/common/common.go\<close> and
  \<open>cluster/common/ovutils/ovutils.go\<close> (derived names).
\<close>

section \<open>The state of a Workspace\<close>

fun IsPreRunning :: "ws_state \<Rightarrow> bool" where
  "IsPreRunning INIT_REQUEST = True"
| "IsPreRunning INITIALIZING = True"
| "IsPreRunning BUILDING_IMAGE = True"
| "IsPreRunning PULLING_IMAGE = True"
| "IsPreRunning STARTING_RUNTIME = True"
| "IsPreRunning PREPARING = True"
| "IsPreRunning _ = False"

fun IsInitializing :: "ws_state \<Rightarrow> bool" where
  "IsInitializing INIT_REQUEST = True"
| "IsInitializing INITIALIZING = True"
| "IsInitializing _ = False"

fun IsRunning :: "ws_state \<Rightarrow> bool" where
  "IsRunning RUNNING = True"
| "IsRunning _ = False"

fun IsPreparingOrRunning :: "ws_state \<Rightarrow> bool" where
  "IsPreparingOrRunning RUNNING = True"
| "IsPreparingOrRunning PREPARING = True"
| "IsPreparingOrRunning _ = False"

fun IsStopped :: "ws_state \<Rightarrow> bool" where
  "IsStopped STOPPED = True"
| "IsStopped _ = False"

fun IsStopping :: "ws_state \<Rightarrow> bool" where
  "IsStopping STOPPING_REQUEST = True"
| "IsStopping STOPPING = True"
| "IsStopping _ = False"

definition IsStoppingOrStopped :: "ws_state \<Rightarrow> bool" where
  "IsStoppingOrStopped s \<longleftrightarrow> IsStopped s \<or> IsStopping s"

definition IsActive :: "ws_state \<Rightarrow> bool" where
  "IsActive s \<longleftrightarrow> IsPreRunning s \<or> IsRunning s \<or> IsStoppingOrStopped s"

abbreviation wsState :: "workspace \<Rightarrow> ws_state" where
  "wsState ws \<equiv> stState (wsStatus ws)"

lemma IsStopped_iff [simp]: "IsStopped s \<longleftrightarrow> s = STOPPED"
  by (cases s) auto

lemma IsRunning_iff [simp]: "IsRunning s \<longleftrightarrow> s = RUNNING"
  by (cases s) auto

lemma IsStopping_iff: "IsStopping s \<longleftrightarrow> s = STOPPING_REQUEST \<or> s = STOPPING"
  by (cases s) auto

lemma state_classes:
  "s = WS_UNKNOWN \<or> IsPreRunning s \<or> IsRunning s \<or> IsStopping s \<or> IsStopped s"
  "\<not> (IsPreRunning s \<and> (IsRunning s \<or> IsStopping s \<or> IsStopped s))"
  "\<not> (IsRunning s \<and> (IsStopping s \<or> IsStopped s))" "\<not> (IsStopping s \<and> IsStopped s)"
  by (cases s; simp)+

text \<open>
  \<open>IsActive\<close> holds in every state but UNKNOWN: a stopped Workspace counts as active.
\<close>

lemma IsActive_iff: "IsActive s \<longleftrightarrow> s \<noteq> WS_UNKNOWN"
  by (cases s) (auto simp: IsActive_def IsStoppingOrStopped_def)

section \<open>Lookups by name\<close>

text \<open>\<open>SecretList.GetByName\<close>, \<open>UserSecretList.GetByName\<close>: the first item with the name.\<close>

fun SecretList_GetByName :: "secret list \<Rightarrow> string \<Rightarrow> err + secret" where
  "SecretList_GetByName [] name = Inl (Errorf (''No Secret exists with name: '' @ name))"
| "SecretList_GetByName (s # ss) name =
     (if mdName (secMetadata s) = name then Inr s else SecretList_GetByName ss name)"

fun UserSecretList_GetByName :: "user_secret list \<Rightarrow> string \<Rightarrow> err + user_secret" where
  "UserSecretList_GetByName [] name = Inl (Errorf (''No Secret exists with name: '' @ name))"
| "UserSecretList_GetByName (s # ss) name =
     (if mdName (usMetadata s) = name then Inr s else UserSecretList_GetByName ss name)"

fun GetApplicationByName :: "application list \<Rightarrow> string \<Rightarrow> application option" where
  "GetApplicationByName [] name = None"
| "GetApplicationByName (a # as) name = (if appName a = name then Some a else GetApplicationByName as name)"

fun GetDefaultApplication :: "application list \<Rightarrow> application option" where
  "GetDefaultApplication [] = None"
| "GetDefaultApplication (a # as) = (if appIsDefault a then Some a else GetDefaultApplication as)"

text \<open>
  The contract of these lookups: they return the first element that satisfies a test. The
  parameter \<open>ok\<close> turns a result into an option.
\<close>

locale first_match =
  fixes lookup :: "'a list \<Rightarrow> 'k \<Rightarrow> 'r"
    and matches :: "'a \<Rightarrow> 'k \<Rightarrow> bool"
    and ok :: "'r \<Rightarrow> 'a option"
  assumes lookup_Nil: "ok (lookup [] k) = None"
    and lookup_Cons: "ok (lookup (x # xs) k) = (if matches x k then Some x else ok (lookup xs k))"
begin

lemma lookup_find: "ok (lookup xs k) = find (\<lambda>x. matches x k) xs"
  by (induction xs) (simp_all add: lookup_Nil lookup_Cons)

lemma lookup_Some: "ok (lookup xs k) = Some x \<Longrightarrow> x \<in> set xs \<and> matches x k"
  by (auto simp: lookup_find find_Some_iff)

lemma lookup_None: "ok (lookup xs k) = None \<longleftrightarrow> (\<forall>x \<in> set xs. \<not> matches x k)"
  by (auto simp: lookup_find find_None_iff)

lemma lookup_append: "ok (lookup (xs @ ys) k) =
    (case ok (lookup xs k) of Some x \<Rightarrow> Some x | None \<Rightarrow> ok (lookup ys k))"
  by (induction xs) (simp_all add: lookup_Nil lookup_Cons)

end

definition okSum :: "'e + 'a \<Rightarrow> 'a option" where
  "okSum r = (case r of Inl _ \<Rightarrow> None | Inr x \<Rightarrow> Some x)"

lemma okSum_iff [simp]: "okSum r = Some x \<longleftrightarrow> r = Inr x" "okSum r = None \<longleftrightarrow> (\<exists>e. r = Inl e)"
  by (auto simp: okSum_def split: sum.splits)

interpretation secret_lookup: first_match SecretList_GetByName "\<lambda>s n. mdName (secMetadata s) = n" okSum
  by unfold_locales (auto simp: okSum_def)

interpretation user_secret_lookup:
  first_match UserSecretList_GetByName "\<lambda>s n. mdName (usMetadata s) = n" okSum
  by unfold_locales (auto simp: okSum_def)

interpretation application_lookup: first_match GetApplicationByName "\<lambda>a n. appName a = n" "\<lambda>r. r"
  by unfold_locales auto

interpretation default_application_lookup:
  first_match "\<lambda>as (_::unit). GetDefaultApplication as" "\<lambda>a _. appIsDefault a" "\<lambda>r. r"
  by unfold_locales auto

section \<open>Secrets, snapshots, volumes, builds\<close>

definition Secret_GetValueStr :: "secret \<Rightarrow> string" where
  "Secret_GetValueStr s =
     (case secData s of
        None \<Rightarrow> []
      | Some (DataValue v) \<Rightarrow> v
      | Some (DataValueBytes v) \<Rightarrow> v
      | Some _ \<Rightarrow> [])"

definition UserSecret_GetValueStr :: "user_secret \<Rightarrow> string" where
  "UserSecret_GetValueStr s =
     (case usData s of
        None \<Rightarrow> []
      | Some (DataValue v) \<Rightarrow> v
      | Some (DataValueBytes v) \<Rightarrow> v
      | Some _ \<Rightarrow> [])"

text \<open>\<open>GetCurrentRun\<close>: the pointer the callers modify the run through.\<close>

definition GetCurrentRun :: "workspace \<Rightarrow> ws_run option" where
  "GetCurrentRun ws = stRun (wsStatus ws)"

definition HasReadyBuild :: "template option \<Rightarrow> bool" where
  "HasReadyBuild t =
     (case t of None \<Rightarrow> False
      | Some t \<Rightarrow> (case tmBuildInfo t of None \<Rightarrow> False | Some bi \<Rightarrow> biCurrentReadyBuildID bi \<noteq> []))"

definition Snapshot_IsReady :: "snapshot option \<Rightarrow> bool" where
  "Snapshot_IsReady s = (case s of None \<Rightarrow> False | Some s \<Rightarrow> snState s = Snap_READY)"

definition Snapshot_IsCreating :: "snapshot option \<Rightarrow> bool" where
  "Snapshot_IsCreating s = (case s of None \<Rightarrow> False | Some s \<Rightarrow> snState s = Snap_CREATING)"

definition Volume_IsFailed :: "volume option \<Rightarrow> bool" where
  "Volume_IsFailed v = (case v of None \<Rightarrow> False | Some v \<Rightarrow> volState v = Vol_FAILED)"

definition Volume_IsShared :: "volume option \<Rightarrow> bool" where
  "Volume_IsShared v = (case v of None \<Rightarrow> False | Some v \<Rightarrow> volAccessMode v = ACCESS_MODE_SHARED)"

definition Volume_GetSizeMegabytes :: "volume option \<Rightarrow> u32" where
  "Volume_GetSizeMegabytes v =
     (case v of None \<Rightarrow> 0 | Some v \<Rightarrow> (case volSize v of None \<Rightarrow> 0 | Some m \<Rightarrow> m))"

definition spGetVolumeMounts :: "ws_spec \<Rightarrow> volume_mount list" where
  "spGetVolumeMounts sp = (case spRuntime sp of None \<Rightarrow> [] | Some rt \<Rightarrow> rtVolumeMounts rt)"

definition GetVolumeMounts :: "workspace \<Rightarrow> volume_mount list" where
  "GetVolumeMounts ws = spGetVolumeMounts (wsSpec ws)"

text \<open>\<open>tmpl.GetSpec().GetRuntime().GetVolumeMounts()\<close>\<close>

definition tmGetVolumeMounts :: "template \<Rightarrow> volume_mount list" where
  "tmGetVolumeMounts t = (case tsRuntime (tmSpec t) of None \<Rightarrow> [] | Some rt \<Rightarrow> rtVolumeMounts rt)"

section \<open>Derived names\<close>

definition GetMembershipName :: "object_ref \<Rightarrow> object_ref \<Rightarrow> string" where
  "GetMembershipName spcRef usrRef = refName usrRef @ ''.'' @ refName spcRef"

definition GetWorkspaceTunnelPort :: "bool \<Rightarrow> int" where
  "GetWorkspaceTunnelPort isTest = (if isTest then 45001 else 45000)"

definition VolumeRootDir :: string where
  "VolumeRootDir = ''/cordium-volumes''"

definition GetVolumePathByUID :: "string \<Rightarrow> string" where
  "GetVolumePathByUID uid = VolumeRootDir @ ''/'' @ uid"

text \<open>\<open>IsEmptyVolumeDir\<close>: the entries of the directory (name, is a directory), or the read error.\<close>

fun emptyVolumeEntries :: "(string \<times> bool) list \<Rightarrow> bool" where
  "emptyVolumeEntries [] = True"
| "emptyVolumeEntries ((name, isDir) # es) =
     (if name = ''lost+found'' \<and> isDir then emptyVolumeEntries es else False)"

definition IsEmptyVolumeDir :: "err + (string \<times> bool) list \<Rightarrow> err + bool" where
  "IsEmptyVolumeDir r = (case r of Inl e \<Rightarrow> Inl e | Inr es \<Rightarrow> Inr (emptyVolumeEntries es))"

definition GetMembershipUserInfo :: "user option \<Rightarrow> (metadata \<Rightarrow> string) \<Rightarrow> user_info option" where
  "GetMembershipUserInfo u picURL =
     (case u of None \<Rightarrow> None
      | Some u \<Rightarrow> Some \<lparr>uiDisplayName = mdDisplayName (usrMetadata u), uiPicURL = picURL (usrMetadata u)\<rparr>)"

definition GetUserConfigName :: "object_ref option \<Rightarrow> string" where
  "GetUserConfigName r =
     (case r of None \<Rightarrow> [] | Some r \<Rightarrow> if refName r = [] then [] else ''default.'' @ refName r)"

end
