(* ===== verification/Volume_Mounts.thy ===== *)
theory Volume_Mounts
  imports Resource_Helpers
begin

text \<open>
  The validation of the Volume mounts of a spec: \<open>cluster/common/wsutils/volume.go\<close>, and what
  an accepted list of mounts guarantees: clean absolute paths outside the reserved trees, no
  two of which overlap, of Volumes that are mounted once.
\<close>

definition MaxVolumeMountsPerWorkspace :: nat where "MaxVolumeMountsPerWorkspace = 16"

definition reservedVolumeMountPaths :: "string list" where
  "reservedVolumeMountPaths =
     [''/'', ''/bin'', ''/boot'', ''/etc'', ''/lib'', ''/lib32'', ''/lib64'', ''/root'', ''/sbin'',
      ''/tmp'', ''/usr'', ''/var'', ''/var/tmp'', ''/workspace'']"

definition reservedVolumeMountTrees :: "string list" where
  "reservedVolumeMountTrees =
     [''/dev'', ''/octelium'', ''/proc'', ''/run'', ''/sys'', ''/var/lib/containers'',
      ''/var/lib/docker'', ''/var/run'', VolumeRootDir]"

definition isSubPath :: "string \<Rightarrow> string \<Rightarrow> bool" where
  "isSubPath parent arg = hasPrefix arg (parent @ ''/'')"

definition CheckVolumeMountPath :: "string \<Rightarrow> err option" where
  "CheckVolumeMountPath arg =
     (if arg = [] then Some (InvalidArg ''Volume mountPath is empty'')
      else if length arg > 256 then Some (InvalidArg (''Volume mountPath is too long: '' @ arg))
      else if \<not> hasPrefix arg ''/'' then
        Some (InvalidArg (''Volume mountPath must be absolute: '' @ arg))
      else if strContains arg [CHR 0x5C] \<or> CHR 0x00 \<in> set arg then
        Some (InvalidArg (''Invalid Volume mountPath: '' @ arg))
      else if pathClean arg \<noteq> arg then
        Some (InvalidArg (''Volume mountPath must be a clean canonical path (e.g. '' @ pathClean arg
          @ ''): '' @ arg))
      else if arg \<in> set reservedVolumeMountPaths then
        Some (InvalidArg (''The Volume mountPath: '' @ arg @ '' is reserved by the Cluster''))
      else if list_ex (\<lambda>r. arg = r \<or> isSubPath r arg) reservedVolumeMountTrees then
        Some (InvalidArg (''The Volume mountPath: '' @ arg @ '' is reserved by the Cluster''))
      else None)"

text \<open>The check of a mount against the paths of the mounts before it.\<close>

fun checkOverlap :: "string list \<Rightarrow> string \<Rightarrow> err option" where
  "checkOverlap [] p = None"
| "checkOverlap (q # qs) p =
     (if q = p then Some (InvalidArg (''The Volume mountPath: '' @ p @ '' is already used''))
      else if isSubPath q p \<or> isSubPath p q then
        Some (InvalidArg (''The Volume mountPaths: '' @ q @ '' and '' @ p @ '' overlap''))
      else checkOverlap qs p)"

definition mountKey :: "object_ref \<Rightarrow> string" where
  "mountKey r = (if refUid r = [] then refName r else refUid r)"

fun validateMounts :: "string list \<Rightarrow> string list \<Rightarrow> volume_mount option list \<Rightarrow> err option" where
  "validateMounts paths volumes [] = None"
| "validateMounts paths volumes (None # ms) = Some (InvalidArg ''A Volume mount is not set'')"
| "validateMounts paths volumes (Some m # ms) =
     (case vmVolumeRef m of
        None \<Rightarrow> Some (InvalidArg ''The volumeRef of a Volume mount is not set'')
      | Some r \<Rightarrow>
          if refName r = [] \<and> refUid r = [] then
            Some (InvalidArg ''The volumeRef of a Volume mount is not set'')
          else case CheckVolumeMountPath (vmMountPath m) of
            Some e \<Rightarrow> Some e
          | None \<Rightarrow>
              (case checkOverlap paths (vmMountPath m) of
                 Some e \<Rightarrow> Some e
               | None \<Rightarrow>
                   if mountKey r \<in> set volumes then
                     Some (InvalidArg (''The Volume: '' @ mountKey r @ '' is mounted more than once''))
                   else validateMounts (paths @ [vmMountPath m]) (volumes @ [mountKey r]) ms))"

definition ValidateVolumeMounts :: "volume_mount option list \<Rightarrow> err option" where
  "ValidateVolumeMounts mounts =
     (if mounts = [] then None
      else if length mounts > MaxVolumeMountsPerWorkspace then
        Some (InvalidArg ''Too many Volume mounts'')
      else validateMounts [] [] mounts)"

section \<open>Paths as lists of elements\<close>

text \<open>The absolute path with these elements.\<close>

definition absPath :: "string list \<Rightarrow> string" where
  "absPath fs = CHR ''/'' # joinWith ''/'' fs"

lemma cleanElem_no_slash: "cleanElem f \<Longrightarrow> CHR ''/'' \<notin> set f"
  by (simp add: cleanElem_def)

lemma splitOn_clean:
  "list_all cleanElem fs \<Longrightarrow> fs \<noteq> [] \<Longrightarrow> splitOn CHR ''/'' (joinWith ''/'' fs) = fs"
  by (rule splitOn_joinWith) (simp_all add: list_all_iff cleanElem_no_slash)

lemma absPath_inj:
  assumes "absPath as = absPath bs" "list_all cleanElem as" "list_all cleanElem bs" "as \<noteq> []" "bs \<noteq> []"
  shows "as = bs"
proof -
  have "joinWith ''/'' as = joinWith ''/'' bs"
    using assms(1) by (simp add: absPath_def)
  then show ?thesis
    using splitOn_clean[OF assms(2,4)] splitOn_clean[OF assms(3,5)] by metis
qed

lemma clean_absolute:
  "hasPrefix p ''/'' \<and> pathClean p = p \<longleftrightarrow> (\<exists>fs. p = absPath fs \<and> list_all cleanElem fs)"
  using pathClean_rooted[of p] pathClean_canonical
  by (auto simp: absPath_def hasPrefix_def) (metis Cons_eq_appendI)

lemma joinWith_append:
  "as \<noteq> [] \<Longrightarrow> bs \<noteq> [] \<Longrightarrow> joinWith sep (as @ bs) = joinWith sep as @ sep @ joinWith sep bs"
  by (induction as rule: list_nonempty_induct) (simp_all add: joinWith_Cons)

lemma splitOn_append_sep: "splitOn c (xs @ c # ys) = splitOn c xs @ splitOn c ys"
proof (induction xs)
  case (Cons x xs)
  then show ?case
    using splitOn.simps by (cases "splitOn c xs") auto
qed simp

lemma isSubPath_strict_prefix:
  assumes "list_all cleanElem as" "list_all cleanElem bs" "as \<noteq> []" "bs \<noteq> []"
  shows "isSubPath (absPath as) (absPath bs) \<longleftrightarrow> strict_prefix as bs"
proof
  note sp = splitOn_clean[OF assms(1,3)] splitOn_clean[OF assms(2,4)]
  assume "isSubPath (absPath as) (absPath bs)"
  then obtain r where "joinWith ''/'' bs = joinWith ''/'' as @ CHR ''/'' # r"
    by (auto simp: isSubPath_def absPath_def hasPrefix_conv)
  then have "bs = as @ splitOn CHR ''/'' r"
    using sp splitOn_append_sep by metis
  moreover have "splitOn CHR ''/'' r \<noteq> []"
    by (cases r) (auto split: list.splits)
  ultimately show "strict_prefix as bs"
    by (auto simp: strict_prefix_def)
next
  assume "strict_prefix as bs"
  then obtain cs where "bs = as @ cs" "cs \<noteq> []"
    by (auto simp: strict_prefix_def prefix_def)
  then show "isSubPath (absPath as) (absPath bs)"
    using assms by (auto simp: isSubPath_def absPath_def hasPrefix_conv joinWith_append)
qed

section \<open>What the validation accepts\<close>

text \<open>The reserved trees, as elements.\<close>

definition reservedTreeElems :: "string list list" where
  "reservedTreeElems =
     [[''dev''], [''octelium''], [''proc''], [''run''], [''sys''], [''var'', ''lib'', ''containers''],
       [''var'', ''lib'', ''docker''], [''var'', ''run''], [''cordium-volumes'']]"

text \<open>
  A path that a Volume may be mounted at: at most 256 bytes, clean elements, not one of the
  reserved paths and not inside a reserved tree, in terms of elements.
\<close>

definition mountable :: "string list \<Rightarrow> bool" where
  "mountable fs \<longleftrightarrow> list_all cleanElem fs \<and> fs \<noteq> [] \<and> length (absPath fs) \<le> 256
     \<and> CHR 0x5C \<notin> set (absPath fs) \<and> CHR 0x00 \<notin> set (absPath fs)
     \<and> absPath fs \<notin> set reservedVolumeMountPaths
     \<and> list_all (\<lambda>r. \<not> prefix r fs) reservedTreeElems"

lemma reservedTrees_elems: "reservedVolumeMountTrees = map absPath reservedTreeElems"
  by (simp add: reservedVolumeMountTrees_def reservedTreeElems_def absPath_def VolumeRootDir_def)

lemma reservedTrees_clean: "list_all (\<lambda>r. list_all cleanElem r \<and> r \<noteq> []) reservedTreeElems"
  by (simp add: reservedTreeElems_def cleanElem_def)

lemma in_tree_iff:
  assumes "list_all cleanElem as" "list_all cleanElem bs" "as \<noteq> []" "bs \<noteq> []"
  shows "absPath bs = absPath as \<or> isSubPath (absPath as) (absPath bs) \<longleftrightarrow> prefix as bs"
  using isSubPath_strict_prefix[OF assms] absPath_inj[of bs as] assms
  by (auto simp: strict_prefix_def)

lemma strContains_single: "strContains s [c] \<longleftrightarrow> c \<in> set s"
  by (auto simp: strContains_iff in_set_conv_decomp)

lemma reservedTrees_iff:
  assumes "list_all cleanElem fs" "fs \<noteq> []"
  shows "list_ex (\<lambda>r. absPath fs = r \<or> isSubPath r (absPath fs)) reservedVolumeMountTrees \<longleftrightarrow>
    list_ex (\<lambda>r. prefix r fs) reservedTreeElems"
  using in_tree_iff[OF _ assms(1) _ assms(2)] reservedTrees_clean
  by (simp add: reservedTrees_elems list_ex_iff list_all_iff)

lemma absPath_Nil_reserved: "absPath [] \<in> set reservedVolumeMountPaths"
  by (simp add: absPath_def reservedVolumeMountPaths_def)

lemma CheckVolumeMountPath_conv:
  "CheckVolumeMountPath p = None \<longleftrightarrow> (hasPrefix p ''/'' \<and> pathClean p = p)
      \<and> length p \<le> 256 \<and> CHR 0x5C \<notin> set p \<and> CHR 0x00 \<notin> set p
      \<and> p \<notin> set reservedVolumeMountPaths
      \<and> \<not> list_ex (\<lambda>r. p = r \<or> isSubPath r p) reservedVolumeMountTrees"
proof -
  have "\<not> hasPrefix [] ''/''"
    by (simp add: hasPrefix_def)
  then show ?thesis
    unfolding CheckVolumeMountPath_def strContains_single by (simp split: if_split)
qed

lemma CheckVolumeMountPath_None:
  "CheckVolumeMountPath p = None \<longleftrightarrow> (\<exists>fs. p = absPath fs \<and> mountable fs)"
proof
  assume "CheckVolumeMountPath p = None"
  then obtain fs where fs: "p = absPath fs" "list_all cleanElem fs"
    and c: "length p \<le> 256" "CHR 0x5C \<notin> set p" "CHR 0x00 \<notin> set p"
      "p \<notin> set reservedVolumeMountPaths"
      "\<not> list_ex (\<lambda>r. p = r \<or> isSubPath r p) reservedVolumeMountTrees"
    unfolding CheckVolumeMountPath_conv clean_absolute by blast
  have "fs \<noteq> []"
    using c(4) absPath_Nil_reserved unfolding fs(1) by metis
  then have "mountable fs"
    using fs(2) c reservedTrees_iff[OF fs(2)] unfolding fs(1) mountable_def
    by (simp only: list_all_iff list_ex_iff) blast
  then show "\<exists>fs. p = absPath fs \<and> mountable fs"
    using fs(1) by blast
next
  assume "\<exists>fs. p = absPath fs \<and> mountable fs"
  then obtain fs where fs: "p = absPath fs" "mountable fs"
    by blast
  then have "list_all cleanElem fs" "fs \<noteq> []"
    by (simp_all add: mountable_def)
  then show "CheckVolumeMountPath p = None"
    using fs(2) reservedTrees_iff[of fs] unfolding CheckVolumeMountPath_conv clean_absolute fs(1) mountable_def
    by (simp only: list_all_iff list_ex_iff) blast
qed

text \<open>Neither path is inside the other, in terms of elements.\<close>

definition disjointPaths :: "string \<Rightarrow> string \<Rightarrow> bool" where
  "disjointPaths p q \<longleftrightarrow> (\<exists>as bs. p = absPath as \<and> q = absPath bs \<and> mountable as \<and> mountable bs
     \<and> \<not> prefix as bs \<and> \<not> prefix bs as)"

lemma disjointPaths_iff:
  assumes "mountable as" "mountable bs"
  shows "disjointPaths (absPath as) (absPath bs) \<longleftrightarrow> \<not> prefix as bs \<and> \<not> prefix bs as"
  using assms absPath_inj unfolding disjointPaths_def mountable_def by blast

lemma checkOverlap_None:
  assumes "\<forall>q \<in> set qs. CheckVolumeMountPath q = None" "CheckVolumeMountPath p = None"
  shows "checkOverlap qs p = None \<longleftrightarrow> (\<forall>q \<in> set qs. disjointPaths q p)"
  using assms(1)
proof (induction qs)
  case (Cons q qs)
  obtain as bs where q: "q = absPath as" "mountable as" and p: "p = absPath bs" "mountable bs"
    using Cons.prems assms(2) by (auto simp: CheckVolumeMountPath_None)
  have "q = p \<or> isSubPath q p \<or> isSubPath p q \<longleftrightarrow> \<not> disjointPaths q p"
    unfolding q(1) p(1) disjointPaths_iff[OF q(2) p(2)]
    using in_tree_iff[of as bs] in_tree_iff[of bs as] q(2) p(2) by (auto simp: mountable_def)
  then show ?case
    using Cons by auto
qed simp

definition mountOK :: "volume_mount option \<Rightarrow> bool" where
  "mountOK m \<longleftrightarrow> (\<exists>m' r. m = Some m' \<and> vmVolumeRef m' = Some r \<and> (refName r \<noteq> [] \<or> refUid r \<noteq> [])
     \<and> (\<exists>fs. vmMountPath m' = absPath fs \<and> mountable fs))"

abbreviation mountPathOf :: "volume_mount option \<Rightarrow> string" where
  "mountPathOf m \<equiv> vmMountPath (the m)"

abbreviation mountVolumeOf :: "volume_mount option \<Rightarrow> string" where
  "mountVolumeOf m \<equiv> mountKey (the (vmVolumeRef (the m)))"

lemma validateMounts_None:
  "\<forall>q \<in> set paths. CheckVolumeMountPath q = None \<Longrightarrow>
   validateMounts paths volumes ms = None \<longleftrightarrow>
     list_all mountOK ms
     \<and> sorted_wrt (\<lambda>a b. disjointPaths (mountPathOf a) (mountPathOf b)) ms
     \<and> (\<forall>q \<in> set paths. \<forall>m \<in> set ms. disjointPaths q (mountPathOf m))
     \<and> distinct (map mountVolumeOf ms) \<and> (\<forall>m \<in> set ms. mountVolumeOf m \<notin> set volumes)"
proof (induction paths volumes ms rule: validateMounts.induct)
  case (3 paths volumes m ms)
  show ?case
  proof (cases "mountOK (Some m)")
    case True
    then obtain r where r: "vmVolumeRef m = Some r" "refName r \<noteq> [] \<or> refUid r \<noteq> []"
      and c: "CheckVolumeMountPath (vmMountPath m) = None"
      by (auto simp: mountOK_def CheckVolumeMountPath_None)
    have IH: "validateMounts (paths @ [vmMountPath m]) (volumes @ [mountKey r]) ms = None \<longleftrightarrow>
         list_all mountOK ms \<and> sorted_wrt (\<lambda>a b. disjointPaths (mountPathOf a) (mountPathOf b)) ms
         \<and> (\<forall>q \<in> set (paths @ [vmMountPath m]). \<forall>m \<in> set ms. disjointPaths q (mountPathOf m))
         \<and> distinct (map mountVolumeOf ms)
         \<and> (\<forall>m \<in> set ms. mountVolumeOf m \<notin> set (volumes @ [mountKey r]))"
      if "checkOverlap paths (vmMountPath m) = None" "mountKey r \<notin> set volumes"
      using 3 r c that by auto
    show ?thesis
      using r c True IH checkOverlap_None[OF 3(2) c]
      by (auto simp: image_iff split: option.splits)
  next
    case False
    then show ?thesis
      by (auto simp: mountOK_def CheckVolumeMountPath_None split: option.splits if_splits)
  qed
qed (simp_all add: mountOK_def)

lemma ValidateVolumeMounts_spec:
  "ValidateVolumeMounts ms = None \<longleftrightarrow>
     length ms \<le> 16 \<and> list_all mountOK ms
     \<and> sorted_wrt (\<lambda>a b. disjointPaths (mountPathOf a) (mountPathOf b)) ms
     \<and> distinct (map mountVolumeOf ms)"
  using validateMounts_None[of "[]" "[]" ms]
  by (cases "ms = []") (auto simp: ValidateVolumeMounts_def MaxVolumeMountsPerWorkspace_def not_less)

section \<open>Properties\<close>

text \<open>
  C19: \<open>ValidateVolumeMounts\<close> accepts exactly the lists of at most 16 mounts, each set and with a
  Volume and a path that is absolute, canonical and outside the reserved paths and trees,
  such that no path is inside another, element by element, and no Volume is mounted twice.
\<close>

theorem ValidateVolumeMounts_accepts:
  "ValidateVolumeMounts ms = None \<longleftrightarrow>
     length ms \<le> 16 \<and> list_all mountOK ms
     \<and> sorted_wrt (\<lambda>a b. disjointPaths (mountPathOf a) (mountPathOf b)) ms
     \<and> distinct (map mountVolumeOf ms)"
  by (rule ValidateVolumeMounts_spec)

end
