(* ===== verification/Spec_Vars.thy ===== *)
theory Spec_Vars
  imports Resource_Helpers "HOL-Library.AList" "HOL-Library.Multiset"
begin

text \<open>
  The effective spec of a Workspace: \<open>cluster/common/wsutils/wsutils.go\<close> merges its spec with
  the one of its Template and renders the variables in it. \<open>proto.Merge\<close> is a parameter, and
  so is the order in which Go ranges over the map of variables: \<open>ord s\<close> permutes the entries
  while the string \<open>s\<close> is rendered.
\<close>

section \<open>Resolving the variables\<close>

type_synonym vars = "(string \<times> string) list"

fun addVars :: "vars \<Rightarrow> spec_var list \<Rightarrow> vars" where
  "addVars ret [] = ret"
| "addVars ret (v # vs) =
     addVars (if varName v \<noteq> [] then AList.update (varName v) (varValue v) ret else ret) vs"

definition resolveVars :: "spec_var list \<Rightarrow> spec_var list \<Rightarrow> spec_var list \<Rightarrow> vars" where
  "resolveVars templateVars workspaceVars runConfigVars =
     addVars (addVars (addVars [] templateVars) workspaceVars) runConfigVars"

section \<open>Rendering\<close>

fun substVars :: "vars \<Rightarrow> string \<Rightarrow> string" where
  "substVars [] s = s"
| "substVars ((name, value) # vs) s =
     substVars vs
       (replaceAll (replaceAll s (''${{ vars.'' @ name @ '' }}'') value)
          (''${{vars.'' @ name @ ''}}'') value)"

text \<open>The loop that removes what is not resolved: the first \<open>${{\<close> up to the next \<open>}}\<close>.\<close>

function stripVars :: "string \<Rightarrow> string" where
  "stripVars s =
     (if strContains s ''${{ vars.'' \<or> strContains s ''${{vars.'' then
        (case strIndex s ''${{'' of
           None \<Rightarrow> s
         | Some start \<Rightarrow>
             (case strIndex (drop start s) ''}}'' of
                None \<Rightarrow> s
              | Some e \<Rightarrow> stripVars (take start s @ drop (start + e + 2) s)))
      else s)"
  by pat_completeness auto
termination
proof (relation "measure length")
  fix s start e
  assume "strIndex s ''${{'' = Some start" "strIndex (drop start s) ''}}'' = Some e"
  then have "start + 3 \<le> length s" "e + 2 \<le> length s - start"
    using strIndex_Some by fastforce+
  then show "(take start s @ drop (start + e + 2) s, s) \<in> measure length"
    by simp
qed simp

declare stripVars.simps [simp del]

definition renderString :: "(string \<Rightarrow> vars \<Rightarrow> vars) \<Rightarrow> vars \<Rightarrow> string \<Rightarrow> string" where
  "renderString ord vars s =
     (if \<not> strContains s ''${{'' then s else stripVars (substVars (ord s vars) s))"

text \<open>
  What \<open>renderSpec\<close> rewrites, with \<open>r\<close> for \<open>renderString\<close> with the variables: strings in place,
  nothing else.
\<close>

fun renderImage :: "(string \<Rightarrow> string) \<Rightarrow> image \<Rightarrow> image" where
  "renderImage r (ImgRegistry g) = ImgRegistry (g\<lparr>regUrl := r (regUrl g)\<rparr>)"
| "renderImage r (ImgDockerfile (DfUrl u)) = ImgDockerfile (DfUrl (r u))"
| "renderImage r (ImgGit g) =
     ImgGit (g\<lparr>giUrl := r (giUrl g), giCheckout := r (giCheckout g),
               giDockerfile := r (giDockerfile g), giContext := r (giContext g)\<rparr>)"
| "renderImage r i = i"

definition renderRepository :: "(string \<Rightarrow> string) \<Rightarrow> repository \<Rightarrow> repository" where
  "renderRepository r repo =
     repo\<lparr>repoUrl := r (repoUrl repo),
          repoCloneOptions := map_option (\<lambda>c. c\<lparr>coBranch := r (coBranch c), coCheckout := r (coCheckout c)\<rparr>)
            (repoCloneOptions repo)\<rparr>"

definition renderEnvVar :: "(string \<Rightarrow> string) \<Rightarrow> env_var \<Rightarrow> env_var" where
  "renderEnvVar r e = (case evType e of EnvValue v \<Rightarrow> e\<lparr>evType := EnvValue (r v)\<rparr> | _ \<Rightarrow> e)"

definition renderTask :: "(string \<Rightarrow> string) \<Rightarrow> task \<Rightarrow> task" where
  "renderTask r t =
     t\<lparr>tkRun := r (tkRun t), tkWorkingDir := r (tkWorkingDir t),
       tkEnvVars := map (\<lambda>e. e\<lparr>teValue := r (teValue e)\<rparr>) (tkEnvVars t)\<rparr>"

definition renderRuntime :: "(string \<Rightarrow> string) \<Rightarrow> runtime \<Rightarrow> runtime" where
  "renderRuntime r t =
     t\<lparr>rtEnvVars := map (renderEnvVar r) (rtEnvVars t), rtTasks := map (renderTask r) (rtTasks t)\<rparr>"

definition renderSpecWith :: "(string \<Rightarrow> string) \<Rightarrow> ws_spec \<Rightarrow> ws_spec" where
  "renderSpecWith r spec =
     spec\<lparr>spImage := map_option (renderImage r) (spImage spec),
          spRepository := map_option (renderRepository r) (spRepository spec),
          spAdditionalRepositories :=
            map (\<lambda>a. a\<lparr>arRepository := map_option (renderRepository r) (arRepository a)\<rparr>)
              (spAdditionalRepositories spec),
          spRuntime := map_option (renderRuntime r) (spRuntime spec)\<rparr>"

definition renderSpec :: "(string \<Rightarrow> vars \<Rightarrow> vars) \<Rightarrow> vars \<Rightarrow> ws_spec \<Rightarrow> ws_spec" where
  "renderSpec ord vars spec =
     (if vars = [] then spec else renderSpecWith (renderString ord vars) spec)"

section \<open>Merging\<close>

text \<open>A nil Workspace is an error; the other arguments may be nil.\<close>

record merge_req =
  mrWorkspace :: "workspace option"
  mrTemplate :: "template option"
  mrChildWorkspace :: "workspace option"

definition templateSpec :: "template \<Rightarrow> ws_spec" where
  "templateSpec t =
     emptySpec\<lparr>spImage := tsImage (tmSpec t), spRuntime := tsRuntime (tmSpec t),
       spRepository := tsRepository (tmSpec t),
       spAdditionalRepositories := tsAdditionalRepositories (tmSpec t)\<rparr>"

definition mergeSpec :: "(ws_spec \<Rightarrow> ws_spec \<Rightarrow> ws_spec) \<Rightarrow> merge_req \<Rightarrow> err + ws_spec" where
  "mergeSpec protoMerge req =
     (case mrWorkspace req of
        None \<Rightarrow> Inl (Errorf ''Cannot Merge a nil Workspace'')
      | Some ws \<Rightarrow>
          let specWorkspace = (case mrChildWorkspace req of
                 None \<Rightarrow> wsSpec ws | Some c \<Rightarrow> protoMerge (wsSpec ws) (wsSpec c))
          in case mrTemplate req of
               None \<Rightarrow> Inr specWorkspace
             | Some t \<Rightarrow> Inr (protoMerge (templateSpec t) specWorkspace))"

definition runConfigVars :: "workspace \<Rightarrow> spec_var list" where
  "runConfigVars ws =
     (case stRun (wsStatus ws) of
        None \<Rightarrow> []
      | Some r \<Rightarrow> (case runConfig r of
                     None \<Rightarrow> []
                   | Some c \<Rightarrow> if length (rcVars c) > 1000 then [] else rcVars c))"

definition MergeSpec ::
  "(ws_spec \<Rightarrow> ws_spec \<Rightarrow> ws_spec) \<Rightarrow> (string \<Rightarrow> vars \<Rightarrow> vars) \<Rightarrow> merge_req \<Rightarrow> err + ws_spec" where
  "MergeSpec protoMerge ord req =
     (case mergeSpec protoMerge req of
        Inl e \<Rightarrow> Inl e
      | Inr merged \<Rightarrow>
          let ws = the (mrWorkspace req);
              vars = resolveVars (case mrTemplate req of None \<Rightarrow> [] | Some t \<Rightarrow> tsVars (tmSpec t))
                (spVars (wsSpec ws)) (runConfigVars ws)
          in Inr (renderSpec ord vars merged))"

definition Merge ::
  "(ws_spec \<Rightarrow> ws_spec \<Rightarrow> ws_spec) \<Rightarrow> (string \<Rightarrow> vars \<Rightarrow> vars) \<Rightarrow> merge_req \<Rightarrow> err + workspace" where
  "Merge protoMerge ord req =
     (case MergeSpec protoMerge ord req of
        Inl e \<Rightarrow> Inl e
      | Inr spec \<Rightarrow> Inr ((the (mrWorkspace req))\<lparr>wsSpec := spec\<rparr>))"

section \<open>Terminal identifiers\<close>

definition isLower :: "char \<Rightarrow> bool" where
  "isLower c \<longleftrightarrow> (97 :: nat) \<le> of_char c \<and> of_char c \<le> (122 :: nat)"

definition isLowerDigit :: "char \<Rightarrow> bool" where
  "isLowerDigit c \<longleftrightarrow> isLower c \<or> ((48 :: nat) \<le> of_char c \<and> of_char c \<le> (57 :: nat))"

text \<open>The regular expression \<open>^[a-z][a-z0-9]{2,6}-[a-z0-9]{4}$\<close>.\<close>

definition rgxTerminalID :: "string \<Rightarrow> bool" where
  "rgxTerminalID s =
     (case splitOn CHR ''-'' s of
        [a, b] \<Rightarrow> a \<noteq> [] \<and> isLower (hd a) \<and> 2 \<le> length (tl a) \<and> length (tl a) \<le> 6
                \<and> list_all isLowerDigit (tl a) \<and> length b = 4 \<and> list_all isLowerDigit b
      | _ \<Rightarrow> False)"

definition CheckTerminalID :: "string \<Rightarrow> err option" where
  "CheckTerminalID arg = (if rgxTerminalID arg then None else Some (InvalidArg ''Invalid Terminal ID''))"

section \<open>Precedence\<close>

definition varMap :: "spec_var list \<Rightarrow> string \<rightharpoonup> string" where
  "varMap vs = map_of (rev (map (\<lambda>v. (varName v, varValue v)) (filter (\<lambda>v. varName v \<noteq> []) vs)))"

lemma addVars_map: "map_of (addVars ret vs) = map_of ret ++ varMap vs"
proof (induction ret vs rule: addVars.induct)
  case (2 ret v vs)
  then show ?case
    by (auto simp: varMap_def update_conv' map_add_def fun_eq_iff split: option.splits)
qed (simp add: varMap_def)

lemma addVars_distinct: "distinct (map fst ret) \<Longrightarrow> distinct (map fst (addVars ret vs))"
  by (induction ret vs rule: addVars.induct) (simp_all add: distinct_update)

lemma resolveVars_map:
  "map_of (resolveVars ts ws rs) = varMap ts ++ varMap ws ++ varMap rs"
  by (simp add: resolveVars_def addVars_map)

lemma resolveVars_distinct: "distinct (map fst (resolveVars ts ws rs))"
  by (simp add: resolveVars_def addVars_distinct)

section \<open>What rendering does\<close>

text \<open>A text as its parts: literal text, and references to variables in either spelling.\<close>

datatype segment = Lit string | Ref bool string

fun segText :: "segment \<Rightarrow> string" where
  "segText (Lit s) = s"
| "segText (Ref True n) = ''${{ vars.'' @ n @ '' }}''"
| "segText (Ref False n) = ''${{vars.'' @ n @ ''}}''"

fun segValue :: "vars \<Rightarrow> segment \<Rightarrow> string" where
  "segValue vs (Lit s) = s"
| "segValue vs (Ref b n) = (case map_of vs n of None \<Rightarrow> [] | Some x \<Rightarrow> x)"

definition plain :: "string \<Rightarrow> bool" where
  "plain s \<longleftrightarrow> CHR ''$'' \<notin> set s"

definition nameOK :: "string \<Rightarrow> bool" where
  "nameOK n \<longleftrightarrow> plain n \<and> CHR ''}'' \<notin> set n"

fun segOK :: "segment \<Rightarrow> bool" where
  "segOK (Lit s) = plain s"
| "segOK (Ref b n) = nameOK n"

definition segsText :: "segment list \<Rightarrow> string" where
  "segsText segs = concat (map segText segs)"

lemma segsText_simps [simp]: "segsText [] = []" "segsText (g # gs) = segText g @ segsText gs"
  by (simp_all add: segsText_def)

lemma plain_simps [simp]: "plain []" "plain (c # s) \<longleftrightarrow> c \<noteq> CHR ''$'' \<and> plain s" "plain (a @ b) \<longleftrightarrow> plain a \<and> plain b"
  by (auto simp: plain_def)

lemma segText_Ref: "segText (Ref b n) = CHR ''$'' # tl (segText (Ref b n))" "nameOK n \<Longrightarrow> plain (tl (segText (Ref b n)))"
  by (cases b; simp add: nameOK_def)+

lemma replaceAll_plain:
  "plain a \<Longrightarrow> replaceAll (a @ r) (CHR ''$'' # p) x = a @ replaceAll r (CHR ''$'' # p) x"
  by (induction a) (simp_all add: hasPrefix_conv)

lemma replaceAll_match: "p \<noteq> [] \<Longrightarrow> replaceAll (p @ r) p x = x @ replaceAll r p x"
  by (cases p) (simp_all add: hasPrefix_conv)

lemma until_brace:
  assumes "CHR ''}'' \<notin> set m" "CHR ''}'' \<notin> set n" "m @ CHR ''}'' # r = n @ CHR ''}'' # q"
  shows "m = n"
proof -
  have until: "takeWhile (\<lambda>x. x \<noteq> c) (k @ c # t) = k" if "c \<notin> set k" for c :: char and k t
    using that by (induction k) auto
  show ?thesis using until[OF assms(1), of r] until[OF assms(2), of q] assms(3) by simp
qed

lemma refs_differ:
  assumes "nameOK m" "nameOK n" "hasPrefix (segText (Ref b m) @ r) (segText (Ref c n))"
  shows "b = c \<and> m = n"
proof -
  obtain q where q: "segText (Ref b m) @ r = segText (Ref c n) @ q"
    using assms(3) by (auto simp: hasPrefix_conv)
  show ?thesis
  proof (cases b)
    case True
    with q have "c" by (cases c) simp_all
    with True q have "(m @ '' '') @ CHR ''}'' # CHR ''}'' # r = (n @ '' '') @ CHR ''}'' # CHR ''}'' # q" by simp
    then have "m @ '' '' = n @ '' ''" by (rule until_brace[rotated 2]) (use assms(1,2) in \<open>simp_all add: nameOK_def\<close>)
    with True \<open>c\<close> show ?thesis by simp
  next
    case False
    with q have "\<not> c" by (cases c) simp_all
    with False q have "m @ CHR ''}'' # CHR ''}'' # r = n @ CHR ''}'' # CHR ''}'' # q" by simp
    then have "m = n" by (rule until_brace[rotated 2]) (use assms(1,2) in \<open>simp_all add: nameOK_def\<close>)
    with False \<open>\<not> c\<close> show ?thesis by simp
  qed
qed

lemma replaceAll_segs:
  assumes "list_all segOK segs" "nameOK n"
  shows "replaceAll (segsText segs) (segText (Ref b n)) x = segsText (map (\<lambda>g. if g = Ref b n then Lit x else g) segs)"
  using assms(1)
proof (induction segs)
  case (Cons g gs)
  let ?p = "segText (Ref b n)"
  obtain p where p: "?p = CHR ''$'' # p" using segText_Ref(1) by blast
  have IH: "replaceAll (segsText gs) ?p x = segsText (map (\<lambda>g. if g = Ref b n then Lit x else g) gs)" using Cons by simp
  show ?case
  proof (cases g)
    case (Lit s)
    then show ?thesis using Cons.prems IH replaceAll_plain[of s "segsText gs" p x] by (simp add: p)
  next
    case (Ref c m)
    show ?thesis
    proof (cases "g = Ref b n")
      case True
      then show ?thesis using IH replaceAll_match[of ?p "segsText gs" x] p by simp
    next
      case False
      then have "\<not> hasPrefix (segText (Ref c m) @ segsText gs) ?p"
        using refs_differ[of m n c "segsText gs" b] Cons.prems assms(2) Ref by auto
      then have "replaceAll (segText (Ref c m) @ segsText gs) ?p x
          = CHR ''$'' # replaceAll (tl (segText (Ref c m)) @ segsText gs) ?p x"
        by (subst (1 3) segText_Ref(1), subst (asm) segText_Ref(1)) simp
      also have "\<dots> = CHR ''$'' # tl (segText (Ref c m)) @ replaceAll (segsText gs) ?p x"
        using replaceAll_plain[of "tl (segText (Ref c m))" "segsText gs" p x] segText_Ref(2)[of m c] Cons.prems Ref by (simp add: p)
      finally have "replaceAll (segText g @ segsText gs) ?p x = segText g @ replaceAll (segsText gs) ?p x"
        using Ref segText_Ref(1)[of c m] by simp
      then show ?thesis using False IH by simp
    qed
  qed
qed simp

text \<open>What substituting the variables leaves of a part.\<close>

fun resolveSeg :: "vars \<Rightarrow> segment \<Rightarrow> segment" where
  "resolveSeg vs (Lit s) = Lit s"
| "resolveSeg vs (Ref b n) = (case map_of vs n of None \<Rightarrow> Ref b n | Some x \<Rightarrow> Lit x)"

lemma substVars_segs:
  assumes "list_all segOK segs" "list_all (\<lambda>(n, x). nameOK n \<and> plain x) vs"
  shows "substVars vs (segsText segs) = segsText (map (resolveSeg vs) segs)"
  using assms
proof (induction vs arbitrary: segs)
  case Nil
  have "resolveSeg [] g = g" for g by (cases g) simp_all
  then show ?case by simp
next
  case (Cons v vs)
  obtain n x where v: "v = (n, x)" by (cases v)
  let ?sub = "\<lambda>b g. if g = Ref b n then Lit x else g"
  have ok: "list_all segOK (map (?sub b) gs)" if "list_all segOK gs" for b gs
    using that Cons.prems(2) v by (auto simp: list_all_iff)
  have "substVars (v # vs) (segsText segs) = substVars vs (segsText (map (?sub False) (map (?sub True) segs)))"
    using replaceAll_segs[OF Cons.prems(1), of n True x] replaceAll_segs[OF ok[OF Cons.prems(1), of True], of n False x] Cons.prems(2) v
    by simp
  also have "\<dots> = segsText (map (resolveSeg vs) (map (?sub False) (map (?sub True) segs)))"
    using Cons.prems(2) v by (intro Cons.IH ok Cons.prems(1)) simp
  also have "map (resolveSeg vs) (map (?sub False) (map (?sub True) segs)) = map (resolveSeg (v # vs)) segs"
  proof -
    have "resolveSeg vs (?sub False (?sub True g)) = resolveSeg (v # vs) g" for g
      by (cases g) (auto simp: v split: option.splits)
    then show ?thesis by simp
  qed
  finally show ?case .
qed

lemma strIndex_first: "c \<notin> set a \<Longrightarrow> strIndex (a @ c # p @ r) (c # p) = Some (length a)"
  by (induction a) (auto simp: hasPrefix_conv)

lemma strContains_plain: "plain a \<Longrightarrow> \<not> strContains a (CHR ''$'' # p)"
  by (induction a) (auto simp: strContains_def hasPrefix_conv)

lemma stripVars_segs:
  assumes "list_all segOK segs" "plain a"
  shows "stripVars (a @ segsText segs) = a @ concat (map (\<lambda>g. case g of Lit s \<Rightarrow> s | Ref b n \<Rightarrow> []) segs)"
  using assms
proof (induction segs arbitrary: a)
  case Nil
  then show ?case by (subst stripVars.simps) (simp add: strContains_plain)
next
  case (Cons g gs)
  show ?case
  proof (cases g)
    case (Lit s)
    then show ?thesis using Cons.IH[of "a @ s"] Cons.prems by simp
  next
    case (Ref b n)
    let ?t = "segText (Ref b n)" and ?s = "a @ segText g @ segsText gs"
    obtain t where t: "?t = ''${{'' @ t" by (cases b) auto
    obtain u where u: "?t = u @ ''}}''" "CHR ''}'' \<notin> set u"
    proof (cases b)
      case True
      then show thesis using that[of "''${{ vars.'' @ n @ '' ''"] Cons.prems(1) Ref by (simp add: nameOK_def)
    next
      case False
      then show thesis using that[of "''${{vars.'' @ n"] Cons.prems(1) Ref by (simp add: nameOK_def)
    qed
    have "strContains ?s ''${{ vars.'' \<or> strContains ?s ''${{vars.''"
      unfolding Ref strContains_iff by (cases b) force+
    moreover have "strIndex ?s ''${{'' = Some (length a)"
      using strIndex_first[of "CHR ''$''" a "''{{''" "t @ segsText gs"] Cons.prems(2) t Ref by (simp add: plain_def)
    moreover have "strIndex (drop (length a) ?s) ''}}'' = Some (length u)"
      using strIndex_first[OF u(2), of "''}''" "segsText gs"] u(1) Ref by simp
    moreover have "take (length a) ?s @ drop (length a + length u + 2) ?s = a @ segsText gs"
      using u(1) Ref by simp
    ultimately have "stripVars ?s = stripVars (a @ segsText gs)"
      by (subst stripVars.simps) (simp only: if_True option.case)
    then show ?thesis using Cons Ref by simp
  qed
qed

section \<open>Properties\<close>

text \<open>
  C22: Rendering a text replaces each reference to a variable, in either spelling, by the value of the variable, and by nothing
  when there is no such variable, and keeps everything else, in whatever order Go ranges over the map of
  variables. The literal text and the values hold no \<open>$\<close>, and the names neither \<open>$\<close> nor
  \<open>}\<close>: a value with a reference in it may or may not be rendered again.
\<close>

theorem renderString_resolves:
  assumes "list_all segOK segs" and "list_all (\<lambda>(n, x). nameOK n \<and> plain x) vars"
    and "distinct (map fst vars)" and "mset (ord (segsText segs) vars) = mset vars"
  shows "renderString ord vars (segsText segs) = concat (map (segValue vars) segs)"
proof -
  let ?vs = "ord (segsText segs) vars"
  have sets: "set ?vs = set vars" using assms(4) by (rule mset_eq_setD)
  have "mset (map fst ?vs) = mset (map fst vars)" using assms(4) by simp
  then have "distinct (map fst ?vs)" using assms(3) by (metis mset_eq_imp_distinct_iff)
  then have look: "map_of ?vs = map_of vars" using assms(3) sets by (metis map_of_inject_set)
  have ok: "list_all (\<lambda>(n, x). nameOK n \<and> plain x) ?vs" using assms(2) sets by (simp add: list_all_iff)
  have segs: "list_all segOK (map (resolveSeg ?vs) segs)"
  proof -
    have "segOK (resolveSeg ?vs g)" if "segOK g" for g
      using that ok by (cases g) (auto simp: list_all_iff dest!: map_of_SomeD split: option.splits)
    then show ?thesis using assms(1) by (simp add: list_all_iff)
  qed
  have strip: "stripVars (substVars ?vs (segsText segs))
      = concat (map (\<lambda>g. case g of Lit s \<Rightarrow> s | Ref b n \<Rightarrow> []) (map (resolveSeg ?vs) segs))"
    using stripVars_segs[OF segs, of "[]"] substVars_segs[OF assms(1) ok] by simp
  have vals: "map (\<lambda>g. case g of Lit s \<Rightarrow> s | Ref b n \<Rightarrow> []) (map (resolveSeg ?vs) segs) = map (segValue vars) segs"
  proof -
    have "(case resolveSeg ?vs g of Lit s \<Rightarrow> s | Ref b n \<Rightarrow> []) = segValue vars g" for g
      by (cases g) (auto simp: look split: option.splits)
    then show ?thesis by simp
  qed
  show ?thesis
  proof (cases "strContains (segsText segs) ''${{''")
    case True
    then show ?thesis using strip[unfolded vals] by (simp add: renderString_def)
  next
    case False
    have "segsText segs = concat (map (segValue vars) segs)"
      using False
    proof (induction segs)
      case (Cons g gs)
      then have "\<not> strContains (segsText gs) ''${{''" and "\<not> strContains (segText g) ''${{''"
        by (auto simp: strContains_iff) (metis append.assoc)+
      moreover have "strContains (segText (Ref b n)) ''${{''" for b n
        by (cases b) (simp_all add: strContains_def hasPrefix_conv)
      ultimately show ?case using Cons.IH by (cases g) auto
    qed simp
    with False show ?thesis by (simp add: renderString_def)
  qed
qed

lemma renderString_resolves_witness:
  "renderString (\<lambda>_. rev) [(''a'', ''1''), (''b'', ''22'')] ''x${{ vars.a }}y${{vars.b}}z${{ vars.c }}.'' = ''x1y22z.''"
proof -
  let ?segs = "[Lit ''x'', Ref True ''a'', Lit ''y'', Ref False ''b'', Lit ''z'', Ref True ''c'', Lit ''.'']"
  have "list_all segOK ?segs" "list_all (\<lambda>(n, x). nameOK n \<and> plain x) [(''a'', ''1''), (''b'', ''22'')]"
    by (simp_all add: nameOK_def)
  from renderString_resolves[OF this, of "\<lambda>_. rev"] show ?thesis
    by (simp add: segsText_def)
qed

text \<open>
  C23: The variables of the run override those of the Workspace, which override those of the
  Template; within a list the last one wins, and an unnamed variable is ignored.
\<close>

theorem resolveVars_precedence:
  "map_of (resolveVars ts ws rs) = varMap ts ++ varMap ws ++ varMap rs
   \<and> distinct (map fst (resolveVars ts ws rs))"
  using resolveVars_map resolveVars_distinct by blast

end
