(* ===== verification/Workspace_Validate.thy ===== *)
theory Workspace_Validate
  imports Volume_Mounts Nft_Semantics
begin

text \<open>
  \<open>ValidateWorkspace\<close> (\<open>cluster/common/wsutils/workspacevalidate.go\<close>): the checks of a
  Workspace's spec, in the order of the code, one definition per part of the spec. The
  validators of \<open>govalidator\<close> and \<open>apivalidation\<close> are parameters.
\<close>

section \<open>Parameters\<close>

text \<open>
  \<open>govalidator.IsURL\<close>, \<open>IsUnixFilePath\<close> and \<open>IsASCII\<close>; \<open>apivalidation.ValidateName\<close>;
  \<open>vUrlParses\<close> tells whether \<open>url.Parse\<close> succeeds, and \<open>vErrString\<close> is the text of an error.
\<close>

record validators =
  vIsURL :: "string \<Rightarrow> bool"
  vIsUnixFilePath :: "string \<Rightarrow> bool"
  vIsASCII :: "string \<Rightarrow> bool"
  vValidateName :: "string \<Rightarrow> nat \<Rightarrow> nat \<Rightarrow> err option"
  vUrlParses :: "string \<Rightarrow> bool"
  vErrString :: "err \<Rightarrow> string"

section \<open>Checks\<close>

text \<open>Run the checks in order; the first error is the result.\<close>

fun checks :: "err option list \<Rightarrow> err option" where
  "checks [] = None"
| "checks (c # cs) = (case c of Some e \<Rightarrow> Some e | None \<Rightarrow> checks cs)"

definition bad :: "bool \<Rightarrow> string \<Rightarrow> err option" where
  "bad c msg = (if c then Some (InvalidArg msg) else None)"

declare checks.simps [simp del]

lemma checks_None [simp]: "checks cs = None \<longleftrightarrow> list_all (\<lambda>c. c = None) cs"
  by (induction cs) (auto simp: checks.simps split: option.splits)

lemma bad_None [simp]: "bad c msg = None \<longleftrightarrow> \<not> c"
  by (simp add: bad_def)

definition isValidURL :: "validators \<Rightarrow> string \<Rightarrow> bool" where
  "isValidURL v arg \<longleftrightarrow> vIsURL v arg \<and> \<not> length arg > 256"

text \<open>The regular expressions of the file.\<close>

definition isUpper :: "char \<Rightarrow> bool" where
  "isUpper c \<longleftrightarrow> (65 :: nat) \<le> of_char c \<and> of_char c \<le> (90 :: nat)"

definition isLowerCase :: "char \<Rightarrow> bool" where
  "isLowerCase c \<longleftrightarrow> (97 :: nat) \<le> of_char c \<and> of_char c \<le> (122 :: nat)"

text \<open>\<open>^(ALL|[A-Z][A-Z0-9_]{0,29})$\<close>\<close>

definition k8sCapabilityRegex :: "string \<Rightarrow> bool" where
  "k8sCapabilityRegex s \<longleftrightarrow> s = ''ALL''
     \<or> (s \<noteq> [] \<and> isUpper (hd s) \<and> length (tl s) \<le> 29
        \<and> list_all (\<lambda>c. isUpper c \<or> isDigit c \<or> c = CHR ''_'') (tl s))"

text \<open>\<open>^[A-Za-z0-9_][A-Za-z0-9._/+-]{0,254}$\<close>\<close>

definition gitRefStart :: "char \<Rightarrow> bool" where
  "gitRefStart c \<longleftrightarrow> isUpper c \<or> isLowerCase c \<or> isDigit c \<or> c = CHR ''_''"

definition gitRefRegex :: "string \<Rightarrow> bool" where
  "gitRefRegex s \<longleftrightarrow> s \<noteq> [] \<and> gitRefStart (hd s) \<and> length (tl s) \<le> 254
     \<and> list_all (\<lambda>c. gitRefStart c \<or> c \<in> set ''./+-'') (tl s)"

definition checkGitRef :: "string \<Rightarrow> string \<Rightarrow> err option" where
  "checkGitRef field arg =
     (let e = Some (InvalidArg (''Invalid git '' @ field @ '': '' @ arg))
      in if arg = [] then None
         else if \<not> gitRefRegex arg then e
         else if strContains arg ''..'' then e
         else if hasSuffix arg ''.lock'' \<or> hasSuffix arg ''/'' then e
         else None)"

text \<open>
  A reference to a Secret by name: it must exist in the list and belong to the Space. A list
  that was not loaded is an error of its own for the passwords, and a nil dereference for the
  environment variables; a Secret without a Space is one in both.
\<close>

definition secretInSpace :: "secret list \<Rightarrow> space \<Rightarrow> string \<Rightarrow> err option" where
  "secretInSpace secs space name =
     (case SecretList_GetByName secs name of
        Inl _ \<Rightarrow> Some (NotFoundErr (''The Secret: '' @ name @ '' does not exist''))
      | Inr sec \<Rightarrow>
          (case secSpaceRef sec of
             None \<Rightarrow> Some (Panic ''nil SpaceRef'')
           | Some r \<Rightarrow> bad (refUid r \<noteq> mdUid (spcMetadata space)) (''The Secret does not exist: '' @ name)))"

definition checkPassword :: "secret list option \<Rightarrow> space \<Rightarrow> password \<Rightarrow> err option" where
  "checkPassword secs space pw =
     (case pw of
        PwUnset \<Rightarrow> None
      | PwFromSecret name \<Rightarrow>
          if name = [] then Some (InvalidArg ''Empty Secret name'')
          else (case secs of
                  None \<Rightarrow> Some (InvalidArg ''No SecretList provided'')
                | Some ss \<Rightarrow> secretInSpace ss space name))"

definition checkUserPassword ::
  "validators \<Rightarrow> secret list option \<Rightarrow> space \<Rightarrow> string \<Rightarrow> string \<Rightarrow> string \<Rightarrow> string \<Rightarrow> password option \<Rightarrow> err option" where
  "checkUserPassword v secs space emptyMsg longMsg invalidMsg username pw =
     checks [bad (username = []) emptyMsg, bad (length username > 150) longMsg,
       bad (\<not> vIsASCII v username) invalidMsg,
       (case pw of None \<Rightarrow> Some (InvalidArg ''Basic authentication password must be set'')
                 | Some p \<Rightarrow> checkPassword secs space p)]"

section \<open>The image\<close>

definition checkImage :: "validators \<Rightarrow> secret list option \<Rightarrow> space \<Rightarrow> image \<Rightarrow> err option" where
  "checkImage v secs space img =
     (case img of
        ImgUnset \<Rightarrow> None
      | ImgDockerfile d \<Rightarrow>
          (case d of
             DfUnset \<Rightarrow> None
           | DfInline s \<Rightarrow> checks [bad (length s = 0) ''Empty Dockerfile'', bad (length s > 5000) ''Too large Dockerfile'']
           | DfUrl u \<Rightarrow> bad (\<not> isValidURL v u) ''Dockerfile URL is not valid'')
      | ImgGit g \<Rightarrow>
          checks [bad (\<not> isValidURL v (giUrl g)) ''Image git URL is not valid'',
            checkGitRef ''checkout'' (giCheckout g),
            bad (giDockerfile g \<noteq> [] \<and> \<not> vIsUnixFilePath v (giDockerfile g)) ''Invalid git Dockerfile path'']
      | ImgRegistry r \<Rightarrow>
          checks [bad (regUrl r = []) ''Image URL is empty'',
            bad (\<not> vIsUnixFilePath v (regUrl r) \<and> \<not> isValidURL v (regUrl r)) (''Invalid Image URL: '' @ regUrl r),
            (case regAuthentication r of
               None \<Rightarrow> None
             | Some a \<Rightarrow> checkUserPassword v secs space ''Empty registry authentication username''
                 ''Registry authentication username is too long'' ''Invalid registry authentication username''
                 (raUsername a) (raPassword a))]
      | ImgRepository r \<Rightarrow>
          (case r of
             RiUnset \<Rightarrow> None
           | RiDevcontainer d \<Rightarrow> bad (\<not> vIsUnixFilePath v d) ''Invalid devcontainers dir path''
           | RiDockerfile p c \<Rightarrow>
               checks [bad (\<not> vIsUnixFilePath v p) ''Invalid Dockerfile path'',
                 bad (length p > 256) ''Invalid Dockerfile path'',
                 bad (c \<noteq> [] \<and> \<not> vIsUnixFilePath v c) ''Invalid Dockerfile context'',
                 bad (c \<noteq> [] \<and> length c > 256) ''Invalid Dockerfile path'']))"

section \<open>The runtime\<close>

definition checkEnvVar :: "validators \<Rightarrow> secret list option \<Rightarrow> space \<Rightarrow> env_var \<Rightarrow> err option" where
  "checkEnvVar v secs space e =
     checks [bad (evKey e = []) ''Env variable cannot have an empty key'',
       bad (\<not> vIsASCII v (evKey e)) ''Invalid env var key'',
       bad (length (evKey e) > 64) ''Too long env var key'',
       (case evType e of
          EnvFromSecret name \<Rightarrow>
            if name = [] then Some (InvalidArg (''Empty Secret name for the env variable with key: '' @ evKey e))
            else (case secs of None \<Rightarrow> Some (Panic ''nil SecretList'')
                             | Some ss \<Rightarrow> secretInSpace ss space name)
        | EnvValue x \<Rightarrow>
            checks [bad (length x = 0) (''Empty value for env var: '' @ evKey e),
              bad (length x > 1024) (''Empty value for env var: '' @ x)]
        | EnvUnset \<Rightarrow> Some (InvalidArg (''No env variable value for the key: '' @ evKey e)))]"

definition checkTaskEnvVar :: "validators \<Rightarrow> task_env_var \<Rightarrow> err option" where
  "checkTaskEnvVar v e =
     checks [bad (teKey e = []) ''Env variable cannot have an empty key'',
       bad (\<not> vIsASCII v (teKey e)) ''Invalid env var key'',
       bad (length (teKey e) > 64) ''Too long env var key'',
       bad (length (teValue e) = 0) (''Empty value for env var: '' @ teKey e),
       bad (length (teValue e) > 1024) (''Empty value for env var: '' @ teKey e)]"

definition checkTask :: "validators \<Rightarrow> task \<Rightarrow> err option" where
  "checkTask v t =
     checks [bad (length (tkEnvVars t) > 256) ''Too large container env var list'',
       bad (tkRun t = []) ''Empty container command'',
       bad (length (tkRun t) > 5000) ''Command is too large'',
       bad (tkType t = Task_UNKNOWN) (''The type of the container command: '' @ tkRun t @ '' must be set''),
       bad (tkWorkingDir t \<noteq> [] \<and> \<not> vIsUnixFilePath v (tkWorkingDir t))
         (''Invalid working dir path: '' @ tkWorkingDir t),
       bad (tkWorkingDir t \<noteq> [] \<and> length (tkWorkingDir t) > 256)
         (''Too long working dir path: '' @ tkWorkingDir t),
       bad (length (tkEnvVars t) > 128) ''Too many env vars'',
       firstErr (checkTaskEnvVar v) (tkEnvVars t)]"

definition checkCapability :: "string \<Rightarrow> err option" where
  "checkCapability c = bad (\<not> k8sCapabilityRegex c) (''Invalid capability: '' @ c)"

definition checkCapabilities :: "capabilities \<Rightarrow> err option" where
  "checkCapabilities c =
     checks [bad (length (capAdd c) > 100) ''Too many capabilities'',
       bad (length (capDrop c) > 100) ''Too many capabilities'',
       firstErr checkCapability (capAdd c), firstErr checkCapability (capDrop c)]"

definition checkFeatureOption :: "validators \<Rightarrow> feature_option \<Rightarrow> err option" where
  "checkFeatureOption v o' =
     checks [bad (foKey o' = []) ''Empty feature option key'',
       bad (\<not> vIsASCII v (foKey o')) ''Invalid feature option key'',
       bad (length (foKey o') > 256) ''Too long feature option key'',
       bad (foValue o' = []) ''Empty feature option value'',
       bad (\<not> vIsASCII v (foValue o')) ''Invalid feature option value'',
       bad (length (foValue o') > 256) ''Too long feature option value'']"

definition checkFeature :: "validators \<Rightarrow> feature \<Rightarrow> err option" where
  "checkFeature v f =
     checks [bad (ftReference f = []) ''Empty devcontainer feature reference'',
       bad (\<not> vIsASCII v (ftReference f)) ''Invalid env var key'',
       bad (length (ftReference f) > 256) ''Too long env var key'',
       bad (length (ftOptions f) > 32) ''Too many feature options'',
       firstErr (checkFeatureOption v) (ftOptions f)]"

definition checkServeService :: "validators \<Rightarrow> string \<Rightarrow> err option" where
  "checkServeService v svc =
     (case vValidateName v svc 0 2 of
        None \<Rightarrow> None
      | Some e \<Rightarrow> Some (InvalidArg (''Invalid serveService: '' @ vErrString v e)))"

definition checkRuntime :: "validators \<Rightarrow> secret list option \<Rightarrow> space \<Rightarrow> runtime \<Rightarrow> err option" where
  "checkRuntime v secs space rt =
     checks [bad (length (rtEnvVars rt) > 128) ''Too many container env vars'',
       firstErr (checkEnvVar v secs space) (rtEnvVars rt),
       bad (length (rtCmd rt) > 1024) (''Too long cmd: '' @ rtCmd rt),
       bad (length (rtEntrypoint rt) > 1024) (''Too long cmd: '' @ rtEntrypoint rt),
       bad (length (rtTasks rt) > 128) ''Too many tasks'',
       firstErr (checkTask v) (rtTasks rt),
       (case rtCapabilities rt of None \<Rightarrow> None | Some c \<Rightarrow> checkCapabilities c),
       (case rtDevcontainers rt of
          None \<Rightarrow> None
        | Some fs \<Rightarrow> checks [bad (length fs > 100) ''Too many features'', firstErr (checkFeature v) fs]),
       (case rtServeServices rt of
          None \<Rightarrow> None
        | Some svcs \<Rightarrow> checks [bad (length svcs > 128) ''Too many serveServices'',
                          firstErr (checkServeService v) svcs]),
       (case rtNetwork rt of
          None \<Rightarrow> None
        | Some n \<Rightarrow>
            (case ValidateEgress (netEgress n) of
               None \<Rightarrow> None
             | Some e \<Rightarrow> Some (InvalidArg (''Invalid network egress: '' @ vErrString v e)))),
       ValidateVolumeMounts (map Some (rtVolumeMounts rt))]"

section \<open>Repositories, Applications and limits\<close>

text \<open>
  The scheme that \<open>url.Parse\<close> finds: letters, then digits, \<open>+\<close>, \<open>-\<close> and \<open>.\<close> too, up to the
  first colon, in lower case; there is none when another character comes first.
\<close>

fun scanScheme :: "string \<Rightarrow> string \<Rightarrow> string" where
  "scanScheme acc [] = []"
| "scanScheme acc (c # s) =
     (if isUpper c \<or> isLowerCase c then scanScheme (acc @ [c]) s
      else if isDigit c \<or> c \<in> set ''+-.'' then (if acc = [] then [] else scanScheme (acc @ [c]) s)
      else if c = CHR '':'' then acc
      else [])"

definition urlScheme :: "string \<Rightarrow> string" where
  "urlScheme s = strToLower (scanScheme [] s)"

definition checkRepo :: "validators \<Rightarrow> secret list option \<Rightarrow> space \<Rightarrow> bool \<Rightarrow> repository \<Rightarrow> err option" where
  "checkRepo v secs space mustHaveURL repo =
     checks [bad (repoUrl repo = [] \<and> mustHaveURL) ''Repository URL is empty'',
       (if repoUrl repo = [] then None
        else checks [bad (\<not> isValidURL v (repoUrl repo)) (''Invalid repository URL: '' @ repoUrl repo),
               bad (\<not> vUrlParses v (repoUrl repo)) (''Invalid repo URL: '' @ repoUrl repo),
               bad (urlScheme (repoUrl repo) \<noteq> ''https'')
                 (''Repo URL must have https scheme (e.g. '' @ [CHR 0x22] @ ''https://github.com/org/repo''
                   @ [CHR 0x22] @ '')'')]),
       (case repoCloneOptions repo of
          None \<Rightarrow> None
        | Some c \<Rightarrow> checks [checkGitRef ''branch'' (coBranch c), checkGitRef ''checkout'' (coCheckout c)]),
       (case repoAuthentication repo of
          Some (AuthHttp b) \<Rightarrow>
            checkUserPassword v secs space ''Empty basic authentication username''
              ''Basic authentication username is too long'' ''Invalid basic authentication username''
              (haUsername b) (haPassword b)
        | _ \<Rightarrow> None)]"

fun checkAdditional ::
  "validators \<Rightarrow> secret list option \<Rightarrow> space \<Rightarrow> string list \<Rightarrow> additional_repository list \<Rightarrow> err option" where
  "checkAdditional v secs space names [] = None"
| "checkAdditional v secs space names (p # ps) =
     checks [bad (arName p = []) ''Empty additional repository name'',
       vValidateName v (arName p) 0 0,
       bad (arName p \<in> set names) (''The additional repository name: '' @ arName p @ '' already exists''),
       (case arRepository p of
          None \<Rightarrow> Some (InvalidArg (''Repository details are not set for the additional Repository: '' @ arName p))
        | Some r \<Rightarrow> checkRepo v secs space True r),
       checkAdditional v secs space (names @ [arName p]) ps]"

fun checkApps :: "validators \<Rightarrow> string list \<Rightarrow> bool \<Rightarrow> application list \<Rightarrow> err option" where
  "checkApps v names hasDefault [] = None"
| "checkApps v names hasDefault (a # as) =
     checks [bad (appName a = []) ''Application name cannot be empty'',
       vValidateName v (appName a) 0 0,
       bad (appName a \<in> set names) (''The Application name: '' @ appName a @ '' already exists''),
       bad (appPort a = 0) (''Port number must be set for Application: '' @ appName a),
       bad (appPort a \<le> 0 \<or> appPort a > 65535) (''Invalid Application port: '' @ showInt (appPort a)),
       bad (length (appDisplayName a) > 128) (''Description is too long: '' @ appDisplayName a),
       bad (appIsDefault a \<and> hasDefault) ''Can only have one default Application'',
       checkApps v (names @ [appName a]) (hasDefault \<or> appIsDefault a) as]"

definition overLimit :: "u32 option \<Rightarrow> u32 \<Rightarrow> bool" where
  "overLimit x m \<longleftrightarrow> (case x of None \<Rightarrow> False | Some n \<Rightarrow> n > m)"

definition showLim :: "u32 option \<Rightarrow> string" where
  "showLim x = (case x of None \<Rightarrow> [] | Some n \<Rightarrow> showNat (unat n))"

definition checkLimit :: "limit \<Rightarrow> err option" where
  "checkLimit l =
     checks [bad (overLimit (limCpu l) 1000000) (''CPU are too large: '' @ showLim (limCpu l)),
       bad (overLimit (limMemory l) 10000000) (''Memory is too large: '' @ showLim (limMemory l)),
       bad (overLimit (limStorage l) 10000000) (''Storage is too large: '' @ showLim (limStorage l))]"

definition ValidateWorkspace ::
  "validators \<Rightarrow> secret list option \<Rightarrow> space option \<Rightarrow> workspace \<Rightarrow> err option" where
  "ValidateWorkspace v secs space ws =
     (case space of
        None \<Rightarrow> Some (InvalidArg ''Nil req Space'')
      | Some sp \<Rightarrow>
          if stSpaceRef (wsStatus ws) = None
          then Some (InvalidArg ''Could not validate Workspace. No spaceRef'')
          else
            let spec = wsSpec ws
            in checks
              [(case spImage spec of None \<Rightarrow> None | Some i \<Rightarrow> checkImage v secs sp i),
               (case spRuntime spec of None \<Rightarrow> None | Some rt \<Rightarrow> checkRuntime v secs sp rt),
               (case spRepository spec of None \<Rightarrow> None | Some r \<Rightarrow> checkRepo v secs sp False r),
               bad (length (spAdditionalRepositories spec) > 32) ''Too many additional repositories'',
               checkAdditional v secs sp [] (spAdditionalRepositories spec),
               bad (length (spApplications spec) > 128) ''Too many applications'',
               checkApps v [] False (spApplications spec),
               (case spLimit spec of None \<Rightarrow> None | Some l \<Rightarrow> checkLimit l)])"

section \<open>What an accepted spec guarantees\<close>

lemma gitRefRegex_chars:
  "gitRefRegex s \<Longrightarrow> list_all (\<lambda>c. gitRefStart c \<or> c \<in> set ''./+-'') s"
  by (cases s) (auto simp: gitRefRegex_def)

definition secretOf :: "password option \<Rightarrow> string list" where
  "secretOf pw = (case pw of Some (PwFromSecret n) \<Rightarrow> [n] | _ \<Rightarrow> [])"

definition repoSecrets :: "repository \<Rightarrow> string list" where
  "repoSecrets r = (case repoAuthentication r of Some (AuthHttp b) \<Rightarrow> secretOf (haPassword b) | _ \<Rightarrow> [])"

definition imageSecrets :: "image \<Rightarrow> string list" where
  "imageSecrets i = (case i of ImgRegistry r \<Rightarrow>
       (case regAuthentication r of None \<Rightarrow> [] | Some a \<Rightarrow> secretOf (raPassword a)) | _ \<Rightarrow> [])"

definition envSecrets :: "env_var \<Rightarrow> string list" where
  "envSecrets e = (case evType e of EnvFromSecret n \<Rightarrow> [n] | _ \<Rightarrow> [])"

text \<open>Every Secret a spec refers to, by name.\<close>

definition secretRefs :: "ws_spec \<Rightarrow> string list" where
  "secretRefs spec =
     (case spImage spec of None \<Rightarrow> [] | Some i \<Rightarrow> imageSecrets i)
     @ (case spRuntime spec of None \<Rightarrow> [] | Some rt \<Rightarrow> concat (map envSecrets (rtEnvVars rt)))
     @ (case spRepository spec of None \<Rightarrow> [] | Some r \<Rightarrow> repoSecrets r)
     @ concat (map (\<lambda>a. case arRepository a of None \<Rightarrow> [] | Some r \<Rightarrow> repoSecrets r)
                 (spAdditionalRepositories spec))"

definition secretFound :: "secret list option \<Rightarrow> space \<Rightarrow> string \<Rightarrow> bool" where
  "secretFound secs space n \<longleftrightarrow>
     (case secs of
        None \<Rightarrow> False
      | Some ss \<Rightarrow> (case SecretList_GetByName ss n of
           Inl _ \<Rightarrow> False
         | Inr sec \<Rightarrow> map_option refUid (secSpaceRef sec) = Some (mdUid (spcMetadata space))))"

lemma secretInSpace_None: "secretInSpace ss space n = None \<Longrightarrow> secretFound (Some ss) space n"
  by (auto simp: secretInSpace_def secretFound_def split: sum.splits option.splits)

lemma checkPassword_None: "checkPassword secs space p = None \<Longrightarrow> list_all (secretFound secs space) (secretOf (Some p))"
  by (auto simp: checkPassword_def secretOf_def split: password.splits if_splits option.splits
      intro: secretInSpace_None)

lemma checkUserPassword_None:
  "checkUserPassword v secs space a b c u pw = None \<Longrightarrow> list_all (secretFound secs space) (secretOf pw)"
  by (cases pw) (auto simp: checkUserPassword_def checkPassword_None)

lemma checkImage_None: "checkImage v secs space i = None \<Longrightarrow> list_all (secretFound secs space) (imageSecrets i)"
  by (auto simp: checkImage_def imageSecrets_def checkUserPassword_None split: image.splits option.splits)

lemma checkEnvVar_None: "checkEnvVar v secs space e = None \<Longrightarrow> list_all (secretFound secs space) (envSecrets e)"
  by (auto simp: checkEnvVar_def envSecrets_def split: env_type.splits if_splits option.splits
      intro: secretInSpace_None)

lemma checkRepo_None: "checkRepo v secs space u r = None \<Longrightarrow> list_all (secretFound secs space) (repoSecrets r)"
  by (auto simp: checkRepo_def repoSecrets_def checkUserPassword_None split: option.splits repo_auth.splits)

lemma checkAdditional_None:
  "checkAdditional v secs space names ps = None \<Longrightarrow>
   list_all (\<lambda>p. \<exists>r. arRepository p = Some r \<and> checkRepo v secs space True r = None) ps
   \<and> distinct (map arName ps) \<and> set names \<inter> set (map arName ps) = {}"
  by (induction v secs space names ps rule: checkAdditional.induct) (auto split: option.splits)

lemma checkApps_None:
  "checkApps v names d as = None \<Longrightarrow>
   list_all (\<lambda>a. 0 < appPort a \<and> appPort a \<le> 65535 \<and> appName a \<noteq> []) as \<and> distinct (map appName as)
   \<and> set names \<inter> set (map appName as) = {}
   \<and> length (filter appIsDefault as) + (if d then 1 else 0) \<le> 1"
  by (induction v names d as rule: checkApps.induct) (auto split: if_splits)

lemma case_option_None: "(case x of None \<Rightarrow> None | Some a \<Rightarrow> f a) = None \<longleftrightarrow> pred_option (\<lambda>a. f a = None) x"
  by (cases x) auto

lemma ValidateWorkspace_parts:
  "ValidateWorkspace v secs (Some sp) ws = None \<longleftrightarrow>
     stSpaceRef (wsStatus ws) \<noteq> None
     \<and> pred_option (\<lambda>i. checkImage v secs sp i = None) (spImage (wsSpec ws))
     \<and> pred_option (\<lambda>rt. checkRuntime v secs sp rt = None) (spRuntime (wsSpec ws))
     \<and> pred_option (\<lambda>r. checkRepo v secs sp False r = None) (spRepository (wsSpec ws))
     \<and> length (spAdditionalRepositories (wsSpec ws)) \<le> 32
     \<and> checkAdditional v secs sp [] (spAdditionalRepositories (wsSpec ws)) = None
     \<and> length (spApplications (wsSpec ws)) \<le> 128
     \<and> checkApps v [] False (spApplications (wsSpec ws)) = None
     \<and> pred_option (\<lambda>l. checkLimit l = None) (spLimit (wsSpec ws))"
  by (simp add: ValidateWorkspace_def Let_def case_option_None not_less)

lemma ValidateWorkspace_space: "ValidateWorkspace v secs space ws = None \<Longrightarrow> \<exists>sp. space = Some sp"
  by (cases space) (auto simp: ValidateWorkspace_def)

lemma checkRuntime_None:
  assumes "checkRuntime v secs space rt = None"
  shows "\<forall>e \<in> set (rtEnvVars rt). checkEnvVar v secs space e = None"
    "ValidateVolumeMounts (map Some (rtVolumeMounts rt)) = None"
    "rtNetwork rt = Some n \<Longrightarrow> ValidateEgress (netEgress n) = None"
  using assms by (auto simp: checkRuntime_def firstErr_None split: option.splits)

lemma list_all_concat_map: "list_all P (concat (map f xs)) \<longleftrightarrow> list_all (\<lambda>x. list_all P (f x)) xs"
  by (induction xs) auto

lemma runtime_secrets:
  "checkRuntime v secs sp rt = None \<Longrightarrow>
   list_all (secretFound secs sp) (concat (map envSecrets (rtEnvVars rt)))"
  unfolding list_all_concat_map list_all_iff[of _ "rtEnvVars rt"]
  using checkRuntime_None(1) checkEnvVar_None by blast

lemma additional_secrets:
  assumes "checkAdditional v secs sp [] ps = None"
  shows "list_all (secretFound secs sp)
    (concat (map (\<lambda>a. case arRepository a of None \<Rightarrow> [] | Some r \<Rightarrow> repoSecrets r) ps))"
  unfolding list_all_concat_map
  by (rule list.pred_mono_strong[OF conjunct1[OF checkAdditional_None[OF assms]]])
    (auto dest: checkRepo_None)

lemma ValidateWorkspace_secretRefs:
  assumes "ValidateWorkspace v secs (Some sp) ws = None"
  shows "list_all (secretFound secs sp) (secretRefs (wsSpec ws))"
proof -
  note p = assms[unfolded ValidateWorkspace_parts]
  have "list_all (secretFound secs sp) (case spImage (wsSpec ws) of None \<Rightarrow> [] | Some i \<Rightarrow> imageSecrets i)"
    using p by (cases "spImage (wsSpec ws)") (auto intro: checkImage_None)
  moreover have "list_all (secretFound secs sp)
      (case spRuntime (wsSpec ws) of None \<Rightarrow> [] | Some rt \<Rightarrow> concat (map envSecrets (rtEnvVars rt)))"
    using p by (cases "spRuntime (wsSpec ws)") (auto intro: runtime_secrets)
  moreover have "list_all (secretFound secs sp)
      (case spRepository (wsSpec ws) of None \<Rightarrow> [] | Some r \<Rightarrow> repoSecrets r)"
    using p by (cases "spRepository (wsSpec ws)") (auto intro: checkRepo_None)
  ultimately show ?thesis
    using p by (auto simp: secretRefs_def intro: additional_secrets simp del: list_all_concat_map)
qed

section \<open>Properties\<close>

text \<open>
  A git reference that is accepted and not empty cannot be read as an option by git: it does
  not begin with a dash, has at most 255 bytes, all of them letters, digits or one of
  \<open>_./+-\<close>, no \<open>..\<close>, and no suffix \<open>/\<close> or \<open>.lock\<close>; and these are the only references accepted.
\<close>

theorem checkGitRef_safe:
  "checkGitRef field arg = None \<longleftrightarrow> arg = []
     \<or> (gitRefStart (hd arg) \<and> length arg \<le> 255
        \<and> list_all (\<lambda>c. isUpper c \<or> isLowerCase c \<or> isDigit c \<or> c \<in> set ''_./+-'') arg
        \<and> strIndex arg ''..'' = None \<and> hasSuffix arg ''.lock'' = False \<and> hasSuffix arg ''/'' = False)"
proof (cases arg)
  case (Cons c s)
  have "list_all (\<lambda>c. gitRefStart c \<or> c \<in> set ''./+-'') s
      = list_all (\<lambda>c. isUpper c \<or> isLowerCase c \<or> isDigit c \<or> c \<in> set ''_./+-'') s"
    by (rule list_all_cong) (auto simp: gitRefStart_def)
  then show ?thesis
    unfolding Cons by (auto simp: checkGitRef_def Let_def gitRefRegex_def strContains_def gitRefStart_def)
qed (simp add: checkGitRef_def)

text \<open>
  C20: No spec that is accepted reads a Secret of another Space: every Secret it refers to, for the
  registry, a repository or an environment variable, is in the list and belongs to the
  Workspace's own Space.
\<close>

theorem accepted_secrets_in_space:
  assumes "ValidateWorkspace v secs (Some sp) ws = None"
  shows "list_all (secretFound secs sp) (secretRefs (wsSpec ws))"
  using assms by (rule ValidateWorkspace_secretRefs)

definition exampleValidators :: validators where
  "exampleValidators = \<lparr>vIsURL = (\<lambda>s. hasPrefix s ''https://''), vIsUnixFilePath = (\<lambda>s. hasPrefix s ''/''),
     vIsASCII = list_all (\<lambda>c. (of_char c :: nat) < 128), vValidateName = (\<lambda>s a b. bad (s = []) ''Empty name''),
     vUrlParses = (\<lambda>s. True), vErrString = (\<lambda>e. ''error'')\<rparr>"

definition exampleSpace :: space where
  "exampleSpace = \<lparr>spcMetadata = emptyMetadata\<lparr>mdUid := ''s1'', mdName := ''acme''\<rparr>,
     spcSpec = \<lparr>ssLimit = None, ssRuntime = None\<rparr>, spcUserRef = None, spcType = Space_ORGANIZATION\<rparr>"

definition exampleSecret :: secret where
  "exampleSecret = \<lparr>secMetadata = emptyMetadata\<lparr>mdName := ''token''\<rparr>, secUserRef = None,
     secSpaceRef = Some \<lparr>refUid = ''s1'', refName = ''acme''\<rparr>, secData = None\<rparr>"

definition exampleWorkspace :: workspace where
  "exampleWorkspace = \<lparr>wsMetadata = emptyMetadata,
     wsSpec = emptySpec\<lparr>
       spRepository := Some \<lparr>repoUrl = ''https://a.b/c'', repoCloneOptions = None,
         repoAuthentication = Some (AuthHttp \<lparr>haUsername = ''u'', haPassword = Some (PwFromSecret ''token'')\<rparr>)\<rparr>,
       spApplications := [\<lparr>appName = ''web'', appDisplayName = [], appPort = 8080, appIsDefault = True\<rparr>],
       spLimit := Some \<lparr>limCpu = Some 2000, limMemory = None, limStorage = None\<rparr>\<rparr>,
     wsStatus = emptyStatus\<lparr>stSpaceRef := Some \<lparr>refUid = ''s1'', refName = ''acme''\<rparr>\<rparr>\<rparr>"

lemma exampleWorkspace_valid:
  "ValidateWorkspace exampleValidators (Some [exampleSecret]) (Some exampleSpace) exampleWorkspace = None"
  by code_simp

lemma accepted_secrets_in_space_witness:
  "secretRefs (wsSpec exampleWorkspace) = [''token'']
   \<and> list_all (secretFound (Some [exampleSecret]) exampleSpace) (secretRefs (wsSpec exampleWorkspace))"
  using accepted_secrets_in_space[OF exampleWorkspace_valid] by code_simp

text \<open>
  C21: An accepted spec has well-formed Applications (distinct names, ports from 1 to 65535, at
  most one default), distinct additional repositories, limits under the caps, an egress that
  compiles, and Volume mounts that are pairwise disjoint.
\<close>

theorem accepted_spec_well_formed:
  assumes "ValidateWorkspace v secs space ws = None"
  shows "distinct (map appName (spApplications (wsSpec ws)))
    \<and> list_all (\<lambda>a. 0 < appPort a \<and> appPort a \<le> 65535) (spApplications (wsSpec ws))
    \<and> length (filter appIsDefault (spApplications (wsSpec ws))) \<le> 1
    \<and> distinct (map arName (spAdditionalRepositories (wsSpec ws)))
    \<and> (case spLimit (wsSpec ws) of None \<Rightarrow> True | Some l \<Rightarrow>
         overLimit (limCpu l) 1000000 = False \<and> overLimit (limMemory l) 10000000 = False
         \<and> overLimit (limStorage l) 10000000 = False)
    \<and> (case spRuntime (wsSpec ws) of None \<Rightarrow> True | Some rt \<Rightarrow>
         ValidateVolumeMounts (map Some (rtVolumeMounts rt)) = None
         \<and> ValidateEgress (GetEgress (rtNetwork rt)) = None)"
proof -
  obtain sp where sp: "space = Some sp"
    using ValidateWorkspace_space[OF assms] by blast
  note p = assms[unfolded sp ValidateWorkspace_parts]
  have apps: "checkApps v [] False (spApplications (wsSpec ws)) = None"
    and repos: "checkAdditional v secs sp [] (spAdditionalRepositories (wsSpec ws)) = None"
    and lim: "pred_option (\<lambda>l. checkLimit l = None) (spLimit (wsSpec ws))"
    and rt: "pred_option (\<lambda>rt. checkRuntime v secs sp rt = None) (spRuntime (wsSpec ws))"
    using p by blast+
  have "ValidateVolumeMounts (map Some (rtVolumeMounts rt)) = None
         \<and> ValidateEgress (GetEgress (rtNetwork rt)) = None" if "spRuntime (wsSpec ws) = Some rt" for rt
    using checkRuntime_None(2,3)[of v secs sp rt] rt that
    by (cases "rtNetwork rt") (auto simp: GetEgress_def ValidateEgress_def)
  moreover have "overLimit (limCpu l) 1000000 = False \<and> overLimit (limMemory l) 10000000 = False
         \<and> overLimit (limStorage l) 10000000 = False" if "spLimit (wsSpec ws) = Some l" for l
    using lim that by (simp add: checkLimit_def)
  ultimately show ?thesis
    using checkApps_None[OF apps] checkAdditional_None[OF repos]
    by (simp add: list_all_iff split: option.splits)
qed

lemma accepted_spec_well_formed_witness:
  "length (filter appIsDefault (spApplications (wsSpec exampleWorkspace))) \<le> 1
   \<and> length (spApplications (wsSpec exampleWorkspace)) = 1"
  using accepted_spec_well_formed[OF exampleWorkspace_valid] by (simp add: exampleWorkspace_def)

end
