(* ===== verification/Api_Env.thy ===== *)
theory Api_Env
  imports Workspace_Validate Spec_Vars
begin

text \<open>
  What the API server is given: the resource server of Octelium through its clients, the
  cluster's configuration, the clock and the random strings, the validators of
  \<open>apivalidation\<close>, the CEL engine, and the user of the request. None of this is under \<open>src/\<close>,
  so all of it is a parameter, an \<open>env\<close>, over an arbitrary type of worlds. A Get and a List
  read the world; Create, Update and Delete change it. The second half models
  \<open>apiserver/commonw/common.go\<close> (memberships) and \<open>apiserver/mains/utils.go\<close> (names).
\<close>

section \<open>The environment\<close>

record get_opts =
  goUid :: string
  goName :: string

datatype list_filter =
    FStatusUserUID string
  | FStatusSpaceUID string
  | FStatusTemplateUID string
  | FStatusWorkspaceUID string
  | FStatusWorkspaceSnapshotUID string
  | FStatusRegionUID string
  | FFieldEQ string string
  | FFieldTrue string
  | FSpecLabel string string

text \<open>\<open>loPublic\<close> is the part of the options that comes from the user's request, opaque here.\<close>

record list_opts =
  loFilters :: "list_filter list"
  loPaginate :: bool
  loItemsPerPage :: u32
  loPage :: u32
  loPublic :: "string option"

definition filterOpts :: "list_filter list \<Rightarrow> list_opts" where
  "filterOpts fs = \<lparr>loFilters = fs, loPaginate = False, loItemsPerPage = 0, loPage = 0, loPublic = None\<rparr>"

definition publicOpts :: "string \<Rightarrow> list_filter list \<Rightarrow> list_opts" where
  "publicOpts common fs = (filterOpts fs)\<lparr>loPublic := Some common\<rparr>"

definition SetCountOnly :: "list_opts \<Rightarrow> list_opts" where
  "SetCountOnly opts = opts\<lparr>loPaginate := True, loItemsPerPage := 1\<rparr>"

definition FilterBySpace :: "space \<Rightarrow> list_opts" where
  "FilterBySpace s = filterOpts [FStatusSpaceUID (mdUid (spcMetadata s))]"

definition FilterBySpaceRef :: "object_ref \<Rightarrow> list_opts" where
  "FilterBySpaceRef r = filterOpts [FStatusSpaceUID (refUid r)]"

definition FilterByWorkspace :: "workspace \<Rightarrow> list_opts" where
  "FilterByWorkspace ws = filterOpts [FStatusWorkspaceUID (mdUid (wsMetadata ws))]"

definition FilterByUser :: "user \<Rightarrow> list_opts" where
  "FilterByUser u = filterOpts [FStatusUserUID (mdUid (usrMetadata u))]"

record 'r item_list =
  ilItems :: "'r list"
  ilTotalCount :: u32
  ilHasMore :: bool

record ('w, 'r) rsc_client =
  cGet :: "get_opts \<Rightarrow> 'w \<Rightarrow> err + 'r"
  cList :: "list_opts \<Rightarrow> 'w \<Rightarrow> err + 'r item_list"
  cCreate :: "'r \<Rightarrow> ('w, 'r) io"
  cUpdate :: "'r \<Rightarrow> ('w, 'r) io"
  cDelete :: "get_opts \<Rightarrow> ('w, unit) io"

record validate_opts =
  voRequireName :: bool
  voParentsMust :: nat

text \<open>
  \<open>eUserCtx\<close> is the user of the request, \<open>eRandStr n\<close> a random string of length \<open>n\<close>,
  \<open>eRandIdx n\<close> a random index below \<open>n\<close>, \<open>eValidateCommonData\<close> the common validation of a
  resource whose data is required, \<open>eGenerateSSHKey\<close> a new private key with its public line, \<open>eNewSession\<close> the library's constructor of a
  session with its extension information, \<open>eCoreDomain\<close> the domain of the cluster.
\<close>

record 'w env =
  eUserCtx :: "err + user_ctx"
  eIsNotFound :: "err \<Rightarrow> bool"
  eValidators :: validators
  eValidateCommon :: "validate_opts \<Rightarrow> metadata \<Rightarrow> err option"
  eValidateCommonData :: "validate_opts \<Rightarrow> metadata \<Rightarrow> secret_data option \<Rightarrow> err option"
  eMarshalAttrs :: "string \<Rightarrow> err + string"
  eGenerateSSHKey :: "('w, string \<times> string) io"
  eCheckGetOptions :: "nat \<Rightarrow> get_opts \<Rightarrow> err option"
  eCheckDeleteOptions :: "nat \<Rightarrow> get_opts \<Rightarrow> err option"
  eCheckObjectRef :: "nat \<Rightarrow> object_ref option \<Rightarrow> err option"
  eValidateGenASCII :: "string \<Rightarrow> err option"
  eIsEmail :: "string \<Rightarrow> bool"
  eIsUUIDv4 :: "string \<Rightarrow> bool"
  eSlug :: "string \<Rightarrow> string"
  eEvalSpaceCondition :: "condition \<Rightarrow> user \<Rightarrow> space \<Rightarrow> err + bool"
  eMetadataFrom :: "metadata \<Rightarrow> metadata"
  eMetadataUpdate :: "metadata \<Rightarrow> metadata \<Rightarrow> metadata"
  ePicURL :: "metadata \<Rightarrow> string"
  eProtoMerge :: "ws_spec \<Rightarrow> ws_spec \<Rightarrow> ws_spec"
  eVarOrd :: "string \<Rightarrow> vars \<Rightarrow> vars"
  eRegionHasCordium :: "region \<Rightarrow> bool"
  eNow :: "'w \<Rightarrow> time"
  eRandStr :: "nat \<Rightarrow> ('w, string) io"
  eRandIdx :: "nat \<Rightarrow> ('w, nat) io"
  eClusterConfig :: "'w \<Rightarrow> err + cluster_config"
  eCoreDomain :: "'w \<Rightarrow> err + string"
  eNewSession :: "user \<Rightarrow> workspace \<Rightarrow> ('w, session) io"
  eWorkspaces :: "('w, workspace) rsc_client"
  eSpaces :: "('w, space) rsc_client"
  eTemplates :: "('w, template) rsc_client"
  eMemberships :: "('w, membership) rsc_client"
  eVolumes :: "('w, volume) rsc_client"
  eSnapshots :: "('w, snapshot) rsc_client"
  eSecrets :: "('w, secret) rsc_client"
  eUserSecrets :: "('w, user_secret) rsc_client"
  eUserConfigs :: "('w, user_config) rsc_client"
  eGitProviders :: "('w, git_provider) rsc_client"
  eUsers :: "('w, user) rsc_client"
  eSessions :: "('w, session) rsc_client"
  eRegions :: "('w, region) rsc_client"

definition byUid :: "string \<Rightarrow> get_opts" where
  "byUid u = \<lparr>goUid = u, goName = []\<rparr>"

definition byName :: "string \<Rightarrow> get_opts" where
  "byName n = \<lparr>goUid = [], goName = n\<rparr>"

text \<open>\<open>ObjectReferenceToRGetOptions\<close>, \<open>ObjectReferenceToGetOptions\<close>: a copy, not the reference.\<close>

definition byRef :: "object_ref \<Rightarrow> get_opts" where
  "byRef r = \<lparr>goUid = refUid r, goName = refName r\<rparr>"

text \<open>A nil pointer that is dereferenced.\<close>

definition deref :: "'a option \<Rightarrow> ('w, 'a) io" where
  "deref x = (case x of None \<Rightarrow> throwE (Panic ''nil'') | Some a \<Rightarrow> retE a)"

lemma deref_Inr [io_simps]: "deref x w = (Inr a, w') \<longleftrightarrow> x = Some a \<and> w' = w"
  by (auto simp: deref_def io_simps split: option.splits)

lemma deref_Inl [io_simps]: "deref x w = (Inl e, w') \<longleftrightarrow> x = None \<and> e = Panic ''nil'' \<and> w' = w"
  by (auto simp: deref_def io_simps split: option.splits)

lemma refused_deref [simp]:
  "refused (bindE (deref x) f w) w \<longleftrightarrow> (case x of None \<Rightarrow> True | Some a \<Rightarrow> refused (f a w) w)"
  by (auto simp: deref_def refused_def bindE_def throwE_def retE_def split: option.splits)

lemma read_only_deref [intro!]: "read_only (deref x)"
  by (auto simp: deref_def split: option.splits)

abbreviation invalidIf :: "bool \<Rightarrow> string \<Rightarrow> ('w, unit) io" where
  "invalidIf c m \<equiv> throw_if c (InvalidArg m)"

abbreviation notFoundOr :: "('w, 'a) io \<Rightarrow> ('w, 'a) io" where
  "notFoundOr m \<equiv> mapErrE K8sNotFoundOrInternalWithErr m"

abbreviation internalOr :: "('w, 'a) io \<Rightarrow> ('w, 'a) io" where
  "internalOr m \<equiv> mapErrE InternalWithErr m"

section \<open>Memberships (commonw/common.go)\<close>

definition GetWorkspaceHostname :: "string \<Rightarrow> region \<Rightarrow> string \<Rightarrow> string" where
  "GetWorkspaceHostname wsName r domain =
     (if mdName (rgnMetadata r) = ''default'' then wsName @ ''.cordium.'' @ domain
      else wsName @ ''.'' @ mdName (rgnMetadata r) @ ''.cordium.'' @ domain)"

definition userRefOf :: "user_ctx \<Rightarrow> object_ref" where
  "userRefOf i = GetObjectReference (usrMetadata (ictxUser i))"

definition GetMembership :: "'w env \<Rightarrow> object_ref \<Rightarrow> object_ref \<Rightarrow> 'w \<Rightarrow> err + membership" where
  "GetMembership env userRef spaceRef w =
     mapErrS K8sNotFoundOrInternalWithErr
       (cGet (eMemberships env) (byName (GetMembershipName spaceRef userRef)) w)"

definition GetMembershipBySpace :: "'w env \<Rightarrow> object_ref \<Rightarrow> 'w \<Rightarrow> err + membership" where
  "GetMembershipBySpace env spaceRef w =
     bindS (eUserCtx env) (\<lambda>i. GetMembership env (userRefOf i) spaceRef w)"

text \<open>The three tests share the lookup and differ in the roles they accept.\<close>

definition memberWith :: "(role \<Rightarrow> bool) \<Rightarrow> 'w env \<Rightarrow> object_ref \<Rightarrow> 'w \<Rightarrow> err + bool" where
  "memberWith ok env spaceRef w =
     (case GetMembershipBySpace env spaceRef w of
        Inl e \<Rightarrow> if eIsNotFound env e then Inr False else Inl e
      | Inr mem \<Rightarrow> Inr (ok (memRole mem)))"

definition IsMemberAdmin :: "'w env \<Rightarrow> object_ref \<Rightarrow> 'w \<Rightarrow> err + bool" where
  "IsMemberAdmin = memberWith (\<lambda>r. r = Role_ADMIN \<or> r = Role_OWNER)"

definition IsMemberOwner :: "'w env \<Rightarrow> object_ref \<Rightarrow> 'w \<Rightarrow> err + bool" where
  "IsMemberOwner = memberWith (\<lambda>r. r = Role_OWNER)"

definition IsMember :: "'w env \<Rightarrow> object_ref \<Rightarrow> 'w \<Rightarrow> err + bool" where
  "IsMember = memberWith (\<lambda>r. True)"

definition checkThat :: "string \<Rightarrow> err + bool \<Rightarrow> err option" where
  "checkThat msg r = (case r of Inl e \<Rightarrow> Some e | Inr ok \<Rightarrow> if ok then None else Some (Unauthorized msg))"

definition CheckIsMemberAdmin :: "'w env \<Rightarrow> object_ref \<Rightarrow> 'w \<Rightarrow> err option" where
  "CheckIsMemberAdmin env spaceRef w =
     checkThat ''The User is not authorized to do this operation'' (IsMemberAdmin env spaceRef w)"

definition CheckIsMemberOwner :: "'w env \<Rightarrow> object_ref \<Rightarrow> 'w \<Rightarrow> err option" where
  "CheckIsMemberOwner env spaceRef w =
     checkThat ''The User is not authorized to do this operation'' (IsMemberOwner env spaceRef w)"

definition CheckIsMember :: "'w env \<Rightarrow> object_ref \<Rightarrow> 'w \<Rightarrow> err option" where
  "CheckIsMember env spaceRef w =
     checkThat ''The User is not authorized to operation'' (IsMember env spaceRef w)"

text \<open>
  The contract of the three checks: they pass exactly when the user of the request has a
  membership of the Space with an accepted role.
\<close>

locale membership_gate =
  fixes check :: "'w env \<Rightarrow> object_ref \<Rightarrow> 'w \<Rightarrow> err option" and ok :: "role \<Rightarrow> bool"
  assumes passes_iff: "check env spaceRef w = None \<longleftrightarrow>
    (\<exists>mem. GetMembershipBySpace env spaceRef w = Inr mem \<and> ok (memRole mem))"
begin

lemma gate_user: "check env spaceRef w = None \<Longrightarrow> \<exists>i. eUserCtx env = Inr i"
  unfolding passes_iff by (auto simp: GetMembershipBySpace_def io_simps)

lemma gate_stored:
  "check env spaceRef w = None \<longleftrightarrow>
   (\<exists>i mem. eUserCtx env = Inr i \<and> ok (memRole mem)
      \<and> cGet (eMemberships env) (byName (GetMembershipName spaceRef (userRefOf i))) w = Inr mem)"
  unfolding passes_iff by (auto simp: GetMembershipBySpace_def GetMembership_def io_simps)

lemma gate_weaken:
  "(\<And>r. ok r \<Longrightarrow> ok' r) \<Longrightarrow> check env spaceRef w = None \<Longrightarrow>
   \<exists>mem. GetMembershipBySpace env spaceRef w = Inr mem \<and> ok' (memRole mem)"
  unfolding passes_iff by blast

end

lemma checkThat_memberWith:
  "checkThat msg (memberWith ok env spaceRef w) = None \<longleftrightarrow>
   (\<exists>mem. GetMembershipBySpace env spaceRef w = Inr mem \<and> ok (memRole mem))"
  by (auto simp: checkThat_def memberWith_def split: sum.splits)

interpretation admin_gate: membership_gate CheckIsMemberAdmin "\<lambda>r. r = Role_ADMIN \<or> r = Role_OWNER"
  by unfold_locales (simp add: CheckIsMemberAdmin_def IsMemberAdmin_def checkThat_memberWith)

interpretation owner_gate: membership_gate CheckIsMemberOwner "\<lambda>r. r = Role_OWNER"
  by unfold_locales (simp add: CheckIsMemberOwner_def IsMemberOwner_def checkThat_memberWith)

interpretation member_gate: membership_gate CheckIsMember "\<lambda>r. True"
  by unfold_locales (simp add: CheckIsMember_def IsMember_def checkThat_memberWith)

section \<open>Names (mains/utils.go)\<close>

definition isNameFQDN :: "string \<Rightarrow> nat \<Rightarrow> bool" where
  "isNameFQDN name parents \<longleftrightarrow> length (splitOn CHR ''.'' name) = parents + 1"

definition getFullGetOptionsUserCtx :: "user_ctx \<Rightarrow> string \<Rightarrow> nat \<Rightarrow> string" where
  "getFullGetOptionsUserCtx i name parents =
     (if length (splitOn CHR ''.'' name) = parents
      then name @ ''.'' @ mdName (usrMetadata (ictxUser i)) else name)"

definition withUserCtx :: "err + user_ctx \<Rightarrow> nat \<Rightarrow> string \<Rightarrow> string" where
  "withUserCtx uc parents name =
     (case uc of Inl _ \<Rightarrow> name | Inr i \<Rightarrow> getFullGetOptionsUserCtx i name parents)"

text \<open>The name of a child of a Space: \<open>name.space.user\<close>.\<close>

definition fullSpaceChild :: "err + user_ctx \<Rightarrow> string \<Rightarrow> string" where
  "fullSpaceChild uc name =
     (if name = [] \<or> isNameFQDN name 2 then name
      else withUserCtx uc 2 (if isNameFQDN name 0 then name @ ''.default'' else name))"

text \<open>The name of a Space, or of a child of a User: \<open>name.user\<close>.\<close>

definition fullUserChild :: "err + user_ctx \<Rightarrow> string \<Rightarrow> string" where
  "fullUserChild uc name =
     (if name = [] \<or> isNameFQDN name 1 then name else withUserCtx uc 1 name)"

definition getFullGetOptionsSpaceChild :: "'w env \<Rightarrow> get_opts \<Rightarrow> get_opts" where
  "getFullGetOptionsSpaceChild env o' = o'\<lparr>goName := fullSpaceChild (eUserCtx env) (goName o')\<rparr>"

definition getFullDeleteOptionsSpaceChild :: "'w env \<Rightarrow> get_opts \<Rightarrow> get_opts" where
  "getFullDeleteOptionsSpaceChild env o' = o'\<lparr>goName := fullSpaceChild (eUserCtx env) (goName o')\<rparr>"

definition getFullNamResourceSpaceChild :: "'w env \<Rightarrow> metadata \<Rightarrow> metadata" where
  "getFullNamResourceSpaceChild env m = m\<lparr>mdName := fullSpaceChild (eUserCtx env) (mdName m)\<rparr>"

definition getFullNamResourceRefSpaceChild :: "'w env \<Rightarrow> object_ref \<Rightarrow> object_ref" where
  "getFullNamResourceRefSpaceChild env r = r\<lparr>refName := fullSpaceChild (eUserCtx env) (refName r)\<rparr>"

definition getFullNameGetOptionsUserChild :: "'w env \<Rightarrow> get_opts \<Rightarrow> get_opts" where
  "getFullNameGetOptionsUserChild env o' = o'\<lparr>goName := fullUserChild (eUserCtx env) (goName o')\<rparr>"

definition getFullNameDeleteOptionsUserChild :: "'w env \<Rightarrow> get_opts \<Rightarrow> get_opts" where
  "getFullNameDeleteOptionsUserChild env o' = o'\<lparr>goName := fullUserChild (eUserCtx env) (goName o')\<rparr>"

definition getFullNamResourceUserChild :: "'w env \<Rightarrow> metadata \<Rightarrow> metadata" where
  "getFullNamResourceUserChild env m = m\<lparr>mdName := fullUserChild (eUserCtx env) (mdName m)\<rparr>"

definition getFullNamResourceUserChildWithUserCtx :: "user_ctx \<Rightarrow> metadata \<Rightarrow> metadata" where
  "getFullNamResourceUserChildWithUserCtx i m = m\<lparr>mdName := fullUserChild (Inr i) (mdName m)\<rparr>"

definition getFullNamResourceSpace :: "'w env \<Rightarrow> metadata \<Rightarrow> metadata" where
  "getFullNamResourceSpace env m = m\<lparr>mdName := fullUserChild (eUserCtx env) (mdName m)\<rparr>"

definition getFullGetOptionsSpace :: "'w env \<Rightarrow> get_opts \<Rightarrow> get_opts" where
  "getFullGetOptionsSpace env o' = o'\<lparr>goName := fullUserChild (eUserCtx env) (goName o')\<rparr>"

definition getFullResourceRefSpace :: "'w env \<Rightarrow> object_ref \<Rightarrow> object_ref" where
  "getFullResourceRefSpace env r = r\<lparr>refName := fullUserChild (eUserCtx env) (refName r)\<rparr>"

text \<open>The name and the Space of a request for a child of a Space.\<close>

definition parseSpaceResource :: "string \<Rightarrow> err + (string \<times> string)" where
  "parseSpaceResource arg =
     (case splitOn CHR ''.'' arg of
        [a, b, c] \<Rightarrow> Inr (a, b @ ''.'' @ c)
      | _ \<Rightarrow> Inl (InvalidArg (''Invalid requested name: '' @ arg)))"

definition checkResourceDefault :: "metadata \<Rightarrow> err option" where
  "checkResourceDefault m =
     (if mdName m = [] then Some (InvalidArg ''Resource name is not set'')
      else if \<not> hasPrefix (mdName m) ''default.'' then
        Some (InvalidArg ''This resource is not a default resource'')
      else None)"

text \<open>The reference is completed in place, so the completed one is used throughout.\<close>

definition getMemberSpaceFromSpaceRef :: "'w env \<Rightarrow> object_ref option \<Rightarrow> ('w, space) io" where
  "getMemberSpaceFromSpaceRef env spaceRef =
     (case spaceRef of
        None \<Rightarrow> throwE (InvalidArg ''SpaceRef is not provided'')
      | Some r0 \<Rightarrow>
          let r = getFullResourceRefSpace env r0 in
          bindE (checkE (eCheckGetOptions env 1 (byRef r))) (\<lambda>_.
          bindE (checkR (CheckIsMember env r)) (\<lambda>_.
          notFoundOr (readE (cGet (eSpaces env) (byRef r))))))"

definition checkIsResourceOwnerOrSpaceOwner ::
  "'w env \<Rightarrow> object_ref option \<Rightarrow> object_ref \<Rightarrow> 'w \<Rightarrow> err option" where
  "checkIsResourceOwnerOrSpaceOwner env resourceUserRef spaceRef w =
     (case eUserCtx env of
        Inl e \<Rightarrow> Some e
      | Inr i \<Rightarrow>
          (case GetMembershipBySpace env spaceRef w of
             Inl e \<Rightarrow> if eIsNotFound env e then Some (Unauthorized ''The User is not a Member in this Space'')
                      else Some e
           | Inr _ \<Rightarrow>
               (case resourceUserRef of
                  Some u \<Rightarrow> if refUid u = mdUid (usrMetadata (ictxUser i)) then None
                            else CheckIsMemberOwner env spaceRef w
                | None \<Rightarrow> CheckIsMemberOwner env spaceRef w)))"

lemma checkIsResourceOwnerOrSpaceOwner_None:
  "checkIsResourceOwnerOrSpaceOwner env ur sr w = None \<longleftrightarrow>
   (\<exists>i mem. eUserCtx env = Inr i \<and> GetMembershipBySpace env sr w = Inr mem
      \<and> (map_option refUid ur = Some (mdUid (usrMetadata (ictxUser i))) \<or> memRole mem = Role_OWNER))"
  by (auto simp: checkIsResourceOwnerOrSpaceOwner_def owner_gate.passes_iff split: sum.splits option.splits)

lemma read_only_getMemberSpaceFromSpaceRef [intro!]: "read_only (getMemberSpaceFromSpaceRef env r)"
  by (auto simp: getMemberSpaceFromSpaceRef_def Let_def split: option.splits)

section \<open>What name completion does\<close>

lemma isNameFQDN_append:
  "isNameFQDN (name @ ''.'' @ user) n \<longleftrightarrow>
     length (splitOn CHR ''.'' name) + length (splitOn CHR ''.'' user) = n + 1"
  by (simp add: isNameFQDN_def splitOn_append_sep)

lemma splitOn_default: "length (splitOn CHR ''.'' (name @ ''.default'')) = length (splitOn CHR ''.'' name) + 1"
  using splitOn_append_sep[of "CHR ''.''" name "''default''"] by simp

lemma fullSpaceChild_complete:
  assumes "uc = Inr i" "splitOn CHR ''.'' (mdName (usrMetadata (ictxUser i))) = [u]" "name \<noteq> []"
    "length (splitOn CHR ''.'' name) \<le> 3"
  shows "isNameFQDN (fullSpaceChild uc name) 2"
proof -
  let ?user = "mdName (usrMetadata (ictxUser i))"
  have dot: "length (splitOn CHR ''.'' (n @ ''.'' @ ?user)) = length (splitOn CHR ''.'' n) + 1" for n
    using assms(2) by (simp add: splitOn_append_sep)
  have "length (splitOn CHR ''.'' name) \<ge> 1"
    by (cases "splitOn CHR ''.'' name") auto
  then consider "length (splitOn CHR ''.'' name) = 1" | "length (splitOn CHR ''.'' name) = 2"
    | "length (splitOn CHR ''.'' name) = 3"
    using assms(4) by linarith
  then show ?thesis
    using assms(1,3) splitOn_default[of name] dot[of name] dot[of "name @ ''.default''"]
    by cases (simp_all add: fullSpaceChild_def withUserCtx_def getFullGetOptionsUserCtx_def isNameFQDN_def)
qed

section \<open>Properties\<close>

text \<open>
  Completing the name of a child of a Space is idempotent: a complete name is kept, and for a
  User whose own name has no dot every name of at most three parts becomes a complete one.
\<close>

theorem name_completion:
  assumes "eUserCtx env = Inr i" and "splitOn CHR ''.'' (mdName (usrMetadata (ictxUser i))) = [u]"
    and "goName o' \<noteq> []" and "length (splitOn CHR ''.'' (goName o')) \<le> 3"
  shows "isNameFQDN (goName (getFullGetOptionsSpaceChild env o')) 2
    \<and> getFullGetOptionsSpaceChild env (getFullGetOptionsSpaceChild env o') = getFullGetOptionsSpaceChild env o'"
proof -
  have c: "isNameFQDN (fullSpaceChild (eUserCtx env) (goName o')) 2"
    by (rule fullSpaceChild_complete[OF assms(1,2,3,4)])
  then have "fullSpaceChild (eUserCtx env) (fullSpaceChild (eUserCtx env) (goName o'))
      = fullSpaceChild (eUserCtx env) (goName o')"
    by (simp add: fullSpaceChild_def[of _ "fullSpaceChild _ _"])
  then show ?thesis
    using c by (simp add: getFullGetOptionsSpaceChild_def)
qed

end
