(* ===== verification/Api_Limits.thy ===== *)
theory Api_Limits
  imports Api_Env
begin

text \<open>
  The quotas of \<open>apiserver/mains/workspace.go\<close>: how many Workspaces a User may have and run, and
  the resource limit that a Workspace is given (\<open>setWorkspaceLimit\<close>).
\<close>

section \<open>Quotas\<close>

text \<open>A configured value counts when it is not 0 and below a million.\<close>

definition configured :: "('a \<Rightarrow> u32) \<Rightarrow> 'a option \<Rightarrow> u32 \<Rightarrow> u32" where
  "configured f c dflt =
     (case c of None \<Rightarrow> dflt
      | Some l \<Rightarrow> if f l \<noteq> 0 \<and> f l < 1000000 then f l else dflt)"

definition getMaxWorkspacesPerUser :: "cluster_config \<Rightarrow> u32" where
  "getMaxWorkspacesPerUser cc = configured wlMaxPerUser (ccWorkspaceLimit cc) 1000"

definition getMaxActiveWorkspacesPerUser :: "cluster_config \<Rightarrow> u32" where
  "getMaxActiveWorkspacesPerUser cc = configured wlMaxActivePerUser (ccWorkspaceLimit cc) 128"

definition checkIfCanStartWorkspace :: "'w env \<Rightarrow> user_ctx \<Rightarrow> cluster_config \<Rightarrow> 'w \<Rightarrow> err option" where
  "checkIfCanStartWorkspace env i cc w =
     (case cList (eWorkspaces env) (FilterByUser (ictxUser i)) w of
        Inl e \<Rightarrow> Some (InternalWithErr e)
      | Inr l \<Rightarrow>
          if int (length (filter (\<lambda>ws. wsState ws \<noteq> STOPPED) (ilItems l)))
               \<ge> int (unat (getMaxActiveWorkspacesPerUser cc))
          then Some (Unauthorized ''Maximum limit of active Workspaces exceeded'')
          else None)"

section \<open>The limit of a Workspace\<close>

text \<open>A limit of 0 counts as not set.\<close>

definition nonzero :: "u32 option \<Rightarrow> u32 option" where
  "nonzero x = (case x of None \<Rightarrow> None | Some n \<Rightarrow> if n = 0 then None else Some n)"

definition orElse :: "u32 option \<Rightarrow> u32 option \<Rightarrow> u32 option" where
  "orElse x y = (case x of None \<Rightarrow> y | Some _ \<Rightarrow> x)"

definition setOr :: "u32 \<Rightarrow> u32 option \<Rightarrow> u32" where
  "setOr d x = (case x of None \<Rightarrow> d | Some n \<Rightarrow> if n = 0 then d else n)"

definition lower :: "u32 option \<Rightarrow> u32 \<Rightarrow> u32" where
  "lower mx v = (case nonzero mx of None \<Rightarrow> v | Some m \<Rightarrow> if v > m then m else v)"

definition limitMap :: "(u32 option \<Rightarrow> u32 option) \<Rightarrow> limit \<Rightarrow> limit" where
  "limitMap f l = \<lparr>limCpu = f (limCpu l), limMemory = f (limMemory l), limStorage = f (limStorage l)\<rparr>"

text \<open>Fill in what \<open>l\<close> leaves open from the cluster's default.\<close>

definition doCCLimit :: "limit \<Rightarrow> limit \<Rightarrow> limit" where
  "doCCLimit l d = \<lparr>limCpu = orElse (limCpu l) (nonzero (limCpu d)),
     limMemory = orElse (limMemory l) (nonzero (limMemory d)),
     limStorage = orElse (limStorage l) (nonzero (limStorage d))\<rparr>"

definition hardDefaults :: "limit \<Rightarrow> limit" where
  "hardDefaults l = \<lparr>limCpu = Some (setOr 2000 (limCpu l)), limMemory = Some (setOr 6000 (limMemory l)),
     limStorage = Some (setOr 20000 (limStorage l))\<rparr>"

definition clampLimit :: "limit option \<Rightarrow> limit \<Rightarrow> limit" where
  "clampLimit mx l =
     (case mx of None \<Rightarrow> l
      | Some m \<Rightarrow> \<lparr>limCpu = map_option (lower (limCpu m)) (limCpu l),
                   limMemory = map_option (lower (limMemory m)) (limMemory l),
                   limStorage = map_option (lower (limStorage m)) (limStorage l)\<rparr>)"

definition spcMaxLimit :: "space \<Rightarrow> limit option" where
  "spcMaxLimit org = Option.bind (ssLimit (spcSpec org)) slMaxLimit"

definition spcDefaultLimit :: "space \<Rightarrow> limit option" where
  "spcDefaultLimit org = Option.bind (ssLimit (spcSpec org)) slDefaultLimit"

definition ccMaxLimit :: "cluster_config \<Rightarrow> limit option" where
  "ccMaxLimit cc = Option.bind (ccWorkspaceLimit cc) wlMaxLimit"

text \<open>
  The limit objects of the spec are not copied: where the status takes one over, lowering the
  status to a maximum lowers the spec too. \<open>aliased s v\<close> is the field of the spec after the
  object it shares with the status has been given the value \<open>v\<close>.
\<close>

definition aliased :: "u32 option \<Rightarrow> u32 option \<Rightarrow> u32 option" where
  "aliased s v = (case nonzero s of None \<Rightarrow> s | Some _ \<Rightarrow> v)"

definition aliasedLimit :: "limit \<Rightarrow> limit \<Rightarrow> limit" where
  "aliasedLimit s v = \<lparr>limCpu = aliased (limCpu s) (limCpu v), limMemory = aliased (limMemory s) (limMemory v),
     limStorage = aliased (limStorage s) (limStorage v)\<rparr>"

definition setStatusLimit :: "limit \<Rightarrow> workspace \<Rightarrow> workspace" where
  "setStatusLimit l ws = ws\<lparr>wsStatus := (wsStatus ws)\<lparr>stLimit := Some l\<rparr>\<rparr>"

text \<open>The limit that the status starts from: the spec's, else the Template's, else the Space's.\<close>

definition baseLimit :: "'w env \<Rightarrow> workspace \<Rightarrow> space \<Rightarrow> 'w \<Rightarrow> err + limit" where
  "baseLimit env ws org w =
     (case spLimit (wsSpec ws) of
        Some l \<Rightarrow> Inr (limitMap nonzero l)
      | None \<Rightarrow>
          (case stTemplateRef (wsStatus ws) of
             Some r \<Rightarrow>
               bindS (cGet (eTemplates env) (byRef r) w) (\<lambda>t.
                 Inr (case tsLimit (tmSpec t) of None \<Rightarrow> emptyLimit | Some l \<Rightarrow> limitMap nonzero l))
           | None \<Rightarrow>
               Inr (if spcType org = Space_ORGANIZATION
                    then (case spcDefaultLimit org of None \<Rightarrow> emptyLimit | Some l \<Rightarrow> limitMap nonzero l)
                    else emptyLimit)))"

definition setWorkspaceLimit :: "'w env \<Rightarrow> workspace \<Rightarrow> space \<Rightarrow> cluster_config \<Rightarrow> 'w \<Rightarrow> err + workspace" where
  "setWorkspaceLimit env ws org cc w =
     (case (if stIsBuild (wsStatus ws) then Option.bind (ccWorkspaceLimit cc) wlBuildLimit else None) of
        Some l \<Rightarrow> Inr (setStatusLimit (hardDefaults (limitMap nonzero l)) ws)
      | None \<Rightarrow>
          bindS (baseLimit env ws org w) (\<lambda>base.
          bindS (if spcType org = Space_USER then Inr (Option.bind (ccWorkspaceLimit cc) wlDefaultUserSpaceLimit)
                 else if spcType org = Space_ORGANIZATION
                 then Inr (Option.bind (ccWorkspaceLimit cc) wlDefaultOrganizationSpaceLimit)
                 else Inl (InvalidArg ''Unset Space type'')) (\<lambda>dflt.
          let l = hardDefaults (case dflt of None \<Rightarrow> base | Some d \<Rightarrow> doCCLimit base d);
              l = clampLimit (ccMaxLimit cc) (clampLimit (spcMaxLimit org) l);
              spec = (wsSpec ws)\<lparr>spLimit := map_option (\<lambda>s. aliasedLimit s l) (spLimit (wsSpec ws))\<rparr>
          in Inr (setStatusLimit l (ws\<lparr>wsSpec := spec\<rparr>)))))"

section \<open>What the limit satisfies\<close>

text \<open>Every dimension is set and positive, and none exceeds a maximum that is set.\<close>

definition limitSet :: "limit \<Rightarrow> bool" where
  "limitSet l \<longleftrightarrow> (case (limCpu l, limMemory l, limStorage l) of
     (Some c, Some m, Some s) \<Rightarrow> 0 < c \<and> 0 < m \<and> 0 < s | _ \<Rightarrow> False)"

definition withinDim :: "u32 option \<Rightarrow> u32 option \<Rightarrow> bool" where
  "withinDim mx v \<longleftrightarrow> (case (nonzero mx, v) of (Some m, Some n) \<Rightarrow> n \<le> m | _ \<Rightarrow> True)"

definition withinLimit :: "limit option \<Rightarrow> limit \<Rightarrow> bool" where
  "withinLimit mx l \<longleftrightarrow> (case mx of None \<Rightarrow> True
     | Some m \<Rightarrow> withinDim (limCpu m) (limCpu l) \<and> withinDim (limMemory m) (limMemory l)
                \<and> withinDim (limStorage m) (limStorage l))"

lemma lower_pos: "0 < v \<Longrightarrow> 0 < lower mx v"
  by (auto simp: lower_def nonzero_def word_gt_0 split: option.splits if_splits)

lemma lower_le: "lower mx v \<le> v"
  by (auto simp: lower_def split: option.splits)

lemma lower_within: "withinDim mx (Some (lower mx v))"
  by (auto simp: withinDim_def lower_def split: option.splits)

lemma lower_keeps: "withinDim mx (Some v) \<Longrightarrow> withinDim mx (Some (lower mx' v))"
  using lower_le[of mx' v] by (auto simp: withinDim_def split: option.splits)

lemma hardDefaults_set: "limitSet (hardDefaults l)"
  by (auto simp: limitSet_def hardDefaults_def setOr_def word_gt_0 split: option.splits)

lemma clampLimit_set: "limitSet l \<Longrightarrow> limitSet (clampLimit mx l)"
  by (auto simp: limitSet_def clampLimit_def lower_pos split: option.splits)

lemma clampLimit_within: "limitSet l \<Longrightarrow> withinLimit mx (clampLimit mx l)"
  by (auto simp: limitSet_def clampLimit_def withinLimit_def lower_within split: option.splits)

lemma clampLimit_keeps: "limitSet l \<Longrightarrow> withinLimit mx l \<Longrightarrow> withinLimit mx (clampLimit mx' l)"
  by (auto simp: limitSet_def clampLimit_def withinLimit_def intro: lower_keeps split: option.splits)

lemma limitMap_nonzero_le: "hardDefaults (limitMap nonzero l) = hardDefaults l"
  by (auto simp: hardDefaults_def limitMap_def setOr_def nonzero_def split: option.splits)

lemma setWorkspaceLimit_cases:
  assumes "setWorkspaceLimit env ws org cc w = Inr ws'"
  obtains (build) b where "stIsBuild (wsStatus ws)" "Option.bind (ccWorkspaceLimit cc) wlBuildLimit = Some b"
      "ws' = setStatusLimit (hardDefaults b) ws"
    | (other) l0 l where "limitSet l0" "l = clampLimit (ccMaxLimit cc) (clampLimit (spcMaxLimit org) l0)"
      "ws' = setStatusLimit l (ws\<lparr>wsSpec := (wsSpec ws)\<lparr>spLimit :=
         map_option (\<lambda>s. aliasedLimit s l) (spLimit (wsSpec ws))\<rparr>\<rparr>)"
      "spcType org = Space_USER \<or> spcType org = Space_ORGANIZATION"
proof (cases "if stIsBuild (wsStatus ws) then Option.bind (ccWorkspaceLimit cc) wlBuildLimit else None")
  case (Some b)
  then show ?thesis
    using assms build[of b] by (auto simp: setWorkspaceLimit_def limitMap_nonzero_le split: if_splits)
next
  case None
  then show ?thesis
    using assms by (auto simp: setWorkspaceLimit_def io_simps Let_def split: if_splits
        intro!: other[OF hardDefaults_set refl])
qed

lemma setWorkspaceLimit_frame:
  assumes "setWorkspaceLimit env ws org cc w = Inr ws'"
  obtains l spec where "ws' = ws\<lparr>wsSpec := spec, wsStatus := (wsStatus ws)\<lparr>stLimit := Some l\<rparr>\<rparr>"
    "limitSet l" "spec = (wsSpec ws)\<lparr>spLimit := spLimit spec\<rparr>"
  using assms
proof (cases rule: setWorkspaceLimit_cases)
  case (build b)
  show ?thesis
    by (rule that[of "hardDefaults b" "wsSpec ws"])
      (simp_all add: build setStatusLimit_def hardDefaults_set)
next
  case (other l0 l)
  show ?thesis
    by (rule that[of l "(wsSpec ws)\<lparr>spLimit := map_option (\<lambda>s. aliasedLimit s l) (spLimit (wsSpec ws))\<rparr>"])
      (simp_all add: other setStatusLimit_def clampLimit_set)
qed

section \<open>Properties\<close>

text \<open>
  C26: Whatever the spec, the Template, the Space and the cluster's configuration say, a Workspace
  that gets a limit gets a positive CPU, memory and storage limit. A build for which the cluster configures a
  BuildLimit gets exactly that, with the defaults for what it leaves open: it is not bounded by any maximum. For
  every other Workspace, builds without a BuildLimit included, none of the three exceeds a maximum of the
  Space or of the cluster.
\<close>

theorem workspace_limit_bounds:
  assumes "setWorkspaceLimit env ws org cc w = Inr ws'"
  shows "case stLimit (wsStatus ws') of None \<Rightarrow> False
    | Some l \<Rightarrow> limitSet l
        \<and> (case Option.bind (ccWorkspaceLimit cc) wlBuildLimit of
             Some b \<Rightarrow>
               if stIsBuild (wsStatus ws)
               then l = \<lparr>limCpu = Some (setOr 2000 (limCpu b)), limMemory = Some (setOr 6000 (limMemory b)),
                         limStorage = Some (setOr 20000 (limStorage b))\<rparr>
               else withinLimit (spcMaxLimit org) l \<and> withinLimit (ccMaxLimit cc) l
           | None \<Rightarrow> withinLimit (spcMaxLimit org) l \<and> withinLimit (ccMaxLimit cc) l)"
proof (cases "if stIsBuild (wsStatus ws) then Option.bind (ccWorkspaceLimit cc) wlBuildLimit else None")
  case (Some b)
  then have "stIsBuild (wsStatus ws)" "Option.bind (ccWorkspaceLimit cc) wlBuildLimit = Some b"
    by (simp_all split: if_splits)
  moreover from this have "ws' = setStatusLimit (hardDefaults b) ws"
    using assms by (simp add: setWorkspaceLimit_def limitMap_nonzero_le)
  ultimately show ?thesis
    using hardDefaults_set[of b] by (simp add: setStatusLimit_def hardDefaults_def)
next
  case None
  obtain l0 l where l: "limitSet l0" "l = clampLimit (ccMaxLimit cc) (clampLimit (spcMaxLimit org) l0)"
    "stLimit (wsStatus ws') = Some l"
    by (rule setWorkspaceLimit_cases[OF assms]) (use None in \<open>auto simp: setStatusLimit_def\<close>)
  then have "limitSet (clampLimit (spcMaxLimit org) l0)"
    by (simp add: clampLimit_set)
  then have "limitSet l \<and> withinLimit (spcMaxLimit org) l \<and> withinLimit (ccMaxLimit cc) l"
    using l by (simp add: clampLimit_set clampLimit_within clampLimit_keeps)
  then show ?thesis
    using l(3) None by (auto split: option.splits if_splits)
qed

end
