(* ===== verification/Api_Validation.thy ===== *)
theory Api_Validation
  imports Api_Limits
begin

text \<open>
  \<open>apiserver/mains/workspacevalidation.go\<close>: the checks of a Workspace or Template against the
  resource server, and the completion of its Volume references, which replaces the
  references in the spec by those of the Volumes that were found.
\<close>

definition getFullVolumeName :: "string \<Rightarrow> object_ref option \<Rightarrow> string" where
  "getFullVolumeName name spaceRef =
     (if name = [] \<or> isNameFQDN name 2 then name
      else case spaceRef of
             None \<Rightarrow> name
           | Some r \<Rightarrow> if refName r = [] then name else name @ ''.'' @ refName r)"

definition getVolumeRefName :: "object_ref \<Rightarrow> string" where
  "getVolumeRefName r = (if refName r \<noteq> [] then refName r else refUid r)"

definition setWorkspaceVolumeMount :: "'w env \<Rightarrow> object_ref \<Rightarrow> volume_mount \<Rightarrow> ('w, volume_mount) io" where
  "setWorkspaceVolumeMount env spaceRef m =
     bindE (deref (vmVolumeRef m)) (\<lambda>r.
     bindE (mapErrE (\<lambda>e. if eIsNotFound env e
               then InvalidArg (''The Volume does not exist: '' @ getVolumeRefName r) else InternalWithErr e)
             (readE (cGet (eVolumes env)
               \<lparr>goUid = refUid r, goName = getFullVolumeName (refName r) (Some spaceRef)\<rparr>))) (\<lambda>vol.
     bindE (invalidIf (map_option refUid (volSpaceRef vol) \<noteq> Some (refUid spaceRef))
             (''The Volume does not exist: '' @ getVolumeRefName r)) (\<lambda>_.
     retE (m\<lparr>vmVolumeRef := Some (GetObjectReference (volMetadata vol))\<rparr>))))"

fun setVolumeMounts :: "'w env \<Rightarrow> object_ref \<Rightarrow> volume_mount list \<Rightarrow> ('w, volume_mount list) io" where
  "setVolumeMounts env spaceRef [] = retE []"
| "setVolumeMounts env spaceRef (m # ms) =
     bindE (setWorkspaceVolumeMount env spaceRef m) (\<lambda>m'.
     bindE (setVolumeMounts env spaceRef ms) (\<lambda>ms'. retE (m' # ms')))"

definition ccMaxMounts :: "cluster_config \<Rightarrow> u32" where
  "ccMaxMounts cc = (case ccVolumeLimit cc of None \<Rightarrow> 0 | Some l \<Rightarrow> vlMaxMountsPerWorkspace l)"

definition setMounts :: "volume_mount list \<Rightarrow> ws_spec \<Rightarrow> ws_spec" where
  "setMounts ms spec = spec\<lparr>spRuntime := map_option (\<lambda>rt. rt\<lparr>rtVolumeMounts := ms\<rparr>) (spRuntime spec)\<rparr>"

definition setWorkspaceVolumeMounts :: "'w env \<Rightarrow> object_ref \<Rightarrow> ws_spec \<Rightarrow> ('w, ws_spec) io" where
  "setWorkspaceVolumeMounts env spaceRef spec =
     (if spGetVolumeMounts spec = [] then retE spec
      else
        bindE (readE (eClusterConfig env)) (\<lambda>cc.
        bindE (invalidIf (ccMaxMounts cc \<noteq> 0 \<and> word_of_nat (length (spGetVolumeMounts spec)) > ccMaxMounts cc)
                (''A Workspace can mount at most '' @ showNat (unat (ccMaxMounts cc)) @ '' Volumes'')) (\<lambda>_.
        bindE (setVolumeMounts env spaceRef (spGetVolumeMounts spec)) (\<lambda>ms.
        retE (setMounts ms spec)))))"

text \<open>The result is the spec with its completed Volume references.\<close>

definition validateAndSetWorkspace :: "'w env \<Rightarrow> workspace \<Rightarrow> ('w, ws_spec) io" where
  "validateAndSetWorkspace env ws =
     (case stSpaceRef (wsStatus ws) of
        None \<Rightarrow> throwE (InvalidArg ''Invalid Workspace. It must have a SpaceRef'')
      | Some spaceRef \<Rightarrow>
          bindE (readE (cGet (eSpaces env) (byUid (refUid spaceRef)))) (\<lambda>spc.
          bindE (internalOr (readE (cList (eSecrets env)
                   (filterOpts [FStatusSpaceUID (mdUid (spcMetadata spc))])))) (\<lambda>secrets.
          bindE (case stUserRef (wsStatus ws) of
                   None \<Rightarrow> retE ()
                 | Some u \<Rightarrow> bindE (internalOr (readE (cList (eUserSecrets env)
                               (filterOpts [FStatusUserUID (refUid u)])))) (\<lambda>_. retE ())) (\<lambda>_.
          bindE (checkE (ValidateWorkspace (eValidators env) (Some (ilItems secrets)) (Some spc) ws)) (\<lambda>_.
          setWorkspaceVolumeMounts env spaceRef (wsSpec ws))))))"

text \<open>The wrapper shares the spec with the caller's Workspace, so the caller's is updated too.\<close>

definition validateWorkspace :: "'w env \<Rightarrow> workspace \<Rightarrow> ('w, workspace) io" where
  "validateWorkspace env ws =
     bindE (validateAndSetWorkspace env ws) (\<lambda>spec. retE (ws\<lparr>wsSpec := spec\<rparr>))"

section \<open>What validation guarantees\<close>

lemma read_only_setWorkspaceVolumeMount [intro!]: "read_only (setWorkspaceVolumeMount env r m)"
  unfolding setWorkspaceVolumeMount_def by auto

lemma read_only_setVolumeMounts [intro!]: "read_only (setVolumeMounts env r ms)"
  by (induction ms) auto

lemma read_only_setWorkspaceVolumeMounts [intro!]: "read_only (setWorkspaceVolumeMounts env r spec)"
  unfolding setWorkspaceVolumeMounts_def by auto

lemma read_only_validateAndSetWorkspace [intro!]: "read_only (validateAndSetWorkspace env ws)"
  unfolding validateAndSetWorkspace_def by (cases "stUserRef (wsStatus ws)") (auto split: option.splits)

lemma read_only_validateWorkspace [intro!]: "read_only (validateWorkspace env ws)"
  unfolding validateWorkspace_def by auto

text \<open>A mount of a Volume of the Space, by the reference of the stored Volume.\<close>

definition mountResolved :: "'w env \<Rightarrow> 'w \<Rightarrow> object_ref \<Rightarrow> volume_mount \<Rightarrow> bool" where
  "mountResolved env w spaceRef m \<longleftrightarrow>
     (\<exists>opts vol. cGet (eVolumes env) opts w = Inr vol
        \<and> vmVolumeRef m = Some (GetObjectReference (volMetadata vol))
        \<and> map_option refUid (volSpaceRef vol) = Some (refUid spaceRef))"

lemma mountResolvedI:
  "cGet (eVolumes env) opts w = Inr vol \<Longrightarrow> vmVolumeRef m = Some (GetObjectReference (volMetadata vol)) \<Longrightarrow>
   map_option refUid (volSpaceRef vol) = Some (refUid spaceRef) \<Longrightarrow> mountResolved env w spaceRef m"
  unfolding mountResolved_def by blast

lemma setVolumeMounts_resolved:
  "setVolumeMounts env r ms w = (Inr ms', w') \<Longrightarrow>
   w' = w \<and> list_all (mountResolved env w r) ms' \<and> map vmMountPath ms' = map vmMountPath ms"
proof (induction env r ms arbitrary: ms' w' rule: setVolumeMounts.induct)
  case (2 env r m ms)
  then obtain m1 ms1 w1 where m: "setWorkspaceVolumeMount env r m w = (Inr m1, w1)"
    and ms: "setVolumeMounts env r ms w1 = (Inr ms1, w')" and ms': "ms' = m1 # ms1"
    by (auto simp: io_simps)
  have "w1 = w" "mountResolved env w r m1" "vmMountPath m1 = vmMountPath m"
    using m by (auto simp: setWorkspaceVolumeMount_def io_simps intro!: mountResolvedI)
  then show ?case
    using 2 ms ms' m by auto
qed (auto simp: io_simps)

lemma setMounts_GetVolumeMounts:
  "spGetVolumeMounts spec \<noteq> [] \<Longrightarrow> spGetVolumeMounts (setMounts ms spec) = ms"
  by (cases "spRuntime spec") (auto simp: spGetVolumeMounts_def setMounts_def)

lemma validateAndSetWorkspace_ok:
  assumes "validateAndSetWorkspace env ws w = (Inr spec, w')"
  obtains r spc secrets where "w' = w" "stSpaceRef (wsStatus ws) = Some r"
    "cGet (eSpaces env) (byUid (refUid r)) w = Inr spc"
    "ValidateWorkspace (eValidators env) (Some secrets) (Some spc) ws = None"
    "list_all (mountResolved env w r) (spGetVolumeMounts spec)"
    "map vmMountPath (spGetVolumeMounts spec) = map vmMountPath (spGetVolumeMounts (wsSpec ws))"
proof -
  obtain r where r: "stSpaceRef (wsStatus ws) = Some r"
    using assms by (cases "stSpaceRef (wsStatus ws)") (auto simp: validateAndSetWorkspace_def io_simps)
  obtain spc and secrets :: "secret item_list" where s: "cGet (eSpaces env) (byUid (refUid r)) w = Inr spc"
    and v: "ValidateWorkspace (eValidators env) (Some (ilItems secrets)) (Some spc) ws = None"
    and m: "setWorkspaceVolumeMounts env r (wsSpec ws) w = (Inr spec, w')"
    using assms r by (auto simp: validateAndSetWorkspace_def io_simps split: option.splits)
  have "w' = w \<and> list_all (mountResolved env w r) (spGetVolumeMounts spec)
      \<and> map vmMountPath (spGetVolumeMounts spec) = map vmMountPath (spGetVolumeMounts (wsSpec ws))"
    using m by (auto simp: setWorkspaceVolumeMounts_def io_simps setMounts_GetVolumeMounts split: if_splits
        dest: setVolumeMounts_resolved)
  then show ?thesis
    using that r s v by blast
qed

end
