(* ===== verification/Api_Template.thy ===== *)
theory Api_Template
  imports Api_Validation
begin

text \<open>
  \<open>apiserver/mains/template.go\<close> (Templates and the choice of a Region), and the part of
  \<open>userconfig.go\<close> that the choice of a Region uses.
\<close>

section \<open>User configurations\<close>

definition GetUserConfig :: "'w env \<Rightarrow> ('w, user_config) io" where
  "GetUserConfig env =
     bindE (liftE (eUserCtx env)) (\<lambda>i.
     let name = GetUserConfigName (Some (userRefOf i)) in
     bindE (tryE (readE (cGet (eUserConfigs env) (byName name)))) (\<lambda>r.
     case r of
       Inr c \<Rightarrow> retE c
     | Inl e \<Rightarrow>
         if \<not> eIsNotFound env e then throwE (InternalWithErr e)
         else internalOr (cCreate (eUserConfigs env)
           \<lparr>ucMetadata = emptyMetadata\<lparr>mdName := name\<rparr>, ucUserRef = Some (userRefOf i),
            ucPreferredRegionRef = None, ucAgentWorkspaceRef = None,
            ucEnvVars = [], ucTasks = [], ucDotfiles = None\<rparr>)))"

section \<open>The choice of a Region\<close>

definition preferredRegion :: "'w env \<Rightarrow> ('w, region option) io" where
  "preferredRegion env =
     bindE (tryE (GetUserConfig env)) (\<lambda>cfg.
     case cfg of
       Inl _ \<Rightarrow> retE None
     | Inr c \<Rightarrow>
         (case ucPreferredRegionRef c of
            None \<Rightarrow> retE None
          | Some r \<Rightarrow>
              bindE (tryE (readE (cGet (eRegions env) (byUid (refUid r))))) (\<lambda>g.
              retE (case g of Inl _ \<Rightarrow> None
                    | Inr rg \<Rightarrow> if eRegionHasCordium env rg then Some rg else None))))"

definition pickRegion :: "'w env \<Rightarrow> region list \<Rightarrow> ('w, region) io" where
  "pickRegion env rgs =
     (if length rgs < 1 then throwE (InvalidArg ''No Region accepts Workspaces'')
      else if length rgs = 1 then retE (hd rgs)
      else bindE (eRandIdx env (length rgs)) (\<lambda>k.
           if k < length rgs then retE (rgs ! k) else throwE (Panic ''index'')))"

definition chooseRegion :: "'w env \<Rightarrow> object_ref option \<Rightarrow> ('w, region) io" where
  "chooseRegion env req =
     bindE (preferredRegion env) (\<lambda>pref.
     case pref of
       Some rg \<Rightarrow> retE rg
     | None \<Rightarrow>
         (case req of
            None \<Rightarrow>
              bindE (readE (cList (eRegions env) (filterOpts [FSpecLabel ''has-workspace'' ''true'']))) (\<lambda>l.
              pickRegion env (ilItems l))
          | Some r \<Rightarrow>
              bindE (invalidIf (\<not> eIsUUIDv4 env (refUid r)) ''Invalid UID'') (\<lambda>_.
              bindE (readE (cGet (eRegions env) (byUid (refUid r)))) (\<lambda>rg.
              bindE (invalidIf (\<not> eRegionHasCordium env rg) ''This Region does not accept Workspaces'') (\<lambda>_.
              retE rg)))))"

section \<open>Templates\<close>

definition maxTemplatesPerEnvironment :: u32 where "maxTemplatesPerEnvironment = 1000"

definition templateWorkspace :: "template \<Rightarrow> workspace" where
  "templateWorkspace t =
     \<lparr>wsMetadata = tmMetadata t,
      wsSpec = emptySpec\<lparr>spImage := tsImage (tmSpec t), spRuntime := tsRuntime (tmSpec t),
        spRepository := tsRepository (tmSpec t),
        spAdditionalRepositories := tsAdditionalRepositories (tmSpec t), spLimit := tsLimit (tmSpec t)\<rparr>,
      wsStatus = emptyStatus\<lparr>stSpaceRef := tmSpaceRef t\<rparr>\<rparr>"

text \<open>The Template's runtime is shared with the Workspace that is validated.\<close>

definition validateAndSetTemplate :: "'w env \<Rightarrow> template \<Rightarrow> ('w, template) io" where
  "validateAndSetTemplate env t =
     bindE (validateAndSetWorkspace env (templateWorkspace t)) (\<lambda>spec.
     let t' = t\<lparr>tmSpec := (tmSpec t)\<lparr>tsRuntime := spRuntime spec\<rparr>\<rparr> in
     if tsGitProvider (tmSpec t) = [] then retE (t'\<lparr>tmGitProviderRef := None\<rparr>)
     else
       bindE (readE (cGet (eGitProviders env) (byName (tsGitProvider (tmSpec t))))) (\<lambda>g.
       bindE (deref (gpSpaceRef g)) (\<lambda>r.
       bindE (invalidIf (Some (refUid r) \<noteq> map_option refUid (tmSpaceRef t))
               (''GitProvider does not exist: '' @ tsGitProvider (tmSpec t))) (\<lambda>_.
       retE (t'\<lparr>tmGitProviderRef := Some (GetObjectReference (gpMetadata g))\<rparr>)))))"

text \<open>
  The checks of the Create handlers: a count below the maximum, and a name that is not used.
\<close>

definition checkCount :: "('w, 'r) rsc_client \<Rightarrow> (err \<Rightarrow> err) \<Rightarrow> list_opts \<Rightarrow> u32 \<Rightarrow> err \<Rightarrow> ('w, unit) io" where
  "checkCount c f opts mx e =
     bindE (mapErrE f (readE (cList c (SetCountOnly opts)))) (\<lambda>l. throw_if (ilTotalCount l \<ge> mx) e)"

definition checkNameFree :: "'w env \<Rightarrow> ('w, 'r) rsc_client \<Rightarrow> string \<Rightarrow> err \<Rightarrow> ('w, unit) io" where
  "checkNameFree env c name e =
     bindE (tryE (readE (cGet c (byName name)))) (\<lambda>r.
     case r of
       Inr _ \<Rightarrow> throwE e
     | Inl e' \<Rightarrow> if eIsNotFound env e' then retE () else throwE (InternalWithErr e'))"

definition CreateTemplate :: "'w env \<Rightarrow> metadata \<Rightarrow> template_spec \<Rightarrow> ('w, template) io" where
  "CreateTemplate env md0 spec =
     bindE (liftE (eUserCtx env)) (\<lambda>i.
     let md = getFullNamResourceSpaceChild env md0 in
     bindE (checkE (eValidateCommon env \<lparr>voRequireName = True, voParentsMust = 2\<rparr> md)) (\<lambda>_.
     case splitOn CHR ''.'' (mdName md) of
       [a, b, c] \<Rightarrow>
         bindE (readE (cGet (eSpaces env) (byName (b @ ''.'' @ c)))) (\<lambda>org.
         bindE (checkR (CheckIsMemberAdmin env (GetObjectReference (spcMetadata org)))) (\<lambda>_.
         bindE (checkCount (eTemplates env) (\<lambda>e. e) (FilterBySpace org) maxTemplatesPerEnvironment
                 (Unauthorized ''Number of Templates per Environment has been exceeded'')) (\<lambda>_.
         bindE (checkNameFree env (eTemplates env) (mdName md)
                 (InvalidArg ''Template name already exists for this Environment'')) (\<lambda>_.
         bindE (validateAndSetTemplate env
                 \<lparr>tmMetadata = eMetadataFrom env md, tmSpec = spec,
                  tmSpaceRef = Some (GetObjectReference (spcMetadata org)), tmUserRef = Some (userRefOf i),
                  tmGitProviderRef = None, tmBuildInfo = Some emptyBuildInfo\<rparr>) (\<lambda>t.
         cCreate (eTemplates env) t)))))
     | _ \<Rightarrow> throwE (InvalidArg (''Invalid Template name: '' @ mdName md))))"

definition UpdateTemplate :: "'w env \<Rightarrow> metadata \<Rightarrow> template_spec \<Rightarrow> ('w, template) io" where
  "UpdateTemplate env md0 spec =
     (let md = getFullNamResourceSpaceChild env md0 in
     bindE (checkE (eValidateCommon env \<lparr>voRequireName = False, voParentsMust = 2\<rparr> md)) (\<lambda>_.
     bindE (notFoundOr (readE (cGet (eTemplates env) \<lparr>goUid = mdUid md, goName = mdName md\<rparr>))) (\<lambda>t0.
     bindE (validateAndSetTemplate env
             (t0\<lparr>tmMetadata := eMetadataUpdate env (tmMetadata t0) md, tmSpec := spec\<rparr>)) (\<lambda>t.
     bindE (deref (tmSpaceRef t)) (\<lambda>r.
     bindE (checkR (CheckIsMemberAdmin env r)) (\<lambda>_.
     internalOr (cUpdate (eTemplates env) t)))))))"

definition DeleteTemplate :: "'w env \<Rightarrow> get_opts \<Rightarrow> ('w, unit) io" where
  "DeleteTemplate env req0 =
     (let req = getFullDeleteOptionsSpaceChild env req0 in
     bindE (checkE (eCheckDeleteOptions env 2 req)) (\<lambda>_.
     bindE (notFoundOr (readE (cGet (eTemplates env) req))) (\<lambda>t.
     bindE (invalidIf (checkResourceDefault (tmMetadata t) = None)
             (''You cannot delete the default Template: '' @ mdName (tmMetadata t))) (\<lambda>_.
     bindE (deref (tmSpaceRef t)) (\<lambda>r.
     bindE (checkR (checkIsResourceOwnerOrSpaceOwner env (tmUserRef t) r)) (\<lambda>_.
     internalOr (cDelete (eTemplates env) (byUid (mdUid (tmMetadata t))))))))))"

definition ListTemplate :: "'w env \<Rightarrow> object_ref option \<Rightarrow> string \<Rightarrow> ('w, template item_list) io" where
  "ListTemplate env spaceRef common =
     bindE (getMemberSpaceFromSpaceRef env (map_option (getFullResourceRefSpace env) spaceRef)) (\<lambda>org.
     readE (cList (eTemplates env) (publicOpts common [FStatusSpaceUID (mdUid (spcMetadata org))])))"

definition GetTemplate :: "'w env \<Rightarrow> get_opts \<Rightarrow> ('w, template) io" where
  "GetTemplate env req0 =
     (let req = getFullGetOptionsSpaceChild env req0 in
     bindE (checkE (eCheckGetOptions env 2 req)) (\<lambda>_.
     bindE (notFoundOr (readE (cGet (eTemplates env) req))) (\<lambda>t.
     bindE (deref (tmSpaceRef t)) (\<lambda>r.
     bindE (checkR (CheckIsMember env r)) (\<lambda>_. retE t)))))"

section \<open>Facts\<close>

lemma read_only_validateAndSetTemplate [intro!]: "read_only (validateAndSetTemplate env t)"
  unfolding validateAndSetTemplate_def Let_def by (auto split: if_split)

lemma read_only_checkCount [intro!]: "read_only (checkCount c f opts mx e)"
  unfolding checkCount_def by auto

lemma read_only_checkNameFree [intro!]: "read_only (checkNameFree env c name e)"
  unfolding checkNameFree_def by (auto split: sum.splits)

lemma forE_throw_if_Inr [io_simps]:
  "forE xs (\<lambda>x. throw_if (c x) (e x)) w = (Inr u, w') \<longleftrightarrow> \<not> list_ex c xs \<and> w' = w"
  by (induction xs) (auto simp: io_simps)

lemma checkCount_Inr [io_simps]:
  "checkCount c f opts mx e w = (Inr u, w') \<longleftrightarrow>
     (\<exists>l. cList c (SetCountOnly opts) w = Inr l \<and> \<not> ilTotalCount l \<ge> mx) \<and> w' = w"
  by (auto simp: checkCount_def io_simps)

lemma checkNameFree_Inr [io_simps]:
  "checkNameFree env c name e w = (Inr u, w') \<longleftrightarrow>
     (\<exists>e'. cGet c (byName name) w = Inl e' \<and> eIsNotFound env e') \<and> w' = w"
  by (auto simp: checkNameFree_def io_simps split: sum.splits if_splits)

text \<open>
  A Region that \<open>chooseRegion\<close> returns is one the resource server knows, and it accepts
  Workspaces: it is preferred or requested and has Cordium enabled, or it is listed as such.
\<close>

definition regionKnown :: "'w env \<Rightarrow> 'w \<Rightarrow> region \<Rightarrow> bool" where
  "regionKnown env w rg \<longleftrightarrow>
     (\<exists>o'. cGet (eRegions env) o' w = Inr rg \<and> eRegionHasCordium env rg)
     \<or> (\<exists>l. cList (eRegions env) (filterOpts [FSpecLabel ''has-workspace'' ''true'']) w = Inr l \<and> rg \<in> set (ilItems l))"

lemma preferredRegion_Some:
  "preferredRegion env w = (Inr (Some rg), w') \<Longrightarrow>
   \<exists>o'. cGet (eRegions env) o' w' = Inr rg \<and> eRegionHasCordium env rg"
  by (cases "GetUserConfig env w"; cases "fst (GetUserConfig env w)")
    (auto simp: preferredRegion_def bindE_tryE_Inl bindE_tryE_Inr io_simps
      split: option.splits sum.splits if_splits)

lemma pickRegion_Inr: "pickRegion env rgs w = (Inr rg, w') \<Longrightarrow> rg \<in> set rgs"
  unfolding pickRegion_def
  by (cases "length rgs = 1") (auto simp: io_simps split: if_splits intro!: hd_in_set)

lemma chooseRegion_known:
  assumes "chooseRegion env req w = (Inr rg, w')"
  shows "\<exists>w1. regionKnown env w1 rg"
proof -
  obtain pref w1 where p: "preferredRegion env w = (Inr pref, w1)"
    using assms by (auto simp: chooseRegion_def io_simps)
  note c = assms[unfolded chooseRegion_def bindE_def[of "preferredRegion env"] p prod.case sum.case]
  show ?thesis
  proof (cases pref)
    case (Some rg')
    then show ?thesis
      using c preferredRegion_Some[of env w rg w1] p by (auto simp: io_simps regionKnown_def)
  next
    case None
    show ?thesis
    proof (cases req)
      case (Some r)
      then show ?thesis
        using c None by (auto simp: io_simps regionKnown_def)
    next
      case req: None
      then obtain l where l: "cList (eRegions env) (filterOpts [FSpecLabel ''has-workspace'' ''true'']) w1 = Inr l"
        and rg: "rg \<in> set (ilItems l)"
        using c None by (auto simp: io_simps dest: pickRegion_Inr)
      then show ?thesis
        by (auto simp: regionKnown_def)
    qed
  qed
qed

end
