(* ===== verification/Api_Space.thy ===== *)
theory Api_Space
  imports Api_Template
begin

text \<open>
  \<open>apiserver/mains/space.go\<close>: who may own a Space, its creation with the owner's Membership and
  the default Template, its deletion with everything in it, and leaving it. \<open>unsetAgentWorkspace\<close>
  of \<open>agent.go\<close> is here too.
\<close>

section \<open>Ownership\<close>

definition ruleMatchesSpace :: "'w env \<Rightarrow> user \<Rightarrow> space \<Rightarrow> ownership_rule \<Rightarrow> bool" where
  "ruleMatchesSpace env u s r = (case eEvalSpaceCondition env (owCondition r) u s of Inl _ \<Rightarrow> False | Inr b \<Rightarrow> b)"

text \<open>A condition that cannot be evaluated is skipped.\<close>

definition doCanOwnSpace :: "'w env \<Rightarrow> user \<Rightarrow> space \<Rightarrow> ownership_rule list \<Rightarrow> bool" where
  "doCanOwnSpace env u s rules =
     (if rules = [] then False
      else
        let denyRules = filter (\<lambda>r. owEffect r = Effect_DENY) rules;
            allowRules = filter (\<lambda>r. owEffect r = Effect_ALLOW) rules
        in if list_ex (ruleMatchesSpace env u s) denyRules then False
           else list_ex (ruleMatchesSpace env u s) allowRules)"

definition canOwnSpace :: "'w env \<Rightarrow> space \<Rightarrow> 'w \<Rightarrow> err + bool" where
  "canOwnSpace env s w =
     bindS (eUserCtx env) (\<lambda>i.
     bindS (mapErrS InternalWithErr (eClusterConfig env w)) (\<lambda>cc.
     Inr (case ccSpaceOwnership cc of None \<Rightarrow> False | Some rules \<Rightarrow> doCanOwnSpace env (ictxUser i) s rules)))"

section \<open>Validation\<close>

definition checkSpaceEnvVar :: "'w env \<Rightarrow> space \<Rightarrow> bool \<Rightarrow> 'w \<Rightarrow> env_var \<Rightarrow> err option" where
  "checkSpaceEnvVar env s isUpdate w e =
     (let v = eValidators env in
      checks [bad (evKey e = []) ''Env variable cannot have an empty key'',
        bad (\<not> vIsASCII v (evKey e)) ''Invalid env var key'',
        bad (length (evKey e) > 64) ''Too long env var key'',
        (case evType e of
           EnvFromSecret name \<Rightarrow>
             if spcType s \<noteq> Space_ORGANIZATION
             then Some (Unauthorized ''Secrets can only be used for ORGANIZATION Spaces'')
             else if \<not> isUpdate then None
             else if name = []
             then Some (InvalidArg (''Empty Secret name for the env variable with key: '' @ evKey e))
             else (case cGet (eSecrets env) (byName name) w of
                     Inl e' \<Rightarrow> Some (K8sNotFoundOrInternalWithErr e')
                   | Inr sec \<Rightarrow>
                       (case secSpaceRef sec of
                          None \<Rightarrow> Some (Panic ''nil'')
                        | Some r \<Rightarrow> bad (refUid r \<noteq> mdUid (spcMetadata s)) (''The Secret does not exist: '' @ name)))
         | EnvValue x \<Rightarrow>
             checks [bad (length x = 0) (''Empty value for env var: '' @ evKey e),
               bad (length x > 1024) (''Empty value for env var: '' @ x)]
         | EnvUnset \<Rightarrow> Some (InvalidArg (''No env variable value for the key: '' @ evKey e)))])"

definition validateSpace :: "'w env \<Rightarrow> space \<Rightarrow> bool \<Rightarrow> 'w \<Rightarrow> err option" where
  "validateSpace env s isUpdate w =
     (if ssLimit (spcSpec s) \<noteq> None \<and> spcType s = Space_USER
      then Some (Unauthorized ''Cannot set Limits for USER Spaces'')
      else case ssRuntime (spcSpec s) of
        None \<Rightarrow> None
      | Some rt \<Rightarrow>
          checks [bad (length (srEnvVars rt) > 128) ''Too many container env vars'',
            firstErr (checkSpaceEnvVar env s isUpdate w) (srEnvVars rt),
            bad (length (srTasks rt) > 128) ''Too many tasks'',
            firstErr (checkTask (eValidators env)) (srTasks rt),
            (case srCapabilities rt of None \<Rightarrow> None | Some c \<Rightarrow> checkCapabilities c)])"

section \<open>Creation\<close>

definition maxSpacesPerUser :: u32 where "maxSpacesPerUser = 150"

definition agentSpaceBaseName :: string where "agentSpaceBaseName = ''octelium''"

definition setTypeLabel :: "string \<Rightarrow> metadata \<Rightarrow> metadata" where
  "setTypeLabel t md =
     md\<lparr>mdSystemLabels := Some (AList.update ''type'' t (case mdSystemLabels md of None \<Rightarrow> [] | Some l \<Rightarrow> l))\<rparr>"

fun spaceTypeString :: "space_type \<Rightarrow> string" where
  "spaceTypeString Space_TYPE_UNKNOWN = ''TYPE_UNKNOWN''"
| "spaceTypeString Space_USER = ''USER''"
| "spaceTypeString Space_ORGANIZATION = ''ORGANIZATION''"

text \<open>The type of a Space follows from the second part of its name.\<close>

definition spaceTypeOf :: "user_ctx \<Rightarrow> string \<Rightarrow> err + space_type" where
  "spaceTypeOf i name =
     (case splitOn CHR ''.'' name of
        [a, b] \<Rightarrow>
          if b = mdName (usrMetadata (ictxUser i)) then
            (if a = agentSpaceBaseName
             then Inl (InvalidArg (''The Space name '' @ agentSpaceBaseName @ '' is reserved''))
             else Inr Space_USER)
          else if b = ''cordium'' then Inr Space_ORGANIZATION
          else Inl (InvalidArg ''Invalid Space name'')
      | _ \<Rightarrow> Inl (InvalidArg ''Invalid Space name''))"

definition ownerMembership :: "'w env \<Rightarrow> user_ctx \<Rightarrow> space \<Rightarrow> membership" where
  "ownerMembership env i s =
     \<lparr>memMetadata = emptyMetadata\<lparr>mdName :=
        GetMembershipName (GetObjectReference (spcMetadata s)) (userRefOf i)\<rparr>,
      memRole = Role_OWNER, memUserRef = Some (userRefOf i),
      memSpaceRef = Some (GetObjectReference (spcMetadata s)),
      memUserInfo = GetMembershipUserInfo (Some (ictxUser i)) (ePicURL env), memGitProviderStateMap = []\<rparr>"

definition CreateSpace :: "'w env \<Rightarrow> metadata \<Rightarrow> space_spec \<Rightarrow> ('w, space) io" where
  "CreateSpace env md0 spec =
     bindE (liftE (eUserCtx env)) (\<lambda>i.
     bindE (checkCount (eSpaces env) (\<lambda>e. e) (FilterByUser (ictxUser i)) maxSpacesPerUser
             (Unauthorized ''Number of Spaces per User has been exceeded'')) (\<lambda>_.
     let md = getFullNamResourceSpace env md0 in
     bindE (mapErrE (\<lambda>e. InvalidArg (''Invalid Space name: '' @ vErrString (eValidators env) e))
             (checkE (eValidateCommon env \<lparr>voRequireName = True, voParentsMust = 1\<rparr> md))) (\<lambda>_.
     bindE (invalidIf (length (splitOn CHR ''.'' (mdName md)) \<noteq> 2) ''Invalid Space name'') (\<lambda>_.
     bindE (checkNameFree env (eSpaces env) (mdName md) (AlreadyExists ''Space name already exists'')) (\<lambda>_.
     bindE (liftE (spaceTypeOf i (mdName md))) (\<lambda>ty.
     let item = \<lparr>spcMetadata = eMetadataFrom env md, spcSpec = spec, spcUserRef = Some (userRefOf i), spcType = ty\<rparr> in
     bindE (readE (canOwnSpace env item)) (\<lambda>ok.
     bindE (throw_if (\<not> ok) (Unauthorized ''You are not allowed to create this Space'')) (\<lambda>_.
     let item = item\<lparr>spcMetadata := setTypeLabel (strToLower (spaceTypeString ty)) (spcMetadata item)\<rparr> in
     bindE (checkR (validateSpace env item False)) (\<lambda>_.
     bindE (cCreate (eSpaces env) item) (\<lambda>s.
     bindE (internalOr (cCreate (eMemberships env) (ownerMembership env i s))) (\<lambda>_.
     bindE (CreateTemplate env (emptyMetadata\<lparr>mdName := ''default.'' @ mdName (spcMetadata s)\<rparr>) emptyTemplateSpec) (\<lambda>_.
     retE s))))))))))))"

section \<open>Update, deletion and reads\<close>

definition UpdateSpace :: "'w env \<Rightarrow> metadata \<Rightarrow> space_spec \<Rightarrow> ('w, space) io" where
  "UpdateSpace env md0 spec =
     (let md = getFullNamResourceSpace env md0 in
     bindE (mapErrE (\<lambda>e. InvalidArg (''Invalid Space name: '' @ vErrString (eValidators env) e))
             (checkE (eValidateCommon env \<lparr>voRequireName = True, voParentsMust = 1\<rparr> md))) (\<lambda>_.
     bindE (notFoundOr (readE (cGet (eSpaces env) (byName (mdName md))))) (\<lambda>s.
     bindE (checkR (checkIsResourceOwnerOrSpaceOwner env (spcUserRef s) (GetObjectReference (spcMetadata s)))) (\<lambda>_.
     let s' = s\<lparr>spcMetadata := eMetadataUpdate env (spcMetadata s) md, spcSpec := spec\<rparr> in
     bindE (checkR (validateSpace env s' True)) (\<lambda>_.
     internalOr (cUpdate (eSpaces env) s'))))))"

definition unsetAgentWorkspace :: "'w env \<Rightarrow> workspace \<Rightarrow> ('w, unit) io" where
  "unsetAgentWorkspace env ws =
     (case stUserRef (wsStatus ws) of
        None \<Rightarrow> retE ()
      | Some u \<Rightarrow>
          bindE (tryE (readE (cGet (eUserConfigs env) (byName (GetUserConfigName (Some u)))))) (\<lambda>r.
          case r of
            Inl e \<Rightarrow> if eIsNotFound env e then retE () else throwE (InternalWithErr e)
          | Inr c \<Rightarrow>
              if (case ucAgentWorkspaceRef c of None \<Rightarrow> [] | Some a \<Rightarrow> refUid a) \<noteq> mdUid (wsMetadata ws) then retE ()
              else bindE (internalOr (cUpdate (eUserConfigs env) (c\<lparr>ucAgentWorkspaceRef := None\<rparr>))) (\<lambda>_. retE ())))"

text \<open>Delete a resource that may be gone already; the result tells whether it was there.\<close>

definition deleteIfThere :: "'w env \<Rightarrow> ('w, 'r) rsc_client \<Rightarrow> string \<Rightarrow> ('w, bool) io" where
  "deleteIfThere env c uid =
     bindE (tryE (cDelete c (byUid uid))) (\<lambda>r.
     case r of
       Inr _ \<Rightarrow> retE True
     | Inl e \<Rightarrow> if eIsNotFound env e then retE False else throwE (InternalWithErr e))"

definition deleteSpaceWorkspace :: "'w env \<Rightarrow> workspace \<Rightarrow> ('w, unit) io" where
  "deleteSpaceWorkspace env ws =
     bindE (deleteIfThere env (eWorkspaces env) (mdUid (wsMetadata ws))) (\<lambda>there.
     if \<not> there then retE ()
     else
       bindE (unsetAgentWorkspace env ws) (\<lambda>_.
       case stSessionRef (wsStatus ws) of
         None \<Rightarrow> retE ()
       | Some r \<Rightarrow> bindE (deleteIfThere env (eSessions env) (refUid r)) (\<lambda>_. retE ())))"

definition deleteAll :: "'w env \<Rightarrow> ('w, 'r) rsc_client \<Rightarrow> ('r \<Rightarrow> metadata) \<Rightarrow> space \<Rightarrow> ('w, unit) io" where
  "deleteAll env c md s =
     bindE (readE (cList c (FilterBySpace s))) (\<lambda>l.
     forE (ilItems l) (\<lambda>x. bindE (deleteIfThere env c (mdUid (md x))) (\<lambda>_. retE ())))"

definition DeleteSpace :: "'w env \<Rightarrow> get_opts \<Rightarrow> ('w, unit) io" where
  "DeleteSpace env req =
     bindE (checkE (eCheckDeleteOptions env 0 req)) (\<lambda>_.
     bindE (notFoundOr (readE (cGet (eSpaces env) (byUid (goUid req))))) (\<lambda>s.
     bindE (checkR (checkIsResourceOwnerOrSpaceOwner env (spcUserRef s) (GetObjectReference (spcMetadata s)))) (\<lambda>_.
     bindE (readE (cList (eWorkspaces env) (FilterBySpace s))) (\<lambda>l.
     bindE (forE (ilItems l) (deleteSpaceWorkspace env)) (\<lambda>_.
     bindE (deleteAll env (eTemplates env) tmMetadata s) (\<lambda>_.
     bindE (deleteAll env (eSecrets env) secMetadata s) (\<lambda>_.
     bindE (deleteAll env (eVolumes env) volMetadata s) (\<lambda>_.
     bindE (deleteAll env (eSnapshots env) snMetadata s) (\<lambda>_.
     bindE (deleteAll env (eGitProviders env) gpMetadata s) (\<lambda>_.
     bindE (deleteAll env (eMemberships env) memMetadata s) (\<lambda>_.
     internalOr (cDelete (eSpaces env) (byUid (mdUid (spcMetadata s)))))))))))))))"

definition GetSpace :: "'w env \<Rightarrow> get_opts \<Rightarrow> ('w, space) io" where
  "GetSpace env req0 =
     (let req = getFullGetOptionsSpace env req0 in
     bindE (checkE (eCheckGetOptions env 1 req)) (\<lambda>_.
     bindE (notFoundOr (readE (cGet (eSpaces env) req))) (\<lambda>s.
     bindE (checkR (CheckIsMember env (GetObjectReference (spcMetadata s)))) (\<lambda>_. retE s))))"

datatype list_mode = MODE_UNSET | MODE_CREATED_BY | MODE_MEMBER | MODE_Other int

definition typeFilter :: "space_type \<Rightarrow> list_filter list" where
  "typeFilter t = (if t = Space_USER then [FFieldEQ ''status.type'' ''USER'']
     else if t = Space_ORGANIZATION then [FFieldEQ ''status.type'' ''ORGANIZATION''] else [])"

fun getSpaces :: "'w env \<Rightarrow> membership list \<Rightarrow> ('w, space list) io" where
  "getSpaces env [] = retE []"
| "getSpaces env (m # ms) =
     bindE (deref (memSpaceRef m)) (\<lambda>r.
     bindE (readE (cGet (eSpaces env) (byUid (refUid r)))) (\<lambda>s.
     bindE (getSpaces env ms) (\<lambda>ss. retE (s # ss))))"

definition ListSpace :: "'w env \<Rightarrow> list_mode \<Rightarrow> space_type \<Rightarrow> string \<Rightarrow> ('w, space item_list) io" where
  "ListSpace env mode ty common =
     bindE (liftE (eUserCtx env)) (\<lambda>i.
     let opts = publicOpts common (FStatusUserUID (mdUid (usrMetadata (ictxUser i))) # typeFilter ty) in
     case mode of
       MODE_MEMBER \<Rightarrow>
         bindE (readE (cList (eMemberships env) opts)) (\<lambda>l.
         bindE (getSpaces env (ilItems l)) (\<lambda>ss.
         retE \<lparr>ilItems = ss, ilTotalCount = ilTotalCount l, ilHasMore = ilHasMore l\<rparr>))
     | MODE_Other _ \<Rightarrow> throwE (InvalidArg ''Invalid Mode'')
     | _ \<Rightarrow> readE (cList (eSpaces env) opts))"

definition LeaveSpace :: "'w env \<Rightarrow> object_ref option \<Rightarrow> ('w, unit) io" where
  "LeaveSpace env spaceRef =
     bindE (liftE (eUserCtx env)) (\<lambda>i.
     let ref = map_option (getFullResourceRefSpace env) spaceRef in
     bindE (checkE (eCheckObjectRef env 1 ref)) (\<lambda>_.
     bindE (deref ref) (\<lambda>r.
     bindE (notFoundOr (readE (cGet (eSpaces env) (byRef r)))) (\<lambda>s.
     bindE (readE (GetMembership env (userRefOf i) (GetObjectReference (spcMetadata s)))) (\<lambda>mem.
     bindE (deref (spcUserRef s)) (\<lambda>creator.
     bindE (deref (memUserRef mem)) (\<lambda>u.
     bindE (throw_if (refUid creator = refUid u)
             (Unauthorized ''Space Creators cannot leave the Space. You can only delete the Space'')) (\<lambda>_.
     internalOr (cDelete (eMemberships env) (byUid (mdUid (memMetadata mem))))))))))))"

section \<open>Facts\<close>

lemma doCanOwnSpace_iff:
  "doCanOwnSpace env u s rules \<longleftrightarrow>
     list_ex (\<lambda>r. owEffect r = Effect_ALLOW \<and> ruleMatchesSpace env u s r) rules
     \<and> \<not> list_ex (\<lambda>r. owEffect r = Effect_DENY \<and> ruleMatchesSpace env u s r) rules"
  by (auto simp: doCanOwnSpace_def list_ex_iff Let_def)

lemma canOwnSpace_True:
  "canOwnSpace env s w = Inr True \<longleftrightarrow>
     (\<exists>i cc rules. eUserCtx env = Inr i \<and> eClusterConfig env w = Inr cc \<and> ccSpaceOwnership cc = Some rules
        \<and> doCanOwnSpace env (ictxUser i) s rules)" (is "?l \<longleftrightarrow> ?r")
proof
  show "?l \<Longrightarrow> ?r"
    by (auto simp: canOwnSpace_def io_simps split: option.split_asm)
  show "?r \<Longrightarrow> ?l"
    by (auto simp: canOwnSpace_def bindS_def mapErrS_def)
qed

lemma spaceTypeOf_Inr:
  "spaceTypeOf i name = Inr ty \<longleftrightarrow>
     (\<exists>a b. splitOn CHR ''.'' name = [a, b]
        \<and> (if b = mdName (usrMetadata (ictxUser i)) then a \<noteq> agentSpaceBaseName \<and> ty = Space_USER
           else b = ''cordium'' \<and> ty = Space_ORGANIZATION))"
  by (auto simp: spaceTypeOf_def split: list.splits if_splits)

lemma read_only_GetSpace [intro!]: "read_only (GetSpace env req)"
  unfolding GetSpace_def Let_def by auto

lemma CreateSpace_ok:
  assumes "CreateSpace env md0 spec w = (Inr s, w')"
  obtains i ty w1 where "eUserCtx env = Inr i"
    "spaceTypeOf i (mdName (getFullNamResourceSpace env md0)) = Inr ty"
    "canOwnSpace env \<lparr>spcMetadata = eMetadataFrom env (getFullNamResourceSpace env md0), spcSpec = spec,
       spcUserRef = Some (userRefOf i), spcType = ty\<rparr> w = Inr True"
    "\<exists>md. (let item = \<lparr>spcMetadata = md, spcSpec = spec, spcUserRef = Some (userRefOf i), spcType = ty\<rparr> in
       md = setTypeLabel (strToLower (spaceTypeString ty)) (eMetadataFrom env (getFullNamResourceSpace env md0))
       \<and> validateSpace env item False w = None \<and> cCreate (eSpaces env) item w = (Inr s, w1))"
    "\<exists>mem w2. cCreate (eMemberships env) (ownerMembership env i s) w1 = (Inr mem, w2)"
proof -
  obtain i ty w1 mem w2 and item :: space where
    "eUserCtx env = Inr i" "spaceTypeOf i (mdName (getFullNamResourceSpace env md0)) = Inr ty"
    "canOwnSpace env \<lparr>spcMetadata = eMetadataFrom env (getFullNamResourceSpace env md0), spcSpec = spec,
       spcUserRef = Some (userRefOf i), spcType = ty\<rparr> w = Inr True"
    "validateSpace env item False w = None" "cCreate (eSpaces env) item w = (Inr s, w1)"
    "cCreate (eMemberships env) (ownerMembership env i s) w1 = (Inr mem, w2)"
    "item = \<lparr>spcMetadata = setTypeLabel (strToLower (spaceTypeString ty)) (eMetadataFrom env (getFullNamResourceSpace env md0)),
       spcSpec = spec, spcUserRef = Some (userRefOf i), spcType = ty\<rparr>"
    using assms unfolding CreateSpace_def Let_def io_simps
    by clarsimp
  then show ?thesis
    using that by (auto simp: Let_def)
qed

section \<open>Properties\<close>

text \<open>
  C28: A Space is created only under a name of two parts, in the creator's own name space (a USER
  Space, never the reserved one) or in \<open>cordium\<close> (an ORGANIZATION Space), and only when, for the Space
  with that type, its creator and the requested spec, an ALLOW rule of the cluster matches and no DENY rule does.
  The Space that is stored is that Space, but for the label of its type, and its creator then gets an OWNER
  Membership of it.
\<close>

theorem CreateSpace_authorised:
  assumes "CreateSpace env md0 spec w = (Inr s, w')"
  shows "\<exists>i a b ty cc rules item w1 mem w2.
     eUserCtx env = Inr i
   \<and> splitOn CHR ''.'' (mdName (getFullNamResourceSpace env md0)) = [a, b]
   \<and> (b = mdName (usrMetadata (ictxUser i)) \<and> a \<noteq> agentSpaceBaseName \<and> ty = Space_USER
      \<or> b = ''cordium'' \<and> ty = Space_ORGANIZATION)
   \<and> item = \<lparr>spcMetadata = eMetadataFrom env (getFullNamResourceSpace env md0), spcSpec = spec,
       spcUserRef = Some (userRefOf i), spcType = ty\<rparr>
   \<and> eClusterConfig env w = Inr cc \<and> ccSpaceOwnership cc = Some rules
   \<and> list_ex (\<lambda>r. owEffect r = Effect_ALLOW \<and> ruleMatchesSpace env (ictxUser i) item r) rules
   \<and> \<not> list_ex (\<lambda>r. owEffect r = Effect_DENY \<and> ruleMatchesSpace env (ictxUser i) item r) rules
   \<and> cCreate (eSpaces env)
       (item\<lparr>spcMetadata := setTypeLabel (if ty = Space_USER then ''user'' else ''organization'') (spcMetadata item)\<rparr>) w = (Inr s, w1)
   \<and> memRole (ownerMembership env i s) = Role_OWNER
   \<and> memUserRef (ownerMembership env i s) = Some (userRefOf i)
   \<and> memSpaceRef (ownerMembership env i s) = Some (GetObjectReference (spcMetadata s))
   \<and> cCreate (eMemberships env) (ownerMembership env i s) w1 = (Inr mem, w2)"
  using assms
proof (rule CreateSpace_ok)
  fix i ty w1
  assume i: "eUserCtx env = Inr i" and ty: "spaceTypeOf i (mdName (getFullNamResourceSpace env md0)) = Inr ty"
    and own: "canOwnSpace env \<lparr>spcMetadata = eMetadataFrom env (getFullNamResourceSpace env md0), spcSpec = spec,
       spcUserRef = Some (userRefOf i), spcType = ty\<rparr> w = Inr True" (is "canOwnSpace env ?item w = _")
    and new: "\<exists>md. (let item = \<lparr>spcMetadata = md, spcSpec = spec, spcUserRef = Some (userRefOf i), spcType = ty\<rparr> in
       md = setTypeLabel (strToLower (spaceTypeString ty)) (eMetadataFrom env (getFullNamResourceSpace env md0))
       \<and> validateSpace env item False w = None \<and> cCreate (eSpaces env) item w = (Inr s, w1))"
    and mem: "\<exists>mem w2. cCreate (eMemberships env) (ownerMembership env i s) w1 = (Inr mem, w2)"
  obtain cc rules where c: "eClusterConfig env w = Inr cc" "ccSpaceOwnership cc = Some rules"
    "doCanOwnSpace env (ictxUser i) ?item rules"
    using own i by (auto simp: canOwnSpace_True)
  obtain a b where ab: "splitOn CHR ''.'' (mdName (getFullNamResourceSpace env md0)) = [a, b]"
    "b = mdName (usrMetadata (ictxUser i)) \<and> a \<noteq> agentSpaceBaseName \<and> ty = Space_USER
     \<or> b = ''cordium'' \<and> ty = Space_ORGANIZATION"
    using ty by (auto simp: spaceTypeOf_Inr split: if_splits)
  have "strToLower (spaceTypeString ty) = (if ty = Space_USER then ''user'' else ''organization'')"
  proof -
    have "strToLower (spaceTypeString Space_USER) = ''user''" "strToLower (spaceTypeString Space_ORGANIZATION) = ''organization''"
      by code_simp+
    then show ?thesis using ab(2) by auto
  qed
  with new have "cCreate (eSpaces env) (?item\<lparr>spcMetadata :=
      setTypeLabel (if ty = Space_USER then ''user'' else ''organization'') (spcMetadata ?item)\<rparr>) w = (Inr s, w1)"
    by (simp add: Let_def)
  moreover obtain m w2 where "cCreate (eMemberships env) (ownerMembership env i s) w1 = (Inr m, w2)"
    using mem by blast
  moreover have "memRole (ownerMembership env i s) = Role_OWNER" "memUserRef (ownerMembership env i s) = Some (userRefOf i)"
    "memSpaceRef (ownerMembership env i s) = Some (GetObjectReference (spcMetadata s))"
    by (simp_all add: ownerMembership_def)
  ultimately show ?thesis
    using i ab c(1,2) c(3)[unfolded doCanOwnSpace_iff] by blast
qed

text \<open>
  C29: Only the creator of a Space, as long as a Membership is left, or an OWNER of it deletes it;
  for anyone else the call fails and changes nothing.
\<close>

theorem DeleteSpace_authorised:
  assumes "eCheckDeleteOptions env 0 req = None"
    and "cGet (eSpaces env) (byUid (goUid req)) w = Inr s" and "eUserCtx env = Inr i"
    and "case GetMembershipBySpace env (GetObjectReference (spcMetadata s)) w of Inl _ \<Rightarrow> True
      | Inr mem \<Rightarrow> memRole mem \<noteq> Role_OWNER
          \<and> map_option refUid (spcUserRef s) \<noteq> Some (mdUid (usrMetadata (ictxUser i)))"
  shows "\<exists>e. DeleteSpace env req w = (Inl e, w)"
proof -
  have "checkIsResourceOwnerOrSpaceOwner env (spcUserRef s) (GetObjectReference (spcMetadata s)) w \<noteq> None"
    using assms(3,4) by (auto simp: checkIsResourceOwnerOrSpaceOwner_None split: sum.splits)
  then show ?thesis
    using assms(1,2) by (auto simp: DeleteSpace_def bindE_Inl io_simps)
qed

text \<open>The creator of a Space cannot leave it, and the refused call changes nothing.\<close>

theorem LeaveSpace_not_creator:
  assumes "LeaveSpace env ref w = (Inr u, w')"
  shows "\<exists>i r s mem. eUserCtx env = Inr i \<and> ref = Some r
     \<and> cGet (eSpaces env) (byRef (getFullResourceRefSpace env r)) w = Inr s
     \<and> GetMembership env (userRefOf i) (GetObjectReference (spcMetadata s)) w = Inr mem
     \<and> map_option refUid (spcUserRef s) \<noteq> map_option refUid (memUserRef mem)
     \<and> cDelete (eMemberships env) (byUid (mdUid (memMetadata mem))) w = (Inr u, w')"
  using assms by (auto simp: LeaveSpace_def Let_def io_simps)

end
