(* ===== verification/Api_Membership.thy ===== *)
theory Api_Membership
  imports Api_Space
begin

text \<open>
  \<open>apiserver/mains/membership.go\<close>: who is a Member of a Space, with which role; and
  \<open>region.go\<close>, the Regions a user sees. A stored Membership has its spec.
\<close>

section \<open>Creation\<close>

datatype member_user = ByEmail string | ByUserRef "object_ref option" | UserTypeUnset

definition maxMembersPerSpace :: u32 where "maxMembersPerSpace = 2000"

definition memberUser :: "'w env \<Rightarrow> member_user \<Rightarrow> ('w, user) io" where
  "memberUser env ut =
     (case ut of
        ByEmail email \<Rightarrow>
          bindE (invalidIf (email = []) ''Email is empty'') (\<lambda>_.
          bindE (invalidIf (\<not> eIsEmail env email \<or> \<not> vIsASCII (eValidators env) email \<or> length email > 150)
                  ''Invalid email'') (\<lambda>_.
          bindE (readE (cList (eUsers env) (filterOpts [FSpecLabel ''email'' (eSlug env email)]))) (\<lambda>usrs.
          case ilItems usrs of
            [usr] \<Rightarrow>
              bindE (invalidIf (usrEmail usr \<noteq> email) ''The User email does not match the provider info'') (\<lambda>_.
              retE usr)
          | _ \<Rightarrow> throwE (InvalidArg ''This User does not exist''))))
      | ByUserRef None \<Rightarrow> throwE (InvalidArg ''UserRef is not provided'')
      | ByUserRef (Some r) \<Rightarrow>
          bindE (checkE (eCheckGetOptions env 0 (byRef r))) (\<lambda>_.
          notFoundOr (readE (cGet (eUsers env) (byRef r))))
      | UserTypeUnset \<Rightarrow> throwE (InvalidArg ''You must provide either a User email or a User Reference''))"

definition newMembership :: "'w env \<Rightarrow> space \<Rightarrow> user \<Rightarrow> role \<Rightarrow> membership" where
  "newMembership env org usr rl =
     \<lparr>memMetadata = emptyMetadata\<lparr>mdName := GetMembershipName (GetObjectReference (spcMetadata org))
        (GetObjectReference (usrMetadata usr))\<rparr>,
      memRole = (if rl = Role_UNKNOWN then Role_USER else rl),
      memUserRef = Some (GetObjectReference (usrMetadata usr)),
      memSpaceRef = Some (GetObjectReference (spcMetadata org)),
      memUserInfo = GetMembershipUserInfo (Some usr) (ePicURL env), memGitProviderStateMap = []\<rparr>"

text \<open>The role OWNER needs an OWNER, and the rules of the cluster for the user of the request.\<close>

definition checkOwnerRole :: "'w env \<Rightarrow> role \<Rightarrow> object_ref \<Rightarrow> space \<Rightarrow> ('w, unit) io" where
  "checkOwnerRole env rl spaceRef org =
     (if rl \<noteq> Role_OWNER then retE ()
      else
        bindE (checkR (CheckIsMemberOwner env spaceRef)) (\<lambda>_.
        bindE (readE (canOwnSpace env org)) (\<lambda>ok.
        throw_if (\<not> ok) (Unauthorized ''This User is not authorized to become an OWNER''))))"

definition checkNoMembership :: "'w env \<Rightarrow> object_ref \<Rightarrow> object_ref \<Rightarrow> ('w, unit) io" where
  "checkNoMembership env userRef spaceRef =
     bindE (tryE (readE (GetMembership env userRef spaceRef))) (\<lambda>r.
     case r of
       Inr _ \<Rightarrow> throwE (InvalidArg ''User is already a Member in this Space'')
     | Inl e \<Rightarrow> if eIsNotFound env e then retE () else throwE (InternalWithErr e))"

definition CreateMembership ::
  "'w env \<Rightarrow> object_ref option \<Rightarrow> member_user \<Rightarrow> role \<Rightarrow> ('w, membership) io" where
  "CreateMembership env spaceRef ut rl =
     (case spaceRef of
        None \<Rightarrow> throwE (InvalidArg ''SpaceRef is not provided'')
      | Some r \<Rightarrow>
     bindE (checkE (eCheckGetOptions env 1 (byRef r))) (\<lambda>_.
     bindE (checkR (CheckIsMemberAdmin env r)) (\<lambda>_.
     bindE (memberUser env ut) (\<lambda>usr.
     bindE (notFoundOr (readE (cGet (eSpaces env) (byUid (refUid r))))) (\<lambda>org.
     bindE (liftE (eUserCtx env)) (\<lambda>i.
     bindE (invalidIf (mdUid (usrMetadata (ictxUser i)) = mdUid (usrMetadata usr))
             ''You cannot add yourself as a Member'') (\<lambda>_.
     bindE (checkNoMembership env (GetObjectReference (usrMetadata usr)) (GetObjectReference (spcMetadata org))) (\<lambda>_.
     bindE (checkCount (eMemberships env) (\<lambda>e. e) (FilterBySpace org) maxMembersPerSpace
             (Unauthorized ''Number of Members per Space has been exceeded'')) (\<lambda>_.
     bindE (invalidIf (spcType org = Space_USER) ''Cannot add Members to User Spaces for now'') (\<lambda>_.
     let item = newMembership env org usr rl in
     bindE (checkOwnerRole env (memRole item) (GetObjectReference (spcMetadata org)) org) (\<lambda>_.
     cCreate (eMemberships env) item)))))))))))"

section \<open>Update, deletion and reads\<close>

definition hideGitState :: "membership \<Rightarrow> membership" where
  "hideGitState m = m\<lparr>memGitProviderStateMap := []\<rparr>"

definition checkCreatorKeepsRole :: "role \<Rightarrow> membership \<Rightarrow> space \<Rightarrow> ('w, unit) io" where
  "checkCreatorKeepsRole rl itm spc =
     (if rl = memRole itm then retE ()
      else
        bindE (deref (spcUserRef spc)) (\<lambda>creator.
        bindE (deref (memUserRef itm)) (\<lambda>u.
        invalidIf (refUid creator = refUid u) ''Space Creators cannot update their own Memberships'')))"

definition UpdateMembership :: "'w env \<Rightarrow> metadata \<Rightarrow> role option \<Rightarrow> ('w, membership) io" where
  "UpdateMembership env md0 specRole =
     (let md = getFullNamResourceSpaceChild env md0 in
     bindE (checkE (eValidateCommon env \<lparr>voRequireName = False, voParentsMust = 2\<rparr> md)) (\<lambda>_.
     bindE (notFoundOr (readE (cGet (eMemberships env) \<lparr>goUid = mdUid md, goName = mdName md\<rparr>))) (\<lambda>itm.
     bindE (deref (memSpaceRef itm)) (\<lambda>r.
     bindE (notFoundOr (readE (cGet (eSpaces env) (byUid (refUid r))))) (\<lambda>spc.
     bindE (checkR (CheckIsMemberAdmin env r)) (\<lambda>_.
     bindE (invalidIf (memRole itm = Role_UNKNOWN) ''The Role cannot be unknown'') (\<lambda>_.
     bindE (deref specRole) (\<lambda>rl.
     bindE (checkCreatorKeepsRole rl itm spc) (\<lambda>_.
     bindE (checkOwnerRole env rl r spc) (\<lambda>_.
     bindE (internalOr (cUpdate (eMemberships env) (itm\<lparr>memRole := rl\<rparr>))) (\<lambda>ret.
     retE (hideGitState ret))))))))))))"

definition DeleteMembership :: "'w env \<Rightarrow> get_opts \<Rightarrow> ('w, unit) io" where
  "DeleteMembership env req0 =
     (let req = getFullDeleteOptionsSpaceChild env req0 in
     bindE (checkE (eCheckDeleteOptions env 2 req)) (\<lambda>_.
     bindE (notFoundOr (readE (cGet (eMemberships env) req))) (\<lambda>itm.
     bindE (deref (memSpaceRef itm)) (\<lambda>r.
     bindE (notFoundOr (readE (cGet (eSpaces env) (byUid (refUid r))))) (\<lambda>spc.
     bindE (deref (spcUserRef spc)) (\<lambda>creator.
     bindE (deref (memUserRef itm)) (\<lambda>u.
     bindE (throw_if (refUid creator = refUid u) (Unauthorized ''Space Creators cannot remove themselves'')) (\<lambda>_.
     bindE (checkR (CheckIsMemberAdmin env r)) (\<lambda>_.
     bindE (if memRole itm = Role_OWNER then checkR (CheckIsMemberOwner env r) else retE ()) (\<lambda>_.
     internalOr (cDelete (eMemberships env) (byUid (mdUid (memMetadata itm))))))))))))))"

definition ListMembership :: "'w env \<Rightarrow> object_ref option \<Rightarrow> string \<Rightarrow> ('w, membership item_list) io" where
  "ListMembership env spaceRef common =
     bindE (getMemberSpaceFromSpaceRef env (map_option (getFullResourceRefSpace env) spaceRef)) (\<lambda>org.
     bindE (internalOr (readE (cList (eMemberships env)
             (publicOpts common [FStatusSpaceUID (mdUid (spcMetadata org))])))) (\<lambda>l.
     retE (l\<lparr>ilItems := map hideGitState (ilItems l)\<rparr>)))"

definition GetSpaceMembership :: "'w env \<Rightarrow> object_ref option \<Rightarrow> ('w, membership) io" where
  "GetSpaceMembership env spaceRef =
     bindE (getMemberSpaceFromSpaceRef env spaceRef) (\<lambda>org.
     notFoundOr (readE (GetMembershipBySpace env (GetObjectReference (spcMetadata org)))))"

definition GetMembership_handler :: "'w env \<Rightarrow> get_opts \<Rightarrow> ('w, membership) io" where
  "GetMembership_handler env req0 =
     (let req = getFullGetOptionsSpaceChild env req0 in
     bindE (checkE (eCheckGetOptions env 2 req)) (\<lambda>_.
     bindE (notFoundOr (readE (cGet (eMemberships env) req))) (\<lambda>item.
     bindE (deref (memSpaceRef item)) (\<lambda>r.
     bindE (checkR (CheckIsMember env r)) (\<lambda>_.
     retE (hideGitState item))))))"

definition ListRegion :: "'w env \<Rightarrow> string \<Rightarrow> ('w, region item_list) io" where
  "ListRegion env common =
     bindE (internalOr (readE (cList (eRegions env)
             (publicOpts common [FFieldTrue ''status.ext.cordium.isEnabled''])))) (\<lambda>l.
     retE (l\<lparr>ilItems := map (\<lambda>itm. \<lparr>rgnMetadata = emptyMetadata\<lparr>mdUid := mdUid (rgnMetadata itm),
        mdName := mdName (rgnMetadata itm)\<rparr>\<rparr>) (ilItems l)\<rparr>))"

section \<open>Facts\<close>

lemma read_only_memberUser [intro!]: "read_only (memberUser env ut)"
  unfolding memberUser_def by (auto split: member_user.splits option.splits list.splits)

lemma memberUser_world: "memberUser env ut w = (r, w') \<Longrightarrow> w' = w"
  using read_only_memberUser by (rule read_onlyD)

lemma checkOwnerRole_Inr [io_simps]:
  "checkOwnerRole env rl r org w = (Inr u, w') \<longleftrightarrow>
     (rl = Role_OWNER \<longrightarrow> CheckIsMemberOwner env r w = None \<and> canOwnSpace env org w = Inr True) \<and> w' = w"
  by (auto simp: checkOwnerRole_def io_simps)

lemma checkNoMembership_Inr [io_simps]:
  "checkNoMembership env u r w = (Inr x, w') \<longleftrightarrow>
     (\<exists>e. GetMembership env u r w = Inl e \<and> eIsNotFound env e) \<and> w' = w"
  by (auto simp: checkNoMembership_def io_simps split: sum.splits if_splits)

text \<open>What the user of the request is in a Space.\<close>

definition callerRole :: "'w env \<Rightarrow> object_ref \<Rightarrow> 'w \<Rightarrow> role option" where
  "callerRole env r w = (case GetMembershipBySpace env r w of Inl _ \<Rightarrow> None | Inr mem \<Rightarrow> Some (memRole mem))"

definition callerAdmin :: "'w env \<Rightarrow> object_ref \<Rightarrow> 'w \<Rightarrow> bool" where
  "callerAdmin env r w \<longleftrightarrow> callerRole env r w = Some Role_ADMIN \<or> callerRole env r w = Some Role_OWNER"

definition callerOwner :: "'w env \<Rightarrow> object_ref \<Rightarrow> 'w \<Rightarrow> bool" where
  "callerOwner env r w \<longleftrightarrow> callerRole env r w = Some Role_OWNER"

lemma CheckIsMemberAdmin_role: "CheckIsMemberAdmin env r w = None \<longleftrightarrow> callerAdmin env r w"
  by (auto simp: admin_gate.passes_iff callerAdmin_def callerRole_def split: sum.splits)

lemma CheckIsMemberOwner_role: "CheckIsMemberOwner env r w = None \<longleftrightarrow> callerOwner env r w"
  by (auto simp: owner_gate.passes_iff callerOwner_def callerRole_def split: sum.splits)

lemma checkCreatorKeepsRole_Inr [io_simps]:
  "checkCreatorKeepsRole rl itm spc w = (Inr u, w') \<longleftrightarrow>
     (rl = memRole itm \<or> (\<exists>c m. spcUserRef spc = Some c \<and> memUserRef itm = Some m \<and> refUid c \<noteq> refUid m)) \<and> w' = w"
  by (auto simp: checkCreatorKeepsRole_def io_simps)

lemma callerAdmin_name:
  assumes "refName r = refName r'"
  shows "callerAdmin env r w \<longleftrightarrow> callerAdmin env r' w"
  using assms by (simp add: callerAdmin_def callerRole_def GetMembershipBySpace_def GetMembership_def GetMembershipName_def)

section \<open>Properties\<close>

text \<open>
  C30: A Membership is created in the Space that the UID of the reference names, which is not a USER Space, for a User
  who is not the user of the request and has no Membership of that Space yet. The user of the request is an ADMIN or OWNER of
  the Space that the name of the reference names: of the Space of the new Membership, when the reference has
  its name; nothing checks that it has. The role OWNER is given only by an OWNER of the Space of the
  Membership whom the rules of the cluster let own it.
\<close>

theorem CreateMembership_authorised:
  assumes "CreateMembership env spaceRef ut rl w = (Inr mem, w')"
  shows "\<exists>r i org u item e. spaceRef = Some r \<and> eUserCtx env = Inr i
   \<and> cGet (eSpaces env) (byUid (refUid r)) w = Inr org \<and> spcType org \<noteq> Space_USER
   \<and> callerAdmin env r w
   \<and> (refName r = mdName (spcMetadata org) \<longrightarrow> callerAdmin env (GetObjectReference (spcMetadata org)) w)
   \<and> memUserRef item = Some u \<and> refUid u \<noteq> mdUid (usrMetadata (ictxUser i))
   \<and> memSpaceRef item = Some (GetObjectReference (spcMetadata org))
   \<and> GetMembership env u (GetObjectReference (spcMetadata org)) w = Inl e \<and> eIsNotFound env e
   \<and> memRole item = (if rl = Role_UNKNOWN then Role_USER else rl)
   \<and> (memRole item = Role_OWNER \<longrightarrow>
        callerOwner env (GetObjectReference (spcMetadata org)) w
        \<and> canOwnSpace env org w = Inr True)
   \<and> cCreate (eMemberships env) item w = (Inr mem, w')"
proof -
  obtain r where r: "spaceRef = Some r"
    using assms by (cases spaceRef) (auto simp: CreateMembership_def io_simps)
  obtain i w1 e and org :: space and usr :: user where f:
    "eUserCtx env = Inr i" "callerAdmin env r w"
    "memberUser env ut w = (Inr usr, w1)" "cGet (eSpaces env) (byUid (refUid r)) w1 = Inr org"
    "spcType org \<noteq> Space_USER" "mdUid (usrMetadata (ictxUser i)) \<noteq> mdUid (usrMetadata usr)"
    "GetMembership env (GetObjectReference (usrMetadata usr)) (GetObjectReference (spcMetadata org)) w1 = Inl e"
    "eIsNotFound env e"
    and c: "memRole (newMembership env org usr rl) = Role_OWNER \<longrightarrow>
        callerOwner env (GetObjectReference (spcMetadata org)) w1
        \<and> canOwnSpace env org w1 = Inr True"
    "cCreate (eMemberships env) (newMembership env org usr rl) w1 = (Inr mem, w')"
    using assms unfolding r CreateMembership_def Let_def option.case io_simps not_not
      CheckIsMemberAdmin_role CheckIsMemberOwner_role
    by clarify (rule that, assumption+)
  have "w1 = w"
    using f(3) by (rule memberUser_world)
  moreover have "refName r = mdName (spcMetadata org) \<longrightarrow> callerAdmin env (GetObjectReference (spcMetadata org)) w"
    using f(2) callerAdmin_name[of r "GetObjectReference (spcMetadata org)" env w] by simp
  moreover have "memRole (newMembership env org usr rl) = (if rl = Role_UNKNOWN then Role_USER else rl)"
    "memUserRef (newMembership env org usr rl) = Some (GetObjectReference (usrMetadata usr))"
    "memSpaceRef (newMembership env org usr rl) = Some (GetObjectReference (spcMetadata org))"
    by (simp_all add: newMembership_def)
  ultimately show ?thesis
    using r f c by (intro exI[of _ r] exI[of _ i] exI[of _ org] exI[of _ "GetObjectReference (usrMetadata usr)"]
      exI[of _ "newMembership env org usr rl"] exI[of _ e]) simp
qed

text \<open>
  C31: Changing the role of a Membership needs an ADMIN or OWNER of its Space; the creator of the
  Space keeps the role; the role OWNER is given only by an OWNER whom the rules let own the
  Space; and nothing but the role changes.
\<close>

theorem UpdateMembership_authorised:
  assumes "UpdateMembership env md rl w = (Inr mem, w')"
  shows "\<exists>itm r spc rl' ret. rl = Some rl' \<and> memSpaceRef itm = Some r
   \<and> cGet (eMemberships env) \<lparr>goUid = mdUid (getFullNamResourceSpaceChild env md),
        goName = mdName (getFullNamResourceSpaceChild env md)\<rparr> w = Inr itm
   \<and> cGet (eSpaces env) (byUid (refUid r)) w = Inr spc
   \<and> callerAdmin env r w
   \<and> (rl' \<noteq> memRole itm \<longrightarrow> map_option refUid (spcUserRef spc) \<noteq> map_option refUid (memUserRef itm))
   \<and> (rl' = Role_OWNER \<longrightarrow> callerOwner env r w \<and> canOwnSpace env spc w = Inr True)
   \<and> cUpdate (eMemberships env) (itm\<lparr>memRole := rl'\<rparr>) w = (Inr ret, w') \<and> mem = hideGitState ret"
proof -
  obtain r rl' and itm :: membership and spc :: space and ret :: membership where f:
    "rl = Some rl'" "memSpaceRef itm = Some r"
    "cGet (eMemberships env) \<lparr>goUid = mdUid (getFullNamResourceSpaceChild env md),
        goName = mdName (getFullNamResourceSpaceChild env md)\<rparr> w = Inr itm"
    "cGet (eSpaces env) (byUid (refUid r)) w = Inr spc"
    "callerAdmin env r w"
    "rl' = Role_OWNER \<longrightarrow> callerOwner env r w \<and> canOwnSpace env spc w = Inr True"
    "cUpdate (eMemberships env) (itm\<lparr>memRole := rl'\<rparr>) w = (Inr ret, w')" "mem = hideGitState ret"
    "rl' = memRole itm \<or> (\<exists>c m. spcUserRef spc = Some c \<and> memUserRef itm = Some m \<and> refUid c \<noteq> refUid m)"
    using assms unfolding UpdateMembership_def Let_def io_simps CheckIsMemberAdmin_role
      CheckIsMemberOwner_role
    by clarify (rule that, (assumption | rule refl)+)
  then have "rl' \<noteq> memRole itm \<longrightarrow> map_option refUid (spcUserRef spc) \<noteq> map_option refUid (memUserRef itm)"
    by auto
  then show ?thesis
    using f by blast
qed

text \<open>
  C32: A Membership is removed by an ADMIN or OWNER of its Space, that of an OWNER only by an OWNER,
  and that of the Space's creator by no one.
\<close>

theorem DeleteMembership_authorised:
  assumes "DeleteMembership env req w = (Inr u, w')"
  shows "\<exists>itm r spc. memSpaceRef itm = Some r
   \<and> cGet (eMemberships env) (getFullDeleteOptionsSpaceChild env req) w = Inr itm
   \<and> cGet (eSpaces env) (byUid (refUid r)) w = Inr spc
   \<and> map_option refUid (spcUserRef spc) \<noteq> map_option refUid (memUserRef itm)
   \<and> callerAdmin env r w
   \<and> (memRole itm = Role_OWNER \<longrightarrow> callerOwner env r w)
   \<and> cDelete (eMemberships env) (byUid (mdUid (memMetadata itm))) w = (Inr u, w')"
  using assms unfolding DeleteMembership_def Let_def io_simps CheckIsMemberAdmin_role
  by (auto simp: io_simps CheckIsMemberOwner_role split: if_splits)

end
