(* ===== verification/Api_Secret.thy ===== *)
theory Api_Secret
  imports Api_Template
begin

text \<open>
  \<open>apiserver/mains/secret.go\<close> and \<open>usersecret.go\<close>: the Secrets of a Space and of a User. Their
  values are stored, and never returned by a handler.
\<close>

section \<open>Secrets of a Space\<close>

definition maxSecretsPerSpace :: u32 where "maxSecretsPerSpace = 1000"

definition maxSecretSize :: nat where "maxSecretSize = 1500"

definition checkValueSize :: "string \<Rightarrow> string \<Rightarrow> err option" where
  "checkValueSize tooLarge v =
     checks [bad (length v = 0) ''Empty value'', bad (length v > maxSecretSize) tooLarge]"

definition checkSecretData :: "secret_data option \<Rightarrow> err option" where
  "checkSecretData d =
     (case d of
        None \<Rightarrow> Some (InvalidArg ''Data is not set'')
      | Some (DataValue v) \<Rightarrow> checkValueSize ''Secret data is too large'' v
      | Some (DataValueBytes v) \<Rightarrow> checkValueSize ''Secret data is too large'' v
      | Some _ \<Rightarrow> Some (InvalidArg ''Invalid Secret data type''))"

definition hideSecret :: "secret \<Rightarrow> secret" where
  "hideSecret s = s\<lparr>secData := None\<rparr>"

definition CreateSecret :: "'w env \<Rightarrow> metadata \<Rightarrow> secret_data option \<Rightarrow> ('w, secret) io" where
  "CreateSecret env md0 d =
     bindE (liftE (eUserCtx env)) (\<lambda>i.
     let md = getFullNamResourceSpaceChild env md0 in
     bindE (checkE (eValidateCommonData env \<lparr>voRequireName = True, voParentsMust = 2\<rparr> md d)) (\<lambda>_.
     bindE (liftE (parseSpaceResource (mdName md))) (\<lambda>nameReq.
     bindE (readE (cGet (eSpaces env) (byName (snd nameReq)))) (\<lambda>org.
     bindE (checkCount (eSecrets env) (\<lambda>e. e) (FilterBySpace org) maxSecretsPerSpace
             (Unauthorized ''Number of Secrets per Space has been exceeded'')) (\<lambda>_.
     bindE (checkNameFree env (eSecrets env) (mdName md) (InvalidArg ''This Secret name already exists'')) (\<lambda>_.
     let item = \<lparr>secMetadata = eMetadataFrom env md, secUserRef = Some (userRefOf i),
           secSpaceRef = Some (GetObjectReference (spcMetadata org)), secData = d\<rparr> in
     bindE (checkE (checkSecretData d)) (\<lambda>_.
     bindE (checkR (CheckIsMemberAdmin env (GetObjectReference (spcMetadata org)))) (\<lambda>_.
     bindE (internalOr (cCreate (eSecrets env) item)) (\<lambda>ret.
     retE (hideSecret ret))))))))))"

definition ListSecret :: "'w env \<Rightarrow> object_ref option \<Rightarrow> string \<Rightarrow> ('w, secret item_list) io" where
  "ListSecret env spaceRef common =
     bindE (getMemberSpaceFromSpaceRef env (map_option (getFullResourceRefSpace env) spaceRef)) (\<lambda>org.
     bindE (internalOr (readE (cList (eSecrets env)
             (publicOpts common [FStatusSpaceUID (mdUid (spcMetadata org))])))) (\<lambda>l.
     retE (l\<lparr>ilItems := map hideSecret (ilItems l)\<rparr>)))"

definition DeleteSecret :: "'w env \<Rightarrow> get_opts \<Rightarrow> ('w, unit) io" where
  "DeleteSecret env req0 =
     (let req = getFullDeleteOptionsSpaceChild env req0 in
     bindE (checkE (eCheckDeleteOptions env 2 req)) (\<lambda>_.
     bindE (notFoundOr (readE (cGet (eSecrets env) req))) (\<lambda>item.
     bindE (deref (secSpaceRef item)) (\<lambda>r.
     bindE (checkR (CheckIsMemberAdmin env r)) (\<lambda>_.
     internalOr (cDelete (eSecrets env) (byUid (mdUid (secMetadata item)))))))))"

definition GetSecret :: "'w env \<Rightarrow> get_opts \<Rightarrow> ('w, secret) io" where
  "GetSecret env req0 =
     (let req = getFullGetOptionsSpaceChild env req0 in
     bindE (checkE (eCheckGetOptions env 2 req)) (\<lambda>_.
     bindE (notFoundOr (readE (cGet (eSecrets env) req))) (\<lambda>item.
     bindE (deref (secSpaceRef item)) (\<lambda>r.
     bindE (checkR (CheckIsMemberAdmin env r)) (\<lambda>_.
     retE (hideSecret item))))))"

section \<open>Secrets of a User\<close>

definition maxUserSecretPerUser :: u32 where "maxUserSecretPerUser = 1000"

text \<open>The result is the data that is stored: an SSH key's is dropped here and generated later.\<close>

definition checkUserSecretData ::
  "'w env \<Rightarrow> user_secret_type \<Rightarrow> secret_data option \<Rightarrow> err + secret_data option" where
  "checkUserSecretData env t d =
     (if t = UserSecret_SSH_KEY then Inr (Some DataUnset)
      else
        let tooLarge = ''UserSecret data is too large'' in
        bindS (checkS (case d of
          None \<Rightarrow> Some (InvalidArg ''Nil data'')
        | Some (DataValue v) \<Rightarrow> checkValueSize tooLarge v
        | Some (DataValueBytes v) \<Rightarrow> checkValueSize tooLarge v
        | Some (DataAttrs a) \<Rightarrow>
            (case eMarshalAttrs env a of
               Inl _ \<Rightarrow> Some (InvalidArg ''Could not parse attributes'')
             | Inr out \<Rightarrow> bad (length out > maxSecretSize) tooLarge)
        | Some DataUnset \<Rightarrow> Some (InvalidArg ''Invalid UserSecret data type''))) (\<lambda>_. Inr d))"

definition trimSuffix :: "string \<Rightarrow> string \<Rightarrow> string" where
  "trimSuffix s suf = (if hasSuffix s suf then take (length s - length suf) s else s)"

text \<open>The key pair is generated before the name is looked at.\<close>

definition setSSHKeyUserSecret :: "'w env \<Rightarrow> user_secret \<Rightarrow> ('w, user_secret) io" where
  "setSSHKeyUserSecret env sec =
     bindE (eGenerateSSHKey env) (\<lambda>k.
     case splitOn CHR ''.'' (mdName (usMetadata sec)) of
       [a, b] \<Rightarrow>
         retE (sec\<lparr>usData := Some (DataValueBytes (fst k)),
                   usSshPublicKey := Some (trimSuffix (snd k) [CHR 0x0A] @ '' '' @ a @ ''@cordium'')\<rparr>)
     | _ \<Rightarrow> throwE (InvalidArg (''Invalid name: '' @ mdName (usMetadata sec))))"

definition hideUserSecret :: "user_secret \<Rightarrow> user_secret" where
  "hideUserSecret s = s\<lparr>usData := None\<rparr>"

text \<open>The name of a resource of a User: \<open>name.user\<close>, with the name of that User.\<close>

definition checkUserChildName :: "user_ctx \<Rightarrow> string \<Rightarrow> err option" where
  "checkUserChildName i name =
     (case splitOn CHR ''.'' name of
        [a, b] \<Rightarrow> (if b \<noteq> mdName (usrMetadata (ictxUser i)) then Some (Unauthorized ''Invalid User'') else None)
      | _ \<Rightarrow> Some (InvalidArg (''Invalid name: '' @ name)))"

definition CreateUserSecret ::
  "'w env \<Rightarrow> metadata \<Rightarrow> user_secret_type \<Rightarrow> secret_data option \<Rightarrow> ('w, user_secret) io" where
  "CreateUserSecret env md0 t d =
     bindE (liftE (eUserCtx env)) (\<lambda>i.
     let md = getFullNamResourceUserChildWithUserCtx i md0 in
     bindE (checkE (eValidateCommonData env \<lparr>voRequireName = True, voParentsMust = 1\<rparr> md d)) (\<lambda>_.
     bindE (checkE (checkUserChildName i (mdName md))) (\<lambda>_.
     bindE (checkCount (eUserSecrets env) InternalWithErr (FilterByUser (ictxUser i)) maxUserSecretPerUser
             (Unauthorized ''Maximum UserSecret limit reached'')) (\<lambda>_.
     bindE (checkNameFree env (eUserSecrets env) (mdName md)
             (InvalidArg ''This UserSecret name already exists'')) (\<lambda>_.
     bindE (liftE (checkUserSecretData env t d)) (\<lambda>d'.
     let item = \<lparr>usMetadata = eMetadataFrom env md, usType = t, usUserRef = Some (userRefOf i),
           usSshPublicKey = None, usData = d'\<rparr> in
     bindE (if t = UserSecret_SSH_KEY then internalOr (setSSHKeyUserSecret env item) else retE item) (\<lambda>item'.
     bindE (internalOr (cCreate (eUserSecrets env) item')) (\<lambda>ret.
     retE (hideUserSecret ret)))))))))"

definition ListUserSecret :: "'w env \<Rightarrow> string \<Rightarrow> ('w, user_secret item_list) io" where
  "ListUserSecret env common =
     bindE (liftE (eUserCtx env)) (\<lambda>i.
     bindE (internalOr (readE (cList (eUserSecrets env)
             (publicOpts common [FStatusUserUID (mdUid (usrMetadata (ictxUser i)))])))) (\<lambda>l.
     retE (l\<lparr>ilItems := map hideUserSecret (ilItems l)\<rparr>)))"

definition DeleteUserSecret :: "'w env \<Rightarrow> get_opts \<Rightarrow> ('w, unit) io" where
  "DeleteUserSecret env req =
     bindE (liftE (eUserCtx env)) (\<lambda>i.
     bindE (checkE (eCheckDeleteOptions env 1 req)) (\<lambda>_.
     bindE (notFoundOr (readE (cGet (eUserSecrets env) req))) (\<lambda>item.
     bindE (deref (usUserRef item)) (\<lambda>u.
     bindE (throw_if (refUid u \<noteq> mdUid (usrMetadata (ictxUser i)))
             (Unauthorized ''Cannot delete this UserSecret'')) (\<lambda>_.
     bindE (throw_if (mdIsSystem (usMetadata item))
             (Unauthorized ''Cannot delete this system UserSecret'')) (\<lambda>_.
     internalOr (cDelete (eUserSecrets env) (byUid (mdUid (usMetadata item))))))))))"

definition GetUserSecret :: "'w env \<Rightarrow> get_opts \<Rightarrow> ('w, user_secret) io" where
  "GetUserSecret env req0 =
     bindE (liftE (eUserCtx env)) (\<lambda>i.
     let req = getFullNameGetOptionsUserChild env req0 in
     bindE (checkE (eCheckGetOptions env 1 req)) (\<lambda>_.
     bindE (notFoundOr (readE (cGet (eUserSecrets env) req))) (\<lambda>item.
     bindE (deref (usUserRef item)) (\<lambda>u.
     bindE (throw_if (refUid u \<noteq> mdUid (usrMetadata (ictxUser i)))
             (Unauthorized ''Cannot get this UserSecret'')) (\<lambda>_.
     retE (hideUserSecret item))))))"

section \<open>Facts\<close>

lemma read_only_GetSecret [intro!]: "read_only (GetSecret env req)"
  unfolding GetSecret_def Let_def by auto

lemma read_only_GetUserSecret [intro!]: "read_only (GetUserSecret env req)"
  unfolding GetUserSecret_def Let_def by auto

lemma read_only_ListSecret [intro!]: "read_only (ListSecret env r c)"
  unfolding ListSecret_def by auto

lemma read_only_ListUserSecret [intro!]: "read_only (ListUserSecret env c)"
  unfolding ListUserSecret_def by auto

lemma hidden_data [simp]: "secData (hideSecret s) = None" "usData (hideUserSecret u) = None"
  by (simp_all add: hideSecret_def hideUserSecret_def)

lemma list_all_hidden [simp]:
  "list_all (\<lambda>s. secData s = None) (map hideSecret xs)"
  "list_all (\<lambda>u. usData u = None) (map hideUserSecret ys)"
  by (simp_all add: list_all_iff)

text \<open>The data that a stored secret may have.\<close>

definition secretDataOK :: "secret_data option \<Rightarrow> bool" where
  "secretDataOK d \<longleftrightarrow> (case d of
      Some (DataValue v) \<Rightarrow> 0 < length v \<and> length v \<le> 1500
    | Some (DataValueBytes v) \<Rightarrow> 0 < length v \<and> length v \<le> 1500
    | _ \<Rightarrow> False)"

lemma checkSecretData_None: "checkSecretData d = None \<longleftrightarrow> secretDataOK d"
  by (auto simp: checkSecretData_def secretDataOK_def checkValueSize_def maxSecretSize_def bad_def
      split: option.splits secret_data.splits)

lemma checkUserChildName_None:
  "checkUserChildName i name = None \<longleftrightarrow> (\<exists>a. splitOn CHR ''.'' name = [a, mdName (usrMetadata (ictxUser i))])"
  by (auto simp: checkUserChildName_def split: list.splits)

lemma setSSHKeyUserSecret_Inr:
  "setSSHKeyUserSecret env sec w = (Inr item, w1) \<Longrightarrow>
   usUserRef item = usUserRef sec
   \<and> (\<exists>k. eGenerateSSHKey env w = (Inr k, w1) \<and> usData item = Some (DataValueBytes (fst k)))"
  by (cases "splitOn CHR ''.'' (mdName (usMetadata sec))"; cases "tl (splitOn CHR ''.'' (mdName (usMetadata sec)))";
      cases "tl (tl (splitOn CHR ''.'' (mdName (usMetadata sec))))")
    (auto simp: setSSHKeyUserSecret_def io_simps)

lemma checkUserSecretData_Inr:
  "checkUserSecretData env t d = Inr d' \<Longrightarrow> t \<noteq> UserSecret_SSH_KEY \<Longrightarrow>
   d' = d \<and> d \<noteq> None \<and> d \<noteq> Some DataUnset"
  by (cases d; cases "the d") (auto simp: checkUserSecretData_def Let_def io_simps)

lemma case_fstI:
  "(\<And>x w'. m = (Inr x, w') \<Longrightarrow> P x) \<Longrightarrow> case fst m of Inl _ \<Rightarrow> True | Inr x \<Rightarrow> P x"
  by (cases m) (auto split: sum.splits)

lemma case_ioI:
  "(\<And>x w'. m = (Inr x, w') \<Longrightarrow> P x w') \<Longrightarrow> case m of (Inl _, _) \<Rightarrow> True | (Inr x, w') \<Rightarrow> P x w'"
  by (auto split: prod.splits sum.splits)

section \<open>Properties\<close>

text \<open>C34: No handler of the API returns the value of a Secret or UserSecret, not even to its creator.\<close>

theorem secrets_stay_hidden:
  "(case fst (CreateSecret env md d w) of Inl _ \<Rightarrow> True | Inr s \<Rightarrow> secData s = None)
   \<and> (case fst (GetSecret env req w) of Inl _ \<Rightarrow> True | Inr s \<Rightarrow> secData s = None)
   \<and> (case fst (ListSecret env ref common w) of Inl _ \<Rightarrow> True
      | Inr l \<Rightarrow> list_all (\<lambda>s. secData s = None) (ilItems l))
   \<and> (case fst (CreateUserSecret env md t d w) of Inl _ \<Rightarrow> True | Inr s \<Rightarrow> usData s = None)
   \<and> (case fst (GetUserSecret env req w) of Inl _ \<Rightarrow> True | Inr s \<Rightarrow> usData s = None)
   \<and> (case fst (ListUserSecret env common w) of Inl _ \<Rightarrow> True
      | Inr l \<Rightarrow> list_all (\<lambda>s. usData s = None) (ilItems l))"
  by (intro conjI case_fstI)
    (auto simp: CreateSecret_def GetSecret_def ListSecret_def CreateUserSecret_def GetUserSecret_def
      ListUserSecret_def Let_def io_simps)

text \<open>
  A Secret is stored only by an ADMIN or OWNER of its Space and only with a value of 1 to 1500
  bytes; deleting it takes an ADMIN or OWNER of its Space too.
\<close>

theorem Secret_authorised:
  "(case CreateSecret env md d w of
      (Inl _, _) \<Rightarrow> True
    | (Inr s, w') \<Rightarrow> \<exists>item r ret. secSpaceRef item = Some r \<and> secData item = d \<and> secretDataOK d
        \<and> CheckIsMemberAdmin env r w = None
        \<and> cCreate (eSecrets env) item w = (Inr ret, w') \<and> s = hideSecret ret)
   \<and> (case DeleteSecret env req w of
      (Inl _, _) \<Rightarrow> True
    | (Inr u, w') \<Rightarrow> \<exists>item r. cGet (eSecrets env) (getFullDeleteOptionsSpaceChild env req) w = Inr item
        \<and> secSpaceRef item = Some r \<and> CheckIsMemberAdmin env r w = None
        \<and> cDelete (eSecrets env) (byUid (mdUid (secMetadata item))) w = (Inr u, w'))"
proof (intro conjI case_ioI)
  fix s w'
  assume "CreateSecret env md d w = (Inr s, w')"
  then show "\<exists>item r ret. secSpaceRef item = Some r \<and> secData item = d \<and> secretDataOK d
        \<and> CheckIsMemberAdmin env r w = None
        \<and> cCreate (eSecrets env) item w = (Inr ret, w') \<and> s = hideSecret ret"
    unfolding CreateSecret_def Let_def io_simps checkSecretData_None by force
qed (auto simp: DeleteSecret_def Let_def io_simps)

text \<open>
  A UserSecret is created under its user's name; one that is not an SSH key is stored with the
  value that was given, and an SSH key only ever with a key that the server generated.
\<close>

theorem CreateUserSecret_data:
  assumes "CreateUserSecret env md t d w = (Inr s, w')"
  shows "\<exists>i a item ret w1. eUserCtx env = Inr i
    \<and> splitOn CHR ''.'' (mdName (getFullNamResourceUserChildWithUserCtx i md)) = [a, mdName (usrMetadata (ictxUser i))]
    \<and> usUserRef item = Some (userRefOf i)
    \<and> (if t = UserSecret_SSH_KEY
       then \<exists>k. eGenerateSSHKey env w = (Inr k, w1) \<and> usData item = Some (DataValueBytes (fst k))
       else usData item = d \<and> d \<noteq> None \<and> d \<noteq> Some DataUnset \<and> w1 = w)
    \<and> cCreate (eUserSecrets env) item w1 = (Inr ret, w')"
proof -
  obtain i d' w1 and item :: user_secret and ret :: user_secret where f: "eUserCtx env = Inr i"
    "checkUserChildName i (mdName (getFullNamResourceUserChildWithUserCtx i md)) = None"
    "checkUserSecretData env t d = Inr d'"
    and s: "(if t = UserSecret_SSH_KEY
        then internalOr (setSSHKeyUserSecret env \<lparr>usMetadata = eMetadataFrom env
          (getFullNamResourceUserChildWithUserCtx i md), usType = t, usUserRef = Some (userRefOf i),
           usSshPublicKey = None, usData = d'\<rparr>)
        else retE \<lparr>usMetadata = eMetadataFrom env
          (getFullNamResourceUserChildWithUserCtx i md), usType = t, usUserRef = Some (userRefOf i),
           usSshPublicKey = None, usData = d'\<rparr>) w = (Inr item, w1)"
    and c: "cCreate (eUserSecrets env) item w1 = (Inr ret, w')"
    using assms unfolding CreateUserSecret_def Let_def io_simps by clarify (rule that)
  have "usUserRef item = Some (userRefOf i)
    \<and> (if t = UserSecret_SSH_KEY
       then \<exists>k. eGenerateSSHKey env w = (Inr k, w1) \<and> usData item = Some (DataValueBytes (fst k))
       else usData item = d \<and> d \<noteq> None \<and> d \<noteq> Some DataUnset \<and> w1 = w)"
    using f(3) s checkUserSecretData_Inr[OF f(3)]
    by (cases "t = UserSecret_SSH_KEY") (auto simp: io_simps dest: setSSHKeyUserSecret_Inr)
  then show ?thesis
    using f(1,2) c unfolding checkUserChildName_None by blast
qed

end
