(* ===== verification/Api_Snapshot.thy ===== *)
theory Api_Snapshot
  imports Api_Secret
begin

text \<open>
  \<open>apiserver/mains/workspacesnapshot.go\<close>: taking, reading and deleting WorkspaceSnapshots, and
  which Workspaces restore from one.
\<close>

definition maxWorkspaceSnapshotsPerUser :: u32 where "maxWorkspaceSnapshotsPerUser = 100"

definition getMaxWorkspaceSnapshotsPerUser :: "cluster_config \<Rightarrow> u32" where
  "getMaxWorkspaceSnapshotsPerUser cc =
     configured wlMaxSnapshotsPerUser (ccWorkspaceLimit cc) maxWorkspaceSnapshotsPerUser"

definition workspaceRestoresFromSnapshot :: "workspace \<Rightarrow> bool" where
  "workspaceRestoresFromSnapshot ws \<longleftrightarrow>
     stWorkspaceSnapshotRef (wsStatus ws) \<noteq> None
     \<and> (spIsEphemeral (wsSpec ws) \<or> stSuccessfulRuns (wsStatus ws) = 0)"

definition getWorkspaceStorageRegionRef :: "workspace \<Rightarrow> object_ref option" where
  "getWorkspaceStorageRegionRef ws =
     (case stRegionRef (wsStatus ws) of Some r \<Rightarrow> Some r | None \<Rightarrow> stLastRegionRef (wsStatus ws))"

text \<open>The checks of a resource that belongs to a User.\<close>

definition ownedBy :: "string \<Rightarrow> object_ref option \<Rightarrow> bool" where
  "ownedBy uid r \<longleftrightarrow> map_option refUid r = Some uid"

definition newSnapshot :: "'w env \<Rightarrow> user_ctx \<Rightarrow> metadata \<Rightarrow> workspace \<Rightarrow> object_ref \<Rightarrow> snapshot" where
  "newSnapshot env i md ws regionRef =
     \<lparr>snMetadata = eMetadataFrom env md, snState = Snap_CREATING,
      snWorkspaceRef = Some (GetObjectReference (wsMetadata ws)), snUserRef = Some (userRefOf i),
      snSpaceRef = stSpaceRef (wsStatus ws), snTemplateRef = stTemplateRef (wsStatus ws),
      snRegionRef = Some regionRef, snSnapshotAt = None, snReadyAt = None, snRestoreSizeBytes = 0,
      snConsistency = (if IsStopped (wsState ws) then CONSISTENCY_CLEAN else CONSISTENCY_CRASH), snFailure = None\<rparr>"

text \<open>The end of \<open>CreateWorkspaceSnapshot\<close>: the Region, no other snapshot in the making, the record.\<close>

definition takeSnapshot :: "'w env \<Rightarrow> user_ctx \<Rightarrow> metadata \<Rightarrow> workspace \<Rightarrow> ('w, snapshot) io" where
  "takeSnapshot env i md ws =
     (case getWorkspaceStorageRegionRef ws of
        None \<Rightarrow> throwE (InvalidArg ''The Workspace does not have a persistent storage to be snapshotted yet'')
      | Some regionRef \<Rightarrow>
          bindE (internalOr (readE (cList (eSnapshots env) (FilterByWorkspace ws)))) (\<lambda>l.
          bindE (forE (ilItems l) (\<lambda>itm. throw_if (Snapshot_IsCreating (Some itm))
                  (AlreadyExists (''The Workspace already has a WorkspaceSnapshot that is still being taken: ''
                    @ mdName (snMetadata itm))))) (\<lambda>_.
          internalOr (cCreate (eSnapshots env) (newSnapshot env i md ws regionRef)))))"

definition CreateWorkspaceSnapshot ::
  "'w env \<Rightarrow> metadata \<Rightarrow> object_ref option \<Rightarrow> ('w, snapshot) io" where
  "CreateWorkspaceSnapshot env md0 workspaceRef =
     bindE (liftE (eUserCtx env)) (\<lambda>i.
     let md = getFullNamResourceUserChildWithUserCtx i md0 in
     bindE (checkE (eValidateCommon env \<lparr>voRequireName = True, voParentsMust = 1\<rparr> md)) (\<lambda>_.
     bindE (checkE (checkUserChildName i (mdName md))) (\<lambda>_.
     case workspaceRef of
       None \<Rightarrow> throwE (InvalidArg ''WorkspaceRef is not set'')
     | Some wr \<Rightarrow>
     bindE (checkE (eCheckObjectRef env 0 workspaceRef)) (\<lambda>_.
     bindE (readE (eClusterConfig env)) (\<lambda>cc.
     bindE (checkCount (eSnapshots env) InternalWithErr (FilterByUser (ictxUser i))
             (getMaxWorkspaceSnapshotsPerUser cc)
             (Unauthorized ''Number of WorkspaceSnapshots per User has been exceeded'')) (\<lambda>_.
     bindE (checkNameFree env (eSnapshots env) (mdName md)
             (InvalidArg ''This WorkspaceSnapshot name already exists'')) (\<lambda>_.
     bindE (notFoundOr (readE (cGet (eWorkspaces env) (byRef wr)))) (\<lambda>ws.
     bindE (throw_if (\<not> ownedBy (mdUid (usrMetadata (ictxUser i))) (stUserRef (wsStatus ws)))
             (Unauthorized ''Workspace not owned by the User'')) (\<lambda>_.
     bindE (invalidIf (stIsBuild (wsStatus ws)) ''Build Workspaces cannot be snapshotted'') (\<lambda>_.
     bindE (invalidIf (spIsEphemeral (wsSpec ws) \<and> \<not> IsActive (wsState ws))
             ''Ephemeral Workspaces do not have a persistent storage to be snapshotted while they are stopped'') (\<lambda>_.
     takeSnapshot env i md ws)))))))))))"

definition GetWorkspaceSnapshot :: "'w env \<Rightarrow> get_opts \<Rightarrow> ('w, snapshot) io" where
  "GetWorkspaceSnapshot env req0 =
     bindE (liftE (eUserCtx env)) (\<lambda>i.
     let req = getFullNameGetOptionsUserChild env req0 in
     bindE (checkE (eCheckGetOptions env 1 req)) (\<lambda>_.
     bindE (notFoundOr (readE (cGet (eSnapshots env) req))) (\<lambda>item.
     bindE (throw_if (\<not> ownedBy (mdUid (usrMetadata (ictxUser i))) (snUserRef item))
             (Unauthorized ''This WorkspaceSnapshot is not owned by the User'')) (\<lambda>_.
     retE item))))"

datatype snapshot_filter = SfNone | SfWorkspaceRef object_ref | SfSpaceRef object_ref

definition snapshotFilters :: "'w env \<Rightarrow> snapshot_filter \<Rightarrow> ('w, list_filter list) io" where
  "snapshotFilters env f =
     (case f of
        SfNone \<Rightarrow> retE []
      | SfWorkspaceRef r \<Rightarrow>
          bindE (checkE (eCheckObjectRef env 0 (Some r))) (\<lambda>_.
          bindE (notFoundOr (readE (cGet (eWorkspaces env) (byRef r)))) (\<lambda>ws.
          retE [FStatusWorkspaceUID (mdUid (wsMetadata ws))]))
      | SfSpaceRef r \<Rightarrow>
          bindE (getMemberSpaceFromSpaceRef env (Some (getFullResourceRefSpace env r))) (\<lambda>org.
          retE [FStatusSpaceUID (mdUid (spcMetadata org))]))"

definition ListWorkspaceSnapshot :: "'w env \<Rightarrow> snapshot_filter \<Rightarrow> string \<Rightarrow> ('w, snapshot item_list) io" where
  "ListWorkspaceSnapshot env f common =
     bindE (liftE (eUserCtx env)) (\<lambda>i.
     bindE (snapshotFilters env f) (\<lambda>fs.
     internalOr (readE (cList (eSnapshots env)
       (publicOpts common (FStatusUserUID (mdUid (usrMetadata (ictxUser i))) # fs))))))"

definition checkSnapshotUnused :: "workspace \<Rightarrow> ('w, unit) io" where
  "checkSnapshotUnused ws =
     throw_if (workspaceRestoresFromSnapshot ws) (InvalidArg
       (if spIsEphemeral (wsSpec ws)
        then ''The WorkspaceSnapshot cannot be deleted while the ephemeral Workspace: ''
             @ mdName (wsMetadata ws) @ '' restores its storage from it on every run''
        else ''The WorkspaceSnapshot cannot be deleted while the Workspace: ''
             @ mdName (wsMetadata ws) @ '' that is restored from it has not run yet''))"

definition DeleteWorkspaceSnapshot :: "'w env \<Rightarrow> get_opts \<Rightarrow> ('w, unit) io" where
  "DeleteWorkspaceSnapshot env req0 =
     bindE (liftE (eUserCtx env)) (\<lambda>i.
     let req = getFullNameDeleteOptionsUserChild env req0 in
     bindE (checkE (eCheckDeleteOptions env 1 req)) (\<lambda>_.
     bindE (notFoundOr (readE (cGet (eSnapshots env) req))) (\<lambda>item.
     bindE (throw_if (\<not> ownedBy (mdUid (usrMetadata (ictxUser i))) (snUserRef item))
             (Unauthorized ''This WorkspaceSnapshot is not owned by the User'')) (\<lambda>_.
     bindE (internalOr (readE (cList (eWorkspaces env)
             (filterOpts [FStatusWorkspaceSnapshotUID (mdUid (snMetadata item))])))) (\<lambda>l.
     bindE (forE (ilItems l) checkSnapshotUnused) (\<lambda>_.
     internalOr (cDelete (eSnapshots env) (byUid (mdUid (snMetadata item))))))))))"

definition getWorkspaceSnapshotForRestore :: "'w env \<Rightarrow> object_ref \<Rightarrow> ('w, snapshot) io" where
  "getWorkspaceSnapshotForRestore env ref =
     bindE (GetWorkspaceSnapshot env (byRef ref)) (\<lambda>sn.
     case snState sn of
       Snap_READY \<Rightarrow> retE sn
     | Snap_CREATING \<Rightarrow> throwE (InvalidArg
         (''The WorkspaceSnapshot: '' @ mdName (snMetadata sn) @ '' is still being taken''))
     | _ \<Rightarrow> throwE (InvalidArg
         (''The WorkspaceSnapshot: '' @ mdName (snMetadata sn) @ '' cannot be restored from'')))"

section \<open>Facts\<close>

lemma read_only_GetWorkspaceSnapshot [intro!]: "read_only (GetWorkspaceSnapshot env req)"
  unfolding GetWorkspaceSnapshot_def Let_def by auto

lemma read_only_getWorkspaceSnapshotForRestore [intro!]: "read_only (getWorkspaceSnapshotForRestore env ref)"
  unfolding getWorkspaceSnapshotForRestore_def by (auto split: snapshot_state.splits)

lemma takeSnapshot_Inr:
  "takeSnapshot env i md ws w = (Inr sn, w') \<Longrightarrow>
   \<exists>regionRef l. getWorkspaceStorageRegionRef ws = Some regionRef
     \<and> cList (eSnapshots env) (FilterByWorkspace ws) w = Inr l
     \<and> \<not> list_ex (\<lambda>s. Snapshot_IsCreating (Some s)) (ilItems l)
     \<and> cCreate (eSnapshots env) (newSnapshot env i md ws regionRef) w = (Inr sn, w')"
  by (cases "getWorkspaceStorageRegionRef ws") (auto simp: takeSnapshot_def io_simps)

lemma GetWorkspaceSnapshot_Inr:
  "GetWorkspaceSnapshot env req w = (Inr sn, w') \<Longrightarrow>
   w' = w \<and> (\<exists>i. eUserCtx env = Inr i \<and> ownedBy (mdUid (usrMetadata (ictxUser i))) (snUserRef sn))
   \<and> cGet (eSnapshots env) (getFullNameGetOptionsUserChild env req) w = Inr sn"
  by (auto simp: GetWorkspaceSnapshot_def Let_def io_simps)

lemma getWorkspaceSnapshotForRestore_Inr:
  assumes "getWorkspaceSnapshotForRestore env ref w = (Inr sn, w')"
  shows "w' = w \<and> snState sn = Snap_READY
    \<and> (\<exists>i. eUserCtx env = Inr i \<and> ownedBy (mdUid (usrMetadata (ictxUser i))) (snUserRef sn))"
proof -
  obtain sn' w1 where g: "GetWorkspaceSnapshot env (byRef ref) w = (Inr sn', w1)"
    and r: "(case snState sn' of Snap_READY \<Rightarrow> retE sn'
      | Snap_CREATING \<Rightarrow> throwE (InvalidArg
          (''The WorkspaceSnapshot: '' @ mdName (snMetadata sn') @ '' is still being taken''))
      | _ \<Rightarrow> throwE (InvalidArg
          (''The WorkspaceSnapshot: '' @ mdName (snMetadata sn') @ '' cannot be restored from''))) w1 = (Inr sn, w')"
    using assms by (auto simp: getWorkspaceSnapshotForRestore_def io_simps)
  show ?thesis
    using GetWorkspaceSnapshot_Inr[OF g] r by (cases "snState sn'") (auto simp: io_simps)
qed

lemma forE_checkSnapshotUnused_Inr [io_simps]:
  "forE wss checkSnapshotUnused w = (Inr u, w') \<longleftrightarrow> \<not> list_ex workspaceRestoresFromSnapshot wss \<and> w' = w"
  by (induction wss) (auto simp: io_simps checkSnapshotUnused_def)

section \<open>Properties\<close>

text \<open>
  A WorkspaceSnapshot is taken only by the owner of a Workspace that is no build and has storage
  in a Region; while one of that Workspace is being taken no other is begun; and it is recorded
  as CREATING in the Region of the storage, as CLEAN exactly when the Workspace is stopped.
\<close>

theorem CreateWorkspaceSnapshot_ok:
  assumes "CreateWorkspaceSnapshot env md wr w = (Inr sn, w')"
  shows "\<exists>r ws l item regionRef i. wr = Some r \<and> eUserCtx env = Inr i
   \<and> cGet (eWorkspaces env) (byRef r) w = Inr ws
   \<and> ownedBy (mdUid (usrMetadata (ictxUser i))) (stUserRef (wsStatus ws)) \<and> \<not> stIsBuild (wsStatus ws)
   \<and> getWorkspaceStorageRegionRef ws = Some regionRef
   \<and> cList (eSnapshots env) (FilterByWorkspace ws) w = Inr l \<and> \<not> list_ex (\<lambda>s. Snapshot_IsCreating (Some s)) (ilItems l)
   \<and> snState item = Snap_CREATING \<and> snRegionRef item = Some regionRef
   \<and> snWorkspaceRef item = Some (GetObjectReference (wsMetadata ws)) \<and> snUserRef item = Some (userRefOf i)
   \<and> snConsistency item = (if IsStopped (wsState ws) then CONSISTENCY_CLEAN else CONSISTENCY_CRASH)
   \<and> cCreate (eSnapshots env) item w = (Inr sn, w')"
proof -
  obtain r where r: "wr = Some r"
    using assms by (cases wr) (auto simp: CreateWorkspaceSnapshot_def Let_def io_simps)
  obtain i and ws :: workspace where f: "eUserCtx env = Inr i" "cGet (eWorkspaces env) (byRef r) w = Inr ws"
    "ownedBy (mdUid (usrMetadata (ictxUser i))) (stUserRef (wsStatus ws))" "\<not> stIsBuild (wsStatus ws)"
    and t: "takeSnapshot env i (getFullNamResourceUserChildWithUserCtx i md) ws w = (Inr sn, w')"
    using assms unfolding r CreateWorkspaceSnapshot_def Let_def option.case io_simps not_not
    by clarify (rule that)
  let ?item = "newSnapshot env i (getFullNamResourceUserChildWithUserCtx i md) ws"
  have n: "snState (?item x) = Snap_CREATING" "snRegionRef (?item x) = Some x"
    "snWorkspaceRef (?item x) = Some (GetObjectReference (wsMetadata ws))" "snUserRef (?item x) = Some (userRefOf i)"
    "snConsistency (?item x) = (if IsStopped (wsState ws) then CONSISTENCY_CLEAN else CONSISTENCY_CRASH)" for x
    by (simp_all add: newSnapshot_def)
  show ?thesis
    using r f takeSnapshot_Inr[OF t] n by blast
qed

text \<open>
  A WorkspaceSnapshot is deleted only by its owner, and only while no Workspace that names it
  still has to restore from it, on its first run or, if it is ephemeral, on every run.
\<close>

theorem DeleteWorkspaceSnapshot_unused:
  assumes "DeleteWorkspaceSnapshot env req w = (Inr u, w')"
  shows "\<exists>i item l. eUserCtx env = Inr i
   \<and> cGet (eSnapshots env) (getFullNameDeleteOptionsUserChild env req) w = Inr item
   \<and> ownedBy (mdUid (usrMetadata (ictxUser i))) (snUserRef item)
   \<and> cList (eWorkspaces env) (filterOpts [FStatusWorkspaceSnapshotUID (mdUid (snMetadata item))]) w = Inr l
   \<and> \<not> list_ex workspaceRestoresFromSnapshot (ilItems l)
   \<and> cDelete (eSnapshots env) (byUid (mdUid (snMetadata item))) w = (Inr u, w')"
  using assms by (auto simp: DeleteWorkspaceSnapshot_def Let_def io_simps)

end
