(* ===== verification/Api_Volume.thy ===== *)
theory Api_Volume
  imports Api_Template
begin

text \<open>
  \<open>apiserver/mains/volume.go\<close>: the Volumes of a Space, their size and access mode, and the
  Workspaces and Templates that mount them.
\<close>

section \<open>Sizes and access modes\<close>

definition maxVolumesPerSpace :: u32 where "maxVolumesPerSpace = 64"
definition defaultVolumeMegabytes :: u32 where "defaultVolumeMegabytes = 10 * 1000"
definition maxVolumeMegabytes :: u32 where "maxVolumeMegabytes = 10000000"

text \<open>The spec of a request; the protobuf getters read an absent size as 0.\<close>

record volume_spec =
  vsSize :: "u32 option"
  vsAccessMode :: access_mode

definition getMegabytes :: "u32 option \<Rightarrow> u32" where
  "getMegabytes x = (case x of None \<Rightarrow> 0 | Some n \<Rightarrow> n)"

definition hasVolumeMount :: "volume_mount list \<Rightarrow> volume \<Rightarrow> bool" where
  "hasVolumeMount mounts vol \<longleftrightarrow>
     list_ex (\<lambda>m. case vmVolumeRef m of None \<Rightarrow> False | Some r \<Rightarrow> refUid r = mdUid (volMetadata vol)) mounts"

definition isValidVolumeAccessMode :: "access_mode \<Rightarrow> bool" where
  "isValidVolumeAccessMode a =
     (case a of ACCESS_MODE_UNSET \<Rightarrow> True | ACCESS_MODE_EXCLUSIVE \<Rightarrow> True | ACCESS_MODE_SHARED \<Rightarrow> True
      | ACCESS_MODE_Other _ \<Rightarrow> False)"

definition getMaxVolumesPerSpace :: "cluster_config \<Rightarrow> u32" where
  "getMaxVolumesPerSpace cc = configured vlMaxPerSpace (ccVolumeLimit cc) maxVolumesPerSpace"

definition getVolumeMegabytes :: "u32 option \<Rightarrow> cluster_config \<Rightarrow> u32" where
  "getVolumeMegabytes sz cc =
     (if getMegabytes sz \<noteq> 0 then getMegabytes sz
      else case ccVolumeLimit cc of
             None \<Rightarrow> defaultVolumeMegabytes
           | Some l \<Rightarrow> if getMegabytes (vlDefaultSize l) \<noteq> 0 then getMegabytes (vlDefaultSize l)
                       else defaultVolumeMegabytes)"

definition checkVolumeSize :: "u32 \<Rightarrow> cluster_config \<Rightarrow> err option" where
  "checkVolumeSize megabytes cc =
     checks [bad (megabytes < 1000) ''A Volume must be at least 1000 MB'',
       bad (megabytes > maxVolumeMegabytes)
         (''The Volume size is too large: '' @ showNat (unat megabytes) @ '' MB''),
       (case ccVolumeLimit cc of
          None \<Rightarrow> None
        | Some l \<Rightarrow>
            bad (getMegabytes (vlMaxSize l) \<noteq> 0 \<and> megabytes > getMegabytes (vlMaxSize l))
              (''The Volume size exceeds the Cluster maximum of ''
               @ showNat (unat (getMegabytes (vlMaxSize l))) @ '' MB''))]"

section \<open>Region and mounts\<close>

definition chooseVolumeRegion :: "'w env \<Rightarrow> object_ref option \<Rightarrow> ('w, region) io" where
  "chooseVolumeRegion env req =
     (case req of
        None \<Rightarrow> notFoundOr (chooseRegion env None)
      | Some r \<Rightarrow>
          if refName r = [] \<and> refUid r = [] then notFoundOr (chooseRegion env None)
          else
            bindE (checkE (eCheckObjectRef env 0 req)) (\<lambda>_.
            bindE (notFoundOr (readE (cGet (eRegions env) (byRef r)))) (\<lambda>rg.
            bindE (invalidIf (\<not> eRegionHasCordium env rg)
                    (''The Region: '' @ mdName (rgnMetadata rg) @ '' does not accept Workspaces'')) (\<lambda>_.
            retE rg))))"

definition checkVolumeIsNotMounted :: "'w env \<Rightarrow> volume \<Rightarrow> ('w, unit) io" where
  "checkVolumeIsNotMounted env vol =
     bindE (deref (volSpaceRef vol)) (\<lambda>r.
     bindE (internalOr (readE (cList (eTemplates env) (FilterBySpaceRef r)))) (\<lambda>tmpls.
     bindE (forE (ilItems tmpls) (\<lambda>t. invalidIf (hasVolumeMount (tmGetVolumeMounts t) vol)
             (''The Volume cannot be deleted while it is mounted by the Template: '' @ mdName (tmMetadata t)))) (\<lambda>_.
     bindE (internalOr (readE (cList (eWorkspaces env) (FilterBySpaceRef r)))) (\<lambda>wss.
     forE (ilItems wss) (\<lambda>ws. invalidIf (hasVolumeMount (spGetVolumeMounts (wsSpec ws)) vol)
             (''The Volume cannot be deleted while it is mounted by the Workspace: '' @ mdName (wsMetadata ws)))))))"

section \<open>The handlers\<close>

definition newVolume ::
  "'w env \<Rightarrow> user_ctx \<Rightarrow> metadata \<Rightarrow> space \<Rightarrow> cluster_config \<Rightarrow> volume_spec \<Rightarrow> volume" where
  "newVolume env i md org cc spec =
     \<lparr>volMetadata = eMetadataFrom env md, volSize = Some (getVolumeMegabytes (vsSize spec) cc),
      volAccessMode = (if vsAccessMode spec = ACCESS_MODE_UNSET then ACCESS_MODE_EXCLUSIVE else vsAccessMode spec),
      volState = Vol_PENDING, volSpaceRef = Some (GetObjectReference (spcMetadata org)),
      volUserRef = Some (userRefOf i), volRegionRef = None, volCapacity = None, volReadyAt = None,
      volFailure = None\<rparr>"

definition CreateVolume ::
  "'w env \<Rightarrow> metadata \<Rightarrow> volume_spec option \<Rightarrow> object_ref option \<Rightarrow> ('w, volume) io" where
  "CreateVolume env md0 spec0 regionRef =
     bindE (liftE (eUserCtx env)) (\<lambda>i.
     let md = getFullNamResourceSpaceChild env md0 in
     bindE (checkE (eValidateCommon env \<lparr>voRequireName = True, voParentsMust = 2\<rparr> md)) (\<lambda>_.
     case spec0 of
       None \<Rightarrow> throwE (InvalidArg ''Spec is not set'')
     | Some spec \<Rightarrow>
     bindE (liftE (parseSpaceResource (mdName md))) (\<lambda>nameReq.
     bindE (notFoundOr (readE (cGet (eSpaces env) (byName (snd nameReq))))) (\<lambda>org.
     bindE (checkR (CheckIsMemberAdmin env (GetObjectReference (spcMetadata org)))) (\<lambda>_.
     bindE (readE (eClusterConfig env)) (\<lambda>cc.
     bindE (checkCount (eVolumes env) InternalWithErr (FilterBySpace org) (getMaxVolumesPerSpace cc)
             (Unauthorized ''Number of Volumes per Space has been exceeded'')) (\<lambda>_.
     bindE (checkNameFree env (eVolumes env) (mdName md) (InvalidArg ''This Volume name already exists'')) (\<lambda>_.
     bindE (invalidIf (\<not> isValidVolumeAccessMode (vsAccessMode spec)) ''Invalid Volume accessMode'') (\<lambda>_.
     let item = newVolume env i md org cc spec in
     bindE (checkE (checkVolumeSize (getVolumeMegabytes (vsSize spec) cc) cc)) (\<lambda>_.
     bindE (chooseVolumeRegion env regionRef) (\<lambda>rg.
     internalOr (cCreate (eVolumes env) (item\<lparr>volRegionRef := Some (GetObjectReference (rgnMetadata rg))\<rparr>)))))))))))))"

text \<open>The new size of a Volume: 0 and the present size leave it alone, and it only grows.\<close>

definition growVolume :: "cluster_config \<Rightarrow> u32 \<Rightarrow> volume \<Rightarrow> ('w, volume) io" where
  "growVolume cc megabytes item =
     (if megabytes = 0 then retE item
      else
        bindE (deref (volSize item)) (\<lambda>old.
        if megabytes = old then retE item
        else
          bindE (invalidIf (megabytes < old)
                  (''A Volume can only be grown. It is currently '' @ showNat (unat old) @ '' MB while ''
                   @ showNat (unat megabytes) @ '' MB is requested'')) (\<lambda>_.
          bindE (checkE (checkVolumeSize megabytes cc)) (\<lambda>_.
          retE (item\<lparr>volSize := Some megabytes\<rparr>)))))"

definition UpdateVolume :: "'w env \<Rightarrow> metadata \<Rightarrow> volume_spec option \<Rightarrow> ('w, volume) io" where
  "UpdateVolume env md0 spec0 =
     (let md = getFullNamResourceSpaceChild env md0 in
     bindE (checkE (eValidateCommon env \<lparr>voRequireName = False, voParentsMust = 2\<rparr> md)) (\<lambda>_.
     case spec0 of
       None \<Rightarrow> throwE (InvalidArg ''Spec is not set'')
     | Some spec \<Rightarrow>
     bindE (notFoundOr (readE (cGet (eVolumes env) \<lparr>goUid = mdUid md, goName = mdName md\<rparr>))) (\<lambda>item.
     bindE (deref (volSpaceRef item)) (\<lambda>r.
     bindE (checkR (CheckIsMemberAdmin env r)) (\<lambda>_.
     bindE (readE (eClusterConfig env)) (\<lambda>cc.
     bindE (invalidIf (\<not> isValidVolumeAccessMode (vsAccessMode spec)) ''Invalid Volume accessMode'') (\<lambda>_.
     bindE (invalidIf (vsAccessMode spec \<noteq> ACCESS_MODE_UNSET \<and> vsAccessMode spec \<noteq> volAccessMode item)
             ''The accessMode of a Volume is immutable'') (\<lambda>_.
     bindE (growVolume cc (getMegabytes (vsSize spec)) item) (\<lambda>item'.
     internalOr (cUpdate (eVolumes env)
       (item'\<lparr>volMetadata := eMetadataUpdate env (volMetadata item') md\<rparr>)))))))))))"

definition GetVolume :: "'w env \<Rightarrow> get_opts \<Rightarrow> ('w, volume) io" where
  "GetVolume env req0 =
     (let req = getFullGetOptionsSpaceChild env req0 in
     bindE (checkE (eCheckGetOptions env 2 req)) (\<lambda>_.
     bindE (notFoundOr (readE (cGet (eVolumes env) req))) (\<lambda>item.
     bindE (deref (volSpaceRef item)) (\<lambda>r.
     bindE (checkR (CheckIsMember env r)) (\<lambda>_. retE item)))))"

definition ListVolume :: "'w env \<Rightarrow> object_ref option \<Rightarrow> string \<Rightarrow> ('w, volume item_list) io" where
  "ListVolume env spaceRef common =
     bindE (getMemberSpaceFromSpaceRef env (map_option (getFullResourceRefSpace env) spaceRef)) (\<lambda>org.
     internalOr (readE (cList (eVolumes env) (publicOpts common [FStatusSpaceUID (mdUid (spcMetadata org))]))))"

definition DeleteVolume :: "'w env \<Rightarrow> get_opts \<Rightarrow> ('w, unit) io" where
  "DeleteVolume env req0 =
     (let req = getFullDeleteOptionsSpaceChild env req0 in
     bindE (checkE (eCheckDeleteOptions env 2 req)) (\<lambda>_.
     bindE (notFoundOr (readE (cGet (eVolumes env) req))) (\<lambda>item.
     bindE (deref (volSpaceRef item)) (\<lambda>r.
     bindE (checkR (CheckIsMemberAdmin env r)) (\<lambda>_.
     bindE (checkVolumeIsNotMounted env item) (\<lambda>_.
     internalOr (cDelete (eVolumes env) (byUid (mdUid (volMetadata item))))))))))"

section \<open>Facts\<close>

lemma read_only_checkVolumeIsNotMounted [intro!]: "read_only (checkVolumeIsNotMounted env vol)"
  unfolding checkVolumeIsNotMounted_def by auto

lemma read_only_growVolume [intro!]: "read_only (growVolume cc mb item)"
  unfolding growVolume_def by auto

lemma checkVolumeIsNotMounted_Inr [io_simps]:
  "checkVolumeIsNotMounted env vol w = (Inr u, w') \<longleftrightarrow>
     (\<exists>r tmpls wss. volSpaceRef vol = Some r
        \<and> cList (eTemplates env) (FilterBySpaceRef r) w = Inr tmpls
        \<and> cList (eWorkspaces env) (FilterBySpaceRef r) w = Inr wss
        \<and> \<not> list_ex (\<lambda>t. hasVolumeMount (tmGetVolumeMounts t) vol) (ilItems tmpls)
        \<and> \<not> list_ex (\<lambda>ws. hasVolumeMount (spGetVolumeMounts (wsSpec ws)) vol) (ilItems wss)) \<and> w' = w"
  by (auto simp: checkVolumeIsNotMounted_def io_simps)

definition volumeSizeOK :: "cluster_config \<Rightarrow> u32 \<Rightarrow> bool" where
  "volumeSizeOK cc n \<longleftrightarrow> 1000 \<le> n \<and> n \<le> 10000000
     \<and> withinDim (Option.bind (ccVolumeLimit cc) vlMaxSize) (Some n)"

lemma checkVolumeSize_None: "checkVolumeSize n cc = None \<longleftrightarrow> volumeSizeOK cc n"
  by (auto simp: checkVolumeSize_def volumeSizeOK_def maxVolumeMegabytes_def withinDim_def nonzero_def
      getMegabytes_def split: option.splits)

lemma growVolume_Inr:
  assumes "growVolume cc n item w = (Inr item', w')"
  shows "w' = w \<and> (item' = item
    \<or> (\<exists>old. volSize item = Some old \<and> old < n \<and> volumeSizeOK cc n \<and> item' = item\<lparr>volSize := Some n\<rparr>))"
  using assms
  by (auto simp: growVolume_def io_simps checkVolumeSize_None not_less split: if_splits)

section \<open>Properties\<close>

text \<open>
  A Volume is created in the state PENDING, by an ADMIN or OWNER of its Space, with a size that
  the limits allow, an access mode that is EXCLUSIVE or SHARED, never unset, and a Region.
\<close>

theorem CreateVolume_ok:
  assumes "CreateVolume env md0 spec regionRef w = (Inr vol, w')"
  shows "\<exists>r mem cc item n w1.
     volSpaceRef item = Some r \<and> GetMembershipBySpace env r w = Inr mem
   \<and> (memRole mem = Role_ADMIN \<or> memRole mem = Role_OWNER)
   \<and> eClusterConfig env w = Inr cc
   \<and> volSize item = Some n \<and> volumeSizeOK cc n
   \<and> (volAccessMode item = ACCESS_MODE_EXCLUSIVE \<or> volAccessMode item = ACCESS_MODE_SHARED)
   \<and> volState item = Vol_PENDING \<and> volRegionRef item \<noteq> None
   \<and> cCreate (eVolumes env) item w1 = (Inr vol, w')"
proof -
  obtain s where s: "spec = Some s"
    using assms by (cases spec) (auto simp: CreateVolume_def Let_def io_simps)
  obtain i mem cc w1 and org :: space and rg :: region where f:
    "GetMembershipBySpace env (GetObjectReference (spcMetadata org)) w = Inr mem"
    "memRole mem = Role_ADMIN \<or> memRole mem = Role_OWNER" "eClusterConfig env w = Inr cc"
    "volumeSizeOK cc (getVolumeMegabytes (vsSize s) cc)" "isValidVolumeAccessMode (vsAccessMode s)"
    and c: "cCreate (eVolumes env) ((newVolume env i (getFullNamResourceSpaceChild env md0) org cc s)
       \<lparr>volRegionRef := Some (GetObjectReference (rgnMetadata rg))\<rparr>) w1 = (Inr vol, w')"
    using assms unfolding s CreateVolume_def Let_def option.case io_simps checkVolumeSize_None
      admin_gate.passes_iff not_not
    by clarify (rule that, assumption+)
  let ?item = "(newVolume env i (getFullNamResourceSpaceChild env md0) org cc s)
       \<lparr>volRegionRef := Some (GetObjectReference (rgnMetadata rg))\<rparr>"
  have "volAccessMode ?item = ACCESS_MODE_EXCLUSIVE \<or> volAccessMode ?item = ACCESS_MODE_SHARED"
    using f(5) by (cases "vsAccessMode s") (simp_all add: isValidVolumeAccessMode_def newVolume_def)
  moreover have "volSize ?item = Some (getVolumeMegabytes (vsSize s) cc)" "volState ?item = Vol_PENDING"
    "volRegionRef ?item \<noteq> None" "volSpaceRef ?item = Some (GetObjectReference (spcMetadata org))"
    by (simp_all add: newVolume_def)
  ultimately show ?thesis
    using f c by blast
qed

text \<open>
  C33: An update of a Volume needs an ADMIN or OWNER of its Space; it never changes the access mode,
  the Region, the Space, the owner or the state, and the size never shrinks and stays in the limits.
\<close>

theorem UpdateVolume_grows:
  assumes "UpdateVolume env md0 spec w = (Inr vol, w')"
  shows "\<exists>item item' r mem. cGet (eVolumes env) \<lparr>goUid = mdUid (getFullNamResourceSpaceChild env md0),
         goName = mdName (getFullNamResourceSpaceChild env md0)\<rparr> w = Inr item
   \<and> volSpaceRef item = Some r \<and> GetMembershipBySpace env r w = Inr mem
   \<and> (memRole mem = Role_ADMIN \<or> memRole mem = Role_OWNER)
   \<and> item' = item\<lparr>volMetadata := volMetadata item', volSize := volSize item'\<rparr>
   \<and> (volSize item' = volSize item
      \<or> (\<exists>old n cc. volSize item = Some old \<and> volSize item' = Some n \<and> old < n
            \<and> eClusterConfig env w = Inr cc \<and> volumeSizeOK cc n))
   \<and> cUpdate (eVolumes env) item' w = (Inr vol, w')"
proof -
  obtain s where s: "spec = Some s"
    using assms by (cases spec) (auto simp: UpdateVolume_def Let_def io_simps)
  let ?o = "\<lparr>goUid = mdUid (getFullNamResourceSpaceChild env md0),
         goName = mdName (getFullNamResourceSpaceChild env md0)\<rparr>"
  obtain item r mem cc item1 w1 where f: "cGet (eVolumes env) ?o w = Inr item" "volSpaceRef item = Some r"
    "GetMembershipBySpace env r w = Inr mem" "memRole mem = Role_ADMIN \<or> memRole mem = Role_OWNER"
    "eClusterConfig env w = Inr cc" and g: "growVolume cc (getMegabytes (vsSize s)) item w = (Inr item1, w1)"
    and u: "cUpdate (eVolumes env) (item1\<lparr>volMetadata := eMetadataUpdate env (volMetadata item1)
        (getFullNamResourceSpaceChild env md0)\<rparr>) w1 = (Inr vol, w')" (is "cUpdate _ ?i _ = _")
    using assms unfolding s UpdateVolume_def Let_def option.case io_simps admin_gate.passes_iff
    by blast
  have "w1 = w" "?i = item\<lparr>volMetadata := volMetadata ?i, volSize := volSize ?i\<rparr>"
    "volSize ?i = volSize item \<or> (\<exists>old n cc. volSize item = Some old \<and> volSize ?i = Some n \<and> old < n
            \<and> eClusterConfig env w = Inr cc \<and> volumeSizeOK cc n)"
    using growVolume_Inr[OF g] f(5) by auto
  then show ?thesis
    using f u by blast
qed

text \<open>
  A Volume is deleted only by an ADMIN or OWNER of its Space, and only while no Template and no
  Workspace of the Space mounts it.
\<close>

theorem DeleteVolume_not_mounted:
  assumes "DeleteVolume env req w = (Inr u, w')"
  shows "\<exists>item r mem tmpls wss.
     cGet (eVolumes env) (getFullDeleteOptionsSpaceChild env req) w = Inr item \<and> volSpaceRef item = Some r
   \<and> GetMembershipBySpace env r w = Inr mem \<and> (memRole mem = Role_ADMIN \<or> memRole mem = Role_OWNER)
   \<and> cList (eTemplates env) (FilterBySpaceRef r) w = Inr tmpls
   \<and> cList (eWorkspaces env) (FilterBySpaceRef r) w = Inr wss
   \<and> \<not> list_ex (\<lambda>t. hasVolumeMount (tmGetVolumeMounts t) item) (ilItems tmpls)
   \<and> \<not> list_ex (\<lambda>ws. hasVolumeMount (spGetVolumeMounts (wsSpec ws)) item) (ilItems wss)
   \<and> cDelete (eVolumes env) (byUid (mdUid (volMetadata item))) w = (Inr u, w')"
  using assms by (auto simp: DeleteVolume_def Let_def io_simps admin_gate.passes_iff)

end
