(* ===== verification/Volume_Resolve.thy ===== *)
theory Volume_Resolve
  imports Api_Validation "HOL-Library.Multiset"
begin

text \<open>
  \<open>cluster/common/wsutils/volumeresolve.go\<close>: the Volumes that a run of a Workspace mounts, from
  its effective spec, and the Region that hosts them.
\<close>

record resolved_mount =
  rmVolumeRef :: object_ref
  rmMountPath :: string
  rmReadOnly :: bool

record resolve_resp =
  rrMounts :: "resolved_mount list"
  rrVolumes :: "volume list"

definition emptyResolve :: resolve_resp where
  "emptyResolve = \<lparr>rrMounts = [], rrVolumes = []\<rparr>"

text \<open>\<open>ret\<close> is the reference of the first Volume, absent before the loop.\<close>

fun regionRefLoop :: "object_ref option \<Rightarrow> volume list \<Rightarrow> err + object_ref option" where
  "regionRefLoop ret [] = Inr ret"
| "regionRefLoop ret (v # vs) =
     (case volRegionRef v of
        None \<Rightarrow> Inl (VolumeMountError (mdName (volMetadata v)) ''It is not hosted in a Region yet'')
      | Some r \<Rightarrow>
          (case ret of
             None \<Rightarrow> regionRefLoop (Some r) vs
           | Some r0 \<Rightarrow>
               if refUid r \<noteq> refUid r0 then
                 Inl (VolumeMountError (mdName (volMetadata v)) ''The mounted Volumes are hosted in different Regions'')
               else regionRefLoop ret vs))"

definition GetRegionRef :: "resolve_resp \<Rightarrow> err + object_ref option" where
  "GetRegionRef r = regionRefLoop None (rrVolumes r)"

definition resolveMount ::
  "'w env \<Rightarrow> object_ref \<Rightarrow> object_ref option \<Rightarrow> 'w \<Rightarrow> volume_mount \<Rightarrow> err + (resolved_mount \<times> volume)" where
  "resolveMount env spaceRef regionRef w m =
     (case vmVolumeRef m of
        None \<Rightarrow> Inl (Panic ''nil VolumeRef'')
      | Some r \<Rightarrow>
          (case cGet (eVolumes env) (byRef r) w of
             Inl e \<Rightarrow>
               if eIsNotFound env e
               then Inl (VolumeMountError (if refName r = [] then refUid r else refName r) ''It does not exist'')
               else Inl e
           | Inr vol \<Rightarrow>
               let name = mdName (volMetadata vol) in
               if map_option refUid (volSpaceRef vol) \<noteq> Some (refUid spaceRef)
               then Inl (VolumeMountError name ''It belongs to another Space'')
               else if regionRef \<noteq> None \<and> map_option refUid (volRegionRef vol) \<noteq> map_option refUid regionRef
               then Inl (VolumeMountError name ''It is hosted in another Region than the Workspace'')
               else if Volume_IsFailed (Some vol)
               then Inl (VolumeMountError name ''Its storage could not be provisioned'')
               else Inr (\<lparr>rmVolumeRef = GetObjectReference (volMetadata vol), rmMountPath = vmMountPath m,
                          rmReadOnly = vmReadOnly m\<rparr>, vol)))"

fun resolveMounts ::
  "'w env \<Rightarrow> object_ref \<Rightarrow> object_ref option \<Rightarrow> 'w \<Rightarrow> volume_mount list \<Rightarrow> err + (resolved_mount \<times> volume) list" where
  "resolveMounts env spaceRef regionRef w [] = Inr []"
| "resolveMounts env spaceRef regionRef w (m # ms) =
     bindS (resolveMount env spaceRef regionRef w m) (\<lambda>x.
     bindS (resolveMounts env spaceRef regionRef w ms) (\<lambda>xs. Inr (x # xs)))"

definition ResolveVolumeMounts ::
  "'w env \<Rightarrow> workspace \<Rightarrow> template option \<Rightarrow> object_ref option \<Rightarrow> 'w \<Rightarrow> err + resolve_resp" where
  "ResolveVolumeMounts env ws tmpl regionRef w =
     (if stIsBuild (wsStatus ws) then Inr emptyResolve
      else
        bindS (MergeSpec (eProtoMerge env) (eVarOrd env)
                 \<lparr>mrWorkspace = Some ws, mrTemplate = tmpl, mrChildWorkspace = None\<rparr>) (\<lambda>spec.
        if spGetVolumeMounts spec = [] then Inr emptyResolve
        else case ValidateVolumeMounts (map Some (spGetVolumeMounts spec)) of
          Some e \<Rightarrow> Inl (VolumeMountError [] (vErrString (eValidators env) e))
        | None \<Rightarrow>
            (case stSpaceRef (wsStatus ws) of
               None \<Rightarrow> Inl (VolumeMountError [] ''The Workspace does not belong to a Space'')
             | Some spaceRef \<Rightarrow>
                 bindS (resolveMounts env spaceRef regionRef w (spGetVolumeMounts spec)) (\<lambda>rs.
                 Inr \<lparr>rrMounts = sort_key rmMountPath (map fst rs), rrVolumes = map snd rs\<rparr>))))"

section \<open>What is resolved\<close>

lemma distinct_sorted_wrt_neq: "distinct xs \<longleftrightarrow> sorted_wrt (\<lambda>a b. a \<noteq> b) xs"
  by (induction xs) auto

lemma distinct_map_sort_key: "distinct (map f (sort_key g xs)) \<longleftrightarrow> distinct (map f xs)"
  by (rule mset_eq_imp_distinct_iff) simp


text \<open>A stored Volume of the Space that is not failed, and of the Region when one is given.\<close>

definition usableVolume :: "'w env \<Rightarrow> 'w \<Rightarrow> object_ref \<Rightarrow> object_ref option \<Rightarrow> volume \<Rightarrow> bool" where
  "usableVolume env w spaceRef regionRef vol \<longleftrightarrow>
     (\<exists>o'. cGet (eVolumes env) o' w = Inr vol) \<and> map_option refUid (volSpaceRef vol) = Some (refUid spaceRef)
     \<and> (regionRef = None \<or> map_option refUid (volRegionRef vol) = map_option refUid regionRef)
     \<and> volState vol \<noteq> Vol_FAILED"

lemma resolveMount_Inr:
  "resolveMount env spaceRef regionRef w m = Inr (rm, vol) \<Longrightarrow>
   usableVolume env w spaceRef regionRef vol \<and> rmMountPath rm = vmMountPath m
   \<and> rmVolumeRef rm = GetObjectReference (volMetadata vol) \<and> rmReadOnly rm = vmReadOnly m"
  by (auto simp: resolveMount_def usableVolume_def Let_def Volume_IsFailed_def
      split: option.splits sum.splits if_splits)

lemma resolveMounts_Inr:
  "resolveMounts env spaceRef regionRef w ms = Inr rs \<Longrightarrow>
   list_all (usableVolume env w spaceRef regionRef) (map snd rs)
   \<and> map rmMountPath (map fst rs) = map vmMountPath ms
   \<and> map rmVolumeRef (map fst rs) = map (\<lambda>v. GetObjectReference (volMetadata v)) (map snd rs)"
proof (induction env spaceRef regionRef w ms arbitrary: rs rule: resolveMounts.induct)
  case (2 env spaceRef regionRef w m ms)
  then obtain rm vol rs1 where m: "resolveMount env spaceRef regionRef w m = Inr (rm, vol)"
    and ms: "resolveMounts env spaceRef regionRef w ms = Inr rs1" and rs: "rs = (rm, vol) # rs1"
    by (auto simp: io_simps)
  show ?case
    using resolveMount_Inr[OF m] 2(1)[OF ms] by (simp add: rs)
qed simp

lemma ResolveVolumeMounts_cases:
  assumes "ResolveVolumeMounts env ws tmpl regionRef w = Inr r"
  obtains (none) "r = emptyResolve"
    | (some) spec spaceRef rs where "stSpaceRef (wsStatus ws) = Some spaceRef"
        "ValidateVolumeMounts (map Some (spGetVolumeMounts spec)) = None"
        "resolveMounts env spaceRef regionRef w (spGetVolumeMounts spec) = Inr rs"
        "r = \<lparr>rrMounts = sort_key rmMountPath (map fst rs), rrVolumes = map snd rs\<rparr>"
  using assms by (auto simp: ResolveVolumeMounts_def io_simps split: if_splits option.splits)

lemma ResolveVolumeMounts_volumes:
  assumes "ResolveVolumeMounts env ws tmpl regionRef w = Inr r" "stSpaceRef (wsStatus ws) = Some spaceRef"
  shows "list_all (usableVolume env w spaceRef regionRef) (rrVolumes r)"
  using assms(1)
proof (cases rule: ResolveVolumeMounts_cases)
  case (some spec spaceRef' rs)
  then show ?thesis
    using assms(2) resolveMounts_Inr[OF some(3)] by simp
qed (simp add: emptyResolve_def)

lemma ResolveVolumeMounts_mounts:
  assumes "ResolveVolumeMounts env ws tmpl regionRef w = Inr r"
  shows "sorted (map rmMountPath (rrMounts r)) \<and> distinct (map rmMountPath (rrMounts r))
    \<and> mset (map rmVolumeRef (rrMounts r)) = mset (map (\<lambda>v. GetObjectReference (volMetadata v)) (rrVolumes r))"
  using assms
proof (cases rule: ResolveVolumeMounts_cases)
  case (some spec spaceRef rs)
  note rs = resolveMounts_Inr[OF some(3)]
  have "sorted_wrt (\<lambda>a b. a \<noteq> b) (map vmMountPath (spGetVolumeMounts spec))"
  proof -
    have "disjointPaths p q \<Longrightarrow> p \<noteq> q" for p q
      using disjointPaths_iff by (auto simp: disjointPaths_def)
    then show ?thesis
      using some(2) unfolding ValidateVolumeMounts_spec
      by (auto simp: sorted_wrt_map elim!: sorted_wrt_mono_rel[rotated])
  qed
  then have "distinct (map rmMountPath (map fst rs))"
    using rs by (simp add: distinct_sorted_wrt_neq)
  then have "distinct (map rmMountPath (rrMounts r))"
    by (simp add: some(4) distinct_map_sort_key)
  moreover have "mset (map rmVolumeRef (rrMounts r)) = mset (map rmVolumeRef (map fst rs))"
    by (simp add: some(4) multiset.map_comp)
  moreover have "mset (map rmVolumeRef (map fst rs))
      = mset (map (\<lambda>v. GetObjectReference (volMetadata v)) (rrVolumes r))"
    using rs by (simp only: some(4) resolve_resp.simps)
  moreover have "sorted (map rmMountPath (rrMounts r))"
    by (simp add: some(4))
  ultimately show ?thesis
    by simp
qed (simp add: emptyResolve_def)

lemma regionRefLoop_Some:
  "regionRefLoop ret vs = Inr r \<Longrightarrow>
   list_all (\<lambda>v. \<exists>q. volRegionRef v = Some q \<and> map_option refUid r = Some (refUid q)) vs
   \<and> (\<forall>r0. ret = Some r0 \<longrightarrow> r = Some r0)"
  by (induction ret vs rule: regionRefLoop.induct) (auto split: option.splits if_splits)

lemma GetRegionRef_Inr:
  "GetRegionRef resp = Inr r \<Longrightarrow>
   list_all (\<lambda>v. \<exists>q. volRegionRef v = Some q \<and> map_option refUid r = Some (refUid q)) (rrVolumes resp)
   \<and> (r = None \<longleftrightarrow> rrVolumes resp = [])"
  using regionRefLoop_Some[of None "rrVolumes resp" r]
  by (cases "rrVolumes resp") (auto simp: GetRegionRef_def)

lemma regionRefLoop_Inl:
  "regionRefLoop ret vs = Inl e \<Longrightarrow>
   list_ex (\<lambda>v. volRegionRef v = None) vs
   \<or> list_ex (\<lambda>v. map_option refUid (volRegionRef v) \<noteq> map_option refUid (if ret = None then volRegionRef (hd vs) else ret)) vs"
proof (induction ret vs rule: regionRefLoop.induct)
  case (2 ret v vs)
  then show ?case
    by (cases "volRegionRef v"; cases ret) (auto simp: list_ex_iff split: if_splits)
qed simp

section \<open>Properties\<close>

text \<open>
  C27: What a run mounts: the mounts are sorted by path (so a parent comes before what is mounted in
  it) with distinct paths, one for each resolved Volume; every Volume belongs to the Workspace's
  Space, is not failed, and is hosted in the Region of the run when that is known.
\<close>

theorem resolved_mounts_sound:
  assumes "ResolveVolumeMounts env ws tmpl regionRef w = Inr r"
    and "stSpaceRef (wsStatus ws) = Some spaceRef"
  shows "sorted (map rmMountPath (rrMounts r)) \<and> distinct (map rmMountPath (rrMounts r))
    \<and> mset (map rmVolumeRef (rrMounts r)) = mset (map (\<lambda>v. GetObjectReference (volMetadata v)) (rrVolumes r))
    \<and> list_all (usableVolume env w spaceRef regionRef) (rrVolumes r)"
  using ResolveVolumeMounts_mounts[OF assms(1)] ResolveVolumeMounts_volumes[OF assms] by simp

text \<open>
  \<open>GetRegionRef\<close> returns a Region exactly when there are Volumes, and then all of them are hosted
  in it; Volumes of different Regions, or of none, are refused.
\<close>

theorem region_of_volumes:
  "(case GetRegionRef resp of
      Inl e \<Rightarrow> list_ex (\<lambda>v. volRegionRef v = None) (rrVolumes resp)
        \<or> list_ex (\<lambda>v. list_ex (\<lambda>u. map_option refUid (volRegionRef v) \<noteq> map_option refUid (volRegionRef u))
             (rrVolumes resp)) (rrVolumes resp)
    | Inr r \<Rightarrow> list_all (\<lambda>v. volRegionRef v \<noteq> None
          \<and> map_option refUid (volRegionRef v) = map_option refUid r) (rrVolumes resp)
        \<and> (r = None \<longleftrightarrow> rrVolumes resp = []))"
proof (cases "GetRegionRef resp")
  case (Inl e)
  then have hd: "hd (rrVolumes resp) \<in> set (rrVolumes resp)"
    by (cases "rrVolumes resp") (auto simp: GetRegionRef_def)
  have "regionRefLoop None (rrVolumes resp) = Inl e"
    using Inl by (simp add: GetRegionRef_def)
  then have "list_ex (\<lambda>v. volRegionRef v = None) (rrVolumes resp)
      \<or> list_ex (\<lambda>v. map_option refUid (volRegionRef v) \<noteq> map_option refUid (volRegionRef (hd (rrVolumes resp))))
          (rrVolumes resp)"
    using regionRefLoop_Inl by fastforce
  then show ?thesis
    using hd unfolding Inl sum.case list_ex_iff by blast
next
  case (Inr r)
  then show ?thesis
    using GetRegionRef_Inr[OF Inr] by (auto simp: list_all_iff)
qed

end
