(* ===== verification/Api_Workspace.thy ===== *)
theory Api_Workspace
  imports Api_Snapshot Api_Space Api_Volume Volume_Resolve
begin

text \<open>
  \<open>apiserver/mains/workspace.go\<close>: creating, starting, stopping, updating and deleting
  Workspaces, and sharing their ports. \<open>StartWorkspace\<close> is split at its stages; the changes of a
  Workspace's status are functions of their own.
\<close>

section \<open>Names\<close>

definition nameLength :: "nat \<Rightarrow> nat" where
  "nameLength i = (if i < 50 then 3 else if i < 500 then 4 else if i < 1000 then 5 else 6)"

text \<open>\<open>n\<close> attempts are left, the next one has the number \<open>i\<close>.\<close>

fun genWorkspaceNameFrom :: "'w env \<Rightarrow> nat \<Rightarrow> nat \<Rightarrow> ('w, string) io" where
  "genWorkspaceNameFrom env i 0 = throwE (Internal ''Could not generate Workspace name'')"
| "genWorkspaceNameFrom env i (Suc n) =
     bindE (eRandStr env (nameLength i)) (\<lambda>name.
     bindE (tryE (readE (cGet (eWorkspaces env) (byName name)))) (\<lambda>r.
     case r of
       Inr _ \<Rightarrow> genWorkspaceNameFrom env (i + 1) n
     | Inl e \<Rightarrow> if eIsNotFound env e then retE name else throwE (InternalWithErr e)))"

definition genWorkspaceName :: "'w env \<Rightarrow> ('w, string) io" where
  "genWorkspaceName env = genWorkspaceNameFrom env 0 10000"

section \<open>Creation\<close>

definition snapshotOfRequest :: "'w env \<Rightarrow> object_ref option \<Rightarrow> ('w, snapshot option) io" where
  "snapshotOfRequest env snapRef =
     (case snapRef of
        None \<Rightarrow> retE None
      | Some r \<Rightarrow>
          bindE (getWorkspaceSnapshotForRestore env r) (\<lambda>sn.
          bindE (invalidIf (snSpaceRef sn = None)
                  (''The WorkspaceSnapshot: '' @ mdName (snMetadata sn) @ '' does not belong to a Space'')) (\<lambda>_.
          retE (Some sn))))"

text \<open>The user's default Template, with the default Space created first if it is missing.\<close>

definition defaultTemplate :: "'w env \<Rightarrow> user_ctx \<Rightarrow> ('w, template) io" where
  "defaultTemplate env i =
     bindE (tryE (readE (cGet (eTemplates env)
             (byName (''default.default.'' @ mdName (usrMetadata (ictxUser i))))))) (\<lambda>r.
     case r of
       Inr t \<Rightarrow> retE t
     | Inl e \<Rightarrow>
         if \<not> eIsNotFound env e then throwE e
         else
           bindE (CreateSpace env
                   (emptyMetadata\<lparr>mdName := ''default.'' @ mdName (usrMetadata (ictxUser i)),
                                  mdDisplayName := ''Default Space''\<rparr>)
                   \<lparr>ssLimit = None, ssRuntime = None\<rparr>) (\<lambda>spc.
           notFoundOr (readE (cGet (eTemplates env) (byName (''default.'' @ mdName (spcMetadata spc)))))))"

definition templateOfRequest ::
  "'w env \<Rightarrow> user_ctx \<Rightarrow> object_ref option \<Rightarrow> snapshot option \<Rightarrow> ('w, template) io" where
  "templateOfRequest env i templateRef snap =
     (case (templateRef, snap) of
        (None, Some sn) \<Rightarrow>
          (case snTemplateRef sn of
             None \<Rightarrow> throwE (InvalidArg (''The WorkspaceSnapshot: '' @ mdName (snMetadata sn)
                 @ '' does not have a Template to restore into. Set an explicit Template instead''))
           | Some r \<Rightarrow>
               mapErrE (\<lambda>e. if eIsNotFound env e
                   then InvalidArg (''The Template of the WorkspaceSnapshot: '' @ mdName (snMetadata sn)
                     @ '' does not exist anymore. Set an explicit Template instead'')
                   else InternalWithErr e)
                 (readE (cGet (eTemplates env) (byRef r))))
      | (None, None) \<Rightarrow> defaultTemplate env i
      | (Some r0, _) \<Rightarrow>
          let r = getFullNamResourceRefSpaceChild env r0 in
          bindE (checkE (eCheckGetOptions env 2 (byRef r))) (\<lambda>_.
          notFoundOr (readE (cGet (eTemplates env) (byRef r)))))"

definition newWorkspace :: "user_ctx \<Rightarrow> string \<Rightarrow> metadata \<Rightarrow> ws_spec \<Rightarrow> template \<Rightarrow> workspace" where
  "newWorkspace i name md spec t =
     \<lparr>wsMetadata = emptyMetadata\<lparr>mdName := name, mdDisplayName := mdDisplayName md\<rparr>,
      wsSpec = spec,
      wsStatus = emptyStatus\<lparr>stUserRef := Some (userRefOf i), stState := STOPPED, stLimit := Some emptyLimit,
        stTemplateRef := Some (GetObjectReference (tmMetadata t)), stSpaceRef := tmSpaceRef t\<rparr>\<rparr>"

definition attachSnapshot :: "snapshot option \<Rightarrow> workspace \<Rightarrow> ('w, workspace) io" where
  "attachSnapshot snap ws =
     (case snap of
        None \<Rightarrow> retE ws
      | Some sn \<Rightarrow>
          bindE (invalidIf (map_option refUid (snSpaceRef sn) \<noteq> map_option refUid (stSpaceRef (wsStatus ws)))
                  (''The WorkspaceSnapshot: '' @ mdName (snMetadata sn) @ '' belongs to another Space'')) (\<lambda>_.
          retE (ws\<lparr>wsStatus := (wsStatus ws)\<lparr>stWorkspaceSnapshotRef := Some (GetObjectReference (snMetadata sn))\<rparr>\<rparr>)))"

text \<open>The creation once the name is chosen.\<close>

definition createNamed ::
  "'w env \<Rightarrow> user_ctx \<Rightarrow> cluster_config \<Rightarrow> metadata \<Rightarrow> ws_spec \<Rightarrow> object_ref option \<Rightarrow> object_ref option \<Rightarrow>
   string \<Rightarrow> ('w, workspace) io" where
  "createNamed env i cc md spec templateRef snapRef name =
     bindE (snapshotOfRequest env snapRef) (\<lambda>snap.
     bindE (templateOfRequest env i templateRef snap) (\<lambda>t.
     let ws = newWorkspace i name md spec t in
     case tmSpaceRef t of
       None \<Rightarrow> throwE (InvalidArg ''Workspace must belong to a Space'')
     | Some spaceRef \<Rightarrow>
     bindE (readE (cGet (eSpaces env) (byUid (refUid spaceRef)))) (\<lambda>org.
     let ws = ws\<lparr>wsStatus := (wsStatus ws)\<lparr>stSpaceType := spcType org\<rparr>\<rparr> in
     bindE (validateWorkspace env ws) (\<lambda>ws.
     bindE (checkR (CheckIsMember env spaceRef)) (\<lambda>_.
     bindE (attachSnapshot snap ws) (\<lambda>ws.
     bindE (internalOr (readE (setWorkspaceLimit env ws org cc))) (\<lambda>ws.
     cCreate (eWorkspaces env) ws)))))))"

definition CreateWorkspace ::
  "'w env \<Rightarrow> metadata \<Rightarrow> ws_spec \<Rightarrow> object_ref option \<Rightarrow> object_ref option \<Rightarrow> ('w, workspace) io" where
  "CreateWorkspace env md spec templateRef snapRef =
     bindE (liftE (eUserCtx env)) (\<lambda>i.
     bindE (checkE (eValidateCommon env \<lparr>voRequireName = False, voParentsMust = 0\<rparr> md)) (\<lambda>_.
     bindE (readE (eClusterConfig env)) (\<lambda>cc.
     bindE (checkCount (eWorkspaces env) (\<lambda>e. e) (FilterByUser (ictxUser i)) (getMaxWorkspacesPerUser cc)
             (InvalidArg ''Number of Workspaces per User has been exceeded'')) (\<lambda>_.
     bindE (genWorkspaceName env) (\<lambda>name.
     createNamed env i cc md spec templateRef snapRef name)))))"

section \<open>Volumes of a run\<close>

text \<open>The mounts of a Workspace that may use a Volume: its own and those of its Template.\<close>

definition mountsInUse :: "template list \<Rightarrow> workspace \<Rightarrow> volume_mount list" where
  "mountsInUse tmpls cur =
     spGetVolumeMounts (wsSpec cur) @
     (case stTemplateRef (wsStatus cur) of
        None \<Rightarrow> []
      | Some r \<Rightarrow>
          (case map_of (rev (map (\<lambda>t. (mdUid (tmMetadata t), tmGetVolumeMounts t)) tmpls)) (refUid r) of
             None \<Rightarrow> [] | Some ms \<Rightarrow> ms))"

definition checkExclusiveVolumes :: "'w env \<Rightarrow> workspace \<Rightarrow> volume list \<Rightarrow> ('w, unit) io" where
  "checkExclusiveVolumes env ws vols =
     (let exclusive = filter (\<lambda>v. \<not> Volume_IsShared (Some v)) vols in
      if exclusive = [] then retE ()
      else
        bindE (deref (stSpaceRef (wsStatus ws))) (\<lambda>r.
        bindE (internalOr (readE (cList (eWorkspaces env) (FilterBySpaceRef r)))) (\<lambda>wss.
        bindE (internalOr (readE (cList (eTemplates env) (FilterBySpaceRef r)))) (\<lambda>tmpls.
        forE (filter (\<lambda>cur. mdUid (wsMetadata cur) \<noteq> mdUid (wsMetadata ws) \<and> \<not> IsStopped (wsState cur)) (ilItems wss))
          (\<lambda>cur. forE exclusive (\<lambda>vol.
             invalidIf (hasVolumeMount (mountsInUse (ilItems tmpls) cur) vol)
               (''The Volume: '' @ mdName (volMetadata vol)
                @ '' is EXCLUSIVE and it is currently mounted by the Workspace: '' @ mdName (wsMetadata cur))))))))"

definition volumeMountErr :: "'w env \<Rightarrow> err \<Rightarrow> err" where
  "volumeMountErr env e =
     (case e of VolumeMountError _ _ \<Rightarrow> InvalidArg (vErrString (eValidators env) e) | _ \<Rightarrow> InternalWithErr e)"

definition templateOfWorkspace :: "'w env \<Rightarrow> workspace \<Rightarrow> ('w, template option) io" where
  "templateOfWorkspace env ws =
     (case stTemplateRef (wsStatus ws) of
        None \<Rightarrow> retE None
      | Some r \<Rightarrow> bindE (notFoundOr (readE (cGet (eTemplates env) (byUid (refUid r))))) (\<lambda>t. retE (Some t)))"

definition getWorkspaceVolumeRegionRef :: "'w env \<Rightarrow> workspace \<Rightarrow> ('w, object_ref option) io" where
  "getWorkspaceVolumeRegionRef env ws =
     bindE (templateOfWorkspace env ws) (\<lambda>tmpl.
     bindE (mapErrE (volumeMountErr env) (readE (ResolveVolumeMounts env ws tmpl None))) (\<lambda>resolved.
     bindE (mapErrE (\<lambda>e. InvalidArg (vErrString (eValidators env) e)) (liftE (GetRegionRef resolved))) (\<lambda>regionRef.
     bindE (checkExclusiveVolumes env ws (rrVolumes resolved)) (\<lambda>_.
     retE regionRef))))"

section \<open>Starting\<close>

definition maxRuns :: nat where "maxRuns = 100"

definition pushRun :: "ws_run option \<Rightarrow> ws_run list \<Rightarrow> ws_run list" where
  "pushRun run lastRuns =
     (let l = (if length lastRuns \<ge> maxRuns then take (maxRuns - 2) lastRuns else lastRuns) in
      case run of None \<Rightarrow> l | Some r \<Rightarrow> r # l)"

text \<open>The status of a Workspace that is started.\<close>

definition startedStatus ::
  "time \<Rightarrow> region \<Rightarrow> string \<Rightarrow> string \<Rightarrow> run_config option \<Rightarrow> ws_status \<Rightarrow> ws_status" where
  "startedStatus now rg hostname rid cfg st =
     st\<lparr>stState := INIT_REQUEST, stCurrentStateSetAt := Some now, stLastInitializedAt := Some now,
        stLastStoppingReason := stStoppingReason st, stStoppingReason := STOPPING_REASON_UNSET,
        stRegionRef := Some (GetObjectReference (rgnMetadata rg)),
        stLastRegionRef := Some (GetObjectReference (rgnMetadata rg)),
        stLastActivityAt := Some now, stHostname := hostname,
        stLastRuns := pushRun (stRun st) (stLastRuns st),
        stRun := Some \<lparr>runId = rid, runInitializedAt = Some now, runStoppedAt = None, runFailure = None,
                       runConfig = cfg\<rparr>\<rparr>"

definition createWorkspaceSession :: "'w env \<Rightarrow> user_ctx \<Rightarrow> workspace \<Rightarrow> ('w, session) io" where
  "createWorkspaceSession env i ws =
     bindE (readE (cGet (eUsers env) (byUid (mdUid (usrMetadata (ictxUser i)))))) (\<lambda>usr.
     bindE (eNewSession env usr ws) (\<lambda>sess.
     internalOr (cCreate (eSessions env) sess)))"

text \<open>The guards on the owner and the state; the result is the Space.\<close>

definition startGuards :: "'w env \<Rightarrow> user_ctx \<Rightarrow> workspace \<Rightarrow> ('w, space) io" where
  "startGuards env i ws =
     bindE (deref (stUserRef (wsStatus ws))) (\<lambda>u.
     bindE (throw_if (refUid u \<noteq> refUid (ictxSessionUserRef i)) (Unauthorized ''Workspace not owned by the User'')) (\<lambda>_.
     bindE (deref (stSpaceRef (wsStatus ws))) (\<lambda>sr.
     bindE (notFoundOr (readE (cGet (eSpaces env) (byRef sr)))) (\<lambda>spc.
     bindE (throw_if (IsPreRunning (wsState ws) \<or> IsRunning (wsState ws))
             (AlreadyExists ''Workspace is already starting or running'')) (\<lambda>_.
     bindE (invalidIf (\<not> IsStopped (wsState ws)) ''Workspace cannot be started as it is not stopped'') (\<lambda>_.
     retE spc))))))"

definition startSnapshot :: "'w env \<Rightarrow> workspace \<Rightarrow> ('w, snapshot option) io" where
  "startSnapshot env ws =
     (if \<not> workspaceRestoresFromSnapshot ws then retE None
      else
        bindE (deref (stWorkspaceSnapshotRef (wsStatus ws))) (\<lambda>r.
        bindE (getWorkspaceSnapshotForRestore env r) (\<lambda>sn.
        bindE (invalidIf (snRegionRef sn = None)
                (''The WorkspaceSnapshot: '' @ mdName (snMetadata sn) @ '' does not belong to a Region'')) (\<lambda>_.
        retE (Some sn)))))"

text \<open>Where the storage of the Workspace is, and why.\<close>

definition storageRegion :: "workspace \<Rightarrow> snapshot option \<Rightarrow> object_ref option \<times> string" where
  "storageRegion ws snap =
     (case snap of
        Some sn \<Rightarrow> (snRegionRef sn, ''the WorkspaceSnapshot: '' @ mdName (snMetadata sn))
      | None \<Rightarrow>
          if \<not> spIsEphemeral (wsSpec ws) \<and> stSuccessfulRuns (wsStatus ws) > 0
             \<and> stLastRegionRef (wsStatus ws) \<noteq> None
          then (stLastRegionRef (wsStatus ws), ''the persistent storage of the Workspace'')
          else (None, []))"

definition startRegion ::
  "'w env \<Rightarrow> workspace \<Rightarrow> snapshot option \<Rightarrow> object_ref option \<Rightarrow> run_config option \<Rightarrow> ('w, region) io" where
  "startRegion env ws snap volumeRegionRef cfg =
     (let (storageRegionRef, reason) = storageRegion ws snap in
      bindE (invalidIf (storageRegionRef \<noteq> None \<and> volumeRegionRef \<noteq> None
                \<and> map_option refUid storageRegionRef \<noteq> map_option refUid volumeRegionRef)
              (''The mounted Volumes are hosted in another Region than '' @ reason)) (\<lambda>_.
      internalOr
        (case (case storageRegionRef of None \<Rightarrow> volumeRegionRef | Some r \<Rightarrow> Some r) of
           Some r \<Rightarrow> readE (cGet (eRegions env) (byRef r))
         | None \<Rightarrow> chooseRegion env (Option.bind cfg rcRegionRef))))"

text \<open>The end of \<open>StartWorkspace\<close>: a session for the run, and the update, undone if that fails.\<close>

definition doStart :: "'w env \<Rightarrow> user_ctx \<Rightarrow> workspace \<Rightarrow> ('w, unit) io" where
  "doStart env i ws =
     bindE (internalOr (createWorkspaceSession env i ws)) (\<lambda>sess.
     let ws = ws\<lparr>wsStatus := (wsStatus ws)\<lparr>stSessionRef := Some (GetObjectReference (sessMetadata sess))\<rparr>\<rparr> in
     bindE (tryE (cUpdate (eWorkspaces env) ws)) (\<lambda>r.
     case r of
       Inr _ \<Rightarrow> retE ()
     | Inl e \<Rightarrow>
         bindE (tryE (cDelete (eSessions env) (byUid (mdUid (sessMetadata sess))))) (\<lambda>_.
         throwE (InternalWithErr e))))"

definition StartWorkspace :: "'w env \<Rightarrow> object_ref option \<Rightarrow> run_config option \<Rightarrow> ('w, unit) io" where
  "StartWorkspace env wsRef cfg =
     bindE (liftE (eUserCtx env)) (\<lambda>i.
     bindE (checkE (eCheckObjectRef env 0 wsRef)) (\<lambda>_.
     bindE (readE (eClusterConfig env)) (\<lambda>cco.
     bindE (checkR (checkIfCanStartWorkspace env i cco)) (\<lambda>_.
     bindE (deref wsRef) (\<lambda>r.
     bindE (notFoundOr (readE (cGet (eWorkspaces env) (byRef r)))) (\<lambda>ws.
     bindE (startGuards env i ws) (\<lambda>spc.
     bindE (startSnapshot env ws) (\<lambda>snap.
     bindE (getWorkspaceVolumeRegionRef env ws) (\<lambda>volRef.
     bindE (startRegion env ws snap volRef cfg) (\<lambda>rg.
     bindE (internalOr (readE (eCoreDomain env))) (\<lambda>domain.
     bindE (readE (\<lambda>w. Inr (eNow env w))) (\<lambda>now.
     bindE (eRandStr env 6) (\<lambda>rid.
     let ws = ws\<lparr>wsStatus := startedStatus now rg (GetWorkspaceHostname (mdName (wsMetadata ws)) rg domain) rid cfg
                  (wsStatus ws)\<rparr> in
     bindE (readE (setWorkspaceLimit env ws spc cco)) (\<lambda>ws.
     doStart env i ws))))))))))))))"

section \<open>Stopping, updating, deleting and reading\<close>

definition checkOwner :: "user_ctx \<Rightarrow> err \<Rightarrow> err \<Rightarrow> workspace \<Rightarrow> ('w, unit) io" where
  "checkOwner i noUser other ws =
     (case stUserRef (wsStatus ws) of
        None \<Rightarrow> throwE noUser
      | Some u \<Rightarrow> throw_if (refUid u \<noteq> refUid (ictxSessionUserRef i)) other)"

definition stopRequested :: "stopping_reason \<Rightarrow> workspace \<Rightarrow> workspace" where
  "stopRequested reason ws =
     ws\<lparr>wsStatus := (wsStatus ws)\<lparr>stState := STOPPING_REQUEST, stStoppingReason := reason\<rparr>\<rparr>"

definition StopWorkspace :: "'w env \<Rightarrow> object_ref option \<Rightarrow> ('w, unit) io" where
  "StopWorkspace env wsRef =
     bindE (liftE (eUserCtx env)) (\<lambda>i.
     bindE (checkE (eCheckObjectRef env 0 wsRef)) (\<lambda>_.
     bindE (deref wsRef) (\<lambda>r.
     bindE (notFoundOr (readE (cGet (eWorkspaces env) (byRef r)))) (\<lambda>ws.
     bindE (checkOwner i (Unauthorized ''Workspace does not belong to a User'')
             (Unauthorized ''Workspace not owned by the User'') ws) (\<lambda>_.
     bindE (invalidIf (IsStopped (wsState ws)) ''Workspace is already stopped'') (\<lambda>_.
     if IsStopping (wsState ws) then retE ()
     else
       bindE (internalOr (cUpdate (eWorkspaces env) (stopRequested STOPPING_REASON_API ws))) (\<lambda>_. retE ())))))))"

definition UpdateWorkspace :: "'w env \<Rightarrow> metadata \<Rightarrow> ws_spec \<Rightarrow> ('w, workspace) io" where
  "UpdateWorkspace env md spec =
     bindE (liftE (eUserCtx env)) (\<lambda>i.
     bindE (checkE (eValidateCommon env \<lparr>voRequireName = False, voParentsMust = 0\<rparr> md)) (\<lambda>_.
     bindE (notFoundOr (readE (cGet (eWorkspaces env) (byUid (mdUid md))))) (\<lambda>ws.
     bindE (checkOwner i (Unauthorized ''Workspace does not belong to a User'')
             (Unauthorized ''Workspace not owned by the User'') ws) (\<lambda>_.
     bindE (validateWorkspace env (ws\<lparr>wsMetadata := (wsMetadata ws)\<lparr>mdDisplayName := mdDisplayName md\<rparr>,
                                      wsSpec := spec\<rparr>)) (\<lambda>ws.
     cUpdate (eWorkspaces env) ws)))))"

definition DeleteWorkspace :: "'w env \<Rightarrow> get_opts \<Rightarrow> ('w, unit) io" where
  "DeleteWorkspace env req =
     bindE (liftE (eUserCtx env)) (\<lambda>i.
     bindE (checkE (eCheckDeleteOptions env 0 req)) (\<lambda>_.
     bindE (notFoundOr (readE (cGet (eWorkspaces env) req))) (\<lambda>ws.
     bindE (checkOwner i (InvalidArg ''Workspace not owned by the User'')
             (Unauthorized ''Workspace is not owned by this User'') ws) (\<lambda>_.
     bindE (internalOr (cDelete (eWorkspaces env) (byUid (mdUid (wsMetadata ws))))) (\<lambda>_.
     unsetAgentWorkspace env ws)))))"

definition GetWorkspace :: "'w env \<Rightarrow> get_opts \<Rightarrow> ('w, workspace) io" where
  "GetWorkspace env req =
     bindE (liftE (eUserCtx env)) (\<lambda>i.
     bindE (checkE (eCheckGetOptions env 0 req)) (\<lambda>_.
     bindE (notFoundOr (readE (cGet (eWorkspaces env) req))) (\<lambda>item.
     bindE (throw_if (\<not> ownedBy (mdUid (usrMetadata (ictxUser i))) (stUserRef (wsStatus item)))
             (Unauthorized ''This Workspace is not owned by the User'')) (\<lambda>_.
     retE item))))"

datatype ws_filter = WfNone | WfTemplateRef object_ref | WfSpaceRef object_ref

definition workspaceFilters :: "'w env \<Rightarrow> ws_filter \<Rightarrow> ('w, list_filter list) io" where
  "workspaceFilters env f =
     (case f of
        WfNone \<Rightarrow> retE []
      | WfTemplateRef r \<Rightarrow>
          bindE (checkE (eCheckGetOptions env 2 (byRef r))) (\<lambda>_.
          bindE (notFoundOr (readE (cGet (eTemplates env) (byRef r)))) (\<lambda>t.
          retE [FStatusTemplateUID (mdUid (tmMetadata t))]))
      | WfSpaceRef r \<Rightarrow>
          bindE (checkE (eCheckGetOptions env 1 (byRef r))) (\<lambda>_.
          bindE (notFoundOr (readE (cGet (eSpaces env) (byRef r)))) (\<lambda>s.
          retE [FStatusSpaceUID (mdUid (spcMetadata s))])))"

definition ListWorkspace :: "'w env \<Rightarrow> ws_filter \<Rightarrow> string \<Rightarrow> ('w, workspace item_list) io" where
  "ListWorkspace env f common =
     bindE (liftE (eUserCtx env)) (\<lambda>i.
     bindE (workspaceFilters env f) (\<lambda>fs.
     internalOr (readE (cList (eWorkspaces env)
       (publicOpts common (FStatusUserUID (refUid (ictxSessionUserRef i)) # fs))))))"

section \<open>Shared ports\<close>

definition sharePort :: "share_mode \<Rightarrow> string \<Rightarrow> shared_port list \<Rightarrow> shared_port list" where
  "sharePort mode app ports =
     (let isFound = list_ex (\<lambda>p. spoApplicationName p = app) ports;
          ports' = map (\<lambda>p. if spoApplicationName p = app then p\<lparr>spoMode := mode\<rparr> else p) ports
      in if isFound then ports' else ports' @ [\<lparr>spoMode = mode, spoApplicationName = app\<rparr>])"

fun unsharePort :: "string \<Rightarrow> shared_port list \<Rightarrow> shared_port list" where
  "unsharePort app [] = []"
| "unsharePort app (p # ps) = (if spoApplicationName p = app then ps else p # unsharePort app ps)"

definition setSharedPorts :: "shared_port list \<Rightarrow> workspace \<Rightarrow> workspace" where
  "setSharedPorts ports ws = ws\<lparr>wsStatus := (wsStatus ws)\<lparr>stSharedPorts := ports\<rparr>\<rparr>"

definition ShareWorkspacePort :: "'w env \<Rightarrow> object_ref option \<Rightarrow> string \<Rightarrow> share_mode \<Rightarrow> ('w, unit) io" where
  "ShareWorkspacePort env wsRef name mode =
     bindE (invalidIf (mode = Share_UNSET) ''Mode cannot be UNSET'') (\<lambda>_.
     bindE (invalidIf (name = []) ''Application name must be set'') (\<lambda>_.
     bindE (checkE (eCheckObjectRef env 0 wsRef)) (\<lambda>_.
     bindE (deref wsRef) (\<lambda>r.
     bindE (GetWorkspace env (byRef r)) (\<lambda>ws.
     case GetApplicationByName (spApplications (wsSpec ws)) name of
       None \<Rightarrow> throwE (InvalidArg (''The application: '' @ name @ '' does not exist''))
     | Some app \<Rightarrow>
         bindE (internalOr (cUpdate (eWorkspaces env)
                 (setSharedPorts (sharePort mode (appName app) (stSharedPorts (wsStatus ws))) ws))) (\<lambda>_. retE ()))))))"

definition UnshareWorkspacePort :: "'w env \<Rightarrow> object_ref option \<Rightarrow> string \<Rightarrow> ('w, unit) io" where
  "UnshareWorkspacePort env wsRef name =
     bindE (invalidIf (name = []) ''Application name must be set'') (\<lambda>_.
     bindE (checkE (eCheckObjectRef env 0 wsRef)) (\<lambda>_.
     bindE (deref wsRef) (\<lambda>r.
     bindE (GetWorkspace env (byRef r)) (\<lambda>ws.
     let ports = stSharedPorts (wsStatus ws) in
     if list_ex (\<lambda>p. spoApplicationName p = name) ports
     then bindE (internalOr (cUpdate (eWorkspaces env) (setSharedPorts (unsharePort name ports) ws))) (\<lambda>_. retE ())
     else retE ()))))"

section \<open>Facts\<close>

lemma checkOwner_Inr [io_simps]:
  "checkOwner i e1 e2 ws w = (Inr u, w') \<longleftrightarrow>
     map_option refUid (stUserRef (wsStatus ws)) = Some (refUid (ictxSessionUserRef i)) \<and> w' = w"
  by (cases "stUserRef (wsStatus ws)") (auto simp: checkOwner_def io_simps)

lemma read_only_checkOwner [intro!]: "read_only (checkOwner i e1 e2 ws)"
  unfolding checkOwner_def by (auto split: option.splits)

lemma read_only_startGuards [intro!]: "read_only (startGuards env i ws)"
  unfolding startGuards_def by auto

lemma read_only_startSnapshot [intro!]: "read_only (startSnapshot env ws)"
  unfolding startSnapshot_def by auto

lemma read_only_snapshotOfRequest [intro!]: "read_only (snapshotOfRequest env r)"
  unfolding snapshotOfRequest_def by (auto split: option.splits)

lemma read_only_checkExclusiveVolumes [intro!]: "read_only (checkExclusiveVolumes env ws vols)"
  unfolding checkExclusiveVolumes_def Let_def by auto

lemma read_only_templateOfWorkspace [intro!]: "read_only (templateOfWorkspace env ws)"
  unfolding templateOfWorkspace_def by (auto split: option.splits)

lemma read_only_getWorkspaceVolumeRegionRef [intro!]: "read_only (getWorkspaceVolumeRegionRef env ws)"
  unfolding getWorkspaceVolumeRegionRef_def by auto

lemma read_only_GetWorkspace [intro!]: "read_only (GetWorkspace env req)"
  unfolding GetWorkspace_def by auto

lemma startGuards_Inr:
  "startGuards env i ws w = (Inr spc, w') \<Longrightarrow>
   w' = w \<and> map_option refUid (stUserRef (wsStatus ws)) = Some (refUid (ictxSessionUserRef i)) \<and> wsState ws = STOPPED"
  by (cases "wsState ws") (auto simp: startGuards_def io_simps)

text \<open>A Volume that is not SHARED is not mounted by another Workspace that is not stopped.\<close>

definition exclusiveUse :: "template list \<Rightarrow> workspace list \<Rightarrow> workspace \<Rightarrow> volume \<Rightarrow> bool" where
  "exclusiveUse tmpls wss ws vol \<longleftrightarrow> Volume_IsShared (Some vol)
     \<or> \<not> list_ex (\<lambda>cur. mdUid (wsMetadata cur) \<noteq> mdUid (wsMetadata ws) \<and> wsState cur \<noteq> STOPPED
            \<and> hasVolumeMount (mountsInUse tmpls cur) vol) wss"

lemma forE_forE_throw_if_Inr:
  "forE xs (\<lambda>x. forE ys (\<lambda>y. throw_if (c x y) (e x y))) w = (Inr u, w') \<longleftrightarrow>
     \<not> list_ex (\<lambda>x. list_ex (c x) ys) xs \<and> w' = w"
  by (induction xs) (auto simp: io_simps)

lemma checkExclusiveVolumes_Inr:
  assumes "checkExclusiveVolumes env ws vols w = (Inr u, w')"
  shows "list_all (\<lambda>v. Volume_IsShared (Some v)) vols
    \<or> (\<exists>r wss tmpls. stSpaceRef (wsStatus ws) = Some r
         \<and> cList (eWorkspaces env) (FilterBySpaceRef r) w = Inr wss
         \<and> cList (eTemplates env) (FilterBySpaceRef r) w = Inr tmpls
         \<and> list_all (exclusiveUse (ilItems tmpls) (ilItems wss) ws) vols)"
proof (cases "filter (\<lambda>v. \<not> Volume_IsShared (Some v)) vols = []")
  case True
  then show ?thesis
    by (auto simp: filter_empty_conv list_all_iff)
next
  case False
  then obtain r wss tmpls where f: "stSpaceRef (wsStatus ws) = Some r"
      "cList (eWorkspaces env) (FilterBySpaceRef r) w = Inr wss"
      "cList (eTemplates env) (FilterBySpaceRef r) w = Inr tmpls"
      "\<not> list_ex (\<lambda>cur. list_ex (hasVolumeMount (mountsInUse (ilItems tmpls) cur))
          (filter (\<lambda>v. \<not> Volume_IsShared (Some v)) vols))
        (filter (\<lambda>cur. mdUid (wsMetadata cur) \<noteq> mdUid (wsMetadata ws) \<and> \<not> IsStopped (wsState cur)) (ilItems wss))"
    using assms by (auto simp: checkExclusiveVolumes_def Let_def io_simps forE_forE_throw_if_Inr)
  have "list_all (exclusiveUse (ilItems tmpls) (ilItems wss) ws) vols"
    using f(4) by (fastforce simp: IsStopped_iff exclusiveUse_def list_ex_iff list_all_iff)
  with f show ?thesis by blast
qed

lemma getWorkspaceVolumeRegionRef_Inr:
  "getWorkspaceVolumeRegionRef env ws w = (Inr ref, w') \<Longrightarrow>
   \<exists>tmpl resolved. templateOfWorkspace env ws w = (Inr tmpl, w)
     \<and> ResolveVolumeMounts env ws tmpl None w = Inr resolved \<and> GetRegionRef resolved = Inr ref
     \<and> checkExclusiveVolumes env ws (rrVolumes resolved) w = (Inr (), w) \<and> w' = w"
  using read_onlyD[OF read_only_templateOfWorkspace] read_onlyD[OF read_only_checkExclusiveVolumes]
  by (fastforce simp: getWorkspaceVolumeRegionRef_def io_simps)

lemma pushRun_length: "length (pushRun r l) \<le> maxRuns"
  by (auto simp: pushRun_def Let_def maxRuns_def split: option.splits)

lemma doStart_Inr:
  assumes "doStart env i ws w = (Inr u, w')"
  shows "\<exists>usr sess s w1 w2 ret. cGet (eUsers env) (byUid (mdUid (usrMetadata (ictxUser i)))) w = Inr usr
    \<and> eNewSession env usr ws w = (Inr sess, w1) \<and> cCreate (eSessions env) sess w1 = (Inr s, w2)
    \<and> cUpdate (eWorkspaces env) (ws\<lparr>wsStatus := (wsStatus ws)\<lparr>stSessionRef :=
          Some (GetObjectReference (sessMetadata s))\<rparr>\<rparr>) w2 = (Inr ret, w')"
proof -
  obtain s w2 where s: "internalOr (createWorkspaceSession env i ws) w = (Inr s, w2)"
    and r: "bindE (tryE (cUpdate (eWorkspaces env) (ws\<lparr>wsStatus := (wsStatus ws)\<lparr>stSessionRef :=
          Some (GetObjectReference (sessMetadata s))\<rparr>\<rparr>))) (\<lambda>r. case r of Inr _ \<Rightarrow> retE ()
     | Inl e \<Rightarrow> bindE (tryE (cDelete (eSessions env) (byUid (mdUid (sessMetadata s))))) (\<lambda>_.
         throwE (InternalWithErr e))) w2 = (Inr u, w')"
    using assms by (auto simp: doStart_def Let_def io_simps)
  obtain x w3 where x: "cUpdate (eWorkspaces env) (ws\<lparr>wsStatus := (wsStatus ws)\<lparr>stSessionRef :=
          Some (GetObjectReference (sessMetadata s))\<rparr>\<rparr>) w2 = (x, w3)"
    by (rule prod.exhaust)
  obtain ret where "x = Inr ret" "w3 = w'"
    using r x by (cases x) (auto simp: bindE_tryE_Inl bindE_tryE_Inr io_simps)
  then show ?thesis
    using s x by (auto simp: createWorkspaceSession_def io_simps)
qed

lemma StartWorkspace_Inr:
  assumes "StartWorkspace env wsRef cfg w = (Inr u, w')"
  obtains i cc r ws ws' now rg hostname rid spc w1 volRef where "eUserCtx env = Inr i" "eClusterConfig env w = Inr cc"
    "checkIfCanStartWorkspace env i cc w = None" "wsRef = Some r" "cGet (eWorkspaces env) (byRef r) w = Inr ws"
    "startGuards env i ws w = (Inr spc, w)" "getWorkspaceVolumeRegionRef env ws w = (Inr volRef, w)"
    "setWorkspaceLimit env (ws\<lparr>wsStatus := startedStatus now rg hostname rid cfg (wsStatus ws)\<rparr>) spc cc w1 = Inr ws'"
    "doStart env i ws' w1 = (Inr u, w')"
proof -
  obtain i cc r spc snap volRef rg domain now rid w1 w2 w3 w4 w5 and ws :: workspace and ws' :: workspace where
    f: "eUserCtx env = Inr i" "eClusterConfig env w = Inr cc" "checkIfCanStartWorkspace env i cc w = None"
    "wsRef = Some r" "cGet (eWorkspaces env) (byRef r) w = Inr ws"
    and g: "startGuards env i ws w = (Inr spc, w3)" "startSnapshot env ws w3 = (Inr snap, w4)"
      "getWorkspaceVolumeRegionRef env ws w4 = (Inr volRef, w5)"
    and l: "setWorkspaceLimit env (ws\<lparr>wsStatus := startedStatus now rg
        (GetWorkspaceHostname (mdName (wsMetadata ws)) rg domain) rid cfg (wsStatus ws)\<rparr>) spc cc w1 = Inr ws'"
    "doStart env i ws' w1 = (Inr u, w')"
    using assms unfolding StartWorkspace_def Let_def io_simps by clarify (rule that, assumption+)
  have "w3 = w" "w4 = w" "w5 = w"
    using g by (auto dest: read_onlyD[OF read_only_startGuards] read_onlyD[OF read_only_startSnapshot]
        read_onlyD[OF read_only_getWorkspaceVolumeRegionRef])
  then show ?thesis
    using f g l that by blast
qed

section \<open>Properties\<close>

text \<open>
  C5: A start needs the owner and a stopped Workspace. It stores the Workspace as INIT_REQUEST with a
  session of its own, a fresh run and a positive limit, and the history of runs stays bounded.
\<close>

theorem StartWorkspace_starts:
  assumes "StartWorkspace env wsRef cfg w = (Inr u, w')"
  shows "\<exists>i r ws ws' w2 ret. eUserCtx env = Inr i \<and> wsRef = Some r \<and> cGet (eWorkspaces env) (byRef r) w = Inr ws
    \<and> map_option refUid (stUserRef (wsStatus ws)) = Some (refUid (ictxSessionUserRef i)) \<and> wsState ws = STOPPED
    \<and> cUpdate (eWorkspaces env) ws' w2 = (Inr ret, w')
    \<and> wsMetadata ws' = wsMetadata ws \<and> wsState ws' = INIT_REQUEST \<and> stSessionRef (wsStatus ws') \<noteq> None
    \<and> map_option runConfig (stRun (wsStatus ws')) = Some cfg \<and> pred_option limitSet (stLimit (wsStatus ws'))
    \<and> length (stLastRuns (wsStatus ws')) \<le> 100"
proof -
  obtain i cc r now rg hostname rid spc w1 volRef and ws :: workspace and ws' :: workspace where
    f: "eUserCtx env = Inr i" "wsRef = Some r" "cGet (eWorkspaces env) (byRef r) w = Inr ws"
    and g: "startGuards env i ws w = (Inr spc, w)"
    and l: "setWorkspaceLimit env (ws\<lparr>wsStatus := startedStatus now rg hostname rid cfg (wsStatus ws)\<rparr>) spc cc w1 = Inr ws'"
    and d: "doStart env i ws' w1 = (Inr u, w')"
    by (rule StartWorkspace_Inr[OF assms])
  obtain l spec where ws': "ws' = ws\<lparr>wsStatus := startedStatus now rg hostname rid cfg (wsStatus ws)\<rparr>
      \<lparr>wsSpec := spec, wsStatus := (startedStatus now rg hostname rid cfg (wsStatus ws))\<lparr>stLimit := Some l\<rparr>\<rparr>"
    and ls: "limitSet l"
    using l by (rule setWorkspaceLimit_frame) simp
  obtain w2 ret and s :: session where c: "cUpdate (eWorkspaces env) (ws'\<lparr>wsStatus := (wsStatus ws')\<lparr>stSessionRef :=
      Some (GetObjectReference (sessMetadata s))\<rparr>\<rparr>) w2 = (Inr ret, w')"
    using doStart_Inr[OF d] by blast
  have "length (pushRun (stRun (wsStatus ws)) (stLastRuns (wsStatus ws))) \<le> 100"
    using pushRun_length[of "stRun (wsStatus ws)" "stLastRuns (wsStatus ws)"] by (simp add: maxRuns_def)
  then show ?thesis
    using f startGuards_Inr[OF g] ls c
    by (intro exI[of _ i] exI[of _ r] exI[of _ ws] exI[of _ "ws'\<lparr>wsStatus := (wsStatus ws')\<lparr>stSessionRef :=
      Some (GetObjectReference (sessMetadata s))\<rparr>\<rparr>"] exI[of _ w2] exI[of _ ret])
      (simp add: ws' startedStatus_def)
qed

text \<open>
  C14: What one start checks of Volumes. When it succeeds, then every Volume that the mounts of the Workspace and of its Template resolve to
  belongs to the Space of the Workspace and has not failed, and an EXCLUSIVE one is mounted, by its own mounts
  or by those of its Template, by no other Workspace that is not stopped in the lists of the
  Space that this start read. Nothing is said of later: two starts that read their lists
  before either has stored its Workspace, or an update of the mounts of a running Workspace or of its Template,
  can still mount such a Volume twice.
\<close>

theorem StartWorkspace_volumes:
  assumes "StartWorkspace env (Some r) cfg w = (Inr u, w')"
    and "cGet (eWorkspaces env) (byRef r) w = Inr ws" and "stSpaceRef (wsStatus ws) = Some sr"
    and "cList (eWorkspaces env) (FilterBySpaceRef sr) w = Inr wss"
    and "cList (eTemplates env) (FilterBySpaceRef sr) w = Inr tmpls"
  shows "\<exists>tmpl resolved. templateOfWorkspace env ws w = (Inr tmpl, w)
    \<and> ResolveVolumeMounts env ws tmpl None w = Inr resolved
    \<and> list_all (\<lambda>v. usableVolume env w sr None v \<and> exclusiveUse (ilItems tmpls) (ilItems wss) ws v)
        (rrVolumes resolved)"
proof -
  obtain volRef where v: "getWorkspaceVolumeRegionRef env ws w = (Inr volRef, w)"
    using StartWorkspace_Inr[OF assms(1)] assms(2) by (metis option.inject sum.inject(2))
  obtain tmpl resolved where t: "templateOfWorkspace env ws w = (Inr tmpl, w)"
    and res: "ResolveVolumeMounts env ws tmpl None w = Inr resolved"
    and c: "checkExclusiveVolumes env ws (rrVolumes resolved) w = (Inr (), w)"
    using getWorkspaceVolumeRegionRef_Inr[OF v] by blast
  have "list_all (exclusiveUse (ilItems tmpls) (ilItems wss) ws) (rrVolumes resolved)"
    using checkExclusiveVolumes_Inr[OF c] assms(3-5) by (auto simp: list_all_iff exclusiveUse_def)
  then show ?thesis
    using t res ResolveVolumeMounts_volumes[OF res assms(3)] by (auto simp: list_all_iff)
qed

text \<open>
  C8: A Workspace that another User owns, whether the request names it by reference or, to update it, by its UID, is
  neither started, stopped, updated, deleted nor shared: the request fails and nothing is changed.
\<close>

theorem not_owner_refused:
  assumes "eUserCtx env = Inr i" and "cGet (eWorkspaces env) (byRef r) w = Inr ws"
    and "stUserRef (wsStatus ws) = Some u" and "refUid u \<noteq> refUid (ictxSessionUserRef i)"
    and "refUid u \<noteq> mdUid (usrMetadata (ictxUser i))"
  shows "refused (StartWorkspace env (Some r) cfg w) w \<and> refused (StopWorkspace env (Some r) w) w
    \<and> refused (DeleteWorkspace env (byRef r) w) w \<and> refused (ShareWorkspacePort env (Some r) name mode w) w
    \<and> refused (UnshareWorkspacePort env (Some r) name w) w
    \<and> (cGet (eWorkspaces env) (byUid (mdUid md)) w = Inr ws \<longrightarrow> refused (UpdateWorkspace env md spec w) w)"
proof -
  have own: "refused (bindE (checkOwner i e1 e2 ws) f w) w" for e1 e2 and f :: "unit \<Rightarrow> ('a, unit) io"
    by (rule refused_bindE) (use assms(3,4) in \<open>simp add: checkOwner_def\<close>)
  have guards: "refused (bindE (startGuards env i ws) f w) w" for f :: "space \<Rightarrow> ('a, unit) io"
    by (rule refused_bindE) (use assms(3,4) in \<open>simp add: startGuards_def\<close>)
  have get: "refused (bindE (GetWorkspace env (byRef r)) f w) w" for f :: "workspace \<Rightarrow> ('a, unit) io"
    by (rule refused_bindE) (use assms in \<open>simp add: GetWorkspace_def ownedBy_def\<close>)
  have own': "refused (bindE (checkOwner i e1 e2 ws) f w) w" for e1 e2 and f :: "unit \<Rightarrow> ('a, workspace) io"
    by (rule refused_bindE) (use assms(3,4) in \<open>simp add: checkOwner_def\<close>)
  have "refused (UpdateWorkspace env md spec w) w" if "cGet (eWorkspaces env) (byUid (mdUid md)) w = Inr ws"
    using assms(1) that by (simp add: UpdateWorkspace_def own' split: sum.split)
  then show ?thesis
    using assms(1,2) by (simp add: StartWorkspace_def StopWorkspace_def DeleteWorkspace_def ShareWorkspacePort_def
        UnshareWorkspacePort_def own guards get split: sum.split)
qed

text \<open>The finite map that a list of shared ports stands for.\<close>

definition portMap :: "shared_port list \<Rightarrow> string \<Rightarrow> share_mode option" where
  "portMap ports = map_of (map (\<lambda>p. (spoApplicationName p, spoMode p)) ports)"

lemma portMap_Cons: "portMap (p # ps) = (portMap ps)(spoApplicationName p \<mapsto> spoMode p)"
  by (simp add: portMap_def)

lemma portMap_None: "portMap ps app = None \<longleftrightarrow> app \<notin> set (map spoApplicationName ps)"
  by (auto simp: portMap_def map_of_eq_None_iff image_iff)

lemma sharePort_names:
  "map spoApplicationName (sharePort mode app ps) =
   map spoApplicationName ps @ (if app \<in> set (map spoApplicationName ps) then [] else [app])"
  by (auto simp: sharePort_def Let_def list_ex_iff)

lemma portMap_setMode:
  "portMap (map (\<lambda>p. if spoApplicationName p = app then p\<lparr>spoMode := mode\<rparr> else p) ps) =
   (if app \<in> set (map spoApplicationName ps) then (portMap ps)(app \<mapsto> mode) else portMap ps)"
  by (induction ps) (auto simp: portMap_Cons fun_eq_iff)

lemma portMap_snoc: "app \<notin> set (map spoApplicationName ps) \<Longrightarrow>
    portMap (ps @ [\<lparr>spoMode = mode, spoApplicationName = app\<rparr>]) = (portMap ps)(app \<mapsto> mode)"
  by (induction ps) (auto simp: portMap_Cons portMap_def fun_eq_iff)

lemma portMap_sharePort: "portMap (sharePort mode app ps) = (portMap ps)(app \<mapsto> mode)"
proof (cases "app \<in> set (map spoApplicationName ps)")
  case False
  then have "map (\<lambda>p. if spoApplicationName p = app then p\<lparr>spoMode := mode\<rparr> else p) ps = ps"
    by (auto intro!: map_idI)
  then show ?thesis
    using False by (auto simp: sharePort_def Let_def portMap_snoc list_ex_iff)
qed (auto simp: sharePort_def Let_def portMap_setMode list_ex_iff)

lemma set_unsharePort: "set (unsharePort app ps) \<subseteq> set ps"
  by (induction ps) auto

lemma unsharePort_distinct:
  "distinct (map spoApplicationName ps) \<Longrightarrow> distinct (map spoApplicationName (unsharePort app ps))
   \<and> portMap (unsharePort app ps) = (portMap ps)(app := None)"
proof (induction ps)
  case (Cons p ps)
  then have "portMap ps (spoApplicationName p) = None"
    by (simp add: portMap_None)
  then show ?case
    using Cons set_unsharePort[of app ps] by (auto simp: portMap_Cons fun_eq_iff)
qed (simp add: portMap_def)

text \<open>
  C25: The shared ports of a Workspace are a finite map from applications to modes: sharing updates
  it, unsharing removes the application, and no application is listed twice.
\<close>

theorem shared_ports_map:
  assumes "distinct (map spoApplicationName ports)"
  shows "distinct (map spoApplicationName (sharePort mode app ports))
    \<and> portMap (sharePort mode app ports) = (portMap ports)(app \<mapsto> mode)
    \<and> distinct (map spoApplicationName (unsharePort app ports))
    \<and> portMap (unsharePort app ports) = (portMap ports)(app := None)
    \<and> portMap (unsharePort app (sharePort mode app ports)) = (portMap ports)(app := None)"
proof -
  have d: "distinct (map spoApplicationName (sharePort mode app ports))"
    using assms by (auto simp: sharePort_names)
  show ?thesis
    using d unsharePort_distinct[OF assms, of app] unsharePort_distinct[OF d, of app]
    by (simp add: portMap_sharePort)
qed

lemma genWorkspaceNameFrom_free:
  "genWorkspaceNameFrom env i n w = (Inr name, w') \<Longrightarrow>
   \<exists>e. cGet (eWorkspaces env) (byName name) w' = Inl e \<and> eIsNotFound env e"
proof (induction env i n arbitrary: w rule: genWorkspaceNameFrom.induct)
  case (2 env i n)
  then obtain name1 w1 where r: "(case cGet (eWorkspaces env) (byName name1) w1 of
       Inr _ \<Rightarrow> genWorkspaceNameFrom env (Suc i) n
     | Inl e \<Rightarrow> if eIsNotFound env e then retE name1 else throwE (InternalWithErr e)) w1 = (Inr name, w')"
    by (auto simp: io_simps)
  show ?case
    using r 2(1) by (cases "cGet (eWorkspaces env) (byName name1) w1") (auto simp: io_simps split: if_splits)
qed (auto simp: io_simps)

text \<open>A generated name is one that no Workspace had when it was looked up; the loop ends after 10000 names.\<close>

theorem genWorkspaceName_free:
  "(case genWorkspaceName env w of
     (Inl _, _) \<Rightarrow> True
   | (Inr name, w') \<Rightarrow> (case cGet (eWorkspaces env) (byName name) w' of Inl e \<Rightarrow> eIsNotFound env e | Inr _ \<Rightarrow> False))"
  unfolding genWorkspaceName_def
  by (rule case_ioI) (auto dest!: genWorkspaceNameFrom_free)

lemma attachSnapshot_Inr:
  "attachSnapshot snap ws w = (Inr ws', w') \<Longrightarrow>
   w' = w \<and> (\<exists>r. ws' = ws\<lparr>wsStatus := (wsStatus ws)\<lparr>stWorkspaceSnapshotRef := r\<rparr>\<rparr>)"
  by (cases snap; cases ws; cases "wsStatus ws") (auto simp: attachSnapshot_def io_simps)

lemma validateWorkspace_Inr:
  assumes "validateWorkspace env ws w = (Inr ws', w')"
  obtains r spec where "w' = w" "ws' = ws\<lparr>wsSpec := spec\<rparr>" "stSpaceRef (wsStatus ws) = Some r"
    "list_all (mountResolved env w r) (spGetVolumeMounts spec)"
  using assms by (auto simp: validateWorkspace_def io_simps elim!: validateAndSetWorkspace_ok)

text \<open>
  C24: A Workspace is created stopped, for the user of the request, in a Space of which the user is a
  member, with mounts of Volumes of that Space only and with a positive limit.
\<close>

theorem CreateWorkspace_ok:
  assumes "CreateWorkspace env md spec tr sr w = (Inr ws, w')"
  shows "\<exists>i item w1 spaceRef mem. eUserCtx env = Inr i
    \<and> stUserRef (wsStatus item) = Some (userRefOf i) \<and> wsState item = STOPPED
    \<and> stSpaceRef (wsStatus item) = Some spaceRef \<and> GetMembershipBySpace env spaceRef w1 = Inr mem
    \<and> list_all (mountResolved env w1 spaceRef) (spGetVolumeMounts (wsSpec item))
    \<and> pred_option limitSet (stLimit (wsStatus item)) \<and> cCreate (eWorkspaces env) item w1 = (Inr ws, w')"
proof -
  obtain i name t snap spaceRef w1 w2 w3 cc org and ws1 :: workspace and ws2 :: workspace and ws3 :: workspace where
    i: "eUserCtx env = Inr i" and sp: "tmSpaceRef t = Some spaceRef"
    and v: "validateWorkspace env ((newWorkspace i name md spec t)\<lparr>wsStatus :=
         (wsStatus (newWorkspace i name md spec t))\<lparr>stSpaceType := spcType org\<rparr>\<rparr>) w1 = (Inr ws1, w2)"
    and m: "CheckIsMember env spaceRef w2 = None"
    and a: "attachSnapshot snap ws1 w2 = (Inr ws2, w3)"
    and l: "setWorkspaceLimit env ws2 org cc w3 = Inr ws3"
    and c: "cCreate (eWorkspaces env) ws3 w3 = (Inr ws, w')"
    using assms unfolding CreateWorkspace_def createNamed_def Let_def io_simps
    by (clarsimp split: option.splits simp: io_simps)
  obtain r spec' where ws1: "w2 = w1" "ws1 = newWorkspace i name md spec t\<lparr>wsSpec := spec', wsStatus :=
         (wsStatus (newWorkspace i name md spec t))\<lparr>stSpaceType := spcType org\<rparr>\<rparr>" "r = spaceRef"
    "list_all (mountResolved env w1 r) (spGetVolumeMounts spec')"
    using v sp by (auto simp: newWorkspace_def elim!: validateWorkspace_Inr)
  obtain sn where ws2: "w3 = w2" "ws2 = ws1\<lparr>wsStatus := (wsStatus ws1)\<lparr>stWorkspaceSnapshotRef := sn\<rparr>\<rparr>"
    using attachSnapshot_Inr[OF a] by blast
  obtain lim spec2 where ws3: "ws3 = ws2\<lparr>wsSpec := spec2, wsStatus := (wsStatus ws2)\<lparr>stLimit := Some lim\<rparr>\<rparr>"
    "limitSet lim" "spec2 = (wsSpec ws2)\<lparr>spLimit := spLimit spec2\<rparr>"
    using l by (rule setWorkspaceLimit_frame)
  obtain mem where mem: "GetMembershipBySpace env spaceRef w1 = Inr mem"
    using m ws1 unfolding member_gate.passes_iff by blast
  have mounts: "spGetVolumeMounts spec2 = spGetVolumeMounts spec'"
    using arg_cong[OF ws3(3), of spRuntime] by (simp add: ws1 ws2 spGetVolumeMounts_def)
  show ?thesis
    using i mem c ws1 ws2 ws3(1,2) mounts sp
    by (intro exI[of _ i] exI[of _ ws3] exI[of _ w1] exI[of _ spaceRef] exI[of _ mem]) (simp add: newWorkspace_def)
qed

end
