(* ===== verification/K8s_Objects.thy ===== *)
theory K8s_Objects
  imports Resources
begin

text \<open>
  The objects of Kubernetes that the controllers read and write, with the fields the code uses.
  A quantity of storage is its value in bytes.
\<close>

type_synonym labels = "(string \<times> string) list"

datatype claim_access = ReadWriteOnce | ReadWriteMany

datatype claim_phase = ClaimPending | ClaimBound | ClaimLost

text \<open>\<open>pvcRequest\<close> is the storage request of the spec, \<open>pvcCapacity\<close> the one of the status.\<close>

record pvc =
  pvcName :: string
  pvcLabels :: labels
  pvcAccessModes :: "claim_access list"
  pvcRequest :: "int option"
  pvcStorageClass :: "string option"
  pvcDataSource :: "string option"
  pvcPhase :: claim_phase
  pvcCapacity :: "int option"

text \<open>\<open>vssError\<close> is the message of the error of the status, absent when a pointer to it is nil.\<close>

record vsnap_status =
  vssReadyToUse :: "bool option"
  vssCreationTime :: "time option"
  vssRestoreSize :: "int option"
  vssError :: "string option"

record vsnap =
  vsName :: string
  vsLabels :: labels
  vsClass :: "string option"
  vsSource :: string
  vsStatus :: "vsnap_status option"

record config_map =
  cmName :: string
  cmUid :: string

datatype pod_volume =
    ClaimVolume (pvName: string) (pvClaim: string) (pvReadOnly: bool)
  | EmptyDirVolume (pvName: string) string

record pod_mount =
  pmName :: string
  pmPath :: string
  pmReadOnly :: bool

record container =
  ctnName :: string
  ctnImage :: string
  ctnPullPolicy :: string
  ctnEnv :: labels
  ctnMemoryRequest :: string
  ctnCpuRequest :: string
  ctnMemoryLimit :: string
  ctnCpuLimit :: string
  ctnPrivileged :: bool
  ctnReadOnlyRoot :: bool
  ctnRunAsUser :: int
  ctnRunAsGroup :: int
  ctnMounts :: "pod_mount list"

record pod_spec =
  pdNodeSelector :: labels
  pdAutomountToken :: bool
  pdServiceLinks :: bool
  pdSysctls :: labels
  pdHostname :: string
  pdGracePeriod :: int
  pdVolumes :: "pod_volume list"
  pdContainers :: "container list"

datatype strategy = Recreate | RollingUpdate

record deployment =
  dpName :: string
  dpOwner :: config_map
  dpStrategy :: strategy
  dpLabels :: labels
  dpAnnotations :: labels
  dpPod :: pod_spec

datatype protocol = TCP | UDP

datatype service_type = ClusterIP | NodePort

record service_port =
  sptName :: string
  sptProtocol :: protocol
  sptPort :: int
  sptTarget :: int

record service =
  svName :: string
  svOwner :: config_map
  svType :: service_type
  svSelector :: labels
  svPorts :: "service_port list"

record ('w, 'r) k8s_client =
  kGet :: "string \<Rightarrow> 'w \<Rightarrow> err + 'r"
  kList :: "string \<times> string \<Rightarrow> 'w \<Rightarrow> err + 'r list"
  kCreate :: "'r \<Rightarrow> ('w, 'r) io"
  kUpdate :: "'r \<Rightarrow> ('w, 'r) io"
  kDelete :: "string \<Rightarrow> ('w, unit) io"

end
