(* ===== verification/Memory_Env.thy ===== *)
theory Memory_Env
  imports Api_Env K8s_Objects
begin

text \<open>
  A resource server in memory: lists of resources, Get by UID or name, List by the filters,
  Create with a fresh UID, Update and Delete by UID. It is one \<open>env\<close> on which the hypotheses of
  the properties hold, and on which whole handlers are evaluated.
\<close>

record world =
  mWorkspaces :: "workspace list"
  mSpaces :: "space list"
  mTemplates :: "template list"
  mMemberships :: "membership list"
  mVolumes :: "volume list"
  mSnapshots :: "snapshot list"
  mSecrets :: "secret list"
  mUserSecrets :: "user_secret list"
  mUserConfigs :: "user_config list"
  mGitProviders :: "git_provider list"
  mUsers :: "user list"
  mSessions :: "session list"
  mRegions :: "region list"
  mPVCs :: "pvc list"
  mSnaps :: "vsnap list"
  mConfigMaps :: "config_map list"
  mDeployments :: "deployment list"
  mServices :: "service list"
  mConfig :: cluster_config
  mClock :: int
  mNext :: nat

definition emptyConfig :: cluster_config where
  "emptyConfig = \<lparr>ccWorkspaceLimit = None, ccVolumeLimit = None, ccVolumeStorageRules = [],
     ccSpaceOwnership = Some [\<lparr>owEffect = Effect_ALLOW, owCondition = ''true''\<rparr>], ccTimeout = None,
     ccWorkspaceStorageRules = [], ccSnapshotClassRules = [],
     ccRuntimeCapabilities = None\<rparr>"

definition emptyWorld :: world where
  "emptyWorld = \<lparr>mWorkspaces = [], mSpaces = [], mTemplates = [], mMemberships = [], mVolumes = [],
     mSnapshots = [], mSecrets = [], mUserSecrets = [], mUserConfigs = [], mGitProviders = [], mUsers = [],
     mSessions = [], mRegions = [], mPVCs = [], mSnaps = [], mConfigMaps = [], mDeployments = [], mServices = [], mConfig = emptyConfig, mClock = 1000, mNext = 1\<rparr>"

section \<open>The client\<close>

definition notFound :: err where "notFound = ExtErr 404 ''not found''"

definition getBy :: "('r \<Rightarrow> metadata) \<Rightarrow> get_opts \<Rightarrow> 'r list \<Rightarrow> err + 'r" where
  "getBy md o' xs =
     (case List.find (\<lambda>x. if goUid o' \<noteq> [] then mdUid (md x) = goUid o' else mdName (md x) = goName o') xs of
        None \<Rightarrow> Inl notFound | Some x \<Rightarrow> Inr x)"

definition listBy :: "('r \<Rightarrow> list_filter \<Rightarrow> bool) \<Rightarrow> list_opts \<Rightarrow> 'r list \<Rightarrow> 'r item_list" where
  "listBy sat opts xs =
     (let ys = filter (\<lambda>x. list_all (sat x) (loFilters opts)) xs
      in \<lparr>ilItems = ys, ilTotalCount = word_of_nat (length ys), ilHasMore = False\<rparr>)"

definition memClient ::
  "(world \<Rightarrow> 'r list) \<Rightarrow> (('r list \<Rightarrow> 'r list) \<Rightarrow> world \<Rightarrow> world) \<Rightarrow> ('r \<Rightarrow> metadata) \<Rightarrow>
   ((metadata \<Rightarrow> metadata) \<Rightarrow> 'r \<Rightarrow> 'r) \<Rightarrow> ('r \<Rightarrow> list_filter \<Rightarrow> bool) \<Rightarrow> (world, 'r) rsc_client" where
  "memClient items upd md mdUpd sat =
     \<lparr>cGet = (\<lambda>o' w. getBy md o' (items w)),
      cList = (\<lambda>opts w. Inr (listBy sat opts (items w))),
      cCreate = (\<lambda>r w. let r' = mdUpd (\<lambda>m. m\<lparr>mdUid := ''uid-'' @ showNat (mNext w)\<rparr>) r
                        in (Inr r', (upd (\<lambda>xs. xs @ [r']) w)\<lparr>mNext := mNext w + 1\<rparr>)),
      cUpdate = (\<lambda>r w. case getBy md (byUid (mdUid (md r))) (items w) of
                    Inl e \<Rightarrow> (Inl e, w)
                  | Inr _ \<Rightarrow> (Inr r, upd (map (\<lambda>x. if mdUid (md x) = mdUid (md r) then r else x)) w)),
      cDelete = (\<lambda>o' w. case getBy md o' (items w) of
                    Inl e \<Rightarrow> (Inl e, w)
                  | Inr r \<Rightarrow> (Inr (), upd (filter (\<lambda>x. mdUid (md x) \<noteq> mdUid (md r))) w))\<rparr>"

definition refIs :: "object_ref option \<Rightarrow> string \<Rightarrow> bool" where
  "refIs r u \<longleftrightarrow> map_option refUid r = Some u"

fun satRefs :: "object_ref option \<Rightarrow> object_ref option \<Rightarrow> object_ref option \<Rightarrow> list_filter \<Rightarrow> bool" where
  "satRefs user space region (FStatusUserUID u) = refIs user u"
| "satRefs user space region (FStatusSpaceUID u) = refIs space u"
| "satRefs user space region (FStatusRegionUID u) = refIs region u"
| "satRefs user space region _ = True"

fun satWorkspace :: "workspace \<Rightarrow> list_filter \<Rightarrow> bool" where
  "satWorkspace ws (FStatusTemplateUID u) = refIs (stTemplateRef (wsStatus ws)) u"
| "satWorkspace ws (FStatusWorkspaceSnapshotUID u) = refIs (stWorkspaceSnapshotRef (wsStatus ws)) u"
| "satWorkspace ws f = satRefs (stUserRef (wsStatus ws)) (stSpaceRef (wsStatus ws)) (stRegionRef (wsStatus ws)) f"

fun satSnapshot :: "snapshot \<Rightarrow> list_filter \<Rightarrow> bool" where
  "satSnapshot s (FStatusWorkspaceUID u) = refIs (snWorkspaceRef s) u"
| "satSnapshot s f = satRefs (snUserRef s) (snSpaceRef s) (snRegionRef s) f"

section \<open>The environment\<close>

fun memNotFound :: "err \<Rightarrow> bool" where
  "memNotFound (ExtErr n _) = (n = 404)"
| "memNotFound (NotFoundErr _) = True"
| "memNotFound (K8sNotFoundOrInternalWithErr e) = memNotFound e"
| "memNotFound _ = False"

definition memUser :: "string \<Rightarrow> string \<Rightarrow> user" where
  "memUser uid name = \<lparr>usrMetadata = emptyMetadata\<lparr>mdUid := uid, mdName := name\<rparr>, usrEmail = name @ ''@example.com''\<rparr>"

definition memCtx :: "user \<Rightarrow> user_ctx" where
  "memCtx u = \<lparr>ictxUser = u, ictxSessionUserRef = GetObjectReference (usrMetadata u)\<rparr>"

definition memEnv :: "user_ctx \<Rightarrow> world env" where
  "memEnv i =
     \<lparr>eUserCtx = Inr i, eIsNotFound = memNotFound, eValidators = exampleValidators,
      eValidateCommon = (\<lambda>o' m. bad (voRequireName o' \<and> mdName m = []) ''name''),
      eValidateCommonData = (\<lambda>o' m d. bad (d = None) ''data''),
      eMarshalAttrs = (\<lambda>s. Inr s),
      eGenerateSSHKey = (\<lambda>w. (Inr (''private'', ''public''), w)),
      eCheckGetOptions = (\<lambda>n o'. bad (goUid o' = [] \<and> goName o' = []) ''options''),
      eCheckDeleteOptions = (\<lambda>n o'. bad (goUid o' = [] \<and> goName o' = []) ''options''),
      eCheckObjectRef = (\<lambda>n r. bad (r = None) ''reference''),
      eValidateGenASCII = (\<lambda>s. None), eIsEmail = (\<lambda>s. CHR ''@'' \<in> set s), eIsUUIDv4 = (\<lambda>s. True),
      eSlug = (\<lambda>s. s),
      eEvalSpaceCondition = (\<lambda>c u s. Inr (c = ''true'')),
      eMetadataFrom = (\<lambda>m. m\<lparr>mdUid := []\<rparr>),
      eMetadataUpdate = (\<lambda>old new. old\<lparr>mdDisplayName := mdDisplayName new\<rparr>),
      ePicURL = (\<lambda>m. []), eProtoMerge = (\<lambda>a b. b), eVarOrd = (\<lambda>s vs. vs),
      eRegionHasCordium = (\<lambda>r. True), eNow = mClock,
      eRandStr = (\<lambda>n w. (Inr (''r'' @ showNat (mNext w)), w\<lparr>mNext := mNext w + 1\<rparr>)),
      eRandIdx = (\<lambda>n w. (Inr 0, w)),
      eClusterConfig = (\<lambda>w. Inr (mConfig w)), eCoreDomain = (\<lambda>w. Inr ''example.com''),
      eNewSession = (\<lambda>u ws w. (Inr \<lparr>sessMetadata = emptyMetadata\<lparr>mdName := ''sess''\<rparr>,
         sessUserRef = Some (GetObjectReference (usrMetadata u))\<rparr>, w)),
      eWorkspaces = memClient mWorkspaces mWorkspaces_update wsMetadata wsMetadata_update satWorkspace,
      eSpaces = memClient mSpaces mSpaces_update spcMetadata spcMetadata_update
        (\<lambda>s. satRefs (spcUserRef s) None None),
      eTemplates = memClient mTemplates mTemplates_update tmMetadata tmMetadata_update
        (\<lambda>t. satRefs (tmUserRef t) (tmSpaceRef t) None),
      eMemberships = memClient mMemberships mMemberships_update memMetadata memMetadata_update
        (\<lambda>m. satRefs (memUserRef m) (memSpaceRef m) None),
      eVolumes = memClient mVolumes mVolumes_update volMetadata volMetadata_update
        (\<lambda>v. satRefs (volUserRef v) (volSpaceRef v) (volRegionRef v)),
      eSnapshots = memClient mSnapshots mSnapshots_update snMetadata snMetadata_update satSnapshot,
      eSecrets = memClient mSecrets mSecrets_update secMetadata secMetadata_update
        (\<lambda>s. satRefs (secUserRef s) (secSpaceRef s) None),
      eUserSecrets = memClient mUserSecrets mUserSecrets_update usMetadata usMetadata_update
        (\<lambda>s. satRefs (usUserRef s) None None),
      eUserConfigs = memClient mUserConfigs mUserConfigs_update ucMetadata ucMetadata_update
        (\<lambda>s. satRefs (ucUserRef s) None None),
      eGitProviders = memClient mGitProviders mGitProviders_update gpMetadata gpMetadata_update
        (\<lambda>s. satRefs None (gpSpaceRef s) None),
      eUsers = memClient mUsers mUsers_update usrMetadata usrMetadata_update (\<lambda>u f. True),
      eSessions = memClient mSessions mSessions_update sessMetadata sessMetadata_update
        (\<lambda>s. satRefs (sessUserRef s) None None),
      eRegions = memClient mRegions mRegions_update rgnMetadata rgnMetadata_update (\<lambda>r f. True)\<rparr>"

section \<open>A small cluster\<close>

text \<open>
  Alice, Bob and Carol; Alice's default Space and the Space \<open>eng\<close> of the organization, created by Bob,
  in which Alice is an ADMIN.
\<close>

definition alice :: user where "alice = memUser ''u-alice'' ''alice''"
definition bob :: user where "bob = memUser ''u-bob'' ''bob''"
definition carol :: user where "carol = memUser ''u-carol'' ''carol''"

definition mkSpace :: "string \<Rightarrow> string \<Rightarrow> user \<Rightarrow> space_type \<Rightarrow> space" where
  "mkSpace uid name u t = \<lparr>spcMetadata = emptyMetadata\<lparr>mdUid := uid, mdName := name\<rparr>,
     spcSpec = \<lparr>ssLimit = None, ssRuntime = None\<rparr>,
     spcUserRef = Some (GetObjectReference (usrMetadata u)), spcType = t\<rparr>"

definition homeSpace :: space where "homeSpace = mkSpace ''s-home'' ''default.alice'' alice Space_USER"
definition engSpace :: space where "engSpace = mkSpace ''s-eng'' ''eng.cordium'' bob Space_ORGANIZATION"

definition mkMembership :: "string \<Rightarrow> space \<Rightarrow> user \<Rightarrow> role \<Rightarrow> membership" where
  "mkMembership uid s u r =
     \<lparr>memMetadata = emptyMetadata\<lparr>mdUid := uid, mdName :=
        GetMembershipName (GetObjectReference (spcMetadata s)) (GetObjectReference (usrMetadata u))\<rparr>,
      memRole = r, memUserRef = Some (GetObjectReference (usrMetadata u)),
      memSpaceRef = Some (GetObjectReference (spcMetadata s)), memUserInfo = None, memGitProviderStateMap = []\<rparr>"

definition mkTemplate :: "string \<Rightarrow> string \<Rightarrow> space \<Rightarrow> user \<Rightarrow> template" where
  "mkTemplate uid name s u =
     \<lparr>tmMetadata = emptyMetadata\<lparr>mdUid := uid, mdName := name\<rparr>, tmSpec = emptyTemplateSpec,
      tmSpaceRef = Some (GetObjectReference (spcMetadata s)),
      tmUserRef = Some (GetObjectReference (usrMetadata u)), tmGitProviderRef = None,
      tmBuildInfo = Some emptyBuildInfo\<rparr>"

definition mkVolume :: "string \<Rightarrow> string \<Rightarrow> space \<Rightarrow> user \<Rightarrow> access_mode \<Rightarrow> volume" where
  "mkVolume uid name s u a =
     \<lparr>volMetadata = emptyMetadata\<lparr>mdUid := uid, mdName := name\<rparr>, volSize = Some 2000, volAccessMode = a,
      volState = Vol_READY, volSpaceRef = Some (GetObjectReference (spcMetadata s)),
      volUserRef = Some (GetObjectReference (usrMetadata u)),
      volRegionRef = Some \<lparr>refUid = ''r-1'', refName = ''default''\<rparr>, volCapacity = None, volReadyAt = None,
      volFailure = None\<rparr>"

definition engMount :: volume_mount where
  "engMount = \<lparr>vmVolumeRef = Some \<lparr>refUid = ''v-data'', refName = ''data.eng.cordium''\<rparr>,
     vmMountPath = ''/data'', vmReadOnly = False\<rparr>"

definition mkWorkspace :: "string \<Rightarrow> string \<Rightarrow> user \<Rightarrow> ws_state \<Rightarrow> volume_mount list \<Rightarrow> workspace" where
  "mkWorkspace uid name u st mounts =
     \<lparr>wsMetadata = emptyMetadata\<lparr>mdUid := uid, mdName := name\<rparr>,
      wsSpec = emptySpec\<lparr>spRuntime := Some (emptyRuntime\<lparr>rtVolumeMounts := mounts\<rparr>),
        spApplications := [\<lparr>appName = ''web'', appDisplayName = [], appPort = 8080, appIsDefault = True\<rparr>]\<rparr>,
      wsStatus = emptyStatus\<lparr>stState := st, stUserRef := Some (GetObjectReference (usrMetadata u)),
        stSpaceRef := Some (GetObjectReference (spcMetadata engSpace)),
        stRegionRef := Some \<lparr>refUid = ''r-1'', refName = ''default''\<rparr>,
        stTemplateRef := Some \<lparr>refUid = ''t-go'', refName = ''go.eng.cordium''\<rparr>, stSpaceType := Space_ORGANIZATION\<rparr>\<rparr>"

definition smallWorld :: world where
  "smallWorld = emptyWorld\<lparr>mUsers := [alice, bob, carol], mSpaces := [homeSpace, engSpace],
     mMemberships := [mkMembership ''m-1'' homeSpace alice Role_OWNER, mkMembership ''m-2'' engSpace bob Role_OWNER,
       mkMembership ''m-3'' engSpace alice Role_ADMIN],
     mTemplates := [mkTemplate ''t-home'' ''default.default.alice'' homeSpace alice,
       mkTemplate ''t-go'' ''go.eng.cordium'' engSpace bob],
     mVolumes := [mkVolume ''v-data'' ''data.eng.cordium'' engSpace bob ACCESS_MODE_EXCLUSIVE],
     mRegions := [\<lparr>rgnMetadata = emptyMetadata\<lparr>mdUid := ''r-1'', mdName := ''default''\<rparr>\<rparr>],
     mSecrets := [\<lparr>secMetadata = emptyMetadata\<lparr>mdUid := ''sec-1'', mdName := ''token.eng.cordium''\<rparr>,
       secUserRef = None, secSpaceRef = Some (GetObjectReference (spcMetadata engSpace)),
       secData = Some (DataValue ''abc'')\<rparr>]\<rparr>"

abbreviation aliceEnv :: "world env" where "aliceEnv \<equiv> memEnv (memCtx alice)"
abbreviation bobEnv :: "world env" where "bobEnv \<equiv> memEnv (memCtx bob)"

section \<open>Evaluation\<close>

definition succeeds :: "(err + 'a) \<times> 'w \<Rightarrow> bool" where
  "succeeds r = (case fst r of Inl _ \<Rightarrow> False | Inr _ \<Rightarrow> True)"

lemma succeedsE: "succeeds m \<Longrightarrow> (\<And>x w'. m = (Inr x, w') \<Longrightarrow> thesis) \<Longrightarrow> thesis"
  by (cases m) (auto simp: succeeds_def split: sum.splits)

end
