(* ===== verification/Api_Witnesses.thy ===== *)
theory Api_Witnesses
  imports Memory_Env Api_Workspace Api_Membership
begin

text \<open>
  Requests to the in-memory cluster of \<open>Memory_Env\<close> that meet the hypotheses of the properties of
  the API server: whole handlers are evaluated, and the property is then applied to the result.
\<close>

definition refTo :: "string \<Rightarrow> string \<Rightarrow> object_ref" where
  "refTo u n = \<lparr>refUid = u, refName = n\<rparr>"

definition named :: "string \<Rightarrow> metadata" where
  "named n = emptyMetadata\<lparr>mdName := n\<rparr>"

text \<open>\<open>eng\<close> with two stopped Workspaces, and the Space \<open>lab\<close> of which Alice is not a member.\<close>

definition box :: workspace where
  "box = mkWorkspace ''w-1'' ''box'' alice STOPPED [engMount]"

definition boxWorld :: world where
  "boxWorld = smallWorld\<lparr>mWorkspaces := [box, mkWorkspace ''w-2'' ''other'' bob STOPPED [engMount]],
     mSpaces := [homeSpace, engSpace, mkSpace ''s-lab'' ''lab.cordium'' bob Space_ORGANIZATION]\<rparr>"

definition snapWorld :: world where
  "snapWorld = smallWorld\<lparr>mSnapshots := [(newSnapshot aliceEnv (memCtx alice) (named ''snap.alice'') box
     (refTo ''r-1'' ''default''))\<lparr>snMetadata := (named ''snap.alice'')\<lparr>mdUid := ''sn-1''\<rparr>\<rparr>]\<rparr>"

lemma memEnv_eUserCtx [simp]: "eUserCtx (memEnv i) = Inr i"
  by (simp add: memEnv_def)

section \<open>Names, limits and mounts\<close>

lemma name_completion_witness:
  "isNameFQDN (goName (getFullGetOptionsSpaceChild aliceEnv (byName ''go''))) 2"
  using name_completion[of aliceEnv "memCtx alice" "''alice''" "byName ''go''"]
  by (simp add: memCtx_def alice_def memUser_def byName_def emptyMetadata_def)

text \<open>A cluster with a maximum of 1000 and a build limit of 8000 millicores.\<close>

definition cappedConfig :: cluster_config where
  "cappedConfig = emptyConfig\<lparr>ccWorkspaceLimit := Some \<lparr>wlMaxPerUser = 0, wlMaxActivePerUser = 0,
     wlBuildLimit = Some (emptyLimit\<lparr>limCpu := Some 8000\<rparr>), wlDefaultOrganizationSpaceLimit = None,
     wlDefaultUserSpaceLimit = None, wlMaxLimit = Some (emptyLimit\<lparr>limCpu := Some 1000\<rparr>), wlMaxSnapshotsPerUser = 0\<rparr>\<rparr>"

definition buildBox :: workspace where
  "buildBox = box\<lparr>wsStatus := (wsStatus box)\<lparr>stIsBuild := True\<rparr>\<rparr>"

lemma workspace_limit_bounds_witness:
  "\<exists>ws' l. setWorkspaceLimit aliceEnv box engSpace cappedConfig boxWorld = Inr ws'
    \<and> stLimit (wsStatus ws') = Some l \<and> limitSet l \<and> withinLimit (ccMaxLimit cappedConfig) l"
proof -
  have "\<not> isl (setWorkspaceLimit aliceEnv box engSpace cappedConfig boxWorld)"
    by code_simp
  then obtain ws' where ws': "setWorkspaceLimit aliceEnv box engSpace cappedConfig boxWorld = Inr ws'"
    by (cases "setWorkspaceLimit aliceEnv box engSpace cappedConfig boxWorld") auto
  have "\<not> stIsBuild (wsStatus box)"
    by code_simp
  then show ?thesis
    using workspace_limit_bounds[OF ws'] ws' by (auto split: option.splits)
qed

text \<open>The build limit is above the maximum of the cluster, and the build gets it.\<close>

lemma build_limit_above_maximum:
  "(case setWorkspaceLimit aliceEnv buildBox engSpace cappedConfig boxWorld of
      Inl _ \<Rightarrow> False
    | Inr ws' \<Rightarrow> Option.bind (stLimit (wsStatus ws')) limCpu = Some 8000
        \<and> Option.bind (ccMaxLimit cappedConfig) limCpu = Some 1000)"
  by code_simp

lemma resolved_mounts_sound_witness:
  "\<exists>r. ResolveVolumeMounts aliceEnv box None None boxWorld = Inr r \<and> sorted (map rmMountPath (rrMounts r))"
proof -
  have "\<not> isl (ResolveVolumeMounts aliceEnv box None None boxWorld)"
    by code_simp
  then obtain r where r: "ResolveVolumeMounts aliceEnv box None None boxWorld = Inr r"
    by (cases "ResolveVolumeMounts aliceEnv box None None boxWorld") auto
  have "stSpaceRef (wsStatus box) = Some (refTo ''s-eng'' ''eng.cordium'')"
    by code_simp
  then show ?thesis
    using resolved_mounts_sound[OF r] r by blast
qed

section \<open>Spaces\<close>

lemma CreateSpace_authorised_witness:
  "\<exists>s w'. CreateSpace aliceEnv (named ''lab'') \<lparr>ssLimit = None, ssRuntime = None\<rparr> boxWorld = (Inr s, w')
    \<and> (\<exists>item w1. cCreate (eSpaces aliceEnv) item boxWorld = (Inr s, w1) \<and> spcUserRef item = Some (userRefOf (memCtx alice))
        \<and> spcSpec item = \<lparr>ssLimit = None, ssRuntime = None\<rparr>)"
proof -
  have "succeeds (CreateSpace aliceEnv (named ''lab'') \<lparr>ssLimit = None, ssRuntime = None\<rparr> boxWorld)"
    by code_simp
  then obtain s w' where r: "CreateSpace aliceEnv (named ''lab'') \<lparr>ssLimit = None, ssRuntime = None\<rparr> boxWorld = (Inr s, w')"
    by (rule succeedsE)
  from CreateSpace_authorised[OF r] obtain i ty w1 and item :: space where i: "eUserCtx aliceEnv = Inr i"
    and item: "item = \<lparr>spcMetadata = eMetadataFrom aliceEnv (getFullNamResourceSpace aliceEnv (named ''lab'')),
       spcSpec = \<lparr>ssLimit = None, ssRuntime = None\<rparr>, spcUserRef = Some (userRefOf i), spcType = ty\<rparr>"
    and c: "cCreate (eSpaces aliceEnv) (item\<lparr>spcMetadata :=
       setTypeLabel (if ty = Space_USER then ''user'' else ''organization'') (spcMetadata item)\<rparr>) boxWorld = (Inr s, w1)"
    by blast
  show ?thesis
    by (intro exI conjI, rule r, rule c) (use i item in \<open>simp_all add: item\<close>)
qed

lemma DeleteSpace_authorised_witness:
  "\<exists>e. DeleteSpace aliceEnv \<lparr>goUid = ''s-eng'', goName = ''eng.cordium''\<rparr> boxWorld = (Inl e, boxWorld)"
proof (rule DeleteSpace_authorised)
  show "eCheckDeleteOptions aliceEnv 0 \<lparr>goUid = ''s-eng'', goName = ''eng.cordium''\<rparr> = None"
    by (simp add: memEnv_def bad_def)
  show "cGet (eSpaces aliceEnv) (byUid (goUid \<lparr>goUid = ''s-eng'', goName = ''eng.cordium''\<rparr>)) boxWorld = Inr engSpace"
    by code_simp
  show "eUserCtx aliceEnv = Inr (memCtx alice)"
    by simp
  show "case GetMembershipBySpace aliceEnv (GetObjectReference (spcMetadata engSpace)) boxWorld of Inl _ \<Rightarrow> True
      | Inr mem \<Rightarrow> memRole mem \<noteq> Role_OWNER
          \<and> map_option refUid (spcUserRef engSpace) \<noteq> Some (mdUid (usrMetadata (ictxUser (memCtx alice))))"
    by code_simp
qed

lemma LeaveSpace_not_creator_witness:
  "\<exists>u w'. \<exists>mem :: membership. LeaveSpace aliceEnv (Some (refTo ''s-eng'' ''eng.cordium'')) boxWorld = (Inr u, w')
    \<and> cDelete (eMemberships aliceEnv) (byUid (mdUid (memMetadata mem))) boxWorld = (Inr u, w')"
proof -
  have "succeeds (LeaveSpace aliceEnv (Some (refTo ''s-eng'' ''eng.cordium'')) boxWorld)"
    by code_simp
  then obtain u w' where r: "LeaveSpace aliceEnv (Some (refTo ''s-eng'' ''eng.cordium'')) boxWorld = (Inr u, w')"
    by (rule succeedsE)
  show ?thesis
    using LeaveSpace_not_creator[OF r] r by blast
qed

section \<open>Volumes\<close>

lemma CreateVolume_ok_witness:
  "\<exists>vol w'. \<exists>item :: volume. CreateVolume aliceEnv (named ''logs.eng.cordium'') (Some \<lparr>vsSize = Some 5000,
      vsAccessMode = ACCESS_MODE_SHARED\<rparr>) None boxWorld = (Inr vol, w') \<and> volState item = Vol_PENDING"
proof -
  have "succeeds (CreateVolume aliceEnv (named ''logs.eng.cordium'') (Some \<lparr>vsSize = Some 5000,
      vsAccessMode = ACCESS_MODE_SHARED\<rparr>) None boxWorld)"
    by code_simp
  then obtain vol w' where r: "CreateVolume aliceEnv (named ''logs.eng.cordium'') (Some \<lparr>vsSize = Some 5000,
      vsAccessMode = ACCESS_MODE_SHARED\<rparr>) None boxWorld = (Inr vol, w')"
    by (rule succeedsE)
  show ?thesis
    using CreateVolume_ok[OF r] r by blast
qed

lemma UpdateVolume_grows_witness:
  "\<exists>vol w'. \<exists>item' :: volume. UpdateVolume aliceEnv (named ''data.eng.cordium'') (Some \<lparr>vsSize = Some 3000,
      vsAccessMode = ACCESS_MODE_UNSET\<rparr>) smallWorld = (Inr vol, w')
    \<and> cUpdate (eVolumes aliceEnv) item' smallWorld = (Inr vol, w')"
proof -
  have "succeeds (UpdateVolume aliceEnv (named ''data.eng.cordium'') (Some \<lparr>vsSize = Some 3000,
      vsAccessMode = ACCESS_MODE_UNSET\<rparr>) smallWorld)"
    by code_simp
  then obtain vol w' where r: "UpdateVolume aliceEnv (named ''data.eng.cordium'') (Some \<lparr>vsSize = Some 3000,
      vsAccessMode = ACCESS_MODE_UNSET\<rparr>) smallWorld = (Inr vol, w')"
    by (rule succeedsE)
  show ?thesis
    using UpdateVolume_grows[OF r] r by blast
qed

lemma DeleteVolume_not_mounted_witness:
  "\<exists>u w'. \<exists>item :: volume. DeleteVolume aliceEnv (byName ''data.eng.cordium'') smallWorld = (Inr u, w')
    \<and> cDelete (eVolumes aliceEnv) (byUid (mdUid (volMetadata item))) smallWorld = (Inr u, w')"
proof -
  have "succeeds (DeleteVolume aliceEnv (byName ''data.eng.cordium'') smallWorld)"
    by code_simp
  then obtain u w' where r: "DeleteVolume aliceEnv (byName ''data.eng.cordium'') smallWorld = (Inr u, w')"
    by (rule succeedsE)
  show ?thesis
    using DeleteVolume_not_mounted[OF r] r by blast
qed

section \<open>Memberships\<close>

definition carolRef :: member_user where
  "carolRef = ByUserRef (Some (refTo ''u-carol'' ''carol''))"

lemma CreateMembership_authorised_witness:
  "\<exists>mem w'. \<exists>item :: membership. CreateMembership bobEnv (Some (refTo ''s-eng'' ''eng.cordium'')) carolRef Role_OWNER boxWorld
      = (Inr mem, w') \<and> cCreate (eMemberships bobEnv) item boxWorld = (Inr mem, w')
    \<and> callerAdmin bobEnv (refTo ''s-eng'' ''eng.cordium'') boxWorld"
proof -
  have "succeeds (CreateMembership bobEnv (Some (refTo ''s-eng'' ''eng.cordium'')) carolRef Role_OWNER boxWorld)"
    by code_simp
  then obtain mem w' where r: "CreateMembership bobEnv (Some (refTo ''s-eng'' ''eng.cordium'')) carolRef Role_OWNER boxWorld
      = (Inr mem, w')"
    by (rule succeedsE)
  show ?thesis
    using CreateMembership_authorised[OF r] r by blast
qed

lemma UpdateMembership_authorised_witness:
  "\<exists>mem w' ret. \<exists>itm :: membership.
      UpdateMembership bobEnv (emptyMetadata\<lparr>mdUid := ''m-3''\<rparr>) (Some Role_OWNER) boxWorld = (Inr mem, w')
    \<and> cUpdate (eMemberships bobEnv) (itm\<lparr>memRole := Role_OWNER\<rparr>) boxWorld = (Inr ret, w')"
proof -
  have "succeeds (UpdateMembership bobEnv (emptyMetadata\<lparr>mdUid := ''m-3''\<rparr>) (Some Role_OWNER) boxWorld)"
    by code_simp
  then obtain mem w' where r: "UpdateMembership bobEnv (emptyMetadata\<lparr>mdUid := ''m-3''\<rparr>) (Some Role_OWNER) boxWorld
      = (Inr mem, w')"
    by (rule succeedsE)
  show ?thesis
    using UpdateMembership_authorised[OF r] r by blast
qed

lemma DeleteMembership_authorised_witness:
  "\<exists>u w'. \<exists>itm :: membership. DeleteMembership bobEnv (byUid ''m-3'') boxWorld = (Inr u, w')
    \<and> cDelete (eMemberships bobEnv) (byUid (mdUid (memMetadata itm))) boxWorld = (Inr u, w')"
proof -
  have "succeeds (DeleteMembership bobEnv (byUid ''m-3'') boxWorld)"
    by code_simp
  then obtain u w' where r: "DeleteMembership bobEnv (byUid ''m-3'') boxWorld = (Inr u, w')"
    by (rule succeedsE)
  show ?thesis
    using DeleteMembership_authorised[OF r] r by blast
qed

text \<open>
  The check of the caller and the Space are read through different halves of the reference:
  Alice, an ADMIN of \<open>eng\<close> only, adds Carol to \<open>lab\<close>.
\<close>

lemma CreateMembership_other_space:
  "(case CreateMembership aliceEnv (Some (refTo ''s-lab'' ''eng.cordium'')) carolRef Role_ADMIN boxWorld of
     (Inl _, _) \<Rightarrow> False
   | (Inr mem, w') \<Rightarrow> map_option refUid (memSpaceRef mem) = Some ''s-lab'' \<and> memRole mem = Role_ADMIN
       \<and> GetMembershipBySpace aliceEnv (refTo ''s-lab'' ''lab.cordium'') boxWorld = Inl (K8sNotFoundOrInternalWithErr notFound))"
  by code_simp

section \<open>Secrets and snapshots\<close>

lemma CreateUserSecret_data_witness:
  "\<exists>s w'. \<exists>item :: user_secret. CreateUserSecret aliceEnv (named ''tok'') UserSecret_SSH_KEY (Some (DataValue ''x'')) boxWorld = (Inr s, w')
    \<and> usData item = Some (DataValueBytes ''private'')"
proof -
  have "succeeds (CreateUserSecret aliceEnv (named ''tok'') UserSecret_SSH_KEY (Some (DataValue ''x'')) boxWorld)"
    by code_simp
  then obtain s w' where r: "CreateUserSecret aliceEnv (named ''tok'') UserSecret_SSH_KEY (Some (DataValue ''x'')) boxWorld = (Inr s, w')"
    by (rule succeedsE)
  have "eGenerateSSHKey aliceEnv boxWorld = (Inr (''private'', ''public''), boxWorld)"
    by code_simp
  then show ?thesis
    using CreateUserSecret_data[OF r] r by fastforce
qed

lemma CreateWorkspaceSnapshot_ok_witness:
  "\<exists>sn w'. \<exists>item :: snapshot. CreateWorkspaceSnapshot aliceEnv (named ''snap'') (Some (refTo ''w-1'' [])) boxWorld = (Inr sn, w')
    \<and> snState item = Snap_CREATING \<and> cCreate (eSnapshots aliceEnv) item boxWorld = (Inr sn, w')"
proof -
  have "succeeds (CreateWorkspaceSnapshot aliceEnv (named ''snap'') (Some (refTo ''w-1'' [])) boxWorld)"
    by code_simp
  then obtain sn w' where r: "CreateWorkspaceSnapshot aliceEnv (named ''snap'') (Some (refTo ''w-1'' [])) boxWorld = (Inr sn, w')"
    by (rule succeedsE)
  show ?thesis
    using CreateWorkspaceSnapshot_ok[OF r] r by blast
qed

lemma DeleteWorkspaceSnapshot_unused_witness:
  "\<exists>u w'. \<exists>item :: snapshot. DeleteWorkspaceSnapshot aliceEnv (byName ''snap'') snapWorld = (Inr u, w')
    \<and> cDelete (eSnapshots aliceEnv) (byUid (mdUid (snMetadata item))) snapWorld = (Inr u, w')"
proof -
  have "succeeds (DeleteWorkspaceSnapshot aliceEnv (byName ''snap'') snapWorld)"
    by code_simp
  then obtain u w' where r: "DeleteWorkspaceSnapshot aliceEnv (byName ''snap'') snapWorld = (Inr u, w')"
    by (rule succeedsE)
  show ?thesis
    using DeleteWorkspaceSnapshot_unused[OF r] r by blast
qed

section \<open>Workspaces\<close>

lemma StartWorkspace_starts_witness:
  "\<exists>u w' w2 ret. \<exists>ws' :: workspace. StartWorkspace aliceEnv (Some (refTo ''w-1'' [])) None boxWorld = (Inr u, w')
    \<and> cUpdate (eWorkspaces aliceEnv) ws' w2 = (Inr ret, w') \<and> wsState ws' = INIT_REQUEST"
proof -
  have "succeeds (StartWorkspace aliceEnv (Some (refTo ''w-1'' [])) None boxWorld)"
    by code_simp
  then obtain u w' where r: "StartWorkspace aliceEnv (Some (refTo ''w-1'' [])) None boxWorld = (Inr u, w')"
    by (rule succeedsE)
  show ?thesis
    using StartWorkspace_starts[OF r] r by blast
qed

lemma StartWorkspace_volumes_witness:
  "\<exists>tmpl resolved wss tmpls. templateOfWorkspace aliceEnv box boxWorld = (Inr tmpl, boxWorld)
    \<and> ResolveVolumeMounts aliceEnv box tmpl None boxWorld = Inr resolved
    \<and> list_all (exclusiveUse tmpls wss box) (rrVolumes resolved)"
proof -
  let ?eng = "refTo ''s-eng'' ''eng.cordium''"
  have "succeeds (StartWorkspace aliceEnv (Some (refTo ''w-1'' [])) None boxWorld)"
    by code_simp
  then obtain u w' where r: "StartWorkspace aliceEnv (Some (refTo ''w-1'' [])) None boxWorld = (Inr u, w')"
    by (rule succeedsE)
  have "cGet (eWorkspaces aliceEnv) (byRef (refTo ''w-1'' [])) boxWorld = Inr box"
    "stSpaceRef (wsStatus box) = Some ?eng"
    by code_simp+
  moreover have "cList (eWorkspaces aliceEnv) (FilterBySpaceRef ?eng) boxWorld
      = Inr (listBy satWorkspace (FilterBySpaceRef ?eng) (mWorkspaces boxWorld))"
    "cList (eTemplates aliceEnv) (FilterBySpaceRef ?eng) boxWorld
      = Inr (listBy (\<lambda>t. satRefs (tmUserRef t) (tmSpaceRef t) None) (FilterBySpaceRef ?eng) (mTemplates boxWorld))"
    by (simp_all add: memEnv_def memClient_def)
  ultimately show ?thesis
    using StartWorkspace_volumes[OF r] by (fastforce simp: list_all_iff)
qed

lemma not_owner_refused_witness:
  "refused (StopWorkspace aliceEnv (Some (refTo ''w-2'' [])) boxWorld) boxWorld
   \<and> refused (StartWorkspace aliceEnv (Some (refTo ''w-2'' [])) None boxWorld) boxWorld
   \<and> refused (UpdateWorkspace aliceEnv (emptyMetadata\<lparr>mdUid := ''w-2''\<rparr>) emptySpec boxWorld) boxWorld"
proof -
  have u: "cGet (eWorkspaces aliceEnv) (byUid (mdUid (emptyMetadata\<lparr>mdUid := ''w-2''\<rparr>))) boxWorld
      = Inr (mkWorkspace ''w-2'' ''other'' bob STOPPED [engMount])"
    by code_simp
  have "cGet (eWorkspaces aliceEnv) (byRef (refTo ''w-2'' [])) boxWorld
      = Inr (mkWorkspace ''w-2'' ''other'' bob STOPPED [engMount])"
    and "stUserRef (wsStatus (mkWorkspace ''w-2'' ''other'' bob STOPPED [engMount])) = Some (refTo ''u-bob'' ''bob'')"
    and "refUid (refTo ''u-bob'' ''bob'') \<noteq> refUid (ictxSessionUserRef (memCtx alice))"
    and "refUid (refTo ''u-bob'' ''bob'') \<noteq> mdUid (usrMetadata (ictxUser (memCtx alice)))"
    by code_simp+
  then show ?thesis
    using u not_owner_refused[OF memEnv_eUserCtx] by blast
qed

lemma shared_ports_map_witness:
  "portMap (unsharePort ''web'' (sharePort Share_ALL ''web'' [])) ''web'' = None"
  using shared_ports_map[of "[]" Share_ALL "''web''"] by (simp add: portMap_def)

lemma succeeds_bindE: "m w = (Inr x, w1) \<Longrightarrow> succeeds (f x w1) \<Longrightarrow> succeeds (bindE m f w)"
  by (simp add: bindE_def)

lemma genWorkspaceName_boxWorld:
  "genWorkspaceName aliceEnv boxWorld = (Inr ''r1'', boxWorld\<lparr>mNext := 2\<rparr>)"
proof -
  have "eRandStr aliceEnv (nameLength 0) boxWorld = (Inr ''r1'', boxWorld\<lparr>mNext := 2\<rparr>)"
    "cGet (eWorkspaces aliceEnv) (byName ''r1'') (boxWorld\<lparr>mNext := 2\<rparr>) = Inl notFound"
    "eIsNotFound aliceEnv notFound"
    by code_simp+
  moreover have "(10000 :: nat) = Suc 9999"
    by simp
  ultimately show ?thesis
    unfolding genWorkspaceName_def by (simp only: genWorkspaceNameFrom.simps) (simp add: bindE_def tryE_def readE_def retE_def)
qed

lemma CreateWorkspace_ok_witness:
  "\<exists>ws w' w1. \<exists>item :: workspace. CreateWorkspace aliceEnv emptyMetadata emptySpec (Some (refTo ''t-go'' ''go.eng.cordium''))
      None boxWorld = (Inr ws, w')
    \<and> wsState item = STOPPED \<and> cCreate (eWorkspaces aliceEnv) item w1 = (Inr ws, w')"
proof -
  have "succeeds (createNamed aliceEnv (memCtx alice) emptyConfig emptyMetadata emptySpec
      (Some (refTo ''t-go'' ''go.eng.cordium'')) None ''r1'' (boxWorld\<lparr>mNext := 2\<rparr>))"
    by code_simp
  then have "succeeds (CreateWorkspace aliceEnv emptyMetadata emptySpec (Some (refTo ''t-go'' ''go.eng.cordium'')) None boxWorld)"
    unfolding CreateWorkspace_def
    apply (rule_tac succeeds_bindE[of _ _ "memCtx alice" boxWorld], simp add: liftE_def)
    apply (rule succeeds_bindE[of _ _ "()" boxWorld], code_simp)
    apply (rule succeeds_bindE[of _ _ emptyConfig boxWorld], code_simp)
    apply (rule succeeds_bindE[of _ _ "()" boxWorld], code_simp)
    apply (rule succeeds_bindE[of "genWorkspaceName aliceEnv" boxWorld], rule genWorkspaceName_boxWorld, assumption)
    done
  then obtain ws w' where r: "CreateWorkspace aliceEnv emptyMetadata emptySpec (Some (refTo ''t-go'' ''go.eng.cordium''))
      None boxWorld = (Inr ws, w')"
    by (rule succeedsE)
  show ?thesis
    using CreateWorkspace_ok[OF r] r by blast
qed

end
