(* ===== verification/Step_Invariant.thy ===== *)
theory Step_Invariant
  imports Main
begin

text \<open>
  The contract of an invariant of a transition system: it holds in every initial state and every
  step keeps it. The state machines of the development interpret it.
\<close>

locale step_invariant =
  fixes init :: "'s \<Rightarrow> bool" and step :: "'s \<Rightarrow> 's \<Rightarrow> bool" and inv :: "'s \<Rightarrow> bool"
  assumes init_inv: "init s \<Longrightarrow> inv s"
    and step_inv: "inv s \<Longrightarrow> step s s' \<Longrightarrow> inv s'"
begin

lemma steps_inv: "step\<^sup>*\<^sup>* s s' \<Longrightarrow> inv s \<Longrightarrow> inv s'"
  by (induction rule: rtranclp_induct) (auto intro: step_inv)

lemma reachable_inv: "init s \<Longrightarrow> step\<^sup>*\<^sup>* s s' \<Longrightarrow> inv s'"
  by (blast intro: steps_inv init_inv)

end

text \<open>A part of the state that no step changes.\<close>

locale step_frame =
  fixes step :: "'s \<Rightarrow> 's \<Rightarrow> bool" and part :: "'s \<Rightarrow> 'p"
  assumes step_part: "step s s' \<Longrightarrow> part s' = part s"
begin

lemma steps_part: "step\<^sup>*\<^sup>* s s' \<Longrightarrow> part s' = part s"
  by (induction rule: rtranclp_induct) (auto simp: step_part)

end

end
