(* ===== verification/Workspace_Lifecycle.thy ===== *)
theory Workspace_Lifecycle
  imports Api_Workspace Step_Invariant
begin

text \<open>
  The life of one stored Workspace: every write of its record, by the API server
  (\<open>apiserver/mains/workspace.go\<close>, \<open>build.go\<close>), by the controller and its status watcher
  (\<open>nocturne/controllers/workspaces/{controller,watcher}.go\<close>), by the watchdog
  (\<open>nocturne/watcher.go\<close>) and by the activity recorder (\<open>wsutils/activityctl.go\<close>). The changes are
  functions; \<open>ws_step\<close> is the relation of them with the guards of the code, but for the forced stop
  of the watchdog, which is \<open>stale_step\<close>.
\<close>

section \<open>The changes of a status\<close>

definition leaveRegion :: "ws_status \<Rightarrow> ws_status" where
  "leaveRegion s = s\<lparr>stSessionRef := None,
     stLastRegionRef := (case stRegionRef s of None \<Rightarrow> stLastRegionRef s | Some r \<Rightarrow> Some r),
     stRegionRef := None, stHostname := []\<rparr>"

definition closeRun :: "time option \<Rightarrow> ws_status \<Rightarrow> ws_status" where
  "closeRun t s = s\<lparr>stRun := map_option (\<lambda>r. r\<lparr>runStoppedAt := t\<rparr>) (stRun s)\<rparr>"

definition moveTo :: "time \<Rightarrow> ws_state \<Rightarrow> ws_status \<Rightarrow> ws_status" where
  "moveTo now st s = s\<lparr>stLastState := stState s, stState := st,
     stLastStateSetAt := stCurrentStateSetAt s, stCurrentStateSetAt := Some now\<rparr>"

text \<open>\<open>uint32(time.Since(t).Seconds())\<close>.\<close>

definition secondsSince :: "time \<Rightarrow> time \<Rightarrow> u32" where
  "secondsSince t now = word_of_int ((now - t) div 1000000000)"

text \<open>
  A state that the supervisor reports and the Workspace is not in; \<open>started\<close> is when the watcher
  saw the Workspace run.
\<close>

definition reportState :: "time \<Rightarrow> time option \<Rightarrow> ws_state \<Rightarrow> ws_status \<Rightarrow> ws_status" where
  "reportState now started st s0 =
     (let s = moveTo now st s0 in
      if st = RUNNING then
        s\<lparr>stFailure := None, stLastRunningAt := Some now, stLastActivityAt := Some now,
          stSuccessfulRuns := stSuccessfulRuns s + 1\<rparr>
      else if st = STOPPING then
        (case started of
           None \<Rightarrow> s
         | Some t \<Rightarrow> s\<lparr>stTotalLastRunsDuration := Some (DurSeconds
             ((case stTotalLastRunsDuration s of None \<Rightarrow> 0 | Some d \<Rightarrow> durGetSeconds d) + secondsSince t now))\<rparr>)
      else if st = STOPPED then
        closeRun (Some now) ((leaveRegion s)\<lparr>stLastStoppedAt := Some now\<rparr>)
      else s)"

text \<open>The Shutdown call failed: the Workspace is recorded as stopped.\<close>

definition shutdownFailed :: "time \<Rightarrow> ws_status \<Rightarrow> ws_status" where
  "shutdownFailed now s =
     closeRun (Some now) ((leaveRegion (s\<lparr>stLastState := stState s\<rparr>))\<lparr>stLastStoppedAt := Some now, stState := STOPPED\<rparr>)"

text \<open>The Workspace could not be started.\<close>

definition startFailed :: "time \<Rightarrow> failure \<Rightarrow> ws_status \<Rightarrow> ws_status" where
  "startFailed now f s =
     (let s = leaveRegion ((moveTo now STOPPED (s\<lparr>stFailure := Some f\<rparr>))
                \<lparr>stLastStoppedAt := Some now, stStoppingReason := STOPPING_REASON_ERROR\<rparr>)
      in s\<lparr>stRun := map_option (\<lambda>r. r\<lparr>runFailure := Some f, runStoppedAt := Some now\<rparr>) (stRun s)\<rparr>)"

text \<open>What the watcher learns of the failure of a run, after its end.\<close>

definition recordFailure :: "failure option \<Rightarrow> ws_status \<Rightarrow> ws_status" where
  "recordFailure fo s =
     (case fo of
        None \<Rightarrow> s\<lparr>stFailure := None\<rparr>
      | Some f \<Rightarrow>
          let s = s\<lparr>stFailure := Some f, stRun := map_option (\<lambda>r. r\<lparr>runFailure := Some f\<rparr>) (stRun s)\<rparr> in
          if flType f = FailHealthCheck then s\<lparr>stStoppingReason := STOPPING_REASON_ERROR\<rparr> else s)"

text \<open>The watchdog moves a Workspace that is not yet in the state.\<close>

definition watchdogState :: "time \<Rightarrow> ws_state \<Rightarrow> ws_status \<Rightarrow> ws_status" where
  "watchdogState now st s =
     (let s = moveTo now st s in
      if st = STOPPING_REQUEST then s\<lparr>stStoppingReason := STOPPING_REASON_CLUSTER\<rparr> else s)"

definition setActivity :: "time \<Rightarrow> ws_status \<Rightarrow> ws_status" where
  "setActivity t s = s\<lparr>stLastActivityAt := Some t\<rparr>"

abbreviation onStatus :: "(ws_status \<Rightarrow> ws_status) \<Rightarrow> workspace \<Rightarrow> workspace" where
  "onStatus f ws \<equiv> ws\<lparr>wsStatus := f (wsStatus ws)\<rparr>"

lemmas status_defs = leaveRegion_def closeRun_def moveTo_def reportState_def shutdownFailed_def startFailed_def
  recordFailure_def watchdogState_def setActivity_def startedStatus_def stopRequested_def setSharedPorts_def Let_def

section \<open>The steps\<close>

inductive ws_step :: "workspace \<Rightarrow> workspace \<Rightarrow> bool" where
  start: "wsState ws = STOPPED \<Longrightarrow>
    ws_step ws (ws\<lparr>wsSpec := spec, wsStatus := (startedStatus now rg host rid cfg (wsStatus ws))
      \<lparr>stLimit := l, stSessionRef := Some sess\<rparr>\<rparr>)"
| request_stop: "\<not> IsStoppingOrStopped (wsState ws) \<Longrightarrow> ws_step ws (stopRequested STOPPING_REASON_API ws)"
| cancel_build: "stIsBuild (wsStatus ws) \<Longrightarrow> ws_step ws (stopRequested STOPPING_REASON_API ws)"
| update: "ws_step ws (ws\<lparr>wsMetadata := md, wsSpec := spec\<rparr>)"
| ports: "ws_step ws (setSharedPorts ps ws)"
| activity: "ws_step ws (onStatus (setActivity t) ws)"
| report: "st \<noteq> WS_UNKNOWN \<Longrightarrow> st \<noteq> wsState ws \<Longrightarrow> ws_step ws (onStatus (reportState now started st) ws)"
| running_again: "wsState ws = RUNNING \<Longrightarrow> ws_step ws (onStatus (\<lambda>s. s\<lparr>stFailure := None\<rparr>) ws)"
| shutdown_failed: "wsState ws \<noteq> STOPPED \<Longrightarrow> ws_step ws (onStatus (shutdownFailed now) ws)"
| start_failed: "ws_step ws (onStatus (startFailed now f) ws)"
| failure: "ws_step ws (onStatus (recordFailure fo) ws)"
| timed_out: "wsState ws \<noteq> STOPPING_REQUEST \<Longrightarrow> ws_step ws (onStatus (watchdogState now STOPPING_REQUEST) ws)"

text \<open>
  The watchdog reads a Workspace again before it moves it, and then only asks whether it is in the
  new state already: the state may have changed since the Workspace was listed. It also forces a
  Workspace whose state is stale to STOPPED.
\<close>

inductive stale_step :: "workspace \<Rightarrow> workspace \<Rightarrow> bool" where
  "wsState ws \<noteq> STOPPED \<Longrightarrow> stale_step ws (onStatus (watchdogState now STOPPED) ws)"

text \<open>A new Workspace: of a user and stopped, or a build and about to start.\<close>

definition ws_new :: "workspace \<Rightarrow> bool" where
  "ws_new ws \<longleftrightarrow> stLastRuns (wsStatus ws) = [] \<and> stSessionRef (wsStatus ws) = None \<and>
     (if stIsBuild (wsStatus ws) then stUserRef (wsStatus ws) = None \<and> wsState ws = INIT_REQUEST
      else stUserRef (wsStatus ws) \<noteq> None \<and> wsState ws = STOPPED \<and> stRun (wsStatus ws) = None
        \<and> stRegionRef (wsStatus ws) = None \<and> stHostname (wsStatus ws) = [])"

section \<open>The invariant\<close>

definition runClosed :: "ws_run \<Rightarrow> bool" where
  "runClosed r \<longleftrightarrow> runStoppedAt r \<noteq> None"

text \<open>A stopped Workspace holds no session, Region or hostname, and its run has ended.\<close>

definition atRest :: "ws_status \<Rightarrow> bool" where
  "atRest s \<longleftrightarrow> stState s = STOPPED \<longrightarrow>
     stSessionRef s = None \<and> stRegionRef s = None \<and> stHostname s = [] \<and> pred_option runClosed (stRun s)"

definition historyOK :: "ws_status \<Rightarrow> bool" where
  "historyOK s \<longleftrightarrow> length (stLastRuns s) \<le> 100 \<and> list_all runClosed (stLastRuns s)
     \<and> (stIsBuild s \<longleftrightarrow> stUserRef s = None)"

definition ws_inv :: "workspace \<Rightarrow> bool" where
  "ws_inv ws \<longleftrightarrow> atRest (wsStatus ws) \<and> historyOK (wsStatus ws)"

lemma pushRun_closed:
  "list_all runClosed l \<Longrightarrow> pred_option runClosed r \<Longrightarrow> list_all runClosed (pushRun r l)"
  by (auto simp: pushRun_def Let_def list_all_iff dest: in_set_takeD split: option.splits)

lemma runClosed_sel [simp]:
  "runClosed (r\<lparr>runFailure := f\<rparr>) = runClosed r" "runClosed (r\<lparr>runStoppedAt := Some t\<rparr>)"
  by (simp_all add: runClosed_def)

lemma pred_option_runs [simp]:
  "pred_option (\<lambda>_. True) x" "pred_option P (map_option f x) \<longleftrightarrow> pred_option (\<lambda>a. P (f a)) x"
  by (cases x; simp)+

lemma ws_new_inv: "ws_new ws \<Longrightarrow> ws_inv ws"
  by (auto simp: ws_new_def ws_inv_def atRest_def historyOK_def split: if_splits)

lemma atRest_start:
  assumes "ws_inv ws" "wsState ws = STOPPED"
  shows "ws_inv (ws\<lparr>wsSpec := spec, wsStatus := (startedStatus now rg host rid cfg (wsStatus ws))
      \<lparr>stLimit := l, stSessionRef := Some sess\<rparr>\<rparr>)"
  using assms pushRun_length[of "stRun (wsStatus ws)" "stLastRuns (wsStatus ws)"]
  by (auto simp: ws_inv_def atRest_def historyOK_def startedStatus_def pushRun_closed maxRuns_def)

lemma ws_step_inv:
  assumes "ws_inv ws" "ws_step ws ws'"
  shows "ws_inv ws'"
  using assms(2,1)
proof cases
  case (start spec now rg host rid cfg l sess)
  then show ?thesis using assms(1) by (simp add: atRest_start)
next
  case (failure fo)
  then show ?thesis
    using assms(1) by (cases fo) (auto simp: ws_inv_def atRest_def historyOK_def recordFailure_def Let_def)
next
  case (report st now started)
  then show ?thesis
    using assms(1) by (auto simp: ws_inv_def atRest_def historyOK_def reportState_def moveTo_def leaveRegion_def closeRun_def
        Let_def split: option.splits)
qed (auto simp: ws_inv_def atRest_def historyOK_def status_defs IsStoppingOrStopped_def)

interpretation ws_life: step_invariant ws_new ws_step ws_inv
  by unfold_locales (blast intro: ws_new_inv ws_step_inv)+

text \<open>What no step changes: the owner, the Space, the Template, the kind and the snapshot of a Workspace.\<close>

definition identity :: "workspace \<Rightarrow> _" where
  "identity ws = (stUserRef (wsStatus ws), stSpaceRef (wsStatus ws), stTemplateRef (wsStatus ws),
     stIsBuild (wsStatus ws), stSpaceType (wsStatus ws), stWorkspaceSnapshotRef (wsStatus ws))"

lemma reportState_cases:
  "reportState now started st s =
    (if st = RUNNING then (moveTo now st s)\<lparr>stFailure := None, stLastRunningAt := Some now,
        stLastActivityAt := Some now, stSuccessfulRuns := stSuccessfulRuns s + 1\<rparr>
     else if st = STOPPING \<and> started \<noteq> None then (moveTo now st s)\<lparr>stTotalLastRunsDuration := Some (DurSeconds
        ((case stTotalLastRunsDuration s of None \<Rightarrow> 0 | Some d \<Rightarrow> durGetSeconds d) + secondsSince (the started) now))\<rparr>
     else if st = STOPPED then closeRun (Some now) ((leaveRegion (moveTo now st s))\<lparr>stLastStoppedAt := Some now\<rparr>)
     else moveTo now st s)"
  by (auto simp: reportState_def moveTo_def Let_def split: option.splits)

lemma ws_step_identity:
  assumes "ws_step ws ws'"
  shows "identity ws' = identity ws"
  using assms
proof cases
  case (report st now started)
  then show ?thesis
    by (auto simp: identity_def reportState_cases moveTo_def leaveRegion_def closeRun_def)
next
  case (failure fo)
  then show ?thesis
    by (cases fo) (auto simp: identity_def recordFailure_def Let_def)
qed (auto simp: identity_def status_defs)

interpretation ws_frame: step_frame ws_step identity
  by unfold_locales (rule ws_step_identity)

text \<open>The runs that were successful are only ever counted up, by one, when the Workspace begins to run.\<close>

lemma ws_step_runs:
  assumes "ws_step ws ws'"
  shows "stSuccessfulRuns (wsStatus ws') = stSuccessfulRuns (wsStatus ws) +
     (if wsState ws \<noteq> RUNNING \<and> wsState ws' = RUNNING then 1 else 0)"
  using assms
proof cases
  case (report st now started)
  then show ?thesis
    by (auto simp: reportState_cases moveTo_def leaveRegion_def closeRun_def)
next
  case (failure fo)
  then show ?thesis
    by (cases fo) (auto simp: recordFailure_def Let_def)
qed (auto simp: status_defs IsStoppingOrStopped_def)

section \<open>The handlers take these steps\<close>

text \<open>A request that succeeds has changed nothing, or stored a step of the Workspace it names.\<close>

definition storesStep :: "'w env \<Rightarrow> get_opts \<Rightarrow> ('w, 'a) io \<Rightarrow> 'w \<Rightarrow> bool" where
  "storesStep env o' m w \<longleftrightarrow>
     (case m w of
        (Inl _, _) \<Rightarrow> True
      | (Inr _, w') \<Rightarrow> (\<exists>ws. cGet (eWorkspaces env) o' w = Inr ws
          \<and> (w' = w \<or> (\<exists>ws' w1 ret. ws_step ws ws' \<and> cUpdate (eWorkspaces env) ws' w1 = (Inr ret, w')))))"

lemma storesStepI:
  assumes "\<And>x w'. m w = (Inr x, w') \<Longrightarrow> \<exists>ws. cGet (eWorkspaces env) o' w = Inr ws
      \<and> (w' = w \<or> (\<exists>ws' w1 ret. ws_step ws ws' \<and> cUpdate (eWorkspaces env) ws' w1 = (Inr ret, w')))"
  shows "storesStep env o' m w"
  unfolding storesStep_def by (rule case_ioI) (rule assms)

lemma StartWorkspace_step: "storesStep env (byRef r) (StartWorkspace env (Some r) cfg) w"
proof (rule storesStepI)
  fix u w'
  assume a: "StartWorkspace env (Some r) cfg w = (Inr u, w')"
  obtain i cc r' now rg hostname rid spc w1 volRef and ws :: workspace and ws' :: workspace where
    f: "Some r = Some r'" "cGet (eWorkspaces env) (byRef r') w = Inr ws"
    and g: "startGuards env i ws w = (Inr spc, w)"
    and l: "setWorkspaceLimit env (ws\<lparr>wsStatus := startedStatus now rg hostname rid cfg (wsStatus ws)\<rparr>) spc cc w1 = Inr ws'"
    and d: "doStart env i ws' w1 = (Inr u, w')"
    by (rule StartWorkspace_Inr[OF a])
  obtain l spec where ws': "ws' = ws\<lparr>wsStatus := startedStatus now rg hostname rid cfg (wsStatus ws)\<rparr>
      \<lparr>wsSpec := spec, wsStatus := (startedStatus now rg hostname rid cfg (wsStatus ws))\<lparr>stLimit := Some l\<rparr>\<rparr>"
    using l by (rule setWorkspaceLimit_frame) simp
  obtain w2 ret and s :: session where c: "cUpdate (eWorkspaces env) (ws'\<lparr>wsStatus := (wsStatus ws')\<lparr>stSessionRef :=
      Some (GetObjectReference (sessMetadata s))\<rparr>\<rparr>) w2 = (Inr ret, w')"
    using doStart_Inr[OF d] by blast
  have "ws_step ws (ws'\<lparr>wsStatus := (wsStatus ws')\<lparr>stSessionRef := Some (GetObjectReference (sessMetadata s))\<rparr>\<rparr>)"
    using ws_step.start[of ws, where spec = spec and now = now and rg = rg and host = hostname and rid = rid and cfg = cfg
        and l = "Some l" and sess = "GetObjectReference (sessMetadata s)"]
      startGuards_Inr[OF g] by (simp add: ws')
  then show "\<exists>ws. cGet (eWorkspaces env) (byRef r) w = Inr ws
      \<and> (w' = w \<or> (\<exists>ws' w1 ret. ws_step ws ws' \<and> cUpdate (eWorkspaces env) ws' w1 = (Inr ret, w')))"
    using f c by blast
qed

lemma StopWorkspace_step: "storesStep env (byRef r) (StopWorkspace env (Some r)) w"
proof (rule storesStepI)
  fix u w'
  assume "StopWorkspace env (Some r) w = (Inr u, w')"
  then obtain ws :: workspace where ws: "cGet (eWorkspaces env) (byRef r) w = Inr ws" "\<not> IsStopped (wsState ws)"
    and c: "(if IsStopping (wsState ws) then retE () else bindE (internalOr (cUpdate (eWorkspaces env)
        (stopRequested STOPPING_REASON_API ws))) (\<lambda>_. retE ())) w = (Inr u, w')"
    by (auto simp: StopWorkspace_def io_simps)
  show "\<exists>ws. cGet (eWorkspaces env) (byRef r) w = Inr ws
      \<and> (w' = w \<or> (\<exists>ws' w1 ret. ws_step ws ws' \<and> cUpdate (eWorkspaces env) ws' w1 = (Inr ret, w')))"
  proof (cases "IsStopping (wsState ws)")
    case False
    then have "ws_step ws (stopRequested STOPPING_REASON_API ws)"
      using ws(2) by (intro ws_step.request_stop) (simp add: IsStoppingOrStopped_def)
    then show ?thesis
      using ws(1) c False by (auto simp: io_simps)
  qed (use ws c in \<open>auto simp: io_simps\<close>)
qed

lemma setSharedPorts_step: "ws_step ws (setSharedPorts ps ws)"
  by (rule ws_step.ports)

lemma GetWorkspace_Inr:
  "GetWorkspace env o' w = (Inr ws, w') \<Longrightarrow> cGet (eWorkspaces env) o' w = Inr ws \<and> w' = w"
  by (auto simp: GetWorkspace_def io_simps)

lemma ShareWorkspacePort_step: "storesStep env (byRef r) (ShareWorkspacePort env (Some r) name mode) w"
proof (rule storesStepI)
  fix u w'
  assume "ShareWorkspacePort env (Some r) name mode w = (Inr u, w')"
  then obtain ps ret and ws :: workspace where "cGet (eWorkspaces env) (byRef r) w = Inr ws"
    "cUpdate (eWorkspaces env) (setSharedPorts ps ws) w = (Inr ret, w')"
    by (auto simp: ShareWorkspacePort_def io_simps split: option.splits dest!: GetWorkspace_Inr)
  then show "\<exists>ws. cGet (eWorkspaces env) (byRef r) w = Inr ws
      \<and> (w' = w \<or> (\<exists>ws' w1 ret. ws_step ws ws' \<and> cUpdate (eWorkspaces env) ws' w1 = (Inr ret, w')))"
    using setSharedPorts_step by blast
qed

lemma UnshareWorkspacePort_step: "storesStep env (byRef r) (UnshareWorkspacePort env (Some r) name) w"
proof (rule storesStepI)
  fix u w'
  assume "UnshareWorkspacePort env (Some r) name w = (Inr u, w')"
  then obtain ws where "cGet (eWorkspaces env) (byRef r) w = Inr ws"
    "w' = w \<or> (\<exists>ps ret. cUpdate (eWorkspaces env) (setSharedPorts ps ws) w = (Inr ret, w'))"
    by (auto simp: UnshareWorkspacePort_def io_simps Let_def split: if_splits dest!: GetWorkspace_Inr)
  then show "\<exists>ws. cGet (eWorkspaces env) (byRef r) w = Inr ws
      \<and> (w' = w \<or> (\<exists>ws' w1 ret. ws_step ws ws' \<and> cUpdate (eWorkspaces env) ws' w1 = (Inr ret, w')))"
    using setSharedPorts_step by blast
qed

lemma UpdateWorkspace_step: "storesStep env (byUid (mdUid md)) (UpdateWorkspace env md spec) w"
proof (rule storesStepI)
  fix x w'
  assume "UpdateWorkspace env md spec w = (Inr x, w')"
  then obtain w2 and ws :: workspace and ws' :: workspace where ws: "cGet (eWorkspaces env) (byUid (mdUid md)) w = Inr ws"
    and v: "validateWorkspace env (ws\<lparr>wsMetadata := (wsMetadata ws)\<lparr>mdDisplayName := mdDisplayName md\<rparr>,
        wsSpec := spec\<rparr>) w = (Inr ws', w2)"
    and c: "cUpdate (eWorkspaces env) ws' w2 = (Inr x, w')"
    by (auto simp: UpdateWorkspace_def io_simps)
  obtain spec' where "ws' = ws\<lparr>wsMetadata := (wsMetadata ws)\<lparr>mdDisplayName := mdDisplayName md\<rparr>, wsSpec := spec'\<rparr>"
    using v by (auto elim!: validateWorkspace_Inr)
  then show "\<exists>ws. cGet (eWorkspaces env) (byUid (mdUid md)) w = Inr ws
      \<and> (w' = w \<or> (\<exists>ws' w1 ret. ws_step ws ws' \<and> cUpdate (eWorkspaces env) ws' w1 = (Inr ret, w')))"
    using ws c ws_step.update[of ws] by blast
qed

section \<open>Properties\<close>

text \<open>
  C7: Every request of the API on a stored Workspace that succeeds has changed nothing or stored one
  step of \<open>ws_step\<close>: starting, stopping, updating, sharing and unsharing refine the state machine.
\<close>

theorem api_refines_lifecycle:
  "storesStep env (byRef r) (StartWorkspace env (Some r) cfg) w
   \<and> storesStep env (byRef r) (StopWorkspace env (Some r)) w
   \<and> storesStep env (byUid (mdUid md)) (UpdateWorkspace env md spec) w
   \<and> storesStep env (byRef r) (ShareWorkspacePort env (Some r) name mode) w
   \<and> storesStep env (byRef r) (UnshareWorkspacePort env (Some r) name) w"
  by (intro conjI StartWorkspace_step StopWorkspace_step UpdateWorkspace_step ShareWorkspacePort_step
      UnshareWorkspacePort_step)

text \<open>
  C2: Whatever order the writes of a Workspace come in, but for the stale states of the watchdog: a
  stopped Workspace holds no session, no Region and no hostname, and its run has ended; its
  history has at most 100 runs, all ended; and its owner, Space, Template and snapshot are those
  it was created with.
\<close>

theorem lifecycle_invariant:
  assumes "ws_new ws" and "ws_step\<^sup>*\<^sup>* ws ws'"
  shows "ws_inv ws' \<and> identity ws' = identity ws"
  using ws_life.reachable_inv[OF assms] ws_frame.steps_part[OF assms(2)] by simp

end
