(* ===== verification/Ctl_Env.thy ===== *)
theory Ctl_Env
  imports Workspace_Lifecycle K8s_Objects
begin

text \<open>
  What the controllers of \<open>nocturne\<close> are given besides the environment of the API server: the
  clients of Kubernetes, the client of the supervisor of a Workspace, and the build-time flags.
  All of it is a parameter of the model.
\<close>

section \<open>The supervisor of a Workspace\<close>

datatype persistent_source =
    SOURCE_UNSET | SOURCE_EMPTY | SOURCE_EXISTING | SOURCE_WORKSPACE_SNAPSHOT | SOURCE_TEMPLATE_SNAPSHOT

record git_info =
  gitUsername :: string
  gitExpiresAt :: "time option"

text \<open>The part of an \<open>InitializeRequest\<close> that is chosen by the watcher.\<close>

record init_req =
  irWorkspace :: workspace
  irSpace :: space
  irTemplate :: template
  irDomain :: string
  irExpiresIn :: u32
  irClusterConfig :: cluster_config
  irSecrets :: "secret list"
  irUserSecrets :: "user_secret list option"
  irUserConfig :: "user_config option"
  irAccessToken :: string
  irRefreshToken :: string
  irTunnelPeerPublicKey :: string
  irGitInfo :: "git_info option"
  irTemplateHasSnapshot :: bool
  irSource :: persistent_source
  irVolumeMounts :: "resolved_mount list"

text \<open>\<open>supConnect\<close> is \<open>GetWorkspaceSupClient\<close>; the calls name the Workspace of the connection.\<close>

record 'w sup_client =
  supConnect :: "workspace \<Rightarrow> err option"
  supShutdown :: "workspace \<Rightarrow> ('w, unit) io"
  supGetFailure :: "workspace \<Rightarrow> ('w, failure option) io"
  supShutdownAck :: "workspace \<Rightarrow> ('w, unit) io"
  supInitialize :: "workspace \<Rightarrow> init_req \<Rightarrow> ('w, unit) io"

section \<open>The environment of the controllers\<close>

text \<open>
  \<open>cxToCore\<close> is \<open>ovutils.ToCoreCondition\<close>, a round trip through JSON; \<open>cxEvalVolume\<close>,
  \<open>cxEvalWorkspace\<close> and \<open>cxEvalSources\<close> evaluate a condition on a Volume, a Workspace, and a
  Workspace with a Template; \<open>cxToGo\<close> is the conversion of a duration to nanoseconds;
  \<open>cxAccessToken\<close> and \<open>cxRefreshToken\<close> sign tokens, \<open>cxTokenSeconds\<close> is how long an access token of
  the session is valid, \<open>cxSupervisorImage\<close> and \<open>cxPullPolicy\<close> are the image of the supervisor, \<open>cxPublicKey\<close> parses a WireGuard key and gives the
  public one, \<open>cxDecodeGitInfo\<close> reads the entry of a Workspace in the attributes of a Secret.
\<close>

record 'w ctl_env =
  cxEnv :: "'w env"
  cxRegion :: object_ref
  cxIsDev :: bool
  cxIsTest :: bool
  cxSupervisorImage :: string
  cxPullPolicy :: string
  cxIsResourceChanged :: "err \<Rightarrow> bool"
  cxToGo :: "duration \<Rightarrow> int"
  cxToCore :: "condition \<Rightarrow> err + condition"
  cxEvalVolume :: "condition \<Rightarrow> volume \<Rightarrow> err + bool"
  cxEvalWorkspace :: "condition \<Rightarrow> workspace \<Rightarrow> err + bool"
  cxEvalSources :: "condition \<Rightarrow> workspace option \<Rightarrow> template option \<Rightarrow> err + bool"
  cxKNotFound :: "err \<Rightarrow> bool"
  cxKAlreadyExists :: "err \<Rightarrow> bool"
  cxKForbidden :: "err \<Rightarrow> bool"
  cxKInvalid :: "err \<Rightarrow> bool"
  cxKMethodNotSupported :: "err \<Rightarrow> bool"
  cxPVCs :: "('w, pvc) k8s_client"
  cxSnaps :: "('w, vsnap) k8s_client"
  cxConfigMaps :: "('w, config_map) k8s_client"
  cxDeployments :: "('w, deployment) k8s_client"
  cxServices :: "('w, service) k8s_client"
  cxSup :: "'w sup_client"
  cxAccessToken :: "session \<Rightarrow> err + string"
  cxRefreshToken :: "session \<Rightarrow> err + string"
  cxTokenSeconds :: "session \<Rightarrow> u32"
  cxPublicKey :: "string \<Rightarrow> err + string"
  cxDecodeGitInfo :: "string \<Rightarrow> string \<Rightarrow> (err + git_info) option"

abbreviation minutes :: "int \<Rightarrow> int" where
  "minutes n \<equiv> n * 60000000000"

definition regionIs :: "'w ctl_env \<Rightarrow> object_ref option \<Rightarrow> bool" where
  "regionIs cx r \<longleftrightarrow> (case r of None \<Rightarrow> False | Some x \<Rightarrow> refUid x = refUid (cxRegion cx))"

text \<open>\<open>Controller.isMyRegion\<close> and \<open>watcher.isMyRegion\<close>.\<close>

definition isMyRegion :: "'w ctl_env \<Rightarrow> workspace \<Rightarrow> bool" where
  "isMyRegion cx ws = regionIs cx (stRegionRef (wsStatus ws))"

definition isMyRegionVolume :: "'w ctl_env \<Rightarrow> volume \<Rightarrow> bool" where
  "isMyRegionVolume cx vol = regionIs cx (volRegionRef vol)"

definition isMyRegionWorkspaceSnapshot :: "'w ctl_env \<Rightarrow> snapshot \<Rightarrow> bool" where
  "isMyRegionWorkspaceSnapshot cx sn = regionIs cx (snRegionRef sn)"

section \<open>Errors that end a call without failing it\<close>

fun isPanic :: "err \<Rightarrow> bool" where
  "isPanic (Panic _) = True"
| "isPanic _ = False"

text \<open>A call whose error is inspected. A panic is not an error value: it is passed on.\<close>

definition attempt :: "('w, 'a) io \<Rightarrow> ('w, err + 'a) io" where
  "attempt m = (\<lambda>w. case m w of
     (Inl e, w') \<Rightarrow> if isPanic e then (Inl e, w') else (Inr (Inl e), w')
   | (Inr x, w') \<Rightarrow> (Inr (Inr x), w'))"

text \<open>\<open>if err != nil { if IsNotFound(err) { return nil }; return err }\<close>, with \<open>ok\<close> for the test.\<close>

definition ignoreErr :: "(err \<Rightarrow> bool) \<Rightarrow> ('w, 'a) io \<Rightarrow> ('w, unit) io" where
  "ignoreErr ok m = bindE (attempt m) (\<lambda>r. case r of Inr _ \<Rightarrow> retE () | Inl e \<Rightarrow> if ok e then retE () else throwE e)"

text \<open>A call whose error is only logged.\<close>

definition logErr :: "('w, 'a) io \<Rightarrow> ('w, unit) io" where
  "logErr m = bindE (attempt m) (\<lambda>_. retE ())"

abbreviation ignoreNotFound :: "'w ctl_env \<Rightarrow> ('w, 'a) io \<Rightarrow> ('w, unit) io" where
  "ignoreNotFound cx m \<equiv> ignoreErr (eIsNotFound (cxEnv cx)) m"

lemma attempt_Inr [io_simps]:
  "attempt m w = (Inr r, w') \<longleftrightarrow> m w = (r, w') \<and> (case r of Inl e \<Rightarrow> \<not> isPanic e | Inr _ \<Rightarrow> True)"
  by (auto simp: attempt_def split: prod.splits sum.splits)

lemma attempt_Inl [io_simps]: "attempt m w = (Inl e, w') \<longleftrightarrow> m w = (Inl e, w') \<and> isPanic e"
  by (auto simp: attempt_def split: prod.splits sum.splits)

lemma read_only_attempt [intro!]: "read_only m \<Longrightarrow> read_only (attempt m)"
  by (auto simp: read_only_def attempt_def split: prod.splits sum.splits)

lemma ignoreErr_Inr [io_simps]:
  "ignoreErr ok m w = (Inr u, w') \<longleftrightarrow>
     (\<exists>r. m w = (r, w') \<and> (case r of Inr _ \<Rightarrow> True | Inl e \<Rightarrow> \<not> isPanic e \<and> ok e))"
  by (auto simp: ignoreErr_def bindE_def attempt_def retE_def throwE_def split: prod.splits sum.splits if_splits)

lemma ignoreErr_Inl [io_simps]:
  "ignoreErr ok m w = (Inl e, w') \<longleftrightarrow> m w = (Inl e, w') \<and> (isPanic e \<or> \<not> ok e)"
  by (auto simp: ignoreErr_def bindE_def attempt_def retE_def throwE_def split: prod.splits sum.splits if_splits)

lemma logErr_Inr [io_simps]:
  "logErr m w = (Inr u, w') \<longleftrightarrow> (\<exists>r. m w = (r, w') \<and> (case r of Inr _ \<Rightarrow> True | Inl e \<Rightarrow> \<not> isPanic e))"
  by (auto simp: logErr_def bindE_def attempt_def retE_def split: prod.splits sum.splits if_splits)

lemma logErr_Inl [io_simps]: "logErr m w = (Inl e, w') \<longleftrightarrow> m w = (Inl e, w') \<and> isPanic e"
  by (auto simp: logErr_def bindE_def attempt_def retE_def split: prod.splits sum.splits if_splits)

text \<open>A Get whose not-found error is a case of its own.\<close>

definition getOpt :: "'w ctl_env \<Rightarrow> ('w, 'r) rsc_client \<Rightarrow> get_opts \<Rightarrow> ('w, 'r option) io" where
  "getOpt cx c o' =
     bindE (attempt (readE (cGet c o'))) (\<lambda>r.
     case r of
       Inr x \<Rightarrow> retE (Some x)
     | Inl e \<Rightarrow> if eIsNotFound (cxEnv cx) e then retE None else throwE e)"

lemma read_only_getOpt [intro!]: "read_only (getOpt cx c o')"
  unfolding getOpt_def by (auto split: sum.splits)

end
