(* ===== verification/Ctl_Storage.thy ===== *)
theory Ctl_Storage
  imports Ctl_Env
begin

text \<open>
  The storage of Workspaces and Volumes in Kubernetes: the claim of a Workspace and the snapshot
  it is restored from (\<open>workspaces/k8s.go\<close>), the claims and the state of Volumes
  (\<open>workspaces/volume.go\<close>), and the snapshots of Workspaces (\<open>workspaces/snapshot.go\<close>).
\<close>

section \<open>Names and snapshots (k8s.go)\<close>

definition getPVCNameByWorkspaceUID :: "string \<Rightarrow> string" where
  "getPVCNameByWorkspaceUID uid = ''ws-'' @ uid"

definition getPVCName :: "workspace \<Rightarrow> string" where
  "getPVCName ws = getPVCNameByWorkspaceUID (mdUid (wsMetadata ws))"

text \<open>The build information is there whenever the name is used: a ready build was found in it.\<close>

definition getTemplateBuildName :: "template \<Rightarrow> string" where
  "getTemplateBuildName tmpl = mdUid (tmMetadata tmpl) @ ''-''
     @ (case tmBuildInfo tmpl of None \<Rightarrow> [] | Some b \<Rightarrow> biCurrentReadyBuildID b)"

definition getWorkspaceSnapshotK8sName :: "snapshot \<Rightarrow> string" where
  "getWorkspaceSnapshotK8sName sn = ''wss-'' @ mdUid (snMetadata sn)"

definition isVolumeSnapshotReady :: "vsnap \<Rightarrow> bool" where
  "isVolumeSnapshotReady v \<longleftrightarrow> Option.bind (vsStatus v) vssReadyToUse = Some True"

definition getVolumeSnapshotErrMsg :: "vsnap \<Rightarrow> string" where
  "getVolumeSnapshotErrMsg v = (case Option.bind (vsStatus v) vssError of None \<Rightarrow> [] | Some m \<Rightarrow> m)"

text \<open>The snapshot that the claim of a Workspace is restored from: its name, or none.\<close>

definition templateDataSource :: "'w ctl_env \<Rightarrow> workspace \<Rightarrow> ('w, string option) io" where
  "templateDataSource cx ws =
     (case stTemplateRef (wsStatus ws) of
        None \<Rightarrow> retE None
      | Some r \<Rightarrow>
          bindE (attempt (readE (cGet (eTemplates (cxEnv cx)) (byUid (refUid r))))) (\<lambda>t.
          case t of
            Inl _ \<Rightarrow> retE None
          | Inr tmpl \<Rightarrow>
              if \<not> HasReadyBuild (Some tmpl) then retE None
              else
                bindE (attempt (readE (kGet (cxSnaps cx) (getTemplateBuildName tmpl)))) (\<lambda>v.
                case v of
                  Inl _ \<Rightarrow> retE None
                | Inr vs \<Rightarrow> retE (if isVolumeSnapshotReady vs then Some (vsName vs) else None))))"

definition getPVCDataSource :: "'w ctl_env \<Rightarrow> workspace \<Rightarrow> ('w, string option) io" where
  "getPVCDataSource cx ws =
     (if stIsBuild (wsStatus ws) then retE None
      else if \<not> spIsEphemeral (wsSpec ws) \<and> stSuccessfulRuns (wsStatus ws) > 0 then retE None
      else
        (case stWorkspaceSnapshotRef (wsStatus ws) of
           Some r \<Rightarrow>
             bindE (readE (cGet (eSnapshots (cxEnv cx)) (byUid (refUid r)))) (\<lambda>sn.
             bindE (throw_if (\<not> Snapshot_IsReady (Some sn)) (Errorf (''The WorkspaceSnapshot: ''
                     @ mdName (snMetadata sn) @ '' is not ready to be restored from''))) (\<lambda>_.
             bindE (readE (kGet (cxSnaps cx) (getWorkspaceSnapshotK8sName sn))) (\<lambda>vs.
             bindE (throw_if (\<not> isVolumeSnapshotReady vs) (Errorf (''The volume snapshot of the WorkspaceSnapshot: ''
                     @ mdName (snMetadata sn) @ '' is not readyToUse''))) (\<lambda>_.
             retE (Some (vsName vs))))))
         | None \<Rightarrow> templateDataSource cx ws))"

definition getPVCStorageMegabytes :: "'w ctl_env \<Rightarrow> workspace \<Rightarrow> int" where
  "getPVCStorageMegabytes cx ws =
     (case Option.bind (stLimit (wsStatus ws)) limStorage of
        Some n \<Rightarrow> if n > 0 \<and> n < 5000000 then uint n
                  else if cxIsDev cx then 50000 else 10000
      | None \<Rightarrow> if cxIsDev cx then 50000 else 10000)"

text \<open>\<open>int64(RestoreSizeBytes)\<close> wraps above 2^63.\<close>

definition getPVCRestoreSizeBytes :: "'w ctl_env \<Rightarrow> workspace \<Rightarrow> string option \<Rightarrow> 'w \<Rightarrow> int" where
  "getPVCRestoreSizeBytes cx ws dataSource w =
     (case dataSource of
        None \<Rightarrow> 0
      | Some name \<Rightarrow>
          let ret = (case kGet (cxSnaps cx) name w of
                       Inl _ \<Rightarrow> 0
                     | Inr v \<Rightarrow> (case Option.bind (vsStatus v) vssRestoreSize of None \<Rightarrow> 0 | Some n \<Rightarrow> n))
          in case stWorkspaceSnapshotRef (wsStatus ws) of
               None \<Rightarrow> ret
             | Some r \<Rightarrow>
                 (case cGet (eSnapshots (cxEnv cx)) (byUid (refUid r)) w of
                    Inl _ \<Rightarrow> ret
                  | Inr sn \<Rightarrow> max ret (sint (snRestoreSizeBytes sn))))"

definition getPVCStorageBytes :: "'w ctl_env \<Rightarrow> workspace \<Rightarrow> string option \<Rightarrow> 'w \<Rightarrow> int" where
  "getPVCStorageBytes cx ws dataSource w =
     (let ret = getPVCStorageMegabytes cx ws * 1000 * 1000;
          restoreSize = getPVCRestoreSizeBytes cx ws dataSource w
      in if restoreSize > ret then restoreSize else ret)"

text \<open>Rules in order; one whose condition cannot be read or evaluated is skipped.\<close>

fun firstStorageClass :: "'w ctl_env \<Rightarrow> workspace \<Rightarrow> storage_class_rule list \<Rightarrow> string" where
  "firstStorageClass cx ws [] = []"
| "firstStorageClass cx ws (r # rs) =
     (if scStorageClass r = [] then firstStorageClass cx ws rs
      else
        (case cxToCore cx (scCondition r) of
           Inl _ \<Rightarrow> firstStorageClass cx ws rs
         | Inr cond \<Rightarrow>
             (case cxEvalWorkspace cx cond ws of
                Inl _ \<Rightarrow> firstStorageClass cx ws rs
              | Inr isMatched \<Rightarrow> if isMatched then scStorageClass r else firstStorageClass cx ws rs)))"

definition getStorageClassName :: "'w ctl_env \<Rightarrow> workspace \<Rightarrow> 'w \<Rightarrow> string" where
  "getStorageClassName cx ws w =
     (case eClusterConfig (cxEnv cx) w of Inl _ \<Rightarrow> [] | Inr cc \<Rightarrow> firstStorageClass cx ws (ccWorkspaceStorageRules cc))"

definition nonEmpty :: "string \<Rightarrow> string option" where
  "nonEmpty s = (if s = [] then None else Some s)"

definition workspaceClaim :: "workspace \<Rightarrow> int \<Rightarrow> string \<Rightarrow> string option \<Rightarrow> pvc" where
  "workspaceClaim ws bytes cls dataSource =
     \<lparr>pvcName = getPVCName ws, pvcLabels = [], pvcAccessModes = [ReadWriteOnce], pvcRequest = Some bytes,
      pvcStorageClass = nonEmpty cls, pvcDataSource = dataSource, pvcPhase = ClaimPending, pvcCapacity = None\<rparr>"

definition setPersistentVolumeClaim :: "'w ctl_env \<Rightarrow> workspace \<Rightarrow> ('w, unit) io" where
  "setPersistentVolumeClaim cx ws =
     bindE (getPVCDataSource cx ws) (\<lambda>dataSource.
     bindE (readE (\<lambda>w. Inr (getPVCStorageBytes cx ws dataSource w))) (\<lambda>bytes.
     bindE (readE (\<lambda>w. Inr (getStorageClassName cx ws w))) (\<lambda>cls.
     ignoreErr (cxKAlreadyExists cx) (kCreate (cxPVCs cx) (workspaceClaim ws bytes cls dataSource)))))"

section \<open>Snapshots of claims (k8s.go)\<close>

fun firstSnapshotClass ::
  "'w ctl_env \<Rightarrow> workspace option \<Rightarrow> template option \<Rightarrow> snapshot_class_rule list \<Rightarrow> err + string option" where
  "firstSnapshotClass cx ws tmpl [] = Inr None"
| "firstSnapshotClass cx ws tmpl (r # rs) =
     (if vcVolumeSnapshotClass r = [] then firstSnapshotClass cx ws tmpl rs
      else
        (case cxToCore cx (vcCondition r) of
           Inl _ \<Rightarrow> Inl (Errorf ''Could not read the volumeSnapshotClass rules of the Cluster'')
         | Inr cond \<Rightarrow>
             (case cxEvalSources cx cond ws tmpl of
                Inl _ \<Rightarrow> Inl (Errorf ''Could not evaluate the volumeSnapshotClass rules of the Cluster'')
              | Inr isMatched \<Rightarrow>
                  if isMatched then Inr (Some (vcVolumeSnapshotClass r)) else firstSnapshotClass cx ws tmpl rs)))"

definition getVolumeSnapshotClassName ::
  "'w ctl_env \<Rightarrow> workspace option \<Rightarrow> template option \<Rightarrow> 'w \<Rightarrow> err + string option" where
  "getVolumeSnapshotClassName cx ws tmpl w =
     bindS (eClusterConfig (cxEnv cx) w) (\<lambda>cc. firstSnapshotClass cx ws tmpl (ccSnapshotClassRules cc))"

definition createVolumeSnapshot ::
  "'w ctl_env \<Rightarrow> string \<Rightarrow> string \<Rightarrow> labels \<Rightarrow> workspace option \<Rightarrow> template option \<Rightarrow> ('w, vsnap) io" where
  "createVolumeSnapshot cx name claim lbls ws tmpl =
     bindE (readE (getVolumeSnapshotClassName cx ws tmpl)) (\<lambda>cls.
     bindE (attempt (kCreate (cxSnaps cx)
             \<lparr>vsName = name, vsLabels = lbls, vsClass = cls, vsSource = claim, vsStatus = None\<rparr>)) (\<lambda>r.
     case r of
       Inr v \<Rightarrow> retE v
     | Inl e \<Rightarrow> if cxKAlreadyExists cx e then readE (kGet (cxSnaps cx) name) else throwE e))"

definition createTemplateSnapshot :: "'w ctl_env \<Rightarrow> workspace \<Rightarrow> template \<Rightarrow> ('w, unit) io" where
  "createTemplateSnapshot cx ws tmpl =
     (if cxIsTest cx \<or> \<not> HasReadyBuild (Some tmpl) then retE ()
      else
        bindE (createVolumeSnapshot cx (getTemplateBuildName tmpl) (getPVCName ws)
                [(''octelium.com/template-uid'', mdUid (tmMetadata tmpl)),
                 (''octelium.com/parent-ws-uid'', mdUid (wsMetadata ws))] (Some ws) (Some tmpl)) (\<lambda>_.
        retE ()))"

end
