(* ===== verification/Ctl_Watchdog.thy ===== *)
theory Ctl_Watchdog
  imports Ctl_Env
begin

text \<open>
  \<open>nocturne/watcher.go\<close>: the loop that stops the Workspaces of its Region that are inactive or
  whose state is stale. A loop that may run for ever has a bound, the number of its rounds, and
  says whether it ended within it.
\<close>

section \<open>Timeouts\<close>

definition nonzeroDuration :: "'w ctl_env \<Rightarrow> duration option \<Rightarrow> int" where
  "nonzeroDuration cx d = (case d of None \<Rightarrow> 0 | Some x \<Rightarrow> cxToGo cx x)"

definition getTimeout :: "'w ctl_env \<Rightarrow> workspace \<Rightarrow> cluster_config \<Rightarrow> int" where
  "getTimeout cx ws cc =
     (let ret = (case ccTimeout cc of
                   None \<Rightarrow> 0
                 | Some t \<Rightarrow>
                     let r = (case stSpaceType (wsStatus ws) of
                                Space_ORGANIZATION \<Rightarrow> nonzeroDuration cx (toOrganizationSpace t)
                              | Space_USER \<Rightarrow> nonzeroDuration cx (toUserSpace t)
                              | _ \<Rightarrow> 0)
                     in if r = 0 then nonzeroDuration cx (toDefault t) else r)
      in if ret = 0 then minutes (30 * 60) else ret)"

section \<open>Moving a Workspace to a state\<close>

text \<open>One attempt; the result is False when the Workspace changed meanwhile and it is tried again.\<close>

definition doSetStateOnce :: "'w ctl_env \<Rightarrow> workspace \<Rightarrow> ws_state \<Rightarrow> ('w, bool) io" where
  "doSetStateOnce cx ws0 st =
     bindE (readE (cGet (eWorkspaces (cxEnv cx)) (byUid (mdUid (wsMetadata ws0))))) (\<lambda>ws.
     if wsState ws = st then retE True
     else
       bindE (readE (\<lambda>w. Inr (eNow (cxEnv cx) w))) (\<lambda>now.
       bindE (attempt (cUpdate (eWorkspaces (cxEnv cx)) (onStatus (watchdogState now st) ws))) (\<lambda>r.
       case r of
         Inr _ \<Rightarrow> retE True
       | Inl e \<Rightarrow>
           if eIsNotFound (cxEnv cx) e then retE True
           else if cxIsResourceChanged cx e then retE False
           else throwE e)))"

fun doSetState :: "'w ctl_env \<Rightarrow> nat \<Rightarrow> workspace \<Rightarrow> ws_state \<Rightarrow> ('w, bool) io" where
  "doSetState cx 0 ws st = retE False"
| "doSetState cx (Suc n) ws st =
     bindE (doSetStateOnce cx ws st) (\<lambda>isDone. if isDone then retE True else doSetState cx n ws st)"

definition doSetStateToStopping :: "'w ctl_env \<Rightarrow> nat \<Rightarrow> workspace \<Rightarrow> ('w, bool) io" where
  "doSetStateToStopping cx n ws = doSetState cx n ws STOPPING_REQUEST"

definition getK8sRscName :: "workspace \<Rightarrow> string" where
  "getK8sRscName ws = ''ws-'' @ mdName (wsMetadata ws)"

definition DoDeleteWorkspaceOwner :: "'w ctl_env \<Rightarrow> workspace \<Rightarrow> ('w, unit) io" where
  "DoDeleteWorkspaceOwner cx ws = ignoreErr (cxKNotFound cx) (kDelete (cxConfigMaps cx) (getK8sRscName ws))"

text \<open>
  The state is set to STOPPED, and only that: the session, the Region and the hostname stay. The
  rest of the function uses the Workspace as it was listed.
\<close>

definition doHandleStalledStateInitializingOrStopping :: "'w ctl_env \<Rightarrow> nat \<Rightarrow> workspace \<Rightarrow> ('w, bool) io" where
  "doHandleStalledStateInitializingOrStopping cx n ws =
     bindE (attempt (doSetState cx n ws STOPPED)) (\<lambda>r.
     case r of
       Inl e \<Rightarrow> if eIsNotFound (cxEnv cx) e then retE True else throwE e
     | Inr isDone \<Rightarrow>
         if \<not> isDone then retE False
         else
           bindE (case stSessionRef (wsStatus ws) of
                    None \<Rightarrow> retE ()
                  | Some s \<Rightarrow> ignoreNotFound cx (cDelete (eSessions (cxEnv cx)) (byUid (refUid s)))) (\<lambda>_.
           bindE (DoDeleteWorkspaceOwner cx ws) (\<lambda>_.
           bindE (if stIsBuild (wsStatus ws)
                  then ignoreNotFound cx (cDelete (eWorkspaces (cxEnv cx)) (byUid (mdUid (wsMetadata ws))))
                  else retE ()) (\<lambda>_.
           retE True))))"

section \<open>Which Workspaces are stopped\<close>

text \<open>The Workspace of a user that may run without a timeout, and does.\<close>

definition noTimeout :: "workspace \<Rightarrow> cluster_config \<Rightarrow> bool" where
  "noTimeout ws cc \<longleftrightarrow>
     Option.bind (spRuntime (wsSpec ws)) rtTimeout = Some Timeout_DISABLED
     \<and> (case ccTimeout cc of None \<Rightarrow> False | Some t \<Rightarrow> toAllowNoTimeout t)"

definition doHandleInactiveRunning ::
  "'w ctl_env \<Rightarrow> nat \<Rightarrow> workspace \<Rightarrow> cluster_config \<Rightarrow> int \<Rightarrow> ('w, bool) io" where
  "doHandleInactiveRunning cx n ws cc timeout =
     (if wsState ws \<noteq> RUNNING \<or> stIsBuild (wsStatus ws) then retE True
      else
        (case stLastActivityAt (wsStatus ws) of
           None \<Rightarrow> retE True
         | Some lastActivity \<Rightarrow>
             if noTimeout ws cc then retE True
             else
               bindE (readE (\<lambda>w. Inr (eNow (cxEnv cx) w))) (\<lambda>now.
               if now > lastActivity + timeout then doSetStateToStopping cx n ws else retE True)))"

definition doHandleStalledState :: "'w ctl_env \<Rightarrow> nat \<Rightarrow> workspace \<Rightarrow> cluster_config \<Rightarrow> ('w, bool) io" where
  "doHandleStalledState cx n ws cc =
     (case stCurrentStateSetAt (wsStatus ws) of
        None \<Rightarrow> retE True
      | Some at \<Rightarrow>
          bindE (readE (\<lambda>w. Inr (eNow (cxEnv cx) w))) (\<lambda>now.
          if wsState ws = INIT_REQUEST then
            (if now > at + minutes 5 then doHandleStalledStateInitializingOrStopping cx n ws else retE True)
          else if IsStopping (wsState ws) then
            (if now > at + minutes 120 then doHandleStalledStateInitializingOrStopping cx n ws else retE True)
          else if wsState ws = RUNNING then doHandleInactiveRunning cx n ws cc (getTimeout cx ws cc)
          else if IsPreRunning (wsState ws) then
            (if now > at + minutes 180 then doSetStateToStopping cx n ws else retE True)
          else retE True))"

text \<open>All pages of a list, 500 items each; None when \<open>n\<close> pages were not all.\<close>

fun listPages :: "nat \<Rightarrow> ('w, 'r) rsc_client \<Rightarrow> u32 \<Rightarrow> ('w, 'r list option) io" where
  "listPages 0 c page = retE None"
| "listPages (Suc n) c page =
     bindE (readE (cList c \<lparr>loFilters = [], loPaginate = True, loItemsPerPage = 500, loPage = page, loPublic = None\<rparr>))
       (\<lambda>l. if \<not> ilHasMore l then retE (Some (ilItems l))
             else bindE (listPages n c (page + 1)) (\<lambda>r. retE (map_option (\<lambda>xs. ilItems l @ xs) r)))"

text \<open>One round of the watchdog; \<open>resume\<close> is \<open>doResumeWorkspace\<close>. The errors of a Workspace are logged.\<close>

definition handleWorkspaces ::
  "'w ctl_env \<Rightarrow> nat \<Rightarrow> (workspace \<Rightarrow> ('w, unit) io) \<Rightarrow> ('w, unit) io" where
  "handleWorkspaces cx n resume =
     bindE (listPages n (eWorkspaces (cxEnv cx)) 0) (\<lambda>l.
     case l of
       None \<Rightarrow> retE ()
     | Some wsList \<Rightarrow>
         bindE (readE (eClusterConfig (cxEnv cx))) (\<lambda>cc.
         forE (filter (\<lambda>ws. isMyRegion cx ws \<and> wsState ws \<noteq> STOPPED) wsList)
           (\<lambda>ws. bindE (logErr (resume ws)) (\<lambda>_. logErr (doHandleStalledState cx n ws cc)))))"

end
