(* ===== verification/Ctl_Volume.thy ===== *)
theory Ctl_Volume
  imports Ctl_Storage Ctl_Watchdog
begin

text \<open>
  \<open>workspaces/volume.go\<close>: the claim and the state of a Volume are reconciled whenever the Volume is
  added or updated, and every 20 seconds.
\<close>

section \<open>The claim\<close>

definition getVolumePVCNameByUID :: "string \<Rightarrow> string" where
  "getVolumePVCNameByUID uid = ''vol-'' @ uid"

definition getVolumePVCName :: "volume \<Rightarrow> string" where
  "getVolumePVCName vol = getVolumePVCNameByUID (mdUid (volMetadata vol))"

definition getVolumeLabels :: "volume \<Rightarrow> labels" where
  "getVolumeLabels vol = [(''app'', ''octelium''), (''octelium.com/component-type'', ''user''),
     (''octelium.com/component'', ''volume''), (''octelium.com/volume-uid'', mdUid (volMetadata vol))]"

definition getVolumeAccessModes :: "volume \<Rightarrow> claim_access list" where
  "getVolumeAccessModes vol =
     (if volAccessMode vol = ACCESS_MODE_SHARED then [ReadWriteMany] else [ReadWriteOnce])"

text \<open>The quantity \<open>nM\<close>: decimal megabytes.\<close>

definition getVolumeStorageQuantity :: "volume \<Rightarrow> int" where
  "getVolumeStorageQuantity vol = uint (getMegabytes (volSize vol)) * 1000000"

definition volumeWasProvisioned :: "volume \<Rightarrow> bool" where
  "volumeWasProvisioned vol \<longleftrightarrow> volReadyAt vol \<noteq> None \<or> volState vol = Vol_READY"

definition storageFailure :: "string \<Rightarrow> storage_failure \<Rightarrow> res_failure" where
  "storageFailure msg t = \<lparr>rfMessage = msg, rfType = t\<rparr>"

definition failVolume :: "res_failure \<Rightarrow> volume \<Rightarrow> volume" where
  "failVolume f vol = vol\<lparr>volState := Vol_FAILED, volFailure := Some f\<rparr>"

definition setVolumeFailure :: "'w ctl_env \<Rightarrow> volume \<Rightarrow> res_failure \<Rightarrow> ('w, unit) io" where
  "setVolumeFailure cx vol f =
     (if volState vol = Vol_FAILED \<and> volFailure vol = Some f then retE ()
      else ignoreNotFound cx (cUpdate (eVolumes (cxEnv cx)) (failVolume f vol)))"

fun firstVolumeClass :: "'w ctl_env \<Rightarrow> volume \<Rightarrow> storage_class_rule list \<Rightarrow> err + string option" where
  "firstVolumeClass cx vol [] = Inr None"
| "firstVolumeClass cx vol (r # rs) =
     (if scStorageClass r = [] then firstVolumeClass cx vol rs
      else
        (case cxToCore cx (scCondition r) of
           Inl _ \<Rightarrow> Inl (Errorf ''Could not read the storageClass rules of the Cluster'')
         | Inr cond \<Rightarrow>
             (case cxEvalVolume cx cond vol of
                Inl _ \<Rightarrow> Inl (Errorf ''Could not evaluate the storageClass rules of the Cluster'')
              | Inr isMatched \<Rightarrow> if isMatched then Inr (Some (scStorageClass r)) else firstVolumeClass cx vol rs)))"

definition getVolumeStorageClassName :: "'w ctl_env \<Rightarrow> volume \<Rightarrow> 'w \<Rightarrow> err + string option" where
  "getVolumeStorageClassName cx vol w =
     bindS (eClusterConfig (cxEnv cx) w) (\<lambda>cc. firstVolumeClass cx vol (ccVolumeStorageRules cc))"

definition volumeClaim :: "volume \<Rightarrow> string option \<Rightarrow> pvc" where
  "volumeClaim vol cls =
     \<lparr>pvcName = getVolumePVCName vol, pvcLabels = getVolumeLabels vol, pvcAccessModes = getVolumeAccessModes vol,
      pvcRequest = Some (getVolumeStorageQuantity vol), pvcStorageClass = cls, pvcDataSource = None,
      pvcPhase = ClaimPending, pvcCapacity = None\<rparr>"

text \<open>The claim only ever grows; when it cannot be grown that is logged.\<close>

definition setVolumePersistentVolumeClaimSize :: "'w ctl_env \<Rightarrow> volume \<Rightarrow> pvc \<Rightarrow> ('w, pvc) io" where
  "setVolumePersistentVolumeClaimSize cx vol p =
     (let desired = getVolumeStorageQuantity vol;
          grown = p\<lparr>pvcRequest := Some desired\<rparr> in
      if (case pvcRequest p of None \<Rightarrow> False | Some cur \<Rightarrow> cur \<ge> desired) then retE p
      else
        bindE (attempt (kUpdate (cxPVCs cx) grown)) (\<lambda>r.
        case r of Inr p' \<Rightarrow> retE p' | Inl _ \<Rightarrow> retE grown))"

definition createVolumeClaim :: "'w ctl_env \<Rightarrow> volume \<Rightarrow> ('w, pvc option) io" where
  "createVolumeClaim cx vol =
     (if volumeWasProvisioned vol then
        bindE (setVolumeFailure cx vol (storageFailure
          ''The underlying storage of the Volume does not exist anymore'' SfStorage)) (\<lambda>_. retE None)
      else
        bindE (readE (getVolumeStorageClassName cx vol)) (\<lambda>cls.
        bindE (attempt (kCreate (cxPVCs cx) (volumeClaim vol cls))) (\<lambda>r.
        case r of
          Inr p \<Rightarrow> retE (Some p)
        | Inl e \<Rightarrow>
            if \<not> cxKAlreadyExists cx e then throwE e
            else bindE (readE (kGet (cxPVCs cx) (getVolumePVCName vol))) (\<lambda>p. retE (Some p)))))"

definition ownedClaim :: "volume \<Rightarrow> pvc \<Rightarrow> bool" where
  "ownedClaim vol p \<longleftrightarrow>
     (case map_of (pvcLabels p) ''octelium.com/volume-uid'' of None \<Rightarrow> [] | Some u \<Rightarrow> u) = mdUid (volMetadata vol)"

definition setVolumePersistentVolumeClaim :: "'w ctl_env \<Rightarrow> volume \<Rightarrow> ('w, pvc option) io" where
  "setVolumePersistentVolumeClaim cx vol =
     bindE (attempt (readE (kGet (cxPVCs cx) (getVolumePVCName vol)))) (\<lambda>r.
     case r of
       Inr p \<Rightarrow>
         bindE (throw_if (\<not> ownedClaim vol p) (Errorf (''The PVC: '' @ pvcName p
                 @ '' does not belong to the Volume: '' @ mdName (volMetadata vol)))) (\<lambda>_.
         bindE (setVolumePersistentVolumeClaimSize cx vol p) (\<lambda>p'. retE (Some p')))
     | Inl e \<Rightarrow> if \<not> cxKNotFound cx e then throwE e else createVolumeClaim cx vol)"

section \<open>The state\<close>

definition setCapacity :: "pvc \<Rightarrow> volume \<Rightarrow> volume" where
  "setCapacity p vol =
     (case pvcCapacity p of
        None \<Rightarrow> vol
      | Some bytes \<Rightarrow>
          let megabytes = bytes div (1000 * 1000)
          in if megabytes > 0 then vol\<lparr>volCapacity := Some (word_of_int megabytes)\<rparr> else vol)"

definition volumeStatusOf :: "time \<Rightarrow> pvc \<Rightarrow> volume \<Rightarrow> volume" where
  "volumeStatusOf now p vol0 =
     (let vol = setCapacity p vol0 in
      case pvcPhase p of
        ClaimBound \<Rightarrow>
          (if volState vol \<noteq> Vol_READY then vol\<lparr>volReadyAt := Some now\<rparr> else vol)
            \<lparr>volState := Vol_READY, volFailure := None\<rparr>
      | ClaimLost \<Rightarrow> failVolume (storageFailure ''The underlying storage of the Volume is lost'' SfStorage) vol
      | ClaimPending \<Rightarrow> vol\<lparr>volState := Vol_PENDING\<rparr>)"

definition setVolumeStatus :: "'w ctl_env \<Rightarrow> volume \<Rightarrow> pvc \<Rightarrow> ('w, unit) io" where
  "setVolumeStatus cx old p =
     bindE (readE (\<lambda>w. Inr (eNow (cxEnv cx) w))) (\<lambda>now.
     let vol = volumeStatusOf now p old in
     if vol = old then retE () else ignoreNotFound cx (cUpdate (eVolumes (cxEnv cx)) vol))"

definition reconcileVolume :: "'w ctl_env \<Rightarrow> volume \<Rightarrow> ('w, unit) io" where
  "reconcileVolume cx vol =
     (if \<not> isMyRegionVolume cx vol then retE ()
      else
        bindE (setVolumePersistentVolumeClaim cx vol) (\<lambda>p.
        case p of None \<Rightarrow> retE () | Some p \<Rightarrow> setVolumeStatus cx vol p))"

definition OnAddVolume :: "'w ctl_env \<Rightarrow> volume \<Rightarrow> ('w, unit) io" where
  "OnAddVolume cx vol = reconcileVolume cx vol"

definition OnUpdateVolume :: "'w ctl_env \<Rightarrow> volume \<Rightarrow> volume \<Rightarrow> ('w, unit) io" where
  "OnUpdateVolume cx new old = reconcileVolume cx new"

definition OnDeleteVolume :: "'w ctl_env \<Rightarrow> volume \<Rightarrow> ('w, unit) io" where
  "OnDeleteVolume cx vol =
     (if \<not> isMyRegionVolume cx vol then retE ()
      else ignoreErr (cxKNotFound cx) (kDelete (cxPVCs cx) (getVolumePVCName vol)))"

text \<open>At most \<open>n\<close> pages; the result is False when there are more.\<close>

fun reconcilePages ::
  "nat \<Rightarrow> ('w, 'r) rsc_client \<Rightarrow> ('r \<Rightarrow> ('w, unit) io) \<Rightarrow> u32 \<Rightarrow> ('w, bool) io" where
  "reconcilePages 0 c f page = retE False"
| "reconcilePages (Suc n) c f page =
     bindE (readE (cList c \<lparr>loFilters = [], loPaginate = True, loItemsPerPage = 500, loPage = page, loPublic = None\<rparr>)) (\<lambda>l.
     bindE (forE (ilItems l) (\<lambda>x. logErr (f x))) (\<lambda>_.
     if \<not> ilHasMore l then retE True else reconcilePages n c f (page + 1)))"

definition ReconcileVolumes :: "'w ctl_env \<Rightarrow> nat \<Rightarrow> ('w, bool) io" where
  "ReconcileVolumes cx n = reconcilePages n (eVolumes (cxEnv cx)) (reconcileVolume cx) 0"

section \<open>The mounts of a Workspace\<close>

definition getK8sVolumeName :: "resolved_mount \<Rightarrow> string" where
  "getK8sVolumeName m = ''vol-'' @ refUid (rmVolumeRef m)"

definition getK8sVolumeMountPath :: "resolved_mount \<Rightarrow> string" where
  "getK8sVolumeMountPath m = GetVolumePathByUID (refUid (rmVolumeRef m))"

definition resolveVolumeMounts :: "'w ctl_env \<Rightarrow> workspace \<Rightarrow> ('w, resolved_mount list) io" where
  "resolveVolumeMounts cx ws =
     bindE (case stTemplateRef (wsStatus ws) of
              None \<Rightarrow> retE None
            | Some r \<Rightarrow> bindE (readE (cGet (eTemplates (cxEnv cx)) (byUid (refUid r)))) (\<lambda>t. retE (Some t))) (\<lambda>tmpl.
     bindE (readE (ResolveVolumeMounts (cxEnv cx) ws tmpl (stRegionRef (wsStatus ws)))) (\<lambda>r.
     retE (rrMounts r)))"

end
