(* ===== verification/Ctl_Deploy.thy ===== *)
theory Ctl_Deploy
  imports Ctl_Volume
begin

text \<open>
  The objects of a running Workspace (\<open>workspaces/k8s.go\<close>): a ConfigMap that owns them, the
  Deployment of its supervisor and its Service.
\<close>

definition getLabels :: "workspace \<Rightarrow> labels" where
  "getLabels ws = [(''app'', ''octelium''), (''octelium.com/component-type'', ''user''),
     (''octelium.com/component'', ''workspace''), (''octelium.com/workspace-uid'', mdUid (wsMetadata ws))]"

definition getAnnotations :: "workspace \<Rightarrow> labels" where
  "getAnnotations ws = [(''cluster-autoscaler.kubernetes.io/safe-to-evict'', ''false''),
     (''container.apparmor.security.beta.kubernetes.io/workspace'', ''unconfined'')]"

definition getOwnerConfigMap :: "workspace \<Rightarrow> config_map" where
  "getOwnerConfigMap ws = \<lparr>cmName = getK8sRscName ws, cmUid = mdUid (wsMetadata ws)\<rparr>"

definition positiveOr :: "u32 \<Rightarrow> u32 option \<Rightarrow> u32" where
  "positiveOr d x = (case x of None \<Rightarrow> d | Some n \<Rightarrow> if n = 0 then d else n)"

definition podVolumes :: "workspace \<Rightarrow> resolved_mount list \<Rightarrow> pod_volume list" where
  "podVolumes ws mounts =
     [ClaimVolume ''octelium'' (getPVCName ws) False,
      EmptyDirVolume ''var-tmp'' ''375000Mi'', EmptyDirVolume ''octelium-root'' ''1000Mi'']
     @ map (\<lambda>m. ClaimVolume (getK8sVolumeName m) (getVolumePVCNameByUID (refUid (rmVolumeRef m))) (rmReadOnly m)) mounts"

definition podMounts :: "resolved_mount list \<Rightarrow> pod_mount list" where
  "podMounts mounts =
     [\<lparr>pmName = ''octelium'', pmPath = ''/octelium'', pmReadOnly = False\<rparr>,
      \<lparr>pmName = ''octelium-root'', pmPath = ''/octelium-root'', pmReadOnly = False\<rparr>,
      \<lparr>pmName = ''var-tmp'', pmPath = ''/var/tmp'', pmReadOnly = False\<rparr>]
     @ map (\<lambda>m. \<lparr>pmName = getK8sVolumeName m, pmPath = getK8sVolumeMountPath m, pmReadOnly = rmReadOnly m\<rparr>) mounts"

definition newContainer :: "'w ctl_env \<Rightarrow> workspace \<Rightarrow> resolved_mount list \<Rightarrow> container" where
  "newContainer cx ws mounts =
     \<lparr>ctnName = ''workspace'', ctnImage = cxSupervisorImage cx, ctnPullPolicy = cxPullPolicy cx,
      ctnEnv = [(''OCTELIUM_WS_NAME'', mdName (wsMetadata ws)), (''OCTELIUM_WS_UID'', mdUid (wsMetadata ws))],
      ctnMemoryRequest = ''5Mi'', ctnCpuRequest = ''10m'',
      ctnMemoryLimit = showNat (unat (positiveOr 512 (Option.bind (stLimit (wsStatus ws)) limMemory))) @ ''Mi'',
      ctnCpuLimit = showNat (unat (positiveOr 500 (Option.bind (stLimit (wsStatus ws)) limCpu))) @ ''m'',
      ctnPrivileged = True, ctnReadOnlyRoot = False, ctnRunAsUser = 0, ctnRunAsGroup = 0,
      ctnMounts = podMounts mounts\<rparr>"

definition newPodSpec :: "'w ctl_env \<Rightarrow> workspace \<Rightarrow> resolved_mount list \<Rightarrow> pod_spec" where
  "newPodSpec cx ws mounts =
     \<lparr>pdNodeSelector = [(''octelium.com/node-mode-cordium'', [])],
      pdAutomountToken = False, pdServiceLinks = False,
      pdSysctls = [(''net.ipv4.ip_unprivileged_port_start'', ''1''),
        (''net.ipv4.ping_group_range'', ''0 2147483647''), (''net.ipv4.tcp_syncookies'', ''1'')],
      pdHostname = ''octelium'', pdGracePeriod = 120,
      pdVolumes = podVolumes ws mounts, pdContainers = [newContainer cx ws mounts]\<rparr>"

definition newDeployment :: "'w ctl_env \<Rightarrow> workspace \<Rightarrow> config_map \<Rightarrow> resolved_mount list \<Rightarrow> deployment" where
  "newDeployment cx ws owner mounts =
     \<lparr>dpName = getK8sRscName ws, dpOwner = owner, dpStrategy = Recreate, dpLabels = getLabels ws,
      dpAnnotations = getAnnotations ws, dpPod = newPodSpec cx ws mounts\<rparr>"

definition createK8sService :: "'w ctl_env \<Rightarrow> workspace \<Rightarrow> config_map \<Rightarrow> ('w, unit) io" where
  "createK8sService cx ws owner =
     bindE (kCreate (cxServices cx)
       \<lparr>svName = getK8sRscName ws, svOwner = owner, svType = ClusterIP, svSelector = getLabels ws,
        svPorts = [\<lparr>sptName = ''grpc'', sptProtocol = TCP, sptPort = 8080, sptTarget = 8080\<rparr>,
          \<lparr>sptName = ''essh'', sptProtocol = TCP, sptPort = 2022, sptTarget = 2022\<rparr>,
          \<lparr>sptName = ''tunnel'', sptProtocol = UDP, sptPort = GetWorkspaceTunnelPort (cxIsTest cx),
           sptTarget = GetWorkspaceTunnelPort (cxIsTest cx)\<rparr>]\<rparr>) (\<lambda>_. retE ())"

definition doOnAdd :: "'w ctl_env \<Rightarrow> workspace \<Rightarrow> ('w, unit) io" where
  "doOnAdd cx ws =
     bindE (resolveVolumeMounts cx ws) (\<lambda>mounts.
     bindE (ignoreErr (cxKNotFound cx) (kDelete (cxConfigMaps cx) (getK8sRscName ws))) (\<lambda>_.
     bindE (kCreate (cxConfigMaps cx) (getOwnerConfigMap ws)) (\<lambda>owner.
     bindE (kCreate (cxDeployments cx) (newDeployment cx ws owner mounts)) (\<lambda>_.
     createK8sService cx ws owner))))"

definition doOnDeleteK8s :: "'w ctl_env \<Rightarrow> workspace \<Rightarrow> ('w, unit) io" where
  "doOnDeleteK8s cx ws = ignoreErr (cxKNotFound cx) (kDelete (cxConfigMaps cx) (getK8sRscName ws))"

text \<open>All errors are logged.\<close>

definition removePersistentClaim :: "'w ctl_env \<Rightarrow> workspace \<Rightarrow> ('w, unit) io" where
  "removePersistentClaim cx ws = logErr (kDelete (cxPVCs cx) (getPVCName ws))"

end
