(* ===== verification/Ctl_Snapshot.thy ===== *)
theory Ctl_Snapshot
  imports Ctl_Volume
begin

text \<open>
  \<open>workspaces/snapshot.go\<close>: a WorkspaceSnapshot is reconciled while it is CREATING, until the
  snapshot of the claim in Kubernetes is ready, or it cannot be taken, or two hours have passed.
\<close>

definition snapshotCreationTimeout :: int where "snapshotCreationTimeout = minutes 120"

section \<open>The status of a snapshot\<close>

definition failSnapshot :: "res_failure \<Rightarrow> snapshot \<Rightarrow> snapshot" where
  "failSnapshot f sn = sn\<lparr>snState := Snap_FAILED, snFailure := Some f\<rparr>"

definition setWorkspaceSnapshotFailure :: "'w ctl_env \<Rightarrow> snapshot \<Rightarrow> res_failure \<Rightarrow> ('w, unit) io" where
  "setWorkspaceSnapshotFailure cx sn f =
     ignoreNotFound cx (cUpdate (eSnapshots (cxEnv cx)) (failSnapshot f sn))"

definition isWorkspaceSnapshotTimedOut :: "time \<Rightarrow> snapshot \<Rightarrow> bool" where
  "isWorkspaceSnapshotTimedOut now sn \<longleftrightarrow>
     (case mdCreatedAt (snMetadata sn) of None \<Rightarrow> False | Some t \<Rightarrow> now > t + snapshotCreationTimeout)"

definition firstPositive :: "int option list \<Rightarrow> u64" where
  "firstPositive qs =
     (case List.find (\<lambda>q. case q of None \<Rightarrow> False | Some n \<Rightarrow> n > 0) qs of
        Some (Some n) \<Rightarrow> word_of_int n | _ \<Rightarrow> 0)"

text \<open>The size of the claim of the source: its capacity, or else its request.\<close>

definition getSourcePVCSizeBytes :: "'w ctl_env \<Rightarrow> string \<Rightarrow> 'w \<Rightarrow> u64" where
  "getSourcePVCSizeBytes cx wsUID w =
     (case kGet (cxPVCs cx) (getPVCNameByWorkspaceUID wsUID) w of
        Inl _ \<Rightarrow> 0
      | Inr p \<Rightarrow> firstPositive [pvcCapacity p, pvcRequest p])"

text \<open>What the status of the snapshot in Kubernetes says of its time and size.\<close>

definition copyStatus :: "vsnap \<Rightarrow> snapshot \<Rightarrow> snapshot" where
  "copyStatus v sn =
     (case vsStatus v of
        None \<Rightarrow> sn
      | Some st \<Rightarrow>
          let sn = (case vssCreationTime st of None \<Rightarrow> sn | Some t \<Rightarrow> sn\<lparr>snSnapshotAt := Some t\<rparr>) in
          (case vssRestoreSize st of
             None \<Rightarrow> sn
           | Some n \<Rightarrow> if n > 0 then sn\<lparr>snRestoreSizeBytes := word_of_int n\<rparr> else sn))"

text \<open>\<open>sourceBytes\<close> is the size of the claim of the source, for a snapshot that has no size yet.\<close>

definition snapshotStatusOf :: "time \<Rightarrow> vsnap \<Rightarrow> u64 \<Rightarrow> snapshot \<Rightarrow> snapshot" where
  "snapshotStatusOf now v sourceBytes sn0 =
     (let sn = copyStatus v sn0;
          sn = (if snRestoreSizeBytes sn = 0 then sn\<lparr>snRestoreSizeBytes := sourceBytes\<rparr> else sn) in
      if isVolumeSnapshotReady v then sn\<lparr>snState := Snap_READY, snReadyAt := Some now\<rparr>
      else if isWorkspaceSnapshotTimedOut now sn
      then failSnapshot (storageFailure (getVolumeSnapshotErrMsg v) SfStorage) sn
      else sn)"

definition setWorkspaceSnapshotStatus ::
  "'w ctl_env \<Rightarrow> snapshot \<Rightarrow> snapshot \<Rightarrow> string \<Rightarrow> vsnap \<Rightarrow> ('w, unit) io" where
  "setWorkspaceSnapshotStatus cx old sn wsUID v =
     bindE (readE (\<lambda>w. Inr (eNow (cxEnv cx) w))) (\<lambda>now.
     bindE (readE (\<lambda>w. Inr (getSourcePVCSizeBytes cx wsUID w))) (\<lambda>bytes.
     let sn' = snapshotStatusOf now v bytes sn in
     if sn' = old then retE () else ignoreNotFound cx (cUpdate (eSnapshots (cxEnv cx)) sn')))"

section \<open>Taking a snapshot\<close>

text \<open>The kinds of an error of Kubernetes are its library's tests.\<close>

definition isVolumeSnapshotUnsupportedErr :: "'w ctl_env \<Rightarrow> err \<Rightarrow> bool" where
  "isVolumeSnapshotUnsupportedErr cx e \<longleftrightarrow>
     cxKNotFound cx e \<or> cxKForbidden cx e \<or> cxKInvalid cx e \<or> cxKMethodNotSupported cx e"

text \<open>The source Workspace and its Template, as far as they can be read.\<close>

definition getWorkspaceSnapshotSources :: "'w ctl_env \<Rightarrow> string \<Rightarrow> 'w \<Rightarrow> workspace option \<times> template option" where
  "getWorkspaceSnapshotSources cx wsUID w =
     (case cGet (eWorkspaces (cxEnv cx)) (byUid wsUID) w of
        Inl _ \<Rightarrow> (None, None)
      | Inr ws \<Rightarrow>
          (case stTemplateRef (wsStatus ws) of
             None \<Rightarrow> (Some ws, None)
           | Some r \<Rightarrow>
               (case cGet (eTemplates (cxEnv cx)) (byUid (refUid r)) w of
                  Inl _ \<Rightarrow> (Some ws, None) | Inr t \<Rightarrow> (Some ws, Some t))))"

text \<open>A Workspace that is not stopped any more: the state of a missing one is read as well.\<close>

definition downgrade :: "workspace option \<Rightarrow> snapshot \<Rightarrow> ('w, snapshot) io" where
  "downgrade wso sn =
     (if snConsistency sn \<noteq> CONSISTENCY_CLEAN then retE sn
      else bindE (deref wso) (\<lambda>ws.
           retE (if IsStopped (wsState ws) then sn else sn\<lparr>snConsistency := CONSISTENCY_CRASH\<rparr>)))"

text \<open>The result is the snapshot in Kubernetes, or None when the failure was recorded.\<close>

definition doCreateWorkspaceSnapshot ::
  "'w ctl_env \<Rightarrow> string \<Rightarrow> snapshot \<Rightarrow> ('w, snapshot \<times> vsnap option) io" where
  "doCreateWorkspaceSnapshot cx wsUID sn0 =
     bindE (attempt (readE (kGet (cxPVCs cx) (getPVCNameByWorkspaceUID wsUID)))) (\<lambda>p.
     case p of
       Inl e \<Rightarrow>
         if \<not> cxKNotFound cx e then throwE e
         else bindE (setWorkspaceSnapshotFailure cx sn0 (storageFailure
                ''The persistent storage of the Workspace does not exist'' SfSourceNotFound)) (\<lambda>_. retE (sn0, None))
     | Inr _ \<Rightarrow>
         bindE (readE (\<lambda>w. Inr (getWorkspaceSnapshotSources cx wsUID w))) (\<lambda>src.
         bindE (downgrade (fst src) sn0) (\<lambda>sn.
         bindE (attempt (createVolumeSnapshot cx (getWorkspaceSnapshotK8sName sn) (getPVCNameByWorkspaceUID wsUID)
                 [(''octelium.com/workspace-snapshot-uid'', mdUid (snMetadata sn)),
                  (''octelium.com/workspace-uid'', wsUID)] (fst src) (snd src))) (\<lambda>r.
         case r of
           Inr v \<Rightarrow> retE (sn, Some v)
         | Inl e \<Rightarrow>
             if \<not> isVolumeSnapshotUnsupportedErr cx e then throwE e
             else bindE (setWorkspaceSnapshotFailure cx sn (storageFailure
                    ''The Cluster does not support snapshotting the Workspaces' storage'' SfUnsupported))
                    (\<lambda>_. retE (sn, None))))))"

definition reconcileWorkspaceSnapshot :: "'w ctl_env \<Rightarrow> snapshot \<Rightarrow> ('w, unit) io" where
  "reconcileWorkspaceSnapshot cx sn =
     (if \<not> isMyRegionWorkspaceSnapshot cx sn \<or> \<not> Snapshot_IsCreating (Some sn) then retE ()
      else
        (case snWorkspaceRef sn of
           None \<Rightarrow> setWorkspaceSnapshotFailure cx sn (storageFailure
                     ''The WorkspaceSnapshot does not have a source Workspace'' SfUnknown)
         | Some r \<Rightarrow>
             bindE (attempt (readE (kGet (cxSnaps cx) (getWorkspaceSnapshotK8sName sn)))) (\<lambda>v.
             case v of
               Inr vs \<Rightarrow> setWorkspaceSnapshotStatus cx sn sn (refUid r) vs
             | Inl e \<Rightarrow>
                 if \<not> cxKNotFound cx e then throwE e
                 else
                   bindE (doCreateWorkspaceSnapshot cx (refUid r) sn) (\<lambda>(sn', v').
                   case v' of None \<Rightarrow> retE () | Some vs \<Rightarrow> setWorkspaceSnapshotStatus cx sn sn' (refUid r) vs))))"

definition OnAddWorkspaceSnapshot :: "'w ctl_env \<Rightarrow> snapshot \<Rightarrow> ('w, unit) io" where
  "OnAddWorkspaceSnapshot cx sn = reconcileWorkspaceSnapshot cx sn"

definition OnUpdateWorkspaceSnapshot :: "'w ctl_env \<Rightarrow> snapshot \<Rightarrow> snapshot \<Rightarrow> ('w, unit) io" where
  "OnUpdateWorkspaceSnapshot cx new old = reconcileWorkspaceSnapshot cx new"

definition OnDeleteWorkspaceSnapshot :: "'w ctl_env \<Rightarrow> snapshot \<Rightarrow> ('w, unit) io" where
  "OnDeleteWorkspaceSnapshot cx sn =
     (if \<not> isMyRegionWorkspaceSnapshot cx sn then retE ()
      else ignoreErr (cxKNotFound cx) (kDelete (cxSnaps cx) (getWorkspaceSnapshotK8sName sn)))"

definition ReconcileWorkspaceSnapshots :: "'w ctl_env \<Rightarrow> nat \<Rightarrow> ('w, bool) io" where
  "ReconcileWorkspaceSnapshots cx n = reconcilePages n (eSnapshots (cxEnv cx)) (reconcileWorkspaceSnapshot cx) 0"

section \<open>The life of a snapshot\<close>

text \<open>
  The writes of a stored WorkspaceSnapshot: only one that is CREATING is written, with what the
  storage reports, with a lower consistency, or as failed.
\<close>

inductive snap_step :: "snapshot \<Rightarrow> snapshot \<Rightarrow> bool" where
  status: "Snapshot_IsCreating (Some sn) \<Longrightarrow> snap_step sn (snapshotStatusOf now v bytes (sn\<lparr>snConsistency := c\<rparr>))"
| fail: "Snapshot_IsCreating (Some sn) \<Longrightarrow> snap_step sn (failSnapshot f (sn\<lparr>snConsistency := c\<rparr>))"

inductive_cases snap_stepE: "snap_step sn sn'"

text \<open>A ready snapshot has the time it became ready and no failure, a failed one has a failure.\<close>

definition snap_inv :: "snapshot \<Rightarrow> bool" where
  "snap_inv sn \<longleftrightarrow>
     (case snState sn of
        Snap_CREATING \<Rightarrow> snFailure sn = None \<and> snReadyAt sn = None
      | Snap_READY \<Rightarrow> snFailure sn = None \<and> snReadyAt sn \<noteq> None
      | Snap_FAILED \<Rightarrow> snFailure sn \<noteq> None \<and> snReadyAt sn = None
      | Snap_UNKNOWN \<Rightarrow> False)"

definition snap_new :: "snapshot \<Rightarrow> bool" where
  "snap_new sn \<longleftrightarrow> snState sn = Snap_CREATING \<and> snFailure sn = None \<and> snReadyAt sn = None"

definition snap_source :: "snapshot \<Rightarrow> metadata \<times> object_ref option \<times> object_ref option \<times> object_ref option" where
  "snap_source sn = (snMetadata sn, snWorkspaceRef sn, snUserRef sn, snRegionRef sn)"

lemma copyStatus_sel [simp]:
  "snState (copyStatus v sn) = snState sn" "snFailure (copyStatus v sn) = snFailure sn"
  "snReadyAt (copyStatus v sn) = snReadyAt sn" "snConsistency (copyStatus v sn) = snConsistency sn"
  "snap_source (copyStatus v sn) = snap_source sn"
  by (auto simp: copyStatus_def Let_def snap_source_def split: option.splits)

lemma snap_step_inv: "snap_inv sn \<Longrightarrow> snap_step sn sn' \<Longrightarrow> snap_inv sn'"
  by (erule snap_stepE)
    (auto simp: snap_inv_def snapshotStatusOf_def failSnapshot_def Snapshot_IsCreating_def Let_def)

lemma snap_step_source: "snap_step sn sn' \<Longrightarrow> snap_source sn' = snap_source sn"
proof (erule snap_stepE)
  fix now v bytes c
  assume "sn' = snapshotStatusOf now v bytes (sn\<lparr>snConsistency := c\<rparr>)"
  moreover have "snap_source (copyStatus v (sn\<lparr>snConsistency := c\<rparr>)) = snap_source sn"
    by (simp, simp add: snap_source_def)
  ultimately show ?thesis
    by (auto simp: snapshotStatusOf_def failSnapshot_def Let_def snap_source_def)
qed (simp add: failSnapshot_def snap_source_def)

interpretation snap_life: step_invariant snap_new snap_step snap_inv
proof
  show "snap_inv sn" if "snap_new sn" for sn
    using that by (simp add: snap_new_def snap_inv_def)
qed (rule snap_step_inv)

interpretation snap_frame: step_frame snap_step snap_source
  by unfold_locales (rule snap_step_source)

lemma snap_final: "snap_step\<^sup>*\<^sup>* sn sn' \<Longrightarrow> \<not> Snapshot_IsCreating (Some sn) \<Longrightarrow> sn' = sn"
  by (induction rule: converse_rtranclp_induct) (auto elim: snap_stepE)

section \<open>Lowering the consistency\<close>

lemma downgrade_Inr:
  "downgrade wso sn w = (Inr sn', w') \<Longrightarrow> w' = w \<and> (\<exists>c. sn' = sn\<lparr>snConsistency := c\<rparr>)"
proof -
  assume "downgrade wso sn w = (Inr sn', w')"
  then have "w' = w \<and> (sn' = sn \<or> sn' = sn\<lparr>snConsistency := CONSISTENCY_CRASH\<rparr>)"
    by (auto simp: downgrade_def io_simps split: if_splits)
  moreover have "sn = sn\<lparr>snConsistency := snConsistency sn\<rparr>"
    by simp
  ultimately show ?thesis
    by metis
qed

end
