(* ===== verification/Ctl_Watcher.thy ===== *)
theory Ctl_Watcher
  imports Ctl_Deploy Ctl_Snapshot
begin

text \<open>
  The controller of Workspaces (\<open>workspaces/controller.go\<close>) and its status watchers
  (\<open>workspaces/watcher.go\<close>). A watcher is an object: the controller keeps a map from the UIDs of
  Workspaces to watchers, and compares watchers by identity. So the state has the list of all
  watchers ever made, a watcher is its index there, and the map holds indices. A goroutine that
  is started is a task of the state; which task runs when is a matter of the step relation below.
\<close>

section \<open>The state\<close>

record watcher =
  wtUid :: string
  wtWs :: workspace
  wtIsResumed :: bool
  wtRunningStartedAt :: "time option"
  wtHasClient :: bool
  wtDidOnInit :: bool
  wtDidOnStopping :: bool
  wtDidOnStopped :: bool
  wtHealthCheckErr :: bool
  wtIsClosed :: bool

datatype ctl_task = Supervise nat | ForceStopAndClose nat | CleanupStale nat

text \<open>\<open>ctWg\<close> is the counter of the wait group, \<open>ctDone\<close> whether the main context is done.\<close>

record 'w ctl =
  ctWorld :: 'w
  ctWatchers :: "watcher list"
  ctMap :: "string \<Rightarrow> nat option"
  ctWg :: int
  ctTasks :: "ctl_task list"
  ctDone :: bool

text \<open>A call on the world, and a change of the controller's own state.\<close>

definition onWorld :: "('w, 'a) io \<Rightarrow> ('w ctl, 'a) io" where
  "onWorld m = (\<lambda>s. case m (ctWorld s) of (r, w) \<Rightarrow> (r, s\<lparr>ctWorld := w\<rparr>))"

definition getS :: "('w ctl \<Rightarrow> 'a) \<Rightarrow> ('w ctl, 'a) io" where
  "getS f = (\<lambda>s. (Inr (f s), s))"

definition modS :: "('w ctl \<Rightarrow> 'w ctl) \<Rightarrow> ('w ctl, unit) io" where
  "modS f = (\<lambda>s. (Inr (), f s))"

definition setW :: "nat \<Rightarrow> (watcher \<Rightarrow> watcher) \<Rightarrow> 'w ctl \<Rightarrow> 'w ctl" where
  "setW k f s = s\<lparr>ctWatchers := (ctWatchers s)[k := f (ctWatchers s ! k)]\<rparr>"

definition spawn :: "ctl_task \<Rightarrow> ('w ctl, unit) io" where
  "spawn t = modS (\<lambda>s. s\<lparr>ctTasks := ctTasks s @ [t]\<rparr>)"

abbreviation getW :: "nat \<Rightarrow> ('w ctl, watcher) io" where
  "getW k \<equiv> getS (\<lambda>s. ctWatchers s ! k)"

abbreviation nowC :: "'w ctl_env \<Rightarrow> ('w ctl, time) io" where
  "nowC cx \<equiv> getS (\<lambda>s. eNow (cxEnv cx) (ctWorld s))"

section \<open>The map of watchers (controller.go)\<close>

definition newStatusWatcher :: "workspace \<Rightarrow> bool \<Rightarrow> watcher" where
  "newStatusWatcher ws isResumed =
     \<lparr>wtUid = mdUid (wsMetadata ws), wtWs = ws, wtIsResumed = isResumed,
      wtRunningStartedAt = (if wsState ws = RUNNING then stLastRunningAt (wsStatus ws) else None),
      wtHasClient = False, wtDidOnInit = False, wtDidOnStopping = False, wtDidOnStopped = False,
      wtHealthCheckErr = False, wtIsClosed = False\<rparr>"

text \<open>A new watcher is registered and counted.\<close>

definition addWatcher :: "watcher \<Rightarrow> 'w ctl \<Rightarrow> 'w ctl" where
  "addWatcher wt s = s\<lparr>ctWatchers := ctWatchers s @ [wt], ctWg := ctWg s + 1,
     ctMap := (ctMap s)(wtUid wt := Some (length (ctWatchers s)))\<rparr>"

definition setWatcher :: "workspace \<Rightarrow> bool \<Rightarrow> ('w ctl, nat option) io" where
  "setWatcher ws isResumed = (\<lambda>s.
     if ctDone s \<or> ctMap s (mdUid (wsMetadata ws)) \<noteq> None then (Inr None, s)
     else (Inr (Some (length (ctWatchers s))), addWatcher (newStatusWatcher ws isResumed) s))"

definition removeWatcher :: "nat \<Rightarrow> 'w ctl \<Rightarrow> 'w ctl" where
  "removeWatcher k s =
     (let uid = wtUid (ctWatchers s ! k) in
      if ctMap s uid = Some k then s\<lparr>ctMap := (ctMap s)(uid := None)\<rparr> else s)"

definition wgDone :: "'w ctl \<Rightarrow> 'w ctl" where
  "wgDone s = s\<lparr>ctWg := ctWg s - 1\<rparr>"

section \<open>Stopping a Workspace (controller.go)\<close>

text \<open>\<open>Status.State\<close> of the Workspace that \<open>stopWorkspace\<close> stores when the Shutdown call failed.\<close>

definition stopWorkspace :: "'w ctl_env \<Rightarrow> workspace \<Rightarrow> ('w ctl, unit) io" where
  "stopWorkspace cx ws =
     (if wsState ws = STOPPED \<or> wsState ws = WS_UNKNOWN then retE ()
      else
        bindE (checkE (supConnect (cxSup cx) ws)) (\<lambda>_.
        bindE (attempt (onWorld (supShutdown (cxSup cx) ws))) (\<lambda>r.
        bindE (case r of
                 Inr _ \<Rightarrow> retE (Some ws)
               | Inl _ \<Rightarrow>
                   bindE (logErr (onWorld (doOnDeleteK8s cx ws))) (\<lambda>_.
                   bindE (nowC cx) (\<lambda>now.
                   bindE (attempt (onWorld (cUpdate (eWorkspaces (cxEnv cx)) (onStatus (shutdownFailed now) ws)))) (\<lambda>u.
                   case u of
                     Inl e \<Rightarrow> if eIsNotFound (cxEnv cx) e then retE None else throwE e
                   | Inr ws' \<Rightarrow>
                       bindE (getS (\<lambda>s. ctMap s (mdUid (wsMetadata ws')))) (\<lambda>wt.
                       bindE (case wt of None \<Rightarrow> retE () | Some k \<Rightarrow> spawn (ForceStopAndClose k)) (\<lambda>_.
                       retE (Some ws'))))))) (\<lambda>o'.
        case o' of
          None \<Rightarrow> retE ()
        | Some ws' \<Rightarrow> if spIsEphemeral (wsSpec ws') then onWorld (removePersistentClaim cx ws') else retE ()))))"

definition setWorkspaceStartFailure :: "'w ctl_env \<Rightarrow> workspace \<Rightarrow> failure \<Rightarrow> ('w, unit) io" where
  "setWorkspaceStartFailure cx ws f =
     bindE (getOpt cx (eWorkspaces (cxEnv cx)) (byUid (mdUid (wsMetadata ws)))) (\<lambda>o'.
     case o' of
       None \<Rightarrow> retE ()
     | Some cur \<Rightarrow>
         bindE (readE (\<lambda>w. Inr (eNow (cxEnv cx) w))) (\<lambda>now.
         bindE (attempt (cUpdate (eWorkspaces (cxEnv cx)) (onStatus (startFailed now f) cur))) (\<lambda>u.
         case u of
           Inl e \<Rightarrow> if eIsNotFound (cxEnv cx) e then retE () else throwE e
         | Inr _ \<Rightarrow>
             (case stSessionRef (wsStatus cur) of
                None \<Rightarrow> retE ()
              | Some r \<Rightarrow> ignoreNotFound cx (cDelete (eSessions (cxEnv cx)) (byUid (refUid r)))))))"

section \<open>Recording a reported state (watcher.go)\<close>

definition maxUpdateStatusAttempts :: nat where "maxUpdateStatusAttempts = 10"

definition doUpdateStatusOnce :: "'w ctl_env \<Rightarrow> nat \<Rightarrow> ws_state \<Rightarrow> ('w ctl, unit) io" where
  "doUpdateStatusOnce cx k st =
     (if st = WS_UNKNOWN then retE ()
      else
        bindE (getW k) (\<lambda>wt.
        bindE (onWorld (getOpt cx (eWorkspaces (cxEnv cx)) (byUid (wtUid wt)))) (\<lambda>o'.
        case o' of
          None \<Rightarrow> retE ()
        | Some ws \<Rightarrow>
            if wsState ws = st then
              (if st = RUNNING \<and> stFailure (wsStatus ws) \<noteq> None
               then onWorld (ignoreNotFound cx (cUpdate (eWorkspaces (cxEnv cx))
                      (onStatus (\<lambda>s. s\<lparr>stFailure := None\<rparr>) ws)))
               else retE ())
            else
              bindE (nowC cx) (\<lambda>now.
              bindE (if st = RUNNING then modS (setW k (\<lambda>w. w\<lparr>wtRunningStartedAt := Some now\<rparr>)) else retE ()) (\<lambda>_.
              onWorld (ignoreNotFound cx (cUpdate (eWorkspaces (cxEnv cx))
                (onStatus (reportState now (wtRunningStartedAt wt) st) ws))))))))"

fun updateAttempts :: "'w ctl_env \<Rightarrow> nat \<Rightarrow> nat \<Rightarrow> ws_state \<Rightarrow> ('w ctl, unit) io" where
  "updateAttempts cx 0 k st = throwE (Errorf ''Could not update the Workspace status after too many attempts'')"
| "updateAttempts cx (Suc n) k st =
     bindE (attempt (doUpdateStatusOnce cx k st)) (\<lambda>r.
     case r of
       Inr _ \<Rightarrow> retE ()
     | Inl e \<Rightarrow> if cxIsResourceChanged cx e then updateAttempts cx n k st else throwE e)"

definition doUpdateStatus :: "'w ctl_env \<Rightarrow> nat \<Rightarrow> ws_state \<Rightarrow> ('w ctl, unit) io" where
  "doUpdateStatus cx k st = updateAttempts cx maxUpdateStatusAttempts k st"

section \<open>The end of a run (watcher.go)\<close>

definition simpleFailure :: "failure_type \<Rightarrow> failure" where
  "simpleFailure t = \<lparr>flMessage = [], flType = t\<rparr>"

text \<open>The client of the supervisor, nil until the supervisor was once ready.\<close>

definition client :: "watcher \<Rightarrow> ('w, unit) io" where
  "client wt = deref (if wtHasClient wt then Some () else None)"

text \<open>The failure of the run; the supervisor is then told that its shutdown was seen.\<close>

definition endFailure :: "'w ctl_env \<Rightarrow> watcher \<Rightarrow> ('w, failure option) io" where
  "endFailure cx wt =
     (if wtHealthCheckErr wt then retE (Some (simpleFailure FailHealthCheck))
      else
        bindE (client wt) (\<lambda>_.
        bindE (attempt (supGetFailure (cxSup cx) (wtWs wt))) (\<lambda>r.
        bindE (logErr (supShutdownAck (cxSup cx) (wtWs wt))) (\<lambda>_.
        retE (case r of Inr f \<Rightarrow> f | Inl _ \<Rightarrow> Some (simpleFailure FailUnknown))))))"

definition getSessionRef :: "'w ctl_env \<Rightarrow> watcher \<Rightarrow> 'w \<Rightarrow> object_ref option" where
  "getSessionRef cx wt w =
     (case stSessionRef (wsStatus (wtWs wt)) of
        Some r \<Rightarrow> Some r
      | None \<Rightarrow>
          (case cGet (eWorkspaces (cxEnv cx)) (byUid (wtUid wt)) w of
             Inl _ \<Rightarrow> None | Inr ws \<Rightarrow> stSessionRef (wsStatus ws)))"

definition deleteRunSession :: "'w ctl_env \<Rightarrow> watcher \<Rightarrow> ('w, unit) io" where
  "deleteRunSession cx wt =
     bindE (readE (\<lambda>w. Inr (getSessionRef cx wt w))) (\<lambda>r.
     case r of
       None \<Rightarrow> retE ()
     | Some x \<Rightarrow> ignoreNotFound cx (cDelete (eSessions (cxEnv cx)) (byUid (refUid x))))"

text \<open>The build of the Template that a build Workspace ran, and what becomes of it.\<close>

definition buildIdOf :: "workspace \<Rightarrow> string option" where
  "buildIdOf ws = Option.bind (mdSystemLabels (wsMetadata ws))
     (\<lambda>ls. Some (case map_of ls ''build-id'' of None \<Rightarrow> [] | Some b \<Rightarrow> b))"

definition finishBuild :: "time \<Rightarrow> failure option \<Rightarrow> build \<Rightarrow> build" where
  "finishBuild now fo b =
     (if bldIsCanceled b then b\<lparr>bldState := Build_FAILED\<rparr>
      else
        (case fo of
           Some f \<Rightarrow> b\<lparr>bldDoneAt := Some now, bldState := Build_FAILED, bldFailure := Some f\<rparr>
         | None \<Rightarrow> b\<lparr>bldDoneAt := Some now, bldState := Build_READY\<rparr>))"

fun updateFirst :: "('a \<Rightarrow> bool) \<Rightarrow> ('a \<Rightarrow> 'a) \<Rightarrow> 'a list \<Rightarrow> 'a list" where
  "updateFirst p f [] = []"
| "updateFirst p f (x # xs) = (if p x then f x # xs else x # updateFirst p f xs)"

text \<open>The new build information with the finished build, or none when there is no such build.\<close>

definition finishBuildInfo :: "time \<Rightarrow> failure option \<Rightarrow> workspace \<Rightarrow> build_info \<Rightarrow> (build_info \<times> build) option" where
  "finishBuildInfo now fo ws bi =
     (case List.find (\<lambda>b. buildIdOf ws = Some (bldId b)) (biBuilds bi) of
        None \<Rightarrow> None
      | Some b0 \<Rightarrow>
          let b = finishBuild now fo b0;
              bi = bi\<lparr>biBuilds := updateFirst (\<lambda>b. buildIdOf ws = Some (bldId b)) (finishBuild now fo) (biBuilds bi)\<rparr>;
              bi = (if \<not> bldIsCanceled b0 \<and> fo = None then bi\<lparr>biCurrentReadyBuildID := bldId b\<rparr> else bi);
              bi = (if biCurrentRunningBuildID bi = bldId b then bi\<lparr>biCurrentRunningBuildID := []\<rparr> else bi)
          in Some (bi, b))"

definition onBuildStopped :: "'w ctl_env \<Rightarrow> watcher \<Rightarrow> failure option \<Rightarrow> ('w, unit) io" where
  "onBuildStopped cx wt fo =
     bindE (deref (stTemplateRef (wsStatus (wtWs wt)))) (\<lambda>r.
     bindE (getOpt cx (eTemplates (cxEnv cx)) (byUid (refUid r))) (\<lambda>o'.
     case o' of
       None \<Rightarrow> retE ()
     | Some tmpl \<Rightarrow>
         bindE (readE (\<lambda>w. Inr (eNow (cxEnv cx) w))) (\<lambda>now.
         case Option.bind (tmBuildInfo tmpl) (finishBuildInfo now fo (wtWs wt)) of
           None \<Rightarrow> retE ()
         | Some (bi, b) \<Rightarrow>
             bindE (cUpdate (eTemplates (cxEnv cx)) (tmpl\<lparr>tmBuildInfo := Some bi\<rparr>)) (\<lambda>tmpl'.
             if bldState b = Build_READY then logErr (createTemplateSnapshot cx (wtWs wt) tmpl') else retE ()))))"

definition onRunStopped :: "'w ctl_env \<Rightarrow> watcher \<Rightarrow> failure option \<Rightarrow> ('w, unit) io" where
  "onRunStopped cx wt fo =
     bindE (getOpt cx (eWorkspaces (cxEnv cx)) (byUid (wtUid wt))) (\<lambda>o'.
     case o' of
       None \<Rightarrow> retE ()
     | Some ws \<Rightarrow>
         if stFailure (wsStatus ws) \<noteq> None \<or> fo \<noteq> None
         then bindE (cUpdate (eWorkspaces (cxEnv cx)) (onStatus (recordFailure fo) ws)) (\<lambda>_. retE ())
         else retE ())"

definition onStopped :: "'w ctl_env \<Rightarrow> nat \<Rightarrow> ('w ctl, unit) io" where
  "onStopped cx k =
     bindE (getW k) (\<lambda>wt.
     if wtDidOnStopped wt then retE ()
     else
       bindE (modS (setW k (\<lambda>w. w\<lparr>wtDidOnStopped := True\<rparr>))) (\<lambda>_.
       onWorld
         (bindE (endFailure cx wt) (\<lambda>fo.
          bindE (deleteRunSession cx wt) (\<lambda>_.
          bindE (doOnDeleteK8s cx (wtWs wt)) (\<lambda>_.
          if stIsBuild (wsStatus (wtWs wt)) then onBuildStopped cx wt fo else onRunStopped cx wt fo))))))"

definition forceOnStop :: "'w ctl_env \<Rightarrow> nat \<Rightarrow> ('w ctl, unit) io" where
  "forceOnStop cx k = bindE (logErr (doUpdateStatus cx k STOPPED)) (\<lambda>_. onStopped cx k)"

definition doStopWorkspace :: "'w ctl_env \<Rightarrow> nat \<Rightarrow> ('w ctl, unit) io" where
  "doStopWorkspace cx k =
     bindE (getW k) (\<lambda>wt.
     bindE (onWorld (getOpt cx (eWorkspaces (cxEnv cx)) (byUid (wtUid wt)))) (\<lambda>o'.
     case o' of
       None \<Rightarrow> retE ()
     | Some ws \<Rightarrow> if IsStopping (wsState ws) then retE () else stopWorkspace cx ws))"

section \<open>Closing a watcher (watcher.go)\<close>

definition closeWork :: "'w ctl_env \<Rightarrow> nat \<Rightarrow> bool \<Rightarrow> watcher \<Rightarrow> ('w ctl, unit) io" where
  "closeWork cx k isDetach wt =
     (if isDetach then retE ()
      else if wtHealthCheckErr wt then logErr (forceOnStop cx k)
      else if \<not> wtDidOnStopping wt \<and> wtDidOnStopped wt then retE ()
      else if \<not> wtDidOnStopping wt then logErr (doStopWorkspace cx k)
      else if \<not> wtDidOnStopped wt then logErr (forceOnStop cx k)
      else retE ())"

definition doClose :: "'w ctl_env \<Rightarrow> nat \<Rightarrow> bool \<Rightarrow> ('w ctl, unit) io" where
  "doClose cx k isDetach =
     bindE (getW k) (\<lambda>wt.
     if wtIsClosed wt then retE ()
     else
       bindE (modS (setW k (\<lambda>w. w\<lparr>wtIsClosed := True\<rparr>))) (\<lambda>_.
       bindE (closeWork cx k isDetach wt) (\<lambda>_.
       modS (\<lambda>s. wgDone (removeWatcher k s)))))"

section \<open>Initializing a Workspace (watcher.go)\<close>

fun getPersistentStateSource :: "workspace \<Rightarrow> template \<Rightarrow> bool \<Rightarrow> persistent_source" where
  "getPersistentStateSource ws tmpl templateHasSnapshot =
     (if stIsBuild (wsStatus ws) then SOURCE_EMPTY
      else if \<not> spIsEphemeral (wsSpec ws) \<and> stSuccessfulRuns (wsStatus ws) > 0 then SOURCE_EXISTING
      else if stWorkspaceSnapshotRef (wsStatus ws) \<noteq> None then SOURCE_WORKSPACE_SNAPSHOT
      else if HasReadyBuild (Some tmpl) \<and> templateHasSnapshot then SOURCE_TEMPLATE_SNAPSHOT
      else SOURCE_EMPTY)"

text \<open>\<open>c.ctl.getTemplateBuildName(project)\<close> reads the build information without a test.\<close>

definition templateSnapshotReady :: "'w ctl_env \<Rightarrow> template \<Rightarrow> ('w, bool) io" where
  "templateSnapshotReady cx tmpl =
     bindE (deref (tmBuildInfo tmpl)) (\<lambda>_.
     readE (\<lambda>w. Inr (case kGet (cxSnaps cx) (getTemplateBuildName tmpl) w of
        Inl _ \<Rightarrow> False | Inr v \<Rightarrow> isVolumeSnapshotReady v)))"

text \<open>The tokens of the git provider of the Template, unless they have expired.\<close>

definition gitInfoOf :: "'w ctl_env \<Rightarrow> workspace \<Rightarrow> template \<Rightarrow> ('w, git_info option) io" where
  "gitInfoOf cx ws tmpl =
     (case stUserRef (wsStatus ws) of
        None \<Rightarrow> retE None
      | Some u \<Rightarrow>
          if tsGitProvider (tmSpec tmpl) = [] then retE None
          else
            bindE (getOpt cx (eUserSecrets (cxEnv cx)) (byName (''git-provider-tokens.'' @ refName u))) (\<lambda>o'.
            case Option.bind o' usData of
              Some (DataAttrs attrs) \<Rightarrow>
                (case cxDecodeGitInfo cx attrs (mdUid (wsMetadata ws)) of
                   None \<Rightarrow> retE None
                 | Some (Inl e) \<Rightarrow> throwE e
                 | Some (Inr info) \<Rightarrow>
                     readE (\<lambda>w. Inr (case gitExpiresAt info of
                        None \<Rightarrow> Some info
                      | Some t \<Rightarrow> if t < eNow (cxEnv cx) w then None else Some info)))
            | _ \<Rightarrow> retE None))"

text \<open>The client information of a Workspace with a session, and the user's Secrets.\<close>

definition addSession ::
  "string \<Rightarrow> string \<Rightarrow> string \<Rightarrow> u32 \<Rightarrow> user_secret list option \<Rightarrow> user_config option \<Rightarrow> init_req \<Rightarrow> init_req" where
  "addSession pub access refresh secs us uc req =
     req\<lparr>irTunnelPeerPublicKey := pub, irAccessToken := access, irRefreshToken := refresh, irExpiresIn := secs,
         irUserSecrets := us, irUserConfig := uc\<rparr>"

definition userSecretsOf :: "'w ctl_env \<Rightarrow> workspace \<Rightarrow> ('w, user_secret list option) io" where
  "userSecretsOf cx ws =
     (case stUserRef (wsStatus ws) of
        None \<Rightarrow> retE None
      | Some u \<Rightarrow> bindE (readE (cList (eUserSecrets (cxEnv cx)) (filterOpts [FStatusUserUID (refUid u)])))
                   (\<lambda>l. retE (Some (ilItems l))))"

definition withSession :: "'w ctl_env \<Rightarrow> workspace \<Rightarrow> init_req \<Rightarrow> ('w, init_req) io" where
  "withSession cx ws req =
     (case stSessionRef (wsStatus ws) of
        None \<Rightarrow> retE req
      | Some sr \<Rightarrow>
          if stIsBuild (wsStatus ws) then retE req
          else
            bindE (readE (cGet (eSecrets (cxEnv cx)) (byName ''sys:ws-tunnel-wgkey''))) (\<lambda>sec.
            bindE (liftE (cxPublicKey cx (Secret_GetValueStr sec))) (\<lambda>pub.
            bindE (readE (cGet (eSessions (cxEnv cx)) (byUid (refUid sr)))) (\<lambda>sess.
            bindE (liftE (cxAccessToken cx sess)) (\<lambda>at.
            bindE (liftE (cxRefreshToken cx sess)) (\<lambda>rt.
            bindE (userSecretsOf cx ws) (\<lambda>us.
            bindE (getOpt cx (eUserConfigs (cxEnv cx)) (byName (GetUserConfigName (stUserRef (wsStatus ws))))) (\<lambda>uc.
            retE (addSession pub at rt (cxTokenSeconds cx sess) us uc req)))))))))"

text \<open>The request before the session, the configuration of the cluster and the mounts are added.\<close>

definition baseRequest ::
  "string \<Rightarrow> workspace \<Rightarrow> space \<Rightarrow> template \<Rightarrow> secret list \<Rightarrow> git_info option \<Rightarrow> bool \<Rightarrow> init_req" where
  "baseRequest domain ws spc tmpl secs git hasSnap =
     \<lparr>irWorkspace = ws, irSpace = spc, irTemplate = tmpl, irDomain = domain, irExpiresIn = 0,
      irClusterConfig = \<lparr>ccWorkspaceLimit = None, ccVolumeLimit = None, ccVolumeStorageRules = [],
        ccSpaceOwnership = None, ccTimeout = None, ccWorkspaceStorageRules = [], ccSnapshotClassRules = [],
        ccRuntimeCapabilities = None\<rparr>,
      irSecrets = secs, irUserSecrets = None, irUserConfig = None, irAccessToken = [],
      irRefreshToken = [], irTunnelPeerPublicKey = [], irGitInfo = git, irTemplateHasSnapshot = hasSnap,
      irSource = getPersistentStateSource ws tmpl hasSnap, irVolumeMounts = []\<rparr>"

definition finishRequest :: "cluster_config \<Rightarrow> resolved_mount list \<Rightarrow> init_req \<Rightarrow> init_req" where
  "finishRequest cco mounts req = req\<lparr>irClusterConfig := cco, irVolumeMounts := mounts\<rparr>"

definition initRequestFor :: "'w ctl_env \<Rightarrow> string \<Rightarrow> workspace \<Rightarrow> object_ref \<Rightarrow> object_ref \<Rightarrow> ('w, init_req) io" where
  "initRequestFor cx domain ws sr tr =
     bindE (readE (cGet (eSpaces (cxEnv cx)) (byUid (refUid sr)))) (\<lambda>spc.
     bindE (readE (cGet (eTemplates (cxEnv cx)) (byUid (refUid tr)))) (\<lambda>tmpl.
     bindE (readE (cList (eSecrets (cxEnv cx)) (FilterBySpaceRef sr))) (\<lambda>secs.
     bindE (if stIsBuild (wsStatus ws) then retE False else templateSnapshotReady cx tmpl) (\<lambda>hasSnap.
     bindE (if stIsBuild (wsStatus ws) then retE None else gitInfoOf cx ws tmpl) (\<lambda>git.
     bindE (withSession cx ws (baseRequest domain ws spc tmpl (ilItems secs) git hasSnap)) (\<lambda>req.
     bindE (readE (eClusterConfig (cxEnv cx))) (\<lambda>cco.
     bindE (resolveVolumeMounts cx ws) (\<lambda>mounts.
     retE (finishRequest cco mounts req)))))))))"

definition initRequest :: "'w ctl_env \<Rightarrow> string \<Rightarrow> ('w, init_req) io" where
  "initRequest cx uid =
     bindE (readE (eCoreDomain (cxEnv cx))) (\<lambda>domain.
     bindE (readE (cGet (eWorkspaces (cxEnv cx)) (byUid uid))) (\<lambda>ws.
     case stSpaceRef (wsStatus ws) of
       None \<Rightarrow> throwE (Errorf ''A Workspace must belong to a Space'')
     | Some sr \<Rightarrow>
         (case stTemplateRef (wsStatus ws) of
            None \<Rightarrow> throwE (Errorf ''A Workspace must belong to a Template'')
          | Some tr \<Rightarrow> initRequestFor cx domain ws sr tr)))"

text \<open>The call is repeated, 3000 times at most.\<close>

fun initAttempts :: "'w ctl_env \<Rightarrow> nat \<Rightarrow> workspace \<Rightarrow> init_req \<Rightarrow> ('w, unit) io" where
  "initAttempts cx 0 ws req = throwE (Errorf ''Could not do initialize api call'')"
| "initAttempts cx (Suc n) ws req =
     bindE (attempt (supInitialize (cxSup cx) ws req)) (\<lambda>r.
     case r of Inr _ \<Rightarrow> retE () | Inl _ \<Rightarrow> initAttempts cx n ws req)"

definition onReadyInit :: "'w ctl_env \<Rightarrow> nat \<Rightarrow> ('w ctl, unit) io" where
  "onReadyInit cx k =
     bindE (getW k) (\<lambda>wt.
     if wtDidOnInit wt then retE ()
     else
       bindE (modS (setW k (\<lambda>w. w\<lparr>wtDidOnInit := True\<rparr>))) (\<lambda>_.
       bindE (onWorld (initRequest cx (wtUid wt))) (\<lambda>req.
       bindE (client wt) (\<lambda>_.
       onWorld (initAttempts cx 3000 (wtWs wt) req)))))"

section \<open>Handling a reported state (watcher.go)\<close>

definition stoppingReported :: "nat \<Rightarrow> ('w ctl, unit) io" where
  "stoppingReported k =
     bindE (getW k) (\<lambda>wt.
     bindE (modS (setW k (\<lambda>w. w\<lparr>wtDidOnStopping := True\<rparr>))) (\<lambda>_.
     if wtDidOnStopping wt then retE () else spawn (CleanupStale k)))"

text \<open>A deferred call: it runs whether the call before fails or not.\<close>

definition finallyE :: "('w, 'a) io \<Rightarrow> ('w, unit) io \<Rightarrow> ('w, 'a) io" where
  "finallyE m n = (\<lambda>s. case m s of (r, s') \<Rightarrow>
     (case n s' of (Inl e, s'') \<Rightarrow> (Inl e, s'') | (Inr _, s'') \<Rightarrow> (r, s'')))"

definition handleStatus :: "'w ctl_env \<Rightarrow> nat \<Rightarrow> ws_state \<Rightarrow> ('w ctl, unit) io" where
  "handleStatus cx k st =
     bindE (getW k) (\<lambda>wt.
     if wtIsClosed wt \<or> st = INIT_REQUEST then retE ()
     else if st = INITIALIZING then
       bindE (onReadyInit cx k) (\<lambda>_. logErr (doUpdateStatus cx k st))
     else if st = STOPPING then
       bindE (stoppingReported k) (\<lambda>_. logErr (doUpdateStatus cx k st))
     else if st = STOPPED then
       finallyE (bindE (onStopped cx k) (\<lambda>_. logErr (doUpdateStatus cx k st))) (doClose cx k False)
     else logErr (doUpdateStatus cx k st))"

section \<open>The events of the controller (controller.go)\<close>

definition volumeStartFailure :: "string \<Rightarrow> string \<Rightarrow> failure" where
  "volumeStartFailure vol msg = \<lparr>flMessage = msg, flType = FailVolume vol\<rparr>"

definition startWorkspace :: "'w ctl_env \<Rightarrow> workspace \<Rightarrow> ('w ctl, unit) io" where
  "startWorkspace cx ws =
     bindE (mapErrE (\<lambda>_. Errorf ''Could not set persistentVolumeClaim'') (onWorld (setPersistentVolumeClaim cx ws))) (\<lambda>_.
     bindE (attempt (onWorld (resolveVolumeMounts cx ws))) (\<lambda>r.
     case r of
       Inl (VolumeMountError vol msg) \<Rightarrow>
         onWorld (setWorkspaceStartFailure cx ws
           (volumeStartFailure vol (vErrString (eValidators (cxEnv cx)) (VolumeMountError vol msg))))
     | Inl e \<Rightarrow> throwE e
     | Inr _ \<Rightarrow>
         bindE (setWatcher ws False) (\<lambda>o'.
         case o' of
           None \<Rightarrow> retE ()
         | Some k \<Rightarrow>
             bindE (attempt (onWorld (doOnAdd cx ws))) (\<lambda>a.
             case a of
               Inl e \<Rightarrow> bindE (doClose cx k True) (\<lambda>_. throwE e)
             | Inr _ \<Rightarrow> spawn (Supervise k)))))"

definition ResumeWorkspace :: "'w ctl_env \<Rightarrow> workspace \<Rightarrow> ('w ctl, unit) io" where
  "ResumeWorkspace cx ws =
     (if \<not> isMyRegion cx ws \<or> wsState ws \<in> {WS_UNKNOWN, INIT_REQUEST, STOPPED} then retE ()
      else
        bindE (setWatcher ws True) (\<lambda>o'.
        case o' of None \<Rightarrow> retE () | Some k \<Rightarrow> spawn (Supervise k)))"

text \<open>A Workspace without a time of creation is as old as the epoch.\<close>

definition OnAdd :: "'w ctl_env \<Rightarrow> workspace \<Rightarrow> ('w ctl, unit) io" where
  "OnAdd cx ws =
     bindE (nowC cx) (\<lambda>now.
     let created = (case mdCreatedAt (wsMetadata ws) of None \<Rightarrow> 0 | Some t \<Rightarrow> t) in
     if created + minutes 1 < now then ResumeWorkspace cx ws
     else if \<not> isMyRegion cx ws then retE ()
     else
       bindE (mapErrE (\<lambda>_. Errorf ''Could not set persistentVolumeClaim'') (onWorld (setPersistentVolumeClaim cx ws))) (\<lambda>_.
       if wsState ws \<noteq> INIT_REQUEST then ResumeWorkspace cx ws else startWorkspace cx ws))"

definition OnUpdate :: "'w ctl_env \<Rightarrow> workspace \<Rightarrow> workspace \<Rightarrow> ('w ctl, unit) io" where
  "OnUpdate cx new old =
     (if \<not> isMyRegion cx new then retE ()
      else if wsState new = INIT_REQUEST \<and> wsState old = STOPPED then startWorkspace cx new
      else if wsState new = STOPPING_REQUEST \<and> wsState old \<noteq> STOPPING_REQUEST then stopWorkspace cx new
      else retE ())"

definition OnDelete :: "'w ctl_env \<Rightarrow> workspace \<Rightarrow> ('w ctl, unit) io" where
  "OnDelete cx ws =
     bindE (if isMyRegion cx ws then logErr (stopWorkspace cx ws) else retE ()) (\<lambda>_.
     onWorld (removePersistentClaim cx ws))"

section \<open>The goroutines\<close>

text \<open>The end of \<open>startSupervise\<close>: a watcher is only detached when the controller shuts down.\<close>

definition endSupervise :: "'w ctl_env \<Rightarrow> nat \<Rightarrow> ('w ctl, unit) io" where
  "endSupervise cx k = bindE (getS ctDone) (\<lambda>isDone. doClose cx k isDone)"

definition setHealthCheckErr :: "nat \<Rightarrow> ('w ctl, unit) io" where
  "setHealthCheckErr k = modS (setW k (\<lambda>w. w\<lparr>wtHealthCheckErr := True\<rparr>))"

definition supervisorReady :: "nat \<Rightarrow> ('w ctl, unit) io" where
  "supervisorReady k = modS (setW k (\<lambda>w. w\<lparr>wtHasClient := True\<rparr>))"

definition supervisorLost :: "'w ctl_env \<Rightarrow> nat \<Rightarrow> ('w ctl, unit) io" where
  "supervisorLost cx k = bindE (setHealthCheckErr k) (\<lambda>_. endSupervise cx k)"

definition healthCheckFailed :: "'w ctl_env \<Rightarrow> nat \<Rightarrow> ('w ctl, unit) io" where
  "healthCheckFailed cx k =
     bindE (getW k) (\<lambda>wt.
     if wtDidOnStopping wt \<or> wtDidOnStopped wt then retE ()
     else bindE (setHealthCheckErr k) (\<lambda>_. doClose cx k False))"

definition forceStopAndClose :: "'w ctl_env \<Rightarrow> nat \<Rightarrow> ('w ctl, unit) io" where
  "forceStopAndClose cx k = bindE (logErr (forceOnStop cx k)) (\<lambda>_. doClose cx k False)"

definition cleanupStaleStoppingState :: "'w ctl_env \<Rightarrow> nat \<Rightarrow> ('w ctl, unit) io" where
  "cleanupStaleStoppingState cx k =
     bindE (getW k) (\<lambda>wt. if wtIsClosed wt then retE () else forceStopAndClose cx k)"

end
