(* ===== verification/Ctl_Invariant.thy ===== *)
theory Ctl_Invariant
  imports Ctl_Watcher
begin

text \<open>
  What holds of the watchers of a controller whatever its events and goroutines do in whatever
  order: the map holds exactly the open watchers, so a Workspace never has two of them, and the
  wait group counts them.
\<close>

section \<open>Handlers that keep the map\<close>

definition core :: "'w ctl \<Rightarrow> (string \<times> bool) list \<times> (string \<Rightarrow> nat option) \<times> int" where
  "core s = (map (\<lambda>w. (wtUid w, wtIsClosed w)) (ctWatchers s), ctMap s, ctWg s)"

definition keeps :: "('w ctl, 'a) io \<Rightarrow> bool" where
  "keeps m \<longleftrightarrow> (\<forall>s r s'. m s = (r, s') \<longrightarrow> core s' = core s)"

named_theorems keeps_intros \<open>handlers that keep the map of watchers\<close>

lemma keeps_pure [keeps_intros]:
  "keeps (retE x)" "keeps (throwE e)" "keeps (checkE c)" "keeps (getS f)" "keeps (onWorld m)" "keeps (spawn t)"
  by (auto simp: keeps_def retE_def throwE_def checkE_def getS_def onWorld_def spawn_def modS_def core_def
      split: option.splits prod.splits)

lemma map_update_same:
  "(\<And>x. g (f x) = g x) \<Longrightarrow> map g (xs[k := f (xs ! k)]) = map g xs"
  by (induction xs arbitrary: k) (auto split: nat.splits)

lemma keeps_setW:
  "(\<And>w. wtUid (f w) = wtUid w \<and> wtIsClosed (f w) = wtIsClosed w) \<Longrightarrow> keeps (modS (setW k f))"
  using map_update_same[of "\<lambda>w. (wtUid w, wtIsClosed w)" f]
  by (auto simp: keeps_def modS_def setW_def core_def)

lemma keeps_bindE [keeps_intros]: "keeps m \<Longrightarrow> (\<And>x. keeps (f x)) \<Longrightarrow> keeps (bindE m f)"
  unfolding keeps_def bindE_def by (auto split: prod.splits sum.splits)

lemma keeps_attempt [keeps_intros]: "keeps m \<Longrightarrow> keeps (attempt m)"
  by (auto simp: keeps_def attempt_def split: prod.splits sum.splits if_splits)

lemma keeps_logErr [keeps_intros]: "keeps m \<Longrightarrow> keeps (logErr m)"
  unfolding logErr_def by (intro keeps_intros)

lemma keeps_mapErrE [keeps_intros]: "keeps m \<Longrightarrow> keeps (mapErrE f m)"
  by (auto simp: keeps_def mapErrE_def split: prod.splits sum.splits)

lemma keeps_if [keeps_intros]: "(c \<Longrightarrow> keeps m) \<Longrightarrow> (\<not> c \<Longrightarrow> keeps n) \<Longrightarrow> keeps (if c then m else n)"
  by simp

lemma keeps_case_option [keeps_intros]:
  "keeps m \<Longrightarrow> (\<And>x. keeps (f x)) \<Longrightarrow> keeps (case o' of None \<Rightarrow> m | Some x \<Rightarrow> f x)"
  by (simp split: option.splits)

lemma keeps_case_sum [keeps_intros]:
  "(\<And>e. keeps (g e)) \<Longrightarrow> (\<And>x. keeps (f x)) \<Longrightarrow> keeps (case r of Inl e \<Rightarrow> g e | Inr x \<Rightarrow> f x)"
  by (simp split: sum.splits)

lemma keeps_deref [keeps_intros]: "keeps (deref x)"
  by (auto simp: deref_def intro!: keeps_intros)

lemma keeps_stopWorkspace [keeps_intros]: "keeps (stopWorkspace cx ws)"
  unfolding stopWorkspace_def by (intro keeps_intros)

lemma keeps_doUpdateStatusOnce [keeps_intros]: "keeps (doUpdateStatusOnce cx k st)"
  unfolding doUpdateStatusOnce_def by (intro keeps_intros keeps_setW) simp_all

lemma keeps_updateAttempts [keeps_intros]: "keeps (updateAttempts cx n k st)"
  by (induction n) (simp, intro keeps_intros)+

lemma keeps_doUpdateStatus [keeps_intros]: "keeps (doUpdateStatus cx k st)"
  unfolding doUpdateStatus_def by (intro keeps_intros)

lemma keeps_onStopped [keeps_intros]: "keeps (onStopped cx k)"
  unfolding onStopped_def by (intro keeps_intros keeps_setW) simp_all

lemma keeps_forceOnStop [keeps_intros]: "keeps (forceOnStop cx k)"
  unfolding forceOnStop_def by (intro keeps_intros)

lemma keeps_closeWork [keeps_intros]: "keeps (closeWork cx k d wt)"
  unfolding closeWork_def doStopWorkspace_def by (intro keeps_intros)

lemma keeps_onReadyInit [keeps_intros]: "keeps (onReadyInit cx k)"
  unfolding onReadyInit_def client_def by (intro keeps_intros keeps_setW) simp_all

lemma keeps_stoppingReported [keeps_intros]: "keeps (stoppingReported k)"
  unfolding stoppingReported_def by (intro keeps_intros keeps_setW) simp_all

lemma keeps_flags [keeps_intros]: "keeps (setHealthCheckErr k)" "keeps (supervisorReady k)"
  unfolding setHealthCheckErr_def supervisorReady_def by (intro keeps_setW; simp)+

section \<open>The invariant\<close>

fun core_inv :: "(string \<times> bool) list \<times> (string \<Rightarrow> nat option) \<times> int \<Rightarrow> bool" where
  "core_inv (l, mp, wg) \<longleftrightarrow>
     (\<forall>uid k. mp uid = Some k \<longleftrightarrow> k < length l \<and> l ! k = (uid, False))
     \<and> wg = int (length (filter (\<lambda>x. \<not> snd x) l))"

definition ctl_inv :: "'w ctl \<Rightarrow> bool" where
  "ctl_inv s = core_inv (core s)"

text \<open>The invariant, in a state that has the watcher \<open>k\<close>.\<close>

definition inv_at :: "nat \<Rightarrow> 'w ctl \<Rightarrow> bool" where
  "inv_at k s \<longleftrightarrow> ctl_inv s \<and> k < length (ctWatchers s)"

definition panicked :: "err + 'a \<Rightarrow> bool" where
  "panicked r = (case r of Inl e \<Rightarrow> isPanic e | Inr _ \<Rightarrow> False)"

definition preserves :: "('w ctl \<Rightarrow> bool) \<Rightarrow> ('w ctl, 'a) io \<Rightarrow> bool" where
  "preserves I m \<longleftrightarrow> (\<forall>s r s'. I s \<longrightarrow> m s = (r, s') \<longrightarrow> \<not> panicked r \<longrightarrow> I s')"

lemma core_length: "core s' = core s \<Longrightarrow> length (ctWatchers s') = length (ctWatchers s)"
  by (auto simp: core_def dest: map_eq_imp_length_eq)

lemma keeps_preserves: "keeps m \<Longrightarrow> preserves ctl_inv m" "keeps m \<Longrightarrow> preserves (inv_at k) m"
  unfolding keeps_def preserves_def ctl_inv_def inv_at_def by (metis core_length)+

lemma preserves_bindE:
  assumes "preserves I m" "\<And>x. preserves I (f x)"
  shows "preserves I (bindE m f)"
  unfolding preserves_def
proof (intro allI impI)
  fix s r s' assume I: "I s" and b: "bindE m f s = (r, s')" and p: "\<not> panicked r"
  obtain rm sm where m: "m s = (rm, sm)" by (cases "m s")
  show "I s'"
  proof (cases rm)
    case (Inl e)
    with m b p have "sm = s'" "\<not> panicked rm" by (auto simp: bindE_def panicked_def)
    with assms(1) I m show ?thesis by (auto simp: preserves_def)
  next
    case (Inr x)
    with assms(1) I m have "I sm" by (auto simp: preserves_def panicked_def)
    moreover from m b Inr have "f x sm = (r, s')" by (simp add: bindE_def)
    ultimately show ?thesis using assms(2)[of x] p by (auto simp: preserves_def)
  qed
qed

lemma preserves_finallyE:
  assumes "keeps m" "preserves (inv_at k) n"
  shows "preserves (inv_at k) (finallyE m n)"
  unfolding preserves_def
proof (intro allI impI)
  fix s r s' assume I: "inv_at k s" and b: "finallyE m n s = (r, s')" and p: "\<not> panicked r"
  obtain rm sm where m: "m s = (rm, sm)" by (cases "m s")
  obtain rn sn where n: "n sm = (rn, sn)" by (cases "n sm")
  from b m n p have "sn = s'" "\<not> panicked rn"
    by (auto simp: finallyE_def panicked_def split: sum.splits)
  moreover from assms(1) m have "core sm = core s" by (simp add: keeps_def)
  with I core_length[OF this] have "inv_at k sm" by (simp add: inv_at_def ctl_inv_def)
  ultimately show "inv_at k s'" using assms(2) n by (auto simp: preserves_def)
qed

lemma filter_closed:
  "k < length l \<Longrightarrow> \<not> snd (l ! k) \<Longrightarrow> snd y \<Longrightarrow>
   int (length (filter (\<lambda>x. \<not> snd x) (l[k := y]))) = int (length (filter (\<lambda>x. \<not> snd x) l)) - 1"
proof (induction l arbitrary: k)
  case (Cons a l)
  then show ?case by (cases k) auto
qed simp

lemma core_inv_iff:
  "core_inv (l, mp, wg) \<Longrightarrow> mp uid = Some k \<longleftrightarrow> k < length l \<and> l ! k = (uid, False)"
  by simp

lemma core_inv_close:
  assumes "core_inv (l, mp, wg)" "k < length l" "l ! k = (uid, False)"
  shows "core_inv (l[k := (uid, True)], mp(uid := None), wg - 1)"
proof -
  have "mp uid = Some k" using assms core_inv_iff by blast
  moreover have "mp uid = Some j" if "j < length l" "l ! j = (uid, False)" for j
    using that assms(1) core_inv_iff by blast
  ultimately have only: "j = k" if "j < length l" "l ! j = (uid, False)" for j using that by simp
  have "(mp(uid := None)) u = Some j \<longleftrightarrow> j < length l \<and> l[k := (uid, True)] ! j = (u, False)" for u j
  proof (cases "u = uid")
    case True
    then show ?thesis using only[of j] assms(2) by (cases "j = k") auto
  next
    case False
    then show ?thesis using assms(3) core_inv_iff[OF assms(1), of u j] assms(2) by (cases "j = k") auto
  qed
  then show ?thesis using assms filter_closed[of k l "(uid, True)"] by simp
qed

lemma core_inv_add:
  assumes "core_inv (l, mp, wg)" "mp uid = None"
  shows "core_inv (l @ [(uid, False)], mp(uid \<mapsto> length l), wg + 1)"
proof -
  have "\<not> (j < length l \<and> l ! j = (uid, False))" for j
    using assms core_inv_iff[of l mp wg uid j] by simp
  then show ?thesis using assms(1) by (auto simp: nth_append less_Suc_eq split: if_splits)
qed

section \<open>Closing and adding a watcher\<close>

lemma closeWork_error: "closeWork cx k d wt s = (Inl e, s') \<Longrightarrow> isPanic e"
  by (auto simp: closeWork_def io_simps split: if_splits)

lemma core_close:
  assumes "core_inv (core s)" "k < length (ctWatchers s)" "\<not> wtIsClosed (ctWatchers s ! k)"
    and "core s2 = core (setW k (\<lambda>w. w\<lparr>wtIsClosed := True\<rparr>) s)"
  shows "core_inv (core (wgDone (removeWatcher k s2)))"
proof -
  define uid where "uid = wtUid (ctWatchers s ! k)"
  obtain l mp wg where c: "core s = (l, mp, wg)" by (cases "core s")
  have l: "k < length l" "l ! k = (uid, False)" using assms(2,3) c by (auto simp: core_def uid_def)
  have c2: "core s2 = (l[k := (uid, True)], mp, wg)"
    using assms(2,4) c by (auto simp: core_def setW_def uid_def map_update)
  have "mp uid = Some k" using l assms(1) core_inv_iff[of l mp wg uid k] by (simp add: c)
  moreover have "wtUid (ctWatchers s2 ! k) = uid"
  proof -
    have "length (ctWatchers s2) = length (fst (core s2))" by (simp add: core_def)
    then have "k < length (ctWatchers s2)" using l c2 by simp
    then have "wtUid (ctWatchers s2 ! k) = fst (fst (core s2) ! k)" by (simp add: core_def)
    then show ?thesis using c2 l by simp
  qed
  ultimately have "core (wgDone (removeWatcher k s2)) = (l[k := (uid, True)], mp(uid := None), wg - 1)"
    using c2 by (auto simp: core_def removeWatcher_def wgDone_def)
  moreover have "core_inv (l, mp, wg)" using assms(1) by (simp only: c)
  ultimately show ?thesis using core_inv_close[OF _ l] by (simp only:)
qed

lemma preserves_doClose: "preserves (inv_at k) (doClose cx k d)"
  unfolding preserves_def
proof (intro allI impI)
  fix s r s' assume I: "inv_at k s" and b: "doClose cx k d s = (r, s')" and p: "\<not> panicked r"
  define wt where "wt = ctWatchers s ! k"
  define s1 where "s1 = setW k (\<lambda>w. w\<lparr>wtIsClosed := True\<rparr>) s"
  obtain rc s2 where w: "closeWork cx k d wt s1 = (rc, s2)" by (cases "closeWork cx k d wt s1")
  show "inv_at k s'"
  proof (cases "wtIsClosed wt")
    case True
    then show ?thesis using b I by (simp add: doClose_def bindE_def getS_def retE_def wt_def)
  next
    case False
    have b': "doClose cx k d s =
        (case rc of Inl e \<Rightarrow> (Inl e, s2) | Inr _ \<Rightarrow> (Inr (), wgDone (removeWatcher k s2)))"
      using w False by (auto simp: doClose_def bindE_def getS_def modS_def wt_def s1_def split: sum.splits)
    with b p closeWork_error w have s': "s' = wgDone (removeWatcher k s2)"
      by (fastforce simp: panicked_def split: sum.splits)
    have c: "core s2 = core s1" using w keeps_closeWork by (fastforce simp: keeps_def)
    have "length (ctWatchers s') = length (ctWatchers s)"
      using core_length[OF c] by (simp add: s' s1_def wgDone_def removeWatcher_def Let_def setW_def)
    then show ?thesis using core_close[of s k s2] I False c s'
      by (simp add: inv_at_def ctl_inv_def s1_def wt_def)
  qed
qed

lemma core_add:
  "core_inv (core s) \<Longrightarrow> ctMap s (wtUid wt) = None \<Longrightarrow> \<not> wtIsClosed wt \<Longrightarrow> core_inv (core (addWatcher wt s))"
  using core_inv_add[of "map (\<lambda>w. (wtUid w, wtIsClosed w)) (ctWatchers s)" "ctMap s" "ctWg s" "wtUid wt"]
  by (simp add: core_def addWatcher_def del: core_inv.simps)

lemma newStatusWatcher_fields [simp]:
  "wtUid (newStatusWatcher ws b) = mdUid (wsMetadata ws)" "\<not> wtIsClosed (newStatusWatcher ws b)"
  by (simp_all add: newStatusWatcher_def)

lemma setWatcher_inv:
  assumes "ctl_inv s" "setWatcher ws b s = (r, s')"
  shows "(r = Inr None \<and> s' = s) \<or> (\<exists>k. r = Inr (Some k) \<and> inv_at k s')"
proof (cases "ctDone s \<or> ctMap s (mdUid (wsMetadata ws)) \<noteq> None")
  case True
  then show ?thesis using assms(2) by (simp add: setWatcher_def)
next
  case False
  define wt where "wt = newStatusWatcher ws b"
  have "core_inv (core (addWatcher wt s))"
    using assms(1) False core_add[of s wt] by (simp add: ctl_inv_def wt_def)
  moreover have "length (ctWatchers s) < length (ctWatchers (addWatcher wt s))" by (simp add: addWatcher_def)
  ultimately show ?thesis using assms(2) False by (auto simp: setWatcher_def inv_at_def ctl_inv_def wt_def)
qed

lemma preserves_setWatcher:
  assumes "preserves ctl_inv m" "\<And>k. preserves (inv_at k) (f k)"
  shows "preserves ctl_inv (bindE (setWatcher ws b) (\<lambda>o'. case o' of None \<Rightarrow> m | Some k \<Rightarrow> f k))"
  unfolding preserves_def
proof (intro allI impI)
  fix s r s' assume I: "ctl_inv s" and p: "\<not> panicked r"
    and b: "bindE (setWatcher ws b) (\<lambda>o'. case o' of None \<Rightarrow> m | Some k \<Rightarrow> f k) s = (r, s')"
  obtain rm sm where w: "setWatcher ws b s = (rm, sm)" by (cases "setWatcher ws b s")
  from setWatcher_inv[OF I w] show "ctl_inv s'"
  proof
    assume "rm = Inr None \<and> sm = s"
    with b w have "m s = (r, s')" by (simp add: bindE_def)
    with assms(1) I p show ?thesis unfolding preserves_def by blast
  next
    assume "\<exists>k. rm = Inr (Some k) \<and> inv_at k sm"
    then obtain k where k: "rm = Inr (Some k)" "inv_at k sm" by blast
    with b w have "f k sm = (r, s')" by (simp add: bindE_def)
    with assms(2)[of k] k(2) p have "inv_at k s'" unfolding preserves_def by blast
    then show ?thesis by (simp add: inv_at_def)
  qed
qed

section \<open>Every handler keeps the invariant\<close>

named_theorems preserves_intros \<open>how handlers keep an invariant\<close>

lemma preserves_pure [preserves_intros]:
  "preserves ctl_inv (retE x)" "preserves ctl_inv (throwE e)" "preserves ctl_inv (onWorld m)"
  by (rule keeps_preserves, rule keeps_pure)+

lemma preserves_if [preserves_intros]:
  "(c \<Longrightarrow> preserves I m) \<Longrightarrow> (\<not> c \<Longrightarrow> preserves I n) \<Longrightarrow> preserves I (if c then m else n)"
  by simp

lemma preserves_case_sum [preserves_intros]:
  "(\<And>e. preserves I (g e)) \<Longrightarrow> (\<And>x. preserves I (f x)) \<Longrightarrow> preserves I (case r of Inl e \<Rightarrow> g e | Inr x \<Rightarrow> f x)"
  by (simp split: sum.splits)

lemma preserves_case_option [preserves_intros]:
  "preserves I m \<Longrightarrow> (\<And>x. preserves I (f x)) \<Longrightarrow> preserves I (case o' of None \<Rightarrow> m | Some x \<Rightarrow> f x)"
  by (simp split: option.splits)

lemmas [preserves_intros] = preserves_doClose preserves_finallyE preserves_setWatcher

lemma preserves_handleStatus: "preserves (inv_at k) (handleStatus cx k st)"
  unfolding handleStatus_def
  by (intro preserves_bindE[OF keeps_preserves(2)] preserves_if preserves_finallyE preserves_doClose keeps_preserves(2)
      keeps_intros)

lemma preserves_goroutines:
  "preserves (inv_at k) (endSupervise cx k)" "preserves (inv_at k) (supervisorLost cx k)"
  "preserves (inv_at k) (healthCheckFailed cx k)" "preserves (inv_at k) (forceStopAndClose cx k)"
  "preserves (inv_at k) (cleanupStaleStoppingState cx k)"
proof -
  show sup: "preserves (inv_at k) (endSupervise cx k)"
    unfolding endSupervise_def
    by (intro preserves_bindE preserves_doClose keeps_preserves(2) keeps_intros)
  show "preserves (inv_at k) (supervisorLost cx k)"
    unfolding supervisorLost_def by (intro preserves_bindE sup keeps_preserves(2) keeps_intros)
  show "preserves (inv_at k) (healthCheckFailed cx k)"
    unfolding healthCheckFailed_def
    by (intro preserves_bindE preserves_if preserves_doClose) (intro keeps_preserves(2) keeps_intros)+
  show force: "preserves (inv_at k) (forceStopAndClose cx k)"
    unfolding forceStopAndClose_def by (intro preserves_bindE preserves_doClose keeps_preserves(2) keeps_intros)
  show "preserves (inv_at k) (cleanupStaleStoppingState cx k)"
    unfolding cleanupStaleStoppingState_def
    by (intro preserves_bindE preserves_if force) (intro keeps_preserves(2) keeps_intros)+
qed

lemma preserves_ResumeWorkspace [preserves_intros]: "preserves ctl_inv (ResumeWorkspace cx ws)"
  unfolding ResumeWorkspace_def
  by (intro preserves_if preserves_setWatcher keeps_preserves keeps_intros)

lemma preserves_startWorkspace [preserves_intros]: "preserves ctl_inv (startWorkspace cx ws)"
proof -
  have start: "preserves (inv_at k)
      (bindE (attempt (onWorld (doOnAdd cx ws))) (\<lambda>a. case a of
         Inl e \<Rightarrow> bindE (doClose cx k True) (\<lambda>_. throwE e) | Inr _ \<Rightarrow> spawn (Supervise k)))" for k
    by (intro preserves_bindE preserves_case_sum preserves_doClose; intro keeps_preserves(2) keeps_intros)
  have body: "preserves ctl_inv (case r of
      Inl (VolumeMountError vol msg) \<Rightarrow>
        onWorld (setWorkspaceStartFailure cx ws
          (volumeStartFailure vol (vErrString (eValidators (cxEnv cx)) (VolumeMountError vol msg))))
    | Inl e \<Rightarrow> throwE e
    | Inr _ \<Rightarrow> bindE (setWatcher ws False) (\<lambda>o'. case o' of None \<Rightarrow> retE () | Some k \<Rightarrow>
        bindE (attempt (onWorld (doOnAdd cx ws))) (\<lambda>a. case a of
         Inl e \<Rightarrow> bindE (doClose cx k True) (\<lambda>_. throwE e) | Inr _ \<Rightarrow> spawn (Supervise k))))" for r
    by (cases r; simp split: err.splits; intro allI impI conjI preserves_pure preserves_setWatcher start)
  show ?thesis
    unfolding startWorkspace_def
    by (rule preserves_bindE[OF keeps_preserves(1)], intro keeps_intros,
        rule preserves_bindE[OF keeps_preserves(1)], intro keeps_intros, rule body)
qed

lemma preserves_events:
  "preserves ctl_inv (OnAdd cx ws)" "preserves ctl_inv (OnUpdate cx ws old)" "preserves ctl_inv (OnDelete cx ws)"
proof -
  show "preserves ctl_inv (OnAdd cx ws)"
    unfolding OnAdd_def Let_def
    by (intro preserves_bindE preserves_if preserves_startWorkspace preserves_ResumeWorkspace;
        intro keeps_preserves(1) keeps_intros)
  show "preserves ctl_inv (OnUpdate cx ws old)"
    unfolding OnUpdate_def
    by (intro preserves_if preserves_startWorkspace; intro keeps_preserves(1) keeps_intros)
  show "preserves ctl_inv (OnDelete cx ws)"
    unfolding OnDelete_def by (intro keeps_preserves(1) keeps_intros)
qed

section \<open>The controller as a transition system\<close>

text \<open>
  What can happen to a controller: an event of the resource server, a message of a supervisor or
  the end of its watcher's goroutine, the goroutines that close a watcher, the end of the main
  context, a change of the world by anybody else. A handler runs as one step. The relation allows
  more interleavings than the program has (a goroutine of a watcher may run at any time), and an
  invariant of it holds in the program. A handler that panics ends the process.
\<close>

datatype 'w event =
    EvAdd workspace
  | EvUpdate workspace workspace
  | EvDelete workspace
  | EvStatus nat ws_state
  | EvReady nat
  | EvLost nat
  | EvHealthCheckFailed nat
  | EvEnd nat
  | EvForceStop nat
  | EvStale nat
  | EvDone
  | EvWorld "'w \<Rightarrow> 'w"

fun handleCtlEvent :: "'w ctl_env \<Rightarrow> 'w event \<Rightarrow> ('w ctl, unit) io" where
  "handleCtlEvent cx (EvAdd ws) = OnAdd cx ws"
| "handleCtlEvent cx (EvUpdate new old) = OnUpdate cx new old"
| "handleCtlEvent cx (EvDelete ws) = OnDelete cx ws"
| "handleCtlEvent cx (EvStatus k st) = handleStatus cx k st"
| "handleCtlEvent cx (EvReady k) = supervisorReady k"
| "handleCtlEvent cx (EvLost k) = supervisorLost cx k"
| "handleCtlEvent cx (EvHealthCheckFailed k) = healthCheckFailed cx k"
| "handleCtlEvent cx (EvEnd k) = endSupervise cx k"
| "handleCtlEvent cx (EvForceStop k) = forceStopAndClose cx k"
| "handleCtlEvent cx (EvStale k) = cleanupStaleStoppingState cx k"
| "handleCtlEvent cx EvDone = modS (\<lambda>s. s\<lparr>ctDone := True\<rparr>)"
| "handleCtlEvent cx (EvWorld f) = modS (\<lambda>s. s\<lparr>ctWorld := f (ctWorld s)\<rparr>)"

fun eventWatcher :: "'w event \<Rightarrow> nat option" where
  "eventWatcher (EvStatus k _) = Some k"
| "eventWatcher (EvReady k) = Some k"
| "eventWatcher (EvLost k) = Some k"
| "eventWatcher (EvHealthCheckFailed k) = Some k"
| "eventWatcher (EvEnd k) = Some k"
| "eventWatcher (EvForceStop k) = Some k"
| "eventWatcher (EvStale k) = Some k"
| "eventWatcher _ = None"

definition newController :: "'w \<Rightarrow> 'w ctl" where
  "newController w = \<lparr>ctWorld = w, ctWatchers = [], ctMap = Map.empty, ctWg = 0, ctTasks = [], ctDone = False\<rparr>"

definition ctl_init :: "'w ctl \<Rightarrow> bool" where
  "ctl_init s \<longleftrightarrow> (\<exists>w. s = newController w)"

inductive ctl_step :: "'w ctl_env \<Rightarrow> 'w ctl \<Rightarrow> 'w ctl \<Rightarrow> bool" for cx where
  event: "(case eventWatcher ev of None \<Rightarrow> True | Some k \<Rightarrow> k < length (ctWatchers s)) \<Longrightarrow>
    handleCtlEvent cx ev s = (r, s') \<Longrightarrow> \<not> panicked r \<Longrightarrow> ctl_step cx s s'"

inductive_cases ctl_stepE: "ctl_step cx s s'"

lemma keeps_others: "keeps (modS (\<lambda>s. s\<lparr>ctDone := d\<rparr>))" "keeps (modS (\<lambda>s. s\<lparr>ctWorld := f (ctWorld s)\<rparr>))"
  by (simp_all add: keeps_def modS_def core_def)

lemma event_other: "eventWatcher ev = None \<Longrightarrow> preserves ctl_inv (handleCtlEvent cx ev)"
  by (cases ev) (simp_all add: preserves_events keeps_preserves(1) keeps_others)

lemma event_watcher:
  assumes "eventWatcher ev = Some k"
  shows "preserves (inv_at k) (handleCtlEvent cx ev)"
  using assms by (cases ev) (auto intro: preserves_handleStatus preserves_goroutines keeps_preserves(2) keeps_flags)

lemma ctl_inv_init: "ctl_init s \<Longrightarrow> ctl_inv s"
  by (auto simp: ctl_init_def newController_def ctl_inv_def core_def)

lemma ctl_inv_step:
  assumes "ctl_inv s" "ctl_step cx s s'"
  shows "ctl_inv s'"
  using assms(2)
proof (rule ctl_stepE)
  fix ev r assume ev: "case eventWatcher ev of None \<Rightarrow> True | Some k \<Rightarrow> k < length (ctWatchers s)"
    and h: "handleCtlEvent cx ev s = (r, s')" and p: "\<not> panicked r"
  show "ctl_inv s'"
  proof (cases "eventWatcher ev")
    case None
    from event_other[OF this] assms(1) h p show ?thesis unfolding preserves_def by blast
  next
    case (Some k)
    with ev assms(1) have "inv_at k s" by (simp add: inv_at_def)
    with event_watcher[OF Some] h p have "inv_at k s'" unfolding preserves_def by blast
    then show ?thesis by (simp add: inv_at_def)
  qed
qed

interpretation ctl_life: step_invariant ctl_init "ctl_step cx" ctl_inv for cx :: "'w ctl_env"
  by unfold_locales (auto intro: ctl_inv_init ctl_inv_step)

text \<open>What the invariant says of the watchers.\<close>

lemma ctl_inv_map:
  assumes "ctl_inv s"
  shows "ctMap s uid = Some k \<longleftrightarrow>
    k < length (ctWatchers s) \<and> wtUid (ctWatchers s ! k) = uid \<and> \<not> wtIsClosed (ctWatchers s ! k)"
  using assms by (auto simp: ctl_inv_def core_def)

lemma ctl_inv_wg:
  assumes "ctl_inv s"
  shows "ctWg s = int (length (filter (\<lambda>w. \<not> wtIsClosed w) (ctWatchers s)))"
  using assms by (simp add: ctl_inv_def core_def filter_map comp_def)

text \<open>
  C3: A controller that was started and went through any events: its map has, for the UID of a
  Workspace, exactly the open watcher of it; no two open watchers belong to the same Workspace,
  so a Workspace is never supervised twice; and the wait group counts the open watchers, so it
  never falls below zero and the shutdown waits for every one of them.
\<close>

theorem one_watcher_per_Workspace:
  assumes "ctl_init s0" "(ctl_step cx)\<^sup>*\<^sup>* s0 s"
  shows "(ctMap s uid = Some k \<longleftrightarrow>
           k < length (ctWatchers s) \<and> wtUid (ctWatchers s ! k) = uid \<and> \<not> wtIsClosed (ctWatchers s ! k))
    \<and> (\<forall>j. j < length (ctWatchers s) \<and> \<not> wtIsClosed (ctWatchers s ! j)
          \<and> k < length (ctWatchers s) \<and> \<not> wtIsClosed (ctWatchers s ! k)
          \<and> wtUid (ctWatchers s ! j) = wtUid (ctWatchers s ! k) \<longrightarrow> j = k)
    \<and> ctWg s = int (length (filter (\<lambda>w. \<not> wtIsClosed w) (ctWatchers s)))"
proof -
  have inv: "ctl_inv s" using ctl_life.reachable_inv assms by blast
  show ?thesis
  proof (intro conjI allI impI)
    show "ctMap s uid = Some k \<longleftrightarrow>
        k < length (ctWatchers s) \<and> wtUid (ctWatchers s ! k) = uid \<and> \<not> wtIsClosed (ctWatchers s ! k)"
      by (rule ctl_inv_map[OF inv])
    show "ctWg s = int (length (filter (\<lambda>w. \<not> wtIsClosed w) (ctWatchers s)))" by (rule ctl_inv_wg[OF inv])
  next
    fix j assume "j < length (ctWatchers s) \<and> \<not> wtIsClosed (ctWatchers s ! j)
      \<and> k < length (ctWatchers s) \<and> \<not> wtIsClosed (ctWatchers s ! k)
      \<and> wtUid (ctWatchers s ! j) = wtUid (ctWatchers s ! k)"
    then have "ctMap s (wtUid (ctWatchers s ! k)) = Some j" "ctMap s (wtUid (ctWatchers s ! k)) = Some k"
      by (simp_all add: ctl_inv_map[OF inv])
    then show "j = k" by simp
  qed
qed

end
