(* ===== verification/Ctl_Effects.thy ===== *)
theory Ctl_Effects
  imports Ctl_Invariant
begin

text \<open>
  What the controllers do to the cluster: every call that changes it, and what it writes. The
  writes of a Workspace are steps of its life cycle, and nothing else of the API is written but
  the state of Volumes and WorkspaceSnapshots and the builds of Templates.
\<close>

section \<open>The calls\<close>

text \<open>What a controller never changes of a Volume and of a Template.\<close>

definition volIdentity :: "volume \<Rightarrow> metadata \<times> u32 option \<times> access_mode \<times> object_ref option \<times> object_ref option \<times> object_ref option" where
  "volIdentity v = (volMetadata v, volSize v, volAccessMode v, volSpaceRef v, volUserRef v, volRegionRef v)"

inductive vol_step :: "volume \<Rightarrow> volume \<Rightarrow> bool" where
  fail: "vol_step v (failVolume f v)"
| status: "vol_step v (volumeStatusOf now p v)"

lemma vol_step_identity: "vol_step v v' \<Longrightarrow> volIdentity v' = volIdentity v"
  by (induction rule: vol_step.induct) (auto simp: volIdentity_def failVolume_def volumeStatusOf_def setCapacity_def Let_def
      split: claim_phase.splits option.splits)

lemma snap_step_creating: "snap_step sn sn' \<Longrightarrow> Snapshot_IsCreating (Some sn)"
  by (erule snap_stepE)

text \<open>What a controller never changes of a Workspace: besides its \<open>identity\<close> its metadata and its spec.\<close>

definition keepsWorkspace :: "workspace \<Rightarrow> workspace \<Rightarrow> bool" where
  "keepsWorkspace ws ws' \<longleftrightarrow> wsMetadata ws' = wsMetadata ws \<and> wsSpec ws' = wsSpec ws \<and> identity ws' = identity ws"

text \<open>
  The steps of a Workspace that controllers take, with the guards of their code. \<open>timed_out\<close> is the
  watchdog's; moving a Workspace to STOPPED is its stale step, all others are steps of \<open>ws_step\<close>.
\<close>

inductive ctl_ws_step :: "workspace \<Rightarrow> workspace \<Rightarrow> bool" where
  report: "st \<noteq> WS_UNKNOWN \<Longrightarrow> st \<noteq> wsState ws \<Longrightarrow> ctl_ws_step ws (onStatus (reportState now started st) ws)"
| running_again: "wsState ws = RUNNING \<Longrightarrow> stFailure (wsStatus ws) \<noteq> None \<Longrightarrow>
    ctl_ws_step ws (onStatus (\<lambda>s. s\<lparr>stFailure := None\<rparr>) ws)"
| shutdown_failed: "wsState ws \<noteq> STOPPED \<Longrightarrow> wsState ws \<noteq> WS_UNKNOWN \<Longrightarrow>
    ctl_ws_step ws (onStatus (shutdownFailed now) ws)"
| start_failed: "ctl_ws_step ws (onStatus (startFailed now f) ws)"
| failure: "stFailure (wsStatus ws) \<noteq> None \<or> fo \<noteq> None \<Longrightarrow> ctl_ws_step ws (onStatus (recordFailure fo) ws)"
| timed_out: "wsState ws \<noteq> st \<Longrightarrow> st = STOPPED \<or> st = STOPPING_REQUEST \<Longrightarrow>
    ctl_ws_step ws (onStatus (watchdogState now st) ws)"

lemma ctl_ws_step_lifecycle: "ctl_ws_step ws ws' \<Longrightarrow> ws_step ws ws' \<or> stale_step ws ws'"
  by (induction rule: ctl_ws_step.induct) (auto intro: ws_step.intros stale_step.intros)

lemma ctl_ws_step_keeps: "ctl_ws_step ws ws' \<Longrightarrow> keepsWorkspace ws ws'"
proof (induction rule: ctl_ws_step.induct)
  case (report st ws now started)
  then show ?case by (auto simp: keepsWorkspace_def identity_def reportState_cases moveTo_def leaveRegion_def closeRun_def)
next
  case (failure ws fo)
  then show ?case by (cases fo) (simp_all add: keepsWorkspace_def identity_def recordFailure_def Let_def)
qed (simp_all add: keepsWorkspace_def identity_def status_defs)

text \<open>
  The versions of resources that a handler has: those its event brought and those it has read. A call
  may change the world \<open>w\<close>, and a read adds to the versions \<open>K\<close>. A resource is only written as a step
  from a version that the handler has; that nobody else wrote it meanwhile is checked by the
  resource server.
\<close>

datatype version = WsVersion workspace | SnapVersion snapshot | VolVersion volume | TmplVersion template

inductive ctl_call :: "'w ctl_env \<Rightarrow> 'w \<times> version set \<Rightarrow> 'w \<times> version set \<Rightarrow> bool" for cx where
  read_workspace: "cGet (eWorkspaces (cxEnv cx)) g w = Inr ws \<Longrightarrow> ctl_call cx (w, K) (w, insert (WsVersion ws) K)"
| read_template: "cGet (eTemplates (cxEnv cx)) g w = Inr t \<Longrightarrow> ctl_call cx (w, K) (w, insert (TmplVersion t) K)"
| workspace: "WsVersion ws \<in> K \<Longrightarrow> ctl_ws_step ws ws' \<Longrightarrow> ws_step ws ws' \<or> stale_step ws ws' \<Longrightarrow>
    keepsWorkspace ws ws' \<Longrightarrow> cUpdate (eWorkspaces (cxEnv cx)) ws' w = (r, w') \<Longrightarrow> ctl_call cx (w, K) (w', K)"
| snapshot: "SnapVersion sn \<in> K \<Longrightarrow> Snapshot_IsCreating (Some sn) \<Longrightarrow> snap_step sn sn' \<Longrightarrow>
    snap_source sn' = snap_source sn \<Longrightarrow> cUpdate (eSnapshots (cxEnv cx)) sn' w = (rs, w') \<Longrightarrow> ctl_call cx (w, K) (w', K)"
| volume: "VolVersion v \<in> K \<Longrightarrow> vol_step v v' \<Longrightarrow> volIdentity v' = volIdentity v \<Longrightarrow>
    cUpdate (eVolumes (cxEnv cx)) v' w = (rv, w') \<Longrightarrow> ctl_call cx (w, K) (w', K)"
| template: "TmplVersion t \<in> K \<Longrightarrow> cUpdate (eTemplates (cxEnv cx)) (t\<lparr>tmBuildInfo := b\<rparr>) w = (rt, w') \<Longrightarrow>
    ctl_call cx (w, K) (w', K)"
| delete_build: "WsVersion ws \<in> K \<Longrightarrow> stIsBuild (wsStatus ws) \<Longrightarrow>
    cDelete (eWorkspaces (cxEnv cx)) (byUid (mdUid (wsMetadata ws))) w = (ru, w') \<Longrightarrow> ctl_call cx (w, K) (w', K)"
| delete_session: "cDelete (eSessions (cxEnv cx)) o' w = (ru, w') \<Longrightarrow> ctl_call cx (w, K) (w', K)"
| claim: "kCreate (cxPVCs cx) p w = (rp, w') \<Longrightarrow> ctl_call cx (w, K) (w', K)"
| claim_update: "kUpdate (cxPVCs cx) p w = (rp, w') \<Longrightarrow> ctl_call cx (w, K) (w', K)"
| claim_delete: "kDelete (cxPVCs cx) n w = (ru, w') \<Longrightarrow> ctl_call cx (w, K) (w', K)"
| volume_snapshot: "kCreate (cxSnaps cx) vs w = (rvs, w') \<Longrightarrow> ctl_call cx (w, K) (w', K)"
| volume_snapshot_delete: "kDelete (cxSnaps cx) n w = (ru, w') \<Longrightarrow> ctl_call cx (w, K) (w', K)"
| config_map: "kCreate (cxConfigMaps cx) cm w = (rc, w') \<Longrightarrow> ctl_call cx (w, K) (w', K)"
| config_map_delete: "kDelete (cxConfigMaps cx) n w = (ru, w') \<Longrightarrow> ctl_call cx (w, K) (w', K)"
| deployment: "kCreate (cxDeployments cx) d w = (rd, w') \<Longrightarrow> ctl_call cx (w, K) (w', K)"
| service: "kCreate (cxServices cx) sv w = (rsv, w') \<Longrightarrow> ctl_call cx (w, K) (w', K)"
| shutdown: "supShutdown (cxSup cx) ws w = (ru, w') \<Longrightarrow> ctl_call cx (w, K) (w', K)"
| get_failure: "supGetFailure (cxSup cx) ws w = (rf, w') \<Longrightarrow> ctl_call cx (w, K) (w', K)"
| shutdown_ack: "supShutdownAck (cxSup cx) ws w = (ru, w') \<Longrightarrow> ctl_call cx (w, K) (w', K)"
| initialize: "supInitialize (cxSup cx) ws q w = (ru, w') \<Longrightarrow> ctl_call cx (w, K) (w', K)"

lemma ctl_call_versions: "(ctl_call cx)\<^sup>*\<^sup>* a b \<Longrightarrow> snd a \<subseteq> snd b"
proof (induction rule: rtranclp_induct)
  case (step b c)
  from step.hyps(2) have "snd b \<subseteq> snd c"
    by cases auto
  with step.IH show ?case by simp
qed simp

text \<open>A run of a handler that has the versions \<open>A\<close> at first.\<close>

definition ctl_run :: "'w ctl_env \<Rightarrow> version set \<Rightarrow> 'w \<Rightarrow> 'w \<Rightarrow> bool" where
  "ctl_run cx A w w' \<longleftrightarrow> (\<exists>K. (ctl_call cx)\<^sup>*\<^sup>* (w, A) (w', K))"

text \<open>
  The calls of a handler, whose state has the world as its part \<open>pr\<close>: the state is the world itself,
  or the state of the controller. When it succeeds with \<open>x\<close> it has also read \<open>Q x\<close>.
\<close>

definition learns :: "'w ctl_env \<Rightarrow> ('s \<Rightarrow> 'w) \<Rightarrow> version set \<Rightarrow> ('s, 'a) io \<Rightarrow> ('a \<Rightarrow> version set) \<Rightarrow> bool" where
  "learns cx pr A m Q \<longleftrightarrow> (\<forall>s r s' K. m s = (r, s') \<longrightarrow> A \<subseteq> K \<longrightarrow>
     (\<exists>K'. (ctl_call cx)\<^sup>*\<^sup>* (pr s, K) (pr s', K') \<and> (\<forall>x. r = Inr x \<longrightarrow> Q x \<subseteq> K')))"

definition effects :: "'w ctl_env \<Rightarrow> ('s \<Rightarrow> 'w) \<Rightarrow> version set \<Rightarrow> ('s, 'a) io \<Rightarrow> bool" where
  "effects cx pr A m \<longleftrightarrow> learns cx pr A m (\<lambda>_. {})"

abbreviation acts :: "'w ctl_env \<Rightarrow> version set \<Rightarrow> ('w, 'a) io \<Rightarrow> bool" where
  "acts cx \<equiv> effects cx (\<lambda>w. w)"

abbreviation actsC :: "'w ctl_env \<Rightarrow> version set \<Rightarrow> ('w ctl, 'a) io \<Rightarrow> bool" where
  "actsC cx \<equiv> effects cx ctWorld"

named_theorems effects_intros \<open>handlers that only make the calls of the controllers\<close>

section \<open>Composition\<close>

lemma effectsI:
  "(\<And>s r s' K. m s = (r, s') \<Longrightarrow> A \<subseteq> K \<Longrightarrow> \<exists>K'. (ctl_call cx)\<^sup>*\<^sup>* (pr s, K) (pr s', K')) \<Longrightarrow> effects cx pr A m"
  by (simp add: effects_def learns_def)

lemma effectsD:
  "effects cx pr A m \<Longrightarrow> m s = (r, s') \<Longrightarrow> A \<subseteq> K \<Longrightarrow> \<exists>K'. (ctl_call cx)\<^sup>*\<^sup>* (pr s, K) (pr s', K')"
  by (auto simp: effects_def learns_def)

lemma effects_quiet: "(\<And>s r s'. m s = (r, s') \<Longrightarrow> pr s' = pr s) \<Longrightarrow> effects cx pr A m"
  by (rule effectsI) (metis rtranclp.rtrancl_refl)

lemma effects_pure [effects_intros]:
  "effects cx pr A (retE x)" "effects cx pr A (throwE e)" "effects cx pr A (readE g)" "effects cx pr A (checkE ch)"
  "effects cx pr A (throw_if b e)" "effects cx pr A (liftE l)" "effects cx pr A (deref d)"
  by (rule effects_quiet, auto simp: retE_def throwE_def readE_def checkE_def throw_if_def liftE_def deref_def
      split: option.splits sum.splits if_splits prod.splits)+

lemma effects_bindE_learns:
  assumes m: "learns cx pr A m Q" and f: "\<And>s x s'. m s = (Inr x, s') \<Longrightarrow> effects cx pr (A \<union> Q x) (f x)"
  shows "effects cx pr A (bindE m f)"
proof (rule effectsI)
  fix s r s' K assume b: "bindE m f s = (r, s')" and K: "A \<subseteq> K"
  obtain rm sm where ms: "m s = (rm, sm)" by (cases "m s")
  with m K obtain K1 where 1: "(ctl_call cx)\<^sup>*\<^sup>* (pr s, K) (pr sm, K1)" and Q: "\<And>x. rm = Inr x \<Longrightarrow> Q x \<subseteq> K1"
    unfolding learns_def by blast
  show "\<exists>K'. (ctl_call cx)\<^sup>*\<^sup>* (pr s, K) (pr s', K')"
  proof (cases rm)
    case (Inl e)
    with b ms have "s' = sm" by (simp add: bindE_def)
    then show ?thesis using 1 by blast
  next
    case (Inr x)
    with b ms have fx: "f x sm = (r, s')" by (simp add: bindE_def)
    have "A \<union> Q x \<subseteq> K1" using ctl_call_versions[OF 1] K Q[OF Inr] by auto
    then obtain K2 where "(ctl_call cx)\<^sup>*\<^sup>* (pr sm, K1) (pr s', K2)"
      using effectsD[OF f[OF ms[unfolded Inr]] fx] by blast
    with 1 show ?thesis by (meson rtranclp_trans)
  qed
qed

lemma effects_bindE_res:
  assumes "effects cx pr A m" "\<And>s x s'. m s = (Inr x, s') \<Longrightarrow> effects cx pr A (f x)"
  shows "effects cx pr A (bindE m f)"
  using assms by (intro effects_bindE_learns[where Q = "\<lambda>_. {}"]) (simp_all add: effects_def)

lemma effects_bindE [effects_intros]:
  "effects cx pr A m \<Longrightarrow> (\<And>x. effects cx pr A (f x)) \<Longrightarrow> effects cx pr A (bindE m f)"
  by (rule effects_bindE_res)

lemma effects_finallyE [effects_intros]:
  assumes "effects cx pr A m" "effects cx pr A n"
  shows "effects cx pr A (finallyE m n)"
proof (rule effectsI)
  fix s r s' K assume b: "finallyE m n s = (r, s')" and K: "A \<subseteq> K"
  obtain rm sm where m: "m s = (rm, sm)" by (cases "m s")
  obtain rn sn where n: "n sm = (rn, sn)" by (cases "n sm")
  have "sn = s'" using b m n by (auto simp: finallyE_def split: sum.splits)
  obtain K1 where 1: "(ctl_call cx)\<^sup>*\<^sup>* (pr s, K) (pr sm, K1)"
    using effectsD[OF assms(1) m K] by blast
  obtain K2 where "(ctl_call cx)\<^sup>*\<^sup>* (pr sm, K1) (pr sn, K2)"
    using effectsD[OF assms(2) n, of K1] ctl_call_versions[OF 1] K by auto
  with 1 \<open>sn = s'\<close> show "\<exists>K'. (ctl_call cx)\<^sup>*\<^sup>* (pr s, K) (pr s', K')"
    by (meson rtranclp_trans)
qed

lemma learns_attempt:
  "learns cx pr A m Q \<Longrightarrow> learns cx pr A (attempt m) (\<lambda>x. case x of Inl _ \<Rightarrow> {} | Inr y \<Rightarrow> Q y)"
  unfolding learns_def
proof (intro allI impI)
  fix s r s' K
  assume m: "\<forall>s r s' K. m s = (r, s') \<longrightarrow> A \<subseteq> K \<longrightarrow>
      (\<exists>K'. (ctl_call cx)\<^sup>*\<^sup>* (pr s, K) (pr s', K') \<and> (\<forall>x. r = Inr x \<longrightarrow> Q x \<subseteq> K'))"
    and a: "attempt m s = (r, s')" and K: "A \<subseteq> K"
  obtain r0 where r0: "m s = (r0, s')" and r: "\<And>y. r = Inr (Inr y) \<Longrightarrow> r0 = Inr y"
    using a by (auto simp: attempt_def split: prod.splits sum.splits if_splits)
  from m r0 K obtain K' where "(ctl_call cx)\<^sup>*\<^sup>* (pr s, K) (pr s', K')" "\<forall>x. r0 = Inr x \<longrightarrow> Q x \<subseteq> K'"
    by blast
  then show "\<exists>K'. (ctl_call cx)\<^sup>*\<^sup>* (pr s, K) (pr s', K')
      \<and> (\<forall>x. r = Inr x \<longrightarrow> (case x of Inl _ \<Rightarrow> {} | Inr y \<Rightarrow> Q y) \<subseteq> K')"
    using r by (intro exI[of _ K']) (auto split: sum.splits)
qed

lemma effects_attempt [effects_intros]: "effects cx pr A m \<Longrightarrow> effects cx pr A (attempt m)"
  using learns_attempt[of cx pr A m "\<lambda>_. {}"] by (simp add: effects_def learns_def)

lemma effects_mapErrE [effects_intros]:
  assumes "effects cx pr A m"
  shows "effects cx pr A (mapErrE f m)"
proof (rule effectsI)
  fix s r s' K assume "mapErrE f m s = (r, s')" and K: "A \<subseteq> K"
  then obtain r0 where "m s = (r0, s')"
    by (auto simp: mapErrE_def split: prod.splits sum.splits)
  from effectsD[OF assms this K] show "\<exists>K'. (ctl_call cx)\<^sup>*\<^sup>* (pr s, K) (pr s', K')" .
qed

lemma effects_if [effects_intros]:
  "(c \<Longrightarrow> effects cx pr A m) \<Longrightarrow> (\<not> c \<Longrightarrow> effects cx pr A n) \<Longrightarrow> effects cx pr A (if c then m else n)"
  by simp

lemma effects_case_option [effects_intros]:
  "(o' = None \<Longrightarrow> effects cx pr A m) \<Longrightarrow> (\<And>x. o' = Some x \<Longrightarrow> effects cx pr A (f x)) \<Longrightarrow>
   effects cx pr A (case o' of None \<Rightarrow> m | Some x \<Rightarrow> f x)"
  by (simp split: option.splits)

lemma effects_case_sum [effects_intros]:
  "(\<And>e. effects cx pr A (g e)) \<Longrightarrow> (\<And>x. effects cx pr A (f x)) \<Longrightarrow>
   effects cx pr A (case r of Inl e \<Rightarrow> g e | Inr x \<Rightarrow> f x)"
  by (simp split: sum.splits)

lemma effects_case_prod [effects_intros]:
  "(\<And>x y. effects cx pr A (f x y)) \<Longrightarrow> effects cx pr A (case p of (x, y) \<Rightarrow> f x y)"
  by (simp split: prod.splits)

lemma effects_forE [effects_intros]: "(\<And>x. effects cx pr A (f x)) \<Longrightarrow> effects cx pr A (forE xs f)"
  by (induction xs) (auto intro!: effects_intros)

lemma effects_ignoreErr [effects_intros]: "effects cx pr A m \<Longrightarrow> effects cx pr A (ignoreErr ok m)"
  unfolding ignoreErr_def by (intro effects_intros)

lemma effects_logErr [effects_intros]: "effects cx pr A m \<Longrightarrow> effects cx pr A (logErr m)"
  unfolding logErr_def by (intro effects_intros)

lemma effects_getOpt [effects_intros]: "acts cx A (getOpt cx' c o')"
  unfolding getOpt_def by (intro effects_intros)

lemma effects_onWorld [effects_intros]: "acts cx A m \<Longrightarrow> actsC cx A (onWorld m)"
  by (rule effectsI) (auto simp: onWorld_def effects_def learns_def split: prod.splits)

section \<open>Reads\<close>

lemma learns_cGet:
  "learns cx (\<lambda>w. w) A (readE (cGet (eWorkspaces (cxEnv cx)) g)) (\<lambda>ws. {WsVersion ws})"
  "learns cx (\<lambda>w. w) A (readE (cGet (eTemplates (cxEnv cx)) g)) (\<lambda>t. {TmplVersion t})"
proof -
  have ws: "\<exists>K'. (ctl_call cx)\<^sup>*\<^sup>* (w, K) (w, K') \<and> (\<forall>x. cGet (eWorkspaces (cxEnv cx)) g w = Inr x \<longrightarrow> {WsVersion x} \<subseteq> K')" for w K
  proof (cases "cGet (eWorkspaces (cxEnv cx)) g w")
    case (Inr x)
    then show ?thesis by (intro exI[of _ "insert (WsVersion x) K"]) (auto intro: ctl_call.read_workspace)
  qed auto
  have tmpl: "\<exists>K'. (ctl_call cx)\<^sup>*\<^sup>* (w, K) (w, K') \<and> (\<forall>x. cGet (eTemplates (cxEnv cx)) g w = Inr x \<longrightarrow> {TmplVersion x} \<subseteq> K')" for w K
  proof (cases "cGet (eTemplates (cxEnv cx)) g w")
    case (Inr x)
    then show ?thesis by (intro exI[of _ "insert (TmplVersion x) K"]) (auto intro: ctl_call.read_template)
  qed auto
  show "learns cx (\<lambda>w. w) A (readE (cGet (eWorkspaces (cxEnv cx)) g)) (\<lambda>ws. {WsVersion ws})"
    "learns cx (\<lambda>w. w) A (readE (cGet (eTemplates (cxEnv cx)) g)) (\<lambda>t. {TmplVersion t})"
    unfolding learns_def readE_def using ws tmpl by auto
qed

lemma learns_getOpt_of:
  assumes "learns cx (\<lambda>w. w) A (readE (cGet c g)) Q"
  shows "learns cx (\<lambda>w. w) A (getOpt cx c g) (\<lambda>o'. case o' of None \<Rightarrow> {} | Some x \<Rightarrow> Q x)"
  unfolding learns_def
proof (intro allI impI)
  fix w r w' K assume g: "getOpt cx c g w = (r, w')" and K: "A \<subseteq> K"
  have w: "w' = w" and r: "\<And>x. r = Inr (Some x) \<Longrightarrow> cGet c g w = Inr x"
    using g by (auto simp: getOpt_def bindE_def attempt_def readE_def retE_def throwE_def split: sum.splits if_splits)
  from assms K obtain K' where K': "(ctl_call cx)\<^sup>*\<^sup>* (w, K) (w, K')" "\<forall>x. cGet c g w = Inr x \<longrightarrow> Q x \<subseteq> K'"
    unfolding learns_def readE_def by (metis (no_types, lifting))
  with w r show "\<exists>K'. (ctl_call cx)\<^sup>*\<^sup>* (w, K) (w', K') \<and>
      (\<forall>x. r = Inr x \<longrightarrow> (case x of None \<Rightarrow> {} | Some x \<Rightarrow> Q x) \<subseteq> K')"
    by (intro exI[of _ K']) (auto split: option.splits)
qed

lemma learns_onWorld: "learns cx (\<lambda>w. w) A m Q \<Longrightarrow> learns cx ctWorld A (onWorld m) Q"
  by (fastforce simp: learns_def onWorld_def split: prod.splits)

text \<open>What follows a read has the version that was read.\<close>

lemma effects_reads:
  "(\<And>ws. acts cx (insert (WsVersion ws) A) (f ws)) \<Longrightarrow> acts cx A (bindE (readE (cGet (eWorkspaces (cxEnv cx)) g)) f)"
  "acts cx A (h None) \<Longrightarrow> (\<And>ws. acts cx (insert (WsVersion ws) A) (h (Some ws))) \<Longrightarrow>
    acts cx A (bindE (getOpt cx (eWorkspaces (cxEnv cx)) g) h)"
  "acts cx A (k None) \<Longrightarrow> (\<And>t. acts cx (insert (TmplVersion t) A) (k (Some t))) \<Longrightarrow>
    acts cx A (bindE (getOpt cx (eTemplates (cxEnv cx)) g) k)"
  "actsC cx A (hc None) \<Longrightarrow> (\<And>ws. actsC cx (insert (WsVersion ws) A) (hc (Some ws))) \<Longrightarrow>
    actsC cx A (bindE (onWorld (getOpt cx (eWorkspaces (cxEnv cx)) g)) hc)"
proof -
  have opt: "effects cx pr (A \<union> (case o' of None \<Rightarrow> {} | Some x \<Rightarrow> {V x})) (h o')"
    if "effects cx pr A (h None)" "\<And>x. effects cx pr (insert (V x) A) (h (Some x))" for pr V h o'
    using that by (cases o') simp_all
  show "acts cx A (bindE (readE (cGet (eWorkspaces (cxEnv cx)) g)) f)"
    if "\<And>ws. acts cx (insert (WsVersion ws) A) (f ws)"
    by (rule effects_bindE_learns[OF learns_cGet(1)]) (simp add: that)
  show "acts cx A (bindE (getOpt cx (eWorkspaces (cxEnv cx)) g) h)"
    if "acts cx A (h None)" "\<And>ws. acts cx (insert (WsVersion ws) A) (h (Some ws))"
    by (rule effects_bindE_learns[OF learns_getOpt_of[OF learns_cGet(1)]]) (rule opt[OF that])
  show "acts cx A (bindE (getOpt cx (eTemplates (cxEnv cx)) g) k)"
    if "acts cx A (k None)" "\<And>t. acts cx (insert (TmplVersion t) A) (k (Some t))"
    by (rule effects_bindE_learns[OF learns_getOpt_of[OF learns_cGet(2)]]) (rule opt[OF that])
  show "actsC cx A (bindE (onWorld (getOpt cx (eWorkspaces (cxEnv cx)) g)) hc)"
    if "actsC cx A (hc None)" "\<And>ws. actsC cx (insert (WsVersion ws) A) (hc (Some ws))"
    by (rule effects_bindE_learns[OF learns_onWorld[OF learns_getOpt_of[OF learns_cGet(1)]]]) (rule opt[OF that])
qed

section \<open>Writes\<close>

lemma effects_call: "(\<And>w r w' K. m w = (r, w') \<Longrightarrow> A \<subseteq> K \<Longrightarrow> ctl_call cx (w, K) (w', K)) \<Longrightarrow> acts cx A m"
  by (rule effectsI) (meson r_into_rtranclp)

lemmas free_calls = ctl_call.delete_session ctl_call.claim ctl_call.claim_update ctl_call.claim_delete
  ctl_call.volume_snapshot ctl_call.volume_snapshot_delete ctl_call.config_map ctl_call.config_map_delete
  ctl_call.deployment ctl_call.service ctl_call.shutdown ctl_call.get_failure ctl_call.shutdown_ack ctl_call.initialize

lemma effects_calls [effects_intros]:
  "acts cx A (cDelete (eSessions (cxEnv cx)) o')"
  "acts cx A (kCreate (cxPVCs cx) p)" "acts cx A (kUpdate (cxPVCs cx) p)" "acts cx A (kDelete (cxPVCs cx) n)"
  "acts cx A (kCreate (cxSnaps cx) vs)" "acts cx A (kDelete (cxSnaps cx) n)"
  "acts cx A (kCreate (cxConfigMaps cx) cm)" "acts cx A (kDelete (cxConfigMaps cx) n)"
  "acts cx A (kCreate (cxDeployments cx) d)" "acts cx A (kCreate (cxServices cx) sv)"
  "acts cx A (supShutdown (cxSup cx) ws)" "acts cx A (supGetFailure (cxSup cx) ws)"
  "acts cx A (supShutdownAck (cxSup cx) ws)" "acts cx A (supInitialize (cxSup cx) ws q)"
  by (rule effects_call, erule free_calls)+

lemma effects_ws_step:
  "ctl_ws_step ws ws' \<Longrightarrow> WsVersion ws \<in> A \<Longrightarrow> acts cx A (cUpdate (eWorkspaces (cxEnv cx)) ws')"
  by (rule effects_call) (auto intro: ctl_call.workspace[OF _ _ ctl_ws_step_lifecycle ctl_ws_step_keeps])

lemma effects_delete_build:
  "stIsBuild (wsStatus ws) \<Longrightarrow> WsVersion ws \<in> A \<Longrightarrow> acts cx A (cDelete (eWorkspaces (cxEnv cx)) (byUid (mdUid (wsMetadata ws))))"
  by (rule effects_call) (blast intro: ctl_call.delete_build)

lemma effects_template: "TmplVersion t \<in> A \<Longrightarrow> acts cx A (cUpdate (eTemplates (cxEnv cx)) (t\<lparr>tmBuildInfo := b\<rparr>))"
  by (rule effects_call) (blast intro: ctl_call.template)

lemma effects_volume:
  "vol_step v v' \<Longrightarrow> VolVersion v \<in> A \<Longrightarrow> acts cx A (cUpdate (eVolumes (cxEnv cx)) v')"
  by (rule effects_call) (blast intro: ctl_call.volume vol_step_identity)

lemma effects_snap_step:
  "snap_step sn sn' \<Longrightarrow> SnapVersion sn \<in> A \<Longrightarrow> acts cx A (cUpdate (eSnapshots (cxEnv cx)) sn')"
  by (rule effects_call) (blast intro: ctl_call.snapshot snap_step_source snap_step_creating)

section \<open>The watchdog\<close>

lemma effects_doSetStateOnce:
  assumes "st = STOPPED \<or> st = STOPPING_REQUEST"
  shows "acts cx A (doSetStateOnce cx ws st)"
  unfolding doSetStateOnce_def
  by (intro effects_reads effects_intros effects_ws_step[OF ctl_ws_step.timed_out] assms) simp_all

lemma effects_doSetState: "st = STOPPED \<or> st = STOPPING_REQUEST \<Longrightarrow> acts cx A (doSetState cx n ws st)"
  by (induction n) (simp_all add: effects_intros effects_doSetStateOnce)

lemma effects_doHandleStalledState: "WsVersion ws \<in> A \<Longrightarrow> acts cx A (doHandleStalledState cx n ws cc)"
  unfolding doHandleStalledState_def doHandleInactiveRunning_def doHandleStalledStateInitializingOrStopping_def
    doSetStateToStopping_def DoDeleteWorkspaceOwner_def
  by (intro effects_intros effects_doSetState effects_delete_build) simp_all

section \<open>Volumes and snapshots\<close>

lemma effects_resolveVolumeMounts [effects_intros]: "acts cx A (resolveVolumeMounts cx ws)"
  unfolding resolveVolumeMounts_def by (intro effects_intros)

lemma effects_reconcileVolume: "VolVersion vol \<in> A \<Longrightarrow> acts cx A (reconcileVolume cx vol)"
  unfolding reconcileVolume_def setVolumePersistentVolumeClaim_def createVolumeClaim_def setVolumeFailure_def
    setVolumePersistentVolumeClaimSize_def setVolumeStatus_def Let_def
  by (intro effects_intros effects_volume[OF vol_step.fail] effects_volume[OF vol_step.status])

lemma effects_OnDeleteVolume: "acts cx A (OnDeleteVolume cx vol)"
  unfolding OnDeleteVolume_def by (intro effects_intros)

lemma effects_createVolumeSnapshot [effects_intros]: "acts cx A (createVolumeSnapshot cx n c l ws t)"
  unfolding createVolumeSnapshot_def by (intro effects_intros)

lemma effects_createTemplateSnapshot [effects_intros]: "acts cx A (createTemplateSnapshot cx ws t)"
  unfolding createTemplateSnapshot_def by (intro effects_intros)

lemma effects_failSnapshot:
  "Snapshot_IsCreating (Some sn) \<Longrightarrow> SnapVersion sn \<in> A \<Longrightarrow> acts cx A (setWorkspaceSnapshotFailure cx (sn\<lparr>snConsistency := c\<rparr>) f)"
  unfolding setWorkspaceSnapshotFailure_def by (intro effects_intros effects_snap_step) (rule snap_step.fail)

lemma effects_failSnapshot':
  "Snapshot_IsCreating (Some sn) \<Longrightarrow> SnapVersion sn \<in> A \<Longrightarrow> acts cx A (setWorkspaceSnapshotFailure cx sn f)"
  using effects_failSnapshot[where c = "snConsistency sn" and sn = sn] by simp

lemma effects_statusSnapshot:
  "Snapshot_IsCreating (Some sn) \<Longrightarrow> SnapVersion sn \<in> A \<Longrightarrow> acts cx A (setWorkspaceSnapshotStatus cx old (sn\<lparr>snConsistency := c\<rparr>) u v)"
  unfolding setWorkspaceSnapshotStatus_def Let_def by (intro effects_intros effects_snap_step) (rule snap_step.status)

lemma effects_statusSnapshot':
  "Snapshot_IsCreating (Some sn) \<Longrightarrow> SnapVersion sn \<in> A \<Longrightarrow> acts cx A (setWorkspaceSnapshotStatus cx old sn u v)"
  using effects_statusSnapshot[where c = "snConsistency sn" and sn = sn] by simp

lemma effects_downgrade [effects_intros]: "acts cx A (downgrade wso sn)"
  unfolding downgrade_def by (intro effects_intros)

lemma doCreateWorkspaceSnapshot_Inr:
  assumes "doCreateWorkspaceSnapshot cx u sn w = (Inr (sn', v'), w')"
  shows "\<exists>c. sn' = sn\<lparr>snConsistency := c\<rparr>"
proof -
  have same: "\<exists>c. sn = sn\<lparr>snConsistency := c\<rparr>" by (rule exI[of _ "snConsistency sn"]) simp
  from assms have "sn' = sn \<or> (\<exists>c. sn' = sn\<lparr>snConsistency := c\<rparr>)"
    unfolding doCreateWorkspaceSnapshot_def
    by (auto simp: io_simps split: sum.splits if_splits dest: downgrade_Inr)
  then show ?thesis using same by auto
qed

lemma effects_downgraded:
  assumes "\<And>c. acts cx A (f (sn\<lparr>snConsistency := c\<rparr>))"
  shows "acts cx A (bindE (downgrade wso sn) f)"
  using assms by (intro effects_bindE_res effects_downgrade) (auto dest: downgrade_Inr)

lemma effects_doCreateWorkspaceSnapshot:
  assumes "Snapshot_IsCreating (Some sn)" "SnapVersion sn \<in> A"
  shows "acts cx A (doCreateWorkspaceSnapshot cx u sn)"
  unfolding doCreateWorkspaceSnapshot_def
  by (intro effects_downgraded effects_failSnapshot[OF assms] effects_failSnapshot'[OF assms] effects_attempt
      effects_createVolumeSnapshot effects_pure effects_bindE[OF effects_attempt] effects_bindE[OF effects_failSnapshot[OF assms]]
      effects_bindE[OF effects_failSnapshot'[OF assms]] effects_bindE[OF effects_pure(3)] effects_case_sum effects_if)

lemma effects_reconcileWorkspaceSnapshot:
  assumes "SnapVersion sn \<in> A"
  shows "acts cx A (reconcileWorkspaceSnapshot cx sn)"
proof (cases "Snapshot_IsCreating (Some sn)")
  case True
  have made: "acts cx A (case v' of None \<Rightarrow> retE () | Some vs \<Rightarrow> setWorkspaceSnapshotStatus cx sn sn' u vs)"
    if d: "doCreateWorkspaceSnapshot cx u' sn w = (Inr (sn', v'), w')" for u u' w sn' v' w'
  proof -
    obtain c where "sn' = sn\<lparr>snConsistency := c\<rparr>" using doCreateWorkspaceSnapshot_Inr[OF d] by blast
    then show ?thesis by (auto intro!: effects_intros effects_statusSnapshot[OF True assms])
  qed
  have create: "acts cx A (bindE (doCreateWorkspaceSnapshot cx u sn) (\<lambda>(sn', v').
      case v' of None \<Rightarrow> retE () | Some vs \<Rightarrow> setWorkspaceSnapshotStatus cx sn sn' u vs))" for u
    by (rule effects_bindE_res[OF effects_doCreateWorkspaceSnapshot[OF True assms]]) (auto intro: made)
  show ?thesis
    unfolding reconcileWorkspaceSnapshot_def
    by (intro effects_intros effects_failSnapshot'[OF True assms] effects_statusSnapshot'[OF True assms] create)
qed (simp add: reconcileWorkspaceSnapshot_def effects_intros)

lemma effects_OnDeleteWorkspaceSnapshot: "acts cx A (OnDeleteWorkspaceSnapshot cx sn)"
  unfolding OnDeleteWorkspaceSnapshot_def by (intro effects_intros)

section \<open>Workspaces\<close>

lemma effects_state [effects_intros]:
  "actsC cx A (getS f)" "actsC cx A (modS (setW k g))" "actsC cx A (spawn t)" "actsC cx A (setWatcher ws b)"
  "actsC cx A (modS (\<lambda>s. wgDone (removeWatcher k s)))"
  by (rule effects_quiet, auto simp: getS_def modS_def setW_def spawn_def setWatcher_def addWatcher_def
      wgDone_def removeWatcher_def Let_def split: if_splits)+

lemma effects_k8s [effects_intros]:
  "acts cx A (doOnAdd cx ws)" "acts cx A (doOnDeleteK8s cx ws)" "acts cx A (removePersistentClaim cx ws)"
  "acts cx A (setPersistentVolumeClaim cx ws)"
  unfolding doOnAdd_def createK8sService_def doOnDeleteK8s_def removePersistentClaim_def setPersistentVolumeClaim_def
    getPVCDataSource_def templateDataSource_def
  by (intro effects_intros)+

lemma effects_stopWorkspace [effects_intros]: "WsVersion ws \<in> A \<Longrightarrow> actsC cx A (stopWorkspace cx ws)"
  unfolding stopWorkspace_def
  by (intro effects_intros effects_ws_step[OF ctl_ws_step.shutdown_failed]) simp_all

lemma effects_setWorkspaceStartFailure [effects_intros]: "acts cx A (setWorkspaceStartFailure cx ws f)"
  unfolding setWorkspaceStartFailure_def
  by (intro effects_reads effects_intros effects_ws_step[OF ctl_ws_step.start_failed]; simp; intro effects_intros effects_ws_step[OF ctl_ws_step.start_failed]; simp)

lemma effects_doUpdateStatusOnce [effects_intros]: "actsC cx A (doUpdateStatusOnce cx k st)"
  unfolding doUpdateStatusOnce_def
  by (intro effects_reads effects_intros; simp)
    (intro impI conjI effects_intros effects_ws_step[OF ctl_ws_step.running_again] effects_ws_step[OF ctl_ws_step.report]; simp)+

lemma effects_updateAttempts: "actsC cx A (updateAttempts cx n k st)"
  by (induction n) (auto intro!: effects_intros)

lemma effects_ends [effects_intros]: "acts cx A (onBuildStopped cx wt fo)" "acts cx A (onRunStopped cx wt fo)"
proof -
  show "acts cx A (onBuildStopped cx wt fo)"
    unfolding onBuildStopped_def by (intro effects_reads effects_intros; simp; intro effects_intros effects_template; simp)
  show "acts cx A (onRunStopped cx wt fo)"
    unfolding onRunStopped_def
    by (intro effects_reads effects_intros; simp; intro impI conjI effects_intros effects_ws_step[OF ctl_ws_step.failure]; simp)
qed

lemma effects_onStopped [effects_intros]: "actsC cx A (onStopped cx k)"
  unfolding onStopped_def endFailure_def client_def deleteRunSession_def by (intro effects_intros)

lemma effects_closing [effects_intros]:
  "actsC cx A (forceOnStop cx k)" "actsC cx A (doStopWorkspace cx k)" "actsC cx A (doClose cx k d)"
  unfolding doClose_def closeWork_def forceOnStop_def doStopWorkspace_def doUpdateStatus_def
  by (intro effects_reads effects_intros effects_updateAttempts; simp; intro impI conjI effects_intros; simp)+

lemma effects_initAttempts [effects_intros]: "acts cx A (initAttempts cx n ws req)"
  by (induction n) (auto intro!: effects_intros)

lemma effects_gitInfoOf [effects_intros]: "acts cx A (gitInfoOf cx ws t)"
  unfolding gitInfoOf_def
  by (auto intro!: effects_bindE effects_getOpt effects_pure split: option.splits secret_data.splits sum.splits)

lemma effects_initRequest [effects_intros]: "acts cx A (initRequest cx uid)"
  unfolding initRequest_def initRequestFor_def templateSnapshotReady_def withSession_def userSecretsOf_def
  by (intro effects_intros)

lemma effects_handleStatus: "actsC cx A (handleStatus cx k st)"
  unfolding handleStatus_def onReadyInit_def stoppingReported_def client_def doUpdateStatus_def
  by (intro effects_intros effects_updateAttempts)

lemma effects_flags [effects_intros]: "actsC cx A (setHealthCheckErr k)"
  unfolding setHealthCheckErr_def by (rule effects_state)

lemma effects_goroutines [effects_intros]:
  "actsC cx A (endSupervise cx k)" "actsC cx A (supervisorLost cx k)" "actsC cx A (healthCheckFailed cx k)"
  "actsC cx A (forceStopAndClose cx k)" "actsC cx A (cleanupStaleStoppingState cx k)"
  unfolding cleanupStaleStoppingState_def forceStopAndClose_def healthCheckFailed_def supervisorLost_def
    endSupervise_def
  by (intro effects_intros)+

lemma effects_startWorkspace [effects_intros]: "actsC cx A (startWorkspace cx ws)"
proof -
  have body: "actsC cx A (case r of
      Inl (VolumeMountError vol msg) \<Rightarrow>
        onWorld (setWorkspaceStartFailure cx ws
          (volumeStartFailure vol (vErrString (eValidators (cxEnv cx)) (VolumeMountError vol msg))))
    | Inl e \<Rightarrow> throwE e
    | Inr _ \<Rightarrow> bindE (setWatcher ws False) (\<lambda>o'. case o' of None \<Rightarrow> retE () | Some k \<Rightarrow>
        bindE (attempt (onWorld (doOnAdd cx ws))) (\<lambda>a. case a of
         Inl e \<Rightarrow> bindE (doClose cx k True) (\<lambda>_. throwE e) | Inr _ \<Rightarrow> spawn (Supervise k))))" for r
    by (cases r; simp split: err.splits; intro allI impI conjI effects_intros)
  show ?thesis
    unfolding startWorkspace_def
    by (rule effects_bindE, intro effects_intros, rule effects_bindE, intro effects_intros, rule body)
qed

lemma effects_events:
  "actsC cx A (ResumeWorkspace cx ws)" "actsC cx A (OnAdd cx ws)"
  "WsVersion ws \<in> A \<Longrightarrow> actsC cx A (OnUpdate cx ws old)" "WsVersion ws \<in> A \<Longrightarrow> actsC cx A (OnDelete cx ws)"
proof -
  show resume: "actsC cx A (ResumeWorkspace cx ws)"
    unfolding ResumeWorkspace_def by (intro effects_intros)
  show "actsC cx A (OnAdd cx ws)"
    unfolding OnAdd_def Let_def by (intro effects_intros resume)
  show "actsC cx A (OnUpdate cx ws old)" if "WsVersion ws \<in> A"
    unfolding OnUpdate_def by (intro effects_intros that)
  show "actsC cx A (OnDelete cx ws)" if "WsVersion ws \<in> A"
    unfolding OnDelete_def by (intro effects_intros that)
qed

section \<open>Properties\<close>

lemma effects_run: "effects cx pr A m \<Longrightarrow> ctl_run cx A (pr s) (pr (snd (m s)))"
  unfolding ctl_run_def by (rule effectsD[of cx pr A m s "fst (m s)"]) simp_all

text \<open>
  C4: Every handler of the controllers, whether it succeeds or fails, changes the cluster only by the
  calls of \<open>ctl_call\<close>. It writes a Workspace only as a step of \<open>ctl_ws_step\<close> from a version that
  its event brought or that it has read itself: never with the state UNKNOWN, never with another
  owner, Space, Template, metadata or spec. It writes a WorkspaceSnapshot only when the one it was
  given is still CREATING, a Volume only in its state and a Template it has read only in its builds. The
  only Workspace it deletes is a build, and otherwise it deletes Sessions: no other resource of the API is
  written.
\<close>

theorem controllers_refine_lifecycle:
  "ctl_run cx {WsVersion ws} (ctWorld s) (ctWorld (snd (OnAdd cx ws s)))
   \<and> ctl_run cx {WsVersion ws} (ctWorld s) (ctWorld (snd (OnUpdate cx ws old s)))
   \<and> ctl_run cx {WsVersion ws} (ctWorld s) (ctWorld (snd (OnDelete cx ws s)))
   \<and> ctl_run cx {} (ctWorld s) (ctWorld (snd (handleStatus cx k st s)))
   \<and> ctl_run cx {} (ctWorld s) (ctWorld (snd (supervisorLost cx k s)))
   \<and> ctl_run cx {} (ctWorld s) (ctWorld (snd (healthCheckFailed cx k s)))
   \<and> ctl_run cx {} (ctWorld s) (ctWorld (snd (cleanupStaleStoppingState cx k s)))
   \<and> ctl_run cx {WsVersion ws} w (snd (doHandleStalledState cx n ws cc w))
   \<and> ctl_run cx {VolVersion vol} w (snd (reconcileVolume cx vol w))
   \<and> ctl_run cx {SnapVersion sn} w (snd (reconcileWorkspaceSnapshot cx sn w))"
  by (intro conjI effects_run[of cx ctWorld] effects_run[of cx "\<lambda>w. w"] effects_events effects_goroutines effects_handleStatus
      effects_doHandleStalledState effects_reconcileVolume effects_reconcileWorkspaceSnapshot) simp_all

end
