(* ===== verification/Ctl_Properties.thy ===== *)
theory Ctl_Properties
  imports Ctl_Effects
begin

text \<open>
  What the controllers guarantee: the reconciliation of a Volume settles, the storage of a run is the one
  that the supervisor is told of, and the watchdog stops only what is inactive or stuck, in a loop that ends.
\<close>

section \<open>Reconciliation settles\<close>

lemma setCapacity_idem: "setCapacity p (setCapacity p v) = setCapacity p v"
  by (simp add: setCapacity_def Let_def split: option.splits)

lemma setCapacity_sel [simp]:
  "volState (setCapacity p v) = volState v"
  by (simp add: setCapacity_def Let_def split: option.splits)

lemma volumeStatusOf_idem: "volumeStatusOf now' p (volumeStatusOf now p v) = volumeStatusOf now p v"
  by (cases "pvcPhase p")
    (auto simp: volumeStatusOf_def Let_def failVolume_def setCapacity_def split: option.splits)

text \<open>
  What Kubernetes and the resource server do: a Volume that was stored is what is read next, and storing
  it changes no claim; a claim is found by its name, and what a controller made or updated is found
  with the labels and the request it was given; a call that fails changes nothing.
\<close>

definition volume_store_laws :: "'w ctl_env \<Rightarrow> bool" where
  "volume_store_laws cx \<longleftrightarrow> (\<forall>v w r w'. mdUid (volMetadata v) \<noteq> [] \<longrightarrow> cUpdate (eVolumes (cxEnv cx)) v w = (r, w') \<longrightarrow>
     (case r of
        Inl e \<Rightarrow> w' = w
      | Inr v' \<Rightarrow>
          cGet (eVolumes (cxEnv cx)) (byUid (mdUid (volMetadata v))) w' = Inr v
          \<and> (\<forall>n. kGet (cxPVCs cx) n w' = kGet (cxPVCs cx) n w)
          \<and> (\<forall>p. isl (fst (kUpdate (cxPVCs cx) p w')) = isl (fst (kUpdate (cxPVCs cx) p w)))))"

definition claim_write_laws :: "'w ctl_env \<Rightarrow> (pvc \<Rightarrow> ('w, pvc) io) \<Rightarrow> bool" where
  "claim_write_laws cx put \<longleftrightarrow> (\<forall>p w r w'. put p w = (r, w') \<longrightarrow>
     (case r of
        Inl e \<Rightarrow> w' = w \<and> \<not> isPanic e
      | Inr p' \<Rightarrow>
          kGet (cxPVCs cx) (pvcName p) w' = Inr p' \<and> pvcLabels p' = pvcLabels p \<and> pvcRequest p' = pvcRequest p
          \<and> (\<forall>g. cGet (eVolumes (cxEnv cx)) g w' = cGet (eVolumes (cxEnv cx)) g w)))"

definition storage_laws :: "'w ctl_env \<Rightarrow> bool" where
  "storage_laws cx \<longleftrightarrow> volume_store_laws cx \<and> (\<forall>n w p. kGet (cxPVCs cx) n w = Inr p \<longrightarrow> pvcName p = n)
     \<and> claim_write_laws cx (kCreate (cxPVCs cx)) \<and> claim_write_laws cx (kUpdate (cxPVCs cx))"

lemma volume_store_lawsD:
  assumes "storage_laws cx" "cUpdate (eVolumes (cxEnv cx)) v w = (r, w')" "mdUid (volMetadata v) \<noteq> []"
  shows "case r of Inl e \<Rightarrow> w' = w
      | Inr v' \<Rightarrow> cGet (eVolumes (cxEnv cx)) (byUid (mdUid (volMetadata v))) w' = Inr v
          \<and> (\<forall>n. kGet (cxPVCs cx) n w' = kGet (cxPVCs cx) n w)
          \<and> (\<forall>p. isl (fst (kUpdate (cxPVCs cx) p w')) = isl (fst (kUpdate (cxPVCs cx) p w)))"
  using assms unfolding storage_laws_def volume_store_laws_def by simp

lemma claim_write_lawsD:
  assumes "claim_write_laws cx put" "put p w = (r, w')"
  shows "case r of Inl e \<Rightarrow> w' = w \<and> \<not> isPanic e
      | Inr p' \<Rightarrow> kGet (cxPVCs cx) (pvcName p) w' = Inr p' \<and> pvcLabels p' = pvcLabels p \<and> pvcRequest p' = pvcRequest p
          \<and> (\<forall>g. cGet (eVolumes (cxEnv cx)) g w' = cGet (eVolumes (cxEnv cx)) g w)"
  using assms unfolding claim_write_laws_def by simp

lemma storage_lawsD:
  assumes "storage_laws cx"
  shows "kGet (cxPVCs cx) n w = Inr p \<Longrightarrow> pvcName p = n"
    "claim_write_laws cx (kCreate (cxPVCs cx))" "claim_write_laws cx (kUpdate (cxPVCs cx))"
  using assms unfolding storage_laws_def by simp_all

lemma same_identity:
  assumes "volIdentity v' = volIdentity v"
  shows "getVolumePVCName v' = getVolumePVCName v" "getVolumeStorageQuantity v' = getVolumeStorageQuantity v"
    "ownedClaim v' = ownedClaim v" "isMyRegionVolume cx v' = isMyRegionVolume cx v"
    "mdUid (volMetadata v') = mdUid (volMetadata v)"
  using assms by (auto simp: volIdentity_def getVolumePVCName_def getVolumeStorageQuantity_def ownedClaim_def isMyRegionVolume_def)

text \<open>What the call for the claim of a Volume left when it gave the claim \<open>p\<close>.\<close>

lemma claim_cases:
  assumes "storage_laws cx" "setVolumePersistentVolumeClaim cx vol w = (Inr (Some p), w2)"
  obtains (kept) "w2 = w" "kGet (cxPVCs cx) (getVolumePVCName vol) w = Inr p" "ownedClaim vol p"
      "\<exists>n. pvcRequest p = Some n \<and> n \<ge> getVolumeStorageQuantity vol"
  | (stuck) p0 e where "w2 = w" "kGet (cxPVCs cx) (getVolumePVCName vol) w = Inr p0" "ownedClaim vol p0"
      "p = p0\<lparr>pvcRequest := Some (getVolumeStorageQuantity vol)\<rparr>" "kUpdate (cxPVCs cx) p w = (Inl e, w)"
      "\<not> (\<exists>n. pvcRequest p0 = Some n \<and> n \<ge> getVolumeStorageQuantity vol)"
  | (made) "kGet (cxPVCs cx) (getVolumePVCName vol) w2 = Inr p" "ownedClaim vol p"
      "pvcRequest p = Some (getVolumeStorageQuantity vol)"
      "\<And>g. cGet (eVolumes (cxEnv cx)) g w2 = cGet (eVolumes (cxEnv cx)) g w"
proof (cases "kGet (cxPVCs cx) (getVolumePVCName vol) w")
  case (Inl e)
  then have c: "createVolumeClaim cx vol w = (Inr (Some p), w2)"
    using assms(2) by (auto simp: setVolumePersistentVolumeClaim_def io_simps split: sum.splits if_splits)
  then obtain cls r w3 where k: "kCreate (cxPVCs cx) (volumeClaim vol cls) w = (r, w3)"
    and r: "(case r of Inr q \<Rightarrow> p = q \<and> w2 = w3 | Inl e \<Rightarrow> kGet (cxPVCs cx) (getVolumePVCName vol) w3 = Inr p)"
    by (auto simp: createVolumeClaim_def io_simps split: sum.splits if_splits)
  show thesis
  proof (cases r)
    case (Inl e')
    then show thesis using k r \<open>kGet _ _ w = Inl e\<close> claim_write_lawsD[OF storage_lawsD(2)[OF assms(1)] k] by simp
  next
    case (Inr q)
    then have "kGet (cxPVCs cx) (getVolumePVCName vol) w2 = Inr p \<and> pvcLabels p = getVolumeLabels vol
        \<and> pvcRequest p = Some (getVolumeStorageQuantity vol)"
      and "\<And>g. cGet (eVolumes (cxEnv cx)) g w2 = cGet (eVolumes (cxEnv cx)) g w"
      using k r claim_write_lawsD[OF storage_lawsD(2)[OF assms(1)] k] by (auto simp: volumeClaim_def)
    then show thesis by (intro made) (auto simp: ownedClaim_def getVolumeLabels_def)
  qed
next
  case (Inr p0)
  then have o: "ownedClaim vol p0" and s: "setVolumePersistentVolumeClaimSize cx vol p0 w = (Inr p, w2)"
    using assms(2) by (auto simp: setVolumePersistentVolumeClaim_def io_simps)
  show thesis
  proof (cases "\<exists>n. pvcRequest p0 = Some n \<and> n \<ge> getVolumeStorageQuantity vol")
    case True
    then have "p = p0" "w2 = w" using s by (auto simp: setVolumePersistentVolumeClaimSize_def retE_def Let_def)
    then show thesis using Inr o True by (intro kept) auto
  next
    case False
    let ?g = "p0\<lparr>pvcRequest := Some (getVolumeStorageQuantity vol)\<rparr>"
    obtain r w3 where k: "kUpdate (cxPVCs cx) ?g w = (r, w3)" by (cases "kUpdate (cxPVCs cx) ?g w")
    show thesis
    proof (cases r)
      case (Inl e)
      then have "p = ?g" "w2 = w"
        using False s k claim_write_lawsD[OF storage_lawsD(3)[OF assms(1)] k]
        by (auto simp: setVolumePersistentVolumeClaimSize_def io_simps Let_def split: option.splits sum.splits)
      then show thesis using Inr o k Inl False claim_write_lawsD[OF storage_lawsD(3)[OF assms(1)] k] by (intro stuck[of p0 e]) auto
    next
      case (Inr q)
      then have q: "p = q" "w2 = w3"
        using False s k by (auto simp: setVolumePersistentVolumeClaimSize_def io_simps Let_def split: option.splits sum.splits)
      have "pvcName p0 = getVolumePVCName vol" using storage_lawsD(1)[OF assms(1) \<open>kGet _ _ w = Inr p0\<close>] .
      then show thesis
        using claim_write_lawsD[OF storage_lawsD(3)[OF assms(1)] k] k Inr q o by (intro made) (auto simp: ownedClaim_def)
    qed
  qed
qed

lemma claim_settled:
  assumes laws: "storage_laws cx" and c: "setVolumePersistentVolumeClaim cx vol w = (Inr (Some p), w2)"
    and same: "volIdentity vol' = volIdentity vol" "\<And>n. kGet (cxPVCs cx) n w1 = kGet (cxPVCs cx) n w2"
      "\<And>q. isl (fst (kUpdate (cxPVCs cx) q w1)) = isl (fst (kUpdate (cxPVCs cx) q w2))"
  shows "setVolumePersistentVolumeClaim cx vol' w1 = (Inr (Some p), w1)"
proof -
  note id = same_identity[OF same(1)]
  have found: "setVolumePersistentVolumeClaim cx vol' w1 = (Inr (Some p), w1)"
    if "kGet (cxPVCs cx) (getVolumePVCName vol) w2 = Inr p0" "ownedClaim vol p0"
      "setVolumePersistentVolumeClaimSize cx vol' p0 w1 = (Inr p, w1)" for p0
    using that same(2) id by (simp add: setVolumePersistentVolumeClaim_def bindE_def attempt_def readE_def throw_if_def retE_def)
  show ?thesis
  proof (cases rule: claim_cases[OF laws c])
    case 1
    then show ?thesis using id by (intro found[of p]) (auto simp: setVolumePersistentVolumeClaimSize_def retE_def Let_def)
  next
    case (2 p0 e)
    have "isl (fst (kUpdate (cxPVCs cx) p w1))" using 2 same(3)[of p] by simp
    then obtain e1 w3 where u: "kUpdate (cxPVCs cx) p w1 = (Inl e1, w3)"
      by (cases "kUpdate (cxPVCs cx) p w1"; cases "fst (kUpdate (cxPVCs cx) p w1)") auto
    with claim_write_lawsD[OF storage_lawsD(3)[OF laws] u] have "kUpdate (cxPVCs cx) p w1 = (Inl e1, w1)" "\<not> isPanic e1" by auto
    then show ?thesis using 2 id
      by (intro found[of p0]) (auto simp: setVolumePersistentVolumeClaimSize_def Let_def bindE_def attempt_def retE_def
          split: option.splits)
  next
    case 3
    then show ?thesis using id by (intro found[of p]) (auto simp: setVolumePersistentVolumeClaimSize_def retE_def Let_def)
  qed
qed

lemma claim_keeps_volume:
  assumes "storage_laws cx" "setVolumePersistentVolumeClaim cx vol w = (Inr (Some p), w2)"
  shows "cGet (eVolumes (cxEnv cx)) g w2 = cGet (eVolumes (cxEnv cx)) g w"
  by (cases rule: claim_cases[OF assms]) simp_all

text \<open>What was stored by a call that ends without an error and changed something.\<close>

lemma stored_volume:
  assumes "storage_laws cx" "ignoreNotFound cx (cUpdate (eVolumes (cxEnv cx)) v) w = (Inr u, w')" "w' \<noteq> w"
    and "mdUid (volMetadata v) \<noteq> []"
  shows "cGet (eVolumes (cxEnv cx)) (byUid (mdUid (volMetadata v))) w' = Inr v"
    "kGet (cxPVCs cx) n w' = kGet (cxPVCs cx) n w"
    "isl (fst (kUpdate (cxPVCs cx) q w')) = isl (fst (kUpdate (cxPVCs cx) q w))"
proof -
  obtain r where r: "cUpdate (eVolumes (cxEnv cx)) v w = (r, w')"
    using assms(2) by (auto simp: io_simps)
  show "cGet (eVolumes (cxEnv cx)) (byUid (mdUid (volMetadata v))) w' = Inr v"
    "kGet (cxPVCs cx) n w' = kGet (cxPVCs cx) n w"
    "isl (fst (kUpdate (cxPVCs cx) q w')) = isl (fst (kUpdate (cxPVCs cx) q w))"
    using volume_store_lawsD[OF assms(1) r assms(4)] assms(3) by (simp_all split: sum.splits)
qed

lemma setCapacity_identity: "volIdentity (setCapacity p v) = volIdentity v"
  by (simp add: setCapacity_def volIdentity_def Let_def split: option.splits)

lemma status_identity: "volIdentity (volumeStatusOf now p v) = volIdentity v"
  by (rule vol_step_identity) (rule vol_step.status)

lemma status_settled:
  assumes laws: "storage_laws cx" and c: "setVolumePersistentVolumeClaim cx vol w = (Inr (Some p), w2)"
    and stored: "cGet (eVolumes (cxEnv cx)) (byUid (mdUid (volMetadata vol))) w2 = Inr vol"
    and s: "setVolumeStatus cx vol p w2 = (Inr (), w1)"
    and again: "cGet (eVolumes (cxEnv cx)) (byUid (mdUid (volMetadata vol))) w1 = Inr vol1"
    and mine: "isMyRegionVolume cx vol" and uid: "mdUid (volMetadata vol) \<noteq> []"
  shows "reconcileVolume cx vol1 w1 = (Inr (), w1)"
proof -
  have reconcile: "reconcileVolume cx v w1 = (Inr (), w1)"
    if "volIdentity v = volIdentity vol" "setVolumeStatus cx v p w1 = (Inr (), w1)"
      "\<And>n. kGet (cxPVCs cx) n w1 = kGet (cxPVCs cx) n w2"
      "\<And>q. isl (fst (kUpdate (cxPVCs cx) q w1)) = isl (fst (kUpdate (cxPVCs cx) q w2))" for v
    using claim_settled[OF laws c that(1,3,4)] that(2) mine same_identity(4)[OF that(1), of cx]
    by (simp add: reconcileVolume_def bindE_def)
  let ?v = "volumeStatusOf (eNow (cxEnv cx) w2) p vol"
  show ?thesis
  proof (cases "w1 = w2")
    case True
    then show ?thesis using reconcile[of vol] s again stored by simp
  next
    case False
    have "ignoreNotFound cx (cUpdate (eVolumes (cxEnv cx)) ?v) w2 = (Inr (), w1)"
      using s False by (auto simp: setVolumeStatus_def bindE_def readE_def retE_def Let_def split: if_splits)
    have "mdUid (volMetadata ?v) \<noteq> []" using uid same_identity(5)[OF status_identity] by simp
    note after = stored_volume[OF laws \<open>ignoreNotFound _ _ w2 = _\<close> False this]
    have "vol1 = ?v" using after(1) again same_identity(5)[OF status_identity] by simp
    moreover have "setVolumeStatus cx ?v p w1 = (Inr (), w1)"
      by (simp add: setVolumeStatus_def volumeStatusOf_idem bindE_def readE_def retE_def)
    ultimately show ?thesis using reconcile[OF status_identity] after(2,3) by simp
  qed
qed

lemma lost_settled:
  assumes laws: "storage_laws cx" and ready: "volState vol = Vol_READY \<longrightarrow> volReadyAt vol \<noteq> None"
    and stored: "cGet (eVolumes (cxEnv cx)) (byUid (mdUid (volMetadata vol))) w = Inr vol"
    and c: "setVolumePersistentVolumeClaim cx vol w = (Inr None, w1)"
    and again: "cGet (eVolumes (cxEnv cx)) (byUid (mdUid (volMetadata vol))) w1 = Inr vol1"
    and mine: "isMyRegionVolume cx vol" and changed: "w1 \<noteq> w" and uid: "mdUid (volMetadata vol) \<noteq> []"
  shows "reconcileVolume cx vol1 w1 = (Inr (), w1)"
proof -
  let ?f = "storageFailure ''The underlying storage of the Volume does not exist anymore'' SfStorage"
  obtain e where e: "kGet (cxPVCs cx) (getVolumePVCName vol) w = Inl e" "\<not> isPanic e" "cxKNotFound cx e"
    and prov: "volumeWasProvisioned vol" and fl: "setVolumeFailure cx vol ?f w = (Inr (), w1)"
    using c by (auto simp: setVolumePersistentVolumeClaim_def createVolumeClaim_def setVolumePersistentVolumeClaimSize_def
        io_simps Let_def split: sum.splits if_splits option.splits)
  then have "ignoreNotFound cx (cUpdate (eVolumes (cxEnv cx)) (failVolume ?f vol)) w = (Inr (), w1)"
    using changed by (auto simp: setVolumeFailure_def retE_def split: if_splits)
  note id = same_identity[OF vol_step_identity[OF vol_step.fail[of vol ?f]]]
  have "mdUid (volMetadata (failVolume ?f vol)) \<noteq> []" using uid id(5) by simp
  note after = stored_volume[OF laws \<open>ignoreNotFound _ _ w = _\<close> changed this]
  have v1: "vol1 = failVolume ?f vol" using after(1) again id(5) by simp
  have "volumeWasProvisioned vol1" using prov ready by (auto simp: v1 volumeWasProvisioned_def failVolume_def)
  moreover have "setVolumeFailure cx vol1 ?f w1 = (Inr (), w1)"
    by (simp add: v1 setVolumeFailure_def failVolume_def retE_def)
  moreover have "kGet (cxPVCs cx) (getVolumePVCName vol1) w1 = Inl e" using after(2) e id(1) v1 by simp
  ultimately show ?thesis
    using e mine id(4)[of cx] v1
    by (simp add: reconcileVolume_def setVolumePersistentVolumeClaim_def createVolumeClaim_def bindE_def attempt_def
        readE_def retE_def)
qed

text \<open>
  C15: Storing a Volume is an event of it, which reconciles it again. When a Volume was reconciled without an
  error, and what the store then holds of it is reconciled once more, nothing at all is changed: the
  events end. So it is whether its claim was found, made, grown, could not be grown, is lost or is gone. A
  stored Volume has a UID, and one that is READY has the time it became so.
\<close>

theorem reconciliation_settles:
  assumes laws: "storage_laws cx" and uid: "mdUid (volMetadata vol) \<noteq> []"
    and ready: "volState vol = Vol_READY \<longrightarrow> volReadyAt vol \<noteq> None"
    and stored: "cGet (eVolumes (cxEnv cx)) (byUid (mdUid (volMetadata vol))) w = Inr vol"
    and first: "reconcileVolume cx vol w = (Inr (), w1)"
    and again: "cGet (eVolumes (cxEnv cx)) (byUid (mdUid (volMetadata vol))) w1 = Inr vol1"
  shows "reconcileVolume cx vol1 w1 = (Inr (), w1)"
proof (cases "w1 = w")
  case True
  then show ?thesis using stored first again by simp
next
  case False
  then have mine: "isMyRegionVolume cx vol" using first by (auto simp: reconcileVolume_def retE_def split: if_splits)
  obtain po w2 where c: "setVolumePersistentVolumeClaim cx vol w = (Inr po, w2)"
    and f: "(case po of None \<Rightarrow> retE () | Some p \<Rightarrow> setVolumeStatus cx vol p) w2 = (Inr (), w1)"
    using first mine by (auto simp: reconcileVolume_def io_simps)
  show ?thesis
  proof (cases po)
    case None
    then have "setVolumePersistentVolumeClaim cx vol w = (Inr None, w1)" using f c by (simp add: retE_def)
    from lost_settled[OF laws ready stored this again mine False uid] show ?thesis .
  next
    case (Some p)
    have "cGet (eVolumes (cxEnv cx)) (byUid (mdUid (volMetadata vol))) w2 = Inr vol"
      using claim_keeps_volume[OF laws c[unfolded Some]] stored by simp
    from status_settled[OF laws c[unfolded Some] this _ again mine uid] f Some show ?thesis by simp
  qed
qed

section \<open>The storage of a run\<close>

text \<open>
  The source of the persistent state of a Workspace, and the data source \<open>ds\<close> of its claim, the name of a
  snapshot in Kubernetes: for a WorkspaceSnapshot the one that is named after the UID of the
  WorkspaceSnapshot that the status of the Workspace refers to, for a Template the one that is named after
  the Template and its current ready build.
\<close>

definition sourceAgrees :: "'w ctl_env \<Rightarrow> 'w \<Rightarrow> workspace \<Rightarrow> template \<Rightarrow> persistent_source \<Rightarrow> string option \<Rightarrow> bool" where
  "sourceAgrees cx w ws tmpl src ds \<longleftrightarrow>
     (case src of
        SOURCE_TEMPLATE_SNAPSHOT \<Rightarrow>
          \<not> workspaceRestoresFromSnapshot ws \<and> HasReadyBuild (Some tmpl)
          \<and> (\<exists>b v. tmBuildInfo tmpl = Some b
                \<and> kGet (cxSnaps cx) (mdUid (tmMetadata tmpl) @ ''-'' @ biCurrentReadyBuildID b) w = Inr v
                \<and> isVolumeSnapshotReady v \<and> ds = Some (vsName v))
      | SOURCE_WORKSPACE_SNAPSHOT \<Rightarrow>
          workspaceRestoresFromSnapshot ws
          \<and> (\<exists>r sn v. stWorkspaceSnapshotRef (wsStatus ws) = Some r
                \<and> cGet (eSnapshots (cxEnv cx)) (byUid (refUid r)) w = Inr sn \<and> snState sn = Snap_READY
                \<and> kGet (cxSnaps cx) (''wss-'' @ mdUid (snMetadata sn)) w = Inr v
                \<and> isVolumeSnapshotReady v \<and> ds = Some (vsName v))
      | SOURCE_EXISTING \<Rightarrow> ds = None \<and> \<not> spIsEphemeral (wsSpec ws) \<and> stSuccessfulRuns (wsStatus ws) > 0
      | SOURCE_EMPTY \<Rightarrow> ds = None \<and> (stIsBuild (wsStatus ws) \<or> \<not> workspaceRestoresFromSnapshot ws)
      | SOURCE_UNSET \<Rightarrow> False)"

lemma templateDataSource_Inr:
  assumes "stTemplateRef (wsStatus ws) = Some r" "cGet (eTemplates (cxEnv cx)) (byUid (refUid r)) w = Inr tmpl"
    and "templateDataSource cx ws w = (Inr ds, w')"
    and "templateSnapshotReady cx tmpl w = (Inr b, w'')"
  shows "if HasReadyBuild (Some tmpl) \<and> b
    then \<exists>bi v. tmBuildInfo tmpl = Some bi
      \<and> kGet (cxSnaps cx) (mdUid (tmMetadata tmpl) @ ''-'' @ biCurrentReadyBuildID bi) w = Inr v
      \<and> isVolumeSnapshotReady v \<and> ds = Some (vsName v)
    else ds = None"
proof -
  obtain bi where bi: "tmBuildInfo tmpl = Some bi"
    using assms(4) by (auto simp: templateSnapshotReady_def io_simps)
  then show ?thesis
    using assms
    by (auto simp: templateDataSource_def templateSnapshotReady_def getTemplateBuildName_def io_simps
        split: sum.splits if_splits)
qed

lemma snapshotDataSource_Inr:
  assumes "getPVCDataSource cx ws w = (Inr ds, w')" "stWorkspaceSnapshotRef (wsStatus ws) = Some r"
    and "\<not> stIsBuild (wsStatus ws)" "\<not> (\<not> spIsEphemeral (wsSpec ws) \<and> stSuccessfulRuns (wsStatus ws) > 0)"
  shows "\<exists>sn v. cGet (eSnapshots (cxEnv cx)) (byUid (refUid r)) w = Inr sn \<and> snState sn = Snap_READY
    \<and> kGet (cxSnaps cx) (''wss-'' @ mdUid (snMetadata sn)) w = Inr v \<and> isVolumeSnapshotReady v \<and> ds = Some (vsName v)"
  using assms by (auto simp: getPVCDataSource_def getWorkspaceSnapshotK8sName_def Snapshot_IsReady_def io_simps)

lemma getPVCDataSource_Inr:
  assumes "getPVCDataSource cx ws w = (Inr ds, w')" "\<not> stIsBuild (wsStatus ws)"
    and "stTemplateRef (wsStatus ws) = Some r" "cGet (eTemplates (cxEnv cx)) (byUid (refUid r)) w = Inr tmpl"
    and "templateSnapshotReady cx tmpl w = (Inr b, w'')"
  shows "sourceAgrees cx w ws tmpl (getPersistentStateSource ws tmpl b) ds"
proof (cases "\<not> spIsEphemeral (wsSpec ws) \<and> stSuccessfulRuns (wsStatus ws) > 0")
  case True
  then show ?thesis using assms(1,2)
    by (simp add: getPVCDataSource_def sourceAgrees_def retE_def)
next
  case False
  then have runs: "spIsEphemeral (wsSpec ws) \<or> stSuccessfulRuns (wsStatus ws) = 0" by (auto simp: word_gt_0)
  show ?thesis
  proof (cases "stWorkspaceSnapshotRef (wsStatus ws)")
    case (Some sr)
    from snapshotDataSource_Inr[OF assms(1) Some assms(2) False] Some False runs assms(2) show ?thesis
      by (auto simp: sourceAgrees_def workspaceRestoresFromSnapshot_def word_gt_0)
  next
    case None
    then have "templateDataSource cx ws w = (Inr ds, w')"
      using False assms(1,2) by (auto simp: getPVCDataSource_def)
    from templateDataSource_Inr[OF assms(3,4) this assms(5)] None False assms(2)
    show ?thesis by (auto simp: sourceAgrees_def workspaceRestoresFromSnapshot_def word_gt_0 split: if_splits)
  qed
qed

text \<open>What an Initialize request is made from.\<close>

lemma sameReqs [simp]:
  "irWorkspace (addSession p a r n us uc req) = irWorkspace req" "irTemplate (addSession p a r n us uc req) = irTemplate req"
  "irSource (addSession p a r n us uc req) = irSource req"
  "irTemplateHasSnapshot (addSession p a r n us uc req) = irTemplateHasSnapshot req"
  "irWorkspace (finishRequest c m req) = irWorkspace req" "irTemplate (finishRequest c m req) = irTemplate req"
  "irSource (finishRequest c m req) = irSource req"
  "irTemplateHasSnapshot (finishRequest c m req) = irTemplateHasSnapshot req"
  by (simp_all add: addSession_def finishRequest_def)

lemma withSession_Inr:
  assumes "withSession cx ws req w = (Inr req', w')"
  shows "req' = req \<or> (\<exists>p a r n us uc. req' = addSession p a r n us uc req)"
  using assms unfolding withSession_def by (auto simp: io_simps split: option.split_asm if_split_asm) blast

lemma templateSnapshotReady_world: "templateSnapshotReady cx t w = (r, w') \<Longrightarrow> w' = w"
  unfolding templateSnapshotReady_def by (auto intro: read_onlyD simp: deref_def bindE_def readE_def retE_def throwE_def
      split: option.splits)

lemma initRequestFor_Inr:
  assumes "initRequestFor cx domain ws sr tr w = (Inr req, w')"
  obtains tmpl b where "cGet (eTemplates (cxEnv cx)) (byUid (refUid tr)) w = Inr tmpl"
    "irWorkspace req = ws" "irTemplate req = tmpl" "irTemplateHasSnapshot req = b"
    "irSource req = getPersistentStateSource ws tmpl b"
    "stIsBuild (wsStatus ws) \<or> templateSnapshotReady cx tmpl w = (Inr b, w)"
proof -
  obtain spc tmpl secs b w1 git w2 req1 w3 cco mounts where
    t: "cGet (eTemplates (cxEnv cx)) (byUid (refUid tr)) w = Inr tmpl"
    and b: "(if stIsBuild (wsStatus ws) then retE False else templateSnapshotReady cx tmpl) w = (Inr b, w1)"
    and s: "withSession cx ws (baseRequest domain ws spc tmpl secs git b) w2 = (Inr req1, w3)"
    and req: "req = finishRequest cco mounts req1"
    using assms unfolding initRequestFor_def by (auto simp: bindE_Inr readE_eq retE_eq)
  have "irWorkspace req = ws" "irTemplate req = tmpl" "irTemplateHasSnapshot req = b"
    "irSource req = getPersistentStateSource ws tmpl b"
    using withSession_Inr[OF s] unfolding req by (auto simp: baseRequest_def simp del: getPersistentStateSource.simps)
  moreover have "stIsBuild (wsStatus ws) \<or> templateSnapshotReady cx tmpl w = (Inr b, w)"
    using b templateSnapshotReady_world by (auto split: if_splits)
  ultimately show thesis using that t by blast
qed

text \<open>
  C6: The supervisor is told where the persistent state of its Workspace comes from, and the claim of
  the Workspace is made from a data source. In the same state of the cluster these agree: nothing
  is restored for a build, a fresh Workspace or one with storage of earlier runs; the claim is restored from
  the snapshot of the WorkspaceSnapshot that the Workspace refers to exactly when the supervisor
  is told WORKSPACE_SNAPSHOT, and from the snapshot of the ready build of its Template exactly when it is told
  TEMPLATE_SNAPSHOT, and then that snapshot is ready.
\<close>

theorem storage_source_agrees:
  assumes "initRequest cx uid w = (Inr req, w')"
    and "getPVCDataSource cx (irWorkspace req) w = (Inr ds, w'')"
  shows "irSource req = getPersistentStateSource (irWorkspace req) (irTemplate req) (irTemplateHasSnapshot req)
    \<and> (\<exists>tr. stTemplateRef (wsStatus (irWorkspace req)) = Some tr
         \<and> cGet (eTemplates (cxEnv cx)) (byUid (refUid tr)) w = Inr (irTemplate req))
    \<and> sourceAgrees cx w (irWorkspace req) (irTemplate req) (irSource req) ds"
proof -
  obtain domain ws where c: "(case stSpaceRef (wsStatus ws) of
         None \<Rightarrow> throwE (Errorf ''A Workspace must belong to a Space'')
       | Some sr \<Rightarrow> (case stTemplateRef (wsStatus ws) of
            None \<Rightarrow> throwE (Errorf ''A Workspace must belong to a Template'')
          | Some tr \<Rightarrow> initRequestFor cx domain ws sr tr)) w = (Inr req, w')"
    using assms(1) unfolding initRequest_def by (simp only: bindE_Inr readE_eq) blast
  then obtain sr tr where tr: "stTemplateRef (wsStatus ws) = Some tr" and for_ws: "initRequestFor cx domain ws sr tr w = (Inr req, w')"
    by (cases "stSpaceRef (wsStatus ws)"; cases "stTemplateRef (wsStatus ws)") (simp_all add: throwE_eq)
  obtain tmpl b where r: "cGet (eTemplates (cxEnv cx)) (byUid (refUid tr)) w = Inr tmpl"
    "irWorkspace req = ws" "irTemplate req = tmpl" "irTemplateHasSnapshot req = b"
    "irSource req = getPersistentStateSource ws tmpl b"
    "stIsBuild (wsStatus ws) \<or> templateSnapshotReady cx tmpl w = (Inr b, w)"
    by (rule initRequestFor_Inr[OF for_ws])
  show ?thesis
  proof (cases "stIsBuild (wsStatus ws)")
    case True
    then have "ds = None" using r assms(2) by (simp add: getPVCDataSource_def retE_def)
    then show ?thesis using True r tr by (simp add: sourceAgrees_def workspaceRestoresFromSnapshot_def)
  next
    case False
    then have "sourceAgrees cx w ws tmpl (getPersistentStateSource ws tmpl b) ds"
      using getPVCDataSource_Inr[of cx ws w ds w'' tr tmpl b w] r tr assms(2) by simp
    then show ?thesis using r tr by (simp del: getPersistentStateSource.simps)
  qed
qed

section \<open>The watchdog\<close>

text \<open>When the watchdog may act on a Workspace.\<close>

definition mayStop :: "'w ctl_env \<Rightarrow> cluster_config \<Rightarrow> time \<Rightarrow> workspace \<Rightarrow> bool" where
  "mayStop cx cc now ws \<longleftrightarrow>
     (case stCurrentStateSetAt (wsStatus ws) of
        None \<Rightarrow> False
      | Some at \<Rightarrow>
          wsState ws = INIT_REQUEST \<and> now > at + minutes 5
          \<or> IsStopping (wsState ws) \<and> now > at + minutes 120
          \<or> IsPreRunning (wsState ws) \<and> now > at + minutes 180
          \<or> wsState ws = RUNNING \<and> \<not> stIsBuild (wsStatus ws) \<and> \<not> noTimeout ws cc
            \<and> (case stLastActivityAt (wsStatus ws) of None \<Rightarrow> False | Some t \<Rightarrow> now > t + getTimeout cx ws cc))"

text \<open>
  C35: The watchdog changes nothing for a Workspace, unless its start or stop has been stuck for longer
  than the bound of its state, or it runs, is no build, may not run without a timeout, and its
  last activity is longer ago than the timeout of the cluster for its kind of Space.
\<close>

theorem watchdog_spares:
  assumes "\<not> mayStop cx cc (eNow (cxEnv cx) w) ws"
  shows "doHandleStalledState cx n ws cc w = (Inr True, w)"
  using assms
  by (cases "wsState ws"; cases "stCurrentStateSetAt (wsStatus ws)"; cases "stLastActivityAt (wsStatus ws)")
    (auto simp: mayStop_def doHandleStalledState_def doHandleInactiveRunning_def bindE_def readE_def retE_def)

text \<open>
  C36: The loop that moves a Workspace to a state ends. A write that is based on the Workspace as it is stored is
  only refused as outdated when somebody else wrote the Workspace in between, and then there are
  fewer such writes to come (\<open>busy\<close>); a write that is based on any other version may be refused for ever. As every round
  reads the Workspace again, the loop needs at most one round more than there are such writes.
\<close>

theorem doSetState_ends:
  assumes "\<And>v cur now e v'. cGet (eWorkspaces (cxEnv cx)) (byUid (mdUid (wsMetadata ws))) v = Inr cur \<Longrightarrow>
      cUpdate (eWorkspaces (cxEnv cx)) (onStatus (watchdogState now st) cur) v = (Inl e, v') \<Longrightarrow>
      cxIsResourceChanged cx e \<Longrightarrow> busy v' < busy v"
    and "busy w < n"
  shows "fst (doSetState cx n ws st w) \<noteq> Inr False"
  using assms(2)
proof (induction n arbitrary: w)
  case (Suc n)
  obtain r w1 where once: "doSetStateOnce cx ws st w = (r, w1)" by (cases "doSetStateOnce cx ws st w")
  show ?case
  proof (cases "r = Inr False")
    case True
    with once have "busy w1 < busy w"
      by (auto simp: doSetStateOnce_def io_simps split: if_splits sum.splits intro: assms(1))
    with Suc True once show ?thesis by (simp add: bindE_def)
  next
    case False
    with once show ?thesis by (auto simp: bindE_def retE_def split: sum.splits)
  qed
qed simp

end
