(* ===== verification/Memory_Ctl.thy ===== *)
theory Memory_Ctl
  imports Memory_Env Ctl_Properties
begin

text \<open>
  The cluster in memory for the controllers: Kubernetes as lists of objects with unique names, and
  a supervisor that answers every call or none. Controllers are run in it from their start.
\<close>

section \<open>Kubernetes\<close>

definition getNamed :: "('r \<Rightarrow> string) \<Rightarrow> string \<Rightarrow> 'r list \<Rightarrow> err + 'r" where
  "getNamed nm n xs = (case List.find (\<lambda>x. nm x = n) xs of None \<Rightarrow> Inl notFound | Some x \<Rightarrow> Inr x)"

definition memK8s ::
  "(world \<Rightarrow> 'r list) \<Rightarrow> (('r list \<Rightarrow> 'r list) \<Rightarrow> world \<Rightarrow> world) \<Rightarrow> ('r \<Rightarrow> string) \<Rightarrow> (world, 'r) k8s_client" where
  "memK8s items upd nm =
     \<lparr>kGet = (\<lambda>n w. getNamed nm n (items w)),
      kList = (\<lambda>l w. Inr (items w)),
      kCreate = (\<lambda>r w. case getNamed nm (nm r) (items w) of
                    Inr _ \<Rightarrow> (Inl (ExtErr 409 ''already exists''), w)
                  | Inl _ \<Rightarrow> (Inr r, upd (\<lambda>xs. xs @ [r]) w)),
      kUpdate = (\<lambda>r w. case getNamed nm (nm r) (items w) of
                    Inl e \<Rightarrow> (Inl e, w)
                  | Inr _ \<Rightarrow> (Inr r, upd (map (\<lambda>x. if nm x = nm r then r else x)) w)),
      kDelete = (\<lambda>n w. case getNamed nm n (items w) of
                    Inl e \<Rightarrow> (Inl e, w)
                  | Inr _ \<Rightarrow> (Inr (), upd (filter (\<lambda>x. nm x \<noteq> n)) w))\<rparr>"

section \<open>The controllers\<close>

definition answer :: "bool \<Rightarrow> 'a \<Rightarrow> (world, 'a) io" where
  "answer alive x w = (if alive then Inr x else Inl (ExtErr 14 ''unavailable''), w)"

definition memSup :: "bool \<Rightarrow> world sup_client" where
  "memSup alive = \<lparr>supConnect = (\<lambda>ws. None), supShutdown = (\<lambda>ws. answer alive ()),
     supGetFailure = (\<lambda>ws. answer alive None), supShutdownAck = (\<lambda>ws. answer alive ()),
     supInitialize = (\<lambda>ws req. answer alive ())\<rparr>"

definition memCtl :: "bool \<Rightarrow> world ctl_env" where
  "memCtl alive =
     \<lparr>cxEnv = aliceEnv, cxRegion = \<lparr>refUid = ''r-1'', refName = ''default''\<rparr>, cxIsDev = False, cxIsTest = False, cxSupervisorImage = ''supervisor'', cxPullPolicy = ''Always'',
      cxIsResourceChanged = (\<lambda>e. e = ExtErr 409 ''changed''), cxToGo = (\<lambda>d. minutes 60), cxToCore = Inr,
      cxEvalVolume = (\<lambda>c v. Inr (c = ''true'')), cxEvalWorkspace = (\<lambda>c ws. Inr (c = ''true'')),
      cxEvalSources = (\<lambda>c ws t. Inr (c = ''true'')), cxKNotFound = memNotFound,
      cxKAlreadyExists = (\<lambda>e. e = ExtErr 409 ''already exists''), cxKForbidden = (\<lambda>e. False), cxKInvalid = (\<lambda>e. False),
      cxKMethodNotSupported = (\<lambda>e. False),
      cxPVCs = memK8s mPVCs mPVCs_update pvcName, cxSnaps = memK8s mSnaps mSnaps_update vsName,
      cxConfigMaps = memK8s mConfigMaps mConfigMaps_update cmName,
      cxDeployments = memK8s mDeployments mDeployments_update dpName,
      cxServices = memK8s mServices mServices_update svName, cxSup = memSup alive,
      cxAccessToken = (\<lambda>s. Inr ''access''), cxRefreshToken = (\<lambda>s. Inr ''refresh''), cxTokenSeconds = (\<lambda>s. 3600), cxPublicKey = (\<lambda>s. Inr ''pub''),
      cxDecodeGitInfo = (\<lambda>a u. None)\<rparr>"

section \<open>A running Workspace\<close>

text \<open>Alice's Workspace in a given state, with a session, since the time 1000.\<close>

definition runIn :: "ws_state \<Rightarrow> workspace" where
  "runIn st = onStatus (\<lambda>s. s\<lparr>stSessionRef := Some \<lparr>refUid = ''sess-1'', refName = ''sess''\<rparr>,
       stCurrentStateSetAt := Some 1000, stLastActivityAt := Some 1000\<rparr>)
     (mkWorkspace ''w-1'' ''box'' alice st [engMount])"

definition clusterWith :: "workspace \<Rightarrow> world" where
  "clusterWith ws = smallWorld\<lparr>mWorkspaces := [ws],
     mSessions := [\<lparr>sessMetadata = emptyMetadata\<lparr>mdUid := ''sess-1'', mdName := ''sess''\<rparr>,
       sessUserRef = Some (GetObjectReference (usrMetadata alice))\<rparr>]\<rparr>"

definition stoppedBox :: workspace where
  "stoppedBox = mkWorkspace ''w-1'' ''box'' alice STOPPED [engMount]"

end
