(* ===== verification/Ctl_Witnesses.thy ===== *)
theory Ctl_Witnesses
  imports Memory_Ctl
begin

text \<open>
  The controllers run in the cluster in memory: their properties applied to whole runs, and runs
  that show a failure of the code.
\<close>

section \<open>Runs\<close>

definition requested :: "workspace \<Rightarrow> workspace" where
  "requested ws = onStatus (\<lambda>s. s\<lparr>stState := INIT_REQUEST\<rparr>) ws"

text \<open>A controller of an empty cluster, and after the event that starts Alice's Workspace.\<close>

definition idle :: "world ctl" where
  "idle = newController (clusterWith (requested stoppedBox))"

definition startBox :: "world ctl" where
  "startBox = snd (OnUpdate (memCtl True) (requested stoppedBox) stoppedBox idle)"

lemma startBox_step: "ctl_step (memCtl True) idle startBox"
proof -
  have "succeeds (OnUpdate (memCtl True) (requested stoppedBox) stoppedBox idle)"
    by code_simp
  then obtain u s where r: "OnUpdate (memCtl True) (requested stoppedBox) stoppedBox idle = (Inr u, s)"
    by (rule succeedsE)
  then have "handleCtlEvent (memCtl True) (EvUpdate (requested stoppedBox) stoppedBox) idle = (Inr u, startBox)"
    by (simp add: startBox_def)
  then show ?thesis
    by (rule ctl_step.event[rotated]) (simp_all add: panicked_def)
qed

text \<open>Alice's new Workspace, started and running.\<close>

definition freshBox :: workspace where
  "freshBox = onStatus (\<lambda>s. s\<lparr>stRegionRef := None\<rparr>) stoppedBox"

definition startedBox :: workspace where
  "startedBox = freshBox\<lparr>wsSpec := wsSpec freshBox, wsStatus := (startedStatus 1000 \<lparr>rgnMetadata = emptyMetadata\<rparr> ''host'' ''run'' None (wsStatus freshBox))
      \<lparr>stLimit := None, stSessionRef := Some \<lparr>refUid = ''sess-1'', refName = ''sess''\<rparr>\<rparr>\<rparr>"

definition snapBox :: snapshot where
  "snapBox = newSnapshot aliceEnv (memCtx alice) (emptyMetadata\<lparr>mdName := ''snap.alice''\<rparr>) stoppedBox
     \<lparr>refUid = ''r-1'', refName = ''default''\<rparr>"

text \<open>A Workspace that is to be restored from a ready snapshot.\<close>

definition readySnap :: snapshot where
  "readySnap = snapBox\<lparr>snMetadata := emptyMetadata\<lparr>mdUid := ''sn-1'', mdName := ''snap.alice''\<rparr>,
     snState := Snap_READY, snReadyAt := Some 1000\<rparr>"

definition restoredBox :: workspace where
  "restoredBox = onStatus (\<lambda>s. s\<lparr>stWorkspaceSnapshotRef := Some \<lparr>refUid = ''sn-1'', refName = ''snap.alice''\<rparr>\<rparr>) stoppedBox"

definition restoreWorld :: world where
  "restoreWorld = (clusterWith restoredBox)\<lparr>mSnapshots := [readySnap],
     mSnaps := [\<lparr>vsName = ''wss-sn-1'', vsLabels = [], vsClass = None, vsSource = ''ws-w-0'',
       vsStatus = Some \<lparr>vssReadyToUse = Some True, vssCreationTime = None, vssRestoreSize = None, vssError = None\<rparr>\<rparr>]\<rparr>"

section \<open>Witnesses\<close>

lemma lifecycle_invariant_witness:
  "ws_inv (onStatus (reportState 2000 None RUNNING) startedBox) \<and> wsState (onStatus (reportState 2000 None RUNNING) startedBox) = RUNNING"
proof -
  have new: "ws_new freshBox"
    by code_simp
  have "ws_step freshBox startedBox"
    unfolding startedBox_def by (rule ws_step.start) code_simp
  moreover have "ws_step startedBox (onStatus (reportState 2000 None RUNNING) startedBox)"
    by (rule ws_step.report) code_simp+
  ultimately have "ws_step\<^sup>*\<^sup>* freshBox (onStatus (reportState 2000 None RUNNING) startedBox)"
    by simp
  from lifecycle_invariant[OF new this] show ?thesis
    by (simp add: reportState_def moveTo_def Let_def)
qed

lemma one_watcher_per_Workspace_witness:
  "(ctl_step (memCtl True))\<^sup>*\<^sup>* idle startBox \<and> ctMap startBox ''w-1'' = Some 0
    \<and> wtUid (ctWatchers startBox ! 0) = ''w-1'' \<and> \<not> wtIsClosed (ctWatchers startBox ! 0)"
proof -
  have steps: "(ctl_step (memCtl True))\<^sup>*\<^sup>* idle startBox"
    using startBox_step by (rule r_into_rtranclp)
  have "ctMap startBox ''w-1'' = Some 0"
    by code_simp
  then show ?thesis
    using one_watcher_per_Workspace[OF _ steps, of "''w-1''" 0] steps by (auto simp: ctl_init_def idle_def)
qed

lemma storage_source_agrees_witness:
  "\<exists>req w' ds w''. initRequest (memCtl True) ''w-1'' restoreWorld = (Inr req, w')
    \<and> getPVCDataSource (memCtl True) (irWorkspace req) restoreWorld = (Inr ds, w'')
    \<and> sourceAgrees (memCtl True) restoreWorld (irWorkspace req) (irTemplate req) (irSource req) ds"
proof -
  have "succeeds (initRequest (memCtl True) ''w-1'' restoreWorld)"
    by code_simp
  then obtain req w' where r: "initRequest (memCtl True) ''w-1'' restoreWorld = (Inr req, w')"
    by (rule succeedsE)
  have "case fst (initRequest (memCtl True) ''w-1'' restoreWorld) of Inl _ \<Rightarrow> False
      | Inr q \<Rightarrow> succeeds (getPVCDataSource (memCtl True) (irWorkspace q) restoreWorld)"
    by code_simp
  then have "succeeds (getPVCDataSource (memCtl True) (irWorkspace req) restoreWorld)"
    by (simp add: r)
  then obtain ds w'' where d: "getPVCDataSource (memCtl True) (irWorkspace req) restoreWorld = (Inr ds, w'')"
    by (rule succeedsE)
  show ?thesis
    using storage_source_agrees[OF r d] r d by blast
qed

lemma watchdog_spares_witness:
  "doHandleStalledState (memCtl True) 3 (runIn RUNNING) emptyConfig (clusterWith (runIn RUNNING))
     = (Inr True, clusterWith (runIn RUNNING))"
proof (rule watchdog_spares)
  show "\<not> mayStop (memCtl True) emptyConfig (eNow (cxEnv (memCtl True)) (clusterWith (runIn RUNNING))) (runIn RUNNING)"
    by code_simp
qed

text \<open>A new Volume, and a claim of it that Kubernetes has bound and that is smaller than the Volume.\<close>

definition newVolume :: volume where
  "newVolume = (mkVolume ''v-new'' ''new.eng.cordium'' engSpace bob ACCESS_MODE_EXCLUSIVE)\<lparr>volState := Vol_PENDING\<rparr>"

definition boundWorld :: world where
  "boundWorld = smallWorld\<lparr>mVolumes := [newVolume],
     mPVCs := [(volumeClaim newVolume None)\<lparr>pvcRequest := Some 1, pvcPhase := ClaimBound, pvcCapacity := Some 2000000\<rparr>]\<rparr>"

lemma find_updated:
  assumes "List.find P xs = Some y" "\<And>x. P x \<longleftrightarrow> k x = k r"
  shows "List.find P (map (\<lambda>x. if k x = k r then r else x) xs) = Some r"
  using assms by (induction xs) (auto split: if_splits)

lemma find_appended: "List.find P xs = None \<Longrightarrow> P r \<Longrightarrow> List.find P (xs @ [r]) = Some r"
  by (induction xs) (auto split: if_splits)

lemma memCtl_laws: "storage_laws (memCtl alive)"
  unfolding storage_laws_def
proof (intro conjI allI impI)
  show "volume_store_laws (memCtl alive)"
    unfolding volume_store_laws_def
    by (auto simp: memCtl_def memEnv_def memClient_def memK8s_def getBy_def byUid_def notFound_def split: sum.splits option.splits
        dest: find_updated[where k = "\<lambda>v. mdUid (volMetadata v)"])
  show "pvcName p = n" if "kGet (cxPVCs (memCtl alive)) n w = Inr p" for n w p
    using that by (auto simp: memCtl_def memK8s_def getNamed_def find_Some_iff split: option.splits)
  show "claim_write_laws (memCtl alive) (kCreate (cxPVCs (memCtl alive)))"
    unfolding claim_write_laws_def
    by (auto simp: memCtl_def memEnv_def memClient_def memK8s_def getNamed_def find_appended split: sum.splits option.splits)
  show "claim_write_laws (memCtl alive) (kUpdate (cxPVCs (memCtl alive)))"
    unfolding claim_write_laws_def
    by (auto simp: memCtl_def memEnv_def memClient_def memK8s_def getNamed_def notFound_def split: sum.splits option.splits
        dest: find_updated[where k = pvcName])
qed

lemma reconciliation_settles_witness:
  "\<exists>w1 vol1. reconcileVolume (memCtl True) newVolume boundWorld = (Inr (), w1) \<and> w1 \<noteq> boundWorld
    \<and> cGet (eVolumes (cxEnv (memCtl True))) (byUid (mdUid (volMetadata newVolume))) w1 = Inr vol1
    \<and> volState vol1 = Vol_READY \<and> reconcileVolume (memCtl True) vol1 w1 = (Inr (), w1)"
proof -
  let ?r = "reconcileVolume (memCtl True) newVolume boundWorld"
  have "fst ?r = Inr ()" by code_simp
  then obtain w1 where first: "?r = (Inr (), w1)" by (cases ?r) simp
  have "case cGet (eVolumes (cxEnv (memCtl True))) (byUid (mdUid (volMetadata newVolume))) (snd ?r) of
      Inl _ \<Rightarrow> False | Inr v \<Rightarrow> volState v = Vol_READY"
    by code_simp
  then obtain vol1 where again: "cGet (eVolumes (cxEnv (memCtl True))) (byUid (mdUid (volMetadata newVolume))) w1 = Inr vol1"
    and ready: "volState vol1 = Vol_READY"
    using first by (auto split: sum.splits)
  have "mdUid (volMetadata newVolume) \<noteq> []" "volState newVolume = Vol_READY \<longrightarrow> volReadyAt newVolume \<noteq> None"
    by code_simp+
  moreover have stored: "cGet (eVolumes (cxEnv (memCtl True))) (byUid (mdUid (volMetadata newVolume))) boundWorld = Inr newVolume"
    by code_simp
  ultimately have "reconcileVolume (memCtl True) vol1 w1 = (Inr (), w1)"
    using reconciliation_settles[OF memCtl_laws _ _ _ first again] by blast
  moreover have "w1 \<noteq> boundWorld"
  proof
    assume "w1 = boundWorld"
    with again stored ready have "volState newVolume = Vol_READY" by simp
    moreover have "volState newVolume \<noteq> Vol_READY" by code_simp
    ultimately show False by simp
  qed
  ultimately show ?thesis using first again ready by blast
qed

text \<open>
  A store in which others write the Workspace too: while its clock is below 1002, somebody writes the
  activity of the Workspace just before an update, which is then refused; later an update is refused unless it is based on
  what is stored.
\<close>

definition touched :: "world \<Rightarrow> world" where
  "touched w = w\<lparr>mClock := mClock w + 1, mWorkspaces := map (onStatus (setActivity (mClock w))) (mWorkspaces w)\<rparr>"

definition busyUpdate :: "workspace \<Rightarrow> (world, workspace) io" where
  "busyUpdate x w =
     (if mClock w < 1002 then (Inl (ExtErr 409 ''changed''), touched w)
      else if list_all (\<lambda>ws. stLastActivityAt (wsStatus ws) \<noteq> stLastActivityAt (wsStatus x)) (mWorkspaces w)
      then (Inl (ExtErr 409 ''changed''), w)
      else cUpdate (eWorkspaces aliceEnv) x w)"

definition busyCtl :: "world ctl_env" where
  "busyCtl = (memCtl True)\<lparr>cxEnv := aliceEnv\<lparr>eWorkspaces := (eWorkspaces aliceEnv)\<lparr>cUpdate := busyUpdate\<rparr>\<rparr>\<rparr>"

lemma memClient_changed: "cUpdate (eWorkspaces aliceEnv) x v = (Inl e, v') \<Longrightarrow> e = notFound"
  by (auto simp: memEnv_def memClient_def getBy_def split: sum.splits option.splits)

lemma getBy_in: "getBy md g xs = Inr x \<Longrightarrow> x \<in> set xs"
  by (auto simp: getBy_def find_Some_iff split: option.splits)

lemma doSetState_ends_witness:
  "fst (doSetState busyCtl 3 (runIn RUNNING) STOPPING_REQUEST (clusterWith (runIn RUNNING))) \<noteq> Inr False
    \<and> fst (doSetState busyCtl 2 (runIn RUNNING) STOPPING_REQUEST (clusterWith (runIn RUNNING))) = Inr False"
proof
  show "fst (doSetState busyCtl 3 (runIn RUNNING) STOPPING_REQUEST (clusterWith (runIn RUNNING))) \<noteq> Inr False"
  proof (rule doSetState_ends[where busy = "\<lambda>w. nat (1002 - mClock w)"])
    fix v cur now e v'
    assume g: "cGet (eWorkspaces (cxEnv busyCtl)) (byUid (mdUid (wsMetadata (runIn RUNNING)))) v = Inr cur"
      and u: "cUpdate (eWorkspaces (cxEnv busyCtl)) (onStatus (watchdogState now STOPPING_REQUEST) cur) v = (Inl e, v')"
      and c: "cxIsResourceChanged busyCtl e"
    have "cur \<in> set (mWorkspaces v)"
      using g by (auto simp: busyCtl_def memCtl_def memEnv_def memClient_def intro: getBy_in)
    then have fresh: "\<not> list_all (\<lambda>ws. stLastActivityAt (wsStatus ws)
        \<noteq> stLastActivityAt (wsStatus (onStatus (watchdogState now STOPPING_REQUEST) cur))) (mWorkspaces v)"
      by (auto simp: list_all_iff watchdogState_def moveTo_def Let_def)
    have b: "busyUpdate (onStatus (watchdogState now STOPPING_REQUEST) cur) v = (Inl e, v')"
      using u by (simp add: busyCtl_def)
    show "nat (1002 - mClock v') < nat (1002 - mClock v)"
    proof (cases "mClock v < 1002")
      case True
      with b have "v' = touched v" by (simp add: busyUpdate_def)
      with True show ?thesis by (simp add: touched_def)
    next
      case False
      with b fresh have "cUpdate (eWorkspaces aliceEnv) (onStatus (watchdogState now STOPPING_REQUEST) cur) v = (Inl e, v')"
        by (simp add: busyUpdate_def)
      then have "e = notFound" by (rule memClient_changed)
      then show ?thesis using c by (simp add: busyCtl_def memCtl_def notFound_def)
    qed
  qed code_simp
  show "fst (doSetState busyCtl 2 (runIn RUNNING) STOPPING_REQUEST (clusterWith (runIn RUNNING))) = Inr False"
    by code_simp
qed

section \<open>Runs that fail\<close>

text \<open>
  A Workspace whose supervisor never became ready is asked to stop: the Shutdown call fails, and the
  goroutine that forces the stop reads the failure through a client that was never set. The
  goroutine panics, and the Go runtime ends the whole process.
\<close>

lemma nil_client_panics:
  "ForceStopAndClose 0 \<in> set (ctTasks (snd (OnUpdate (memCtl False)
       (onStatus (watchdogState 2000 STOPPING_REQUEST) (requested stoppedBox)) (requested stoppedBox) startBox)))
   \<and> panicked (fst (forceStopAndClose (memCtl False) 0 startBox))"
  by (rule conjI; code_simp)

text \<open>
  The watchdog finds a Workspace that has been STOPPING for more than two hours and forces it to
  STOPPED: its Session is deleted, but the Workspace keeps the reference to it and its Region, and
  its run is not recorded as ended, unlike by every other way to stop (\<open>ws_inv\<close>).
\<close>

lemma forced_stop_incomplete:
  "map (\<lambda>ws. (wsState ws, stSessionRef (wsStatus ws) \<noteq> None, stRegionRef (wsStatus ws) \<noteq> None, ws_inv ws))
       (mWorkspaces (snd (doHandleStalledState (memCtl True) 3 (runIn STOPPING) emptyConfig
          ((clusterWith (runIn STOPPING))\<lparr>mClock := minutes 200\<rparr>))))
     = [(STOPPED, True, True, False)]
   \<and> mSessions (snd (doHandleStalledState (memCtl True) 3 (runIn STOPPING) emptyConfig
          ((clusterWith (runIn STOPPING))\<lparr>mClock := minutes 200\<rparr>))) = []"
  by (rule conjI; code_simp)

end
