(* ===== verification/Portal_Domain.thy ===== *)
theory Portal_Domain
  imports Netip Spec_Vars
begin

text \<open>
  The names under which the portal serves the ports of a Workspace:
  \<open>parseWorkspaceAppDomain\<close> of \<open>cluster/portal/portal/tunnelsrv.go\<close>, with its regular expression,
  \<open>getForwardedHostPrefix\<close> of \<open>server.go\<close> and \<open>isClusterDomain\<close> of \<open>http.go\<close>. A host is
  \<open><workspace>\<close>, \<open><application>_<workspace>\<close> or \<open>port_<n>_<workspace>\<close>, a dot, and the portal's
  service, alone or with its namespace.
\<close>

section \<open>The regular expression\<close>

text \<open>
  The three alternatives on the left use neither \<open>.\<close> nor, inside a word, \<open>_\<close>, so the first dot
  ends the left part, and the number of underscores in it decides the alternative.
\<close>

definition labelChar :: "char \<Rightarrow> bool" where
  "labelChar c \<longleftrightarrow> isLowerDigit c \<or> c = CHR ''-''"

text \<open>\<open>[a-z0-9-]+\<close>\<close>

definition labelWord :: "string \<Rightarrow> bool" where
  "labelWord s \<longleftrightarrow> s \<noteq> [] \<and> list_all labelChar s"

text \<open>\<open>[0-9]{1,5}\<close>\<close>

definition portDigits :: "string \<Rightarrow> bool" where
  "portDigits s \<longleftrightarrow> 1 \<le> length s \<and> length s \<le> 5 \<and> list_all isDigit s"

text \<open>\<open>[a-z][a-z0-9-]{0,10}[a-z0-9]\<close>\<close>

definition svcLabel :: "string \<Rightarrow> bool" where
  "svcLabel s \<longleftrightarrow> 2 \<le> length s \<and> length s \<le> 12 \<and> isLower (hd s) \<and> isLowerDigit (last s)
     \<and> list_all labelChar s"

text \<open>The groups of a match; a group that takes no part in it is empty.\<close>

record groups =
  gpPort :: string
  gpWorkspace :: string
  gpWorkspaceDef :: string
  gpApplication :: string
  gpWorkspaceApp :: string
  gpSvc :: string
  gpNs :: string
  gpSvcDefault :: string

definition noGroups :: groups where
  "noGroups = \<lparr>gpPort = [], gpWorkspace = [], gpWorkspaceDef = [], gpApplication = [],
     gpWorkspaceApp = [], gpSvc = [], gpNs = [], gpSvcDefault = []\<rparr>"

fun matchFields :: "string list \<Rightarrow> groups option" where
  "matchFields [w] = (if labelWord w then Some (noGroups\<lparr>gpWorkspaceDef := w\<rparr>) else None)"
| "matchFields [a, w] =
     (if labelWord a \<and> labelWord w
      then Some (noGroups\<lparr>gpApplication := a, gpWorkspaceApp := w\<rparr>) else None)"
| "matchFields [p, d, w] =
     (if p = ''port'' \<and> portDigits d \<and> labelWord w
      then Some (noGroups\<lparr>gpPort := d, gpWorkspace := w\<rparr>) else None)"
| "matchFields _ = None"

definition matchLeft :: "string \<Rightarrow> groups option" where
  "matchLeft l = matchFields (splitOn CHR ''_'' l)"

definition svcSep :: "char \<Rightarrow> bool" where
  "svcSep c \<longleftrightarrow> c = CHR ''.'' \<or> c = CHR ''_''"

definition matchRight :: "string \<Rightarrow> groups \<Rightarrow> groups option" where
  "matchRight r g =
     (let svc = takeWhile (\<lambda>c. \<not> svcSep c) r
      in case dropWhile (\<lambda>c. \<not> svcSep c) r of
           [] \<Rightarrow> if svcLabel svc then Some (g\<lparr>gpSvcDefault := svc\<rparr>) else None
         | _ # ns \<Rightarrow>
             if svcLabel svc \<and> svcLabel ns then Some (g\<lparr>gpSvc := svc, gpNs := ns\<rparr>) else None)"

definition rgxMatch :: "string \<Rightarrow> groups option" where
  "rgxMatch u =
     (case dropWhile (\<lambda>c. c \<noteq> CHR ''.'') u of
        [] \<Rightarrow> None
      | _ # r \<Rightarrow>
          (case matchLeft (takeWhile (\<lambda>c. c \<noteq> CHR ''.'') u) of
             None \<Rightarrow> None
           | Some g \<Rightarrow> matchRight r g))"

section \<open>Parsing\<close>

record regex_result =
  rrWorkspace :: string
  rrPort :: nat
  rrSvc :: string
  rrNs :: string
  rrApplication :: string

definition parseWorkspaceAppDomain :: "string \<Rightarrow> err + regex_result" where
  "parseWorkspaceAppDomain u =
     (case rgxMatch u of
        None \<Rightarrow> Inl (Errorf ''Invalid path'')
      | Some g \<Rightarrow>
          (let ws = (if gpWorkspace g \<noteq> [] then gpWorkspace g
                     else if gpWorkspaceDef g \<noteq> [] then gpWorkspaceDef g
                     else gpWorkspaceApp g);
               svc = (if gpSvcDefault g \<noteq> [] then gpSvcDefault g else gpSvc g);
               ns = (if gpSvcDefault g \<noteq> [] then ''default'' else gpNs g);
               portnum = decVal (gpPort g);
               ret = \<lparr>rrWorkspace = ws, rrPort = (if gpPort g \<noteq> [] then portnum else 0), rrSvc = svc,
                      rrNs = ns, rrApplication = gpApplication g\<rparr>
           in if gpPort g \<noteq> [] \<and> (portnum < 1 \<or> portnum > 65535)
              then Inl (Errorf ''Invalid port number'')
              else if rrPort ret \<noteq> 0 \<and> rrApplication ret \<noteq> []
              then Inl (Errorf ''Either port or application must be provided'')
              else if rrWorkspace ret = [] then Inl (Errorf ''Empty Workspace'')
              else if rrSvc ret = [] then Inl (Errorf ''Empty service'')
              else if rrNs ret = [] then Inl (Errorf ''Empty namespace'')
              else Inr ret))"

text \<open>\<open>strings.TrimSuffix(hdr, "." + domain)\<close>\<close>

definition getForwardedHostPrefix :: "string \<Rightarrow> string \<Rightarrow> string" where
  "getForwardedHostPrefix hdr domain =
     (let suf = CHR ''.'' # domain
      in if hasSuffix hdr suf then take (length hdr - length suf) hdr else hdr)"

definition isClusterDomain :: "string \<Rightarrow> string \<Rightarrow> bool" where
  "isClusterDomain host domain =
     (if host = [] \<or> domain = [] then False
      else host = domain \<or> hasSuffix host (CHR ''.'' # domain))"

section \<open>Names that the parser accepts\<close>

text \<open>What a name stands for.\<close>

datatype target = DefaultApp | ToPort nat | ToApp string

fun leftPart :: "target \<Rightarrow> string \<Rightarrow> string" where
  "leftPart DefaultApp ws = ws"
| "leftPart (ToPort n) ws = ''port_'' @ showNat n @ ''_'' @ ws"
| "leftPart (ToApp a) ws = a @ ''_'' @ ws"

fun targetOK :: "target \<Rightarrow> bool" where
  "targetOK DefaultApp = True"
| "targetOK (ToPort n) \<longleftrightarrow> 1 \<le> n \<and> n \<le> 65535"
| "targetOK (ToApp a) = labelWord a"

fun rightPart :: "string \<Rightarrow> (char \<times> string) option \<Rightarrow> string" where
  "rightPart svc None = svc"
| "rightPart svc (Some (sep, ns)) = svc @ sep # ns"

definition domainName :: "target \<Rightarrow> string \<Rightarrow> string \<Rightarrow> (char \<times> string) option \<Rightarrow> string" where
  "domainName t ws svc ns = leftPart t ws @ ''.'' @ rightPart svc ns"

definition domainResult :: "target \<Rightarrow> string \<Rightarrow> string \<Rightarrow> (char \<times> string) option \<Rightarrow> regex_result" where
  "domainResult t ws svc ns =
     \<lparr>rrWorkspace = ws, rrPort = (case t of ToPort n \<Rightarrow> n | _ \<Rightarrow> 0), rrSvc = svc,
      rrNs = (case ns of None \<Rightarrow> ''default'' | Some (_, n) \<Rightarrow> n),
      rrApplication = (case t of ToApp a \<Rightarrow> a | _ \<Rightarrow> [])\<rparr>"

lemma labelChar_no_sep [simp]: "\<not> labelChar CHR ''.''" "\<not> labelChar CHR ''_''"
  by (simp_all add: labelChar_def isLowerDigit_def isLower_def)

lemma labelWord_no_sep:
  assumes "list_all labelChar s" shows "CHR ''.'' \<notin> set s" "CHR ''_'' \<notin> set s"
  using assms labelChar_no_sep unfolding list_all_iff by metis+

lemma digit_of_char [simp]: "n < 10 \<Longrightarrow> isDigit (char_of (48 + n))" "n < 10 \<Longrightarrow> digitVal (char_of (48 + n)) = n"
  by (simp_all add: isDigit_def digitVal_def of_char_of)

lemma showNat_digits: "list_all isDigit (showNat n)"
  by (induction n rule: showNat.induct) (subst showNat.simps, auto)

lemma decVal_append: "decVal (s @ [c]) = 10 * decVal s + digitVal c"
  by (simp add: decVal_def)

lemma decVal_showNat: "decVal (showNat n) = n"
proof (induction n rule: showNat.induct)
  case (1 n)
  show ?case
  proof (cases "n < 10")
    case True
    then show ?thesis by (subst showNat.simps) (simp add: decVal_def)
  next
    case False
    with 1 have "decVal (showNat (n div 10)) = n div 10" by simp
    with False show ?thesis by (subst showNat.simps) (simp add: decVal_append)
  qed
qed

lemma showNat_length: "n < 10 ^ Suc k \<Longrightarrow> length (showNat n) \<le> Suc k"
proof (induction k arbitrary: n)
  case 0
  then show ?case by (subst showNat.simps) simp
next
  case (Suc k)
  show ?case
  proof (cases "n < 10")
    case False
    from Suc.prems have "n div 10 < 10 ^ Suc k" by (simp add: less_mult_imp_div_less)
    with Suc.IH False show ?thesis by (subst showNat.simps) simp
  qed (subst showNat.simps, simp)
qed

lemma digits_no_sep:
  assumes "list_all isDigit s" shows "CHR ''.'' \<notin> set s" "CHR ''_'' \<notin> set s"
proof -
  have "\<not> isDigit CHR ''.''" "\<not> isDigit CHR ''_''" by (simp_all add: isDigit_def)
  with assms show "CHR ''.'' \<notin> set s" "CHR ''_'' \<notin> set s" unfolding list_all_iff by metis+
qed

lemma portDigits_showNat: "1 \<le> n \<Longrightarrow> n \<le> 65535 \<Longrightarrow> portDigits (showNat n)"
  using showNat_digits[of n] showNat_length[of n 4] showNat_nonempty[of n]
  by (cases "showNat n") (auto simp: portDigits_def)

text \<open>The groups on the left, as an inversion.\<close>

lemma split_list:
  assumes "fs \<noteq> []"
  shows "splitOn c l = fs \<longleftrightarrow> l = joinWith [c] fs \<and> (\<forall>f\<in>set fs. c \<notin> set f)"
proof
  assume s: "splitOn c l = fs"
  from join_splitOn[of c l] splitOn_no_sep[of _ c l] show "l = joinWith [c] fs \<and> (\<forall>f\<in>set fs. c \<notin> set f)"
    unfolding s by simp
next
  assume "l = joinWith [c] fs \<and> (\<forall>f\<in>set fs. c \<notin> set f)"
  with splitOn_joinWith[OF assms, of c] show "splitOn c l = fs" by simp
qed

lemmas split_lists = split_list[of "[a]" for a] split_list[of "[a, b]" for a b]
  split_list[of "[a, b, d]" for a b d]

lemma matchLeft_iff:
  "matchLeft l = Some g \<longleftrightarrow>
     labelWord l \<and> g = noGroups\<lparr>gpWorkspaceDef := l\<rparr>
     \<or> (\<exists>a w. l = a @ ''_'' @ w \<and> labelWord a \<and> labelWord w
          \<and> g = noGroups\<lparr>gpApplication := a, gpWorkspaceApp := w\<rparr>)
     \<or> (\<exists>d w. l = ''port_'' @ d @ ''_'' @ w \<and> portDigits d \<and> labelWord w
          \<and> g = noGroups\<lparr>gpPort := d, gpWorkspace := w\<rparr>)" (is "?l \<longleftrightarrow> ?r")
proof
  assume ?l
  then have m: "matchFields (splitOn CHR ''_'' l) = Some g" by (simp add: matchLeft_def)
  show ?r
  proof (cases "splitOn CHR ''_'' l" rule: matchFields.cases)
    case (1 w)
    then have "l = w" by (simp add: split_lists)
    with 1 m show ?thesis by (auto split: if_splits)
  next
    case (2 a w)
    then have "l = a @ ''_'' @ w" by (simp add: split_lists)
    with 2 m show ?thesis by (auto split: if_splits)
  next
    case (3 p d w)
    then have "l = p @ ''_'' @ d @ ''_'' @ w" by (simp add: split_lists)
    with 3 m show ?thesis by (auto split: if_splits)
  qed (use m in simp_all)
next
  assume ?r
  then show ?l
  proof (elim disjE exE conjE)
    assume "labelWord l" "g = noGroups\<lparr>gpWorkspaceDef := l\<rparr>"
    moreover from this have "splitOn CHR ''_'' l = [l]"
      by (simp add: split_lists labelWord_def labelWord_no_sep)
    ultimately show ?l by (simp add: matchLeft_def)
  next
    fix a w assume *: "l = a @ ''_'' @ w" "labelWord a" "labelWord w"
      "g = noGroups\<lparr>gpApplication := a, gpWorkspaceApp := w\<rparr>"
    then have "splitOn CHR ''_'' l = [a, w]"
      by (simp add: split_lists labelWord_def labelWord_no_sep)
    with * show ?l by (simp add: matchLeft_def)
  next
    fix d w assume *: "l = ''port_'' @ d @ ''_'' @ w" "portDigits d" "labelWord w"
      "g = noGroups\<lparr>gpPort := d, gpWorkspace := w\<rparr>"
    then have "splitOn CHR ''_'' l = [''port'', d, w]"
      by (simp add: split_lists labelWord_def labelWord_no_sep portDigits_def digits_no_sep)
    with * show ?l by (simp add: matchLeft_def)
  qed
qed

lemma svcLabel_chars: "svcLabel s \<Longrightarrow> list_all labelChar s"
  by (simp add: svcLabel_def)

lemma svcLabel_no_sep: "svcLabel s \<Longrightarrow> c \<in> set s \<Longrightarrow> \<not> svcSep c"
  using labelWord_no_sep[of s] by (auto simp: svcLabel_def svcSep_def)

definition rightOK :: "string \<Rightarrow> (char \<times> string) option \<Rightarrow> bool" where
  "rightOK svc ns \<longleftrightarrow> svcLabel svc \<and> (\<forall>sep n. ns = Some (sep, n) \<longrightarrow> svcSep sep \<and> svcLabel n)"

fun rightGroups :: "string \<Rightarrow> (char \<times> string) option \<Rightarrow> groups \<Rightarrow> groups" where
  "rightGroups svc None g = g\<lparr>gpSvcDefault := svc\<rparr>"
| "rightGroups svc (Some (_, n)) g = g\<lparr>gpSvc := svc, gpNs := n\<rparr>"

lemma matchRight_iff:
  "matchRight r g = Some g' \<longleftrightarrow>
     (\<exists>svc ns. rightOK svc ns \<and> r = rightPart svc ns \<and> g' = rightGroups svc ns g)" (is "?l \<longleftrightarrow> ?r")
proof
  let ?svc = "takeWhile (\<lambda>c. \<not> svcSep c) r"
  assume l: ?l
  have r: "r = ?svc @ dropWhile (\<lambda>c. \<not> svcSep c) r" by simp
  show ?r
  proof (cases "dropWhile (\<lambda>c. \<not> svcSep c) r")
    case Nil
    with l r have "rightOK ?svc None" "r = rightPart ?svc None" "g' = rightGroups ?svc None g"
      by (auto simp: matchRight_def rightOK_def Let_def split: if_splits)
    then show ?thesis by blast
  next
    case (Cons c n)
    then have "svcSep c" by (metis dropWhile_eq_Cons_conv)
    with Cons l r have "rightOK ?svc (Some (c, n))" "r = rightPart ?svc (Some (c, n))"
        "g' = rightGroups ?svc (Some (c, n)) g"
      by (auto simp: matchRight_def rightOK_def Let_def split: if_splits)
    then show ?thesis by blast
  qed
next
  assume ?r
  then obtain svc ns where *: "rightOK svc ns" "r = rightPart svc ns" "g' = rightGroups svc ns g"
    by auto
  show ?l
  proof (cases ns)
    case None
    with * svcLabel_no_sep[of svc] show ?thesis
      by (simp add: matchRight_def rightOK_def takeWhile_eq_all_conv[THEN iffD2]
          dropWhile_eq_Nil_conv[THEN iffD2])
  next
    case (Some a)
    obtain sep n where a: "a = (sep, n)" by (cases a)
    from * Some a svcLabel_no_sep[of svc] have
      "takeWhile (\<lambda>c. \<not> svcSep c) r = svc" "dropWhile (\<lambda>c. \<not> svcSep c) r = sep # n"
      by (auto simp: rightOK_def takeWhile_append2 dropWhile_append2)
    with * Some a show ?thesis by (simp add: matchRight_def rightOK_def)
  qed
qed

text \<open>The whole expression: a left part, the first dot, a right part.\<close>

lemma left_no_dot: "matchLeft l = Some g \<Longrightarrow> CHR ''.'' \<notin> set l"
  by (auto simp: matchLeft_iff labelWord_def portDigits_def labelWord_no_sep digits_no_sep)

lemma rgxMatch_iff:
  "rgxMatch u = Some g' \<longleftrightarrow> (\<exists>l g svc ns. u = l @ ''.'' @ rightPart svc ns \<and> matchLeft l = Some g
     \<and> rightOK svc ns \<and> g' = rightGroups svc ns g)" (is "?l \<longleftrightarrow> ?r")
proof
  let ?l = "takeWhile (\<lambda>c. c \<noteq> CHR ''.'') u"
  assume "rgxMatch u = Some g'"
  then obtain c r g where d: "dropWhile (\<lambda>c. c \<noteq> CHR ''.'') u = c # r" "matchLeft ?l = Some g"
      "matchRight r g = Some g'"
    by (auto simp: rgxMatch_def split: list.splits option.splits)
  from d(1) have "c = CHR ''.''" by (metis (mono_tags) dropWhile_eq_Cons_conv)
  with d(1) have "u = ?l @ ''.'' @ r" by (metis append_Cons append_Nil takeWhile_dropWhile_id)
  with d(2,3) show ?r by (auto simp: matchRight_iff)
next
  assume ?r
  then obtain l g svc ns where *: "u = l @ ''.'' @ rightPart svc ns" "matchLeft l = Some g"
      "rightOK svc ns" "g' = rightGroups svc ns g" by blast
  have "\<forall>c\<in>set l. c \<noteq> CHR ''.''" using left_no_dot[OF *(2)] by auto
  then have "takeWhile (\<lambda>c. c \<noteq> CHR ''.'') u = l"
      "dropWhile (\<lambda>c. c \<noteq> CHR ''.'') u = CHR ''.'' # rightPart svc ns"
    using *(1) by (auto simp: takeWhile_append2 dropWhile_append2)
  with * show ?l by (auto simp: rgxMatch_def matchRight_iff)
qed

text \<open>
  What a name means, with the digits of a port as written: the parser accepts no other name and
  gives no other result.
\<close>

definition denotes :: "string \<Rightarrow> regex_result \<Rightarrow> bool" where
  "denotes u r \<longleftrightarrow> (\<exists>t ws svc ns. targetOK t \<and> labelWord ws \<and> rightOK svc ns
     \<and> r = domainResult t ws svc ns
     \<and> (u = domainName t ws svc ns
        \<or> (\<exists>d. portDigits d \<and> t = ToPort (decVal d)
             \<and> u = ''port_'' @ d @ ''_'' @ ws @ ''.'' @ rightPart svc ns)))"

lemma word_nonempty: "labelWord w \<Longrightarrow> w \<noteq> []" "svcLabel w \<Longrightarrow> w \<noteq> []" "portDigits d \<Longrightarrow> d \<noteq> []"
  by (auto simp: labelWord_def svcLabel_def portDigits_def)

lemma parse_left:
  assumes "u = l @ ''.'' @ rightPart svc ns" "matchLeft l = Some g" "rightOK svc ns"
  shows "parseWorkspaceAppDomain u =
    (if gpPort g \<noteq> [] \<and> (decVal (gpPort g) < 1 \<or> decVal (gpPort g) > 65535)
     then Inl (Errorf ''Invalid port number'')
     else Inr (domainResult (if gpPort g \<noteq> [] then ToPort (decVal (gpPort g))
                  else if gpApplication g \<noteq> [] then ToApp (gpApplication g) else DefaultApp)
                (gpWorkspace g @ gpWorkspaceDef g @ gpWorkspaceApp g) svc ns))"
proof -
  have m: "rgxMatch u = Some (rightGroups svc ns g)" using assms by (auto simp: rgxMatch_iff)
  consider (alone) "ns = None" "svc \<noteq> []" | (both) sep n where "ns = Some (sep, n)" "svc \<noteq> []" "n \<noteq> []"
    using assms(3) word_nonempty(2) by (cases ns) (auto simp: rightOK_def)
  note right = this
  note parse = parseWorkspaceAppDomain_def m Let_def domainResult_def noGroups_def
  from assms(2) show ?thesis unfolding matchLeft_iff
  proof (elim disjE exE conjE)
    assume "labelWord l" "g = noGroups\<lparr>gpWorkspaceDef := l\<rparr>"
    with word_nonempty(1)[of l] show ?thesis by (cases rule: right) (simp_all add: parse)
  next
    fix a w assume "labelWord a" "labelWord w" "g = noGroups\<lparr>gpApplication := a, gpWorkspaceApp := w\<rparr>"
    with word_nonempty(1)[of a] word_nonempty(1)[of w] show ?thesis
      by (cases rule: right) (simp_all add: parse)
  next
    fix d w assume "portDigits d" "labelWord w" "g = noGroups\<lparr>gpPort := d, gpWorkspace := w\<rparr>"
    with word_nonempty(3)[of d] word_nonempty(1)[of w] show ?thesis
      by (cases rule: right; cases "decVal d < 1 \<or> decVal d > 65535") (auto simp add: parse)
  qed
qed

text \<open>
  C38: The parser and the names: a name made for a Workspace, a target and a service parses back to
  them, and whatever parses denotes what the parser returns.
\<close>

theorem domain_roundtrip:
  assumes "targetOK t" "labelWord ws" "rightOK svc ns"
  shows "parseWorkspaceAppDomain (domainName t ws svc ns) = Inr (domainResult t ws svc ns)"
proof -
  let ?g = "case t of DefaultApp \<Rightarrow> noGroups\<lparr>gpWorkspaceDef := ws\<rparr>
    | ToPort n \<Rightarrow> noGroups\<lparr>gpPort := showNat n, gpWorkspace := ws\<rparr>
    | ToApp a \<Rightarrow> noGroups\<lparr>gpApplication := a, gpWorkspaceApp := ws\<rparr>"
  have "matchLeft (leftPart t ws) = Some ?g"
    using assms(1,2) portDigits_showNat by (cases t) (auto simp: matchLeft_iff)
  from parse_left[OF domainName_def this assms(3)] assms(1,2) show ?thesis
    by (cases t) (auto simp: noGroups_def decVal_showNat word_nonempty)
qed

theorem parsed_domain_denotes: "parseWorkspaceAppDomain u = Inr r \<Longrightarrow> denotes u r"
proof -
  assume p: "parseWorkspaceAppDomain u = Inr r"
  then obtain g' where "rgxMatch u = Some g'"
    by (auto simp: parseWorkspaceAppDomain_def split: option.splits)
  then obtain l g svc ns where *: "u = l @ ''.'' @ rightPart svc ns" "matchLeft l = Some g"
      "rightOK svc ns" by (auto simp: rgxMatch_iff)
  from *(2) consider (def) "labelWord l" "g = noGroups\<lparr>gpWorkspaceDef := l\<rparr>"
    | (app) a w where "l = a @ ''_'' @ w" "labelWord a" "labelWord w"
        "g = noGroups\<lparr>gpApplication := a, gpWorkspaceApp := w\<rparr>"
    | (port) d w where "l = ''port_'' @ d @ ''_'' @ w" "portDigits d" "labelWord w"
        "g = noGroups\<lparr>gpPort := d, gpWorkspace := w\<rparr>"
    by (auto simp: matchLeft_iff)
  then show ?thesis
  proof cases
    case def
    with p parse_left[OF *] have "r = domainResult DefaultApp l svc ns" by (simp add: noGroups_def)
    with def * show ?thesis unfolding denotes_def domainName_def
      by (intro exI[of _ DefaultApp] exI[of _ l] exI[of _ svc] exI[of _ ns]) simp
  next
    case (app a w)
    with p parse_left[OF *] word_nonempty have "r = domainResult (ToApp a) w svc ns"
      by (simp add: noGroups_def)
    with app * show ?thesis unfolding denotes_def domainName_def
      by (intro exI[of _ "ToApp a"] exI[of _ w] exI[of _ svc] exI[of _ ns]) simp
  next
    case (port d w)
    with p parse_left[OF *] word_nonempty
    have "r = domainResult (ToPort (decVal d)) w svc ns" "targetOK (ToPort (decVal d))"
      by (auto simp: noGroups_def split: if_splits)
    with port * show ?thesis unfolding denotes_def
      by (intro exI[of _ "ToPort (decVal d)"] exI[of _ w] exI[of _ svc] exI[of _ ns]) auto
  qed
qed

end
