(* ===== verification/Sup_Cmap.thy ===== *)
theory Sup_Cmap
  imports Resource_Helpers Api_Env
begin

text \<open>
  The connections to the supervisors of Workspaces, \<open>cluster/common/suputils/utils.go\<close>: the
  address of a supervisor, the client of a connection, and the map of clients that the API
  server and the portal keep by the name and by the UID of a Workspace. Both keys of a Workspace
  hold the same pointer, and an update writes through it: the map holds addresses into a store.

  gRPC is a parameter: whether a client can be made for an address and whether closing it fails.
\<close>

section \<open>Clients\<close>

record sup_client =
  scName :: string
  scUid :: string
  scAddr :: string

record dialer =
  dlIsTest :: bool
  dlNewClient :: "string \<Rightarrow> err option"
  dlClose :: "sup_client \<Rightarrow> err option"

abbreviation wsName :: "workspace \<Rightarrow> string" where
  "wsName ws \<equiv> mdName (wsMetadata ws)"

abbreviation wsUid :: "workspace \<Rightarrow> string" where
  "wsUid ws \<equiv> mdUid (wsMetadata ws)"

definition JoinHostPort :: "string \<Rightarrow> string \<Rightarrow> string" where
  "JoinHostPort host port =
     (if CHR '':'' \<in> set host then ''['' @ host @ '']:'' @ port else host @ '':'' @ port)"

definition GetWorkspaceSupHost :: "dialer \<Rightarrow> workspace \<Rightarrow> string" where
  "GetWorkspaceSupHost d ws =
     (if dlIsTest d then ''127.0.0.1'' else ''ws-'' @ wsName ws @ ''.'' @ ''cordium'' @ ''.svc'')"

definition GetWorkspaceSupPort :: "dialer \<Rightarrow> nat" where
  "GetWorkspaceSupPort d = (if dlIsTest d then 28904 else 8080)"

definition getWorkspaceSupHostAddr :: "dialer \<Rightarrow> workspace \<Rightarrow> string" where
  "getWorkspaceSupHostAddr d ws = JoinHostPort (GetWorkspaceSupHost d ws) (showNat (GetWorkspaceSupPort d))"

text \<open>\<open>GetWorkspaceSupClient\<close>; the last argument is the \<open>Host\<close> of the options, if there are any.\<close>

definition GetWorkspaceSupClient :: "dialer \<Rightarrow> workspace \<Rightarrow> string option \<Rightarrow> err + sup_client" where
  "GetWorkspaceSupClient d ws host =
     (let addr = (case host of
                    Some h \<Rightarrow> if h \<noteq> [] then JoinHostPort h (showNat (GetWorkspaceSupPort d))
                              else getWorkspaceSupHostAddr d ws
                  | None \<Rightarrow> getWorkspaceSupHostAddr d ws)
      in case dlNewClient d addr of
           Some e \<Rightarrow> Inl e
         | None \<Rightarrow> Inr \<lparr>scName = wsName ws, scUid = wsUid ws, scAddr = addr\<rparr>)"

section \<open>The map of clients\<close>

record ws_ctx =
  ctxClient :: sup_client
  ctxWs :: workspace

text \<open>\<open>cmClosed\<close> lists the clients that were closed, the latest first.\<close>

record cmap =
  cmRegion :: object_ref
  cmMap :: "string \<rightharpoonup> nat"
  cmStore :: "ws_ctx list"
  cmClosed :: "sup_client list"

definition NewSupervisorCtxMap :: "object_ref \<Rightarrow> cmap" where
  "NewSupervisorCtxMap rg = \<lparr>cmRegion = rg, cmMap = Map.empty, cmStore = [], cmClosed = []\<rparr>"

definition cmapRemove :: "dialer \<Rightarrow> workspace \<Rightarrow> cmap \<Rightarrow> err option \<times> cmap" where
  "cmapRemove d ws m =
     (case cmMap m (wsName ws) of
        None \<Rightarrow> (None, m)
      | Some a \<Rightarrow>
          (let c = ctxClient (cmStore m ! a)
           in (dlClose d c,
               m\<lparr>cmMap := (cmMap m)(wsName ws := None, wsUid ws := None), cmClosed := c # cmClosed m\<rparr>)))"

definition cmapSet :: "dialer \<Rightarrow> workspace \<Rightarrow> cmap \<Rightarrow> err option \<times> cmap" where
  "cmapSet d ws m =
     (case stRegionRef (wsStatus ws) of
        None \<Rightarrow> cmapRemove d ws m
      | Some r \<Rightarrow>
          if refUid r \<noteq> refUid (cmRegion m) then (None, m)
          else if stUserRef (wsStatus ws) = None then (None, m)
          else if IsStoppingOrStopped (wsState ws) then cmapRemove d ws m
          else (case cmMap m (wsName ws) of
                  Some a \<Rightarrow> (None, m\<lparr>cmStore := (cmStore m)[a := (cmStore m ! a)\<lparr>ctxWs := ws\<rparr>]\<rparr>)
                | None \<Rightarrow>
                    (case GetWorkspaceSupClient d ws None of
                       Inl e \<Rightarrow> (Some e, m)
                     | Inr c \<Rightarrow>
                         (let a = length (cmStore m)
                          in (None, m\<lparr>cmStore := cmStore m @ [\<lparr>ctxClient = c, ctxWs = ws\<rparr>],
                                      cmMap := (cmMap m)(wsName ws \<mapsto> a, wsUid ws \<mapsto> a)\<rparr>)))))"

definition GetByNameOrUID ::
  "cmap \<Rightarrow> string \<Rightarrow> object_ref option \<Rightarrow> err + workspace \<times> sup_client" where
  "GetByNameOrUID m key usr =
     (case usr of
        None \<Rightarrow> Inl (InvalidArg ''No UserRef specified'')
      | Some u \<Rightarrow>
          (case cmMap m key of
             None \<Rightarrow> Inl (NotFoundErr (''Workspace does not exist: '' @ key))
           | Some a \<Rightarrow>
               (let ws = ctxWs (cmStore m ! a)
                in case stUserRef (wsStatus ws) of
                     None \<Rightarrow> Inl (InvalidArg (''Invalid Workspace: '' @ key))
                   | Some o' \<Rightarrow>
                       if refUid o' \<noteq> refUid u then Inl (InvalidArg (''Invalid Workspace: '' @ key))
                       else Inr (ws, ctxClient (cmStore m ! a)))))"

definition cmapGet ::
  "cmap \<Rightarrow> get_opts option \<Rightarrow> object_ref option \<Rightarrow> err + workspace \<times> sup_client" where
  "cmapGet m req usr =
     (case req of
        None \<Rightarrow> Inl (InvalidArg ''Nil Workspace req'')
      | Some o' \<Rightarrow> if goName o' \<noteq> [] then GetByNameOrUID m (goName o') usr
                   else GetByNameOrUID m (goUid o') usr)"

section \<open>What the watchers report\<close>

text \<open>
  The services feed the map from a watch on Workspaces. \<open>live\<close> holds the Workspaces as last
  reported, by name. The contract of the watch is \<open>watch_ok\<close>: it reports each change once and in
  order, names and UIDs identify Workspaces, and an update changes neither them nor the owner.
  \<open>regionKept\<close> is what the lifecycle of a Workspace guarantees: a Workspace that is not
  stopping changes its Region only by stopping. \<open>IsActive\<close> says that the state is one of the
  states the program sets.
\<close>

datatype ws_event = WsAdded workspace | WsUpdated workspace workspace | WsDeleted workspace

type_synonym live = "string \<rightharpoonup> workspace"

fun live_step :: "ws_event \<Rightarrow> live \<Rightarrow> live" where
  "live_step (WsAdded ws) L = L(wsName ws \<mapsto> ws)"
| "live_step (WsUpdated new old) L = L(wsName new \<mapsto> new)"
| "live_step (WsDeleted ws) L = L(wsName ws := None)"

definition freshWs :: "live \<Rightarrow> workspace \<Rightarrow> bool" where
  "freshWs L ws \<longleftrightarrow> L (wsName ws) = None \<and> wsUid ws \<noteq> wsName ws \<and> wsName ws \<noteq> []
     \<and> (\<forall>k w. L k = Some w \<longrightarrow> wsUid w \<noteq> wsUid ws \<and> wsUid w \<noteq> wsName ws \<and> k \<noteq> wsUid ws)"

definition sameWs :: "workspace \<Rightarrow> workspace \<Rightarrow> bool" where
  "sameWs new old \<longleftrightarrow> wsName new = wsName old \<and> wsUid new = wsUid old
     \<and> stUserRef (wsStatus new) = stUserRef (wsStatus old)"

definition regionKept :: "workspace \<Rightarrow> workspace \<Rightarrow> bool" where
  "regionKept new old \<longleftrightarrow>
     IsStoppingOrStopped (wsState old) \<or> stRegionRef (wsStatus new) = stRegionRef (wsStatus old)
     \<or> stRegionRef (wsStatus new) = None \<and> IsStoppingOrStopped (wsState new)"

fun watch_ok :: "live \<Rightarrow> ws_event \<Rightarrow> bool" where
  "watch_ok L (WsAdded ws) \<longleftrightarrow> freshWs L ws \<and> IsActive (wsState ws)"
| "watch_ok L (WsUpdated new old) \<longleftrightarrow>
     L (wsName old) = Some old \<and> sameWs new old \<and> regionKept new old \<and> IsActive (wsState new)"
| "watch_ok L (WsDeleted ws) \<longleftrightarrow> (\<exists>old. L (wsName ws) = Some old \<and> sameWs ws old)"

definition live_ok :: "live \<Rightarrow> bool" where
  "live_ok L \<longleftrightarrow> (\<forall>n v. L n = Some v \<longrightarrow> wsName v = n \<and> n \<noteq> []
     \<and> (\<forall>k w. L k = Some w \<longrightarrow> wsUid v \<noteq> k \<and> (wsUid v = wsUid w \<longrightarrow> n = k)))"

lemma live_okD:
  assumes "live_ok L" "L n = Some v"
  shows "wsName v = n" "L k = Some w \<Longrightarrow> wsUid v \<noteq> k" "L k = Some w \<Longrightarrow> wsUid v = wsUid w \<Longrightarrow> n = k"
    "n \<noteq> []"
  using assms unfolding live_ok_def by blast+

lemma live_ok_put:
  assumes L: "live_ok L" and "wsUid ws \<noteq> wsName ws" and ne: "wsName ws \<noteq> []"
    and u: "\<And>k w. L k = Some w \<Longrightarrow> k \<noteq> wsName ws \<Longrightarrow>
              wsUid w \<noteq> wsUid ws \<and> wsUid w \<noteq> wsName ws \<and> k \<noteq> wsUid ws"
  shows "live_ok (L(wsName ws \<mapsto> ws))"
  unfolding live_ok_def
proof (intro allI impI conjI)
  fix n v k w assume n: "(L(wsName ws \<mapsto> ws)) n = Some v" and k: "(L(wsName ws \<mapsto> ws)) k = Some w"
  show "wsUid v \<noteq> k" using n k assms(2) u live_okD(2)[OF L]
    by (cases "n = wsName ws"; cases "k = wsName ws") fastforce+
  show "n = k" if "wsUid v = wsUid w" using n k that u live_okD(3)[OF L]
    by (cases "n = wsName ws"; cases "k = wsName ws") fastforce+
next
  fix n v assume "(L(wsName ws \<mapsto> ws)) n = Some v"
  with live_okD(1,4)[OF L] ne show "wsName v = n" "n \<noteq> []" by (auto split: if_splits)
qed

lemma live_ok_step: "live_ok L \<Longrightarrow> watch_ok L e \<Longrightarrow> live_ok (live_step e L)"
proof (cases e)
  case (WsAdded ws)
  assume "live_ok L" "watch_ok L e"
  with WsAdded show ?thesis by (auto intro!: live_ok_put simp: freshWs_def)
next
  case (WsUpdated new old)
  assume L: "live_ok L" and "watch_ok L e"
  with WsUpdated have o: "L (wsName new) = Some old" "wsUid new = wsUid old" by (auto simp: sameWs_def)
  have "wsUid w \<noteq> wsUid new \<and> wsUid w \<noteq> wsName new \<and> k \<noteq> wsUid new"
    if w: "L k = Some w" "k \<noteq> wsName new" for k w
    using live_okD(2)[OF L w(1) o(1)] live_okD(3)[OF L w(1) o(1)] live_okD(2)[OF L o(1) w(1)]
      w(2) o(2) by auto
  moreover have "wsUid new \<noteq> wsName new" "wsName new \<noteq> []"
    using live_okD(2)[OF L o(1) o(1)] live_okD(4)[OF L o(1)] o(2) by auto
  ultimately have "live_ok (L(wsName new \<mapsto> new))" using L by (intro live_ok_put)
  with WsUpdated show ?thesis by simp
next
  case (WsDeleted ws)
  assume "live_ok L"
  with WsDeleted show ?thesis by (auto simp: live_ok_def split: if_splits)
qed

section \<open>The invariant of the map\<close>

text \<open>A Workspace the map serves in a Region.\<close>

definition servable :: "object_ref \<Rightarrow> workspace \<Rightarrow> bool" where
  "servable rg ws \<longleftrightarrow> (\<exists>r. stRegionRef (wsStatus ws) = Some r \<and> refUid r = refUid rg)
     \<and> stUserRef (wsStatus ws) \<noteq> None \<and> \<not> IsStoppingOrStopped (wsState ws)"

definition clientOf :: "dialer \<Rightarrow> workspace \<Rightarrow> sup_client" where
  "clientOf d ws = \<lparr>scName = wsName ws, scUid = wsUid ws, scAddr = getWorkspaceSupHostAddr d ws\<rparr>"

definition ctx_ok :: "dialer \<Rightarrow> object_ref \<Rightarrow> live \<Rightarrow> string \<Rightarrow> ws_ctx \<Rightarrow> bool" where
  "ctx_ok d rg L k x \<longleftrightarrow> L (wsName (ctxWs x)) = Some (ctxWs x) \<and> servable rg (ctxWs x)
     \<and> (k = wsName (ctxWs x) \<or> k = wsUid (ctxWs x)) \<and> ctxClient x = clientOf d (ctxWs x)"

definition cm_inv :: "dialer \<Rightarrow> live \<Rightarrow> cmap \<Rightarrow> bool" where
  "cm_inv d L m \<longleftrightarrow>
     (\<forall>k a. cmMap m k = Some a \<longrightarrow>
        a < length (cmStore m) \<and> ctx_ok d (cmRegion m) L k (cmStore m ! a))
     \<and> (\<forall>n ws. L n = Some ws \<longrightarrow> cmMap m n = cmMap m (wsUid ws))"

definition cm_complete :: "live \<Rightarrow> cmap \<Rightarrow> bool" where
  "cm_complete L m \<longleftrightarrow> (\<forall>n ws. L n = Some ws \<and> servable (cmRegion m) ws \<longrightarrow> cmMap m n \<noteq> None)"

lemma cm_invD:
  assumes "cm_inv d L m" "cmMap m k = Some a"
  shows "a < length (cmStore m)" "ctx_ok d (cmRegion m) L k (cmStore m ! a)"
  using assms by (auto simp: cm_inv_def)

lemma cm_inv_paired: "cm_inv d L m \<Longrightarrow> L n = Some ws \<Longrightarrow> cmMap m (wsUid ws) = cmMap m n"
  by (auto simp: cm_inv_def)

text \<open>The key of an entry names the entry's Workspace.\<close>

lemma entry_of_name:
  assumes "live_ok L" "cm_inv d L m" "L n = Some ws" "cmMap m n = Some a"
  shows "ctxWs (cmStore m ! a) = ws"
proof -
  from cm_invD(2)[OF assms(2,4)] have c: "L (wsName (ctxWs (cmStore m ! a))) = Some (ctxWs (cmStore m ! a))"
      "n = wsName (ctxWs (cmStore m ! a)) \<or> n = wsUid (ctxWs (cmStore m ! a))"
    by (auto simp: ctx_ok_def)
  with live_okD(2)[OF assms(1) c(1) assms(3)] assms(3) show ?thesis by auto
qed

lemma no_entry_unless_servable:
  assumes "live_ok L" "cm_inv d L m" "L n = Some ws" "\<not> servable (cmRegion m) ws"
  shows "cmMap m n = None"
  using entry_of_name[OF assms(1-3)] cm_invD(2)[OF assms(2)] assms(4)
  by (cases "cmMap m n") (auto simp: ctx_ok_def)

lemma freshWsD:
  assumes "freshWs L ws" "L k = Some w"
  shows "wsUid w \<noteq> wsUid ws" "wsUid w \<noteq> wsName ws" "k \<noteq> wsUid ws" "k \<noteq> wsName ws"
  using assms unfolding freshWs_def by force+

lemma no_entry_when_fresh:
  assumes "cm_inv d L m" "freshWs L ws"
  shows "cmMap m (wsName ws) = None" "cmMap m (wsUid ws) = None"
proof -
  have "cmMap m k = None" if "k = wsName ws \<or> k = wsUid ws" for k
  proof (rule ccontr)
    assume "cmMap m k \<noteq> None"
    then obtain a where "cmMap m k = Some a" by auto
    from cm_invD(2)[OF assms(1) this] have "ctx_ok d (cmRegion m) L k (cmStore m ! a)" .
    then have c: "L (wsName (ctxWs (cmStore m ! a))) = Some (ctxWs (cmStore m ! a))"
        "k = wsName (ctxWs (cmStore m ! a)) \<or> k = wsUid (ctxWs (cmStore m ! a))"
      by (auto simp: ctx_ok_def)
    with freshWsD[OF assms(2) c(1)] that show False by auto
  qed
  then show "cmMap m (wsName ws) = None" "cmMap m (wsUid ws) = None" by auto
qed

text \<open>A Workspace that is known to the watch, or is new to it.\<close>

definition known :: "live \<Rightarrow> workspace \<Rightarrow> bool" where
  "known L ws \<longleftrightarrow> freshWs L ws \<or> (\<exists>old. L (wsName ws) = Some old \<and> sameWs ws old)"

lemma known_keys:
  assumes "live_ok L" "known L ws" "L n = Some w" "n \<noteq> wsName ws"
  shows "n \<noteq> wsUid ws" "wsUid w \<noteq> wsUid ws" "wsUid w \<noteq> wsName ws" "wsUid ws \<noteq> wsName ws"
proof -
  from assms(2) consider "freshWs L ws"
    | (old) old where "L (wsName ws) = Some old" "wsUid ws = wsUid old"
    by (auto simp: known_def sameWs_def)
  then have "n \<noteq> wsUid ws \<and> wsUid w \<noteq> wsUid ws \<and> wsUid w \<noteq> wsName ws \<and> wsUid ws \<noteq> wsName ws"
  proof cases
    case old
    then show ?thesis
      using live_okD(2)[OF assms(1,3) old(1)] live_okD(3)[OF assms(1,3) old(1)]
        live_okD(2)[OF assms(1) old(1) assms(3)] live_okD(2)[OF assms(1) old(1) old(1)] assms(4)
      by auto
  qed (use assms(3) in \<open>auto simp: freshWs_def\<close>)
  then show "n \<noteq> wsUid ws" "wsUid w \<noteq> wsUid ws" "wsUid w \<noteq> wsName ws" "wsUid ws \<noteq> wsName ws"
    by auto
qed

lemma cmapRemove_map:
  assumes "live_ok L" "cm_inv d L m" "known L ws"
  shows "cmMap (snd (cmapRemove d ws m)) = (cmMap m)(wsName ws := None, wsUid ws := None)"
    "cmStore (snd (cmapRemove d ws m)) = cmStore m" "cmRegion (snd (cmapRemove d ws m)) = cmRegion m"
proof -
  have "cmMap m (wsUid ws) = None" if "cmMap m (wsName ws) = None"
    using assms(3) that no_entry_when_fresh[OF assms(2)] cm_inv_paired[OF assms(2)]
    by (auto simp: known_def sameWs_def)
  then show "cmMap (snd (cmapRemove d ws m)) = (cmMap m)(wsName ws := None, wsUid ws := None)"
    by (auto simp: cmapRemove_def Let_def fun_eq_iff split: option.split)
qed (auto simp: cmapRemove_def Let_def split: option.split)

text \<open>Once both keys of a Workspace are gone, anything may be recorded under its name.\<close>

lemma cm_inv_forget:
  assumes "live_ok L" "cm_inv d L m" "known L ws"
    and "cmMap m' = (cmMap m)(wsName ws := None, wsUid ws := None)"
    and "cmStore m' = cmStore m" "cmRegion m' = cmRegion m"
    and x: "\<And>w. x = Some w \<Longrightarrow> wsUid w = wsUid ws"
  shows "cm_inv d (L(wsName ws := x)) m'"
  unfolding cm_inv_def
proof (intro conjI allI impI)
  fix k a assume "cmMap m' k = Some a"
  with assms(4) have k: "k \<noteq> wsName ws" "k \<noteq> wsUid ws" "cmMap m k = Some a"
    by (auto split: if_splits)
  from cm_invD[OF assms(2) k(3)] show "a < length (cmStore m')" using assms(5) by simp
  from cm_invD(2)[OF assms(2) k(3)] have c: "ctx_ok d (cmRegion m) L k (cmStore m ! a)" .
  have "wsName (ctxWs (cmStore m ! a)) \<noteq> wsName ws"
  proof
    assume n: "wsName (ctxWs (cmStore m ! a)) = wsName ws"
    with c k have "k = wsUid (ctxWs (cmStore m ! a))" by (auto simp: ctx_ok_def)
    with c n assms(3) k(2) show False by (auto simp: ctx_ok_def known_def freshWs_def sameWs_def)
  qed
  with c assms(5,6) show "ctx_ok d (cmRegion m') (L(wsName ws := x)) k (cmStore m' ! a)"
    by (simp add: ctx_ok_def)
next
  fix n w assume "(L(wsName ws := x)) n = Some w"
  then show "cmMap m' n = cmMap m' (wsUid w)"
    using x known_keys[OF assms(1,3)] cm_inv_paired[OF assms(2)] assms(4)
    by (cases "n = wsName ws") auto
qed

text \<open>The entries of other Workspaces survive a change of one of them.\<close>

lemma other_entry:
  assumes "live_ok L" "cm_inv d L m" "known L ws"
    and k: "cmMap m k = Some b" "k \<noteq> wsName ws" "k \<noteq> wsUid ws"
  shows "ctx_ok d (cmRegion m) (L(wsName ws := x)) k (cmStore m ! b)"
proof -
  from cm_invD(2)[OF assms(2) k(1)] have c: "ctx_ok d (cmRegion m) L k (cmStore m ! b)" .
  have "wsName (ctxWs (cmStore m ! b)) \<noteq> wsName ws"
  proof
    assume n: "wsName (ctxWs (cmStore m ! b)) = wsName ws"
    with c k have "k = wsUid (ctxWs (cmStore m ! b))" by (auto simp: ctx_ok_def)
    with c n assms(3) k(3) show False by (auto simp: ctx_ok_def known_def freshWs_def sameWs_def)
  qed
  with c show ?thesis by (simp add: ctx_ok_def)
qed

lemma cm_inv_entry:
  assumes L: "live_ok L" and inv: "cm_inv d L m" and s: "servable (cmRegion m) ws"
    and o: "L (wsName ws) = Some old" "sameWs ws old" and entry: "cmMap m (wsName ws) = Some a"
  shows "cm_inv d (L(wsName ws \<mapsto> ws)) (m\<lparr>cmStore := (cmStore m)[a := (cmStore m ! a)\<lparr>ctxWs := ws\<rparr>]\<rparr>)"
    (is "cm_inv d ?L ?m")
  unfolding cm_inv_def
proof (intro conjI allI impI)
  have kn: "known L ws" using o by (auto simp: known_def)
  have a: "a < length (cmStore m)" "ctxClient (cmStore m ! a) = clientOf d ws"
    "ctxWs (cmStore m ! a) = old" "cmMap m (wsUid ws) = Some a"
    using cm_invD[OF inv entry] entry_of_name[OF L inv o(1) entry] o(2)
      cm_inv_paired[OF inv o(1)] entry
    by (auto simp: ctx_ok_def clientOf_def sameWs_def getWorkspaceSupHostAddr_def
        GetWorkspaceSupHost_def)
  {
    fix k b assume k: "cmMap ?m k = Some b"
    with cm_invD[OF inv] show "b < length (cmStore ?m)" by simp
    show "ctx_ok d (cmRegion ?m) ?L k (cmStore ?m ! b)"
    proof (cases "k = wsName ws \<or> k = wsUid ws")
      case True
      with k entry a s show ?thesis by (auto simp: ctx_ok_def)
    next
      case False
      with k cm_invD(2)[OF inv] other_entry[OF L inv kn, of k b]
      have c: "ctx_ok d (cmRegion m) ?L k (cmStore m ! b)" "ctx_ok d (cmRegion m) L k (cmStore m ! b)"
        by auto
      have "b \<noteq> a" using c(2) a(3) o(2) False by (auto simp: ctx_ok_def sameWs_def)
      with c show ?thesis by simp
    qed
  }
  fix n w' assume n: "?L n = Some w'"
  with entry a cm_inv_paired[OF inv] show "cmMap ?m n = cmMap ?m (wsUid w')"
    by (cases "n = wsName ws") auto
qed

lemma cm_inv_alloc:
  assumes L: "live_ok L" and inv: "cm_inv d L m" and s: "servable (cmRegion m) ws"
    and kn: "known L ws" and c: "c = clientOf d ws"
  shows "cm_inv d (L(wsName ws \<mapsto> ws))
     (m\<lparr>cmStore := cmStore m @ [\<lparr>ctxClient = c, ctxWs = ws\<rparr>],
        cmMap := (cmMap m)(wsName ws \<mapsto> length (cmStore m), wsUid ws \<mapsto> length (cmStore m))\<rparr>)"
    (is "cm_inv d ?L ?m")
  unfolding cm_inv_def
proof (intro conjI allI impI)
  {
    fix k b assume k: "cmMap ?m k = Some b"
    have "b < length (cmStore ?m) \<and> ctx_ok d (cmRegion ?m) ?L k (cmStore ?m ! b)"
    proof (cases "k = wsName ws \<or> k = wsUid ws")
      case True
      with k s c show ?thesis by (auto simp: ctx_ok_def split: if_splits)
    next
      case False
      with k have "cmMap m k = Some b" by auto
      with False cm_invD(1)[OF inv this] other_entry[OF L inv kn this]
      show ?thesis by (simp add: nth_append)
    qed
    then show "b < length (cmStore ?m)" "ctx_ok d (cmRegion ?m) ?L k (cmStore ?m ! b)" by auto
  }
  fix n w' assume n: "?L n = Some w'"
  show "cmMap ?m n = cmMap ?m (wsUid w')"
  proof (cases "n = wsName ws")
    case False
    with n have "L n = Some w'" by simp
    with False known_keys[OF L kn this] cm_inv_paired[OF inv this] show ?thesis by simp
  qed (use n in auto)
qed

text \<open>What \<open>cmapSet\<close> does, by cases.\<close>

lemma cmapSet_cases:
  obtains (skip) "snd (cmapSet d ws m) = m" "\<not> servable (cmRegion m) ws"
      "stRegionRef (wsStatus ws) \<noteq> None"
      "(\<nexists>r. stRegionRef (wsStatus ws) = Some r \<and> refUid r = refUid (cmRegion m))
         \<or> stUserRef (wsStatus ws) = None"
  | (remove) "snd (cmapSet d ws m) = snd (cmapRemove d ws m)" "\<not> servable (cmRegion m) ws"
  | (entry) a where "servable (cmRegion m) ws" "cmMap m (wsName ws) = Some a"
      "snd (cmapSet d ws m) = m\<lparr>cmStore := (cmStore m)[a := (cmStore m ! a)\<lparr>ctxWs := ws\<rparr>]\<rparr>"
  | (failed) e where "servable (cmRegion m) ws" "cmMap m (wsName ws) = None"
      "dlNewClient d (getWorkspaceSupHostAddr d ws) = Some e" "snd (cmapSet d ws m) = m"
  | (alloc) "servable (cmRegion m) ws" "cmMap m (wsName ws) = None"
      "snd (cmapSet d ws m) =
         m\<lparr>cmStore := cmStore m @ [\<lparr>ctxClient = clientOf d ws, ctxWs = ws\<rparr>],
           cmMap := (cmMap m)(wsName ws \<mapsto> length (cmStore m), wsUid ws \<mapsto> length (cmStore m))\<rparr>"
proof (cases "servable (cmRegion m) ws")
  case True
  then have *: "cmapSet d ws m = (case cmMap m (wsName ws) of
                  Some a \<Rightarrow> (None, m\<lparr>cmStore := (cmStore m)[a := (cmStore m ! a)\<lparr>ctxWs := ws\<rparr>]\<rparr>)
                | None \<Rightarrow> (case GetWorkspaceSupClient d ws None of
                       Inl e \<Rightarrow> (Some e, m)
                     | Inr c \<Rightarrow>
                         (let a = length (cmStore m)
                          in (None, m\<lparr>cmStore := cmStore m @ [\<lparr>ctxClient = c, ctxWs = ws\<rparr>],
                                      cmMap := (cmMap m)(wsName ws \<mapsto> a, wsUid ws \<mapsto> a)\<rparr>))))"
    by (auto simp: cmapSet_def servable_def)
  show ?thesis
  proof (cases "cmMap m (wsName ws)")
    case (Some a)
    with * True show ?thesis by (intro entry) auto
  next
    case None
    with * True show ?thesis
      by (cases "dlNewClient d (getWorkspaceSupHostAddr d ws)")
        (auto simp: GetWorkspaceSupClient_def Let_def clientOf_def intro: failed alloc)
  qed
next
  case False
  then have "cmapSet d ws m = cmapRemove d ws m
      \<or> cmapSet d ws m = (None, m) \<and> stRegionRef (wsStatus ws) \<noteq> None
        \<and> ((\<nexists>r. stRegionRef (wsStatus ws) = Some r \<and> refUid r = refUid (cmRegion m))
           \<or> stUserRef (wsStatus ws) = None)"
    by (cases "stRegionRef (wsStatus ws)") (auto simp: cmapSet_def servable_def)
  with False show ?thesis by (elim disjE) (auto intro: skip remove)
qed

text \<open>The contract of a call of \<open>cmapSet\<close>.\<close>

definition settable :: "live \<Rightarrow> workspace \<Rightarrow> bool" where
  "settable L ws \<longleftrightarrow>
     freshWs L ws \<or> (\<exists>old. L (wsName ws) = Some old \<and> sameWs ws old \<and> regionKept ws old)"

lemma settable_known: "settable L ws \<Longrightarrow> known L ws"
  by (auto simp: settable_def known_def)

lemma idle_keeps:
  assumes "live_ok L" "cm_inv d L m" "known L ws" "cmMap m (wsName ws) = None"
  shows "cm_inv d (L(wsName ws \<mapsto> ws)) m"
proof (rule cm_inv_forget[OF assms(1-3)])
  have "cmMap m (wsUid ws) = None"
    using assms(3,4) no_entry_when_fresh[OF assms(2)] cm_inv_paired[OF assms(2)]
    by (auto simp: known_def sameWs_def)
  with assms(4) show "cmMap m = (cmMap m)(wsName ws := None, wsUid ws := None)" by auto
qed auto

lemma remove_keeps:
  assumes "live_ok L" "cm_inv d L m" "known L ws" "\<And>w. x = Some w \<Longrightarrow> w = ws"
  shows "cm_inv d (L(wsName ws := x)) (snd (cmapRemove d ws m))"
  by (rule cm_inv_forget[OF assms(1-3) cmapRemove_map[OF assms(1-3)]]) (auto dest: assms(4))

text \<open>A Workspace that is passed over has no entry.\<close>

lemma skipped_absent:
  assumes "live_ok L" "cm_inv d L m" "settable L ws"
    and "stRegionRef (wsStatus ws) \<noteq> None"
    and "(\<nexists>r. stRegionRef (wsStatus ws) = Some r \<and> refUid r = refUid (cmRegion m))
         \<or> stUserRef (wsStatus ws) = None"
  shows "cmMap m (wsName ws) = None"
proof (cases "freshWs L ws")
  case False
  with assms(3) obtain old where o: "L (wsName ws) = Some old" "sameWs ws old" "regionKept ws old"
    by (auto simp: settable_def)
  with assms(4,5) have "\<not> servable (cmRegion m) old"
    by (auto simp: servable_def sameWs_def regionKept_def)
  with no_entry_unless_servable[OF assms(1,2) o(1)] show ?thesis by simp
qed (rule no_entry_when_fresh(1)[OF assms(2)])

lemma cmapSet_keeps:
  assumes L: "live_ok L" and inv: "cm_inv d L m" and w: "settable L ws"
  shows "cm_inv d (L(wsName ws \<mapsto> ws)) (snd (cmapSet d ws m))"
proof (cases rule: cmapSet_cases[of d ws m])
  case skip
  with idle_keeps[OF L inv settable_known[OF w] skipped_absent[OF L inv w]] show ?thesis by simp
next
  case remove
  with remove_keeps[OF L inv settable_known[OF w], of "Some ws"] show ?thesis by simp
next
  case (entry a)
  then obtain old where "L (wsName ws) = Some old" "sameWs ws old"
    using w no_entry_when_fresh(1)[OF inv] by (auto simp: settable_def)
  with cm_inv_entry[OF L inv] entry show ?thesis by simp
next
  case failed
  with idle_keeps[OF L inv settable_known[OF w]] show ?thesis by simp
next
  case alloc
  with cm_inv_alloc[OF L inv _ settable_known[OF w]] show ?thesis by simp
qed

lemma cmap_region [simp]:
  "cmRegion (snd (cmapRemove d ws m)) = cmRegion m" "cmRegion (snd (cmapSet d ws m)) = cmRegion m"
  by (auto simp: cmapSet_def cmapRemove_def Let_def split: option.split sum.split)

text \<open>Completeness: no servable Workspace is missing, as long as clients can be made.\<close>

lemma complete_forget:
  assumes "live_ok L" "known L ws" "cm_complete L m"
    and "cmMap m' = (cmMap m)(wsName ws := None, wsUid ws := None)" "cmRegion m' = cmRegion m"
    and "\<And>w. x = Some w \<Longrightarrow> \<not> servable (cmRegion m) w"
  shows "cm_complete (L(wsName ws := x)) m'"
  unfolding cm_complete_def
proof (intro allI impI)
  fix n w assume "(L(wsName ws := x)) n = Some w \<and> servable (cmRegion m') w"
  with assms(3-6) known_keys(1)[OF assms(1,2)] show "cmMap m' n \<noteq> None"
    by (cases "n = wsName ws") (auto simp: cm_complete_def)
qed

lemma cmapSet_complete:
  assumes L: "live_ok L" and inv: "cm_inv d L m" and w: "settable L ws" and c: "cm_complete L m"
    and "\<And>a. dlNewClient d a = None"
  shows "cm_complete (L(wsName ws \<mapsto> ws)) (snd (cmapSet d ws m))"
proof (cases rule: cmapSet_cases[of d ws m])
  case remove
  with complete_forget[OF L settable_known[OF w] c cmapRemove_map(1)[OF L inv settable_known[OF w]],
      of "Some ws"]
  show ?thesis by simp
qed (use c assms(5) in \<open>auto simp: cm_complete_def\<close>)

section \<open>Access\<close>

text \<open>With the invariant, a lookup gives exactly the owner's servable Workspaces.\<close>

theorem GetByNameOrUID_exact:
  assumes L: "live_ok L" and inv: "cm_inv d L m" and c: "cm_complete L m"
  shows "GetByNameOrUID m key (Some u) = Inr (ws, cl) \<longleftrightarrow>
     L (wsName ws) = Some ws \<and> (key = wsName ws \<or> key = wsUid ws) \<and> servable (cmRegion m) ws
     \<and> (\<exists>r. stUserRef (wsStatus ws) = Some r \<and> refUid r = refUid u) \<and> cl = clientOf d ws"
    (is "?l \<longleftrightarrow> ?r")
proof
  assume ?l
  then obtain a where a: "cmMap m key = Some a" "ws = ctxWs (cmStore m ! a)"
      "cl = ctxClient (cmStore m ! a)" "\<exists>r. stUserRef (wsStatus ws) = Some r \<and> refUid r = refUid u"
    by (auto simp: GetByNameOrUID_def Let_def split: option.splits if_splits)
  with cm_invD(2)[OF inv a(1)] show ?r by (auto simp: ctx_ok_def)
next
  assume r: ?r
  with c obtain a where n: "cmMap m (wsName ws) = Some a" by (auto simp: cm_complete_def)
  with r cm_inv_paired[OF inv] have k: "cmMap m key = Some a" by auto
  from r entry_of_name[OF L inv _ n] have "ctxWs (cmStore m ! a) = ws" by auto
  with r k cm_invD(2)[OF inv n] show ?l by (auto simp: GetByNameOrUID_def ctx_ok_def)
qed

lemma GetByNameOrUID_sound:
  assumes "cm_inv d L m" "GetByNameOrUID m key usr = Inr (ws, cl)"
  shows "L (wsName ws) = Some ws" "key = wsName ws \<or> key = wsUid ws" "servable (cmRegion m) ws"
    "\<exists>u r. usr = Some u \<and> stUserRef (wsStatus ws) = Some r \<and> refUid r = refUid u"
    "cl = clientOf d ws"
proof -
  from assms(2) obtain a where a: "cmMap m key = Some a" "ws = ctxWs (cmStore m ! a)"
      "cl = ctxClient (cmStore m ! a)"
      "\<exists>u r. usr = Some u \<and> stUserRef (wsStatus ws) = Some r \<and> refUid r = refUid u"
    by (auto simp: GetByNameOrUID_def Let_def split: option.splits if_splits)
  with cm_invD(2)[OF assms(1) a(1)]
  show "L (wsName ws) = Some ws" "key = wsName ws \<or> key = wsUid ws" "servable (cmRegion m) ws"
    "\<exists>u r. usr = Some u \<and> stUserRef (wsStatus ws) = Some r \<and> refUid r = refUid u"
    "cl = clientOf d ws" by (auto simp: ctx_ok_def)
qed

lemma cm_inv_new: "cm_inv d Map.empty (NewSupervisorCtxMap rg)" "live_ok Map.empty"
    "cm_complete Map.empty (NewSupervisorCtxMap rg)"
  by (auto simp: cm_inv_def NewSupervisorCtxMap_def live_ok_def cm_complete_def)

end
