(* ===== verification/Terminal_Service.thy ===== *)
theory Terminal_Service
  imports Sup_Cmap
begin

text \<open>
  The Workspace service of the API server, \<open>cluster/apiserver/apiserver/wrks\<close>: the watch that
  feeds its map of supervisors (\<open>server.go\<close>), the terminals (\<open>terminal.go\<close>) and the log
  (\<open>logs.go\<close>). The supervisors are a parameter: they answer a call given the calls made so far.
  The server's state records the calls and the UIDs put into the channel of the activity
  controller, so that the theorems can say which Workspaces a request reaches.
\<close>

section \<open>Calls of a supervisor\<close>

datatype term_call =
    CallCreate u32 u32
  | CallRemove string
  | CallList
  | CallWrite string string
  | CallResize string u32 u32
  | CallListen string
  | CallExec string
  | CallEvents

text \<open>A stream is what its \<open>Recv\<close> returns, up to the moment the context is done.\<close>

datatype listen_msg = MsgStdout string | MsgWindowSize u32 u32 | MsgClose | MsgOther

datatype event_msg = MsgLog string | EventOther

datatype term_reply =
    ReplyDone
  | ReplyId string
  | ReplyItems "string list"
  | ReplyTerminal "(err + listen_msg) list"
  | ReplyEvents "(err + event_msg) list"

section \<open>The server\<close>

record wrks =
  wkRegion :: object_ref
  wkMap :: cmap
  wkActivity :: "string list"
  wkCalls :: "(sup_client \<times> term_call) list"

record wrks_env =
  weUserCtx :: "err + user_ctx"
  weCheckObjectRef :: "object_ref option \<Rightarrow> err option"
  weCheckGetOptions :: "get_opts \<Rightarrow> err option"
  weToGetOptions :: "object_ref option \<Rightarrow> err + get_opts"
  weIsCanceled :: "err \<Rightarrow> bool"
  weReply :: "(sup_client \<times> term_call) list \<Rightarrow> sup_client \<Rightarrow> term_call \<Rightarrow> err + term_reply"

definition newWrks :: "object_ref \<Rightarrow> wrks" where
  "newWrks rg = \<lparr>wkRegion = rg, wkMap = NewSupervisorCtxMap rg, wkActivity = [], wkCalls = []\<rparr>"

section \<open>The watch (server.go)\<close>

definition shouldSet :: "object_ref \<Rightarrow> workspace \<Rightarrow> bool" where
  "shouldSet rg ws =
     (case stRegionRef (wsStatus ws) of
        None \<Rightarrow> False
      | Some r \<Rightarrow>
          if refUid r \<noteq> refUid rg then False
          else if stUserRef (wsStatus ws) = None then False
          else IsActive (wsState ws))"

definition ctlSet :: "dialer \<Rightarrow> object_ref \<Rightarrow> workspace \<Rightarrow> cmap \<Rightarrow> err option \<times> cmap" where
  "ctlSet d rg ws m = (if \<not> shouldSet rg ws then (None, m) else cmapSet d ws m)"

definition onWsUpdate ::
  "dialer \<Rightarrow> object_ref \<Rightarrow> workspace \<Rightarrow> workspace \<Rightarrow> cmap \<Rightarrow> err option \<times> cmap" where
  "onWsUpdate d rg new old m =
     (if IsStoppingOrStopped (wsState new) \<and> \<not> IsStoppingOrStopped (wsState old)
      then cmapRemove d new m else ctlSet d rg new m)"

fun wsCtlEvent :: "dialer \<Rightarrow> object_ref \<Rightarrow> ws_event \<Rightarrow> cmap \<Rightarrow> err option \<times> cmap" where
  "wsCtlEvent d rg (WsAdded ws) m = ctlSet d rg ws m"
| "wsCtlEvent d rg (WsUpdated new old) m = onWsUpdate d rg new old m"
| "wsCtlEvent d rg (WsDeleted ws) m = cmapRemove d ws m"

text \<open>The invariant of the map survives every event.\<close>

lemma ctlSet_keeps:
  assumes L: "live_ok L" and inv: "cm_inv d L m" and w: "settable L ws"
    and no: "\<not> shouldSet (cmRegion m) ws \<Longrightarrow> cmMap m (wsName ws) = None"
  shows "cm_inv d (L(wsName ws \<mapsto> ws)) (snd (ctlSet d (cmRegion m) ws m))"
  using cmapSet_keeps[OF L inv w] idle_keeps[OF L inv settable_known[OF w]] no
  by (auto simp: ctlSet_def)

lemma unset_unservable:
  "IsActive (wsState ws) \<Longrightarrow> \<not> shouldSet rg ws \<Longrightarrow> \<not> servable rg ws"
  by (auto simp: shouldSet_def servable_def split: option.splits if_splits)

lemma event_keeps:
  assumes L: "live_ok L" and inv: "cm_inv d L m" and w: "watch_ok L e"
  shows "cm_inv d (live_step e L) (snd (wsCtlEvent d (cmRegion m) e m))"
proof (cases e)
  case (WsAdded ws)
  with w have f: "freshWs L ws" by simp
  then have "settable L ws" by (simp add: settable_def)
  with ctlSet_keeps[OF L inv this] no_entry_when_fresh(1)[OF inv f] WsAdded show ?thesis by simp
next
  case (WsUpdated new old)
  with w have o: "L (wsName new) = Some old" "sameWs new old" "regionKept new old"
      "IsActive (wsState new)" by (auto simp: sameWs_def)
  then have s: "settable L new" by (auto simp: settable_def)
  show ?thesis
  proof (cases "IsStoppingOrStopped (wsState new) \<and> \<not> IsStoppingOrStopped (wsState old)")
    case True
    with remove_keeps[OF L inv settable_known[OF s], of "Some new"] WsUpdated show ?thesis
      by (simp add: onWsUpdate_def)
  next
    case False
    have "cmMap m (wsName new) = None" if "\<not> shouldSet (cmRegion m) new"
    proof (rule no_entry_unless_servable[OF L inv o(1)])
      show "\<not> servable (cmRegion m) old"
        using unset_unservable[OF o(4) that] False o(2,3)
        by (auto simp: servable_def regionKept_def sameWs_def)
    qed
    with ctlSet_keeps[OF L inv s] False WsUpdated show ?thesis by (auto simp: onWsUpdate_def)
  qed
next
  case (WsDeleted ws)
  with w have "known L ws" by (auto simp: known_def)
  with remove_keeps[OF L inv this, of None] WsDeleted show ?thesis by simp
qed

lemma event_region [simp]: "cmRegion (snd (wsCtlEvent d rg e m)) = cmRegion m"
  by (cases e) (auto simp: onWsUpdate_def ctlSet_def)

lemma ctlSet_complete:
  assumes "live_ok L" "cm_inv d L m" "cm_complete L m" "settable L ws" "IsActive (wsState ws)"
    and "\<And>a. dlNewClient d a = None"
  shows "cm_complete (L(wsName ws \<mapsto> ws)) (snd (ctlSet d (cmRegion m) ws m))"
proof (cases "shouldSet (cmRegion m) ws")
  case True
  with cmapSet_complete[OF assms(1,2,4,3,6)] show ?thesis by (simp add: ctlSet_def)
next
  case False
  with unset_unservable[OF assms(5)] assms(3) show ?thesis by (auto simp: ctlSet_def cm_complete_def)
qed

lemma event_complete:
  assumes L: "live_ok L" and inv: "cm_inv d L m" and c: "cm_complete L m" and w: "watch_ok L e"
    and dial: "\<And>a. dlNewClient d a = None"
  shows "cm_complete (live_step e L) (snd (wsCtlEvent d (cmRegion m) e m))"
proof (cases e)
  case (WsAdded ws)
  with w have f: "settable L ws" "IsActive (wsState ws)" by (auto simp: settable_def)
  from ctlSet_complete[OF L inv c f dial] WsAdded show ?thesis by simp
next
  case (WsUpdated new old)
  with w have f: "settable L new" "IsActive (wsState new)" by (auto simp: settable_def sameWs_def)
  note rem = cmapRemove_map[OF L inv settable_known[OF f(1)]]
  from ctlSet_complete[OF L inv c f dial] WsUpdated
    complete_forget[OF L settable_known[OF f(1)] c rem(1) rem(3), of "Some new"]
  show ?thesis by (auto simp: onWsUpdate_def servable_def)
next
  case (WsDeleted ws)
  with w have k: "known L ws" by (auto simp: known_def)
  note rem = cmapRemove_map[OF L inv k]
  from complete_forget[OF L k c rem(1) rem(3), of None] WsDeleted show ?thesis by simp
qed

section \<open>Requests\<close>

type_synonym 'a handler = "(wrks, 'a) io"

definition sendActivity :: "string \<Rightarrow> unit handler" where
  "sendActivity uid = (\<lambda>s. (Inr (), s\<lparr>wkActivity := wkActivity s @ [uid]\<rparr>))"

definition callSup :: "wrks_env \<Rightarrow> sup_client \<Rightarrow> term_call \<Rightarrow> term_reply handler" where
  "callSup env c t = (\<lambda>s. (weReply env (wkCalls s) c t, s\<lparr>wkCalls := wkCalls s @ [(c, t)]\<rparr>))"

definition getSupC :: "wrks_env \<Rightarrow> get_opts \<Rightarrow> sup_client handler" where
  "getSupC env req =
     bindE (liftE (weUserCtx env)) (\<lambda>i.
     bindE (checkE (weCheckGetOptions env req)) (\<lambda>_.
     bindE (readE (\<lambda>s. cmapGet (wkMap s) (Some req) (Some (ictxSessionUserRef i)))) (\<lambda>(ws, supC).
     bindE (throw_if (\<not> IsPreparingOrRunning (wsState ws))
              (InvalidArg (''The Workspace is not ready: '' @ wsName ws))) (\<lambda>_.
     retE supC))))"

definition getWSNameFromTerminalID :: "string \<Rightarrow> err + string" where
  "getWSNameFromTerminalID arg =
     (case CheckTerminalID arg of
        Some e \<Rightarrow> Inl e
      | None \<Rightarrow>
          (let args = splitOn CHR ''-'' arg
           in if length args \<noteq> 2 then Inl (InvalidArg ''Invalid Terminal ID'') else Inr (args ! 0)))"

definition CreateTerminal :: "wrks_env \<Rightarrow> object_ref option \<Rightarrow> u32 \<Rightarrow> u32 \<Rightarrow> string handler" where
  "CreateTerminal env wsRef cols rows =
     bindE (checkE (weCheckObjectRef env wsRef)) (\<lambda>_.
     bindE (liftE (weToGetOptions env wsRef)) (\<lambda>opts.
     bindE (getSupC env opts) (\<lambda>c.
     bindE (mapErrE InternalWithErr (callSup env c (CallCreate cols rows))) (\<lambda>resp.
     bindE (sendActivity (scUid c)) (\<lambda>_.
     retE (case resp of ReplyId i \<Rightarrow> i | _ \<Rightarrow> []))))))"

definition RemoveTerminal :: "wrks_env \<Rightarrow> string \<Rightarrow> unit handler" where
  "RemoveTerminal env tid =
     bindE (liftE (getWSNameFromTerminalID tid)) (\<lambda>n.
     bindE (getSupC env (byName n)) (\<lambda>c.
     bindE (callSup env c (CallRemove tid)) (\<lambda>_.
     retE ())))"

definition ListTerminal :: "wrks_env \<Rightarrow> object_ref option \<Rightarrow> string list handler" where
  "ListTerminal env wsRef =
     bindE (checkE (weCheckObjectRef env wsRef)) (\<lambda>_.
     bindE (liftE (weToGetOptions env wsRef)) (\<lambda>opts.
     bindE (getSupC env opts) (\<lambda>c.
     bindE (mapErrE InternalWithErr (callSup env c CallList)) (\<lambda>resp.
     retE (case resp of ReplyItems is \<Rightarrow> is | _ \<Rightarrow> [])))))"

definition WriteTerminalData :: "wrks_env \<Rightarrow> string \<Rightarrow> string \<Rightarrow> unit handler" where
  "WriteTerminalData env tid data =
     bindE (liftE (getWSNameFromTerminalID tid)) (\<lambda>n.
     bindE (throw_if (10000 < length data) (InvalidArg ''Data size is too big'')) (\<lambda>_.
     bindE (getSupC env (byName n)) (\<lambda>c.
     bindE (mapErrE InternalWithErr (callSup env c (CallWrite tid data))) (\<lambda>_.
     sendActivity (scUid c)))))"

definition SetTerminalWindowSize :: "wrks_env \<Rightarrow> string \<Rightarrow> u32 \<Rightarrow> u32 \<Rightarrow> unit handler" where
  "SetTerminalWindowSize env tid cols rows =
     bindE (liftE (getWSNameFromTerminalID tid)) (\<lambda>n.
     bindE (getSupC env (byName n)) (\<lambda>c.
     bindE (callSup env c (CallResize tid cols rows)) (\<lambda>_.
     sendActivity (scUid c))))"

text \<open>
  The loops that copy a stream: what is sent to the client and the error the loop ends with,
  \<open>None\<close> when the context was done first.
\<close>

fun relayTerminal :: "(err + listen_msg) list \<Rightarrow> listen_msg list \<times> err option" where
  "relayTerminal [] = ([], None)"
| "relayTerminal (Inl e # ms) = ([], Some e)"
| "relayTerminal (Inr m # ms) =
     (let (out, r) = relayTerminal ms
      in (case m of MsgOther \<Rightarrow> out | MsgStdout d \<Rightarrow> MsgStdout d # out
          | MsgWindowSize c r' \<Rightarrow> MsgWindowSize c r' # out | MsgClose \<Rightarrow> MsgClose # out, r))"

definition ListenTerminal :: "wrks_env \<Rightarrow> string \<Rightarrow> (listen_msg list \<times> err option) handler" where
  "ListenTerminal env tid =
     bindE (liftE (getWSNameFromTerminalID tid)) (\<lambda>n.
     bindE (getSupC env (byName n)) (\<lambda>c.
     bindE (callSup env c (CallListen tid)) (\<lambda>strm.
     retE (relayTerminal (case strm of ReplyTerminal ms \<Rightarrow> ms | _ \<Rightarrow> [])))))"

text \<open>The log: \<open>send\<close> says whether the client takes the line.\<close>

fun relayLog ::
  "(err \<Rightarrow> bool) \<Rightarrow> (string \<Rightarrow> err option) \<Rightarrow> (err + event_msg) list \<Rightarrow> string list \<times> err option" where
  "relayLog canceled send [] = ([], None)"
| "relayLog canceled send (Inl e # ms) =
     ([], if canceled e then None else Some (InternalWithErr e))"
| "relayLog canceled send (Inr (MsgLog l) # ms) =
     (case send l of
        Some e \<Rightarrow> ([], Some e)
      | None \<Rightarrow> (let (out, r) = relayLog canceled send ms in (l # out, r)))"
| "relayLog canceled send (Inr EventOther # ms) = relayLog canceled send ms"

definition ListenLog ::
  "wrks_env \<Rightarrow> (string \<Rightarrow> err option) \<Rightarrow> object_ref option \<Rightarrow> (string list \<times> err option) handler" where
  "ListenLog env send wsRef =
     bindE (liftE (weUserCtx env)) (\<lambda>i.
     bindE (checkE (weCheckObjectRef env wsRef)) (\<lambda>_.
     bindE (liftE (weToGetOptions env wsRef)) (\<lambda>opts.
     bindE (readE (\<lambda>s. cmapGet (wkMap s) (Some opts) (Some (ictxSessionUserRef i)))) (\<lambda>(ws, supC).
     bindE (throw_if (IsInitializing (wsState ws) \<or> IsStoppingOrStopped (wsState ws))
              (InvalidArg ''Workspace is not ready'')) (\<lambda>_.
     bindE (sendActivity (wsUid ws)) (\<lambda>_.
     bindE (mapErrE InternalWithErr (callSup env supC CallEvents)) (\<lambda>strm.
     retE (relayLog (weIsCanceled env) send (case strm of ReplyEvents ms \<Rightarrow> ms | _ \<Rightarrow> [])))))))))"

text \<open>
  \<open>Exec\<close> up to the stream it opens and the first message it sends there; the message is opaque
  but for the reference of its request. The two goroutines then copy messages both ways.
\<close>

record exec_msg =
  exRequest :: "object_ref option option"
  exPayload :: string

definition ExecOpen :: "wrks_env \<Rightarrow> err + exec_msg \<Rightarrow> sup_client handler" where
  "ExecOpen env first =
     bindE (liftE first) (\<lambda>msg.
     bindE (throw_if (exRequest msg = None) (InvalidArg ''Init message must be request'')) (\<lambda>_.
     bindE (liftE (weToGetOptions env (the (exRequest msg)))) (\<lambda>opts.
     bindE (getSupC env opts) (\<lambda>c.
     bindE (sendActivity (scUid c)) (\<lambda>_.
     bindE (callSup env c (CallExec (exPayload msg))) (\<lambda>_.
     retE c))))))"

text \<open>A request and the handler that serves it.\<close>

datatype ws_request =
    RqCreateTerminal "object_ref option" u32 u32
  | RqRemoveTerminal string
  | RqListTerminal "object_ref option"
  | RqWriteTerminalData string string
  | RqSetTerminalWindowSize string u32 u32
  | RqListenTerminal string
  | RqListenLog "object_ref option" "string \<Rightarrow> err option"
  | RqExec "err + exec_msg"

definition doneE :: "'a handler \<Rightarrow> unit handler" where
  "doneE m = bindE m (\<lambda>_. retE ())"

fun serve :: "wrks_env \<Rightarrow> ws_request \<Rightarrow> unit handler" where
  "serve env (RqCreateTerminal ref cols rows) = doneE (CreateTerminal env ref cols rows)"
| "serve env (RqRemoveTerminal tid) = RemoveTerminal env tid"
| "serve env (RqListTerminal ref) = doneE (ListTerminal env ref)"
| "serve env (RqWriteTerminalData tid data) = WriteTerminalData env tid data"
| "serve env (RqSetTerminalWindowSize tid cols rows) = SetTerminalWindowSize env tid cols rows"
| "serve env (RqListenTerminal tid) = doneE (ListenTerminal env tid)"
| "serve env (RqListenLog ref send) = doneE (ListenLog env send ref)"
| "serve env (RqExec first) = doneE (ExecOpen env first)"

text \<open>The server as a state machine: the events of its watch and the requests of all users.\<close>

inductive wrks_run :: "dialer \<Rightarrow> object_ref \<Rightarrow> live \<Rightarrow> wrks \<Rightarrow> bool" for d rg where
  start: "wrks_run d rg Map.empty (newWrks rg)"
| event: "wrks_run d rg L s \<Longrightarrow> watch_ok L e \<Longrightarrow>
    wrks_run d rg (live_step e L) (s\<lparr>wkMap := snd (wsCtlEvent d (wkRegion s) e (wkMap s))\<rparr>)"
| request: "wrks_run d rg L s \<Longrightarrow> wrks_run d rg L (snd (serve env rq s))"

section \<open>Which supervisors a request reaches\<close>

text \<open>At most one call is added, and it satisfies \<open>K\<close>.\<close>

definition called ::
  "(sup_client \<Rightarrow> term_call \<Rightarrow> bool) \<Rightarrow> wrks \<Rightarrow> ('r \<times> wrks) \<Rightarrow> bool" where
  "called K s rs \<longleftrightarrow> wkMap (snd rs) = wkMap s \<and> wkRegion (snd rs) = wkRegion s
     \<and> (wkCalls (snd rs) = wkCalls s
        \<or> (\<exists>c t. wkCalls (snd rs) = wkCalls s @ [(c, t)] \<and> K c t))"

definition quiet :: "'a handler \<Rightarrow> bool" where
  "quiet m \<longleftrightarrow> (\<forall>s. wkMap (snd (m s)) = wkMap s \<and> wkRegion (snd (m s)) = wkRegion s
     \<and> wkCalls (snd (m s)) = wkCalls s)"

named_theorems call_intros

lemma quiet_intros [call_intros]:
  "quiet (retE x)" "quiet (sendActivity u)" "quiet (throwE e)"
  by (auto simp: quiet_def retE_def sendActivity_def throwE_def)

lemma quiet_bindE [call_intros]: "quiet m \<Longrightarrow> (\<And>x. quiet (f x)) \<Longrightarrow> quiet (bindE m f)"
  by (auto simp: quiet_def bindE_def split: prod.splits sum.splits) (metis snd_conv)+

lemma called_quiet: "quiet m \<Longrightarrow> called K s (m s)"
  by (simp add: quiet_def called_def)

lemma called_read:
  assumes "read_only m" and "\<And>x. m s = (Inr x, s) \<Longrightarrow> called K s (f x s)"
  shows "called K s (bindE m f s)"
proof (cases "m s")
  case (Pair r s')
  with read_onlyD[OF assms(1)] have "s' = s" by blast
  with Pair assms(2) show ?thesis
    by (cases r) (auto simp: bindE_def called_def)
qed

lemma called_sendActivity:
  assumes "called K (s\<lparr>wkActivity := wkActivity s @ [u]\<rparr>) (f () (s\<lparr>wkActivity := wkActivity s @ [u]\<rparr>))"
  shows "called K s (bindE (sendActivity u) f s)"
  using assms by (simp add: bindE_def sendActivity_def called_def)

lemma called_call:
  assumes "K c t" "\<And>x. quiet (f x)"
  shows "called K s (bindE (callSup env c t) f s)"
    "called K s (bindE (mapErrE h (callSup env c t)) f s)"
proof -
  show "called K s (bindE (callSup env c t) f s)"
    using assms by (cases "weReply env (wkCalls s) c t")
      (auto simp: bindE_def callSup_def called_def quiet_def)
  show "called K s (bindE (mapErrE h (callSup env c t)) f s)"
    using assms by (cases "weReply env (wkCalls s) c t")
      (auto simp: bindE_def callSup_def called_def quiet_def mapErrE_def mapErrS_def)
qed

lemma called_doneE: "called K s (m s) \<Longrightarrow> called K s (doneE m s)"
  by (auto simp: doneE_def bindE_def called_def retE_def split: prod.splits sum.splits)

lemma read_only_getSupC [intro!]: "read_only (getSupC env req)"
  by (auto simp: getSupC_def intro!: read_only_bindE split: prod.splits)

text \<open>
  What the server may call for a user: a supervisor of a live Workspace of this Region that the
  user owns, in a state that fits the call; a terminal it names belongs to that Workspace.
\<close>

definition reachable_for ::
  "dialer \<Rightarrow> live \<Rightarrow> object_ref \<Rightarrow> object_ref \<Rightarrow> sup_client \<Rightarrow> workspace \<Rightarrow> bool" where
  "reachable_for d L rg usr c ws \<longleftrightarrow> L (wsName ws) = Some ws \<and> servable rg ws
     \<and> (\<exists>r. stUserRef (wsStatus ws) = Some r \<and> refUid r = refUid usr) \<and> c = clientOf d ws"

fun terminalOf :: "term_call \<Rightarrow> string option" where
  "terminalOf (CallRemove tid) = Some tid"
| "terminalOf (CallWrite tid _) = Some tid"
| "terminalOf (CallResize tid _ _) = Some tid"
| "terminalOf (CallListen tid) = Some tid"
| "terminalOf _ = None"

definition call_ok ::
  "wrks_env \<Rightarrow> dialer \<Rightarrow> live \<Rightarrow> object_ref \<Rightarrow> sup_client \<Rightarrow> term_call \<Rightarrow> bool" where
  "call_ok env d L rg c t \<longleftrightarrow> (\<exists>i ws. weUserCtx env = Inr i
     \<and> reachable_for d L rg (ictxSessionUserRef i) c ws
     \<and> (if t = CallEvents then \<not> IsInitializing (wsState ws) else IsPreparingOrRunning (wsState ws))
     \<and> (\<forall>tid. terminalOf t = Some tid \<longrightarrow> getWSNameFromTerminalID tid \<in> {Inr (wsName ws), Inr (wsUid ws)}))"

lemma cmapGet_reachable:
  assumes "cm_inv d L m" "cmapGet m (Some req) (Some u) = Inr (ws, c)"
  shows "reachable_for d L (cmRegion m) u c ws"
    "(if goName req \<noteq> [] then goName req else goUid req) \<in> {wsName ws, wsUid ws}"
proof -
  from assms(2) have "GetByNameOrUID m (if goName req \<noteq> [] then goName req else goUid req) (Some u)
      = Inr (ws, c)" by (simp add: cmapGet_def split: if_splits)
  from GetByNameOrUID_sound[OF assms(1) this]
  show "reachable_for d L (cmRegion m) u c ws"
    "(if goName req \<noteq> [] then goName req else goUid req) \<in> {wsName ws, wsUid ws}"
    by (auto simp: reachable_for_def)
qed

lemma getSupC_ok:
  assumes "cm_inv d L (wkMap s)" "getSupC env req s = (Inr c, s')"
    and "\<And>tid. terminalOf t = Some tid \<Longrightarrow> getWSNameFromTerminalID tid = Inr (goName req) \<and> goName req \<noteq> []"
    and "t \<noteq> CallEvents"
  shows "call_ok env d L (cmRegion (wkMap s)) c t"
proof -
  from assms(2) obtain i ws where i: "weUserCtx env = Inr i" "IsPreparingOrRunning (wsState ws)"
      "cmapGet (wkMap s) (Some req) (Some (ictxSessionUserRef i)) = Inr (ws, c)"
    by (auto simp: getSupC_def io_simps split: prod.splits)
  from cmapGet_reachable[OF assms(1) i(3)] i(1,2) assms(3,4) show ?thesis
    unfolding call_ok_def by fastforce
qed

lemma terminal_name_nonempty: "getWSNameFromTerminalID tid = Inr n \<Longrightarrow> n \<noteq> []"
  by (auto simp: getWSNameFromTerminalID_def CheckTerminalID_def rgxTerminalID_def Let_def
      split: if_splits list.splits)

text \<open>The shape all handlers of one terminal share.\<close>

lemma by_terminal_ok:
  assumes inv: "cm_inv d L (wkMap s)" and t: "terminalOf t = Some tid" "t \<noteq> CallEvents"
    and n: "getWSNameFromTerminalID tid = Inr n"
    and f: "\<And>c. call_ok env d L (cmRegion (wkMap s)) c t \<Longrightarrow>
              called (call_ok env d L (cmRegion (wkMap s))) s (f c s)"
  shows "called (call_ok env d L (cmRegion (wkMap s))) s (bindE (getSupC env (byName n)) f s)"
proof (rule called_read)
  fix c assume "getSupC env (byName n) s = (Inr c, s)"
  with inv have "call_ok env d L (cmRegion (wkMap s)) c t"
    by (rule getSupC_ok) (use t n terminal_name_nonempty[OF n] in \<open>auto simp: byName_def\<close>)
  then show "called (call_ok env d L (cmRegion (wkMap s))) s (f c s)" by (rule f)
qed auto

lemma by_ref_ok:
  assumes inv: "cm_inv d L (wkMap s)" and t: "terminalOf t = None" "t \<noteq> CallEvents"
    and f: "\<And>c. call_ok env d L (cmRegion (wkMap s)) c t \<Longrightarrow>
              called (call_ok env d L (cmRegion (wkMap s))) s (f c s)"
  shows "called (call_ok env d L (cmRegion (wkMap s))) s (bindE (getSupC env req) f s)"
proof (rule called_read)
  fix c assume "getSupC env req s = (Inr c, s)"
  with inv have "call_ok env d L (cmRegion (wkMap s)) c t" by (rule getSupC_ok) (use t in auto)
  then show "called (call_ok env d L (cmRegion (wkMap s))) s (f c s)" by (rule f)
qed auto

lemma serve_called:
  assumes inv: "cm_inv d L (wkMap s)"
  shows "called (call_ok env d L (cmRegion (wkMap s))) s (serve env rq s)"
proof (cases rq)
  case (RqCreateTerminal ref cols rows)
  show ?thesis unfolding RqCreateTerminal serve.simps CreateTerminal_def
    by (intro called_doneE called_read by_ref_ok[OF inv, of "CallCreate cols rows"] called_call
        call_intros) (auto simp: io_simps)
next
  case (RqRemoveTerminal tid)
  show ?thesis unfolding RqRemoveTerminal serve.simps RemoveTerminal_def
    by (intro called_read by_terminal_ok[OF inv, of "CallRemove tid" tid] called_call call_intros)
      (auto simp: io_simps)
next
  case (RqListTerminal ref)
  show ?thesis unfolding RqListTerminal serve.simps ListTerminal_def
    by (intro called_doneE called_read by_ref_ok[OF inv, of "CallList"] called_call call_intros)
      (auto simp: io_simps)
next
  case (RqWriteTerminalData tid data)
  show ?thesis unfolding RqWriteTerminalData serve.simps WriteTerminalData_def
    by (intro called_read by_terminal_ok[OF inv, of "CallWrite tid data" tid] called_call
        call_intros) (auto simp: io_simps)
next
  case (RqSetTerminalWindowSize tid cols rows)
  show ?thesis unfolding RqSetTerminalWindowSize serve.simps SetTerminalWindowSize_def
    by (intro called_read by_terminal_ok[OF inv, of "CallResize tid cols rows" tid] called_call
        call_intros) (auto simp: io_simps)
next
  case (RqListenTerminal tid)
  show ?thesis unfolding RqListenTerminal serve.simps ListenTerminal_def
    by (intro called_doneE called_read by_terminal_ok[OF inv, of "CallListen tid" tid] called_call
        call_intros) (auto simp: io_simps)
next
  case (RqListenLog ref send)
  have log: "call_ok env d L (cmRegion (wkMap s)) c CallEvents"
    if "weUserCtx env = Inr i" "\<not> IsInitializing (wsState ws)"
      "cmapGet (wkMap s) (Some req) (Some (ictxSessionUserRef i)) = Inr (ws, c)" for i ws c req
    using that cmapGet_reachable(1)[OF inv that(3)] by (auto simp: call_ok_def)
  show ?thesis unfolding RqListenLog serve.simps ListenLog_def
    by (intro called_doneE called_read)
      (auto simp: io_simps split: prod.splits
        intro!: called_read called_sendActivity called_call call_intros log)
next
  case (RqExec first)
  have opened: "called (call_ok env d L (cmRegion (wkMap s))) s
      (bindE (getSupC env opts) (\<lambda>c. bindE (sendActivity (scUid c)) (\<lambda>_.
         bindE (callSup env c (CallExec x)) (\<lambda>_. retE c))) s)" for opts x
    by (rule by_ref_ok[OF inv, of "CallExec x"])
      (auto intro!: called_sendActivity called_call call_intros)
  show ?thesis unfolding RqExec serve.simps ExecOpen_def
    by (rule called_doneE, rule called_read, force, rule called_read, force, rule called_read, force,
        rule opened)
qed

lemma run_inv:
  assumes "wrks_run d rg L s"
  shows "live_ok L \<and> cm_inv d L (wkMap s) \<and> cmRegion (wkMap s) = rg \<and> wkRegion s = rg
     \<and> ((\<forall>a. dlNewClient d a = None) \<longrightarrow> cm_complete L (wkMap s))"
  using assms
proof induction
  case start
  show ?case using cm_inv_new by (auto simp: newWrks_def NewSupervisorCtxMap_def)
next
  case (event L s e)
  then show ?case using live_ok_step event_keeps event_complete by fastforce
next
  case (request L s env rq)
  then have "called (call_ok env d L (cmRegion (wkMap s))) s (serve env rq s)"
    by (intro serve_called) simp
  with request show ?case by (simp add: called_def)
qed

text \<open>
  C9: However the watch and the requests of other users have gone before, a request makes at most
  one call, and it goes to a supervisor that the user may reach: one of a live Workspace in the
  server's own Region, owned by the user of the request, in a state that fits the call; and a
  terminal that the call names is one of that Workspace.
\<close>

theorem terminal_calls_authorised:
  assumes "wrks_run d rg L s" and "serve env rq s = (r, s')" and "wkCalls s' \<noteq> wkCalls s"
  shows "\<exists>c t. wkCalls s' = wkCalls s @ [(c, t)] \<and> call_ok env d L rg c t"
  using serve_called[of d L s env rq] run_inv[OF assms(1)] assms(2,3) by (auto simp: called_def)

text \<open>
  C37: The supervisor a request gets: exactly those of the user's own Workspaces that are live in
  this Region and preparing or running, as long as gRPC makes clients.
\<close>

theorem getSupC_exact:
  assumes "wrks_run d rg L s" and "\<And>a. dlNewClient d a = None"
    and "weUserCtx env = Inr i" and "weCheckGetOptions env (byName n) = None" and "n \<noteq> []"
  shows "getSupC env (byName n) s = (Inr c, s) \<longleftrightarrow>
     (\<exists>ws. reachable_for d L rg (ictxSessionUserRef i) c ws \<and> n \<in> {wsName ws, wsUid ws}
        \<and> IsPreparingOrRunning (wsState ws))"
proof -
  from run_inv[OF assms(1)] assms(2) have inv: "live_ok L" "cm_inv d L (wkMap s)"
      "cm_complete L (wkMap s)" "cmRegion (wkMap s) = rg" by auto
  have "getSupC env (byName n) s = (Inr c, s) \<longleftrightarrow>
      (\<exists>ws. GetByNameOrUID (wkMap s) n (Some (ictxSessionUserRef i)) = Inr (ws, c)
         \<and> IsPreparingOrRunning (wsState ws))"
    using assms(3-5) by (auto simp: getSupC_def io_simps cmapGet_def byName_def)
  with GetByNameOrUID_exact[OF inv(1-3), of n "ictxSessionUserRef i"] inv(4) show ?thesis
    by (fastforce simp: reachable_for_def)
qed

end
