(* ===== verification/Vigil_Access.thy ===== *)
theory Vigil_Access
  imports Sup_Cmap
begin

text \<open>
  Access to Workspaces by SSH, \<open>cluster/vigil/vigil\<close>: the cache of resources
  (\<open>acache/acache.go\<close>), the decision that follows Octelium's own authorization
  (\<open>auth.go\<close>), the upstream of a connection (\<open>upstream.go\<close>) and the watches that fill the cache
  (\<open>vigil.go\<close>). The package \<open>go-cache\<close> is a parameter: its operations, with the laws its
  documentation gives as \<open>kv_laws\<close>; so is the name Octelium gives to the kind of a session.
\<close>

section \<open>What the cache holds\<close>

text \<open>
  The fields that only these services read: whether the authorization of a Space (if it has one)
  disables SSH, and the connection of a session, with its eSSH flag and key.
\<close>

record auth_space = space +
  aspAuthorization :: "bool option"

record connection =
  conESSHEnable :: bool
  conEd25519PublicKey :: string

record live_session = session +
  lsConnection :: "connection option"

datatype cached =
    CWorkspace workspace
  | CSpace auth_space
  | CSession live_session
  | CMembership membership

record 'c kv =
  kvSet :: "'c \<Rightarrow> string \<Rightarrow> cached \<Rightarrow> 'c"
  kvGet :: "'c \<Rightarrow> string \<Rightarrow> cached option"
  kvDelete :: "'c \<Rightarrow> string \<Rightarrow> 'c"
  kvKindSession :: string

definition kv_laws :: "'c kv \<Rightarrow> bool" where
  "kv_laws K \<longleftrightarrow>
     (\<forall>c k v j. kvGet K (kvSet K c k v) j = (if j = k then Some v else kvGet K c j))
     \<and> (\<forall>c k j. kvGet K (kvDelete K c k) j = (if j = k then None else kvGet K c j))
     \<and> CHR '':'' \<notin> set (kvKindSession K)
     \<and> kvKindSession K \<notin> {''Workspace'', ''Space'', ''Membership''}"

section \<open>The cache (acache.go)\<close>

definition ErrNotFound :: err where
  "ErrNotFound = Errorf ''Resource not found''"

definition KindWorkspace :: string where "KindWorkspace = ''Workspace''"
definition KindSpace :: string where "KindSpace = ''Space''"
definition KindMembership :: string where "KindMembership = ''Membership''"

definition cacheKey :: "string \<Rightarrow> string \<Rightarrow> string" where
  "cacheKey kind key = kind @ '':'' @ key"

definition setResource :: "'c kv \<Rightarrow> string \<Rightarrow> cached \<Rightarrow> string \<Rightarrow> 'c \<Rightarrow> 'c" where
  "setResource K key obj kind c = kvSet K c (cacheKey kind key) obj"

definition getResource :: "'c kv \<Rightarrow> string \<Rightarrow> string \<Rightarrow> 'c \<Rightarrow> err + cached" where
  "getResource K kind key c =
     (case kvGet K c (cacheKey kind key) of None \<Rightarrow> Inl ErrNotFound | Some r \<Rightarrow> Inr r)"

definition deleteResource :: "'c kv \<Rightarrow> string \<Rightarrow> string \<Rightarrow> 'c \<Rightarrow> 'c" where
  "deleteResource K kind key c = kvDelete K c (cacheKey kind key)"

text \<open>The type assertion on the result panics on a value of another type.\<close>

definition wrongType :: "err + 'a" where
  "wrongType = Inl (Panic ''interface conversion'')"

definition cacheGetWorkspace :: "'c kv \<Rightarrow> 'c \<Rightarrow> string \<Rightarrow> err + workspace" where
  "cacheGetWorkspace K c n =
     (case getResource K KindWorkspace n c of
        Inl e \<Rightarrow> Inl e | Inr (CWorkspace ws) \<Rightarrow> Inr ws | Inr _ \<Rightarrow> wrongType)"

definition cacheSetWorkspace :: "'c kv \<Rightarrow> workspace \<Rightarrow> 'c \<Rightarrow> 'c" where
  "cacheSetWorkspace K ws = setResource K (wsName ws) (CWorkspace ws) KindWorkspace"

definition cacheDeleteWorkspace :: "'c kv \<Rightarrow> workspace \<Rightarrow> 'c \<Rightarrow> 'c" where
  "cacheDeleteWorkspace K ws = deleteResource K KindWorkspace (wsName ws)"

definition cacheGetSpace :: "'c kv \<Rightarrow> 'c \<Rightarrow> string \<Rightarrow> err + auth_space" where
  "cacheGetSpace K c uid =
     (case getResource K KindSpace uid c of
        Inl e \<Rightarrow> Inl e | Inr (CSpace s) \<Rightarrow> Inr s | Inr _ \<Rightarrow> wrongType)"

definition cacheSetSpace :: "'c kv \<Rightarrow> auth_space \<Rightarrow> 'c \<Rightarrow> 'c" where
  "cacheSetSpace K s = setResource K (mdUid (spcMetadata s)) (CSpace s) KindSpace"

definition cacheDeleteSpace :: "'c kv \<Rightarrow> auth_space \<Rightarrow> 'c \<Rightarrow> 'c" where
  "cacheDeleteSpace K s = deleteResource K KindSpace (mdUid (spcMetadata s))"

definition cacheGetSession :: "'c kv \<Rightarrow> 'c \<Rightarrow> string \<Rightarrow> err + live_session" where
  "cacheGetSession K c uid =
     (case getResource K (kvKindSession K) uid c of
        Inl e \<Rightarrow> Inl e | Inr (CSession s) \<Rightarrow> Inr s | Inr _ \<Rightarrow> wrongType)"

definition cacheSetSession :: "'c kv \<Rightarrow> live_session \<Rightarrow> 'c \<Rightarrow> 'c" where
  "cacheSetSession K s = setResource K (mdUid (sessMetadata s)) (CSession s) (kvKindSession K)"

definition cacheDeleteSession :: "'c kv \<Rightarrow> live_session \<Rightarrow> 'c \<Rightarrow> 'c" where
  "cacheDeleteSession K s = deleteResource K (kvKindSession K) (mdUid (sessMetadata s))"

definition cacheGetMembership :: "'c kv \<Rightarrow> 'c \<Rightarrow> object_ref \<Rightarrow> object_ref \<Rightarrow> err + membership" where
  "cacheGetMembership K c spcRef usrRef =
     (case getResource K KindMembership (GetMembershipName spcRef usrRef) c of
        Inl e \<Rightarrow> Inl e | Inr (CMembership m) \<Rightarrow> Inr m | Inr _ \<Rightarrow> wrongType)"

definition cacheSetMembership :: "'c kv \<Rightarrow> membership \<Rightarrow> 'c \<Rightarrow> 'c" where
  "cacheSetMembership K m = setResource K (mdName (memMetadata m)) (CMembership m) KindMembership"

definition cacheDeleteMembership :: "'c kv \<Rightarrow> membership \<Rightarrow> 'c \<Rightarrow> 'c" where
  "cacheDeleteMembership K m = deleteResource K KindMembership (mdName (memMetadata m))"

text \<open>The kinds contain no colon, so the keys of two kinds never meet.\<close>

lemma cacheKey_eq [simp]:
  assumes "CHR '':'' \<notin> set k1" "CHR '':'' \<notin> set k2"
  shows "cacheKey k1 a = cacheKey k2 b \<longleftrightarrow> k1 = k2 \<and> a = b"
  using assms unfolding cacheKey_def
proof (induction k1 arbitrary: k2)
  case Nil then show ?case by (cases k2) auto
next
  case (Cons c k1) then show ?case by (cases k2) auto
qed

lemmas kind_defs = KindWorkspace_def KindSpace_def KindMembership_def

section \<open>The watches (vigil.go)\<close>

datatype vigil_event =
    VgWorkspace ws_event
  | VgSetSpace auth_space
  | VgDeleteSpace auth_space
  | VgSetSession live_session
  | VgDeleteSession live_session

text \<open>An add and an update do the same: they set the resource.\<close>

fun vigilStep :: "'c kv \<Rightarrow> vigil_event \<Rightarrow> 'c \<Rightarrow> 'c" where
  "vigilStep K (VgWorkspace (WsAdded ws)) = cacheSetWorkspace K ws"
| "vigilStep K (VgWorkspace (WsUpdated new old)) = cacheSetWorkspace K new"
| "vigilStep K (VgWorkspace (WsDeleted ws)) = cacheDeleteWorkspace K ws"
| "vigilStep K (VgSetSpace s) = cacheSetSpace K s"
| "vigilStep K (VgDeleteSpace s) = cacheDeleteSpace K s"
| "vigilStep K (VgSetSession s) = cacheSetSession K s"
| "vigilStep K (VgDeleteSession s) = cacheDeleteSession K s"

text \<open>What the cluster holds, as the watches last reported it.\<close>

record view =
  vwWorkspaces :: live
  vwSpaces :: "string \<rightharpoonup> auth_space"
  vwSessions :: "string \<rightharpoonup> live_session"

fun viewStep :: "vigil_event \<Rightarrow> view \<Rightarrow> view" where
  "viewStep (VgWorkspace e) v = v\<lparr>vwWorkspaces := live_step e (vwWorkspaces v)\<rparr>"
| "viewStep (VgSetSpace s) v = v\<lparr>vwSpaces := (vwSpaces v)(mdUid (spcMetadata s) \<mapsto> s)\<rparr>"
| "viewStep (VgDeleteSpace s) v = v\<lparr>vwSpaces := (vwSpaces v)(mdUid (spcMetadata s) := None)\<rparr>"
| "viewStep (VgSetSession s) v = v\<lparr>vwSessions := (vwSessions v)(mdUid (sessMetadata s) \<mapsto> s)\<rparr>"
| "viewStep (VgDeleteSession s) v = v\<lparr>vwSessions := (vwSessions v)(mdUid (sessMetadata s) := None)\<rparr>"

definition emptyView :: view where
  "emptyView = \<lparr>vwWorkspaces = Map.empty, vwSpaces = Map.empty, vwSessions = Map.empty\<rparr>"

definition found :: "'a option \<Rightarrow> err + 'a" where
  "found x = (case x of None \<Rightarrow> Inl ErrNotFound | Some a \<Rightarrow> Inr a)"

definition cache_agrees :: "'c kv \<Rightarrow> view \<Rightarrow> 'c \<Rightarrow> bool" where
  "cache_agrees K v c \<longleftrightarrow>
     (\<forall>n. cacheGetWorkspace K c n = found (vwWorkspaces v n))
     \<and> (\<forall>u. cacheGetSpace K c u = found (vwSpaces v u))
     \<and> (\<forall>u. cacheGetSession K c u = found (vwSessions v u))"

lemmas cache_defs = cacheGetWorkspace_def cacheSetWorkspace_def cacheDeleteWorkspace_def
  cacheGetSpace_def cacheSetSpace_def cacheDeleteSpace_def
  cacheGetSession_def cacheSetSession_def cacheDeleteSession_def
  cacheGetMembership_def cacheSetMembership_def cacheDeleteMembership_def
  setResource_def getResource_def deleteResource_def

lemma kvD:
  assumes "kv_laws K"
  shows "kvGet K (kvSet K c k v) j = (if j = k then Some v else kvGet K c j)"
    "kvGet K (kvDelete K c k) j = (if j = k then None else kvGet K c j)"
    "CHR '':'' \<notin> set (kvKindSession K)" "kvKindSession K \<noteq> ''Workspace''"
    "kvKindSession K \<noteq> ''Space''" "kvKindSession K \<noteq> ''Membership''"
    "''Workspace'' \<noteq> kvKindSession K" "''Space'' \<noteq> kvKindSession K" "''Membership'' \<noteq> kvKindSession K"
  using assms by (auto simp: kv_laws_def)

lemma vigilStep_agrees:
  assumes "kv_laws K" "cache_agrees K v c"
  shows "cache_agrees K (viewStep e v) (vigilStep K e c)"
proof -
  note [simp] = kvD[OF assms(1)]
  show ?thesis
  proof (cases e)
    case (VgWorkspace w)
    with assms(2) show ?thesis
      by (cases w) (auto simp: cache_agrees_def cache_defs kind_defs found_def)
  qed (use assms(2) in \<open>auto simp: cache_agrees_def cache_defs kind_defs found_def\<close>)
qed

section \<open>The decision (auth.go)\<close>

text \<open>
  A request of Octelium is a pointer to a message whose parts are optional: only an SSH request
  has a connect message, which names the user of the connection, here the name of a Workspace.
\<close>

datatype down_request = SshRequest "string option" | OtherRequest

text \<open>\<open>GetSsh().GetConnect().User\<close>, where the code finds one that is not empty.\<close>

fun sshUser :: "down_request option \<Rightarrow> string option" where
  "sshUser (Some (SshRequest (Some u))) = (if u = [] then None else Some u)"
| "sshUser _ = None"

text \<open>
  The request context of Octelium, as far as it is read; \<open>pqRequest\<close> and the request in it may be
  nil pointers.
\<close>

record request_context =
  qcUser :: "user option"
  qcSession :: "session option"

record post_request =
  pqRequest :: "down_request option option"
  pqContext :: "request_context option"

record 'c vigil =
  vgRegion :: object_ref
  vgCache :: 'c
  vgActivity :: "string list"

definition vgRead :: "('c \<Rightarrow> err + 'a) \<Rightarrow> ('c vigil, 'a) io" where
  "vgRead g = readE (\<lambda>s. g (vgCache s))"

definition denyIf :: "bool \<Rightarrow> ('w, bool) io \<Rightarrow> ('w, bool) io" where
  "denyIf c m = (if c then retE False else m)"

text \<open>A lookup in the cache: a missing resource denies, another error is returned.\<close>

definition lookupOrDeny :: "('c vigil, 'a) io \<Rightarrow> ('a \<Rightarrow> ('c vigil, bool) io) \<Rightarrow> ('c vigil, bool) io" where
  "lookupOrDeny m f = bindE (tryE m) (\<lambda>r.
     case r of
       Inl e \<Rightarrow> if e = ErrNotFound then retE False else throwE e
     | Inr a \<Rightarrow> f a)"

definition checkSpaceSsh :: "'c kv \<Rightarrow> workspace \<Rightarrow> ('c vigil, bool) io \<Rightarrow> ('c vigil, bool) io" where
  "checkSpaceSsh K ws m =
     (case stSpaceRef (wsStatus ws) of
        None \<Rightarrow> m
      | Some r \<Rightarrow>
          if refUid r = [] then m
          else lookupOrDeny (vgRead (\<lambda>c. cacheGetSpace K c (refUid r)))
                 (\<lambda>space. denyIf (aspAuthorization space = Some True) m))"

definition doPostAuthorize :: "'c kv \<Rightarrow> post_request option \<Rightarrow> ('c vigil, bool) io" where
  "doPostAuthorize K req =
     (case (case req of None \<Rightarrow> None | Some q \<Rightarrow> case pqRequest q of None \<Rightarrow> None | Some r \<Rightarrow> sshUser r) of
        None \<Rightarrow> retE False
      | Some n \<Rightarrow>
          lookupOrDeny (vgRead (\<lambda>c. cacheGetWorkspace K c n)) (\<lambda>ws.
          bindE (deref (pqContext (the req))) (\<lambda>i.
          bindE (deref (qcSession i)) (\<lambda>_.
          denyIf (stUserRef (wsStatus ws) = None) (
          denyIf (stSessionRef (wsStatus ws) = None) (
          denyIf (stRegionRef (wsStatus ws) = None) (
          bindE (readE (\<lambda>s. Inr (vgRegion s))) (\<lambda>rg.
          denyIf (refUid (the (stRegionRef (wsStatus ws))) \<noteq> refUid rg) (
          bindE (deref (qcUser i)) (\<lambda>u.
          denyIf (refUid (the (stUserRef (wsStatus ws))) \<noteq> mdUid (usrMetadata u)) (
          denyIf (\<not> IsPreparingOrRunning (wsState ws)) (
          checkSpaceSsh K ws (
          bindE (\<lambda>s. (Inr (), s\<lparr>vgActivity := vgActivity s @ [wsUid ws]\<rparr>)) (\<lambda>_.
          retE True))))))))))))))"

section \<open>The upstream (upstream.go)\<close>

record upstream =
  upHostPort :: string
  upIsUser :: bool
  upIsESSH :: bool
  upEd25519PublicKey :: string

definition doGetUpstream ::
  "'c kv \<Rightarrow> dialer \<Rightarrow> down_request option option \<Rightarrow> 'c vigil \<Rightarrow> err + upstream" where
  "doGetUpstream K d req s =
     (case (case req of None \<Rightarrow> None | Some r \<Rightarrow> sshUser r) of
        None \<Rightarrow> Inl (Errorf ''Invalid doGetUpstream req'')
      | Some n \<Rightarrow>
          bindS (cacheGetWorkspace K (vgCache s) n) (\<lambda>ws.
          case stSessionRef (wsStatus ws) of
            None \<Rightarrow> Inl (Errorf ''Workspace Session is not set'')
          | Some r \<Rightarrow>
              bindS (cacheGetSession K (vgCache s) (refUid r)) (\<lambda>sess.
              case lsConnection sess of
                None \<Rightarrow> Inl (Errorf ''The Session is not connected or does not support eSSH'')
              | Some c \<Rightarrow>
                  if \<not> conESSHEnable c
                  then Inl (Errorf ''The Session is not connected or does not support eSSH'')
                  else Inr \<lparr>upHostPort = JoinHostPort (GetWorkspaceSupHost d ws) ''2022'',
                            upIsUser = True, upIsESSH = True,
                            upEd25519PublicKey = conEd25519PublicKey c\<rparr>)))"

section \<open>Who gets in\<close>

text \<open>A reachable state of the service: the cache after some events of the watches.\<close>

inductive vigil_run :: "'c kv \<Rightarrow> 'c \<Rightarrow> object_ref \<Rightarrow> view \<Rightarrow> 'c vigil \<Rightarrow> bool" for K c0 rg where
  start: "vigil_run K c0 rg emptyView \<lparr>vgRegion = rg, vgCache = c0, vgActivity = []\<rparr>"
| event: "vigil_run K c0 rg v s \<Longrightarrow>
    vigil_run K c0 rg (viewStep e v) (s\<lparr>vgCache := vigilStep K e (vgCache s)\<rparr>)"
| request: "vigil_run K c0 rg v s \<Longrightarrow> vigil_run K c0 rg v (snd (doPostAuthorize K q s))"

definition sshAllowed :: "view \<Rightarrow> object_ref \<Rightarrow> string \<Rightarrow> string \<Rightarrow> workspace \<Rightarrow> bool" where
  "sshAllowed v rg n uid ws \<longleftrightarrow>
     vwWorkspaces v n = Some ws
     \<and> (\<exists>o'. stUserRef (wsStatus ws) = Some o' \<and> refUid o' = uid)
     \<and> stSessionRef (wsStatus ws) \<noteq> None
     \<and> (\<exists>r. stRegionRef (wsStatus ws) = Some r \<and> refUid r = refUid rg)
     \<and> IsPreparingOrRunning (wsState ws)
     \<and> (\<forall>r. stSpaceRef (wsStatus ws) = Some r \<longrightarrow> refUid r \<noteq> [] \<longrightarrow>
          (\<exists>sp. vwSpaces v (refUid r) = Some sp \<and> aspAuthorization sp \<noteq> Some True))"

lemma ErrNotFound_not_Panic [simp]: "ErrNotFound \<noteq> Panic m" by (simp add: ErrNotFound_def)

lemma lookup_found:
  "lookupOrDeny (vgRead (\<lambda>c. g c)) f s = (case g (vgCache s) of
      Inl e \<Rightarrow> if e = ErrNotFound then (Inr False, s) else (Inl e, s) | Inr a \<Rightarrow> f a s)"
  by (auto simp: lookupOrDeny_def vgRead_def bindE_tryE_readE retE_def throwE_def split: sum.splits)

definition sshQuery :: "string \<Rightarrow> user \<Rightarrow> session \<Rightarrow> post_request option" where
  "sshQuery n u ss = Some \<lparr>pqRequest = Some (Some (SshRequest (Some n))),
                         pqContext = Some \<lparr>qcUser = Some u, qcSession = Some ss\<rparr>\<rparr>"

lemma checkSpaceSsh_eq:
  assumes "cache_agrees K v (vgCache s)"
  shows "checkSpaceSsh K ws m s =
    (if \<forall>r. stSpaceRef (wsStatus ws) = Some r \<longrightarrow> refUid r \<noteq> [] \<longrightarrow>
          (\<exists>sp. vwSpaces v (refUid r) = Some sp \<and> aspAuthorization sp \<noteq> Some True)
     then m s else (Inr False, s))"
  using assms by (auto simp: checkSpaceSsh_def lookup_found cache_agrees_def found_def denyIf_def
      retE_def split: option.splits)

lemma doPostAuthorize_eq:
  assumes "cache_agrees K v (vgCache s)"
  shows "doPostAuthorize K (sshQuery n u ss) s =
    (case vwWorkspaces v n of
       None \<Rightarrow> (Inr False, s)
     | Some ws \<Rightarrow>
         if n \<noteq> [] \<and> sshAllowed v (vgRegion s) n (mdUid (usrMetadata u)) ws
         then (Inr True, s\<lparr>vgActivity := vgActivity s @ [wsUid ws]\<rparr>) else (Inr False, s))"
proof (cases "n = [] \<or> vwWorkspaces v n = None")
  case True
  with assms show ?thesis
    by (auto simp: doPostAuthorize_def sshQuery_def retE_def lookup_found cache_agrees_def found_def
        split: option.splits)
next
  case False
  then obtain ws where ws: "vwWorkspaces v n = Some ws" "n \<noteq> []" by auto
  with assms have "cacheGetWorkspace K (vgCache s) n = Inr ws"
    by (simp add: cache_agrees_def found_def)
  with ws show ?thesis
    by (auto simp: doPostAuthorize_def sshQuery_def lookup_found deref_def denyIf_def retE_def
        bindE_def readE_def checkSpaceSsh_eq[OF assms] sshAllowed_def split: option.splits)
qed

lemma doPostAuthorize_other:
  assumes "\<nexists>n. sshUser r = Some n"
  shows "doPostAuthorize K (Some \<lparr>pqRequest = Some r, pqContext = c\<rparr>) s = (Inr False, s)"
  using assms by (simp add: doPostAuthorize_def retE_def split: option.splits)

lemma doPostAuthorize_keeps: "vgCache (snd (doPostAuthorize K q s)) = vgCache s"
    "vgRegion (snd (doPostAuthorize K q s)) = vgRegion s"
  by (auto simp: doPostAuthorize_def lookup_found deref_def denyIf_def retE_def throwE_def
      bindE_def readE_def checkSpaceSsh_def split: option.splits sum.splits)

lemma vigil_run_agrees:
  assumes "vigil_run K c0 rg v s" "kv_laws K" "\<And>k. kvGet K c0 k = None"
  shows "cache_agrees K v (vgCache s) \<and> vgRegion s = rg"
  using assms(1)
proof induction
  case start
  show ?case using assms(3) by (auto simp: cache_agrees_def cache_defs found_def emptyView_def)
next
  case (event v s e)
  with vigilStep_agrees[OF assms(2)] show ?case by simp
next
  case (request v s q)
  then show ?case by (simp add: doPostAuthorize_keeps)
qed

lemma ssh_decision:
  assumes "kv_laws K" and "\<And>k. kvGet K c0 k = None" and "vigil_run K c0 rg v s"
  shows "doPostAuthorize K (sshQuery n u ss) s =
     (if n \<noteq> [] \<and> (\<exists>ws. sshAllowed v rg n (mdUid (usrMetadata u)) ws)
      then (Inr True, s\<lparr>vgActivity := vgActivity s @ [wsUid (the (vwWorkspaces v n))]\<rparr>)
      else (Inr False, s))"
  using vigil_run_agrees[OF assms(3,1,2)] doPostAuthorize_eq[of K v s n u ss]
  by (auto simp: sshAllowed_def split: option.splits)

text \<open>
  C11: Whatever the watches and earlier requests did, the decision on an SSH connection is exact: it
  lets a user in exactly when the name is that of a Workspace of this Region that the user owns,
  that is preparing or running with a session, and whose Space is known and does not disable
  SSH. It never fails, and only an authorized connection counts as activity of the Workspace.
\<close>

theorem ssh_access_exact:
  assumes "kv_laws K" and "\<And>k. kvGet K c0 k = None" and "vigil_run K c0 rg v s"
  shows "doPostAuthorize K (sshQuery n u ss) s =
     (if n \<noteq> [] \<and> (\<exists>ws. sshAllowed v rg n (mdUid (usrMetadata u)) ws)
      then (Inr True, s\<lparr>vgActivity := vgActivity s @ [wsUid (the (vwWorkspaces v n))]\<rparr>)
      else (Inr False, s))"
  by (rule ssh_decision[OF assms])

text \<open>
  An authorized connection goes to the supervisor of the Workspace it names, under the key of
  the session of that Workspace.
\<close>

theorem ssh_upstream_of_owner:
  assumes "kv_laws K" and "\<And>k. kvGet K c0 k = None" and "vigil_run K c0 rg v s"
    and "fst (doPostAuthorize K (sshQuery n u ss) s) = Inr True"
    and "doGetUpstream K d (Some (Some (SshRequest (Some n)))) s = Inr up"
  shows "\<exists>ws r sess con. sshAllowed v rg n (mdUid (usrMetadata u)) ws
     \<and> stSessionRef (wsStatus ws) = Some r \<and> vwSessions v (refUid r) = Some sess
     \<and> lsConnection sess = Some con \<and> conESSHEnable con
     \<and> up = \<lparr>upHostPort = JoinHostPort (GetWorkspaceSupHost d ws) ''2022'', upIsUser = True,
              upIsESSH = True, upEd25519PublicKey = conEd25519PublicKey con\<rparr>"
proof -
  from assms(4) ssh_decision[OF assms(1-3), of n u ss] obtain ws where
    ws: "sshAllowed v rg n (mdUid (usrMetadata u)) ws" "n \<noteq> []" by (auto split: if_splits)
  from vigil_run_agrees[OF assms(3,1,2)] have a: "cache_agrees K v (vgCache s)" by simp
  with ws have "cacheGetWorkspace K (vgCache s) n = Inr ws"
    by (simp add: cache_agrees_def found_def sshAllowed_def)
  with assms(5) ws(2) a obtain r sess con where
    "stSessionRef (wsStatus ws) = Some r" "vwSessions v (refUid r) = Some sess"
    "lsConnection sess = Some con" "conESSHEnable con"
    "up = \<lparr>upHostPort = JoinHostPort (GetWorkspaceSupHost d ws) ''2022'', upIsUser = True,
              upIsESSH = True, upEd25519PublicKey = conEd25519PublicKey con\<rparr>"
    by (auto simp: doGetUpstream_def bindS_def cache_agrees_def found_def
        split: option.splits if_splits)
  with ws(1) show ?thesis by blast
qed

end
