(* ===== verification/Portal_Server.thy ===== *)
theory Portal_Server
  imports Portal_Domain Terminal_Service Vigil_Access
begin

text \<open>
  The portal, \<open>cluster/portal/portal\<close>: its cache (\<open>acache/acache.go\<close>), the events of Workspaces
  (\<open>controllers/workspaces\<close>, \<open>ctl.go\<close>, \<open>ws_watcher.go\<close>), the sessions of its terminals
  (\<open>dctx.go\<close>, \<open>terminal.go\<close>) and the proxy to the ports of a Workspace (\<open>tunnelsrv.go\<close>), with the
  middleware and the routing in front of them (\<open>middlewares/auth\<close>, \<open>server.go\<close>).

  Parameters are the embedded database \<open>bbolt\<close> with the protobuf encoding, the session lookup of
  Octelium, the supervisors, and what it takes to build a tunnel (WireGuard and its key).
\<close>

section \<open>The cache (acache.go)\<close>

record ('c, 'b) bolt =
  btPut :: "'c \<Rightarrow> string \<Rightarrow> string \<Rightarrow> 'b \<Rightarrow> err + 'c"
  btGet :: "'c \<Rightarrow> string \<Rightarrow> string \<Rightarrow> 'b option"
  btDelete :: "'c \<Rightarrow> string \<Rightarrow> string \<Rightarrow> err + 'c"
  pbMarshal :: "cached \<Rightarrow> err + 'b"
  pbUnmarshal :: "'b \<Rightarrow> string \<Rightarrow> err + cached"

fun kindOf :: "cached \<Rightarrow> string" where
  "kindOf (CWorkspace _) = KindWorkspace"
| "kindOf (CSpace _) = KindSpace"
| "kindOf (CMembership _) = KindMembership"
| "kindOf (CSession _) = []"

fun cachedUid :: "cached \<Rightarrow> string" where
  "cachedUid (CWorkspace ws) = wsUid ws"
| "cachedUid (CSpace s) = mdUid (spcMetadata s)"
| "cachedUid (CMembership m) = mdUid (memMetadata m)"
| "cachedUid (CSession s) = mdUid (sessMetadata s)"

definition putResource :: "('c, 'b) bolt \<Rightarrow> string \<Rightarrow> cached \<Rightarrow> string \<Rightarrow> 'c \<Rightarrow> err + 'c" where
  "putResource B key obj kind c =
     bindS (pbMarshal B obj) (\<lambda>b. btPut B c kind (if key = [] then cachedUid obj else key) b)"

definition fetchResource :: "('c, 'b) bolt \<Rightarrow> string \<Rightarrow> string \<Rightarrow> 'c \<Rightarrow> err + cached" where
  "fetchResource B kind key c =
     (case btGet B c kind key of None \<Rightarrow> Inl ErrNotFound | Some b \<Rightarrow> pbUnmarshal B b kind)"

definition dropResource :: "('c, 'b) bolt \<Rightarrow> string \<Rightarrow> string \<Rightarrow> 'c \<Rightarrow> err + 'c" where
  "dropResource B kind key c = btDelete B c kind key"

definition boltGetWorkspace :: "('c, 'b) bolt \<Rightarrow> 'c \<Rightarrow> string \<Rightarrow> err + workspace" where
  "boltGetWorkspace B c n =
     bindS (fetchResource B KindWorkspace n c)
       (\<lambda>r. case r of CWorkspace ws \<Rightarrow> Inr ws | _ \<Rightarrow> wrongType)"

definition boltSetWorkspace :: "('c, 'b) bolt \<Rightarrow> workspace \<Rightarrow> 'c \<Rightarrow> err + 'c" where
  "boltSetWorkspace B ws = putResource B (wsName ws) (CWorkspace ws) KindWorkspace"

definition boltDeleteWorkspace :: "('c, 'b) bolt \<Rightarrow> workspace \<Rightarrow> 'c \<Rightarrow> err + 'c" where
  "boltDeleteWorkspace B ws = dropResource B KindWorkspace (wsName ws)"

definition boltGetMembership :: "('c, 'b) bolt \<Rightarrow> 'c \<Rightarrow> object_ref \<Rightarrow> object_ref \<Rightarrow> err + membership" where
  "boltGetMembership B c spcRef usrRef =
     bindS (fetchResource B KindMembership (GetMembershipName spcRef usrRef) c)
       (\<lambda>r. case r of CMembership m \<Rightarrow> Inr m | _ \<Rightarrow> wrongType)"

definition boltSetMembership :: "('c, 'b) bolt \<Rightarrow> membership \<Rightarrow> 'c \<Rightarrow> err + 'c" where
  "boltSetMembership B m = putResource B (mdName (memMetadata m)) (CMembership m) KindMembership"

definition boltDeleteMembership :: "('c, 'b) bolt \<Rightarrow> membership \<Rightarrow> 'c \<Rightarrow> err + 'c" where
  "boltDeleteMembership B m = dropResource B KindMembership (mdName (memMetadata m))"

text \<open>The database does what its documentation says, and neither it nor the encoding fails.\<close>

definition bolt_laws :: "('c, 'b) bolt \<Rightarrow> bool" where
  "bolt_laws B \<longleftrightarrow>
     (\<forall>c k key v. key \<noteq> [] \<longrightarrow> (\<exists>c'. btPut B c k key v = Inr c'
        \<and> (\<forall>k' j. btGet B c' k' j = (if k' = k \<and> j = key then Some v else btGet B c k' j))))
     \<and> (\<forall>c k key. \<exists>c'. btDelete B c k key = Inr c'
        \<and> (\<forall>k' j. btGet B c' k' j = (if k' = k \<and> j = key then None else btGet B c k' j)))
     \<and> (\<forall>x. \<exists>b. pbMarshal B x = Inr b \<and> pbUnmarshal B b (kindOf x) = Inr x)"

section \<open>State\<close>

text \<open>
  A listener of a terminal; a \<open>dctx\<close> is the websocket of a user, with the terminals it listens
  to in the order they were added. A tunnel remembers the Workspace and the key it was made
  with, and the ports that have a proxy.
\<close>

record terminal =
  tmId :: string
  tmClient :: sup_client

record dctx =
  dxId :: string
  dxSessUid :: string
  dxUser :: object_ref
  dxTerminals :: "terminal list"

record tun_ctx =
  tcWs :: workspace
  tcKey :: string
  tcProxies :: "int list"

record 'c portal =
  ptRegion :: object_ref
  ptCache :: 'c
  ptSup :: cmap
  ptTunnels :: "string \<rightharpoonup> tun_ctx"
  ptKey :: "string option"
  ptDctxs :: "dctx list"
  ptSent :: "(string \<times> workspace) list"
  ptActivity :: "string list"
  ptCalls :: "(sup_client \<times> term_call) list"

record ('c, 'b) portal_env =
  peBolt :: "('c, 'b) bolt"
  peDialer :: dialer
  peIsDev :: bool
  peDomain :: string
  peGetSession :: "string \<Rightarrow> err + session"
  peIsClientless :: "session \<Rightarrow> bool"
  peFetchKey :: "err + string"
  peNewTunnel :: "workspace \<Rightarrow> string \<Rightarrow> err option"
  peReply :: "(sup_client \<times> term_call) list \<Rightarrow> sup_client \<Rightarrow> term_call \<Rightarrow> err + term_reply"

definition newPortal :: "object_ref \<Rightarrow> 'c \<Rightarrow> 'c portal" where
  "newPortal rg c = \<lparr>ptRegion = rg, ptCache = c, ptSup = NewSupervisorCtxMap rg,
     ptTunnels = Map.empty, ptKey = None, ptDctxs = [], ptSent = [], ptActivity = [], ptCalls = []\<rparr>"

section \<open>Events of Workspaces (ctl.go, ws\_watcher.go, controllers/workspaces)\<close>

definition removeTunnel :: "workspace \<Rightarrow> 'c portal \<Rightarrow> 'c portal" where
  "removeTunnel ws s = s\<lparr>ptTunnels := (ptTunnels s)(wsUid ws := None)\<rparr>"

definition removeTerminalsByWorkspaceUID :: "string \<Rightarrow> dctx \<Rightarrow> dctx" where
  "removeTerminalsByWorkspaceUID uid dx =
     dx\<lparr>dxTerminals := filter (\<lambda>t. scUid (tmClient t) \<noteq> uid) (dxTerminals dx)\<rparr>"

definition removeTerminalListeners :: "workspace \<Rightarrow> 'c portal \<Rightarrow> 'c portal" where
  "removeTerminalListeners ws s =
     (case stUserRef (wsStatus ws) of
        None \<Rightarrow> s
      | Some u \<Rightarrow> s\<lparr>ptDctxs := map (\<lambda>dx. if refUid (dxUser dx) = refUid u
                                      then removeTerminalsByWorkspaceUID (wsUid ws) dx else dx)
                                   (ptDctxs s)\<rparr>)"

definition wantsUpdate :: "workspace \<Rightarrow> dctx \<Rightarrow> bool" where
  "wantsUpdate ws dx =
     (if stIsBuild (wsStatus ws) \<or> mdIsUserHidden (wsMetadata ws) \<or> mdIsSystemHidden (wsMetadata ws)
      then False
      else case stUserRef (wsStatus ws) of None \<Rightarrow> False | Some u \<Rightarrow> refUid (dxUser dx) = refUid u)"

text \<open>\<open>doSendWorkspaceUpdateMessage\<close> for every websocket; an error of one is only logged.\<close>

definition sendUpdates :: "workspace \<Rightarrow> 'c portal \<Rightarrow> 'c portal" where
  "sendUpdates ws s =
     s\<lparr>ptSent := ptSent s @ map (\<lambda>dx. (dxId dx, ws)) (filter (wantsUpdate ws) (ptDctxs s))\<rparr>"

definition onSup :: "(cmap \<Rightarrow> err option \<times> cmap) \<Rightarrow> 'c portal \<Rightarrow> err option \<times> 'c portal" where
  "onSup f s = (let (e, m) = f (ptSup s) in (e, s\<lparr>ptSup := m\<rparr>))"

definition OnWorkspaceCreate :: "dialer \<Rightarrow> workspace \<Rightarrow> 'c portal \<Rightarrow> err option \<times> 'c portal" where
  "OnWorkspaceCreate d ws s =
     (if stUserRef (wsStatus ws) = None then (None, s) else onSup (cmapSet d ws) s)"

definition onWorkspaceStop :: "workspace \<Rightarrow> workspace \<Rightarrow> 'c portal \<Rightarrow> 'c portal" where
  "onWorkspaceStop new old s =
     (if IsStoppingOrStopped (wsState new) \<and> \<not> IsStoppingOrStopped (wsState old)
      then removeTerminalListeners new (removeTunnel new s) else s)"

definition OnWorkspaceUpdate ::
  "dialer \<Rightarrow> workspace \<Rightarrow> workspace \<Rightarrow> 'c portal \<Rightarrow> err option \<times> 'c portal" where
  "OnWorkspaceUpdate d new old s =
     (if stUserRef (wsStatus new) = None then (None, s)
      else case onSup (cmapSet d new) s of
             (Some e, s1) \<Rightarrow> (Some e, s1)
           | (None, s1) \<Rightarrow> (None, sendUpdates new (onWorkspaceStop new old s1)))"

definition OnWorkspaceDelete :: "dialer \<Rightarrow> workspace \<Rightarrow> 'c portal \<Rightarrow> err option \<times> 'c portal" where
  "OnWorkspaceDelete d ws s =
     (if stUserRef (wsStatus ws) = None then (None, s)
      else case onSup (cmapRemove d ws) (removeTunnel ws s) of
             (Some e, s1) \<Rightarrow> (Some e, s1)
           | (None, s1) \<Rightarrow> (None, removeTerminalListeners ws s1))"

definition cacheThen ::
  "err + 'c \<Rightarrow> ('c portal \<Rightarrow> err option \<times> 'c portal) \<Rightarrow> 'c portal \<Rightarrow> err option \<times> 'c portal" where
  "cacheThen r f s = (case r of Inl e \<Rightarrow> (Some e, s) | Inr c \<Rightarrow> f (s\<lparr>ptCache := c\<rparr>))"

fun portalEvent :: "('c, 'b) portal_env \<Rightarrow> ws_event \<Rightarrow> 'c portal \<Rightarrow> err option \<times> 'c portal" where
  "portalEvent env (WsAdded ws) s =
     (if stIsBuild (wsStatus ws) then (None, s)
      else cacheThen (boltSetWorkspace (peBolt env) ws (ptCache s)) (OnWorkspaceCreate (peDialer env) ws) s)"
| "portalEvent env (WsUpdated new old) s =
     (if stIsBuild (wsStatus new) then (None, s)
      else cacheThen (boltSetWorkspace (peBolt env) new (ptCache s)) (OnWorkspaceUpdate (peDialer env) new old) s)"
| "portalEvent env (WsDeleted ws) s =
     (if stIsBuild (wsStatus ws) then (None, s)
      else cacheThen (boltDeleteWorkspace (peBolt env) ws (ptCache s)) (OnWorkspaceDelete (peDialer env) ws) s)"

section \<open>The websocket of a user (dctx.go)\<close>

definition newDctx :: "string \<Rightarrow> session \<Rightarrow> object_ref \<Rightarrow> dctx" where
  "newDctx rand sess u =
     \<lparr>dxId = mdName (sessMetadata sess) @ ''-'' @ rand, dxSessUid = mdUid (sessMetadata sess),
      dxUser = u, dxTerminals = []\<rparr>"

datatype client_msg =
    MsgSetWindowSize string u32 u32
  | MsgWriteData string string
  | MsgListen string
  | MsgListenEnd string
  | MsgUnknown

definition portalCall ::
  "('c, 'b) portal_env \<Rightarrow> sup_client \<Rightarrow> term_call \<Rightarrow> ('c portal, term_reply) io" where
  "portalCall env c t = (\<lambda>s. (peReply env (ptCalls s) c t, s\<lparr>ptCalls := ptCalls s @ [(c, t)]\<rparr>))"

definition portalActivity :: "string \<Rightarrow> ('c portal, unit) io" where
  "portalActivity uid = (\<lambda>s. (Inr (), s\<lparr>ptActivity := ptActivity s @ [uid]\<rparr>))"

definition getSupCFromTerminalID :: "dctx \<Rightarrow> string \<Rightarrow> 'c portal \<Rightarrow> err + sup_client" where
  "getSupCFromTerminalID dx tid s =
     (case CheckTerminalID tid of
        Some e \<Rightarrow> Inl e
      | None \<Rightarrow>
          (let args = splitOn CHR ''-'' tid
           in if length args \<noteq> 2 then Inl (Errorf ''Invalid Terminal ID'')
              else case GetByNameOrUID (ptSup s) (args ! 0) (Some (dxUser dx)) of
                     Inl e \<Rightarrow> Inl e | Inr (ws, c) \<Rightarrow> Inr c))"

definition updateDctx :: "string \<Rightarrow> (dctx \<Rightarrow> dctx) \<Rightarrow> ('c portal, unit) io" where
  "updateDctx i f =
     (\<lambda>s. (Inr (), s\<lparr>ptDctxs := map (\<lambda>dx. if dxId dx = i then f dx else dx) (ptDctxs s)\<rparr>))"

definition handleClientMsg ::
  "('c, 'b) portal_env \<Rightarrow> dctx \<Rightarrow> client_msg \<Rightarrow> ('c portal, unit) io" where
  "handleClientMsg env dx msg =
     (case msg of
        MsgSetWindowSize tid cols rows \<Rightarrow>
          bindE (readE (getSupCFromTerminalID dx tid)) (\<lambda>c.
          bindE (portalCall env c (CallResize tid cols rows)) (\<lambda>_.
          portalActivity (scUid c)))
      | MsgWriteData tid data \<Rightarrow>
          if data = [] then retE ()
          else bindE (throw_if (6000 < length data) (Errorf ''Data length is too high'')) (\<lambda>_.
               bindE (readE (getSupCFromTerminalID dx tid)) (\<lambda>c.
               bindE (portalCall env c (CallWrite tid data)) (\<lambda>_.
               portalActivity (scUid c))))
      | MsgListen tid \<Rightarrow>
          if tid \<in> set (map tmId (dxTerminals dx)) then retE ()
          else bindE (readE (getSupCFromTerminalID dx tid)) (\<lambda>c.
               bindE (portalCall env c (CallListen tid)) (\<lambda>_.
               bindE (updateDctx (dxId dx)
                        (\<lambda>x. x\<lparr>dxTerminals := dxTerminals x @ [\<lparr>tmId = tid, tmClient = c\<rparr>]\<rparr>)) (\<lambda>_.
               portalActivity (scUid c))))
      | MsgListenEnd tid \<Rightarrow>
          updateDctx (dxId dx) (\<lambda>x. x\<lparr>dxTerminals := filter (\<lambda>t. tmId t \<noteq> tid) (dxTerminals x)\<rparr>)
      | MsgUnknown \<Rightarrow> retE ())"

section \<open>The ports of a Workspace (tunnelsrv.go)\<close>

text \<open>\<open>canAccessSharedApplication\<close>: the loop over the shared ports.\<close>

fun canAccessShared ::
  "('c, 'b) bolt \<Rightarrow> 'c \<Rightarrow> application list \<Rightarrow> object_ref option \<Rightarrow> string \<Rightarrow> object_ref \<Rightarrow>
   shared_port list \<Rightarrow> err + bool" where
  "canAccessShared B c apps spcRef name usr [] = Inr False"
| "canAccessShared B c apps spcRef name usr (sp # sps) =
     (if spoApplicationName sp = name \<and> GetApplicationByName apps name \<noteq> None
      then (case spoMode sp of
              Share_ALL \<Rightarrow> Inr True
            | Share_MEMBERS \<Rightarrow>
                (case spcRef of
                   None \<Rightarrow> Inl (Panic ''nil'')
                 | Some r \<Rightarrow>
                     (case boltGetMembership B c r usr of
                        Inl (Panic m) \<Rightarrow> Inl (Panic m)
                      | Inl e \<Rightarrow> Inr False
                      | Inr _ \<Rightarrow> Inr True))
            | Share_UNSET \<Rightarrow> canAccessShared B c apps spcRef name usr sps)
      else canAccessShared B c apps spcRef name usr sps)"

definition canAccessSharedApplication ::
  "('c, 'b) bolt \<Rightarrow> 'c \<Rightarrow> workspace \<Rightarrow> string \<Rightarrow> object_ref \<Rightarrow> err + bool" where
  "canAccessSharedApplication B c ws name usr =
     canAccessShared B c (spApplications (wsSpec ws)) (stSpaceRef (wsStatus ws)) name usr
       (stSharedPorts (wsStatus ws))"

definition getPort :: "regex_result \<Rightarrow> workspace \<Rightarrow> err + int" where
  "getPort i ws =
     (if rrPort i \<noteq> 0 then Inr (int (rrPort i))
      else if rrApplication i \<noteq> []
      then (case GetApplicationByName (spApplications (wsSpec ws)) (rrApplication i) of
              None \<Rightarrow> Inl (Errorf (''No application with name: '' @ rrApplication i))
            | Some app \<Rightarrow> Inr (appPort app))
      else (case GetDefaultApplication (spApplications (wsSpec ws)) of
              None \<Rightarrow> Inr 8080
            | Some app \<Rightarrow> Inr (appPort app)))"

definition getTunnelKey :: "('c, 'b) portal_env \<Rightarrow> ('c portal, string) io" where
  "getTunnelKey env = (\<lambda>s.
     case ptKey s of
       Some k \<Rightarrow> (Inr k, s)
     | None \<Rightarrow> (case peFetchKey env of
                 Inl e \<Rightarrow> (Inl e, s)
               | Inr k \<Rightarrow> (Inr k, s\<lparr>ptKey := Some k\<rparr>)))"

definition initTunCtx :: "('c, 'b) portal_env \<Rightarrow> workspace \<Rightarrow> ('c portal, tun_ctx) io" where
  "initTunCtx env ws =
     bindE (getTunnelKey env) (\<lambda>k.
     bindE (checkE (peNewTunnel env ws k)) (\<lambda>_.
     (\<lambda>s. let t = \<lparr>tcWs = ws, tcKey = k, tcProxies = []\<rparr>
          in (Inr t, s\<lparr>ptTunnels := (ptTunnels s)(wsUid ws \<mapsto> t)\<rparr>))))"

definition getOrInitTunCtx :: "('c, 'b) portal_env \<Rightarrow> workspace \<Rightarrow> ('c portal, tun_ctx) io" where
  "getOrInitTunCtx env ws = (\<lambda>s.
     case ptTunnels s (wsUid ws) of Some t \<Rightarrow> (Inr t, s) | None \<Rightarrow> initTunCtx env ws s)"

text \<open>\<open>getProxy\<close>: a proxy is made for a port the first time.\<close>

definition getProxy :: "workspace \<Rightarrow> int \<Rightarrow> ('c portal, unit) io" where
  "getProxy ws port = (\<lambda>s.
     case ptTunnels s (wsUid ws) of
       None \<Rightarrow> (Inr (), s)
     | Some t \<Rightarrow>
         (Inr (), if port \<in> set (tcProxies t) then s
                  else s\<lparr>ptTunnels := (ptTunnels s)(wsUid ws \<mapsto> t\<lparr>tcProxies := tcProxies t @ [port]\<rparr>)\<rparr>))"

text \<open>The answer of the handler: a status, or the request passed on to a port of a Workspace.\<close>

datatype answer = Status nat | Proxied workspace int

definition stateServed :: "bool \<Rightarrow> ws_state \<Rightarrow> bool" where
  "stateServed isDev st \<longleftrightarrow> st = RUNNING \<or> st = PREPARING \<or> isDev \<and> IsPreRunning st"

definition orStatus :: "nat \<Rightarrow> ('w, 'a) io \<Rightarrow> ('a \<Rightarrow> ('w, answer) io) \<Rightarrow> ('w, answer) io" where
  "orStatus n m f = bindE (tryE m) (\<lambda>r.
     case r of
       Inl (Panic p) \<Rightarrow> throwE (Panic p)
     | Inl e \<Rightarrow> retE (Status n)
     | Inr a \<Rightarrow> f a)"

definition statusIf :: "bool \<Rightarrow> nat \<Rightarrow> ('w, answer) io \<Rightarrow> ('w, answer) io" where
  "statusIf c n m = (if c then retE (Status n) else m)"

definition sameRegion :: "object_ref \<Rightarrow> workspace \<Rightarrow> bool" where
  "sameRegion rg ws = (case stRegionRef (wsStatus ws) of None \<Rightarrow> False | Some r \<Rightarrow> refUid r = refUid rg)"

lemma sameRegion_iff [simp]:
  "sameRegion rg ws \<longleftrightarrow> (\<exists>r. stRegionRef (wsStatus ws) = Some r \<and> refUid r = refUid rg)"
  by (simp add: sameRegion_def split: option.split)

definition mayAccess ::
  "('c, 'b) portal_env \<Rightarrow> regex_result \<Rightarrow> workspace \<Rightarrow> object_ref \<Rightarrow> 'c portal \<Rightarrow> err + bool" where
  "mayAccess env i ws usr s =
     (if refUid (the (stUserRef (wsStatus ws))) = refUid usr then Inr True
      else if rrApplication i \<noteq> []
      then canAccessSharedApplication (peBolt env) (ptCache s) ws (rrApplication i) usr
      else Inr False)"

definition tunnelServe ::
  "('c, 'b) portal_env \<Rightarrow> session option \<Rightarrow> string \<Rightarrow> ('c portal, answer) io" where
  "tunnelServe env sess fwdHost =
     statusIf (sess = None) 401 (
     orStatus 404 (liftE (parseWorkspaceAppDomain (getForwardedHostPrefix fwdHost (peDomain env)))) (\<lambda>i.
     orStatus 500 (readE (\<lambda>s. boltGetWorkspace (peBolt env) (ptCache s) (rrWorkspace i))) (\<lambda>ws.
     statusIf (\<not> stateServed (peIsDev env) (wsState ws)) 400 (
     bindE (readE (\<lambda>s. Inr (ptRegion s))) (\<lambda>rg.
     statusIf (\<not> sameRegion rg ws) 400 (
     statusIf (stSessionRef (wsStatus ws) = None \<or> stIsBuild (wsStatus ws) \<or> stUserRef (wsStatus ws) = None) 401 (
     bindE (deref (sessUserRef (the sess))) (\<lambda>usr.
     bindE (readE (mayAccess env i ws usr)) (\<lambda>ok.
     statusIf (\<not> ok) 401 (
     orStatus 404 (liftE (getPort i ws)) (\<lambda>port.
     orStatus 500 (getOrInitTunCtx env ws) (\<lambda>_.
     bindE (getProxy ws port) (\<lambda>_.
     bindE (portalActivity (wsUid ws)) (\<lambda>_.
     retE (Proxied ws port)))))))))))))))"

section \<open>Routing and the middleware (server.go, middlewares/auth)\<close>

text \<open>\<open>^/auth/v1/begin/[a-z0-9-]{36}$\<close>\<close>

definition rgxGitProviderBegin :: "string \<Rightarrow> bool" where
  "rgxGitProviderBegin p \<longleftrightarrow>
     (let pre = ''/auth/v1/begin/''
      in hasPrefix p pre \<and> length p = length pre + 36 \<and> list_all labelChar (drop (length pre) p))"

datatype route = RtTunnel | RtIndex | RtConnect | RtAsset | RtGitBegin | RtGitCallback | RtNotFound

definition portalRoute :: "string \<Rightarrow> string \<Rightarrow> string \<Rightarrow> string \<Rightarrow> route" where
  "portalRoute domain fwdHost httpMethod path =
     (if rgxMatch (getForwardedHostPrefix fwdHost domain) \<noteq> None then RtTunnel
      else if path = ''/'' \<and> httpMethod = ''GET'' then RtIndex
      else if path = ''/connect'' then RtConnect
      else if httpMethod = ''GET'' \<and> hasPrefix path ''/assets/'' then RtAsset
      else if httpMethod = ''POST'' \<and> rgxGitProviderBegin path then RtGitBegin
      else if httpMethod = ''GET'' \<and> hasPrefix path ''/auth/v1/callback'' then RtGitCallback
      else if httpMethod = ''GET'' then RtIndex
      else RtNotFound)"

definition getContext :: "('c, 'b) portal_env \<Rightarrow> string \<Rightarrow> err + session" where
  "getContext env sessUID =
     (if sessUID = [] then Inl (Errorf ''Session UID is empty'')
      else bindS (peGetSession env sessUID) (\<lambda>sess.
           if \<not> peIsClientless env sess then Inl (Errorf ''Session type is not CLIENTLESS'')
           else Inr sess))"

text \<open>A request to a port, through the middleware.\<close>

definition servePort :: "('c, 'b) portal_env \<Rightarrow> string \<Rightarrow> string \<Rightarrow> ('c portal, answer) io" where
  "servePort env sessUID fwdHost =
     (case getContext env sessUID of
        Inl e \<Rightarrow> retE (Status 401)
      | Inr sess \<Rightarrow> tunnelServe env (Some sess) fwdHost)"

end
