(* ===== verification/Portal_Invariant.thy ===== *)
theory Portal_Invariant
  imports Portal_Server
begin

text \<open>
  The portal as a state machine, and what holds in each of its states: the cache is what the
  watch reported, the supervisors are those of the servable Workspaces, a tunnel belongs to a
  Workspace that has not begun to stop, and a terminal that a websocket listens to is one of a
  Workspace of its user. The decisions on requests follow from these.
\<close>

section \<open>The state machine\<close>

fun buildEvent :: "ws_event \<Rightarrow> bool" where
  "buildEvent (WsAdded ws) = stIsBuild (wsStatus ws)"
| "buildEvent (WsUpdated new old) = stIsBuild (wsStatus new)"
| "buildEvent (WsDeleted ws) = stIsBuild (wsStatus ws)"

inductive portal_run ::
  "('c, 'b) portal_env \<Rightarrow> 'c \<Rightarrow> object_ref \<Rightarrow> live \<Rightarrow> 'c portal \<Rightarrow> bool" for env c0 rg where
  start: "portal_run env c0 rg Map.empty (newPortal rg c0)"
| event: "portal_run env c0 rg L s \<Longrightarrow> \<not> buildEvent e \<Longrightarrow> watch_ok L e \<Longrightarrow>
    portal_run env c0 rg (live_step e L) (snd (portalEvent env e s))"
| build: "portal_run env c0 rg L s \<Longrightarrow> buildEvent e \<Longrightarrow>
    portal_run env c0 rg L (snd (portalEvent env e s))"
| connect: "portal_run env c0 rg L s \<Longrightarrow> sessUserRef sess = Some u \<Longrightarrow>
    mdName (sessMetadata sess) @ ''-'' @ rand \<notin> set (map dxId (ptDctxs s)) \<Longrightarrow>
    portal_run env c0 rg L (s\<lparr>ptDctxs := ptDctxs s @ [newDctx rand sess u]\<rparr>)"
| disconnect: "portal_run env c0 rg L s \<Longrightarrow>
    portal_run env c0 rg L (s\<lparr>ptDctxs := filter (\<lambda>dx. dxId dx \<noteq> i) (ptDctxs s)\<rparr>)"
| message: "portal_run env c0 rg L s \<Longrightarrow> dx \<in> set (ptDctxs s) \<Longrightarrow>
    portal_run env c0 rg L (snd (handleClientMsg env dx msg s))"
| request: "portal_run env c0 rg L s \<Longrightarrow>
    portal_run env c0 rg L (snd (servePort env sessUid host s))"

text \<open>What the portal relies on: the laws of the database, and that connections close.\<close>

definition deps_ok :: "('c, 'b) portal_env \<Rightarrow> 'c \<Rightarrow> bool" where
  "deps_ok env c0 \<longleftrightarrow> bolt_laws (peBolt env) \<and> (\<forall>k j. btGet (peBolt env) c0 k j = None)
     \<and> (\<forall>c. dlClose (peDialer env) c = None)"

section \<open>The cache\<close>

definition cache_ok :: "('c, 'b) bolt \<Rightarrow> live \<Rightarrow> 'c \<Rightarrow> bool" where
  "cache_ok B L c \<longleftrightarrow> (\<forall>n. boltGetWorkspace B c n = found (L n))
     \<and> (\<forall>k. btGet B c KindMembership k = None)"

lemma bolt_putE:
  assumes "bolt_laws B" "key \<noteq> []"
  obtains c' where "btPut B c k key v = Inr c'"
    "\<And>k' j. btGet B c' k' j = (if k' = k \<and> j = key then Some v else btGet B c k' j)"
  using assms unfolding bolt_laws_def by blast

lemma bolt_delE:
  assumes "bolt_laws B"
  obtains c' where "btDelete B c k key = Inr c'"
    "\<And>k' j. btGet B c' k' j = (if k' = k \<and> j = key then None else btGet B c k' j)"
  using assms unfolding bolt_laws_def by blast

lemma bolt_pbE:
  assumes "bolt_laws B"
  obtains b where "pbMarshal B x = Inr b" "pbUnmarshal B b (kindOf x) = Inr x"
  using assms unfolding bolt_laws_def by blast

lemma bolt_set_ok:
  assumes "bolt_laws B" "cache_ok B L c" "wsName ws \<noteq> []"
  obtains c' where "boltSetWorkspace B ws c = Inr c'" "cache_ok B (L(wsName ws \<mapsto> ws)) c'"
proof -
  obtain b where b: "pbMarshal B (CWorkspace ws) = Inr b" "pbUnmarshal B b KindWorkspace = Inr (CWorkspace ws)"
    by (metis bolt_pbE[OF assms(1)] kindOf.simps(1))
  obtain c' where c: "btPut B c KindWorkspace (wsName ws) b = Inr c'"
      "\<And>k' j. btGet B c' k' j = (if k' = KindWorkspace \<and> j = wsName ws then Some b else btGet B c k' j)"
    by (rule bolt_putE[OF assms(1,3), where c = c and k = KindWorkspace and v = b]) blast
  have "boltSetWorkspace B ws c = Inr c'"
    using b c(1) assms(3) by (simp add: boltSetWorkspace_def putResource_def bindS_def)
  moreover have "cache_ok B (L(wsName ws \<mapsto> ws)) c'"
    using assms(2) b by (auto simp: cache_ok_def boltGetWorkspace_def fetchResource_def c(2) bindS_def
        found_def kind_defs)
  ultimately show thesis by (rule that)
qed

lemma bolt_delete_ok:
  assumes "bolt_laws B" "cache_ok B L c"
  obtains c' where "boltDeleteWorkspace B ws c = Inr c'" "cache_ok B (L(wsName ws := None)) c'"
proof -
  obtain c' where c: "btDelete B c KindWorkspace (wsName ws) = Inr c'"
      "\<And>k' j. btGet B c' k' j = (if k' = KindWorkspace \<and> j = wsName ws then None else btGet B c k' j)"
    by (rule bolt_delE[OF assms(1), where c = c and k = KindWorkspace and key = "wsName ws"]) blast
  have "boltDeleteWorkspace B ws c = Inr c'"
    using c(1) by (simp add: boltDeleteWorkspace_def dropResource_def)
  moreover have "cache_ok B (L(wsName ws := None)) c'"
    using assms(2) by (auto simp: cache_ok_def boltGetWorkspace_def fetchResource_def c(2) bindS_def
        found_def kind_defs)
  ultimately show thesis by (rule that)
qed

section \<open>Tunnels and terminals\<close>

definition running :: "live \<Rightarrow> string \<Rightarrow> bool" where
  "running L uid \<longleftrightarrow> (\<exists>n ws. L n = Some ws \<and> wsUid ws = uid
     \<and> \<not> IsStoppingOrStopped (wsState ws) \<and> stUserRef (wsStatus ws) \<noteq> None)"

definition tun_ok :: "live \<Rightarrow> (string \<rightharpoonup> tun_ctx) \<Rightarrow> bool" where
  "tun_ok L T \<longleftrightarrow> (\<forall>uid\<in>dom T. running L uid)"

definition term_ok :: "dialer \<Rightarrow> live \<Rightarrow> object_ref \<Rightarrow> dctx \<Rightarrow> bool" where
  "term_ok d L rg dx \<longleftrightarrow>
     (\<forall>t\<in>set (dxTerminals dx). \<exists>ws. reachable_for d L rg (dxUser dx) (tmClient t) ws
        \<and> getWSNameFromTerminalID (tmId t) \<in> {Inr (wsName ws), Inr (wsUid ws)})"

definition portal_inv :: "('c, 'b) portal_env \<Rightarrow> object_ref \<Rightarrow> live \<Rightarrow> 'c portal \<Rightarrow> bool" where
  "portal_inv env rg L s \<longleftrightarrow> live_ok L \<and> cache_ok (peBolt env) L (ptCache s)
     \<and> ptRegion s = rg \<and> cmRegion (ptSup s) = rg \<and> cm_inv (peDialer env) L (ptSup s)
     \<and> tun_ok L (ptTunnels s) \<and> distinct (map dxId (ptDctxs s))
     \<and> (\<forall>dx\<in>set (ptDctxs s). term_ok (peDialer env) L rg dx)"

lemma running_other:
  assumes "live_ok L" "known L ws" "running L uid" "uid \<noteq> wsUid ws"
  shows "running (L(wsName ws := x)) uid"
proof -
  from assms(3) obtain n w where n: "L n = Some w" "wsUid w = uid"
      "\<not> IsStoppingOrStopped (wsState w)" "stUserRef (wsStatus w) \<noteq> None" by (auto simp: running_def)
  have "n \<noteq> wsName ws"
  proof
    assume "n = wsName ws"
    with n(1,2) assms(2,4) show False by (auto simp: known_def freshWs_def sameWs_def)
  qed
  with n show ?thesis unfolding running_def by (intro exI[of _ n] exI[of _ w]) simp
qed

lemma running_known:
  assumes "live_ok L" "known L ws" "running L (wsUid ws)"
  obtains old where "L (wsName ws) = Some old" "sameWs ws old"
    "\<not> IsStoppingOrStopped (wsState old)" "stUserRef (wsStatus ws) \<noteq> None"
proof -
  from assms(3) obtain n w where n: "L n = Some w" "wsUid w = wsUid ws"
      "\<not> IsStoppingOrStopped (wsState w)" "stUserRef (wsStatus w) \<noteq> None" by (auto simp: running_def)
  have "\<not> freshWs L ws" using freshWsD(1)[of L ws n w] n(1,2) by auto
  with assms(2) obtain old where o: "L (wsName ws) = Some old" "sameWs ws old"
    by (auto simp: known_def)
  with live_okD(3)[OF assms(1) n(1) o(1)] n have "w = old" by (auto simp: sameWs_def)
  with o n show thesis by (intro that[of old]) (auto simp: sameWs_def)
qed

lemma tun_ok_event:
  assumes L: "live_ok L" and k: "known L ws" and T: "tun_ok L T"
    and T': "\<And>uid. uid \<noteq> wsUid ws \<Longrightarrow> T' uid = T uid"
    and w: "T' (wsUid ws) \<noteq> None \<Longrightarrow> T' (wsUid ws) = T (wsUid ws) \<and>
       (\<exists>new. x = Some new \<and> wsUid new = wsUid ws \<and> stUserRef (wsStatus new) = stUserRef (wsStatus ws)
          \<and> (\<forall>old. L (wsName ws) = Some old \<longrightarrow> \<not> IsStoppingOrStopped (wsState old)
                \<longrightarrow> \<not> IsStoppingOrStopped (wsState new)))"
  shows "tun_ok (L(wsName ws := x)) T'"
  unfolding tun_ok_def
proof
  fix uid assume u: "uid \<in> dom T'"
  show "running (L(wsName ws := x)) uid"
  proof (cases "uid = wsUid ws")
    case False
    with u T T' have "running L uid" by (auto simp: tun_ok_def)
    with running_other[OF L k] False show ?thesis by simp
  next
    case True
    with u w have "T (wsUid ws) \<noteq> None" by (auto simp: domIff)
    with T have "running L (wsUid ws)" by (auto simp: tun_ok_def domIff)
    then obtain old where "L (wsName ws) = Some old" "\<not> IsStoppingOrStopped (wsState old)"
        "stUserRef (wsStatus ws) \<noteq> None" by (rule running_known[OF L k])
    with u w True show ?thesis
      unfolding running_def by (intro exI[of _ "wsName ws"]) auto
  qed
qed

text \<open>A terminal of another Workspace is untouched; one of an updated Workspace that is still
  servable keeps its Workspace.\<close>

lemma term_ok_event:
  assumes L: "live_ok L" and k: "known L ws" and D: "term_ok d L rg dx"
    and sub: "set (dxTerminals dx') \<subseteq> set (dxTerminals dx)" "dxUser dx' = dxUser dx"
    and own: "\<And>t old. t \<in> set (dxTerminals dx') \<Longrightarrow> reachable_for d L rg (dxUser dx) (tmClient t) old
       \<Longrightarrow> L (wsName ws) = Some old \<Longrightarrow> sameWs ws old
       \<Longrightarrow> \<exists>new. x = Some new \<and> sameWs new old \<and> servable rg new"
  shows "term_ok d (L(wsName ws := x)) rg dx'"
  unfolding term_ok_def
proof
  fix t assume t: "t \<in> set (dxTerminals dx')"
  with sub D obtain w where w: "reachable_for d L rg (dxUser dx) (tmClient t) w"
      "getWSNameFromTerminalID (tmId t) \<in> {Inr (wsName w), Inr (wsUid w)}"
    by (auto simp: term_ok_def)
  show "\<exists>w. reachable_for d (L(wsName ws := x)) rg (dxUser dx') (tmClient t) w
      \<and> getWSNameFromTerminalID (tmId t) \<in> {Inr (wsName w), Inr (wsUid w)}"
  proof (cases "wsName w = wsName ws")
    case False
    with w sub(2) show ?thesis by (auto simp: reachable_for_def)
  next
    case True
    with w(1) have o: "L (wsName ws) = Some w" by (simp add: reachable_for_def)
    with k have same: "sameWs ws w" by (auto simp: known_def freshWs_def)
    from own[OF t w(1) o same] obtain new where new: "x = Some new" "sameWs new w" "servable rg new"
      by blast
    then have "clientOf d new = clientOf d w"
      by (simp add: clientOf_def sameWs_def getWorkspaceSupHostAddr_def GetWorkspaceSupHost_def)
    with new True w sub(2) show ?thesis
      by (intro exI[of _ new]) (auto simp: reachable_for_def sameWs_def)
  qed
qed

lemma onSup_eq: "onSup f s = (fst (f (ptSup s)), s\<lparr>ptSup := snd (f (ptSup s))\<rparr>)"
  by (simp add: onSup_def split: prod.split)

text \<open>The parts of the state that the steps of an event leave alone.\<close>

lemma event_parts [simp]:
  "ptCache (removeTunnel ws s) = ptCache s" "ptRegion (removeTunnel ws s) = ptRegion s"
  "ptSup (removeTunnel ws s) = ptSup s" "ptDctxs (removeTunnel ws s) = ptDctxs s"
  "ptTunnels (removeTunnel ws s) = (ptTunnels s)(wsUid ws := None)"
  "ptCache (removeTerminalListeners ws s) = ptCache s"
  "ptRegion (removeTerminalListeners ws s) = ptRegion s"
  "ptSup (removeTerminalListeners ws s) = ptSup s"
  "ptTunnels (removeTerminalListeners ws s) = ptTunnels s"
  "ptCache (sendUpdates ws s) = ptCache s" "ptRegion (sendUpdates ws s) = ptRegion s"
  "ptSup (sendUpdates ws s) = ptSup s" "ptTunnels (sendUpdates ws s) = ptTunnels s"
  "ptDctxs (sendUpdates ws s) = ptDctxs s"
  by (auto simp: removeTunnel_def removeTerminalListeners_def sendUpdates_def split: option.split)

lemma listeners_ids [simp]:
  "map dxId (ptDctxs (removeTerminalListeners ws s)) = map dxId (ptDctxs s)"
  by (auto simp: removeTerminalListeners_def removeTerminalsByWorkspaceUID_def split: option.split)

lemma listeners_gone:
  assumes "dx' \<in> set (ptDctxs (removeTerminalListeners ws s))"
  obtains dx where "dx \<in> set (ptDctxs s)" "dxUser dx' = dxUser dx" "dxId dx' = dxId dx"
    "set (dxTerminals dx') \<subseteq> set (dxTerminals dx)"
    "\<forall>t\<in>set (dxTerminals dx'). \<forall>u. stUserRef (wsStatus ws) = Some u
       \<longrightarrow> refUid (dxUser dx) = refUid u \<longrightarrow> scUid (tmClient t) \<noteq> wsUid ws"
proof (cases "stUserRef (wsStatus ws)")
  case None
  with assms have "dx' \<in> set (ptDctxs s)" by (simp add: removeTerminalListeners_def)
  with None show thesis by (intro that[of dx']) auto
next
  case (Some u)
  with assms obtain dx where dx: "dx \<in> set (ptDctxs s)"
      "dx' = (if refUid (dxUser dx) = refUid u then removeTerminalsByWorkspaceUID (wsUid ws) dx else dx)"
    by (auto simp: removeTerminalListeners_def)
  show thesis
    by (rule that[OF dx(1)]) (use dx(2) Some in \<open>auto simp: removeTerminalsByWorkspaceUID_def\<close>)
qed

lemma no_listener:
  assumes "dx' \<in> set (ptDctxs (removeTerminalListeners ws s))" "t \<in> set (dxTerminals dx')"
    and "reachable_for d L rg (dxUser dx') (tmClient t) old" "sameWs ws old"
  shows False
proof -
  from assms(1) obtain dx :: dctx where dx: "dxUser dx' = dxUser dx"
    "\<forall>t\<in>set (dxTerminals dx'). \<forall>u. stUserRef (wsStatus ws) = Some u
       \<longrightarrow> refUid (dxUser dx) = refUid u \<longrightarrow> scUid (tmClient t) \<noteq> wsUid ws"
    by (rule listeners_gone) blast
  from assms(3,4) obtain u where "stUserRef (wsStatus ws) = Some u" "refUid u = refUid (dxUser dx)"
      "scUid (tmClient t) = wsUid ws"
    using dx(1) by (auto simp: reachable_for_def sameWs_def clientOf_def)
  with dx(2) assms(2) show False by auto
qed

lemma gone_keeps:
  assumes "live_ok L" "known L ws" "\<And>dx. dx \<in> set (ptDctxs s) \<Longrightarrow> term_ok d L rg dx"
    and "dx' \<in> set (ptDctxs (removeTerminalListeners ws s))"
  shows "term_ok d (L(wsName ws := x)) rg dx'"
proof (rule listeners_gone[OF assms(4)])
  fix dx :: dctx
  assume dx: "dx \<in> set (ptDctxs s)" "dxUser dx' = dxUser dx"
    "set (dxTerminals dx') \<subseteq> set (dxTerminals dx)"
  show ?thesis
    by (rule term_ok_event[OF assms(1,2) assms(3)[OF dx(1)] dx(3,2)])
      (use no_listener[OF assms(4), unfolded dx(2)] in blast)
qed

section \<open>Events keep the invariant\<close>

lemma portal_invD:
  assumes "portal_inv env rg L s"
  shows "live_ok L" "cache_ok (peBolt env) L (ptCache s)" "ptRegion s = rg" "cmRegion (ptSup s) = rg"
    "cm_inv (peDialer env) L (ptSup s)" "tun_ok L (ptTunnels s)"
    "\<And>dx. dx \<in> set (ptDctxs s) \<Longrightarrow> term_ok (peDialer env) L rg dx"
    "distinct (map dxId (ptDctxs s))"
  using assms by (auto simp: portal_inv_def)

lemma closes: "deps_ok env c0 \<Longrightarrow> fst (cmapRemove (peDialer env) ws m) = None"
  by (auto simp: deps_ok_def cmapRemove_def Let_def split: option.split)

lemma set_error:
  assumes "deps_ok env c0" "fst (cmapSet (peDialer env) ws m) = Some e"
  shows "servable (cmRegion m) ws"
  using assms closes[OF assms(1), of ws m]
  by (auto simp: cmapSet_def servable_def Let_def split: option.splits sum.splits if_splits)

lemma added_keeps:
  assumes dep: "deps_ok env c0" and I: "portal_inv env rg L s"
    and w: "watch_ok L (WsAdded ws)" and b: "\<not> stIsBuild (wsStatus ws)"
  shows "portal_inv env rg (live_step (WsAdded ws) L) (snd (portalEvent env (WsAdded ws) s))"
proof -
  note inv = portal_invD[OF I]
  let ?L = "L(wsName ws \<mapsto> ws)"
  from w have f: "freshWs L ws" "settable L ws" "known L ws" "wsName ws \<noteq> []"
    by (auto simp: settable_def known_def freshWs_def)
  from dep have B: "bolt_laws (peBolt env)" by (simp add: deps_ok_def)
  obtain c' where c: "boltSetWorkspace (peBolt env) ws (ptCache s) = Inr c'" "cache_ok (peBolt env) ?L c'"
    by (rule bolt_set_ok[OF B inv(2) f(4)])
  have live: "live_ok ?L" using live_ok_step[OF inv(1) w] by simp
  have tun: "tun_ok ?L (ptTunnels s)"
  proof (rule tun_ok_event[OF inv(1) f(3) inv(6)])
    assume "ptTunnels s (wsUid ws) \<noteq> None"
    with inv(6) have "running L (wsUid ws)" by (auto simp: tun_ok_def domIff)
    then obtain old where "L (wsName ws) = Some old" by (rule running_known[OF inv(1) f(3)])
    with f(1) show "ptTunnels s (wsUid ws) = ptTunnels s (wsUid ws) \<and> (\<exists>new. Some ws = Some new
        \<and> wsUid new = wsUid ws \<and> stUserRef (wsStatus new) = stUserRef (wsStatus ws)
        \<and> (\<forall>old. L (wsName ws) = Some old \<longrightarrow> \<not> IsStoppingOrStopped (wsState old)
             \<longrightarrow> \<not> IsStoppingOrStopped (wsState new)))" by (simp add: freshWs_def)
  qed simp
  have trm: "term_ok (peDialer env) ?L rg dx" if "dx \<in> set (ptDctxs s)" for dx
    by (rule term_ok_event[OF inv(1) f(3) inv(7)[OF that]])
      (use f(1) in \<open>auto simp: freshWs_def\<close>)
  have sup: "cm_inv (peDialer env) ?L (if stUserRef (wsStatus ws) = None then ptSup s
      else snd (cmapSet (peDialer env) ws (ptSup s)))"
    using cmapSet_keeps[OF inv(1,5) f(2)] idle_keeps[OF inv(1,5) f(3)]
      no_entry_when_fresh(1)[OF inv(5) f(1)] by simp
  show ?thesis
    using b c live tun trm sup inv(3,4,8)
    by (auto simp: cacheThen_def OnWorkspaceCreate_def onSup_eq portal_inv_def)
qed

lemma still_servable:
  assumes "sameWs new old" "regionKept new old" "servable rg old" "\<not> IsStoppingOrStopped (wsState new)"
  shows "servable rg new"
  using assms by (auto simp: servable_def sameWs_def regionKept_def)

lemma updated_tunnels:
  assumes inv: "live_ok L" "tun_ok L T" and w: "L (wsName new) = Some old" "sameWs new old"
    and "T' = T \<and> (IsStoppingOrStopped (wsState new) \<longrightarrow> IsStoppingOrStopped (wsState old))
      \<or> T' = T(wsUid new := None)"
  shows "tun_ok (L(wsName new \<mapsto> new)) T'"
proof (rule tun_ok_event[OF inv(1) _ inv(2)])
  show "known L new" using w by (auto simp: known_def)
next
  fix uid assume "uid \<noteq> wsUid new"
  with assms(5) show "T' uid = T uid" by auto
next
  assume "T' (wsUid new) \<noteq> None"
  with assms(5) w show "T' (wsUid new) = T (wsUid new) \<and> (\<exists>new'. Some new = Some new'
      \<and> wsUid new' = wsUid new \<and> stUserRef (wsStatus new') = stUserRef (wsStatus new)
      \<and> (\<forall>old. L (wsName new) = Some old \<longrightarrow> \<not> IsStoppingOrStopped (wsState old)
           \<longrightarrow> \<not> IsStoppingOrStopped (wsState new')))" by auto
qed

lemma updated_keeps:
  assumes dep: "deps_ok env c0" and I: "portal_inv env rg L s"
    and w: "watch_ok L (WsUpdated new old)" and b: "\<not> stIsBuild (wsStatus new)"
  shows "portal_inv env rg (live_step (WsUpdated new old) L) (snd (portalEvent env (WsUpdated new old) s))"
proof -
  note inv = portal_invD[OF I]
  let ?L = "L(wsName new \<mapsto> new)" and ?d = "peDialer env"
  from w have o: "L (wsName new) = Some old" "sameWs new old" "regionKept new old"
    by (auto simp: sameWs_def)
  then have f: "settable L new" "known L new" by (auto simp: settable_def known_def)
  from dep have B: "bolt_laws (peBolt env)" by (simp add: deps_ok_def)
  obtain c' where c: "boltSetWorkspace (peBolt env) new (ptCache s) = Inr c'" "cache_ok (peBolt env) ?L c'"
    by (rule bolt_set_ok[OF B inv(2) live_okD(4)[OF inv(1) o(1)]])
  have live: "live_ok ?L" using live_ok_step[OF inv(1) w] by simp
  define s1 where "s1 = s\<lparr>ptCache := c'\<rparr>"
  define s2 where "s2 = s1\<lparr>ptSup := snd (cmapSet ?d new (ptSup s))\<rparr>"
  have keep: "portal_inv env rg ?L s'"
    if "ptCache s' = c'" "ptRegion s' = rg" "ptSup s' = m" "cm_inv ?d ?L m" "cmRegion m = rg"
      "tun_ok ?L (ptTunnels s')" "\<forall>dx\<in>set (ptDctxs s'). term_ok ?d ?L rg dx"
      "map dxId (ptDctxs s') = map dxId (ptDctxs s)" for s' m
    using that live c inv(8) by (simp add: portal_inv_def)
  note set = cmapSet_keeps[OF inv(1,5) f(1)]
  have same: "term_ok ?d ?L rg dx"
    if "dx \<in> set (ptDctxs s)" "stUserRef (wsStatus new) = None \<or> \<not> IsStoppingOrStopped (wsState new)
       \<or> IsStoppingOrStopped (wsState old)" for dx
  proof (rule term_ok_event[OF inv(1) f(2) inv(7)[OF that(1)]])
    fix t old' assume "reachable_for ?d L rg (dxUser dx) (tmClient t) old'" "L (wsName new) = Some old'"
    with o that(2) still_servable[OF o(2,3)] show "\<exists>x. Some new = Some x \<and> sameWs x old' \<and> servable rg x"
      by (auto simp: reachable_for_def servable_def sameWs_def)
  qed auto
  show ?thesis
  proof (cases "stUserRef (wsStatus new) = None")
    case True
    have none: "\<not> servable (cmRegion (ptSup s)) old" using True o(2) by (simp add: servable_def sameWs_def)
    have "\<not> running L (wsUid new)"
      using running_known[OF inv(1) f(2)] True by blast
    with inv(6) have "ptTunnels s (wsUid new) = None" by (auto simp: tun_ok_def)
    then have "ptTunnels s = (ptTunnels s)(wsUid new := None)" by auto
    with updated_tunnels[OF inv(1,6) o(1,2)] have "tun_ok ?L (ptTunnels s)" by blast
    with keep[of s1 "ptSup s"] inv(3,4) same True
      idle_keeps[OF inv(1,5) f(2) no_entry_unless_servable[OF inv(1,5) o(1) none]]
    show ?thesis using b c by (simp add: s1_def cacheThen_def OnWorkspaceUpdate_def)
  next
    case user: False
    show ?thesis
    proof (cases "fst (cmapSet ?d new (ptSup s))")
      case (Some e)
      from set_error[OF dep Some] have "\<not> IsStoppingOrStopped (wsState new)" by (simp add: servable_def)
      with keep[of s2 "snd (cmapSet ?d new (ptSup s))"] inv(3,4) same set
        updated_tunnels[OF inv(1,6) o(1,2)]
      show ?thesis using b c user Some
        by (auto simp: s1_def s2_def cacheThen_def OnWorkspaceUpdate_def onSup_eq)
    next
      case None
      let ?s = "sendUpdates new (onWorkspaceStop new old s2)"
      have r: "snd (portalEvent env (WsUpdated new old) s) = ?s"
        using b c user None by (auto simp: s1_def s2_def cacheThen_def OnWorkspaceUpdate_def onSup_eq)
      have "portal_inv env rg ?L ?s"
      proof (cases "IsStoppingOrStopped (wsState new) \<and> \<not> IsStoppingOrStopped (wsState old)")
        case True
        have gone: "term_ok ?d ?L rg dx'"
          if "dx' \<in> set (ptDctxs (removeTerminalListeners new (removeTunnel new s2)))" for dx'
          by (rule gone_keeps[OF inv(1) f(2) _ that]) (use inv(7) in \<open>simp add: s2_def s1_def\<close>)
        show ?thesis
          by (rule keep[OF _ _ _ set]) (use True inv(3,4) gone updated_tunnels[OF inv(1,6) o(1,2)] in
            \<open>simp_all add: onWorkspaceStop_def s2_def s1_def\<close>)
      next
        case False
        then have "onWorkspaceStop new old s2 = s2" by (auto simp: onWorkspaceStop_def)
        then show ?thesis
          by (intro keep[OF _ _ _ set]) (use False inv(3,4) same updated_tunnels[OF inv(1,6) o(1,2)] in
            \<open>auto simp add: s2_def s1_def\<close>)
      qed
      with r show ?thesis by simp
    qed
  qed
qed

lemma deleted_keeps:
  assumes dep: "deps_ok env c0" and I: "portal_inv env rg L s"
    and w: "watch_ok L (WsDeleted ws)" and b: "\<not> stIsBuild (wsStatus ws)"
  shows "portal_inv env rg (live_step (WsDeleted ws) L) (snd (portalEvent env (WsDeleted ws) s))"
proof -
  note inv = portal_invD[OF I]
  let ?L = "L(wsName ws := None)" and ?d = "peDialer env"
  from w obtain old where o: "L (wsName ws) = Some old" "sameWs ws old" by auto
  then have f: "known L ws" by (auto simp: known_def)
  from dep have B: "bolt_laws (peBolt env)" by (simp add: deps_ok_def)
  obtain c' where c: "boltDeleteWorkspace (peBolt env) ws (ptCache s) = Inr c'" "cache_ok (peBolt env) ?L c'"
    by (rule bolt_delete_ok[OF B inv(2)])
  have live: "live_ok ?L" using live_ok_step[OF inv(1) w] by simp
  have tun: "tun_ok ?L ((ptTunnels s)(wsUid ws := None))"
    by (rule tun_ok_event[OF inv(1) f inv(6)]) auto
  show ?thesis
  proof (cases "stUserRef (wsStatus ws) = None")
    case True
    have "\<not> running L (wsUid ws)" using running_known[OF inv(1) f] True by blast
    with inv(6) have "ptTunnels s (wsUid ws) = None" by (auto simp: tun_ok_def)
    then have "(ptTunnels s)(wsUid ws := None) = ptTunnels s" by auto
    moreover have "cm_inv ?d ?L (ptSup s)"
    proof -
      have none: "\<not> servable (cmRegion (ptSup s)) old" using True o(2) by (simp add: servable_def sameWs_def)
      from no_entry_unless_servable[OF inv(1,5) o(1) none]
      have n: "cmMap (ptSup s) (wsName ws) = None" "cmMap (ptSup s) (wsUid ws) = None"
        using cm_inv_paired[OF inv(5) o(1)] o(2) by (auto simp: sameWs_def)
      show ?thesis by (rule cm_inv_forget[OF inv(1,5) f]) (use n in auto)
    qed
    moreover have "term_ok ?d ?L rg dx" if "dx \<in> set (ptDctxs s)" for dx
      by (rule term_ok_event[OF inv(1) f inv(7)[OF that]]) (use True in \<open>auto simp: reachable_for_def sameWs_def\<close>)
    ultimately show ?thesis using b c live tun inv(3,4,8) True
      by (auto simp: cacheThen_def OnWorkspaceDelete_def portal_inv_def)
  next
    case False
    let ?s = "(removeTunnel ws (s\<lparr>ptCache := c'\<rparr>))\<lparr>ptSup := snd (cmapRemove ?d ws (ptSup s))\<rparr>"
    have trm: "term_ok ?d ?L rg dx'" if "dx' \<in> set (ptDctxs (removeTerminalListeners ws ?s))" for dx'
      by (rule gone_keeps[OF inv(1) f _ that]) (use inv(7) in simp)
    have "snd (portalEvent env (WsDeleted ws) s) = removeTerminalListeners ws ?s"
      using b c False closes[OF dep] by (auto simp: cacheThen_def OnWorkspaceDelete_def onSup_eq)
    moreover have "portal_inv env rg ?L (removeTerminalListeners ws ?s)"
      using live c tun trm inv(3,4,8) remove_keeps[OF inv(1,5) f, of None] by (simp add: portal_inv_def)
    ultimately show ?thesis by simp
  qed
qed

lemma event_keeps_portal:
  assumes "deps_ok env c0" "portal_inv env rg L s" "watch_ok L e" "\<not> buildEvent e"
  shows "portal_inv env rg (live_step e L) (snd (portalEvent env e s))"
proof (cases e)
  case (WsAdded ws)
  with assms added_keeps[OF assms(1,2), of ws] show ?thesis by simp
next
  case (WsUpdated new old)
  with assms updated_keeps[OF assms(1,2), of new old] show ?thesis by simp
next
  case (WsDeleted ws)
  with assms deleted_keeps[OF assms(1,2), of ws] show ?thesis by simp
qed

lemma build_ignored: "buildEvent e \<Longrightarrow> portalEvent env e s = (None, s)"
  by (cases e) auto

section \<open>Messages and requests keep it\<close>

lemma supC_of_terminal:
  assumes "portal_inv env rg L s" "getSupCFromTerminalID dx tid s = Inr c"
  obtains ws where "reachable_for (peDialer env) L rg (dxUser dx) c ws"
    "getWSNameFromTerminalID tid \<in> {Inr (wsName ws), Inr (wsUid ws)}"
proof -
  note inv = portal_invD[OF assms(1)]
  from assms(2) obtain ws where *: "CheckTerminalID tid = None" "length (splitOn CHR ''-'' tid) = 2"
      "GetByNameOrUID (ptSup s) (splitOn CHR ''-'' tid ! 0) (Some (dxUser dx)) = Inr (ws, c)"
    by (auto simp: getSupCFromTerminalID_def Let_def split: option.splits if_splits sum.splits)
  from GetByNameOrUID_sound[OF inv(5) *(3)] inv(4)
  have "reachable_for (peDialer env) L rg (dxUser dx) c ws" by (auto simp: reachable_for_def)
  moreover from GetByNameOrUID_sound(2)[OF inv(5) *(3)] *(1,2)
  have "getWSNameFromTerminalID tid \<in> {Inr (wsName ws), Inr (wsUid ws)}"
    by (auto simp: getWSNameFromTerminalID_def Let_def)
  ultimately show thesis by (rule that)
qed

definition same_but_log :: "'c portal \<Rightarrow> 'c portal \<Rightarrow> bool" where
  "same_but_log s s' \<longleftrightarrow> ptCache s' = ptCache s \<and> ptRegion s' = ptRegion s \<and> ptSup s' = ptSup s
     \<and> ptTunnels s' = ptTunnels s"

lemma inv_same_but_log:
  assumes "portal_inv env rg L s" "same_but_log s s'" "distinct (map dxId (ptDctxs s'))"
    and "\<And>dx. dx \<in> set (ptDctxs s') \<Longrightarrow> term_ok (peDialer env) L rg dx"
  shows "portal_inv env rg L s'"
  using assms by (auto simp: portal_inv_def same_but_log_def)

lemma same_ids: "distinct (map dxId D) \<Longrightarrow> (\<And>x. dxId (f x) = dxId x) \<Longrightarrow> distinct (map dxId (map f D))"
  by (simp add: comp_def)

text \<open>What a message changes: the log, and the terminals of its own websocket.\<close>

lemma message_effect:
  assumes I: "portal_inv env rg L s" and dx: "dx \<in> set (ptDctxs s)"
  obtains f where "same_but_log s (snd (handleClientMsg env dx msg s))"
    "ptDctxs (snd (handleClientMsg env dx msg s)) = map f (ptDctxs s)"
    "\<And>x. dxId (f x) = dxId x" "\<And>x. dxId x \<noteq> dxId dx \<Longrightarrow> f x = x"
    "term_ok (peDialer env) L rg (f dx)"
proof -
  note D = portal_invD(7)[OF I dx] and result = that
  have idle: thesis if "snd (handleClientMsg env dx msg s) = s'" "same_but_log s s'"
      "ptDctxs s' = ptDctxs s" for s'
    by (rule result[of id]) (use that D in auto)
  let ?put = "\<lambda>f x. if dxId x = dxId dx then f x else x"
  have change: thesis if "snd (handleClientMsg env dx msg s) = s'" "same_but_log s s'"
      "ptDctxs s' = map (?put f) (ptDctxs s)" "\<And>x. dxId (f x) = dxId x"
      "term_ok (peDialer env) L rg (f dx)" for s' f
    by (rule result[of "?put f"]) (use that in auto)
  show thesis
  proof (cases msg)
    case (MsgListen tid)
    show ?thesis
    proof (cases "tid \<in> set (map tmId (dxTerminals dx))
        \<or> (\<exists>e. getSupCFromTerminalID dx tid s = Inl e)")
      case True
      with MsgListen show ?thesis
        by (intro idle[of s]) (auto simp: handleClientMsg_def retE_def bindE_def readE_def same_but_log_def)
    next
      case False
      then obtain c where c: "getSupCFromTerminalID dx tid s = Inr c" "tid \<notin> set (map tmId (dxTerminals dx))"
        by (cases "getSupCFromTerminalID dx tid s") auto
      obtain ws where ws: "reachable_for (peDialer env) L rg (dxUser dx) c ws"
        "getWSNameFromTerminalID tid \<in> {Inr (wsName ws), Inr (wsUid ws)}"
        by (rule supC_of_terminal[OF I c(1)])
      let ?add = "\<lambda>x. x\<lparr>dxTerminals := dxTerminals x @ [\<lparr>tmId = tid, tmClient = c\<rparr>]\<rparr>"
      from D ws have "term_ok (peDialer env) L rg (?add dx)" by (auto simp: term_ok_def)
      then show ?thesis
        using c MsgListen change[of _ ?add] idle
        by (cases "peReply env (ptCalls s) c (CallListen tid)")
          (auto simp: handleClientMsg_def retE_def bindE_def readE_def portalCall_def updateDctx_def
            portalActivity_def same_but_log_def)
    qed
  next
    case (MsgListenEnd tid)
    let ?del = "\<lambda>x. x\<lparr>dxTerminals := filter (\<lambda>t. tmId t \<noteq> tid) (dxTerminals x)\<rparr>"
    from D have "term_ok (peDialer env) L rg (?del dx)" by (auto simp: term_ok_def)
    with MsgListenEnd show ?thesis
      by (intro change[OF refl, of ?del]) (auto simp: handleClientMsg_def updateDctx_def same_but_log_def)
  qed (intro idle[OF refl]; auto simp: handleClientMsg_def retE_def bindE_def readE_def portalCall_def
      portalActivity_def same_but_log_def throw_if_def throwE_def split: sum.split)+
qed

lemma message_keeps:
  assumes I: "portal_inv env rg L s" and dx: "dx \<in> set (ptDctxs s)"
  shows "portal_inv env rg L (snd (handleClientMsg env dx msg s))"
proof (rule message_effect[OF I dx, of msg])
  fix f assume f: "same_but_log s (snd (handleClientMsg env dx msg s))"
    "ptDctxs (snd (handleClientMsg env dx msg s)) = map f (ptDctxs s)"
    "\<And>x. dxId (f x) = dxId x" "\<And>x. dxId x \<noteq> dxId dx \<Longrightarrow> f x = x"
    "term_ok (peDialer env) L rg (f dx)"
  note inv = portal_invD[OF I]
  show ?thesis
  proof (rule inv_same_but_log[OF I f(1)])
    show "distinct (map dxId (ptDctxs (snd (handleClientMsg env dx msg s))))"
      unfolding f(2) by (rule same_ids[OF inv(8) f(3)])
  next
    fix y assume "y \<in> set (ptDctxs (snd (handleClientMsg env dx msg s)))"
    then obtain x where x: "x \<in> set (ptDctxs s)" "y = f x" by (auto simp: f(2))
    show "term_ok (peDialer env) L rg y"
    proof (cases "dxId x = dxId dx")
      case True
      with inv(8) x(1) dx have "x = dx" by (auto simp: distinct_map dest: inj_onD)
      with x(2) f(5) show ?thesis by simp
    next
      case False
      with f(4) x inv(7) show ?thesis by simp
    qed
  qed
qed

text \<open>A request to a port leaves all but the tunnels, the key and the log alone.\<close>

lemma tun_ok_put: "tun_ok L T \<Longrightarrow> running L uid \<Longrightarrow> tun_ok L (T(uid \<mapsto> t))"
  by (auto simp: tun_ok_def)

definition tunnels_only :: "live \<Rightarrow> 'c portal \<Rightarrow> 'c portal \<Rightarrow> bool" where
  "tunnels_only L s s' \<longleftrightarrow> ptCache s' = ptCache s \<and> ptRegion s' = ptRegion s \<and> ptSup s' = ptSup s
     \<and> ptDctxs s' = ptDctxs s \<and> ptCalls s' = ptCalls s
     \<and> (tun_ok L (ptTunnels s) \<longrightarrow> tun_ok L (ptTunnels s'))"

lemma tunnels_only_refl [simp]: "tunnels_only L s s"
  by (simp add: tunnels_only_def)

lemma tunnels_only_trans: "tunnels_only L s s1 \<Longrightarrow> tunnels_only L s1 s2 \<Longrightarrow> tunnels_only L s s2"
  by (auto simp: tunnels_only_def)

lemma getOrInit_tunnels: "running L (wsUid ws) \<Longrightarrow> tunnels_only L s (snd (getOrInitTunCtx env ws s))"
  by (auto simp: getOrInitTunCtx_def initTunCtx_def getTunnelKey_def bindE_def checkE_def Let_def
      throwE_def retE_def tunnels_only_def intro!: tun_ok_put
      split: option.splits sum.splits prod.splits)

lemma getProxy_tunnels: "running L (wsUid ws) \<Longrightarrow> tunnels_only L s (snd (getProxy ws port s))"
  by (auto simp: getProxy_def tunnels_only_def intro!: tun_ok_put split: option.split)

section \<open>Who reaches a port\<close>

text \<open>
  Shared with everybody: of the entries for the application, the first with a mode is ALL.
\<close>

definition sharedWithAll :: "workspace \<Rightarrow> string \<Rightarrow> bool" where
  "sharedWithAll ws name \<longleftrightarrow> GetApplicationByName (spApplications (wsSpec ws)) name \<noteq> None
     \<and> (\<exists>pre sp post. stSharedPorts (wsStatus ws) = pre @ sp # post
          \<and> (\<forall>p\<in>set pre. spoApplicationName p = name \<longrightarrow> spoMode p = Share_UNSET)
          \<and> spoApplicationName sp = name \<and> spoMode sp = Share_ALL)"

lemma no_membership:
  assumes "cache_ok B L c" shows "boltGetMembership B c r usr = Inl ErrNotFound"
  using assms by (simp add: boltGetMembership_def fetchResource_def cache_ok_def bindS_def)

lemma canAccessShared_iff:
  assumes "cache_ok B L c"
  shows "canAccessShared B c apps spc name usr sps = Inr True \<longleftrightarrow>
     GetApplicationByName apps name \<noteq> None \<and> (\<exists>pre sp post. sps = pre @ sp # post
          \<and> (\<forall>p\<in>set pre. spoApplicationName p = name \<longrightarrow> spoMode p = Share_UNSET)
          \<and> spoApplicationName sp = name \<and> spoMode sp = Share_ALL)" (is "_ \<longleftrightarrow> ?P sps")
proof (induction sps)
  case Nil
  show ?case by simp
next
  case (Cons sp sps)
  have step: "?P (sp # sps) \<longleftrightarrow> GetApplicationByName apps name \<noteq> None
      \<and> (spoApplicationName sp = name \<and> spoMode sp = Share_ALL
         \<or> (spoApplicationName sp = name \<longrightarrow> spoMode sp = Share_UNSET) \<and> ?P sps)" (is "_ = ?Q")
  proof
    assume "?P (sp # sps)"
    then obtain pre x post where x: "sp # sps = pre @ x # post" "GetApplicationByName apps name \<noteq> None"
        "\<forall>p\<in>set pre. spoApplicationName p = name \<longrightarrow> spoMode p = Share_UNSET"
        "spoApplicationName x = name" "spoMode x = Share_ALL" by blast
    then show ?Q by (cases pre) auto
  next
    assume q: ?Q
    show "?P (sp # sps)"
    proof (cases "spoApplicationName sp = name \<and> spoMode sp = Share_ALL")
      case True
      with q show ?thesis by (metis append_Nil empty_iff empty_set)
    next
      case False
      with q obtain pre x post where "sps = pre @ x # post" "GetApplicationByName apps name \<noteq> None"
          "\<forall>p\<in>set pre. spoApplicationName p = name \<longrightarrow> spoMode p = Share_UNSET"
          "spoApplicationName x = name" "spoMode x = Share_ALL"
          "spoApplicationName sp = name \<longrightarrow> spoMode sp = Share_UNSET" by blast
      then show ?thesis by (intro conjI exI[of _ "sp # pre"] exI[of _ x] exI[of _ post]) auto
    qed
  qed
  show ?case unfolding step
    using Cons no_membership[OF assms]
    by (cases "spoMode sp"; cases spc) (auto simp: ErrNotFound_def)
qed

lemma canAccess_iff:
  assumes "cache_ok B L c"
  shows "canAccessSharedApplication B c ws name usr = Inr True \<longleftrightarrow> sharedWithAll ws name"
  unfolding canAccessSharedApplication_def canAccessShared_iff[OF assms] sharedWithAll_def by simp

definition portAllowed ::
  "('c, 'b) portal_env \<Rightarrow> object_ref \<Rightarrow> live \<Rightarrow> object_ref \<Rightarrow> regex_result \<Rightarrow> workspace \<Rightarrow> bool" where
  "portAllowed env rg L usr i ws \<longleftrightarrow> L (rrWorkspace i) = Some ws
     \<and> stateServed (peIsDev env) (wsState ws)
     \<and> (\<exists>r. stRegionRef (wsStatus ws) = Some r \<and> refUid r = refUid rg)
     \<and> stSessionRef (wsStatus ws) \<noteq> None \<and> \<not> stIsBuild (wsStatus ws)
     \<and> (\<exists>o'. stUserRef (wsStatus ws) = Some o'
          \<and> (refUid o' = refUid usr \<or> rrApplication i \<noteq> [] \<and> sharedWithAll ws (rrApplication i)))"

lemma stateServed_running: "stateServed d st \<Longrightarrow> \<not> IsStoppingOrStopped st"
  by (cases st) (auto simp: stateServed_def IsStoppingOrStopped_def)

text \<open>The part of the handler behind the checks.\<close>

definition passOn :: "('c, 'b) portal_env \<Rightarrow> regex_result \<Rightarrow> workspace \<Rightarrow> ('c portal, answer) io" where
  "passOn env i ws =
     orStatus 404 (liftE (getPort i ws)) (\<lambda>port.
     orStatus 500 (getOrInitTunCtx env ws) (\<lambda>_.
     bindE (getProxy ws port) (\<lambda>_.
     bindE (portalActivity (wsUid ws)) (\<lambda>_.
     retE (Proxied ws port)))))"

lemma orStatus_liftE:
  "orStatus n (liftE r) f s = (case r of
      Inl e \<Rightarrow> (case e of Panic p \<Rightarrow> (Inl (Panic p), s) | _ \<Rightarrow> (Inr (Status n), s)) | Inr a \<Rightarrow> f a s)"
  by (auto simp: orStatus_def bindE_def tryE_def liftE_def retE_def throwE_def split: sum.split err.split)

lemma orStatus_readE:
  "orStatus n (readE g) f s = (case g s of
      Inl e \<Rightarrow> (case e of Panic p \<Rightarrow> (Inl (Panic p), s) | _ \<Rightarrow> (Inr (Status n), s)) | Inr a \<Rightarrow> f a s)"
  by (auto simp: orStatus_def bindE_def tryE_def readE_def retE_def throwE_def split: sum.split err.split)

lemma bind_readE: "bindE (readE h) f s = (case h s of Inl e \<Rightarrow> (Inl e, s) | Inr x \<Rightarrow> f x s)"
  by (simp add: bindE_def readE_def split: sum.split)

lemma bind_deref_Some: "bindE (deref (Some x)) f s = f x s"
  by (simp add: bindE_def deref_def retE_def)

lemma orStatus_Inr: "m s = (Inr a, s1) \<Longrightarrow> orStatus n m f s = f a s1"
  by (simp add: orStatus_def bindE_def tryE_def)

lemma orStatus_Inl: "m s = (Inl e, s1) \<Longrightarrow> snd (orStatus n m f s) = s1"
  by (cases e) (simp_all add: orStatus_def bindE_def tryE_def retE_def throwE_def)

lemma orStatus_Inl_fst: "m s = (Inl e, s1) \<Longrightarrow> fst (orStatus n m f s) \<noteq> Inr (Proxied w p)"
  by (cases e) (simp_all add: orStatus_def bindE_def tryE_def retE_def throwE_def)

lemma bind_deref_None: "bindE (deref None) f s = (Inl (Panic ''nil''), s)"
  by (simp add: bindE_def deref_def throwE_def)

lemmas serve_steps = bind_deref_None statusIf_def orStatus_liftE orStatus_readE bind_readE bind_deref_Some

lemma mayAccess_iff:
  assumes "cache_ok (peBolt env) L (ptCache s)" "stUserRef (wsStatus ws) = Some o'"
  shows "mayAccess env i ws usr s = Inr True \<longleftrightarrow>
     refUid o' = refUid usr \<or> rrApplication i \<noteq> [] \<and> sharedWithAll ws (rrApplication i)"
  using canAccess_iff[OF assms(1)] assms(2) by (auto simp: mayAccess_def)

lemma tunnelServe_pass:
  assumes I: "portal_inv env rg L s" and u: "sessUserRef sess = Some usr"
    and i: "parseWorkspaceAppDomain (getForwardedHostPrefix host (peDomain env)) = Inr i"
    and a: "portAllowed env rg L usr i ws"
  shows "tunnelServe env (Some sess) host s = passOn env i ws s"
proof -
  note inv = portal_invD[OF I]
  from a obtain r o' ss where *: "L (rrWorkspace i) = Some ws" "stateServed (peIsDev env) (wsState ws)"
      "stRegionRef (wsStatus ws) = Some r" "refUid r = refUid rg" "stSessionRef (wsStatus ws) = Some ss"
      "\<not> stIsBuild (wsStatus ws)" "stUserRef (wsStatus ws) = Some o'"
      "refUid o' = refUid usr \<or> rrApplication i \<noteq> [] \<and> sharedWithAll ws (rrApplication i)"
    by (auto simp: portAllowed_def)
  from inv(2) *(1) have g: "boltGetWorkspace (peBolt env) (ptCache s) (rrWorkspace i) = Inr ws"
    by (simp add: cache_ok_def found_def)
  from *(8) mayAccess_iff[OF inv(2) *(7)] have m: "mayAccess env i ws usr s = Inr True" by simp
  from * u inv(3) show ?thesis
    by (simp add: tunnelServe_def passOn_def serve_steps i g m)
qed

lemma tunnelServe_stop:
  assumes I: "portal_inv env rg L s" and u: "sessUserRef sess = Some usr"
    and i: "parseWorkspaceAppDomain (getForwardedHostPrefix host (peDomain env)) = Inr i"
    and a: "\<nexists>ws. portAllowed env rg L usr i ws"
  shows "\<exists>r. tunnelServe env (Some sess) host s = (r, s) \<and> (\<forall>w p. r \<noteq> Inr (Proxied w p))"
proof (cases "L (rrWorkspace i)")
  case None
  with portal_invD(2)[OF I] have "boltGetWorkspace (peBolt env) (ptCache s) (rrWorkspace i) = Inl ErrNotFound"
    by (simp add: cache_ok_def found_def)
  then show ?thesis
    by (simp add: tunnelServe_def serve_steps i ErrNotFound_def)
next
  case (Some ws)
  note inv = portal_invD[OF I]
  from Some inv(2) have g: "boltGetWorkspace (peBolt env) (ptCache s) (rrWorkspace i) = Inr ws"
    by (simp add: cache_ok_def found_def)
  have m: "mayAccess env i ws usr s \<noteq> Inr True" if "stateServed (peIsDev env) (wsState ws)"
      "\<exists>r. stRegionRef (wsStatus ws) = Some r \<and> refUid r = refUid rg"
      "stSessionRef (wsStatus ws) \<noteq> None" "\<not> stIsBuild (wsStatus ws)" "stUserRef (wsStatus ws) \<noteq> None"
    using a that Some mayAccess_iff[OF inv(2)] by (auto simp: portAllowed_def)
  show ?thesis
  proof (cases "mayAccess env i ws usr s")
    case (Inl e)
    with Some inv(3) u m show ?thesis
      by (auto simp: tunnelServe_def serve_steps i g retE_def)
  next
    case (Inr ok)
    with Some inv(3) u m show ?thesis
      by (auto simp: tunnelServe_def serve_steps i g retE_def)
  qed
qed

lemma passOn_tunnels:
  assumes "running L (wsUid ws)"
  shows "tunnels_only L s (snd (passOn env i ws s))"
proof (cases "getPort i ws")
  case (Inl e)
  then show ?thesis by (cases e) (simp_all add: passOn_def orStatus_liftE)
next
  case (Inr port)
  let ?g = "getOrInitTunCtx env ws s"
  note t = getOrInit_tunnels[OF assms, of s env]
  show ?thesis
  proof (cases "fst ?g")
    case (Inl e)
    then obtain s1 where "?g = (Inl e, s1)" by (cases ?g) auto
    with t Inr orStatus_Inl[where m = "getOrInitTunCtx env ws", OF this] show ?thesis by (simp add: passOn_def orStatus_liftE)
  next
    case r: (Inr x)
    then obtain s1 where s1: "?g = (Inr x, s1)" by (cases ?g) auto
    obtain s2 where p: "getProxy ws port s1 = (Inr (), s2)"
      by (cases "ptTunnels s1 (wsUid ws)") (auto simp: getProxy_def)
    have "snd (passOn env i ws s) = s2\<lparr>ptActivity := ptActivity s2 @ [wsUid ws]\<rparr>"
      using Inr by (simp add: passOn_def orStatus_liftE
          orStatus_Inr[where m = "getOrInitTunCtx env ws", OF s1] bindE_def p portalActivity_def retE_def)
    moreover have "tunnels_only L s s2"
      using t s1 p getProxy_tunnels[OF assms, of s1 port] tunnels_only_trans[of L s s1 s2] by simp
    ultimately show ?thesis by (simp add: tunnels_only_def)
  qed
qed

lemma tunnelServe_cases:
  assumes I: "portal_inv env rg L s" and u: "sessUserRef sess = Some usr"
  obtains (pass) i ws where
      "parseWorkspaceAppDomain (getForwardedHostPrefix host (peDomain env)) = Inr i"
      "portAllowed env rg L usr i ws" "tunnelServe env (Some sess) host s = passOn env i ws s"
  | (stop) r where "tunnelServe env (Some sess) host s = (r, s)" "\<And>w p. r \<noteq> Inr (Proxied w p)"
      "\<And>i ws. parseWorkspaceAppDomain (getForwardedHostPrefix host (peDomain env)) = Inr i
         \<Longrightarrow> \<not> portAllowed env rg L usr i ws"
proof (cases "parseWorkspaceAppDomain (getForwardedHostPrefix host (peDomain env))")
  case (Inl e)
  then show ?thesis
    by (cases e; intro stop) (auto simp: tunnelServe_def serve_steps)
next
  case (Inr i)
  show ?thesis
  proof (cases "\<exists>ws. portAllowed env rg L usr i ws")
    case True
    then obtain ws where "portAllowed env rg L usr i ws" by blast
    with tunnelServe_pass[OF I u Inr] Inr show ?thesis by (intro pass)
  next
    case False
    with tunnelServe_stop[OF I u Inr] Inr show ?thesis by (metis stop sum.inject(2))
  qed
qed

lemma serve_keeps:
  assumes I: "portal_inv env rg L s"
  shows "portal_inv env rg L (snd (servePort env sessUid host s))"
proof (cases "getContext env sessUid")
  case (Inl e)
  with I show ?thesis by (simp add: servePort_def retE_def)
next
  case (Inr sess)
  note inv = portal_invD[OF I]
  have "tunnels_only L s (snd (tunnelServe env (Some sess) host s))"
  proof (cases "sessUserRef sess")
    case None
    have "snd (tunnelServe env (Some sess) host s) = s"
      using None by (simp add: tunnelServe_def serve_steps retE_def split: sum.split err.split)
    then show ?thesis by simp
  next
    case (Some usr)
    from I this show ?thesis
    proof (cases rule: tunnelServe_cases[where host = host])
      case (pass i ws)
      then have "running L (wsUid ws)"
        by (auto simp: portAllowed_def running_def dest: stateServed_running)
      with pass passOn_tunnels show ?thesis by simp
    qed auto
  qed
  with I Inr show ?thesis by (auto simp: servePort_def portal_inv_def tunnels_only_def)
qed

theorem portal_invariant:
  assumes "deps_ok env c0" "portal_run env c0 rg L s"
  shows "portal_inv env rg L s"
  using assms(2)
proof induction
  case start
  show ?case
    using assms(1) cm_inv_new
    by (auto simp: portal_inv_def newPortal_def NewSupervisorCtxMap_def tun_ok_def cache_ok_def
        deps_ok_def boltGetWorkspace_def fetchResource_def found_def bindS_def)
next
  case (event L s e)
  with event_keeps_portal[OF assms(1)] show ?case by blast
next
  case (build L s e)
  then show ?case by (simp add: build_ignored)
next
  case (connect L s sess u rand)
  then show ?case by (auto simp: portal_inv_def newDctx_def term_ok_def)
next
  case (disconnect L s i)
  then show ?case by (auto simp: portal_inv_def distinct_map_filter)
next
  case (message L s dx msg)
  with message_keeps show ?case by blast
next
  case (request L s sessUid host)
  with serve_keeps show ?case by blast
qed

section \<open>Theorems\<close>

lemma passOn_proxied:
  assumes r: "passOn env i w s = (Inr (Proxied w' p), s')"
  shows "w = w' \<and> getPort i w = Inr p"
proof (cases "getPort i w")
  case (Inl e)
  with r show ?thesis by (cases e) (simp_all add: passOn_def orStatus_liftE)
next
  case (Inr q)
  obtain x s1 where g: "getOrInitTunCtx env w s = (x, s1)" by (cases "getOrInitTunCtx env w s")
  show ?thesis
  proof (cases x)
    case (Inl e)
    have False
      using orStatus_Inl_fst[where m = "getOrInitTunCtx env w", OF g[unfolded Inl]]
        arg_cong[OF r, of fst] Inr
      by (simp add: passOn_def orStatus_liftE)
    then show ?thesis ..
  next
    case (Inr t)
    with r \<open>getPort i w = Inr q\<close> orStatus_Inr[where m = "getOrInitTunCtx env w", OF g[unfolded Inr]]
    show ?thesis
      by (auto simp: passOn_def orStatus_liftE bindE_def getProxy_def portalActivity_def retE_def
          split: option.splits)
  qed
qed

lemma portAllowed_unique: "portAllowed env rg L usr i ws \<Longrightarrow> portAllowed env rg L usr i w \<Longrightarrow> ws = w"
  by (simp add: portAllowed_def)

text \<open>
  C10: A request is passed to a port exactly when it comes from a clientless session, names (in the
  form the parser accepts) a Workspace that is running or preparing in this Region with a
  session, and its user owns it or the named application is shared with everybody; the port is
  the one of the request. The tunnel is assumed to come up.
\<close>

theorem port_access_exact:
  assumes "deps_ok env c0" and "portal_run env c0 rg L s"
    and "getContext env sessUid = Inr sess" and "sessUserRef sess = Some usr"
    and "peFetchKey env = Inr k" and "\<And>ws k. peNewTunnel env ws k = None"
  shows "(\<exists>s'. servePort env sessUid host s = (Inr (Proxied ws port), s')) \<longleftrightarrow>
     (\<exists>i. parseWorkspaceAppDomain (getForwardedHostPrefix host (peDomain env)) = Inr i
        \<and> portAllowed env rg L usr i ws \<and> getPort i ws = Inr port)" (is "?l \<longleftrightarrow> ?r")
proof -
  have serve: "servePort env sessUid host s = tunnelServe env (Some sess) host s"
    using assms(3) by (simp add: servePort_def)
  have reach: "\<exists>s'. passOn env i w s = (Inr (Proxied w p), s')" if "getPort i w = Inr p" for i w p
  proof -
    have "\<exists>t s1. getOrInitTunCtx env w s = (Inr t, s1)"
      using assms(5,6) by (auto simp: getOrInitTunCtx_def initTunCtx_def getTunnelKey_def bindE_def
          checkE_def retE_def Let_def split: option.split)
    then obtain t s1 where "getOrInitTunCtx env w s = (Inr t, s1)" by blast
    from orStatus_Inr[where m = "getOrInitTunCtx env w", OF this] that show ?thesis
      by (auto simp: passOn_def orStatus_liftE bindE_def getProxy_def portalActivity_def retE_def
          split: option.split)
  qed
  from portal_invariant[OF assms(1,2)] assms(4) show ?thesis unfolding serve
  proof (cases rule: tunnelServe_cases[where host = host])
    case (pass i w)
    have "(\<exists>s'. passOn env i w s = (Inr (Proxied ws port), s')) \<longleftrightarrow> ws = w \<and> getPort i w = Inr port"
      using reach[of i w port] passOn_proxied[of env i w s ws port] by blast
    with pass portAllowed_unique[of env rg L usr i ws w]
    show "(\<exists>s'. tunnelServe env (Some sess) host s = (Inr (Proxied ws port), s')) = ?r" by auto
  next
    case (stop r)
    then show "(\<exists>s'. tunnelServe env (Some sess) host s = (Inr (Proxied ws port), s')) = ?r" by auto
  qed
qed

text \<open>
  C40: Nothing ever puts a Membership into the portal's cache, so sharing an application with the
  members of a Space gives nobody access to it: whoever reaches a port is the owner of the
  Workspace or uses an application that is shared with everybody.
\<close>

theorem members_sharing_ineffective:
  assumes "deps_ok env c0" and "portal_run env c0 rg L s"
    and "servePort env sessUid host s = (Inr (Proxied ws port), s')"
  shows "\<exists>sess usr o' i. getContext env sessUid = Inr sess \<and> sessUserRef sess = Some usr
     \<and> stUserRef (wsStatus ws) = Some o'
     \<and> parseWorkspaceAppDomain (getForwardedHostPrefix host (peDomain env)) = Inr i
     \<and> (refUid o' = refUid usr \<or> sharedWithAll ws (rrApplication i))"
proof -
  from assms(3) obtain sess where c: "getContext env sessUid = Inr sess"
    by (auto simp: servePort_def retE_def split: sum.splits)
  with assms(3) have t: "tunnelServe env (Some sess) host s = (Inr (Proxied ws port), s')"
    by (simp add: servePort_def)
  show ?thesis
  proof (cases "sessUserRef sess")
    case None
    with t show ?thesis by (simp add: tunnelServe_def serve_steps retE_def split: sum.splits err.splits if_splits)
  next
    case (Some usr)
    from portal_invariant[OF assms(1,2)] Some show ?thesis
    proof (cases rule: tunnelServe_cases[where host = host])
      case (pass i w)
      from t have "w = ws" unfolding pass(3) by (auto dest: passOn_proxied)
      with pass Some c show ?thesis by (auto simp: portAllowed_def)
    next
      case (stop r)
      with t show ?thesis by auto
    qed
  qed
qed

text \<open>C12: A tunnel or a terminal listener never outlives the run of its Workspace.\<close>

theorem nothing_outlives_a_run:
  assumes "deps_ok env c0" and "portal_run env c0 rg L s"
  shows "(ptTunnels s uid \<noteq> None \<longrightarrow> running L uid)
     \<and> (\<forall>dx\<in>set (ptDctxs s). \<forall>t\<in>set (dxTerminals dx).
          \<exists>ws. reachable_for (peDialer env) L rg (dxUser dx) (tmClient t) ws)"
  using portal_invD(6,7)[OF portal_invariant[OF assms]] by (fastforce simp: tun_ok_def term_ok_def domIff)

definition own_calls ::
  "('c, 'b) portal_env \<Rightarrow> object_ref \<Rightarrow> live \<Rightarrow> dctx \<Rightarrow> 'c portal \<Rightarrow> 'c portal \<Rightarrow> bool" where
  "own_calls env rg L dx s s' \<longleftrightarrow> ptCalls s' = ptCalls s
     \<or> (\<exists>c t ws. ptCalls s' = ptCalls s @ [(c, t)]
          \<and> reachable_for (peDialer env) L rg (dxUser dx) c ws)"

lemma own_calls_via:
  assumes I: "portal_inv env rg L s" and f: "\<And>c x s1. ptCalls (snd (f c x s1)) = ptCalls s1"
  shows "own_calls env rg L dx s (snd (bindE (readE (getSupCFromTerminalID dx tid))
     (\<lambda>c. bindE (portalCall env c t) (f c)) s))"
proof (cases "getSupCFromTerminalID dx tid s")
  case (Inl e)
  then show ?thesis by (simp add: bindE_def readE_def own_calls_def)
next
  case (Inr c)
  with f have "ptCalls (snd (bindE (readE (getSupCFromTerminalID dx tid))
      (\<lambda>c. bindE (portalCall env c t) (f c)) s)) = ptCalls s @ [(c, t)]"
    by (simp add: bindE_def readE_def portalCall_def split: sum.split)
  with supC_of_terminal[OF I Inr] show ?thesis unfolding own_calls_def by blast
qed

lemma own_calls_same: "ptCalls s' = ptCalls s \<Longrightarrow> own_calls env rg L dx s s'"
  by (simp add: own_calls_def)

text \<open>C39: A message of a websocket reaches only supervisors of its user's own Workspaces.\<close>

theorem websocket_calls_own:
  assumes "deps_ok env c0" and "portal_run env c0 rg L s"
  shows "own_calls env rg L dx s (snd (handleClientMsg env dx msg s))"
proof (cases msg)
  note via = own_calls_via[OF portal_invariant[OF assms]]
  {
    case (MsgSetWindowSize tid cols rows)
    show ?thesis unfolding handleClientMsg_def MsgSetWindowSize client_msg.case
      by (rule via) (simp add: portalActivity_def)
  next
    case (MsgWriteData tid data)
    have "throw_if (6000 < length data) e s = (Inl e, s) \<or> throw_if (6000 < length data) e s = (Inr (), s)" for e
      by (simp add: throw_if_def throwE_def retE_def)
    with via[of "\<lambda>c _. portalActivity (scUid c)" dx tid "CallWrite tid data"] MsgWriteData show ?thesis
      by (auto simp: handleClientMsg_def retE_def throw_if_def throwE_def bindE_def[of "Pair _"]
          portalActivity_def own_calls_same)
  next
    case (MsgListen tid)
    show ?thesis
    proof (cases "tid \<in> set (map tmId (dxTerminals dx))")
      case False
      show ?thesis unfolding handleClientMsg_def MsgListen client_msg.case if_not_P[OF False]
        by (rule via) (simp add: portalActivity_def updateDctx_def bindE_def)
    qed (use MsgListen in \<open>simp add: handleClientMsg_def retE_def own_calls_same\<close>)
  next
    case (MsgListenEnd tid)
    then show ?thesis by (simp add: handleClientMsg_def updateDctx_def own_calls_same)
  next
    case MsgUnknown
    then show ?thesis by (simp add: handleClientMsg_def retE_def own_calls_same)
  }
qed

end
