(* ===== verification/Access_Witnesses.thy ===== *)
theory Access_Witnesses
  imports Portal_Invariant
begin

text \<open>
  The services that give access to Workspaces, run on an in-memory cluster: one running
  Workspace of Alice, whose application \<open>web\<close> is shared with everybody and whose application
  \<open>db\<close> is shared with the members of its Space.
\<close>

section \<open>The cluster\<close>

definition myRegion :: object_ref where
  "myRegion = \<lparr>refUid = ''r-1'', refName = ''default''\<rparr>"

definition aliceRef :: object_ref where
  "aliceRef = \<lparr>refUid = ''u-alice'', refName = ''alice''\<rparr>"

definition bobRef :: object_ref where
  "bobRef = \<lparr>refUid = ''u-bob'', refName = ''bob''\<rparr>"

definition boxNamed :: "ws_state \<Rightarrow> workspace" where
  "boxNamed st = \<lparr>wsMetadata = emptyMetadata\<lparr>mdUid := ''w-1'', mdName := ''abc''\<rparr>,
     wsSpec = emptySpec\<lparr>spApplications :=
       [\<lparr>appName = ''web'', appDisplayName = [], appPort = 3000, appIsDefault = True\<rparr>,
        \<lparr>appName = ''db'', appDisplayName = [], appPort = 5432, appIsDefault = False\<rparr>]\<rparr>,
     wsStatus = emptyStatus\<lparr>stState := st, stUserRef := Some aliceRef, stRegionRef := Some myRegion,
       stSpaceRef := Some \<lparr>refUid = ''s-1'', refName = ''eng''\<rparr>,
       stSessionRef := Some \<lparr>refUid = ''sess-1'', refName = ''sess''\<rparr>,
       stSharedPorts := [\<lparr>spoMode = Share_ALL, spoApplicationName = ''web''\<rparr>,
                         \<lparr>spoMode = Share_MEMBERS, spoApplicationName = ''db''\<rparr>]\<rparr>\<rparr>"

definition runBox :: workspace where "runBox = boxNamed RUNNING"

definition sessionOf :: "object_ref \<Rightarrow> session" where
  "sessionOf u = \<lparr>sessMetadata = emptyMetadata\<lparr>mdUid := ''sess-'' @ refName u, mdName := refName u\<rparr>,
     sessUserRef = Some u\<rparr>"

definition memDialer :: dialer where
  "memDialer = \<lparr>dlIsTest = False, dlNewClient = (\<lambda>_. None), dlClose = (\<lambda>_. None)\<rparr>"

definition boxLive :: live where "boxLive = [''abc'' \<mapsto> runBox]"

lemma box_simps [simp]:
  "wsName runBox = ''abc''" "wsUid runBox = ''w-1''" "stUserRef (wsStatus runBox) = Some aliceRef"
  "stRegionRef (wsStatus runBox) = Some myRegion" "wsState runBox = RUNNING"
  "stIsBuild (wsStatus runBox) = False"
  "stSessionRef (wsStatus runBox) = Some \<lparr>refUid = ''sess-1'', refName = ''sess''\<rparr>"
  "stSpaceRef (wsStatus runBox) = Some \<lparr>refUid = ''s-1'', refName = ''eng''\<rparr>"
  by (simp_all add: runBox_def boxNamed_def emptyStatus_def)

lemma box_watch: "watch_ok Map.empty (WsAdded runBox)" "live_step (WsAdded runBox) Map.empty = boxLive"
  by (simp_all add: freshWs_def boxLive_def IsActive_def)

section \<open>The Workspace service\<close>

definition wrksEnv :: "object_ref \<Rightarrow> wrks_env" where
  "wrksEnv u = \<lparr>weUserCtx = Inr \<lparr>ictxUser = \<lparr>usrMetadata = emptyMetadata, usrEmail = []\<rparr>, ictxSessionUserRef = u\<rparr>,
     weCheckObjectRef = (\<lambda>_. None), weCheckGetOptions = (\<lambda>_. None),
     weToGetOptions = (\<lambda>r. case r of None \<Rightarrow> Inl (Panic ''nil'') | Some r \<Rightarrow> Inr (byRef r)),
     weIsCanceled = (\<lambda>_. False), weReply = (\<lambda>_ _ _. Inr ReplyDone)\<rparr>"

definition boxWrks :: wrks where
  "boxWrks = (newWrks myRegion)\<lparr>wkMap := snd (wsCtlEvent memDialer myRegion (WsAdded runBox)
     (NewSupervisorCtxMap myRegion))\<rparr>"

lemma boxWrks_run: "wrks_run memDialer myRegion boxLive boxWrks"
  using wrks_run.event[OF wrks_run.start box_watch(1), of memDialer myRegion] box_watch(2)
  by (simp add: boxWrks_def newWrks_def)

lemma terminal_calls_authorised_witness:
  "\<exists>c t. wkCalls (snd (serve (wrksEnv aliceRef) (RqWriteTerminalData ''abc-wxyz'' ''ls'') boxWrks)) = [(c, t)]
     \<and> call_ok (wrksEnv aliceRef) memDialer boxLive myRegion c t"
proof -
  let ?r = "serve (wrksEnv aliceRef) (RqWriteTerminalData ''abc-wxyz'' ''ls'') boxWrks"
  have calls: "length (wkCalls (snd ?r)) = 1" "wkCalls boxWrks = []" by code_simp+
  then have "wkCalls (snd ?r) \<noteq> wkCalls boxWrks" by auto
  from terminal_calls_authorised[OF boxWrks_run prod.collapse[symmetric] this] calls(2)
  show ?thesis by auto
qed

lemma getSupC_exact_witness:
  "getSupC (wrksEnv aliceRef) (byName ''w-1'') boxWrks = (Inr (clientOf memDialer runBox), boxWrks)
   \<and> getSupC (wrksEnv bobRef) (byName ''w-1'') boxWrks \<noteq> (Inr (clientOf memDialer runBox), boxWrks)"
proof -
  have *: "getSupC (wrksEnv u) (byName ''w-1'') boxWrks = (Inr (clientOf memDialer runBox), boxWrks) \<longleftrightarrow>
     (\<exists>ws. reachable_for memDialer boxLive myRegion u (clientOf memDialer runBox) ws
        \<and> ''w-1'' \<in> {wsName ws, wsUid ws} \<and> IsPreparingOrRunning (wsState ws))" for u
    by (subst getSupC_exact[OF boxWrks_run, where i = "\<lparr>ictxUser = \<lparr>usrMetadata = emptyMetadata, usrEmail = []\<rparr>, ictxSessionUserRef = u\<rparr>"])
      (simp_all add: wrksEnv_def memDialer_def)
  have "reachable_for memDialer boxLive myRegion aliceRef (clientOf memDialer runBox) runBox"
    by (simp add: reachable_for_def boxLive_def servable_def IsStoppingOrStopped_def)
  then have "\<exists>ws. reachable_for memDialer boxLive myRegion aliceRef (clientOf memDialer runBox) ws
        \<and> ''w-1'' \<in> {wsName ws, wsUid ws} \<and> IsPreparingOrRunning (wsState ws)"
    by (intro exI[of _ runBox]) simp
  moreover have "\<not> (\<exists>ws. reachable_for memDialer boxLive myRegion bobRef (clientOf memDialer runBox) ws
        \<and> ''w-1'' \<in> {wsName ws, wsUid ws} \<and> IsPreparingOrRunning (wsState ws))"
    by (auto simp: reachable_for_def boxLive_def aliceRef_def bobRef_def split: if_splits)
  ultimately show ?thesis unfolding * by blast
qed

section \<open>SSH\<close>

definition memKv :: "(string \<Rightarrow> cached option) kv" where
  "memKv = \<lparr>kvSet = (\<lambda>c k v. c(k \<mapsto> v)), kvGet = (\<lambda>c. c), kvDelete = (\<lambda>c k. c(k := None)),
     kvKindSession = ''Session''\<rparr>"

lemma memKv_laws: "kv_laws memKv" "kvGet memKv Map.empty k = None"
  by (simp_all add: kv_laws_def memKv_def)

definition engAuth :: "bool \<Rightarrow> auth_space" where
  "engAuth off = \<lparr>spcMetadata = emptyMetadata\<lparr>mdUid := ''s-1'', mdName := ''eng''\<rparr>,
     spcSpec = \<lparr>ssLimit = None, ssRuntime = None\<rparr>, spcUserRef = None, spcType = Space_ORGANIZATION,
     aspAuthorization = Some off\<rparr>"

definition boxSession :: live_session where
  "boxSession = \<lparr>sessMetadata = emptyMetadata\<lparr>mdUid := ''sess-1''\<rparr>, sessUserRef = Some aliceRef,
     lsConnection = Some \<lparr>conESSHEnable = True, conEd25519PublicKey = ''key''\<rparr>\<rparr>"

definition boxEvents :: "bool \<Rightarrow> vigil_event list" where
  "boxEvents off = [VgWorkspace (WsAdded runBox), VgSetSpace (engAuth off), VgSetSession boxSession]"

definition boxView :: "bool \<Rightarrow> view" where
  "boxView off = fold viewStep (boxEvents off) emptyView"

definition boxVigil :: "bool \<Rightarrow> (string \<Rightarrow> cached option) vigil" where
  "boxVigil off = \<lparr>vgRegion = myRegion, vgCache = fold (vigilStep memKv) (boxEvents off) Map.empty,
     vgActivity = []\<rparr>"

lemma boxVigil_run: "vigil_run memKv Map.empty myRegion (boxView off) (boxVigil off)"
proof -
  have "vigil_run memKv Map.empty myRegion (fold viewStep es v) (s\<lparr>vgCache := fold (vigilStep memKv) es (vgCache s)\<rparr>)"
    if "vigil_run memKv Map.empty myRegion v s" for es v s
    using that
  proof (induction es arbitrary: v s)
    case (Cons e es)
    from Cons.IH[OF vigil_run.event[OF Cons.prems, of e]] show ?case by simp
  qed simp
  from this[OF vigil_run.start, of "boxEvents off"] show ?thesis by (simp add: boxView_def boxVigil_def)
qed

definition aliceUser :: user where
  "aliceUser = \<lparr>usrMetadata = emptyMetadata\<lparr>mdUid := ''u-alice''\<rparr>, usrEmail = []\<rparr>"

lemma box_ssh:
  "sshAllowed (boxView off) myRegion ''abc'' ''u-alice'' ws \<longleftrightarrow> ws = runBox \<and> \<not> off"
  by (auto simp: sshAllowed_def boxView_def boxEvents_def emptyView_def aliceRef_def engAuth_def)

lemma ssh_access_exact_witness:
  "fst (doPostAuthorize memKv (sshQuery ''abc'' aliceUser (sessionOf aliceRef)) (boxVigil False)) = Inr True
   \<and> fst (doPostAuthorize memKv (sshQuery ''abc'' aliceUser (sessionOf aliceRef)) (boxVigil True)) = Inr False"
  unfolding ssh_access_exact[OF memKv_laws boxVigil_run]
  by (simp add: aliceUser_def box_ssh)

lemma ssh_upstream_of_owner_witness:
  "\<exists>ws up. sshAllowed (boxView False) myRegion ''abc'' ''u-alice'' ws
     \<and> doGetUpstream memKv memDialer (Some (Some (SshRequest (Some ''abc'')))) (boxVigil False) = Inr up
     \<and> upHostPort up = JoinHostPort (GetWorkspaceSupHost memDialer ws) ''2022''"
proof -
  have "\<not> isl (doGetUpstream memKv memDialer (Some (Some (SshRequest (Some ''abc'')))) (boxVigil False))"
    by code_simp
  then obtain up where u: "doGetUpstream memKv memDialer (Some (Some (SshRequest (Some ''abc'')))) (boxVigil False) = Inr up"
    using sum.collapse(2) by metis
  have "fst (doPostAuthorize memKv (sshQuery ''abc'' aliceUser (sessionOf aliceRef)) (boxVigil False)) = Inr True"
    by code_simp
  from ssh_upstream_of_owner[OF memKv_laws boxVigil_run this u] u show ?thesis
    by (auto simp: aliceUser_def)
qed

section \<open>The portal\<close>

definition memBolt :: "(string \<Rightarrow> string \<Rightarrow> cached option, cached) bolt" where
  "memBolt = \<lparr>btPut = (\<lambda>c k j v. if j = [] then Inl (Errorf ''key required'') else Inr (c(k := (c k)(j \<mapsto> v)))),
     btGet = (\<lambda>c k j. c k j), btDelete = (\<lambda>c k j. Inr (c(k := (c k)(j := None)))),
     pbMarshal = Inr, pbUnmarshal = (\<lambda>b k. Inr b)\<rparr>"

definition portalEnv :: "((string \<Rightarrow> string \<Rightarrow> cached option), cached) portal_env" where
  "portalEnv = \<lparr>peBolt = memBolt, peDialer = memDialer, peIsDev = False, peDomain = ''example.com'',
     peGetSession = (\<lambda>u. if u = ''sess-alice'' then Inr (sessionOf aliceRef)
                         else if u = ''sess-bob'' then Inr (sessionOf bobRef)
                         else Inl (ExtErr 5 ''not found'')),
     peIsClientless = (\<lambda>_. True), peFetchKey = Inr ''key'', peNewTunnel = (\<lambda>_ _. None),
     peReply = (\<lambda>_ _ _. Inr ReplyDone)\<rparr>"

abbreviation noCache :: "string \<Rightarrow> string \<Rightarrow> cached option" where
  "noCache \<equiv> \<lambda>_ _. None"

lemma portalEnv_ok: "deps_ok portalEnv noCache"
  by (simp add: deps_ok_def bolt_laws_def portalEnv_def memBolt_def memDialer_def)

definition boxPortal :: "(string \<Rightarrow> string \<Rightarrow> cached option) portal" where
  "boxPortal = snd (portalEvent portalEnv (WsAdded runBox) (newPortal myRegion noCache))"

lemma boxPortal_run: "portal_run portalEnv noCache myRegion boxLive boxPortal"
  using portal_run.event[OF portal_run.start, of "WsAdded runBox" portalEnv noCache myRegion] box_watch
  by (simp add: boxPortal_def)

lemma portal_sessions:
  "getContext portalEnv ''sess-alice'' = Inr (sessionOf aliceRef)"
  "getContext portalEnv ''sess-bob'' = Inr (sessionOf bobRef)"
  "sessUserRef (sessionOf u) = Some u"
  by (simp_all add: getContext_def portalEnv_def bindS_def sessionOf_def)

text \<open>Bob reaches \<open>web\<close>, which is shared with everybody, on its port; Alice reaches all ports.\<close>

lemma port_access_exact_witness:
  "\<exists>s'. servePort portalEnv ''sess-bob'' ''web_abc.cordium.example.com'' boxPortal = (Inr (Proxied runBox 3000), s')"
proof -
  let ?i = "\<lparr>rrWorkspace = ''abc'', rrPort = 0, rrSvc = ''cordium'', rrNs = ''default'', rrApplication = ''web''\<rparr>"
  have p: "parseWorkspaceAppDomain (getForwardedHostPrefix ''web_abc.cordium.example.com'' (peDomain portalEnv)) = Inr ?i"
    by code_simp
  have "sharedWithAll runBox ''web''"
    unfolding sharedWithAll_def
    by (intro conjI exI[of _ "[]"] exI[of _ "\<lparr>spoMode = Share_ALL, spoApplicationName = ''web''\<rparr>"]
        exI[of _ "[\<lparr>spoMode = Share_MEMBERS, spoApplicationName = ''db''\<rparr>]"])
      (simp_all add: runBox_def boxNamed_def)
  then have "portAllowed portalEnv myRegion boxLive bobRef ?i runBox"
    by (simp add: portAllowed_def boxLive_def stateServed_def)
  moreover have "getPort ?i runBox = Inr 3000" by code_simp
  moreover have "peFetchKey portalEnv = Inr ''key''" "peNewTunnel portalEnv w k = None" for w k
    by (simp_all add: portalEnv_def)
  ultimately show ?thesis
    using p by (subst port_access_exact[OF portalEnv_ok boxPortal_run portal_sessions(2,3)]) auto
qed

text \<open>Bob is refused \<open>db\<close>, whatever Spaces he is a member of.\<close>

lemma members_sharing_ineffective_witness:
  "\<nexists>s'. servePort portalEnv ''sess-bob'' ''db_abc.cordium.example.com'' boxPortal = (Inr (Proxied runBox 5432), s')"
proof
  let ?i = "\<lparr>rrWorkspace = ''abc'', rrPort = 0, rrSvc = ''cordium'', rrNs = ''default'', rrApplication = ''db''\<rparr>"
  have p: "parseWorkspaceAppDomain (getForwardedHostPrefix ''db_abc.cordium.example.com'' (peDomain portalEnv)) = Inr ?i"
    by code_simp
  assume "\<exists>s'. servePort portalEnv ''sess-bob'' ''db_abc.cordium.example.com'' boxPortal = (Inr (Proxied runBox 5432), s')"
  then obtain s' where "servePort portalEnv ''sess-bob'' ''db_abc.cordium.example.com'' boxPortal = (Inr (Proxied runBox 5432), s')" ..
  from members_sharing_ineffective[OF portalEnv_ok boxPortal_run this]
  have "sharedWithAll runBox ''db''"
    by (auto simp: p portal_sessions aliceRef_def bobRef_def)
  then show False
    by (auto simp: sharedWithAll_def runBox_def boxNamed_def append_eq_Cons_conv Cons_eq_append_conv)
qed

lemma domain_roundtrip_witness:
  "parseWorkspaceAppDomain ''port_8080_abc.cordium_dev'' =
     Inr \<lparr>rrWorkspace = ''abc'', rrPort = 8080, rrSvc = ''cordium'', rrNs = ''dev'', rrApplication = []\<rparr>"
proof -
  have name: "domainName (ToPort 8080) ''abc'' ''cordium'' (Some (CHR ''_'', ''dev'')) = ''port_8080_abc.cordium_dev''"
    by code_simp
  have "targetOK (ToPort 8080)" "labelWord ''abc''" "rightOK ''cordium'' (Some (CHR ''_'', ''dev''))"
    by (simp, code_simp) (simp add: rightOK_def svcSep_def svcLabel_def, code_simp)
  from domain_roundtrip[OF this] show ?thesis unfolding name by (simp add: domainResult_def)
qed

lemma parsed_domain_denotes_witness:
  "\<exists>r. parseWorkspaceAppDomain ''port_080_abc.cordium'' = Inr r \<and> denotes ''port_080_abc.cordium'' r"
proof -
  have "parseWorkspaceAppDomain ''port_080_abc.cordium'' =
     Inr \<lparr>rrWorkspace = ''abc'', rrPort = 80, rrSvc = ''cordium'', rrNs = ''default'', rrApplication = []\<rparr>"
    by code_simp
  with parsed_domain_denotes[OF this] show ?thesis by blast
qed

text \<open>Alice listens to a terminal of her Workspace.\<close>

definition boxListening :: "(string \<Rightarrow> string \<Rightarrow> cached option) portal" where
  "boxListening = boxPortal\<lparr>ptDctxs := ptDctxs boxPortal @ [newDctx ''rand'' (sessionOf aliceRef) aliceRef]\<rparr>"

lemma boxListening_run: "portal_run portalEnv noCache myRegion boxLive boxListening"
proof -
  have "ptDctxs boxPortal = []" by code_simp
  then show ?thesis
    using portal_run.connect[OF boxPortal_run portal_sessions(3)[of aliceRef], of "''rand''"]
    by (simp add: boxListening_def)
qed

lemma websocket_calls_own_witness:
  "own_calls portalEnv myRegion boxLive (newDctx ''rand'' (sessionOf aliceRef) aliceRef) boxListening
     (snd (handleClientMsg portalEnv (newDctx ''rand'' (sessionOf aliceRef) aliceRef) (MsgListen ''abc-wxyz'') boxListening))
   \<and> length (ptCalls (snd (handleClientMsg portalEnv (newDctx ''rand'' (sessionOf aliceRef) aliceRef) (MsgListen ''abc-wxyz'') boxListening))) = 1"
  using websocket_calls_own[OF portalEnv_ok boxListening_run] by (rule conjI) code_simp

definition boxTerminal :: "(string \<Rightarrow> string \<Rightarrow> cached option) portal" where
  "boxTerminal = snd (servePort portalEnv ''sess-alice'' ''abc.cordium.example.com''
     (snd (handleClientMsg portalEnv (newDctx ''rand'' (sessionOf aliceRef) aliceRef) (MsgListen ''abc-wxyz'') boxListening)))"

lemma boxTerminal_run: "portal_run portalEnv noCache myRegion boxLive boxTerminal"
  unfolding boxTerminal_def
  by (rule portal_run.request, rule portal_run.message[OF boxListening_run]) (simp add: boxListening_def)

lemma nothing_outlives_a_run_witness:
  "ptTunnels boxTerminal ''w-1'' \<noteq> None \<and> running boxLive ''w-1''"
proof -
  have "\<not> Option.is_none (ptTunnels boxTerminal ''w-1'')" by code_simp
  then have "ptTunnels boxTerminal ''w-1'' \<noteq> None" by (simp add: Option.is_none_def)
  with nothing_outlives_a_run[OF portalEnv_ok boxTerminal_run, of "''w-1''"] show ?thesis by simp
qed

end
