(* ===== verification/Sup_Network.thy ===== *)
theory Sup_Network
  imports Nft_Semantics Resource_Helpers
begin

text \<open>
  The egress policy of a running Workspace, \<open>cluster/supervisor/supervisor/network.go\<close>: the outer
  supervisor listens on a socket, compiles the policy it is asked for and runs it through
  \<open>nft\<close>; the inner one asks for it before it starts the container. The package \<open>netlink\<close>, JSON, the
  marshalling of messages, the socket and \<open>nft\<close> are parameters.
\<close>

section \<open>The addresses of the pod (preinit.go, network.go)\<close>

record net_route =
  nrtDst :: "string option"
  nrtHasSrc :: bool
  nrtLink :: int
  nrtGw :: "string option"

record 'k net_env =
  neUID :: int
  neIsTest :: bool
  neRouteList :: "err + net_route list"
  neLinkByIndex :: "int \<Rightarrow> err + int"
  neAddrList :: "int \<Rightarrow> err + string list"
  neMarshal :: "network \<Rightarrow> err + string"
  neUnmarshal :: "string \<Rightarrow> err + network"
  neEncodeReq :: "string \<Rightarrow> string"
  neDecodeReq :: "string \<Rightarrow> err + string"
  neEncodeResp :: "string \<Rightarrow> string"
  neDecodeResp :: "string \<Rightarrow> err + string"
  neErrString :: "err \<Rightarrow> string"
  neFile :: "string \<Rightarrow> err option"
  neSocket :: "string \<Rightarrow> err option"
  neRunNft :: "string \<Rightarrow> 'k \<Rightarrow> err option \<times> 'k"

definition isDefaultRoute :: "net_route \<Rightarrow> bool" where
  "isDefaultRoute r \<longleftrightarrow>
     (nrtDst r = None \<or> nrtDst r = Some ''0.0.0.0/0'' \<or> nrtDst r = Some ''::/0'') \<and> \<not> nrtHasSrc r"

definition getDefaultRoute :: "'k net_env \<Rightarrow> err + net_route" where
  "getDefaultRoute env =
     bindS (neRouteList env) (\<lambda>rs.
     case List.find isDefaultRoute rs of
       Some r \<Rightarrow> Inr r
     | None \<Rightarrow> Inl (Errorf ''Could not find default interface''))"

definition getDefaultIface :: "'k net_env \<Rightarrow> err + int" where
  "getDefaultIface env = bindS (getDefaultRoute env) (\<lambda>r. neLinkByIndex env (nrtLink r))"

text \<open>\<open>netip.AddrFromSlice\<close> and \<open>Unmap\<close>: four bytes are an IPv4 address, sixteen an IPv6 one.\<close>

definition bytesVal :: "string \<Rightarrow> nat" where
  "bytesVal bs = foldl (\<lambda>a b. 256 * a + of_char b) 0 bs"

definition AddrFromSlice :: "string \<Rightarrow> addr option" where
  "AddrFromSlice bs =
     (if length bs = 4 then Some (V4 (of_nat (bytesVal bs)))
      else if length bs = 16 then Some (V6 (of_nat (bytesVal bs)))
      else None)"

fun Unmap :: "addr \<Rightarrow> addr" where
  "Unmap (V4 a) = V4 a"
| "Unmap (V6 a) = (if Is4In6 (V6 a) then V4 (ucast a) else V6 a)"

definition hostPrefix :: "string \<Rightarrow> ip_prefix list" where
  "hostPrefix bs =
     (case AddrFromSlice bs of
        None \<Rightarrow> []
      | Some ip \<Rightarrow> [Prefix (Unmap ip) (addrWidth (Unmap ip))])"

definition getLocalProtectedPrefixes :: "'k net_env \<Rightarrow> ip_prefix list" where
  "getLocalProtectedPrefixes env =
     (case getDefaultIface env of
        Inl _ \<Rightarrow> []
      | Inr iface \<Rightarrow>
          (case neAddrList env iface of
             Inl _ \<Rightarrow> []
           | Inr addrs \<Rightarrow>
               concat (map hostPrefix addrs)
               @ (case getDefaultRoute env of
                    Inl _ \<Rightarrow> []
                  | Inr r \<Rightarrow> (case nrtGw r of None \<Rightarrow> [] | Some gw \<Rightarrow> hostPrefix gw))))"

section \<open>The policy server of the outer supervisor\<close>

definition maxNetPolicyRequestBytes :: nat where "maxNetPolicyRequestBytes = 1024 * 1024"

definition netPolicySocketPath :: string where
  "netPolicySocketPath = ''/octelium-net/policy.sock''"

record reserved_port =
  rpProtocol :: string
  rpPort :: int

definition getReservedPorts :: "'k net_env \<Rightarrow> reserved_port list" where
  "getReservedPorts env =
     [\<lparr>rpProtocol = ''tcp'', rpPort = 35921\<rparr>, \<lparr>rpProtocol = ''tcp'', rpPort = 2022\<rparr>,
      \<lparr>rpProtocol = ''udp'', rpPort = GetWorkspaceTunnelPort (neIsTest env)\<rparr>]"

definition getSystemSourcePorts :: "'k net_env \<Rightarrow> system_port list" where
  "getSystemSourcePorts env =
     map (\<lambda>p. \<lparr>syProtocol = rpProtocol p, syPort = of_int (rpPort p)\<rparr>) (getReservedPorts env)"

text \<open>
  \<open>nvListening\<close> is whether the socket accepts connections, \<open>nvApplied\<close> the flag \<open>netPolicyApplied\<close>
  and \<open>nvKernel\<close> the tables of the kernel.
\<close>

record 'k net_srv =
  nvListening :: bool
  nvApplied :: bool
  nvKernel :: 'k

definition policyReq :: "'k net_env \<Rightarrow> network \<Rightarrow> compile_req" where
  "policyReq env net = \<lparr>crNetwork = Some net, crUID = neUID env,
     crProtected = getLocalProtectedPrefixes env, crSystemSourcePorts = getSystemSourcePorts env\<rparr>"

definition compileNetworkPolicy :: "'k net_env \<Rightarrow> string \<Rightarrow> err + policy" where
  "compileNetworkPolicy env bytes =
     bindS (if bytes = [] then Inr \<lparr>netEgress = None\<rparr>
            else mapErrS (\<lambda>e. Errorf (''Could not unmarshal the network spec: '' @ neErrString env e))
                   (neUnmarshal env bytes)) (\<lambda>net.
     case Compile (Some (policyReq env net)) of
       None \<Rightarrow> Inl (Panic ''netip.MustParsePrefix'')
     | Some r \<Rightarrow> r)"

definition runNetworkPolicyScript :: "'k net_env \<Rightarrow> string \<Rightarrow> ('k net_srv, unit) io" where
  "runNetworkPolicyScript env script =
     (\<lambda>s. case neRunNft env script (nvKernel s) of
        (None, k) \<Rightarrow> (Inr (), s\<lparr>nvKernel := k\<rparr>)
      | (Some e, k) \<Rightarrow> (Inl e, s\<lparr>nvKernel := k\<rparr>))"

definition setApplied :: "bool \<Rightarrow> ('k net_srv, unit) io" where
  "setApplied b = (\<lambda>s. (Inr (), s\<lparr>nvApplied := b\<rparr>))"

definition applyNetworkPolicy :: "'k net_env \<Rightarrow> policy \<Rightarrow> ('k net_srv, unit) io" where
  "applyNetworkPolicy env policy =
     bindE (liftE (RenderNFT (Some policy))) (\<lambda>script.
     bindE (runNetworkPolicyScript env script) (\<lambda>_.
     setApplied True))"

definition teardownNetworkPolicy :: "'k net_env \<Rightarrow> ('k net_srv, unit) io" where
  "teardownNetworkPolicy env =
     bindE (readE (\<lambda>s. Inr (nvApplied s))) (\<lambda>applied.
     if \<not> applied then retE ()
     else
       bindE (runNetworkPolicyScript env RenderNFTTeardown) (\<lambda>_.
       setApplied False))"

definition doHandleNetworkPolicyConn :: "'k net_env \<Rightarrow> string \<Rightarrow> ('k net_srv, unit) io" where
  "doHandleNetworkPolicyConn env raw =
     bindE (mapErrE (\<lambda>e. Errorf (''Could not decode the network policy request: '' @ neErrString env e))
             (liftE (neDecodeReq env (take maxNetPolicyRequestBytes raw)))) (\<lambda>bytes.
     bindE (liftE (compileNetworkPolicy env bytes)) (\<lambda>policy.
     applyNetworkPolicy env policy))"

text \<open>The bytes of the response: the text of the error, empty when there was none.\<close>

definition handleNetworkPolicyConn :: "'k net_env \<Rightarrow> string \<Rightarrow> ('k net_srv, string) io" where
  "handleNetworkPolicyConn env raw =
     bindE (tryE (doHandleNetworkPolicyConn env raw)) (\<lambda>r.
     retE (neEncodeResp env (case r of Inl e \<Rightarrow> neErrString env e | Inr _ \<Rightarrow> [])))"

text \<open>
  \<open>neFile\<close> is the outcome of the calls on the socket's path (\<open>MkdirAll\<close>, \<open>Chmod\<close> of the directory,
  \<open>Remove\<close>, \<open>Chmod\<close> of the socket), \<open>neSocket\<close> of those on the socket itself.
\<close>

definition doRunNetworkPolicyServer :: "'k net_env \<Rightarrow> ('k net_srv, unit) io" where
  "doRunNetworkPolicyServer env =
     bindE (checkE (neFile env ''mkdir'')) (\<lambda>_.
     bindE (checkE (neFile env ''chmod-dir'')) (\<lambda>_.
     bindE (checkE (neFile env ''remove'')) (\<lambda>_.
     bindE (checkE (map_option (\<lambda>e. Errorf (''Could not listen on the network policy socket: '' @ neErrString env e))
             (neSocket env ''listen''))) (\<lambda>_.
     bindE (checkE (neFile env ''chmod-socket'')) (\<lambda>_.
     (\<lambda>s. (Inr (), s\<lparr>nvListening := True\<rparr>)))))))"

definition runNetworkPolicyServer :: "'k net_env \<Rightarrow> ('k net_srv, unit) io" where
  "runNetworkPolicyServer env = (if neIsTest env then retE () else doRunNetworkPolicyServer env)"

definition closeNetworkPolicyServer :: "('k net_srv, unit) io" where
  "closeNetworkPolicyServer = (\<lambda>s. (Inr (), s\<lparr>nvListening := False\<rparr>))"

section \<open>The request of the inner supervisor\<close>

definition doSetNetworkPolicy :: "'k net_env \<Rightarrow> network option \<Rightarrow> ('k net_srv, unit) io" where
  "doSetNetworkPolicy env network =
     bindE (liftE (neMarshal env (case network of None \<Rightarrow> \<lparr>netEgress = None\<rparr> | Some n \<Rightarrow> n))) (\<lambda>bytes.
     bindE (readE (\<lambda>s. Inr (nvListening s))) (\<lambda>listening.
     bindE (throw_if (\<not> listening \<or> neSocket env ''dial'' \<noteq> None)
             (Errorf ''Could not dial the network policy socket'')) (\<lambda>_.
     bindE (throw_if (neSocket env ''send'' \<noteq> None)
             (Errorf ''Could not send the network policy request'')) (\<lambda>_.
     bindE (handleNetworkPolicyConn env (neEncodeReq env bytes)) (\<lambda>raw.
     bindE (throw_if (neSocket env ''receive'' \<noteq> None)
             (Errorf ''Could not read the network policy response'')) (\<lambda>_.
     bindE (mapErrE (\<lambda>e. Errorf (''Could not read the network policy response: '' @ neErrString env e))
             (liftE (neDecodeResp env (take maxNetPolicyRequestBytes raw)))) (\<lambda>msg.
     throw_if (msg \<noteq> []) (Errorf (''Could not set the network policy: '' @ msg)))))))))"

definition setNetworkPolicy :: "'k net_env \<Rightarrow> network option \<Rightarrow> ('k net_srv, unit) io" where
  "setNetworkPolicy env network = (if neIsTest env then retE () else doSetNetworkPolicy env network)"

section \<open>What is enforced\<close>

text \<open>
  What the request relies on: marshalling and JSON give back what was written, or an error when
  the message is cut off at the limit, the empty message has the empty encoding, and an error
  has a text.
\<close>

definition net_codecs :: "'k net_env \<Rightarrow> bool" where
  "net_codecs env \<longleftrightarrow>
     (\<forall>n b. neMarshal env n = Inr b \<longrightarrow>
        (if b = [] then n = \<lparr>netEgress = None\<rparr> else neUnmarshal env b = Inr n))
   \<and> (\<forall>b b'. neDecodeReq env (take maxNetPolicyRequestBytes (neEncodeReq env b)) = Inr b' \<longrightarrow> b' = b)
   \<and> (\<forall>m m'. neDecodeResp env (take maxNetPolicyRequestBytes (neEncodeResp env m)) = Inr m' \<longrightarrow> m' = m)
   \<and> (\<forall>e. neErrString env e \<noteq> [])"

text \<open>
  What \<open>nft\<close> is documented to do with a policy's script: once it was run without an error, the
  kernel judges packets by the rules in it.
\<close>

definition nft_runs :: "'k net_env \<Rightarrow> ('k \<Rightarrow> packet \<Rightarrow> verdict) \<Rightarrow> policy \<Rightarrow> bool" where
  "nft_runs env verdict p \<longleftrightarrow>
     (\<forall>script k k'. RenderNFT (Some p) = Inr script \<longrightarrow> neRunNft env script k = (None, k') \<longrightarrow>
        (\<forall>pk. verdict k' pk = nftVerdict p pk))"

definition networkOf :: "network option \<Rightarrow> network" where
  "networkOf network = (case network of None \<Rightarrow> \<lparr>netEgress = None\<rparr> | Some n \<Rightarrow> n)"

text \<open>A packet is judged as the network of the spec asks for, in this pod.\<close>

definition enforces :: "'k net_env \<Rightarrow> ('k \<Rightarrow> packet \<Rightarrow> verdict) \<Rightarrow> network option \<Rightarrow> 'k \<Rightarrow> bool" where
  "enforces env verdict network k \<longleftrightarrow>
     (\<forall>pk. verdict k pk = specVerdict (policyReq env (networkOf network)) pk)"

lemma script_Inr:
  "runNetworkPolicyScript env script s = (Inr u, s') \<longleftrightarrow>
     (\<exists>k. neRunNft env script (nvKernel s) = (None, k) \<and> s' = s\<lparr>nvKernel := k\<rparr>)"
  by (cases "neRunNft env script (nvKernel s)"; cases "fst (neRunNft env script (nvKernel s))")
    (auto simp: runNetworkPolicyScript_def)

lemma applyNetworkPolicy_Inr:
  "applyNetworkPolicy env p s = (Inr u, s') \<longleftrightarrow>
     (\<exists>script k. RenderNFT (Some p) = Inr script \<and> neRunNft env script (nvKernel s) = (None, k)
        \<and> s' = s\<lparr>nvKernel := k, nvApplied := True\<rparr>)"
  by (auto simp: applyNetworkPolicy_def script_Inr setApplied_def io_simps)

lemma net_codecsD:
  assumes "net_codecs env"
  shows "neMarshal env n = Inr b \<Longrightarrow> b = [] \<Longrightarrow> n = \<lparr>netEgress = None\<rparr>"
    "neMarshal env n = Inr b \<Longrightarrow> b \<noteq> [] \<Longrightarrow> neUnmarshal env b = Inr n"
    "neDecodeReq env (take maxNetPolicyRequestBytes (neEncodeReq env b)) = Inr b' \<Longrightarrow> b' = b"
    "neErrString env e \<noteq> []"
proof -
  note laws = assms[unfolded net_codecs_def]
  show "neMarshal env n = Inr b \<Longrightarrow> b = [] \<Longrightarrow> n = \<lparr>netEgress = None\<rparr>"
    "neMarshal env n = Inr b \<Longrightarrow> b \<noteq> [] \<Longrightarrow> neUnmarshal env b = Inr n"
    using conjunct1[OF laws, rule_format, of n b] by simp_all
  show "neDecodeReq env (take maxNetPolicyRequestBytes (neEncodeReq env b)) = Inr b' \<Longrightarrow> b' = b"
    "neErrString env e \<noteq> []"
    using laws by blast+
qed

lemma compileNetworkPolicy_marshalled:
  assumes "net_codecs env" "neMarshal env n = Inr b" "compileNetworkPolicy env b = Inr p"
  shows "Compile (Some (policyReq env n)) = Some (Inr p)"
  using assms(2,3) net_codecsD(1,2)[OF assms(1) assms(2)]
  by (auto simp: compileNetworkPolicy_def io_simps split: if_splits option.splits)

lemma handled_without_error:
  assumes codecs: "net_codecs env"
    and h: "handleNetworkPolicyConn env raw s = (Inr resp, s')"
    and d: "neDecodeResp env (take maxNetPolicyRequestBytes resp) = Inr []"
  shows "doHandleNetworkPolicyConn env raw s = (Inr (), s')"
proof -
  obtain r where r: "doHandleNetworkPolicyConn env raw s = (r, s')"
    "resp = neEncodeResp env (case r of Inl e \<Rightarrow> neErrString env e | Inr _ \<Rightarrow> [])"
    using h by (auto simp: handleNetworkPolicyConn_def io_simps tryE_eq)
  with codecs d have "(case r of Inl e \<Rightarrow> neErrString env e | Inr _ \<Rightarrow> []) = []"
    unfolding net_codecs_def by metis
  with net_codecsD(4)[OF codecs] r(1) show ?thesis by (auto split: sum.splits)
qed

lemma doHandle_compiled:
  assumes "net_codecs env" "neMarshal env n = Inr b"
    and "doHandleNetworkPolicyConn env (neEncodeReq env b) s = (Inr (), s')"
  obtains p where "Compile (Some (policyReq env n)) = Some (Inr p)" "applyNetworkPolicy env p s = (Inr (), s')"
proof -
  obtain b' p where "neDecodeReq env (take maxNetPolicyRequestBytes (neEncodeReq env b)) = Inr b'"
    and c: "compileNetworkPolicy env b' = Inr p" and a: "applyNetworkPolicy env p s = (Inr (), s')"
    using assms(3) by (auto simp: doHandleNetworkPolicyConn_def io_simps)
  with net_codecsD(3)[OF assms(1)] have "b' = b" by blast
  with that compileNetworkPolicy_marshalled[OF assms(1,2)] a c show thesis by blast
qed

text \<open>
  When the inner supervisor is told that the policy was set, the kernel enforces the network of
  the spec that it asked for: from the request over the socket, the compilation and the rendered
  script to the verdict on each packet.
\<close>

theorem set_policy_enforced:
  assumes "net_codecs env"
    and "\<And>p. Compile (Some (policyReq env (networkOf network))) = Some (Inr p) \<Longrightarrow> nft_runs env verdict p"
    and "doSetNetworkPolicy env network s = (Inr (), s')"
  shows "enforces env verdict network (nvKernel s') \<and> nvApplied s'"
proof -
  obtain b resp where b: "neMarshal env (networkOf network) = Inr b"
    and h: "handleNetworkPolicyConn env (neEncodeReq env b) s = (Inr resp, s')"
    and d: "neDecodeResp env (take maxNetPolicyRequestBytes resp) = Inr []"
    using assms(3) by (auto simp: doSetNetworkPolicy_def networkOf_def io_simps)
  obtain p where p: "Compile (Some (policyReq env (networkOf network))) = Some (Inr p)"
    and a: "applyNetworkPolicy env p s = (Inr (), s')"
    using doHandle_compiled[OF assms(1) b handled_without_error[OF assms(1) h d]] by blast
  from a obtain script k where "RenderNFT (Some p) = Inr script" "neRunNft env script (nvKernel s) = (None, k)"
    and s': "s' = s\<lparr>nvKernel := k, nvApplied := True\<rparr>"
    unfolding applyNetworkPolicy_Inr by blast
  with assms(2)[OF p] have "verdict k pk = nftVerdict p pk" for pk
    unfolding nft_runs_def by blast
  with s' Compile_verdict[OF p] show ?thesis by (simp add: enforces_def)
qed

section \<open>The flag and the kernel\<close>

text \<open>
  What \<open>nft\<close> is documented to do: a script is one transaction, so a failed one changes nothing;
  a policy's script makes the table and the teardown script removes it.
\<close>

definition nft_atomic :: "'k net_env \<Rightarrow> ('k \<Rightarrow> bool) \<Rightarrow> bool" where
  "nft_atomic env table \<longleftrightarrow>
     (\<forall>script k k' e. neRunNft env script k = (Some e, k') \<longrightarrow> k' = k)
   \<and> (\<forall>p script k k'. RenderNFT (Some p) = Inr script \<longrightarrow> neRunNft env script k = (None, k') \<longrightarrow> table k')
   \<and> (\<forall>k k'. neRunNft env RenderNFTTeardown k = (None, k') \<longrightarrow> \<not> table k')"

lemma nft_atomicD:
  assumes "nft_atomic env table"
  shows "neRunNft env script k = (Some e, k') \<Longrightarrow> k' = k"
    "RenderNFT (Some p) = Inr script \<Longrightarrow> neRunNft env script k = (None, k') \<Longrightarrow> table k'"
    "neRunNft env RenderNFTTeardown k = (None, k') \<Longrightarrow> \<not> table k'"
  using assms unfolding nft_atomic_def by blast+

datatype net_call = NetStart | NetConn string | NetTeardown | NetClose

fun netCall :: "'k net_env \<Rightarrow> net_call \<Rightarrow> 'k net_srv \<Rightarrow> 'k net_srv" where
  "netCall env NetStart s = snd (runNetworkPolicyServer env s)"
| "netCall env (NetConn raw) s = snd (handleNetworkPolicyConn env raw s)"
| "netCall env NetTeardown s = snd (teardownNetworkPolicy env s)"
| "netCall env NetClose s = snd (closeNetworkPolicyServer s)"

lemma apply_keeps_flag:
  assumes "nft_atomic env table" "nvApplied s \<longleftrightarrow> table (nvKernel s)"
    and "applyNetworkPolicy env p s = (r, s')"
  shows "nvApplied s' \<longleftrightarrow> table (nvKernel s')"
  using assms(2,3)
  by (auto dest: nft_atomicD[OF assms(1)] simp: applyNetworkPolicy_def runNetworkPolicyScript_def setApplied_def bindE_def liftE_def
      split: sum.splits prod.splits option.splits)

lemma handle_keeps_flag:
  assumes "nft_atomic env table" "nvApplied s \<longleftrightarrow> table (nvKernel s)"
  shows "nvApplied (snd (handleNetworkPolicyConn env raw s)) \<longleftrightarrow> table (nvKernel (snd (handleNetworkPolicyConn env raw s)))"
  using assms(2)
  by (auto dest: apply_keeps_flag[OF assms] simp: handleNetworkPolicyConn_def doHandleNetworkPolicyConn_def bindE_def tryE_def retE_def
      liftE_def mapErrE_def split: sum.splits prod.splits)

lemma teardown_keeps_flag:
  assumes "nft_atomic env table" "nvApplied s \<longleftrightarrow> table (nvKernel s)"
  shows "nvApplied (snd (teardownNetworkPolicy env s)) \<longleftrightarrow> table (nvKernel (snd (teardownNetworkPolicy env s)))"
  using assms(2)
  by (auto dest: nft_atomicD[OF assms(1)]
      simp: teardownNetworkPolicy_def runNetworkPolicyScript_def setApplied_def bindE_def readE_def retE_def
      split: sum.splits prod.splits option.splits)

lemma start_keeps_flag:
  "nvApplied (snd (runNetworkPolicyServer env s)) = nvApplied s"
  "nvKernel (snd (runNetworkPolicyServer env s)) = nvKernel s"
  by (auto simp: runNetworkPolicyServer_def doRunNetworkPolicyServer_def bindE_def checkE_def retE_def
      throwE_def split: sum.splits prod.splits option.splits)

text \<open>
  Whatever connections are served, with valid requests or not, and whenever the policy is torn
  down: the flag \<open>netPolicyApplied\<close> says whether the kernel has the table, so the teardown at the
  end removes it and is skipped only when there is nothing to remove.
\<close>

theorem applied_iff_table:
  assumes "nft_atomic env table" "nvApplied s \<longleftrightarrow> table (nvKernel s)"
  shows "nvApplied (fold (netCall env) calls s) \<longleftrightarrow> table (nvKernel (fold (netCall env) calls s))"
  using assms(2)
proof (induction calls arbitrary: s)
  case (Cons c calls)
  have "nvApplied (netCall env c s) \<longleftrightarrow> table (nvKernel (netCall env c s))"
    using Cons.prems handle_keeps_flag[OF assms(1)] teardown_keeps_flag[OF assms(1)]
    by (cases c) (simp_all add: start_keeps_flag closeNetworkPolicyServer_def)
  with Cons.IH show ?case by simp
qed simp

end
