(* ===== verification/Build_Paths.thy ===== *)
theory Build_Paths
  imports Volume_Mounts
begin

text \<open>
  Paths below a directory: \<open>path.Join\<close>, \<open>path.Dir\<close> and \<open>filepath.Rel\<close> of Go on slash-separated
  paths, and \<open>checkPathWithin\<close> of \<open>cluster/supervisor/supervisor/image.go\<close>, by which the supervisor
  confines the build of an image to its directory.
\<close>

section \<open>Paths of Go\<close>

definition isAbs :: "string \<Rightarrow> bool" where
  "isAbs p \<longleftrightarrow> hasPrefix p ''/''"

definition pathJoin :: "string \<Rightarrow> string \<Rightarrow> string" where
  "pathJoin a b =
     (if a = [] \<and> b = [] then []
      else if a = [] then pathClean b
      else if b = [] then pathClean a
      else pathClean (a @ ''/'' @ b))"

text \<open>\<open>path.Split\<close>: what is up to the last slash, and what is behind it.\<close>

definition pathSplit :: "string \<Rightarrow> string \<times> string" where
  "pathSplit p =
     (let f = rev (takeWhile (\<lambda>c. c \<noteq> CHR ''/'') (rev p)) in (take (length p - length f) p, f))"

definition pathDir :: "string \<Rightarrow> string" where
  "pathDir p = pathClean (fst (pathSplit p))"

text \<open>The elements of a clean path.\<close>

definition pathElems :: "string \<Rightarrow> string list" where
  "pathElems p = filter (\<lambda>f. f \<noteq> [] \<and> f \<noteq> ''.'') (splitOn CHR ''/'' p)"

fun relElems :: "string list \<Rightarrow> string list \<Rightarrow> string list option" where
  "relElems (b # bs) (t # ts) =
     (if b = t then relElems bs ts
      else if b = ''..'' then None
      else Some (replicate (length (b # bs)) ''..'' @ t # ts))"
| "relElems [] ts = Some ts"
| "relElems (b # bs) [] = (if b = ''..'' then None else Some (replicate (length (b # bs)) ''..''))"

definition filepathRel :: "string \<Rightarrow> string \<Rightarrow> err + string" where
  "filepathRel base targ =
     (if isAbs base \<noteq> isAbs targ then Inl (Errorf (''Rel: can't make '' @ targ @ '' relative to '' @ base))
      else
        (case relElems (pathElems base) (pathElems targ) of
           None \<Rightarrow> Inl (Errorf (''Rel: can't make '' @ targ @ '' relative to '' @ base))
         | Some [] \<Rightarrow> Inr ''.''
         | Some es \<Rightarrow> Inr (joinWith ''/'' es)))"

section \<open>checkPathWithin\<close>

definition checkPathWithin :: "string \<Rightarrow> string \<Rightarrow> err + string" where
  "checkPathWithin baseDir arg =
     (let ret = pathClean (if isAbs arg then arg else pathJoin baseDir arg);
          base = pathClean baseDir
      in case filepathRel base ret of
           Inl e \<Rightarrow> Inl (Errorf (''Could not resolve path '' @ arg @ '' against '' @ base))
         | Inr rel \<Rightarrow>
             if rel = ''..'' \<or> hasPrefix rel ''../''
             then Inl (Errorf (''Path '' @ arg @ '' escapes the build directory '' @ base))
             else Inr ret)"

lemma pathElems_absPath:
  assumes "list_all cleanElem fs"
  shows "pathElems (absPath fs) = fs"
proof -
  have "filter (\<lambda>f. f \<noteq> [] \<and> f \<noteq> ''.'') fs = fs"
    using assms by (auto simp: filter_id_conv list_all_iff cleanElem_def)
  then show ?thesis
    using splitOn_joinWith[of fs "CHR ''/''"] assms
    by (cases "fs = []") (auto simp: pathElems_def absPath_def list_all_iff cleanElem_def)
qed

lemma isAbs_absPath [simp]: "isAbs (absPath fs)"
  by (simp add: isAbs_def absPath_def hasPrefix_def)

lemma isAbs_clean:
  assumes "isAbs p"
  obtains fs where "pathClean p = absPath fs" "list_all cleanElem fs"
  using pathClean_rooted[of p] assms unfolding isAbs_def absPath_def by blast

lemma isAbs_pathClean: "isAbs p \<Longrightarrow> isAbs (pathClean p)"
  by (metis isAbs_clean isAbs_absPath)

lemma isAbs_pathJoin:
  assumes "isAbs a"
  shows "isAbs (pathJoin a b)"
proof -
  have "a \<noteq> []" "isAbs (a @ ''/'' @ b)" using assms by (auto simp: isAbs_def hasPrefix_conv)
  with assms show ?thesis by (simp add: pathJoin_def isAbs_pathClean)
qed

lemma relElems_below:
  "list_all cleanElem bs \<Longrightarrow> relElems bs ts = Some es \<Longrightarrow> es = [] \<or> hd es \<noteq> ''..'' \<Longrightarrow> ts = bs @ es"
  by (induction bs ts rule: relElems.induct) (auto simp: cleanElem_def split: if_splits)

lemma relElems_append: "relElems bs (bs @ es) = Some es"
  by (induction bs) auto

lemma joinWith_dotdot:
  assumes "es \<noteq> []" "hd es = ''..''"
  shows "joinWith ''/'' es = ''..'' \<or> hasPrefix (joinWith ''/'' es) ''../''"
  using assms by (cases es; cases "tl es") (auto simp: joinWith_Cons hasPrefix_conv)

lemma joinWith_not_dotdot:
  assumes "list_all cleanElem es"
  shows "joinWith ''/'' es \<noteq> ''..'' \<and> \<not> hasPrefix (joinWith ''/'' es) ''../''"
proof (cases es)
  case (Cons e es')
  have e: "cleanElem e" using assms Cons by simp
  show ?thesis
  proof (rule ccontr)
    assume "\<not> ?thesis"
    then obtain r where "joinWith ''/'' es = ''..'' @ r" "r = [] \<or> hd r = CHR ''/''"
      by (auto simp: hasPrefix_conv)
    then have "splitOn CHR ''/'' (joinWith ''/'' es) = ''..'' # (case r of [] \<Rightarrow> [] | _ # r' \<Rightarrow> splitOn CHR ''/'' r')"
      by (cases r) auto
    moreover have "splitOn CHR ''/'' (joinWith ''/'' es) = es"
      using assms Cons by (intro splitOn_joinWith) (auto simp: list_all_iff cleanElem_def)
    ultimately show False using Cons e by (simp add: cleanElem_def)
  qed
qed (simp add: hasPrefix_def)

text \<open>
  A path that is accepted is a clean path below the build directory; and every path below it is
  accepted.
\<close>

theorem checkPathWithin_below:
  assumes "isAbs base"
  shows "checkPathWithin base arg = Inr p \<longleftrightarrow>
      p = pathClean (if isAbs arg then arg else pathJoin base arg)
      \<and> (\<exists>bs es. pathClean base = absPath bs \<and> list_all cleanElem (bs @ es) \<and> p = absPath (bs @ es))"
proof -
  let ?arg = "if isAbs arg then arg else pathJoin base arg"
  obtain bs where bs: "pathClean base = absPath bs" "list_all cleanElem bs"
    using isAbs_clean[OF assms] by blast
  have "isAbs ?arg" using isAbs_pathJoin[OF assms] by simp
  then obtain ts where ts: "pathClean ?arg = absPath ts" "list_all cleanElem ts"
    using isAbs_clean by blast
  note elems = pathElems_absPath[OF bs(2)] pathElems_absPath[OF ts(2)]
  have accepted: "checkPathWithin base arg = Inr p \<longleftrightarrow> p = absPath ts \<and> (\<exists>es. ts = bs @ es)"
  proof (cases "\<exists>es. ts = bs @ es")
    case True
    then obtain es where es: "ts = bs @ es" by blast
    then have "list_all cleanElem es" using ts by simp
    from joinWith_not_dotdot[OF this] show ?thesis
      using es bs ts elems
      by (auto simp: checkPathWithin_def filepathRel_def relElems_append hasPrefix_def Let_def split: list.splits)
  next
    case False
    then have "\<And>es. relElems bs ts = Some es \<Longrightarrow> es \<noteq> [] \<and> hd es = ''..''"
      using relElems_below[OF bs(2)] by blast
    then have "filepathRel (absPath bs) (absPath ts) = Inr r \<Longrightarrow> r = ''..'' \<or> hasPrefix r ''../''" for r
      using joinWith_dotdot elems
      by (auto simp: filepathRel_def split: option.splits list.splits) (metis list.distinct(1) list.sel(1))+
    with False bs ts show ?thesis
      by (auto simp: checkPathWithin_def Let_def split: sum.splits)
  qed
  have "(\<exists>es. ts = bs @ es) \<longleftrightarrow>
      (\<exists>bs' es. pathClean base = absPath bs' \<and> list_all cleanElem (bs' @ es) \<and> absPath ts = absPath (bs' @ es))"
    using bs ts(2) elems pathElems_absPath by (metis list_all_append)
  with ts(1) show ?thesis unfolding accepted by auto
qed

end
