(* ===== verification/Pub_Sub.thy ===== *)
theory Pub_Sub
  imports Cordium_Prelude
begin

text \<open>
  The publishers of the supervisor and of the agent in the container: a map from the
  identifiers of subscribers to bounded channels. A value is offered to every channel; a channel that
  is full drops it (\<open>setStatus\<close> of \<open>cluster/supervisor/supervisor/utils.go\<close>, \<open>eventPublisher\<close> of
  \<open>event.go\<close>, and their copies in \<open>cluster/workspace/workspace\<close>).
\<close>

section \<open>Channels\<close>

definition chanSize :: nat where "chanSize = 1000"

text \<open>\<open>select { case ch <- x: default: }\<close>\<close>

definition offer :: "'a \<Rightarrow> 'a list \<Rightarrow> 'a list" where
  "offer x q = (if length q < chanSize then q @ [x] else q)"

type_synonym 'a bus = "string \<Rightarrow> 'a list option"

definition publishAll :: "'a \<Rightarrow> 'a bus \<Rightarrow> 'a bus" where
  "publishAll x b = (\<lambda>i. map_option (offer x) (b i))"

definition subscribeBus :: "string \<Rightarrow> 'a bus \<Rightarrow> 'a bus" where
  "subscribeBus i b = b(i \<mapsto> [])"

definition unsubscribeBus :: "string \<Rightarrow> 'a bus \<Rightarrow> 'a bus" where
  "unsubscribeBus i b = b(i := None)"

text \<open>The loop of the subscriber takes the first value of its channel, when there is one.\<close>

definition receiveBus :: "string \<Rightarrow> 'a bus \<Rightarrow> ('a \<times> 'a bus) option" where
  "receiveBus i b = (case b i of Some (x # q) \<Rightarrow> Some (x, b(i \<mapsto> q)) | _ \<Rightarrow> None)"

section \<open>What a subscriber gets\<close>

text \<open>
  The life of one subscription: values are published, the subscriber receives, and other
  subscriptions come and go. \<open>pub\<close> is what was published since it began and \<open>got\<close> what it received.
\<close>

inductive bus_run :: "string \<Rightarrow> 'a bus \<Rightarrow> 'a list \<Rightarrow> 'a list \<Rightarrow> 'a bus \<Rightarrow> bool" for i b0 where
  start: "bus_run i b0 [] [] (subscribeBus i b0)"
| publish: "bus_run i b0 pub got b \<Longrightarrow> bus_run i b0 (pub @ [x]) got (publishAll x b)"
| receive: "bus_run i b0 pub got b \<Longrightarrow> receiveBus i b = Some (x, b') \<Longrightarrow> bus_run i b0 pub (got @ [x]) b'"
| others_receive: "bus_run i b0 pub got b \<Longrightarrow> j \<noteq> i \<Longrightarrow> receiveBus j b = Some (x, b') \<Longrightarrow> bus_run i b0 pub got b'"
| others_come: "bus_run i b0 pub got b \<Longrightarrow> j \<noteq> i \<Longrightarrow> bus_run i b0 pub got (subscribeBus j b)"
| others_go: "bus_run i b0 pub got b \<Longrightarrow> j \<noteq> i \<Longrightarrow> bus_run i b0 pub got (unsubscribeBus j b)"

lemma receiveBus_Some:
  "receiveBus j b = Some (x, b') \<longleftrightarrow> (\<exists>q. b j = Some (x # q) \<and> b' = b(j \<mapsto> q))"
  by (auto simp: receiveBus_def split: option.splits list.splits)

lemma length_offer: "length q \<le> chanSize \<Longrightarrow> length (offer x q) \<le> chanSize"
  by (simp add: offer_def)

lemma bus_run_queue: "bus_run i b0 pub got b \<Longrightarrow> \<exists>q. b i = Some q \<and> length q \<le> chanSize"
  by (induction rule: bus_run.induct)
    (auto simp: subscribeBus_def unsubscribeBus_def publishAll_def receiveBus_Some length_offer)

lemma subseq_snoc: "subseq xs ys \<Longrightarrow> subseq (xs @ [x]) (ys @ [x])"
  by (rule list_emb_append_mono) auto

lemma bus_run_subseq: "bus_run i b0 pub got b \<Longrightarrow> b i = Some q \<Longrightarrow> subseq (got @ q) pub"
proof (induction arbitrary: q rule: bus_run.induct)
  case (publish pub got b x)
  then obtain p where p: "b i = Some p" "q = offer x p" by (auto simp: publishAll_def)
  with subseq_snoc[OF publish.IH[OF p(1)], of x] publish.IH[OF p(1)] show ?case
    by (auto simp: offer_def)
qed (auto simp: subscribeBus_def unsubscribeBus_def receiveBus_Some)

lemma bus_run_all: "bus_run i b0 pub got b \<Longrightarrow> b i = Some q \<Longrightarrow> length pub \<le> chanSize \<Longrightarrow> got @ q = pub"
proof (induction arbitrary: q rule: bus_run.induct)
  case (publish pub got b x)
  then obtain p where p: "b i = Some p" "q = offer x p" by (auto simp: publishAll_def)
  with publish have all: "got @ p = pub" by simp
  then have "length p \<le> length pub" by auto
  with p all publish.prems show ?case by (auto simp: offer_def)
qed (auto simp: subscribeBus_def unsubscribeBus_def receiveBus_Some)

text \<open>
  A subscriber gets what was published since it subscribed, in that order; values are left out only
  when it lags: what it received and what waits in its channel is a subsequence of what was
  published, at most the size of a channel waits, and it is all of it as long as no
  more than \<open>chanSize\<close> values were published.
\<close>

theorem subscriber_gets:
  assumes "bus_run i b0 pub got b"
  shows "\<exists>q. b i = Some q \<and> length q \<le> chanSize \<and> subseq (got @ q) pub
    \<and> (length pub \<le> chanSize \<longrightarrow> got @ q = pub)"
  using bus_run_queue[OF assms] bus_run_subseq[OF assms] bus_run_all[OF assms] by blast

end
