(* ===== verification/Sup_State.thy ===== *)
theory Sup_State
  imports Sup_Network Build_Paths Pub_Sub Workspace_Validate Ctl_Env
begin

text \<open>
  The state of the supervisor in the pod of a Workspace (\<open>Server\<close> of
  \<open>cluster/supervisor/supervisor/server.go\<close>), its accessors (\<open>utils.go\<close>, \<open>event.go\<close>) and the
  requests it answers (\<open>api.go\<close>). Every command it runs is recorded with its outcome.
\<close>

section \<open>The request of nocturne\<close>

text \<open>
  The fields of an \<open>InitializeRequest\<close> that the supervisor reads. A nil message is \<open>None\<close>;
  \<open>sqDomain\<close> is the domain of \<open>ClientInfo\<close>, \<open>sqClusterCaps\<close> the capabilities in the configuration of
  the cluster.
\<close>

record sup_req =
  sqWorkspace :: "workspace option"
  sqSpace :: "space option"
  sqTemplate :: "template option"
  sqDomain :: "string option"
  sqClusterCaps :: "capabilities option"
  sqSecrets :: "secret list"
  sqUserSecrets :: "user_secret list"
  sqTemplateHasSnapshot :: bool
  sqSource :: persistent_source

text \<open>What arrives of the request that nocturne sends.\<close>

definition wireRequest :: "init_req \<Rightarrow> sup_req" where
  "wireRequest r = \<lparr>sqWorkspace = Some (irWorkspace r), sqSpace = Some (irSpace r), sqTemplate = Some (irTemplate r),
     sqDomain = Some (irDomain r), sqClusterCaps = ccRuntimeCapabilities (irClusterConfig r), sqSecrets = irSecrets r,
     sqUserSecrets = (case irUserSecrets r of None \<Rightarrow> [] | Some us \<Rightarrow> us),
     sqTemplateHasSnapshot = irTemplateHasSnapshot r, sqSource = irSource r\<rparr>"

section \<open>The state\<close>

text \<open>
  What the supervisor does to its surroundings: podman as the user \<open>octelium\<close> or as root, files, git,
  commands of the shell, the request for the egress policy, the calls to the
  agent in the container, and the goroutines it starts.
\<close>

datatype sup_act =
    ActPodman "string list"
  | ActRootPodman "string list"
  | ActChown string
  | ActWriteFile string string
  | ActClone string string
  | ActShell string
  | ActRemove string
  | ActSetPolicy "network option"
  | ActProxy
  | ActSSHAgent
  | ActAgent string
  | ActGo string

type_synonym act_log = "(sup_act \<times> err option) list"

datatype sup_event = EvFailure failure | EvLog string | EvOther string

text \<open>
  \<open>suBus\<close> are the subscribers of the status, \<open>suEvents\<close> those of events. The last fields are of the
  outer supervisor, which runs in another container of the pod: \<open>suNet\<close> is its policy server and \<open>suOuterDone\<close> whether
  it has shut down.
\<close>

record 'k sup =
  suStatus :: ws_state
  suBus :: "ws_state bus"
  suEvents :: "sup_event bus"
  suFailure :: "failure option"
  suInitReq :: "sup_req option"
  suRequested :: bool
  suShuttingDown :: bool
  suSpec :: ws_spec
  suSource :: persistent_source
  suFresh :: bool
  suWsUID :: string
  suBuildDir :: string
  suCopies :: "(string \<times> string) list"
  suNoOverrideCmd :: bool
  suInit :: bool
  suKey :: "string option"
  suPublicKey :: string
  suRunCmd :: bool
  suProxy :: bool
  suInitErrs :: "err list"
  suShutdownSignals :: nat
  suAcks :: nat
  suLog :: act_log
  suNet :: "'k net_srv"
  suOuterDone :: bool

definition newSup :: "string \<Rightarrow> string \<Rightarrow> 'k net_srv \<Rightarrow> 'k sup" where
  "newSup key pub net = \<lparr>suStatus = INITIALIZING, suBus = Map.empty, suEvents = Map.empty, suFailure = None,
     suInitReq = None, suRequested = False, suShuttingDown = False, suSpec = emptySpec, suSource = SOURCE_UNSET,
     suFresh = False, suWsUID = [], suBuildDir = ''/octelium/build'', suCopies = [], suNoOverrideCmd = False,
     suInit = False, suKey = Some key, suPublicKey = pub, suRunCmd = False, suProxy = False, suInitErrs = [],
     suShutdownSignals = 0, suAcks = 0, suLog = [], suNet = net, suOuterDone = False\<rparr>"

section \<open>The environment\<close>

text \<open>
  \<open>seOutcome\<close> says how each command ends, after those before it; it also covers a context that was
  cancelled. \<open>seExists\<close> is \<open>vutils.FSPathExists\<close>, \<open>seReadYAML\<close> reads a workspace file,
  \<open>seInspect\<close> is the state that \<open>podman inspect\<close> prints (None: no state in it), \<open>seImage\<close> the image
  \<open>components.GetImage\<close> names, \<open>seCPUs\<close> prints its argument divided by 100000 with two
  decimals, \<open>seIsDeadline\<close> is \<open>errors.Is(err, context.DeadlineExceeded)\<close>.
\<close>

record dc_build =
  dbDockerfile :: string
  dbContext :: string
  dbArgs :: "(string \<times> string) list"

record devcontainer =
  dcImage :: string
  dcBuild :: "dc_build option"
  dcDockerfile :: string
  dcOverrideCommand :: "bool option"
  dcInit :: bool
  dcComposeFile :: string
  dcService :: string

record compose_service =
  csInit :: "bool option"
  csImage :: string
  csBuild :: "(string \<times> string \<times> (string \<times> string option) list) option"

record 'k sup_env =
  seNet :: "'k net_env"
  seIsDev :: bool
  seOutcome :: "act_log \<Rightarrow> sup_act \<Rightarrow> err option"
  seExists :: "act_log \<Rightarrow> string \<Rightarrow> bool"
  seReadYAML :: "act_log \<Rightarrow> string \<Rightarrow> err + ws_spec option"
  seDevcontainer :: "act_log \<Rightarrow> string \<Rightarrow> err + devcontainer"
  seCompose :: "act_log \<Rightarrow> string \<Rightarrow> string \<Rightarrow> err + (string \<times> compose_service) list"
  seInspect :: "act_log \<Rightarrow> nat \<Rightarrow> err + (bool \<times> string) option"
  seValidators :: validators
  seMerge :: "ws_spec \<Rightarrow> ws_spec \<Rightarrow> ws_spec"
  seVarOrd :: "string \<Rightarrow> vars \<Rightarrow> vars"
  seImage :: string
  seCPUs :: "int \<Rightarrow> string"
  seIsDeadline :: "err \<Rightarrow> bool"

abbreviation seTest :: "'k sup_env \<Rightarrow> bool" where "seTest env \<equiv> neIsTest (seNet env)"

type_synonym ('k, 'a) sup_io = "('k sup, 'a) io"

definition modSup :: "('k sup \<Rightarrow> 'k sup) \<Rightarrow> ('k, unit) sup_io" where
  "modSup f = (\<lambda>s. (Inr (), f s))"

definition getSup :: "('k sup \<Rightarrow> 'a) \<Rightarrow> ('k, 'a) sup_io" where
  "getSup f = (\<lambda>s. (Inr (f s), s))"

text \<open>A command: it is recorded, and fails or not.\<close>

definition runAct :: "'k sup_env \<Rightarrow> sup_act \<Rightarrow> ('k, unit) sup_io" where
  "runAct env a = (\<lambda>s.
     let r = seOutcome env (suLog s) a
     in ((case r of None \<Rightarrow> Inr () | Some e \<Rightarrow> Inl e), s\<lparr>suLog := suLog s @ [(a, r)]\<rparr>))"

text \<open>A command whose error is only logged.\<close>

definition tryAct :: "'k sup_env \<Rightarrow> sup_act \<Rightarrow> ('k, unit) sup_io" where
  "tryAct env a = bindE (tryE (runAct env a)) (\<lambda>_. retE ())"

definition getCommandAsOctelium :: "'k sup_env \<Rightarrow> string list \<Rightarrow> ('k, unit) sup_io" where
  "getCommandAsOctelium env args = runAct env (ActPodman args)"

definition chownDirOctelium :: "'k sup_env \<Rightarrow> string \<Rightarrow> ('k, unit) sup_io" where
  "chownDirOctelium env p = runAct env (ActChown p)"

section \<open>Status, failures and events (utils.go, event.go)\<close>

definition setStatus :: "ws_state \<Rightarrow> ('k, unit) sup_io" where
  "setStatus st = modSup (\<lambda>s. s\<lparr>suStatus := st, suBus := publishAll st (suBus s)\<rparr>)"

definition setFailure :: "failure_type \<Rightarrow> ('k, unit) sup_io" where
  "setFailure f = modSup (\<lambda>s. s\<lparr>suFailure := Some \<lparr>flMessage = [], flType = f\<rparr>\<rparr>)"

definition handleEvent :: "sup_event \<Rightarrow> ('k, unit) sup_io" where
  "handleEvent ev =
     bindE (case ev of EvFailure f \<Rightarrow> modSup (\<lambda>s. s\<lparr>suFailure := Some f\<rparr>) | _ \<Rightarrow> retE ()) (\<lambda>_.
     modSup (\<lambda>s. s\<lparr>suEvents := publishAll ev (suEvents s)\<rparr>))"

definition publishLog :: "string \<Rightarrow> ('k, unit) sup_io" where
  "publishLog d = modSup (\<lambda>s. s\<lparr>suEvents := publishAll (EvLog d) (suEvents s)\<rparr>)"

definition getLimitMemoryMegabytes :: "sup_req option \<Rightarrow> int" where
  "getLimitMemoryMegabytes rq =
     (case Option.bind rq (\<lambda>r. Option.bind (sqWorkspace r) (\<lambda>ws. Option.bind (stLimit (wsStatus ws)) limMemory)) of
        None \<Rightarrow> 256
      | Some m \<Rightarrow> if m < 256 then 256 else if m > 128 * 1000 then 128 * 1000 else uint m)"

definition getLimitMillicores :: "sup_req option \<Rightarrow> int" where
  "getLimitMillicores rq =
     (case Option.bind rq (\<lambda>r. Option.bind (sqWorkspace r) (\<lambda>ws. Option.bind (stLimit (wsStatus ws)) limCpu)) of
        None \<Rightarrow> 100
      | Some m \<Rightarrow> if m < 100 then 100 else if m > 10000 * 1000 then 10000 * 1000 else uint m)"

text \<open>\<open>s.initReq.Workspace.Status.IsBuild\<close>\<close>

definition isBuildReq :: "sup_req option \<Rightarrow> bool" where
  "isBuildReq rq \<longleftrightarrow>
     (case Option.bind rq sqWorkspace of None \<Rightarrow> False | Some ws \<Rightarrow> stIsBuild (wsStatus ws))"

section \<open>The requests (api.go)\<close>

text \<open>\<open>Initialize\<close> starts the goroutine \<open>initialize\<close> once.\<close>

definition Initialize :: "sup_req \<Rightarrow> ('k, bool) sup_io" where
  "Initialize req = (\<lambda>s.
     if suRequested s then (Inr False, s)
     else (Inr True, s\<lparr>suRequested := True, suInitReq := Some req\<rparr>))"

text \<open>\<open>Shutdown\<close> signals the goroutine \<open>waitAndDoShutdownByAPI\<close>.\<close>

definition Shutdown :: "('k, unit) sup_io" where
  "Shutdown = (\<lambda>s.
     if suShuttingDown s then (Inr (), s)
     else (Inr (), s\<lparr>suShutdownSignals := suShutdownSignals s + 1\<rparr>))"

definition ShutdownAck :: "('k, unit) sup_io" where
  "ShutdownAck = modSup (\<lambda>s. s\<lparr>suAcks := suAcks s + 1\<rparr>)"

definition GetTunnelPublicKey :: "('k, string) sup_io" where
  "GetTunnelPublicKey = getSup suPublicKey"

definition GetState :: "bool \<Rightarrow> ('k, ws_state) sup_io" where
  "GetState isTest = (if isTest then retE RUNNING else getSup suStatus)"

definition GetFailure :: "('k, failure option) sup_io" where
  "GetFailure = getSup suFailure"

text \<open>\<open>ListenState\<close> sends the state, then subscribes; its loop receives.\<close>

definition subscribeStatusListener :: "string \<Rightarrow> ('k, unit) sup_io" where
  "subscribeStatusListener i = modSup (\<lambda>s. s\<lparr>suBus := subscribeBus i (suBus s)\<rparr>)"

definition unsubscribeStatusListener :: "string \<Rightarrow> ('k, unit) sup_io" where
  "unsubscribeStatusListener i = modSup (\<lambda>s. s\<lparr>suBus := unsubscribeBus i (suBus s)\<rparr>)"

definition receiveStatus :: "string \<Rightarrow> ('k, ws_state option) sup_io" where
  "receiveStatus i = (\<lambda>s. case receiveBus i (suBus s) of
     None \<Rightarrow> (Inr None, s)
   | Some (st, b) \<Rightarrow> (Inr (Some st), s\<lparr>suBus := b\<rparr>))"

section \<open>Is it a fresh run? (initialization.go, and server.go of the agent)\<close>

definition freshRun :: "bool \<Rightarrow> persistent_source \<Rightarrow> workspace \<Rightarrow> template option \<Rightarrow> bool \<Rightarrow> bool" where
  "freshRun isTest src ws tmpl hasSnapshot =
     (if isTest then True
      else case src of
        SOURCE_EMPTY \<Rightarrow> True
      | SOURCE_EXISTING \<Rightarrow> False
      | SOURCE_TEMPLATE_SNAPSHOT \<Rightarrow> False
      | SOURCE_WORKSPACE_SNAPSHOT \<Rightarrow> False
      | SOURCE_UNSET \<Rightarrow>
          if stIsBuild (wsStatus ws) then True
          else (spIsEphemeral (wsSpec ws) \<or> stSuccessfulRuns (wsStatus ws) = 0)
                 \<and> \<not> (HasReadyBuild tmpl \<and> hasSnapshot))"

section \<open>The workspace file of a repository (wsutils.go)\<close>

definition workspaceFiles :: "string list" where
  "workspaceFiles = [''.cordium/workspace.yaml'', ''.cordium/workspace.yml'', ''.cordium.yaml'', ''.cordium.yml'']"

text \<open>
  The first file that exists counts; its metadata and status are those of the Workspace, and it must
  be a valid Workspace. \<open>exist\<close> is \<open>vutils.FSPathExists\<close> and \<open>readYAML\<close> reads the spec in a file.
\<close>

definition LoadWorkspaceFile ::
  "(string \<Rightarrow> bool) \<Rightarrow> (string \<Rightarrow> err + ws_spec option) \<Rightarrow> validators \<Rightarrow> workspace option \<Rightarrow> string
    \<Rightarrow> space option \<Rightarrow> secret list \<Rightarrow> err + workspace" where
  "LoadWorkspaceFile exist readYAML v parent baseDir spc secs =
     (case (parent, spc) of
        (Some ws, Some sp) \<Rightarrow>
          if baseDir = [] then Inl (Errorf ''Cannot load Workspace. Invalid request'')
          else
            (case List.find (\<lambda>p. exist (pathJoin baseDir p)) workspaceFiles of
               None \<Rightarrow> Inl (Errorf ''Could not find Workspace yaml file'')
             | Some p \<Rightarrow>
                 bindS (readYAML (pathJoin baseDir p)) (\<lambda>spec.
                 let child = ws\<lparr>wsSpec := (case spec of None \<Rightarrow> emptySpec | Some sp \<Rightarrow> sp)\<rparr>
                 in case ValidateWorkspace v (Some secs) (Some sp) child of
                      Some e \<Rightarrow> Inl e
                    | None \<Rightarrow> Inr child))
      | _ \<Rightarrow> Inl (Errorf ''Cannot load Workspace. Invalid request''))"

lemma LoadWorkspaceFile_Inr:
  "LoadWorkspaceFile exist readYAML v parent baseDir spc secs = Inr child \<Longrightarrow>
   \<exists>ws sp spec. parent = Some ws \<and> spc = Some sp \<and> child = ws\<lparr>wsSpec := spec\<rparr>
     \<and> ValidateWorkspace v (Some secs) (Some sp) child = None"
  by (auto simp: LoadWorkspaceFile_def Let_def io_simps split: option.splits if_splits)

end
