(* ===== verification/Sup_Image.thy ===== *)
theory Sup_Image
  imports Sup_State
begin

text \<open>
  The image of a Workspace: \<open>cluster/supervisor/supervisor/image.go\<close>, \<open>repo.go\<close> and the functions
  \<open>pullImageFromExternal\<close> and \<open>buildImage\<close> of \<open>podman.go\<close>. An image is pulled, or built from a
  Dockerfile, a repository, a devcontainer or a compose file.
\<close>

section \<open>Pulling and building (podman.go)\<close>

definition registryCreds :: "sup_req option \<Rightarrow> registry_auth option \<Rightarrow> string list" where
  "registryCreds rq auth =
     (case auth of
        None \<Rightarrow> []
      | Some a \<Rightarrow>
          (case raPassword a of
             Some (PwFromSecret n) \<Rightarrow>
               if raUsername a \<noteq> [] \<and> n \<noteq> [] then
                 (case SecretList_GetByName (case rq of None \<Rightarrow> [] | Some r \<Rightarrow> sqSecrets r) n of
                    Inl _ \<Rightarrow> []
                  | Inr sec \<Rightarrow> [''--creds='' @ raUsername a @ '':'' @ Secret_GetValueStr sec])
               else []
           | _ \<Rightarrow> []))"

definition pullImageFromExternal :: "'k sup_env \<Rightarrow> string \<Rightarrow> registry_auth option \<Rightarrow> ('k, unit) sup_io" where
  "pullImageFromExternal env name auth =
     (if seTest env then retE ()
      else
        let img = (if trimSpace name = [] then seImage env else trimSpace name)
        in bindE (getSup (\<lambda>s. registryCreds (suInitReq s) auth)) (\<lambda>creds.
           bindE (setStatus PULLING_IMAGE) (\<lambda>_.
           bindE (tryE (getCommandAsOctelium env
               ([''pull''] @ creds @ (if seIsDev env then [''--log-level=debug''] else []) @ [''--'', img]))) (\<lambda>r.
           case r of
             Inl e \<Rightarrow> bindE (setFailure (FailOther ''ImagePull'')) (\<lambda>_. throwE e)
           | Inr _ \<Rightarrow> getCommandAsOctelium env [''tag'', ''--'', img, ''workspace'']))))"

definition buildArgs :: "(string \<times> string) list \<Rightarrow> string list" where
  "buildArgs args = map (\<lambda>(k, v). ''--build-arg='' @ k @ ''='' @ v) (filter (\<lambda>(k, v). k \<noteq> [] \<and> v \<noteq> []) args)"

definition buildImage ::
  "'k sup_env \<Rightarrow> string \<Rightarrow> string \<Rightarrow> string \<Rightarrow> (string \<times> string) list \<Rightarrow> ('k, unit) sup_io" where
  "buildImage env workdir dockerfile contextDir args =
     bindE (getSup suBuildDir) (\<lambda>base.
     bindE (liftE (checkPathWithin base workdir)) (\<lambda>wd.
     bindE (if dockerfile = [] then retE [] else liftE (checkPathWithin wd dockerfile)) (\<lambda>df.
     bindE (liftE (checkPathWithin wd contextDir)) (\<lambda>cd.
     bindE (setStatus BUILDING_IMAGE) (\<lambda>_.
     bindE (tryE (getCommandAsOctelium env
         ([''build'', ''--tag'', ''workspace''] @ (if df = [] then [] else [''-f'', df]) @ buildArgs args @ [''--'', cd]))) (\<lambda>r.
     case r of
       Inl e \<Rightarrow> bindE (setFailure (FailOther ''ImageBuild'')) (\<lambda>_. throwE e)
     | Inr _ \<Rightarrow> retE ()))))))"

section \<open>From a Dockerfile, a compose file and a devcontainer (image.go)\<close>

definition prepareImageContainerfile :: "'k sup_env \<Rightarrow> dockerfile \<Rightarrow> ('k, unit) sup_io" where
  "prepareImageContainerfile env df =
     bindE (getSup suBuildDir) (\<lambda>base.
     bindE (case df of
        DfInline text \<Rightarrow>
          let p = pathJoin base ''Dockerfile''
          in bindE (runAct env (ActWriteFile p text)) (\<lambda>_.
             bindE (runAct env (ActChown p)) (\<lambda>_. retE p))
      | DfUrl url \<Rightarrow> retE url
      | DfUnset \<Rightarrow> retE []) (\<lambda>p.
     buildImage env base p ''.'' []))"

definition composeArgs :: "(string \<times> string option) list \<Rightarrow> (string \<times> string) list" where
  "composeArgs args = concat (map (\<lambda>(k, v). case v of Some x \<Rightarrow> if k \<noteq> [] \<and> x \<noteq> [] then [(k, x)] else [] | None \<Rightarrow> []) args)"

definition prepareImageDockerCompose :: "'k sup_env \<Rightarrow> string \<Rightarrow> string \<Rightarrow> string \<Rightarrow> ('k, unit) sup_io" where
  "prepareImageDockerCompose env dir filePath service =
     (let p = pathJoin dir filePath in
      bindE (getSup suLog) (\<lambda>log.
      bindE (mapErrE (\<lambda>_. Errorf ''Could not load dockerCompose file'')
               (liftE (seCompose env log (pathClean (fst (pathSplit p))) (snd (pathSplit p))))) (\<lambda>svcs.
      if svcs = [] then throwE (Errorf ''No Services found in this dockerCompose file'')
      else
        (case map_of svcs service of
           None \<Rightarrow> throwE (Errorf (''Could not find dockerCompose service: '' @ service))
         | Some svc \<Rightarrow>
             bindE (if csInit svc = Some True then modSup (\<lambda>s. s\<lparr>suInit := True\<rparr>) else retE ()) (\<lambda>_.
             if csImage svc \<noteq> [] then pullImageFromExternal env (csImage svc) None
             else
               (case csBuild svc of
                  None \<Rightarrow> pullImageFromExternal env [] None
                | Some (df, ctx, args) \<Rightarrow> buildImage env (pathDir p) df ctx (composeArgs args)))))))"

definition buildDevcontainer :: "'k sup_env \<Rightarrow> string \<Rightarrow> devcontainer \<Rightarrow> ('k, unit) sup_io" where
  "buildDevcontainer env dir dc =
     (let build = (\<lambda>df ctx args.
        bindE (if dcOverrideCommand dc = Some False then modSup (\<lambda>s. s\<lparr>suNoOverrideCmd := True\<rparr>) else retE ()) (\<lambda>_.
        bindE (modSup (\<lambda>s. s\<lparr>suInit := dcInit dc\<rparr>)) (\<lambda>_.
        buildImage env dir df ctx args)))
      in case dcBuild dc of
           None \<Rightarrow>
             if dcDockerfile dc = [] then pullImageFromExternal env [] None
             else build (pathJoin dir (dcDockerfile dc)) ''.'' []
         | Some b \<Rightarrow>
             if dbDockerfile b = [] then pullImageFromExternal env [] None
             else build (pathJoin dir (dbDockerfile b))
                    (if dbContext b \<noteq> [] then pathJoin dir (dbContext b) else ''.'') (dbArgs b))"

definition prepareImageFromDevcontainer :: "'k sup_env \<Rightarrow> string \<Rightarrow> string \<Rightarrow> ('k, unit) sup_io" where
  "prepareImageFromDevcontainer env dir filePath =
     bindE (getSup suLog) (\<lambda>log.
     bindE (liftE (seDevcontainer env log filePath)) (\<lambda>dc.
     if dcComposeFile dc \<noteq> [] \<and> dcService dc \<noteq> [] then prepareImageDockerCompose env dir (dcComposeFile dc) (dcService dc)
     else if dcImage dc \<noteq> [] then pullImageFromExternal env (dcImage dc) None
     else buildDevcontainer env dir dc))"

text \<open>The devcontainer of a cloned repository, in its directory or at its root, or else the base image.\<close>

definition devcontainerOrBase :: "'k sup_env \<Rightarrow> ('k, unit) sup_io" where
  "devcontainerOrBase env =
     bindE (getSup (\<lambda>s. (suBuildDir s, suLog s))) (\<lambda>(base, log).
     if seExists env log (pathJoin base ''.devcontainer/devcontainer.json'')
     then prepareImageFromDevcontainer env (pathJoin base ''.devcontainer'')
            (pathJoin base ''.devcontainer/devcontainer.json'')
     else if seExists env log (pathJoin base ''.devcontainer.json'')
     then prepareImageFromDevcontainer env ''.'' (pathJoin base ''.devcontainer.json'')
     else pullImageFromExternal env [] None)"

section \<open>From a repository (image.go, repo.go)\<close>

text \<open>\<open>gitutils.Clone\<close> does nothing without a URL.\<close>

definition gitClone :: "'k sup_env \<Rightarrow> string \<Rightarrow> string \<Rightarrow> ('k, unit) sup_io" where
  "gitClone env url dir = (if url = [] then retE () else runAct env (ActClone url dir))"

definition prepareImageFromGit :: "'k sup_env \<Rightarrow> git_image \<Rightarrow> ('k, unit) sup_io" where
  "prepareImageFromGit env spec =
     bindE (getSup suBuildDir) (\<lambda>base.
     bindE (gitClone env (giUrl spec) base) (\<lambda>_.
     bindE (chownDirOctelium env base) (\<lambda>_.
     if giDockerfile spec \<noteq> []
     then buildImage env base (pathJoin base (giDockerfile spec))
            (if giContext spec \<noteq> [] then giContext spec else ''.'') []
     else devcontainerOrBase env)))"

definition repoPath :: string where "repoPath = ''/octelium/workspace/repo''"

definition doShallowCloneMainRepository :: "'k sup_env \<Rightarrow> repository \<Rightarrow> ('k, unit) sup_io" where
  "doShallowCloneMainRepository env repo =
     bindE (gitClone env (repoUrl repo) repoPath) (\<lambda>_. chownDirOctelium env repoPath)"

definition shallowCloneMainRepository :: "'k sup_env \<Rightarrow> ('k, unit) sup_io" where
  "shallowCloneMainRepository env =
     bindE (getSup (\<lambda>s. (suFresh s, spRepository (suSpec s)))) (\<lambda>(fresh, repo).
     case repo of
       Some r \<Rightarrow>
         if fresh \<and> repoUrl r \<noteq> [] then
           bindE (tryE (doShallowCloneMainRepository env r)) (\<lambda>res.
           case res of
             Inl e \<Rightarrow> bindE (setFailure (FailOther ''RepoClone'')) (\<lambda>_. throwE e)
           | Inr _ \<Rightarrow> retE ())
         else retE ()
     | None \<Rightarrow> retE ())"

text \<open>The image that the spec names in the repository, if it names one.\<close>

definition repositoryImage :: "'k sup_env \<Rightarrow> string \<Rightarrow> image option \<Rightarrow> ('k, unit) sup_io option" where
  "repositoryImage env base img =
     (case img of
        Some (ImgRepository (RiDevcontainer dirPath)) \<Rightarrow>
          if dirPath = [] then None
          else if dirPath = ''.'' then Some (prepareImageFromDevcontainer env base (pathJoin base ''.devcontainer.json''))
          else Some (prepareImageFromDevcontainer env (pathJoin base dirPath)
                       (pathJoin (pathJoin base dirPath) ''devcontainer.json''))
      | Some (ImgRepository (RiDockerfile p ctx)) \<Rightarrow>
          Some (buildImage env base p (if ctx \<noteq> [] then ctx else ''.'') [])
      | _ \<Rightarrow> None)"

text \<open>
  The workspace file of the repository is merged into the spec. The merge cannot fail here: it did
  not fail for the same Workspace and Template before (\<open>phaseRequest\<close>).
\<close>

definition mergeWorkspaceFile :: "'k sup_env \<Rightarrow> string \<Rightarrow> ('k, (err + ws_spec) option) sup_io" where
  "mergeWorkspaceFile env base = (\<lambda>s.
     (case suInitReq s of
        None \<Rightarrow> (Inr None, s)
      | Some rq \<Rightarrow>
          (case LoadWorkspaceFile (seExists env (suLog s)) (seReadYAML env (suLog s)) (seValidators env)
                  (sqWorkspace rq) base (sqSpace rq) (sqSecrets rq) of
             Inl _ \<Rightarrow> (Inr None, s)
           | Inr child \<Rightarrow>
               (Inr (Some (MergeSpec (seMerge env) (seVarOrd env)
                  \<lparr>mrWorkspace = sqWorkspace rq, mrTemplate = sqTemplate rq, mrChildWorkspace = Some child\<rparr>)), s))))"

text \<open>
  \<open>prepareImageFromRepository\<close> calls itself when the merged spec asks for an image of the repository;
  the second clone is made into the same directory. The fuel bounds the number of clones; \<open>None\<close> as its
  result is that it ran out.
\<close>

fun prepareImageFromRepository :: "'k sup_env \<Rightarrow> nat \<Rightarrow> ('k, unit option) sup_io" where
  "prepareImageFromRepository env 0 = retE None"
| "prepareImageFromRepository env (Suc n) =
     bindE (mapErrE (\<lambda>_. Errorf ''Could not shallow clone main repo'') (shallowCloneMainRepository env)) (\<lambda>_.
     bindE (modSup (\<lambda>s. s\<lparr>suBuildDir := repoPath\<rparr>)) (\<lambda>_.
     bindE (getSup (\<lambda>s. repositoryImage env repoPath (spImage (suSpec s)))) (\<lambda>named.
     case named of
       Some m \<Rightarrow> bindE m (\<lambda>_. retE (Some ()))
     | None \<Rightarrow>
         bindE (mergeWorkspaceFile env repoPath) (\<lambda>merged.
         case merged of
           None \<Rightarrow> bindE (devcontainerOrBase env) (\<lambda>_. retE (Some ()))
         | Some (Inl _) \<Rightarrow> bindE (pullImageFromExternal env [] None) (\<lambda>_. retE (Some ()))
         | Some (Inr spec) \<Rightarrow>
             bindE (modSup (\<lambda>s. s\<lparr>suSpec := spec\<rparr>)) (\<lambda>_.
             case spImage spec of
               Some (ImgRegistry reg) \<Rightarrow>
                 if regUrl reg \<noteq> [] then bindE (pullImageFromExternal env (regUrl reg) (regAuthentication reg)) (\<lambda>_. retE (Some ()))
                 else bindE (devcontainerOrBase env) (\<lambda>_. retE (Some ()))
             | Some (ImgDockerfile df) \<Rightarrow> bindE (prepareImageContainerfile env df) (\<lambda>_. retE (Some ()))
             | Some (ImgGit gi) \<Rightarrow> bindE (prepareImageFromGit env gi) (\<lambda>_. retE (Some ()))
             | Some (ImgRepository _) \<Rightarrow>
                 if spRepository spec \<noteq> None then prepareImageFromRepository env n
                 else bindE (devcontainerOrBase env) (\<lambda>_. retE (Some ()))
             | _ \<Rightarrow> bindE (devcontainerOrBase env) (\<lambda>_. retE (Some ())))))))"

section \<open>The choice of the image (image.go)\<close>

definition fromRepository :: "'k sup_env \<Rightarrow> nat \<Rightarrow> ('k, unit option) sup_io" where
  "fromRepository env fuel =
     bindE (getSup (\<lambda>s. spRepository (suSpec s))) (\<lambda>repo.
     if repo \<noteq> None then prepareImageFromRepository env fuel
     else bindE (pullImageFromExternal env [] None) (\<lambda>_. retE (Some ())))"

definition chooseImage :: "'k sup_env \<Rightarrow> nat \<Rightarrow> ('k, unit option) sup_io" where
  "chooseImage env fuel =
     bindE (getSup (\<lambda>s. spImage (suSpec s))) (\<lambda>img.
     case img of
       Some (ImgDockerfile df) \<Rightarrow> bindE (prepareImageContainerfile env df) (\<lambda>_. retE (Some ()))
     | Some (ImgRegistry reg) \<Rightarrow>
         if regUrl reg \<noteq> [] then bindE (pullImageFromExternal env (regUrl reg) (regAuthentication reg)) (\<lambda>_. retE (Some ()))
         else bindE (pullImageFromExternal env [] None) (\<lambda>_. retE (Some ()))
     | Some (ImgGit gi) \<Rightarrow> bindE (prepareImageFromGit env gi) (\<lambda>_. retE (Some ()))
     | _ \<Rightarrow> fromRepository env fuel)"

definition prepareAndBuildImage :: "'k sup_env \<Rightarrow> nat \<Rightarrow> ('k, unit option) sup_io" where
  "prepareAndBuildImage env fuel =
     bindE (getSup (\<lambda>s. (isBuildReq (suInitReq s), suFresh s))) (\<lambda>(isBuild, fresh).
     if isBuild \<or> fresh then chooseImage env fuel else retE (Some ()))"

end
