(* ===== verification/Sup_Container.thy ===== *)
theory Sup_Container
  imports Sup_Image
begin

text \<open>
  The container of a Workspace: \<open>cluster/supervisor/supervisor/podman.go\<close> and the cgroups of
  \<open>cgroup.go\<close> that bound it. The command lines are the ones of the code, option by option.
\<close>

section \<open>The cgroup of the Workspace (cgroup.go)\<close>

definition cgParent :: string where "cgParent = ''/sys/fs/cgroup/octelium''"

definition getCgroupWorkspace :: string where "getCgroupWorkspace = pathJoin cgParent ''ws''"

definition trimPrefix :: "string \<Rightarrow> string \<Rightarrow> string" where
  "trimPrefix s p = (if hasPrefix s p then drop (length p) s else s)"

definition getRelativePathCgroupWorkspace :: string where
  "getRelativePathCgroupWorkspace = trimPrefix getCgroupWorkspace ''/sys/fs/cgroup/''"

definition cgroupCommands :: "int \<Rightarrow> int \<Rightarrow> string list" where
  "cgroupCommands megabytes millicores =
     (let limitMemoryBytes = megabytes * 1000 * 1000; file = pathJoin cgParent in
      [''mkdir -p '' @ cgParent,
       ''mkdir -p '' @ getCgroupWorkspace,
       ''mkdir -p '' @ pathJoin getCgroupWorkspace ''leaf'',
       ''echo \"+memory +cpu +io +pids\" > '' @ file ''cgroup.subtree_control'',
       ''echo \"+memory +cpu +io +pids\" > '' @ pathJoin getCgroupWorkspace ''cgroup.subtree_control'',
       ''echo '' @ showInt limitMemoryBytes @ '' > '' @ file ''memory.max'',
       ''echo '' @ showInt (limitMemoryBytes * 90 div 100) @ '' > '' @ file ''memory.high'',
       ''echo '' @ showInt (limitMemoryBytes * 70 div 100) @ '' > '' @ file ''memory.low'',
       ''echo 9000 > '' @ file ''pids.max'',
       ''echo '' @ showInt (millicores * 100) @ '' 100000 > '' @ file ''cpu.max'',
       ''echo 98 > '' @ file ''cpu.uclamp.max'',
       ''chown -R octelium:octelium '' @ getCgroupWorkspace])"

definition prepareCgroups :: "'k sup_env \<Rightarrow> ('k, unit) sup_io" where
  "prepareCgroups env =
     bindE (getSup suInitReq) (\<lambda>rq.
     if rq = None \<or> seTest env then retE ()
     else forE (cgroupCommands (getLimitMemoryMegabytes rq) (getLimitMillicores rq))
            (\<lambda>c. tryAct env (ActShell c)))"

text \<open>
  The supervisor writes its pid into \<open>cgroup.procs\<close> of a cgroup; \<open>self\<close> stands for the pid, and for the
  cgroup that it was found in by \<open>backupMyCgroup\<close>, which is not recorded in a test.
\<close>

definition moveSelfToWorkspaceLeafCgroup :: "'k sup_env \<Rightarrow> ('k, unit) sup_io" where
  "moveSelfToWorkspaceLeafCgroup env = (if seTest env then retE () else tryAct env (ActWriteFile (pathJoin (pathJoin getCgroupWorkspace ''leaf'') ''cgroup.procs'') ''self''))"

definition returnToMyCgroup :: "'k sup_env \<Rightarrow> ('k, unit) sup_io" where
  "returnToMyCgroup env = (if seTest env then retE () else tryAct env (ActWriteFile ''/sys/fs/cgroup/self/cgroup.procs'' ''self''))"

definition createInitCgroup :: "'k sup_env \<Rightarrow> ('k, unit) sup_io" where
  "createInitCgroup env = runAct env (ActShell (''mkdir -p '' @ pathJoin getCgroupWorkspace ''init''))"

section \<open>Starting it\<close>

definition portArgs :: "reserved_port \<Rightarrow> string list" where
  "portArgs p = [''-p'', showInt (rpPort p) @ '':'' @ showInt (rpPort p) @ (if rpProtocol p = ''udp'' then ''/udp'' else [])]"

definition podArgs :: "'k sup_env \<Rightarrow> sup_req option \<Rightarrow> string list" where
  "podArgs env rq =
     [''pod'', ''create'', ''--name'', ''ws'', ''--dns'', ''8.8.8.8'', ''--dns-search=.'', ''--hostname'', ''cordium'']
     @ concat (map portArgs (getReservedPorts (seNet env)))
     @ [''--memory='' @ showInt (getLimitMemoryMegabytes rq * 95 div 100) @ ''m'',
        ''--network=slirp4netns:allow_host_loopback=false'']"

definition createPod :: "'k sup_env \<Rightarrow> ('k, unit) sup_io" where
  "createPod env =
     (if seTest env then retE ()
      else
        bindE (tryE (getCommandAsOctelium env [''pod'', ''exists'', ''ws''])) (\<lambda>r.
        case r of
          Inr _ \<Rightarrow> retE ()
        | Inl _ \<Rightarrow> bindE (getSup suInitReq) (\<lambda>rq. getCommandAsOctelium env (podArgs env rq))))"

definition mountBinaries :: "string list" where
  "mountBinaries = [''/bin/cordium-workspace'', ''/bin/octelium'', ''/bin/cordium-git-cred-helper'', ''/bin/octeliumctl'',
     ''/bin/cordium'']"

definition proxySocketPath :: string where "proxySocketPath = ''/tmp/octelium-proxy.socket''"
definition sshSocketPath :: string where "sshSocketPath = ''/tmp/octelium-ssh-agent.socket''"

text \<open>Each capability once, in the order of its first occurrence.\<close>

fun dedup :: "string list \<Rightarrow> string list \<Rightarrow> string list" where
  "dedup seen [] = []"
| "dedup seen (c # cs) = (if c \<in> set seen then dedup seen cs else c # dedup (c # seen) cs)"

definition deduplicateCapabilities :: "string list \<Rightarrow> string list" where
  "deduplicateCapabilities caps = dedup [] caps"

definition capOption :: "string \<Rightarrow> string list \<Rightarrow> string list" where
  "capOption opt caps =
     (let cs = deduplicateCapabilities caps
      in if 0 < length cs \<and> length cs < 128 then [opt, joinWith '','' cs] else [])"

definition setCaps :: "capabilities option \<Rightarrow> string list" where
  "setCaps caps =
     (case caps of None \<Rightarrow> [] | Some c \<Rightarrow> capOption ''--cap-add'' (capAdd c) @ capOption ''--cap-drop'' (capDrop c))"

definition spaceCaps :: "sup_req \<Rightarrow> capabilities option" where
  "spaceCaps rq = Option.bind (sqSpace rq) (\<lambda>sp. Option.bind (ssRuntime (spcSpec sp)) srCapabilities)"

text \<open>The options that depend on the spec, the Space and the configuration of the cluster.\<close>

definition specArgs :: "'k sup_env \<Rightarrow> sup_req \<Rightarrow> ws_spec \<Rightarrow> bool \<Rightarrow> bool \<Rightarrow> string list" where
  "specArgs env rq spec isBuild initProcess =
     (let rt = spRuntime spec in
      (if seIsDev env then [''--env=OCTELIUM_DEV=true''] else [])
      @ (if \<not> isBuild \<and> (case rt of None \<Rightarrow> False | Some r \<Rightarrow> rtReadOnly r) then [''--read-only''] else [])
      @ concat (map (\<lambda>b. [''--volume'', b @ '':'' @ b @ '':ro,exec,nosuid'']) mountBinaries)
      @ (if initProcess \<or> (case rt of None \<Rightarrow> True | Some r \<Rightarrow> \<not> rtDisableInit r) then [''--init''] else [])
      @ (if isBuild then []
         else [''--volume'', proxySocketPath @ '':/var/run/octelium-proxy.sock'',
               ''--volume'', sshSocketPath @ '':/var/run/octelium-ssh-agent.sock''])
      @ (case rt of
           None \<Rightarrow> []
         | Some r \<Rightarrow> if rtEntrypoint r \<noteq> [] then [''--entrypoint'', trimSpace (rtEntrypoint r)] else [])
      @ setCaps (Option.bind rt rtCapabilities)
      @ setCaps (spaceCaps rq)
      @ setCaps (sqClusterCaps rq))"

definition commonArgs :: "'k sup_env \<Rightarrow> sup_req option \<Rightarrow> string \<Rightarrow> string list" where
  "commonArgs env rq domain =
     [''--name'', ''workspace'', ''--pod'', ''ws'', ''-d'', ''--dns'', ''8.8.8.8'', ''--dns-search=.'', ''--http-proxy=false'',
      ''--no-hosts'',
      ''--volume'', ''/octelium/podman/dind/docker:/var/lib/docker'',
      ''--volume'', ''/octelium/podman/dind/containers:/var/lib/containers'',
      ''--volume'', ''/octelium/sockets:/run/octelium'',
      ''--volume'', VolumeRootDir @ '':'' @ VolumeRootDir @ '':rbind,nodev,nosuid'',
      ''--volume'', ''/octelium/podman/tmp/var/tmp:/var/tmp'',
      ''--volume'', ''/octelium/podman/tmp/tmp:/tmp'',
      ''--device=/dev/net/tun-octelium0:/dev/net/tun'',
      ''--log-level='' @ (if seIsDev env then ''debug'' else ''info''),
      ''--memory='' @ showInt (getLimitMemoryMegabytes rq * 95 div 100) @ ''m'',
      ''--memory-reservation='' @ showInt (getLimitMemoryMegabytes rq * 85 div 100) @ ''m'',
      ''--security-opt=seccomp=/etc/containers/seccomp.json'', ''--runtime=crun'',
      ''-e'', ''OCTELIUM_DOMAIN='' @ domain,
      ''-e'', ''OCTELIUM_AUTH_PROXY_SOCKET=/var/run/octelium-proxy.sock'']"

definition containerCmd :: "bool \<Rightarrow> runtime option \<Rightarrow> string list" where
  "containerCmd noOverride rt =
     (if noOverride then []
      else case rt of
        Some r \<Rightarrow> if rtCmd r \<noteq> [] then [''/bin/sh'', ''-c'', trimSpace (rtCmd r)] else [''/bin/sh'', ''-c'', ''sleep infinity'']
      | None \<Rightarrow> [''/bin/sh'', ''-c'', ''sleep infinity''])"

definition runArgs :: "'k sup_env \<Rightarrow> sup_req option \<Rightarrow> string list \<Rightarrow> string list \<Rightarrow> string list" where
  "runArgs env rq common cmd =
     [''run'', ''--cap-add'', ''net_admin,sys_admin,net_raw,net_bind_service'', ''--cpus='' @ seCPUs env (getLimitMillicores rq * 97),
      ''--security-opt=unmask=/sys/fs/cgroup'', ''--security-opt=unmask=/proc/sys'',
      ''--tmpfs'', ''/sys/kernel/security:rw,size=100k,mode=1755'',
      ''--cgroup-manager=cgroupfs'', ''--cgroup-parent='' @ getRelativePathCgroupWorkspace]
     @ common @ [''--'', ''workspace''] @ cmd"

definition doRunContainer :: "'k sup_env \<Rightarrow> string list \<Rightarrow> string list \<Rightarrow> ('k, unit) sup_io" where
  "doRunContainer env common cmd =
     bindE (getSup suInitReq) (\<lambda>rq.
     bindE (if seIsDev env
            then bindE (runAct env (ActShell ''ls -la'')) (\<lambda>_. runAct env (ActShell ''cat cgroup.subtree_control''))
            else retE ()) (\<lambda>_.
     bindE (tryE (getCommandAsOctelium env (runArgs env rq common cmd))) (\<lambda>r.
     case r of
       Inr _ \<Rightarrow> retE ()
     | Inl _ \<Rightarrow>
         bindE (tryAct env (ActPodman [''container'', ''rm'', ''-f'', ''workspace''])) (\<lambda>_.
         throwE (Errorf ''Could not run any of the podman run cmds'')))))"

text \<open>A request without \<open>ClientInfo\<close> is a nil dereference here.\<close>

definition podmanRunImage :: "'k sup_env \<Rightarrow> ('k, unit) sup_io" where
  "podmanRunImage env =
     (if seTest env then retE ()
      else
        bindE (getSup (\<lambda>s. s)) (\<lambda>s.
        case suInitReq s of
          None \<Rightarrow> throwE (Panic ''initReq'')
        | Some rq \<Rightarrow>
            (case sqDomain rq of
               None \<Rightarrow> throwE (Panic ''ClientInfo'')
             | Some domain \<Rightarrow>
                 bindE (tryE (doRunContainer env
                    (commonArgs env (Some rq) domain
                      @ specArgs env rq (suSpec s) (isBuildReq (Some rq)) (suInit s))
                    (containerCmd (suNoOverrideCmd s) (spRuntime (suSpec s))))) (\<lambda>r.
                 case r of
                   Inl e \<Rightarrow> bindE (setFailure (FailOther ''RunContainer'')) (\<lambda>_. throwE e)
                 | Inr _ \<Rightarrow> retE ()))))"

definition doStartContainer :: "'k sup_env \<Rightarrow> ('k, unit) sup_io" where
  "doStartContainer env =
     bindE (tryAct env (ActPodman [''system'', ''migrate''])) (\<lambda>_.
     bindE (tryAct env (ActPodman [''init'', ''workspace''])) (\<lambda>_.
     getCommandAsOctelium env [''start'', ''workspace'']))"

section \<open>Waiting for it, and the agent in it\<close>

definition inspectWorkspaceContainer :: "'k sup_env \<Rightarrow> nat \<Rightarrow> ('k, (bool \<times> string) option) sup_io" where
  "inspectWorkspaceContainer env i =
     bindE (getCommandAsOctelium env [''inspect'', ''--type'', ''container'', ''workspace'']) (\<lambda>_.
     bindE (getSup suLog) (\<lambda>log. liftE (seInspect env log i)))"

definition isContainerIsRunning :: "'k sup_env \<Rightarrow> nat \<Rightarrow> ('k, bool) sup_io" where
  "isContainerIsRunning env i =
     bindE (tryE (inspectWorkspaceContainer env i)) (\<lambda>r.
     case r of
       Inl _ \<Rightarrow> retE False
     | Inr None \<Rightarrow> retE False
     | Inr (Some (running, st)) \<Rightarrow>
         if st = ''exited'' then throwE (Errorf ''Workspace container exited'')
         else retE (running \<and> st = ''running''))"

fun waitRunning :: "'k sup_env \<Rightarrow> nat \<Rightarrow> nat \<Rightarrow> ('k, unit) sup_io" where
  "waitRunning env 0 i = throwE (Errorf ''Could not get container status after 1000 attempts'')"
| "waitRunning env (Suc n) i =
     bindE (mapErrE (\<lambda>_. Errorf ''Could not check if container is running'') (isContainerIsRunning env i)) (\<lambda>running.
     if running then retE () else waitRunning env n (i + 1))"

definition waitUntilContainerIsRunning :: "'k sup_env \<Rightarrow> ('k, unit) sup_io" where
  "waitUntilContainerIsRunning env = (if seTest env then retE () else waitRunning env 5000 0)"

definition copyToContainer :: "'k sup_env \<Rightarrow> ('k, unit) sup_io" where
  "copyToContainer env =
     (if seTest env then retE ()
      else bindE (getSup suCopies) (\<lambda>cps.
        forE cps (\<lambda>(src, dst). getCommandAsOctelium env [''cp'', ''--'', src, ''workspace:'' @ dst])))"

definition execWorkspaceBinary :: "'k sup_env \<Rightarrow> ('k, unit) sup_io" where
  "execWorkspaceBinary env =
     (if seTest env then retE ()
      else
        bindE (createInitCgroup env) (\<lambda>_.
        bindE (modSup (\<lambda>s. s\<lparr>suRunCmd := True\<rparr>)) (\<lambda>_.
        runAct env (ActPodman [''exec'', ''--user'', ''0'', ''workspace'', ''/bin/cordium-workspace'', ''serve'']))))"

section \<open>The outer container\<close>

definition podmanStopOuter :: "'k sup_env \<Rightarrow> ('k, unit) sup_io" where
  "podmanStopOuter env = tryAct env (ActRootPodman [''stop'', ''--root=/octelium-root'', ''-t'', ''5000'', ''inner''])"

end
