(* ===== verification/Sup_Init.thy ===== *)
theory Sup_Init
  imports Sup_Container
begin

text \<open>
  How a Workspace is started and shut down by its supervisor: \<open>initialization.go\<close>, \<open>shutdown.go\<close> and the
  goroutines of \<open>api.go\<close>, \<open>heathcheck.go\<close> and \<open>utils.go\<close> in \<open>cluster/supervisor/supervisor\<close>. The
  initialization is a list of phases, between which other goroutines run.
\<close>

section \<open>The proxies and the agent\<close>

text \<open>\<open>errors.Errorf("...: %+v", err)\<close>: the text of the cause is kept, the error is not; a panic stays one.\<close>

fun wrapErr :: "string \<Rightarrow> err \<Rightarrow> err" where
  "wrapErr m (Panic p) = Panic p"
| "wrapErr m e = Errorf m"

definition runOcteliumProxy :: "'k sup_env \<Rightarrow> ('k, unit) sup_io" where
  "runOcteliumProxy env =
     (if seTest env then retE ()
      else
        bindE (getSup suInitReq) (\<lambda>rq.
        if isBuildReq rq then retE ()
        else if Option.bind rq sqDomain = None
        then throwE (Errorf ''No clientInfo in the request. Cannot run Octelium proxy'')
        else
          bindE (runAct env ActProxy) (\<lambda>_.
          bindE (modSup (\<lambda>s. s\<lparr>suProxy := True\<rparr>)) (\<lambda>_.
          runAct env (ActGo ''octelium proxy'')))))"

definition runSSHAgent :: "'k sup_env \<Rightarrow> ('k, unit) sup_io" where
  "runSSHAgent env =
     (if seTest env then retE ()
      else bindE (getSup suInitReq) (\<lambda>rq. if isBuildReq rq then retE () else runAct env ActSSHAgent))"

text \<open>One check of the agent every half second, for five minutes.\<close>

fun awaitAgent :: "'k sup_env \<Rightarrow> nat \<Rightarrow> ('k, unit) sup_io" where
  "awaitAgent env 0 = throwE (Errorf ''Timeout exceeded waiting for Workspace agent to be ready'')"
| "awaitAgent env (Suc n) =
     bindE (getSup suShuttingDown) (\<lambda>down.
     if down then throwE (Errorf ''Shutdown started while waiting for Workspace agent to be ready'')
     else
       bindE (tryE (runAct env (ActAgent ''health''))) (\<lambda>r.
       case r of Inr _ \<Rightarrow> retE () | Inl _ \<Rightarrow> awaitAgent env n))"

definition waitUntilWorkspaceAgentReady :: "'k sup_env \<Rightarrow> ('k, unit) sup_io" where
  "waitUntilWorkspaceAgentReady env =
     (if seTest env then runAct env (ActAgent ''health'') else awaitAgent env 600)"

fun prepareAttempts :: "'k sup_env \<Rightarrow> nat \<Rightarrow> ('k, unit) sup_io" where
  "prepareAttempts env 0 = throwE (Errorf ''Could not send prepare call to Workspace'')"
| "prepareAttempts env (Suc n) =
     bindE (tryE (runAct env (ActAgent ''prepare''))) (\<lambda>r.
     case r of Inr _ \<Rightarrow> retE () | Inl _ \<Rightarrow> prepareAttempts env n)"

definition setNetworkPolicySup :: "'k sup_env \<Rightarrow> ('k, unit) sup_io" where
  "setNetworkPolicySup env = (\<lambda>s.
     let net = Option.bind (spRuntime (suSpec s)) rtNetwork
     in case setNetworkPolicy (seNet env) net (suNet s) of
          (r, n) \<Rightarrow> (r, s\<lparr>suNet := n,
             suLog := suLog s @ [(ActSetPolicy net, case r of Inl e \<Rightarrow> Some e | Inr _ \<Rightarrow> None)]\<rparr>))"

section \<open>The phases of doInitialize\<close>

definition whenE :: "bool \<Rightarrow> ('w, unit) io \<Rightarrow> ('w, unit) io" where
  "whenE c m = (if c then m else retE ())"

definition phaseRequest :: "'k sup_env \<Rightarrow> ('k, unit) sup_io" where
  "phaseRequest env =
     bindE (getSup suLog) (\<lambda>log.
     bindE (whenE (seExists env log ''/octelium/sockets/workspace.sock'')
              (tryAct env (ActRemove ''/octelium/sockets/workspace.sock''))) (\<lambda>_.
     bindE (getSup (\<lambda>s. (suKey s, suInitReq s))) (\<lambda>(key, rq).
     if key = None then throwE (Errorf ''wg private key cannot be nil'')
     else
       (case rq of
          None \<Rightarrow> throwE (Errorf ''Cannot doInitialize. No Workspace in req'')
        | Some q \<Rightarrow>
            (case sqWorkspace q of
               None \<Rightarrow> throwE (Errorf ''Cannot doInitialize. No Workspace in req'')
             | Some ws \<Rightarrow>
                 bindE (mapErrE (wrapErr ''Could not merge spec'')
                    (liftE (MergeSpec (seMerge env) (seVarOrd env)
                       \<lparr>mrWorkspace = Some ws, mrTemplate = sqTemplate q, mrChildWorkspace = None\<rparr>))) (\<lambda>spec.
                 modSup (\<lambda>s. s\<lparr>suSpec := spec, suSource := sqSource q,
                   suFresh := freshRun (seTest env) (sqSource q) ws (sqTemplate q) (sqTemplateHasSnapshot q),
                   suWsUID := mdUid (wsMetadata ws)\<rparr>)))))))"

definition phaseOwners :: "'k sup_env \<Rightarrow> ('k, unit) sup_io" where
  "phaseOwners env =
     bindE (getSup suFresh) (\<lambda>fresh.
     bindE (whenE fresh (tryAct env (ActChown ''/octelium''))) (\<lambda>_.
     bindE (whenE fresh (tryAct env (ActChown ''/home/octelium''))) (\<lambda>_.
     whenE fresh (modSup (\<lambda>s. s\<lparr>suCopies := suCopies s @ [(''/octelium/workspace'', ''/workspace'')]\<rparr>)))))"

definition phaseCgroups :: "'k sup_env \<Rightarrow> ('k, unit) sup_io" where
  "phaseCgroups env =
     bindE (prepareCgroups env) (\<lambda>_.
     bindE (moveSelfToWorkspaceLeafCgroup env) (\<lambda>_.
     bindE (getSup suFresh) (\<lambda>fresh.
     bindE (whenE (\<not> fresh) (tryAct env (ActPodman [''inspect'', ''--type'', ''container'', ''workspace'']))) (\<lambda>_.
     whenE (seIsDev env \<and> \<not> seTest env)
       (forE [''env'', ''uname -a'', ''cat /proc/mounts'', ''ls -la /octelium'', ''cat /etc/os-release'',
              ''podman --log-level=debug info'', ''cat /proc/mounts'']
          (\<lambda>c. tryAct env (ActShell c)))))))"

definition phaseProxies :: "'k sup_env \<Rightarrow> ('k, unit) sup_io" where
  "phaseProxies env =
     bindE (mapErrE (wrapErr ''Could not run Octelium Proxy'') (runOcteliumProxy env)) (\<lambda>_.
     mapErrE (wrapErr ''Could not run SSH agent'') (runSSHAgent env))"

text \<open>An endless recursion is a stack overflow.\<close>

definition phaseImage :: "'k sup_env \<Rightarrow> nat \<Rightarrow> ('k, unit) sup_io" where
  "phaseImage env fuel =
     bindE (getSup suFresh) (\<lambda>fresh.
     whenE fresh
       (bindE (mapErrE (wrapErr ''Could not create workspace pod'') (createPod env)) (\<lambda>_.
        bindE (mapErrE (wrapErr ''Could not prepare and build Image'') (prepareAndBuildImage env fuel)) (\<lambda>r.
        case r of None \<Rightarrow> throwE (Panic ''stack overflow'') | Some _ \<Rightarrow> retE ()))))"

definition phaseRuntime :: "'k sup_env \<Rightarrow> ('k, unit) sup_io" where
  "phaseRuntime env =
     bindE (setStatus STARTING_RUNTIME) (\<lambda>_.
     bindE (whenE (seIsDev env \<and> \<not> seTest env) (tryAct env (ActShell ''skopeo inspect containers-storage:localhost/workspace''))) (\<lambda>_.
     bindE (getSup suFresh) (\<lambda>fresh.
     whenE (fresh \<and> \<not> seTest env) (tryAct env (ActChown ''/octelium/workspace'')))))"

definition phasePolicy :: "'k sup_env \<Rightarrow> ('k, unit) sup_io" where
  "phasePolicy env =
     bindE (tryE (setNetworkPolicySup env)) (\<lambda>r.
     case r of
       Inl e \<Rightarrow> bindE (setFailure (FailOther ''NetworkPolicy'')) (\<lambda>_.
                 throwE (wrapErr ''Could not set the Workspace network policy'' e))
     | Inr _ \<Rightarrow> retE ())"

definition phaseStart :: "'k sup_env \<Rightarrow> ('k, unit) sup_io" where
  "phaseStart env =
     bindE (getSup suFresh) (\<lambda>fresh.
     if fresh then mapErrE (wrapErr ''Could not run Workspace container image'') (podmanRunImage env)
     else mapErrE (wrapErr ''Could not start Workspace container'') (doStartContainer env))"

definition phaseRunning :: "'k sup_env \<Rightarrow> ('k, unit) sup_io" where
  "phaseRunning env =
     bindE (mapErrE (wrapErr ''Could not wait until Workspace container is running'') (waitUntilContainerIsRunning env)) (\<lambda>_.
     bindE (tryAct env (ActGo ''stats'')) (\<lambda>_.
     bindE (tryE (copyToContainer env)) (\<lambda>_. retE ())))"

definition phaseAgent :: "'k sup_env \<Rightarrow> ('k, unit) sup_io" where
  "phaseAgent env =
     bindE (mapErrE (wrapErr ''Could not execute the Workspace agent inside the Workspace'') (execWorkspaceBinary env)) (\<lambda>_.
     bindE (whenE (\<not> seTest env) (tryAct env (ActGo ''wait for the agent''))) (\<lambda>_.
     bindE (returnToMyCgroup env) (\<lambda>_.
     mapErrE (wrapErr ''Could not wait until Workspace agent is ready'') (waitUntilWorkspaceAgentReady env))))"

definition phasePrepare :: "'k sup_env \<Rightarrow> ('k, unit) sup_io" where
  "phasePrepare env =
     bindE (tryAct env (ActGo ''health check'')) (\<lambda>_.
     bindE (tryAct env (ActGo ''sync state'')) (\<lambda>_.
     bindE (getSup (\<lambda>s. (Option.bind (suInitReq s) sqDomain, suKey s))) (\<lambda>(dom, key).
     if dom = None then throwE (Panic ''ClientInfo'')
     else if key = None then throwE (Panic ''wgPrivateKey'')
     else
       bindE (prepareAttempts env 30) (\<lambda>_.
       bindE (modSup (\<lambda>s. s\<lparr>suKey := None\<rparr>)) (\<lambda>_.
       tryAct env (ActGo ''listen to events''))))))"

definition initPhases :: "'k sup_env \<Rightarrow> nat \<Rightarrow> ('k, unit) sup_io list" where
  "initPhases env fuel =
     [phaseRequest env, phaseOwners env, phaseCgroups env, phaseProxies env, phaseImage env fuel, phaseRuntime env,
      phasePolicy env, phaseStart env, phaseRunning env, phaseAgent env, phasePrepare env]"

definition doInitialize :: "'k sup_env \<Rightarrow> nat \<Rightarrow> ('k, unit) sup_io" where
  "doInitialize env fuel = forE (initPhases env fuel) (\<lambda>m. m)"

text \<open>
  What \<open>initialize\<close> does with the error of \<open>doInitialize\<close>: a failure is guessed when none was set.
\<close>

definition isDeadline :: "'k sup_env \<Rightarrow> err \<Rightarrow> bool" where
  "isDeadline env e = (case e of Errorf _ \<Rightarrow> False | _ \<Rightarrow> seIsDeadline env e)"

definition endInitialize :: "'k sup_env \<Rightarrow> err \<Rightarrow> ('k, unit) sup_io" where
  "endInitialize env e =
     bindE (getSup suFailure) (\<lambda>f.
     bindE (if f \<noteq> None then retE ()
            else setFailure (if isDeadline env e then FailOther ''StartupTimeoutExceeded'' else FailOther ''StartupUnknown'')) (\<lambda>_.
     modSup (\<lambda>s. s\<lparr>suInitErrs := suInitErrs s @ [e]\<rparr>)))"

definition isPanicErr :: "err \<Rightarrow> bool" where
  "isPanicErr e = (case e of Panic _ \<Rightarrow> True | _ \<Rightarrow> False)"

definition initialize :: "'k sup_env \<Rightarrow> nat \<Rightarrow> ('k, unit) sup_io" where
  "initialize env fuel =
     bindE (tryE (doInitialize env fuel)) (\<lambda>r.
     case r of
       Inr _ \<Rightarrow> retE ()
     | Inl e \<Rightarrow> if isPanicErr e then throwE e else endInitialize env e)"

section \<open>Shutting down (shutdown.go)\<close>

text \<open>Whether this call shuts down: the first one does.\<close>

definition beginShutdown :: "('k, bool) sup_io" where
  "beginShutdown = (\<lambda>s. (Inr (\<not> suShuttingDown s), s\<lparr>suShuttingDown := True\<rparr>))"

definition savesStorage :: "ws_state \<Rightarrow> bool" where
  "savesStorage st \<longleftrightarrow> st \<in> {RUNNING, STARTING_RUNTIME, STOPPING_REQUEST, STOPPING}"

definition cleanupContainer :: "'k sup_env \<Rightarrow> ('k, unit) sup_io" where
  "cleanupContainer env =
     bindE (tryAct env (ActPodman [''inspect'', ''--type'', ''container'', ''workspace''])) (\<lambda>_.
     bindE (tryAct env (ActPodman [''container'', ''cleanup'', ''workspace''])) (\<lambda>_.
     tryAct env (ActPodman [''inspect'', ''--type'', ''container'', ''workspace''])))"

definition stopContainer :: "'k sup_env \<Rightarrow> ('k, unit) sup_io" where
  "stopContainer env =
     bindE (tryAct env (ActPodman [''stop'', ''workspace'', ''-t'', ''60''])) (\<lambda>_.
     bindE (getSup suProxy) (\<lambda>p.
     whenE p (tryAct env (ActGo ''close octelium proxy''))))"

definition downPhases :: "'k sup_env \<Rightarrow> ws_state \<Rightarrow> ('k, unit) sup_io list" where
  "downPhases env lastStatus =
     [setStatus STOPPING, stopContainer env, whenE (savesStorage lastStatus) (cleanupContainer env), setStatus STOPPED]"

text \<open>
  \<open>doShutdownInner\<close>, once \<open>waitUntilRunningForShutdown\<close> has returned; it reads the status at that moment.
\<close>

definition doShutdownInner :: "'k sup_env \<Rightarrow> ('k, unit) sup_io" where
  "doShutdownInner env =
     bindE (getSup suStatus) (\<lambda>lastStatus. forE (downPhases env lastStatus) (\<lambda>m. m))"

text \<open>The outer supervisor: its errors are logged.\<close>

definition onNet :: "('k net_srv, 'a) io \<Rightarrow> ('k, 'a) sup_io" where
  "onNet m = (\<lambda>s. case m (suNet s) of (r, n) \<Rightarrow> (r, s\<lparr>suNet := n\<rparr>))"

definition doShutdownOuter :: "'k sup_env \<Rightarrow> ('k, unit) sup_io" where
  "doShutdownOuter env =
     (if seTest env then retE ()
      else
        bindE (podmanStopOuter env) (\<lambda>_.
        bindE (modSup (\<lambda>s. s\<lparr>suOuterDone := True\<rparr>)) (\<lambda>_.
        bindE (tryE (onNet (teardownNetworkPolicy (seNet env)))) (\<lambda>_.
        bindE (onNet closeNetworkPolicyServer) (\<lambda>_.
        tryAct env (ActShell ''remove outer cgroup''))))))"

section \<open>The supervisor at work\<close>

text \<open>Where the goroutines \<open>initialize\<close> and \<open>doShutdownInner\<close> are: the phases that remain.\<close>

datatype 'p thread = Idle | At 'p | Done | Crashed

record 'k pod =
  pdSup :: "'k sup"
  pdInit :: "nat thread"
  pdDown :: "(ws_state \<times> nat) thread"
  pdFails :: nat

definition startPod :: "'k sup \<Rightarrow> 'k pod" where
  "startPod s = \<lparr>pdSup = s, pdInit = Idle, pdDown = Idle, pdFails = 0\<rparr>"

definition afterPhase :: "'k sup_env \<Rightarrow> nat \<Rightarrow> nat \<Rightarrow> (err + unit) \<times> 'k sup \<Rightarrow> 'k pod \<Rightarrow> 'k pod" where
  "afterPhase env fuel k rs p =
     (case rs of
        (Inr _, s) \<Rightarrow> p\<lparr>pdSup := s, pdInit := (if Suc k < length (initPhases env fuel) then At (Suc k) else Done)\<rparr>
      | (Inl e, s) \<Rightarrow> if isPanicErr e then p\<lparr>pdSup := s, pdInit := Crashed\<rparr>
                     else p\<lparr>pdSup := snd (endInitialize env e s), pdInit := Done\<rparr>)"

text \<open>
  Every health check that fails counts, one that succeeds resets the count; more than 20 in a row
  are a failure.
\<close>

definition healthCheck :: "bool \<Rightarrow> 'k pod \<Rightarrow> 'k pod" where
  "healthCheck ok p =
     (if ok then p\<lparr>pdFails := 0\<rparr>
      else if pdFails p + 1 > 20 then p\<lparr>pdFails := pdFails p + 1, pdSup := snd (setFailure FailHealthCheck (pdSup p))\<rparr>
      else p\<lparr>pdFails := pdFails p + 1\<rparr>)"

text \<open>
  The steps: requests; a phase of the initialization or of the shutdown, which begins by a request, an error, or a signal;
  a state or an event of the agent arrives (\<open>doSyncState\<close>, \<open>startListenEvent\<close>) once \<open>phasePrepare\<close> has begun;
  a health check; a subscriber; the outer supervisor shuts down.
\<close>

inductive pod_step :: "'k sup_env \<Rightarrow> nat \<Rightarrow> 'k pod \<Rightarrow> 'k pod \<Rightarrow> bool" for env fuel where
  request: "Initialize req (pdSup p) = (Inr began, s) \<Longrightarrow>
     pod_step env fuel p (p\<lparr>pdSup := s, pdInit := (if began then At 0 else pdInit p)\<rparr>)"
| init: "pdInit p = At k \<Longrightarrow> pod_step env fuel p (afterPhase env fuel k ((initPhases env fuel ! k) (pdSup p)) p)"
| shutdown: "Shutdown (pdSup p) = (Inr (), s) \<Longrightarrow> pod_step env fuel p (p\<lparr>pdSup := s\<rparr>)"
| ack: "ShutdownAck (pdSup p) = (Inr (), s) \<Longrightarrow> pod_step env fuel p (p\<lparr>pdSup := s\<rparr>)"
| down_begin: "beginShutdown (pdSup p) = (Inr True, s) \<Longrightarrow>
     pod_step env fuel p (p\<lparr>pdSup := s, pdDown := At (suStatus s, 0)\<rparr>)"
| down_wait: "pdDown p = At (st, 0) \<Longrightarrow> pod_step env fuel p (p\<lparr>pdDown := At (suStatus (pdSup p), 0)\<rparr>)"
| down: "pdDown p = At (st, k) \<Longrightarrow> (downPhases env st ! k) (pdSup p) = (r, s) \<Longrightarrow>
     pod_step env fuel p (p\<lparr>pdSup := s, pdDown := (if Suc k < length (downPhases env st) then At (st, Suc k) else Done)\<rparr>)"
| sync: "pdInit p = Done \<or> (\<exists>k. pdInit p = At k \<and> k \<ge> 10) \<Longrightarrow> st \<notin> {STOPPED, INITIALIZING} \<Longrightarrow>
     pod_step env fuel p (p\<lparr>pdSup := snd (setStatus st (pdSup p))\<rparr>)"
| event: "handleEvent ev (pdSup p) = (Inr (), s) \<Longrightarrow> pod_step env fuel p (p\<lparr>pdSup := s\<rparr>)"
| health: "pod_step env fuel p (healthCheck ok p)"
| listen: "subscribeStatusListener i (pdSup p) = (Inr (), s) \<Longrightarrow> pod_step env fuel p (p\<lparr>pdSup := s\<rparr>)"
| unlisten: "unsubscribeStatusListener i (pdSup p) = (Inr (), s) \<Longrightarrow> pod_step env fuel p (p\<lparr>pdSup := s\<rparr>)"
| deliver: "receiveStatus i (pdSup p) = (Inr st, s) \<Longrightarrow> pod_step env fuel p (p\<lparr>pdSup := s\<rparr>)"
| outer: "\<not> suOuterDone (pdSup p) \<Longrightarrow> doShutdownOuter env (pdSup p) = (r, s) \<Longrightarrow> pod_step env fuel p (p\<lparr>pdSup := s\<rparr>)"

end
