(* ===== verification/Sup_Effects.thy ===== *)
theory Sup_Effects
  imports Sup_Init
begin

text \<open>
  What the functions of the supervisor do to its state, as relations between the state before and after that
  are closed under composition. Each locale is the contract of one group of functions: who gives
  it the relation for the basic operations gets it for the whole group.
\<close>

definition effect :: "('s \<Rightarrow> 's \<Rightarrow> bool) \<Rightarrow> ('s, 'a) io \<Rightarrow> bool" where
  "effect R m \<longleftrightarrow> (\<forall>s r s'. m s = (r, s') \<longrightarrow> R s s')"

lemma effectD: "effect R m \<Longrightarrow> m s = (r, s') \<Longrightarrow> R s s'"
  by (auto simp: effect_def)

lemma effectI: "(\<And>s. R s (snd (m s))) \<Longrightarrow> effect R m"
  unfolding effect_def by (metis snd_conv)

locale preorder_effect =
  fixes R :: "'s \<Rightarrow> 's \<Rightarrow> bool"
  assumes R_refl: "R s s" and R_trans: "R s t \<Longrightarrow> R t u \<Longrightarrow> R s u"
begin

lemma effect_pure:
  "effect R (retE x)" "effect R (throwE e)" "effect R (liftE y)"
  by (auto simp: effect_def retE_def throwE_def liftE_def R_refl)

lemma effect_bindE: "effect R m \<Longrightarrow> (\<And>x. effect R (f x)) \<Longrightarrow> effect R (bindE m f)"
  unfolding effect_def bindE_def by (auto split: prod.splits sum.splits) (metis R_trans)+

lemma effect_tryE: "effect R m \<Longrightarrow> effect R (tryE m)"
  by (auto simp: effect_def tryE_def split: prod.splits)

lemma effect_mapErrE: "effect R m \<Longrightarrow> effect R (mapErrE f m)"
  by (auto simp: effect_def mapErrE_def split: prod.splits sum.splits)

lemma effect_forE: "(\<And>x. x \<in> set xs \<Longrightarrow> effect R (f x)) \<Longrightarrow> effect R (forE xs f)"
  by (induction xs) (auto intro!: effect_pure effect_bindE)

lemma effect_whenE: "(c \<Longrightarrow> effect R m) \<Longrightarrow> effect R (whenE c m)"
  by (auto simp: whenE_def effect_pure)

lemmas effect_rules = effect_pure effect_bindE effect_tryE effect_mapErrE effect_whenE

end

section \<open>Commands, states and failures\<close>

text \<open>Acts that neither start nor stop the container, nor build an image, nor set the policy.\<close>

definition benign :: "sup_act \<Rightarrow> bool" where
  "benign a = (case a of
     ActPodman args \<Rightarrow> args = [] \<or> hd args \<notin> {''run'', ''start'', ''build'', ''stop''}
   | ActSetPolicy _ \<Rightarrow> False
   | _ \<Rightarrow> True)"

locale sup_effects = preorder_effect R for R :: "'k sup \<Rightarrow> 'k sup \<Rightarrow> bool" +
  fixes env :: "'k sup_env" and ok :: "sup_act \<Rightarrow> bool" and okState :: "ws_state \<Rightarrow> bool"
  assumes R_act: "ok a \<Longrightarrow> R s (s\<lparr>suLog := suLog s @ [(a, r)]\<rparr>)"
    and ok_benign: "benign a \<Longrightarrow> ok a"
    and ok_states: "st \<noteq> STOPPED \<Longrightarrow> okState st"
    and R_status: "okState st \<Longrightarrow> R s (s\<lparr>suStatus := st, suBus := publishAll st (suBus s)\<rparr>)"
    and R_failure: "R s (s\<lparr>suFailure := Some f\<rparr>)"
begin

lemma effect_getSup: "effect R (getSup f)"
  by (auto simp: effect_def getSup_def R_refl)

lemma effect_runAct: "ok a \<Longrightarrow> effect R (runAct env a)"
  by (auto simp: effect_def runAct_def Let_def R_act)

lemma effect_tryAct: "ok a \<Longrightarrow> effect R (tryAct env a)"
  unfolding tryAct_def by (intro effect_rules effect_runAct)

lemma effect_states:
  "okState st \<Longrightarrow> effect R (setStatus st)" "effect R (setFailure f)"
  by (auto simp: effect_def setStatus_def setFailure_def modSup_def R_status R_failure)

lemma effect_podman: "ok (ActPodman args) \<Longrightarrow> effect R (getCommandAsOctelium env args)"
  unfolding getCommandAsOctelium_def by (rule effect_runAct)

lemma effect_chown: "effect R (chownDirOctelium env p)"
  unfolding chownDirOctelium_def by (intro effect_runAct ok_benign) (simp add: benign_def)

lemmas sup_rules = effect_rules effect_getSup effect_states effect_chown effect_runAct effect_tryAct
  effect_podman ok_benign ok_states

lemma effect_awaitAgent: "effect R (awaitAgent env n)"
  by (induction n) (auto intro!: sup_rules simp: benign_def split: sum.splits)

lemma effect_prepareAttempts: "effect R (prepareAttempts env n)"
  by (induction n) (auto intro!: sup_rules simp: benign_def split: sum.splits)

lemma effect_inspect: "effect R (isContainerIsRunning env i)"
  unfolding isContainerIsRunning_def inspectWorkspaceContainer_def
  by (auto intro!: sup_rules simp: benign_def split: sum.splits option.splits)

lemma effect_waitRunning: "effect R (waitRunning env n i)"
  by (induction n arbitrary: i) (auto intro!: sup_rules effect_inspect)

lemma effect_cgroups:
  "effect R (prepareCgroups env)" "effect R (moveSelfToWorkspaceLeafCgroup env)" "effect R (returnToMyCgroup env)"
  "effect R (createInitCgroup env)"
  unfolding prepareCgroups_def moveSelfToWorkspaceLeafCgroup_def returnToMyCgroup_def createInitCgroup_def
  by (auto intro!: sup_rules effect_forE simp: benign_def)

lemma effect_copyToContainer: "effect R (copyToContainer env)"
  unfolding copyToContainer_def
  by (auto intro!: sup_rules effect_forE simp: benign_def split: prod.splits)

lemma effect_createPod: "effect R (createPod env)"
  unfolding createPod_def podArgs_def
  by (auto intro!: sup_rules simp: benign_def split: sum.splits)

end

section \<open>Making the image\<close>

locale image_effects = sup_effects R env ok okState for R :: "'k sup \<Rightarrow> 'k sup \<Rightarrow> bool" and env ok okState +
  assumes R_flags: "R s (s\<lparr>suInit := b\<rparr>)" "R s (s\<lparr>suNoOverrideCmd := b\<rparr>)"
    and R_repo: "R s (s\<lparr>suBuildDir := repoPath\<rparr>)"
    and R_spec: "R s (s\<lparr>suSpec := sp\<rparr>)"
    and effect_buildImage: "effect R (buildImage env wd df cd args)"
begin

lemma effect_flags:
  "effect R (modSup (\<lambda>s. s\<lparr>suInit := b\<rparr>))" "effect R (modSup (\<lambda>s. s\<lparr>suNoOverrideCmd := b\<rparr>))"
  "effect R (modSup (\<lambda>s. s\<lparr>suBuildDir := repoPath\<rparr>))" "effect R (modSup (\<lambda>s. s\<lparr>suSpec := sp\<rparr>))"
  by (auto simp: effect_def modSup_def R_flags R_repo R_spec)

lemma effect_pull: "effect R (pullImageFromExternal env i a)"
  unfolding pullImageFromExternal_def Let_def
  by (auto intro!: sup_rules simp: benign_def split: sum.splits)

lemmas image_rules = sup_rules effect_flags effect_pull effect_buildImage

lemma effect_containerfile: "effect R (prepareImageContainerfile env df)"
  unfolding prepareImageContainerfile_def Let_def
  by (auto intro!: image_rules simp: benign_def split: dockerfile.splits)

lemma effect_compose: "effect R (prepareImageDockerCompose env d f sv)"
  unfolding prepareImageDockerCompose_def Let_def
  by (auto intro!: image_rules split: option.splits prod.splits)

lemma effect_devcontainer: "effect R (prepareImageFromDevcontainer env d f)"
  unfolding prepareImageFromDevcontainer_def buildDevcontainer_def Let_def
  by (auto intro!: image_rules effect_compose split: option.splits)

lemma effect_devcontainerOrBase: "effect R (devcontainerOrBase env)"
  unfolding devcontainerOrBase_def
  by (auto intro!: image_rules effect_devcontainer split: prod.splits)

lemma effect_clone: "effect R (gitClone env url dir)"
  unfolding gitClone_def by (auto intro!: image_rules simp: benign_def)

lemma effect_git: "effect R (prepareImageFromGit env gi)"
  unfolding prepareImageFromGit_def
  by (auto intro!: image_rules effect_clone effect_devcontainerOrBase)

lemma effect_shallowClone: "effect R (shallowCloneMainRepository env)"
  unfolding shallowCloneMainRepository_def doShallowCloneMainRepository_def
  by (auto intro!: image_rules effect_clone split: prod.splits option.splits sum.splits)

lemma effect_mergeFile: "effect R (mergeWorkspaceFile env base)"
  by (auto simp: effect_def mergeWorkspaceFile_def R_refl split: option.splits sum.splits)

lemma effect_named: "effect R (case repositoryImage env base img of None \<Rightarrow> n | Some m \<Rightarrow> bindE m (\<lambda>_. retE (Some ())))"
  if "effect R n"
  using that
  by (auto simp: repositoryImage_def intro!: image_rules effect_devcontainer split: option.splits image.splits
      repo_image.splits if_splits)

lemma effect_getSup_bind:
  assumes "\<And>s. effect R (f (g s))"
  shows "effect R (bindE (getSup g) f)"
  using assms by (auto simp: effect_def bindE_def getSup_def)

lemma effect_repository: "effect R (prepareImageFromRepository env fuel)"
proof (induction fuel)
  case (Suc n)
  show ?case
    by (auto intro!: effect_getSup_bind effect_named image_rules Suc effect_shallowClone effect_mergeFile
        effect_devcontainerOrBase effect_containerfile effect_git
        split: option.splits sum.splits image.splits)
qed (auto intro!: effect_rules)

lemma effect_image: "effect R (prepareAndBuildImage env fuel)"
  unfolding prepareAndBuildImage_def chooseImage_def fromRepository_def
  by (auto intro!: image_rules effect_repository effect_containerfile effect_git
      split: option.splits image.splits prod.splits)

end

section \<open>The phases before the policy\<close>

locale prepare_effects = image_effects R env ok okState for R :: "'k sup \<Rightarrow> 'k sup \<Rightarrow> bool" and env ok okState +
  assumes R_request: "R s (s\<lparr>suSpec := sp, suSource := src, suFresh := fr, suWsUID := uid\<rparr>)"
    and R_copies: "R s (s\<lparr>suCopies := cps\<rparr>)"
    and R_proxy: "R s (s\<lparr>suProxy := b\<rparr>)"
begin

lemma effect_request: "effect R (phaseRequest env)"
proof -
  have "effect R (modSup (\<lambda>s. s\<lparr>suSpec := sp, suSource := src, suFresh := fr, suWsUID := uid\<rparr>))" for sp src fr uid
    by (auto simp: effect_def modSup_def R_request)
  then show ?thesis
    unfolding phaseRequest_def
    by (auto intro!: image_rules simp: benign_def split: option.splits prod.splits)
qed

lemma effect_owners: "effect R (phaseOwners env)"
proof -
  have "effect R (modSup (\<lambda>s. s\<lparr>suCopies := suCopies s @ cps\<rparr>))" for cps
    by (auto simp: effect_def modSup_def R_copies)
  then show ?thesis
    unfolding phaseOwners_def by (auto intro!: image_rules simp: benign_def)
qed

lemma effect_phaseCgroups: "effect R (phaseCgroups env)"
  unfolding phaseCgroups_def
  by (intro image_rules effect_cgroups effect_forE) (auto simp: benign_def)

lemma effect_proxies: "effect R (phaseProxies env)"
proof -
  have "effect R (modSup (\<lambda>s. s\<lparr>suProxy := b\<rparr>))" for b
    by (auto simp: effect_def modSup_def R_proxy)
  then show ?thesis
    unfolding phaseProxies_def runOcteliumProxy_def runSSHAgent_def
    by (auto intro!: image_rules simp: benign_def)
qed

lemma effect_phaseImage: "effect R (phaseImage env fuel)"
  unfolding phaseImage_def
  by (auto intro!: image_rules effect_createPod effect_image split: option.splits)

lemma effect_runtime: "effect R (phaseRuntime env)"
  unfolding phaseRuntime_def by (auto intro!: image_rules simp: benign_def)

lemma effect_before: "k < 6 \<Longrightarrow> effect R (initPhases env fuel ! k)"
  using effect_request effect_owners effect_phaseCgroups effect_proxies effect_phaseImage effect_runtime
  by (auto simp: initPhases_def less_Suc_eq numeral_eq_Suc)

end

section \<open>The phases after the policy\<close>

locale start_effects = sup_effects R env ok okState for R :: "'k sup \<Rightarrow> 'k sup \<Rightarrow> bool" and env ok okState +
  assumes ok_start: "ok (ActPodman (''run'' # args))" "ok (ActPodman (''start'' # args))"
    and R_runCmd: "R s (s\<lparr>suRunCmd := b\<rparr>)"
    and R_key: "R s (s\<lparr>suKey := key\<rparr>)"
begin

lemma effect_runImage: "effect R (podmanRunImage env)"
  unfolding podmanRunImage_def doRunContainer_def runArgs_def
  by (auto intro!: sup_rules ok_start simp: benign_def split: option.splits sum.splits)

lemma effect_startContainer: "effect R (doStartContainer env)"
  unfolding doStartContainer_def
  by (intro sup_rules ok_start) (auto simp: benign_def)

lemma effect_start: "effect R (phaseStart env)"
  unfolding phaseStart_def by (auto intro!: sup_rules effect_runImage effect_startContainer)

lemma effect_running: "effect R (phaseRunning env)"
  unfolding phaseRunning_def waitUntilContainerIsRunning_def
  by (auto intro!: sup_rules effect_waitRunning effect_copyToContainer simp: benign_def)

lemma effect_agent: "effect R (phaseAgent env)"
proof -
  have "effect R (modSup (\<lambda>s. s\<lparr>suRunCmd := b\<rparr>))" for b
    by (auto simp: effect_def modSup_def R_runCmd)
  then show ?thesis
    unfolding phaseAgent_def execWorkspaceBinary_def waitUntilWorkspaceAgentReady_def
    by (auto intro!: sup_rules effect_cgroups effect_awaitAgent simp: benign_def)
qed

lemma effect_prepare: "effect R (phasePrepare env)"
proof -
  have "effect R (modSup (\<lambda>s. s\<lparr>suKey := key\<rparr>))" for key
    by (auto simp: effect_def modSup_def R_key)
  then show ?thesis
    unfolding phasePrepare_def
    by (auto intro!: sup_rules effect_prepareAttempts simp: benign_def split: prod.splits)
qed

lemma effect_after: "6 < k \<Longrightarrow> k < 11 \<Longrightarrow> effect R (initPhases env fuel ! k)"
  using effect_start effect_running effect_agent effect_prepare
  by (auto simp: initPhases_def less_Suc_eq numeral_eq_Suc)

end

end
