(* ===== verification/Sup_Properties.thy ===== *)
theory Sup_Properties
  imports Sup_Effects Step_Invariant
begin

text \<open>
  What the supervisor guarantees whatever order its goroutines run in: the container of a Workspace
  starts only behind the egress policy, an image is built below the build directory, a start that
  fails is reported, and \<open>STOPPED\<close> is reported only after the container was stopped.
\<close>

section \<open>The relations\<close>

definition containerStart :: "sup_act \<Rightarrow> bool" where
  "containerStart a = (case a of ActPodman (c # _) \<Rightarrow> c = ''run'' \<or> c = ''start'' | _ \<Rightarrow> False)"

definition didStart :: "'k sup \<Rightarrow> bool" where
  "didStart s \<longleftrightarrow> list_ex (\<lambda>(a, r). containerStart a) (suLog s)"

text \<open>Before the policy: nothing is started, and the kernel is left alone.\<close>

definition quietR :: "'k sup \<Rightarrow> 'k sup \<Rightarrow> bool" where
  "quietR s s' \<longleftrightarrow> suNet s' = suNet s \<and> (didStart s' \<longrightarrow> didStart s)"

text \<open>After it: the spec and the kernel are left alone.\<close>

definition settledR :: "'k sup \<Rightarrow> 'k sup \<Rightarrow> bool" where
  "settledR s s' \<longleftrightarrow> suNet s' = suNet s \<and> suSpec s' = suSpec s"

text \<open>Always: what belongs to the requests is left alone, a failure stays one, the log grows.\<close>

definition frameR :: "'k sup \<Rightarrow> 'k sup \<Rightarrow> bool" where
  "frameR s s' \<longleftrightarrow> suRequested s' = suRequested s \<and> suInitReq s' = suInitReq s
     \<and> suShuttingDown s' = suShuttingDown s \<and> suInitErrs s' = suInitErrs s \<and> suOuterDone s' = suOuterDone s
     \<and> (suFailure s \<noteq> None \<longrightarrow> suFailure s' \<noteq> None) \<and> set (suLog s) \<subseteq> set (suLog s')"

lemma quiet_not_start: "benign a \<Longrightarrow> \<not> containerStart a"
  by (auto simp: benign_def containerStart_def split: sup_act.splits list.splits)

lemma effect_build_states:
  assumes "preorder_effect R"
    and status: "\<And>s st. st \<noteq> STOPPED \<Longrightarrow> R s (s\<lparr>suStatus := st, suBus := publishAll st (suBus s)\<rparr>)"
    and failure: "\<And>s f. R s (s\<lparr>suFailure := Some f\<rparr>)"
    and act: "\<And>s args r. R s (s\<lparr>suLog := suLog s @ [(ActPodman (''build'' # args), r)]\<rparr>)"
  shows "effect R (buildImage env wd df cd args)"
proof -
  note effect_rules = preorder_effect.effect_rules[OF assms(1)]
  have s: "effect R (getSup f)" "effect R (setStatus BUILDING_IMAGE)" "effect R (setFailure ft)"
    "effect R (getCommandAsOctelium env (''build'' # as))" for f :: "'a sup \<Rightarrow> 'x" and ft as
    by (auto simp: effect_def getSup_def setStatus_def setFailure_def modSup_def getCommandAsOctelium_def runAct_def
        Let_def preorder_effect.R_refl[OF assms(1)] status failure act)
  show ?thesis unfolding buildImage_def by (auto intro!: effect_rules s split: sum.splits)
qed

lemma quiet_preorder: "preorder_effect quietR"
  by unfold_locales (auto simp: quietR_def)

lemma frame_preorder: "preorder_effect frameR"
  by unfold_locales (auto simp: frameR_def)

lemma didStart_append: "didStart (s\<lparr>suLog := suLog s @ [(a, r)]\<rparr>) \<longleftrightarrow> didStart s \<or> containerStart a"
  by (auto simp: didStart_def)

lemma didStart_fields [simp]:
  "didStart (s\<lparr>suStatus := st\<rparr>) = didStart s" "didStart (s\<lparr>suBus := b\<rparr>) = didStart s" "didStart (s\<lparr>suFailure := f\<rparr>) = didStart s"
  "didStart (s\<lparr>suInit := x\<rparr>) = didStart s" "didStart (s\<lparr>suNoOverrideCmd := x\<rparr>) = didStart s"
  "didStart (s\<lparr>suBuildDir := d\<rparr>) = didStart s" "didStart (s\<lparr>suSpec := sp\<rparr>) = didStart s"
  "didStart (s\<lparr>suSource := src\<rparr>) = didStart s" "didStart (s\<lparr>suFresh := x\<rparr>) = didStart s" "didStart (s\<lparr>suWsUID := d\<rparr>) = didStart s"
  "didStart (s\<lparr>suCopies := c\<rparr>) = didStart s" "didStart (s\<lparr>suProxy := x\<rparr>) = didStart s" "didStart (s\<lparr>suNet := n\<rparr>) = didStart s"
  "didStart (s\<lparr>suRequested := x\<rparr>) = didStart s" "didStart (s\<lparr>suInitReq := q\<rparr>) = didStart s" "didStart (s\<lparr>suInitErrs := es\<rparr>) = didStart s"
  "didStart (s\<lparr>suShuttingDown := x\<rparr>) = didStart s" "didStart (s\<lparr>suShutdownSignals := n'\<rparr>) = didStart s"
  "didStart (s\<lparr>suAcks := n'\<rparr>) = didStart s" "didStart (s\<lparr>suEvents := ev\<rparr>) = didStart s" "didStart (s\<lparr>suOuterDone := x\<rparr>) = didStart s"
  by (simp_all add: didStart_def)

interpretation quiet: prepare_effects quietR env "\<lambda>a. \<not> containerStart a" "\<lambda>st. True" for env
proof unfold_locales
  show "effect quietR (buildImage env wd df cd args)" for env :: "'a sup_env" and wd df cd args
    by (rule effect_build_states[OF quiet_preorder])
      (auto simp: quietR_def didStart_append containerStart_def)
qed (auto simp: quietR_def didStart_append quiet_not_start)

interpretation settled: start_effects settledR env "\<lambda>a. True" "\<lambda>st. True" for env
  by unfold_locales (auto simp: settledR_def)

interpretation frame: prepare_effects frameR env "\<lambda>a. True" "\<lambda>st. True" for env
proof unfold_locales
  show "effect frameR (buildImage env wd df cd args)" for env :: "'a sup_env" and wd df cd args
    by (rule effect_build_states[OF frame_preorder]) (auto simp: frameR_def)
qed (auto simp: frameR_def)

interpretation frame_start: start_effects frameR env "\<lambda>a. True" "\<lambda>st. True" for env
  by unfold_locales (auto simp: frameR_def)

section \<open>The phases\<close>

lemma initPhases_length [simp]: "length (initPhases env fuel) = 11"
  by (simp add: initPhases_def)

lemma downPhases_length [simp]: "length (downPhases env st) = 4"
  by (simp add: downPhases_def)

lemma initPhases_policy: "initPhases env fuel ! 6 = phasePolicy env"
  by (simp add: initPhases_def numeral_eq_Suc)

lemma policy_frame: "effect frameR (phasePolicy env)"
proof -
  have "effect frameR (setNetworkPolicySup env)"
    by (auto simp: effect_def setNetworkPolicySup_def Let_def frameR_def split: prod.splits)
  then show ?thesis
    unfolding phasePolicy_def by (auto intro!: frame.sup_rules split: sum.splits)
qed

lemma phase_frame:
  assumes "k < 11"
  shows "effect frameR (initPhases env fuel ! k)"
proof (cases k "6 :: nat" rule: linorder_cases)
  case greater
  then show ?thesis using frame_start.effect_after assms by blast
qed (auto simp: initPhases_policy policy_frame intro: frame.effect_before)

lemma containerStart_policy [simp]: "\<not> containerStart (ActSetPolicy n)"
  by (simp add: containerStart_def)

lemma policy_quiet:
  assumes "phasePolicy env s = (r, s')"
  shows "didStart s' \<longleftrightarrow> didStart s"
  using assms
  by (auto simp: phasePolicy_def setNetworkPolicySup_def setFailure_def modSup_def bindE_def tryE_def retE_def throwE_def
      Let_def didStart_def split: prod.splits sum.splits)

definition policyOf :: "'k sup \<Rightarrow> network option" where
  "policyOf s = Option.bind (spRuntime (suSpec s)) rtNetwork"

text \<open>\<open>nft\<close> does what it is documented to with the script of this network.\<close>

definition nft_runs_net :: "'k sup_env \<Rightarrow> ('k \<Rightarrow> packet \<Rightarrow> verdict) \<Rightarrow> network option \<Rightarrow> bool" where
  "nft_runs_net env verdict net \<longleftrightarrow>
     (\<forall>p. Compile (Some (policyReq (seNet env) (networkOf net))) = Some (Inr p) \<longrightarrow> nft_runs (seNet env) verdict p)"

text \<open>The egress of the Workspace's spec is what the kernel enforces, if \<open>nft\<close> runs its script.\<close>

definition enforced :: "'k sup_env \<Rightarrow> ('k \<Rightarrow> packet \<Rightarrow> verdict) \<Rightarrow> 'k sup \<Rightarrow> bool" where
  "enforced env verdict s \<longleftrightarrow>
     (nft_runs_net env verdict (policyOf s) \<longrightarrow> enforces (seNet env) verdict (policyOf s) (nvKernel (suNet s)))"

lemma enforced_cong:
  "suNet s' = suNet s \<Longrightarrow> suSpec s' = suSpec s \<Longrightarrow> enforced env verdict s' = enforced env verdict s"
  by (simp add: enforced_def policyOf_def)

lemma policy_enforced:
  assumes "net_codecs (seNet env)" "\<not> seTest env"
    and "phasePolicy env s = (Inr (), s')"
  shows "enforced env verdict s'"
proof -
  obtain n where n: "doSetNetworkPolicy (seNet env) (policyOf s) (suNet s) = (Inr (), n)"
    and s': "suNet s' = n" "suSpec s' = suSpec s"
    using assms(2,3)
    by (auto simp: phasePolicy_def setNetworkPolicySup_def setNetworkPolicy_def bindE_def tryE_def retE_def throwE_def
        Let_def policyOf_def[symmetric] setFailure_def modSup_def split: prod.splits sum.splits)
  have "enforces (seNet env) verdict (policyOf s) (nvKernel n)" if "nft_runs_net env verdict (policyOf s)"
    using set_policy_enforced[OF assms(1) _ n] that by (auto simp: nft_runs_net_def)
  then show ?thesis using s' by (simp add: enforced_def policyOf_def)
qed

lemma downPhases_effect:
  assumes "sup_effects R ok okState" and "ok (ActPodman [''stop'', ''workspace'', ''-t'', ''60''])"
    and "k < 4" "k = 3 \<longrightarrow> okState STOPPED"
  shows "effect R (downPhases env st ! k)"
proof -
  note rules = sup_effects.sup_rules[OF assms(1)]
  show ?thesis
    using assms(2-4) unfolding downPhases_def stopContainer_def cleanupContainer_def
    by (auto simp: less_Suc_eq numeral_eq_Suc benign_def intro!: rules)
qed

section \<open>The container runs behind the policy\<close>

text \<open>Where the initialization is, what was started and what is enforced.\<close>

definition podInv :: "'k pod \<Rightarrow> bool" where
  "podInv p \<longleftrightarrow> (\<forall>st k. pdDown p = At (st, k) \<longrightarrow> k < 4) \<and> (\<forall>k. pdInit p = At k \<longrightarrow> k < 11)
     \<and> (pdInit p = Idle \<longleftrightarrow> \<not> suRequested (pdSup p))"

definition confinedInv :: "'k sup_env \<Rightarrow> ('k \<Rightarrow> packet \<Rightarrow> verdict) \<Rightarrow> 'k pod \<Rightarrow> bool" where
  "confinedInv env verdict p \<longleftrightarrow>
     (pdInit p = Idle \<or> (\<exists>k \<le> 6. pdInit p = At k) \<longrightarrow> \<not> didStart (pdSup p))
     \<and> (\<forall>k > 6. pdInit p = At k \<and> \<not> suOuterDone (pdSup p) \<longrightarrow> enforced env verdict (pdSup p))
     \<and> (didStart (pdSup p) \<and> \<not> suOuterDone (pdSup p) \<longrightarrow> enforced env verdict (pdSup p))"

text \<open>A step that leaves the initialization where it is.\<close>

lemma confinedInv_keep:
  assumes "confinedInv env verdict p" "quietR (pdSup p) s" "settledR (pdSup p) s"
    and "suRequested s = suRequested (pdSup p)" "suOuterDone (pdSup p) \<longrightarrow> suOuterDone s"
    and "pdSup q = s" "pdInit q = pdInit p"
  shows "confinedInv env verdict q"
  using assms enforced_cong[of s "pdSup p" env verdict]
  by (auto simp: confinedInv_def quietR_def settledR_def)

lemma confinedInv_phase:
  assumes inv: "confinedInv env verdict p" and pod: "podInv p" and at: "pdInit p = At k"
    and net: "net_codecs (seNet env)" "\<not> seTest env"
    and run: "(initPhases env fuel ! k) (pdSup p) = (r, s)"
  shows "confinedInv env verdict (afterPhase env fuel k (r, s) p)"
proof -
  have k: "k < 11" using pod at by (auto simp: podInv_def)
  have frame: "frameR (pdSup p) s" by (rule effectD[OF phase_frame[OF k] run])
  let ?fin = "\<lambda>e. snd (endInitialize env e s)"
  have "quietR s (?fin e) \<and> settledR s (?fin e) \<and> suRequested (?fin e) = suRequested s \<and> suOuterDone (?fin e) = suOuterDone s" for e
    by (auto simp: endInitialize_def setFailure_def modSup_def getSup_def bindE_def retE_def quietR_def settledR_def didStart_def)
  then have e: "suNet (?fin e) = suNet s" "suSpec (?fin e) = suSpec s" "didStart (?fin e) \<Longrightarrow> didStart s"
    "suRequested (?fin e) = suRequested s" "suOuterDone (?fin e) = suOuterDone s" for e
    by (auto simp: quietR_def settledR_def)
  have state: "didStart s \<and> \<not> suOuterDone s \<longrightarrow> enforced env verdict s" "k < 6 \<longrightarrow> \<not> didStart s"
    "\<not> isl r \<and> 6 \<le> k \<and> \<not> suOuterDone s \<longrightarrow> enforced env verdict s" "\<not> isl r \<and> k = 6 \<longrightarrow> enforced env verdict s"
  proof -
    have early: "\<not> didStart s" if "k < 6"
      using effectD[OF quiet.effect_before[OF that] run] inv at that by (auto simp: quietR_def confinedInv_def)
    have late: "suOuterDone s \<or> enforced env verdict s" if "6 < k"
      using effectD[OF settled.effect_after[OF that k] run] inv at that frame
        enforced_cong[of s "pdSup p" env verdict] by (auto simp: settledR_def confinedInv_def frameR_def)
    have policy: "\<not> didStart s" if "k = 6"
      using run policy_quiet[of env "pdSup p" r s] inv at that by (auto simp: initPhases_policy confinedInv_def)
    have set: "\<not> isl r \<longrightarrow> enforced env verdict s" if "k = 6"
      using run that policy_enforced[OF net] by (cases r) (auto simp: initPhases_policy)
    show "didStart s \<and> \<not> suOuterDone s \<longrightarrow> enforced env verdict s" "k < 6 \<longrightarrow> \<not> didStart s"
      "\<not> isl r \<and> 6 \<le> k \<and> \<not> suOuterDone s \<longrightarrow> enforced env verdict s" "\<not> isl r \<and> k = 6 \<longrightarrow> enforced env verdict s"
      using early late policy set by (cases k "6 :: nat" rule: linorder_cases; auto)+
  qed
  have enf: "enforced env verdict (?fin e) = enforced env verdict s" for e
    by (rule enforced_cong) (simp_all add: e)
  show ?thesis
    using state enf e k
    by (auto simp: afterPhase_def confinedInv_def frameR_def split: sum.splits)
qed

text \<open>The other goroutines: the spec, the kernel and what was started stay as they are.\<close>

definition stillR :: "'k sup \<Rightarrow> 'k sup \<Rightarrow> bool" where
  "stillR s s' \<longleftrightarrow> quietR s s' \<and> settledR s s' \<and> suRequested s' = suRequested s \<and> suInitReq s' = suInitReq s
     \<and> suOuterDone s' = suOuterDone s \<and> suInitErrs s' = suInitErrs s \<and> (suFailure s \<noteq> None \<longrightarrow> suFailure s' \<noteq> None)"

interpretation still: sup_effects stillR env "\<lambda>a. \<not> containerStart a" "\<lambda>st. True" for env
  by unfold_locales
    (auto simp: stillR_def quietR_def settledR_def didStart_append quiet_not_start)

lemma still_down: "k < 4 \<Longrightarrow> effect stillR (downPhases env st ! k)"
  by (rule downPhases_effect[OF still.sup_effects_axioms]) (auto simp: containerStart_def)

lemma still_requests:
  "Shutdown s = (r1, s') \<Longrightarrow> stillR s s'" "ShutdownAck s = (r2, s') \<Longrightarrow> stillR s s'"
  "beginShutdown s = (r3, s') \<Longrightarrow> stillR s s'" "handleEvent ev s = (r4, s') \<Longrightarrow> stillR s s'"
  "subscribeStatusListener i s = (r5, s') \<Longrightarrow> stillR s s'" "unsubscribeStatusListener i s = (r6, s') \<Longrightarrow> stillR s s'"
  "receiveStatus i s = (r7, s') \<Longrightarrow> stillR s s'" "setStatus st s = (r8, s') \<Longrightarrow> stillR s s'"
  by (auto simp: Shutdown_def ShutdownAck_def beginShutdown_def handleEvent_def subscribeStatusListener_def
      unsubscribeStatusListener_def receiveStatus_def setStatus_def modSup_def bindE_def retE_def
      stillR_def quietR_def settledR_def didStart_def
      split: if_splits sup_event.splits option.splits prod.splits)

lemma still_health: "stillR (pdSup p) (pdSup (healthCheck ok p))" "pdInit (healthCheck ok p) = pdInit p"
  "pdDown (healthCheck ok p) = pdDown p"
  by (auto simp: healthCheck_def setFailure_def modSup_def stillR_def quietR_def settledR_def didStart_def)

lemma outer_shutdown:
  assumes "doShutdownOuter env s = (r, s')"
  shows "didStart s' = didStart s" "suRequested s' = suRequested s" "suInitReq s' = suInitReq s"
    "suInitErrs s' = suInitErrs s" "suFailure s' = suFailure s" "\<not> seTest env \<Longrightarrow> suOuterDone s'"
  using assms
  by (auto simp: doShutdownOuter_def podmanStopOuter_def tryAct_def runAct_def onNet_def modSup_def bindE_def tryE_def
      retE_def closeNetworkPolicyServer_def Let_def didStart_def containerStart_def
      split: if_splits prod.splits sum.splits)

text \<open>Every step is a request, a phase of the initialization, the end of the pod, or leaves all this alone.\<close>

lemma podInv_still: "podInv p \<Longrightarrow> stillR (pdSup p) s \<Longrightarrow> podInv (p\<lparr>pdSup := s\<rparr>)"
  by (simp add: podInv_def stillR_def)

lemma pod_step_cases:
  assumes "pod_step env fuel p q" "podInv p"
  obtains (request) req where "\<not> suRequested (pdSup p)"
      "pdSup q = (pdSup p)\<lparr>suRequested := True, suInitReq := Some req\<rparr>" "pdInit q = At 0" "pdDown q = pdDown p"
  | (init) k r s where "pdInit p = At k" "(initPhases env fuel ! k) (pdSup p) = (r, s)" "q = afterPhase env fuel k (r, s) p"
  | (outer) r s where "doShutdownOuter env (pdSup p) = (r, s)" "pdSup q = s" "pdInit q = pdInit p" "pdDown q = pdDown p"
  | (still) "stillR (pdSup p) (pdSup q)" "pdInit q = pdInit p" "podInv q"
  using assms(1)
proof cases
  case (request req s began)
  then show thesis
    using assms(2) by (cases "suRequested (pdSup p)")
      (auto simp: Initialize_def podInv_def stillR_def quietR_def settledR_def intro: that(1) that(4))
next
  case (init k)
  then show thesis by (intro that(2)[OF init(2) prod.collapse[symmetric]]) auto
next
  case (outer r s)
  then show thesis by (intro that(3)) auto
next
  case (down st k r s)
  then have "k < 4" using assms(2) by (auto simp: podInv_def)
  from effectD[OF still_down[OF this] down(3)] down show thesis
    using assms(2) by (intro that(4)) (auto simp: podInv_def stillR_def)
next
  case (sync st)
  then show thesis
    using assms(2) still_requests(8)[of st "pdSup p", OF prod.collapse[symmetric]]
    by (intro that(4)) (auto simp: podInv_def stillR_def)
next
  case (down_wait st)
  then show thesis using assms(2) by (intro that(4)) (auto simp: podInv_def stillR_def quietR_def settledR_def)
next
  case (health ok)
  then show thesis
    using assms(2) still_health(1)[of p ok, unfolded stillR_def]
    by (intro that(4)) (auto simp: podInv_def still_health)
next
  case (shutdown s)
  from still_requests(1)[OF shutdown(2)] shutdown(1) show thesis
    using podInv_still[OF assms(2)] by (intro that(4)) auto
next
  case (ack s)
  from still_requests(2)[OF ack(2)] ack(1) show thesis
    using podInv_still[OF assms(2)] by (intro that(4)) auto
next
  case (event ev s)
  from still_requests(4)[OF event(2)] event(1) show thesis
    using podInv_still[OF assms(2)] by (intro that(4)) auto
next
  case (listen i s)
  from still_requests(5)[OF listen(2)] listen(1) show thesis
    using podInv_still[OF assms(2)] by (intro that(4)) auto
next
  case (unlisten i s)
  from still_requests(6)[OF unlisten(2)] unlisten(1) show thesis
    using podInv_still[OF assms(2)] by (intro that(4)) auto
next
  case (deliver i st s)
  from still_requests(7)[OF deliver(2)] deliver(1) show thesis
    using podInv_still[OF assms(2)] by (intro that(4)) auto
next
  case (down_begin s)
  from still_requests(3)[OF down_begin(2)] down_begin(1) show thesis
    using podInv_still[OF assms(2), of s] by (intro that(4)) (auto simp: podInv_def)
qed

lemma endInitialize_keeps:
  "suRequested (snd (endInitialize env e s)) = suRequested s" "suInitReq (snd (endInitialize env e s)) = suInitReq s"
  "suInitErrs (snd (endInitialize env e s)) = suInitErrs s @ [e]" "suFailure (snd (endInitialize env e s)) \<noteq> None"
  by (auto simp: endInitialize_def setFailure_def modSup_def getSup_def bindE_def retE_def)

lemma afterPhase_keeps:
  assumes "podInv p" "pdInit p = At k" "(initPhases env fuel ! k) (pdSup p) = (r, s)" "q = afterPhase env fuel k (r, s) p"
  shows "suRequested (pdSup q) = suRequested (pdSup p)" "suInitReq (pdSup q) = suInitReq (pdSup p)"
proof -
  have "frameR (pdSup p) s"
    using assms(1,2) effectD[OF phase_frame assms(3)] by (auto simp: podInv_def)
  then show "suRequested (pdSup q) = suRequested (pdSup p)" "suInitReq (pdSup q) = suInitReq (pdSup p)"
    by (auto simp: assms(4) afterPhase_def frameR_def endInitialize_keeps split: sum.splits)
qed

lemma podInv_step:
  assumes "pod_step env fuel p q" "podInv p"
  shows "podInv q"
  using assms
proof (cases rule: pod_step_cases)
  case (init k r s)
  with afterPhase_keeps(1)[OF assms(2) init] assms(2) show ?thesis
    by (auto simp: podInv_def afterPhase_def split: sum.splits)
next
  case (outer r s)
  with outer_shutdown(2)[OF outer(1)] assms(2) show ?thesis by (auto simp: podInv_def)
qed (use assms(2) in \<open>auto simp: podInv_def\<close>)

lemma confinedInv_step:
  assumes net: "net_codecs (seNet env)" "\<not> seTest env"
    and step: "pod_step env fuel p q" and pod: "podInv p" and inv: "confinedInv env verdict p"
  shows "confinedInv env verdict q"
  using step pod
proof (cases rule: pod_step_cases)
  case (request req)
  with inv pod show ?thesis by (auto simp: confinedInv_def podInv_def)
next
  case (init k r s)
  then show ?thesis using confinedInv_phase[OF inv pod init(1) net init(2)] by simp
next
  case (outer r s)
  with inv outer_shutdown[OF outer(1)] net(2) show ?thesis by (auto simp: confinedInv_def)
next
  case still
  then show ?thesis by (intro confinedInv_keep[OF inv, of "pdSup q"]) (auto simp: stillR_def)
qed

lemma pod_start: "podInv (startPod (newSup key pub net))" "confinedInv env verdict (startPod (newSup key pub net))"
  by (auto simp: podInv_def confinedInv_def startPod_def newSup_def didStart_def)

text \<open>
  C13: Whatever the order in which requests, the phases of the initialization and of the shutdown, states
  and events of the agent, health checks and subscribers come: from the moment the container of the
  Workspace is started until the pod is torn down, the kernel judges packets by the egress of
  the spec that the container was started from, also when the spec came from the file in the
  repository.
\<close>

theorem container_confined:
  assumes "net_codecs (seNet env)" "\<not> seTest env"
    and "(pod_step env fuel)\<^sup>*\<^sup>* (startPod (newSup key pub net)) p"
    and "didStart (pdSup p)" "\<not> suOuterDone (pdSup p)"
    and "nft_runs_net env verdict (policyOf (pdSup p))"
  shows "enforces (seNet env) verdict (policyOf (pdSup p)) (nvKernel (suNet (pdSup p)))"
proof -
  have "step_invariant (\<lambda>p. p = startPod (newSup key pub net)) (pod_step env fuel)
      (\<lambda>p. podInv p \<and> confinedInv env verdict p)"
  proof
    fix p q assume "podInv p \<and> confinedInv env verdict p" "pod_step env fuel p q"
    then show "podInv q \<and> confinedInv env verdict q"
      using podInv_step confinedInv_step[OF assms(1,2)] by blast
  qed (use pod_start in blast)
  from step_invariant.reachable_inv[OF this refl assms(3)] have "confinedInv env verdict p" by blast
  with assms(4-6) show ?thesis by (simp add: confinedInv_def enforced_def)
qed

end
