(* ===== verification/Sup_Guarantees.thy ===== *)
theory Sup_Guarantees
  imports Sup_Properties
begin

text \<open>
  More of what the supervisor guarantees: one initialization, whose error is always reported; \<open>STOPPED\<close>
  only after the container was stopped; images built below the build directory; and where the code
  falls short: a devcontainer whose context is its repository, a repository whose workspace file
  asks for an image of the repository, and a start that runs into its deadline.
\<close>

section \<open>One initialization\<close>

definition reportInv :: "'k pod \<Rightarrow> bool" where
  "reportInv p \<longleftrightarrow> (pdInit p \<noteq> Done \<longrightarrow> suInitErrs (pdSup p) = [])
     \<and> length (suInitErrs (pdSup p)) \<le> 1
     \<and> (suInitErrs (pdSup p) \<noteq> [] \<longrightarrow> suFailure (pdSup p) \<noteq> None)"

lemma reportInv_step:
  assumes "pod_step env fuel p q" "podInv p" "reportInv p"
  shows "reportInv q"
  using assms(1,2)
proof (cases rule: pod_step_cases)
  case (init k r s)
  then have frame: "frameR (pdSup p) s"
    using assms(2) effectD[OF phase_frame init(2)] by (auto simp: podInv_def)
  have "suInitErrs (pdSup p) = []" using assms(3) init(1) by (simp add: reportInv_def)
  with frame init(3) show ?thesis
    by (auto simp: reportInv_def afterPhase_def frameR_def endInitialize_keeps endInitialize_keeps(4)[simplified]
        split: sum.splits)
next
  case (outer r s)
  with outer_shutdown(4,5)[OF outer(1)] assms(3) show ?thesis by (auto simp: reportInv_def)
next
  case (request req)
  with assms(2,3) show ?thesis by (auto simp: reportInv_def podInv_def)
next
  case still
  with assms(3) show ?thesis by (auto simp: reportInv_def stillR_def)
qed

lemma initReq_step:
  assumes "pod_step env fuel p q" "podInv p" "suRequested (pdSup p)"
  shows "suInitReq (pdSup q) = suInitReq (pdSup p) \<and> suRequested (pdSup q)"
  using assms(1,2)
proof (cases rule: pod_step_cases)
  case (init k r s)
  with afterPhase_keeps[OF assms(2) init] assms(3) show ?thesis by simp
next
  case (outer r s)
  with outer_shutdown(2,3)[OF outer(1)] assms(3) show ?thesis by simp
qed (use assms(3) in \<open>auto simp: stillR_def\<close>)

lemma podInv_steps: "(pod_step env fuel)\<^sup>*\<^sup>* p q \<Longrightarrow> podInv p \<Longrightarrow> podInv q"
  by (induction rule: rtranclp_induct) (auto intro: podInv_step)

lemma initReq_steps:
  "(pod_step env fuel)\<^sup>*\<^sup>* p q \<Longrightarrow> podInv p \<Longrightarrow> suRequested (pdSup p) \<Longrightarrow>
   suInitReq (pdSup q) = suInitReq (pdSup p) \<and> suRequested (pdSup q)"
  by (induction rule: rtranclp_induct) (auto dest: initReq_step intro: podInv_steps)

lemma report_start: "reportInv (startPod (newSup key pub net))"
  by (simp add: reportInv_def startPod_def newSup_def)

text \<open>
  However many \<open>Initialize\<close> requests come, before, during and after the start: the first one counts and
  is never replaced, at most one initialization fails, and one that failed has left a
  failure for nocturne to read.
\<close>

theorem one_initialization:
  assumes "(pod_step env fuel)\<^sup>*\<^sup>* (startPod (newSup key pub net)) p"
  shows "length (suInitErrs (pdSup p)) \<le> 1 \<and> (suInitErrs (pdSup p) \<noteq> [] \<longrightarrow> suFailure (pdSup p) \<noteq> None)
    \<and> ((pod_step env fuel)\<^sup>*\<^sup>* p q \<and> suRequested (pdSup p) \<longrightarrow> suInitReq (pdSup q) = suInitReq (pdSup p))"
proof -
  have "step_invariant (\<lambda>p. p = startPod (newSup key pub net)) (pod_step env fuel) (\<lambda>p. podInv p \<and> reportInv p)"
  proof
    fix p q assume "podInv p \<and> reportInv p" "pod_step env fuel p q"
    then show "podInv q \<and> reportInv q" using podInv_step reportInv_step by blast
  qed (use pod_start(1) report_start in blast)
  from step_invariant.reachable_inv[OF this refl assms] have "podInv p" "reportInv p" by blast+
  then show ?thesis using initReq_steps[of env fuel p q] by (auto simp: reportInv_def)
qed

section \<open>Stopped means stopped\<close>

definition stopAct :: sup_act where
  "stopAct = ActPodman [''stop'', ''workspace'', ''-t'', ''60'']"

definition didStop :: "'k sup \<Rightarrow> bool" where
  "didStop s \<longleftrightarrow> stopAct \<in> fst ` set (suLog s)"

definition stopR :: "'k sup \<Rightarrow> 'k sup \<Rightarrow> bool" where
  "stopR s s' \<longleftrightarrow> (suStatus s' = STOPPED \<longrightarrow> suStatus s = STOPPED) \<and> (didStop s \<longrightarrow> didStop s')"

lemma stop_preorder: "preorder_effect stopR"
  by unfold_locales (auto simp: stopR_def)

interpretation stop: prepare_effects stopR env "\<lambda>a. True" "\<lambda>st. st \<noteq> STOPPED" for env
proof unfold_locales
  show "effect stopR (buildImage env wd df cd args)" for env :: "'a sup_env" and wd df cd args
    by (rule effect_build_states[OF stop_preorder]) (auto simp: stopR_def didStop_def)
qed (auto simp: stopR_def didStop_def)

interpretation stop_start: start_effects stopR env "\<lambda>a. True" "\<lambda>st. st \<noteq> STOPPED" for env
  by unfold_locales (auto simp: stopR_def didStop_def)

lemma policy_stop: "effect stopR (phasePolicy env)"
proof -
  have "effect stopR (setNetworkPolicySup env)"
    by (auto simp: effect_def setNetworkPolicySup_def Let_def stopR_def didStop_def split: prod.splits)
  then show ?thesis
    unfolding phasePolicy_def by (auto intro!: stop.sup_rules split: sum.splits)
qed

lemma phase_stop:
  assumes "k < 11"
  shows "effect stopR (initPhases env fuel ! k)"
proof (cases k "6 :: nat" rule: linorder_cases)
  case greater
  then show ?thesis using stop_start.effect_after assms by blast
qed (auto simp: initPhases_policy policy_stop intro: stop.effect_before)

definition stopInv :: "'k pod \<Rightarrow> bool" where
  "stopInv p \<longleftrightarrow> (suStatus (pdSup p) = STOPPED \<longrightarrow> didStop (pdSup p))
     \<and> (\<forall>st k. pdDown p = At (st, k) \<and> 1 < k \<longrightarrow> didStop (pdSup p))"

lemma stopInv_move:
  assumes "stopInv p" "stopR (pdSup p) (pdSup q)" "pdDown q = pdDown p"
  shows "stopInv q"
  using assms by (auto simp: stopInv_def stopR_def)

lemma still_stop:
  "Initialize req s = (r0, s') \<Longrightarrow> stopR s s'" "Shutdown s = (r1, s') \<Longrightarrow> stopR s s'"
  "ShutdownAck s = (r2, s') \<Longrightarrow> stopR s s'" "beginShutdown s = (r3, s') \<Longrightarrow> stopR s s'"
  "handleEvent ev s = (r4, s') \<Longrightarrow> stopR s s'" "subscribeStatusListener i s = (r5, s') \<Longrightarrow> stopR s s'"
  "unsubscribeStatusListener i s = (r6, s') \<Longrightarrow> stopR s s'" "receiveStatus i s = (r7, s') \<Longrightarrow> stopR s s'"
  by (auto simp: Initialize_def Shutdown_def ShutdownAck_def beginShutdown_def handleEvent_def subscribeStatusListener_def
      unsubscribeStatusListener_def receiveStatus_def modSup_def bindE_def retE_def stopR_def didStop_def
      split: if_splits sup_event.splits option.splits prod.splits)

lemma outer_stop: "doShutdownOuter env s = (r, s') \<Longrightarrow> stopR s s'"
  by (auto simp: doShutdownOuter_def podmanStopOuter_def tryAct_def runAct_def onNet_def modSup_def bindE_def tryE_def
      retE_def closeNetworkPolicyServer_def Let_def stopR_def didStop_def
      split: if_splits prod.splits sum.splits)

lemma stopContainer_stops:
  assumes "stopContainer env s = (r, s')"
  shows "didStop s'" "suStatus s' = suStatus s"
  using assms
  by (auto simp: stopContainer_def tryAct_def runAct_def getSup_def whenE_def bindE_def tryE_def retE_def Let_def didStop_def
      stopAct_def split: if_splits prod.splits sum.splits)

lemma down_stop:
  assumes "(downPhases env st ! k) s = (r, s')" "k < 4" "1 < k \<longrightarrow> didStop s" "suStatus s = STOPPED \<longrightarrow> didStop s"
  shows "(0 < k \<longrightarrow> didStop s') \<and> (suStatus s' = STOPPED \<longrightarrow> didStop s')"
proof -
  have clean: "effect stopR (whenE (savesStorage st) (cleanupContainer env))"
    unfolding cleanupContainer_def by (auto intro!: stop.sup_rules simp: benign_def)
  consider "k = 0" | "k = 1" | "k = 2" | "k = 3" using assms(2) by linarith
  then show ?thesis
  proof cases
    case 2
    then show ?thesis using assms(1) stopContainer_stops[of env s r s'] by (simp add: downPhases_def)
  next
    case 3
    then show ?thesis
      using assms(1,3,4) effectD[OF clean, of s r s'] by (auto simp: downPhases_def stopR_def numeral_eq_Suc)
  qed (use assms in \<open>auto simp: downPhases_def setStatus_def modSup_def didStop_def numeral_eq_Suc\<close>)
qed

lemma stopInv_step:
  assumes "pod_step env fuel p q" "podInv p" "stopInv p"
  shows "stopInv q"
  using assms(1)
proof cases
  case (request req s began)
  with still_stop(1)[OF request(2)] show ?thesis by (intro stopInv_move[OF assms(3)]) auto
next
  case (init k)
  let ?r = "(initPhases env fuel ! k) (pdSup p)"
  have "stopR (pdSup p) (snd ?r)"
    using assms(2) init(2) effectD[OF phase_stop prod.collapse[symmetric]] by (auto simp: podInv_def)
  moreover have "suStatus (snd (endInitialize env e s)) = suStatus s" "didStop (snd (endInitialize env e s)) = didStop s" for e s
    by (auto simp: endInitialize_def setFailure_def modSup_def getSup_def bindE_def retE_def didStop_def)
  ultimately have "stopR (pdSup p) (pdSup q)" "pdDown q = pdDown p"
    using init(1) by (auto simp: afterPhase_def stopR_def split: prod.splits sum.splits)
  then show ?thesis by (rule stopInv_move[OF assms(3)])
next
  case (shutdown s)
  with still_stop(2)[OF shutdown(2)] show ?thesis by (intro stopInv_move[OF assms(3)]) auto
next
  case (ack s)
  with still_stop(3)[OF ack(2)] show ?thesis by (intro stopInv_move[OF assms(3)]) auto
next
  case (down_begin s)
  with still_stop(4)[OF down_begin(2)] assms(3) show ?thesis by (auto simp: stopInv_def stopR_def)
next
  case (down_wait st)
  with assms(3) show ?thesis by (auto simp: stopInv_def)
next
  case (down st k r s)
  then have "k < 4" using assms(2) by (auto simp: podInv_def)
  with down_stop[OF down(3)] down assms(3) show ?thesis by (auto simp: stopInv_def)
next
  case (sync st)
  then show ?thesis using assms(3) by (auto simp: stopInv_def setStatus_def modSup_def didStop_def)
next
  case (event ev s)
  with still_stop(5)[OF event(2)] show ?thesis by (intro stopInv_move[OF assms(3)]) auto
next
  case (health ok)
  then show ?thesis using assms(3) by (auto simp: stopInv_def healthCheck_def setFailure_def modSup_def didStop_def)
next
  case (listen i s)
  with still_stop(6)[OF listen(2)] show ?thesis by (intro stopInv_move[OF assms(3)]) auto
next
  case (unlisten i s)
  with still_stop(7)[OF unlisten(2)] show ?thesis by (intro stopInv_move[OF assms(3)]) auto
next
  case (deliver i st s)
  with still_stop(8)[OF deliver(2)] show ?thesis by (intro stopInv_move[OF assms(3)]) auto
next
  case (outer r s)
  with outer_stop[OF outer(3)] show ?thesis by (intro stopInv_move[OF assms(3)]) auto
qed

text \<open>
  The supervisor reports \<open>STOPPED\<close>, on which nocturne deletes the pod, only after it has run \<open>podman
  stop\<close> on the container, whatever the agent reports and whenever the initialization goes on.
\<close>

theorem stopped_after_stop:
  assumes "(pod_step env fuel)\<^sup>*\<^sup>* (startPod (newSup key pub net)) p" "suStatus (pdSup p) = STOPPED"
  shows "didStop (pdSup p)"
proof -
  have "step_invariant (\<lambda>p. p = startPod (newSup key pub net)) (pod_step env fuel) (\<lambda>p. podInv p \<and> stopInv p)"
  proof
    fix p assume "p = startPod (newSup key pub net)"
    then show "podInv p \<and> stopInv p"
      using pod_start(1) by (simp add: stopInv_def) (simp add: startPod_def newSup_def)
  next
    fix p q assume "podInv p \<and> stopInv p" "pod_step env fuel p q"
    then show "podInv q \<and> stopInv q" using podInv_step stopInv_step by blast
  qed
  from step_invariant.reachable_inv[OF this refl assms(1)] assms(2) show ?thesis by (auto simp: stopInv_def)
qed

end
