(* ===== verification/Sup_Build.thy ===== *)
theory Sup_Build
  imports Sup_Properties
begin

text \<open>
  Images are built below the build directory, whatever paths the spec, a devcontainer or a compose file of a
  repository name; and a start that runs into its deadline is never reported as such.
\<close>

section \<open>Where images are built\<close>

definition buildRoots :: "string set" where
  "buildRoots = {''/octelium/build'', repoPath}"

text \<open>A clean path in a build directory or below one.\<close>

definition belowRoot :: "string \<Rightarrow> bool" where
  "belowRoot p \<longleftrightarrow> (\<exists>b \<in> buildRoots. \<exists>es. list_all cleanElem (pathElems b @ es) \<and> p = absPath (pathElems b @ es))"

text \<open>The command line of a build: its Dockerfile, if one is given, and its context.\<close>

definition confinedBuild :: "sup_act \<Rightarrow> bool" where
  "confinedBuild a \<longleftrightarrow> (\<forall>args. a = ActPodman (''build'' # args) \<longrightarrow>
     (\<exists>df opts cd. args = [''--tag'', ''workspace''] @ (if df = [] then [] else [''-f'', df]) @ opts @ [''--'', cd]
        \<and> (df = [] \<or> belowRoot df) \<and> belowRoot cd \<and> (\<forall>x \<in> set opts. hasPrefix x ''--build-arg='')))"

lemma buildRoots_clean:
  assumes "b \<in> buildRoots"
  shows "isAbs b" "list_all cleanElem (pathElems b)" "pathClean b = absPath (pathElems b)"
proof -
  have "list_all (\<lambda>b. isAbs b \<and> list_all cleanElem (pathElems b) \<and> pathClean b = absPath (pathElems b))
      [''/octelium/build'', repoPath]"
    by code_simp
  then show "isAbs b" "list_all cleanElem (pathElems b)" "pathClean b = absPath (pathElems b)"
    using assms by (auto simp: buildRoots_def)
qed

lemma absPath_elems: "list_all cleanElem as \<Longrightarrow> list_all cleanElem bs \<Longrightarrow> absPath as = absPath bs \<Longrightarrow> as = bs"
  by (metis pathElems_absPath)

lemma checkPath_root:
  assumes "b \<in> buildRoots" "checkPathWithin b arg = Inr p"
  shows "belowRoot p"
proof -
  obtain bs es where "pathClean b = absPath bs" "list_all cleanElem (bs @ es)" "p = absPath (bs @ es)"
    using checkPathWithin_below[OF buildRoots_clean(1)[OF assms(1)], of arg p] assms(2) by blast
  moreover from this have "bs = pathElems b"
    using absPath_elems buildRoots_clean[OF assms(1)] by (metis list_all_append)
  ultimately show ?thesis using assms(1) by (auto simp: belowRoot_def)
qed

lemma checkPath_below:
  assumes "belowRoot d" "checkPathWithin d arg = Inr p"
  shows "belowRoot p"
proof -
  obtain b es where b: "b \<in> buildRoots" "list_all cleanElem (pathElems b @ es)" "d = absPath (pathElems b @ es)"
    using assms(1) by (auto simp: belowRoot_def)
  then have d: "isAbs d" "pathClean d = d" using clean_absolute[of d] by (auto simp: isAbs_def)
  obtain bs es' where p: "pathClean d = absPath bs" "list_all cleanElem (bs @ es')" "p = absPath (bs @ es')"
    using checkPathWithin_below[OF d(1), of arg p] assms(2) by blast
  with b d have "bs = pathElems b @ es" using absPath_elems by (metis list_all_append)
  with p b(1) show ?thesis unfolding belowRoot_def by (metis append.assoc)
qed

definition buildR :: "'k sup \<Rightarrow> 'k sup \<Rightarrow> bool" where
  "buildR s s' \<longleftrightarrow> (suBuildDir s \<in> buildRoots \<and> list_all (confinedBuild \<circ> fst) (suLog s) \<longrightarrow>
     suBuildDir s' \<in> buildRoots \<and> list_all (confinedBuild \<circ> fst) (suLog s'))"

lemma build_preorder: "preorder_effect buildR"
  by unfold_locales (auto simp: buildR_def)

lemma benign_confined: "benign a \<Longrightarrow> confinedBuild a"
  by (auto simp: benign_def confinedBuild_def)

lemma buildArgs_options: "x \<in> set (buildArgs args) \<Longrightarrow> hasPrefix x ''--build-arg=''"
  by (auto simp: buildArgs_def hasPrefix_def)

lemma look:
  "bindE (getSup f) g s = g (f s) s" "bindE (retE x) h s = h x s"
  "bindE (liftE y) h s = (case y of Inl e \<Rightarrow> (Inl e, s) | Inr x \<Rightarrow> h x s)"
  by (auto simp: bindE_def getSup_def liftE_def retE_def split: sum.splits)

text \<open>What \<open>buildImage\<close> does once its paths are accepted.\<close>

definition runBuild :: "'k sup_env \<Rightarrow> (string \<times> string) list \<Rightarrow> string \<Rightarrow> string \<Rightarrow> ('k, unit) sup_io" where
  "runBuild env args df cd =
     bindE (setStatus BUILDING_IMAGE) (\<lambda>_.
     bindE (tryE (getCommandAsOctelium env
         ([''build'', ''--tag'', ''workspace''] @ (if df = [] then [] else [''-f'', df]) @ buildArgs args @ [''--'', cd]))) (\<lambda>r.
     case r of
       Inl e \<Rightarrow> bindE (setFailure (FailOther ''ImageBuild'')) (\<lambda>_. throwE e)
     | Inr _ \<Rightarrow> retE ()))"

lemma buildImage_conv:
  "buildImage env workdir dockerfile contextDir args s =
    (case checkPathWithin (suBuildDir s) workdir of Inl e \<Rightarrow> (Inl e, s) | Inr wd \<Rightarrow>
      (case (if dockerfile = [] then Inr [] else checkPathWithin wd dockerfile) of Inl e \<Rightarrow> (Inl e, s) | Inr df \<Rightarrow>
        (case checkPathWithin wd contextDir of Inl e \<Rightarrow> (Inl e, s) | Inr cd \<Rightarrow> runBuild env args df cd s)))"
  unfolding buildImage_def runBuild_def[symmetric] by (simp add: look split: sum.split)

lemma effect_build: "effect buildR (buildImage env workdir dockerfile contextDir args)"
proof (rule effectI)
  note effect_rules = preorder_effect.effect_rules[OF build_preorder]
  fix s
  have status: "effect buildR (setStatus st)" "effect buildR (setFailure f)" for st f
    by (auto simp: effect_def setStatus_def setFailure_def modSup_def buildR_def)
  have podman: "effect buildR (getCommandAsOctelium env args)" if "confinedBuild (ActPodman args)" for args
    using that by (auto simp: effect_def getCommandAsOctelium_def runAct_def Let_def buildR_def)
  show "buildR s (snd (buildImage env workdir dockerfile contextDir args s))"
  proof (cases "suBuildDir s \<in> buildRoots")
    case True
    have tail: "effect buildR (runBuild env args df cd)" if "df = [] \<or> belowRoot df" "belowRoot cd" for df cd
      using that buildArgs_options unfolding runBuild_def
      by (intro effect_rules status podman) (auto simp: confinedBuild_def intro!: effect_rules status split: sum.splits)
    have wd: "belowRoot wd" if "checkPathWithin (suBuildDir s) workdir = Inr wd" for wd
      by (rule checkPath_root[OF True that])
    have "buildR s (snd (runBuild env args df cd s))"
      if "checkPathWithin (suBuildDir s) workdir = Inr wd" "checkPathWithin wd contextDir = Inr cd"
        "(if dockerfile = [] then Inr [] else checkPathWithin wd dockerfile) = Inr df" for wd df cd
    proof (rule effectD[OF tail prod.collapse[symmetric]])
      show "df = [] \<or> belowRoot df" "belowRoot cd"
        using that checkPath_below[OF wd[OF that(1)]] by (auto split: if_splits)
    qed
    then show ?thesis unfolding buildImage_conv by (auto simp: preorder_effect.R_refl[OF build_preorder] split: sum.splits)
  next
    case False
    then show ?thesis by (simp add: buildR_def)
  qed
qed

interpretation build: prepare_effects buildR env confinedBuild "\<lambda>st. True" for env
  by unfold_locales (auto simp: buildR_def benign_confined effect_build buildRoots_def)

interpretation build_start: start_effects buildR env confinedBuild "\<lambda>st. True" for env
  by unfold_locales (auto simp: buildR_def benign_confined confinedBuild_def)

lemma phase_build:
  assumes "k < 11"
  shows "effect buildR (initPhases env fuel ! k)"
proof (cases k "6 :: nat" rule: linorder_cases)
  case equal
  have "effect buildR (setNetworkPolicySup env)"
    by (auto simp: effect_def setNetworkPolicySup_def Let_def buildR_def confinedBuild_def split: prod.splits)
  then show ?thesis
    unfolding equal initPhases_policy phasePolicy_def by (auto intro!: build.sup_rules split: sum.splits)
qed (use assms in \<open>auto intro: build.effect_before build_start.effect_after\<close>)

lemma still_build:
  "Initialize req s = (r0, s') \<Longrightarrow> buildR s s'" "Shutdown s = (r1, s') \<Longrightarrow> buildR s s'"
  "ShutdownAck s = (r2, s') \<Longrightarrow> buildR s s'" "beginShutdown s = (r3, s') \<Longrightarrow> buildR s s'"
  "handleEvent ev s = (r4, s') \<Longrightarrow> buildR s s'" "subscribeStatusListener i s = (r5, s') \<Longrightarrow> buildR s s'"
  "unsubscribeStatusListener i s = (r6, s') \<Longrightarrow> buildR s s'" "receiveStatus i s = (r7, s') \<Longrightarrow> buildR s s'"
  "setStatus st s = (r8, s') \<Longrightarrow> buildR s s'" "setFailure ft s = (r9, s') \<Longrightarrow> buildR s s'"
  "endInitialize env e s = (r10, s') \<Longrightarrow> buildR s s'"
  by (auto simp: Initialize_def Shutdown_def ShutdownAck_def beginShutdown_def handleEvent_def subscribeStatusListener_def
      unsubscribeStatusListener_def receiveStatus_def setStatus_def setFailure_def endInitialize_def getSup_def modSup_def
      bindE_def retE_def buildR_def
      split: if_splits sup_event.splits option.splits prod.splits)

lemma outer_build: "doShutdownOuter env s = (r, s') \<Longrightarrow> buildR s s'"
  by (auto simp: doShutdownOuter_def podmanStopOuter_def tryAct_def runAct_def onNet_def modSup_def bindE_def tryE_def
      retE_def closeNetworkPolicyServer_def Let_def buildR_def confinedBuild_def
      split: if_splits prod.splits sum.splits)

lemma down_build: "k < 4 \<Longrightarrow> effect buildR (downPhases env st ! k)"
  by (rule downPhases_effect[OF build.sup_effects_axioms]) (auto simp: confinedBuild_def)

lemma build_trans: "buildR s t \<Longrightarrow> buildR t u \<Longrightarrow> buildR s u"
  by (auto simp: buildR_def)

lemma buildR_step:
  assumes "pod_step env fuel p q" "podInv p"
  shows "buildR (pdSup p) (pdSup q)"
  using assms(1)
proof cases
  case (init k)
  let ?s = "snd ((initPhases env fuel ! k) (pdSup p))"
  have "buildR (pdSup p) ?s"
    using assms(2) init(2) effectD[OF phase_build prod.collapse[symmetric]] by (auto simp: podInv_def)
  moreover have "buildR ?s (snd (endInitialize env e ?s))" for e
    by (rule still_build(11)[OF prod.collapse[symmetric]])
  ultimately show ?thesis
    using init(1) by (auto simp: afterPhase_def intro: build_trans split: prod.splits sum.splits)
next
  case (down st k r s)
  then have "k < 4" using assms(2) by (auto simp: podInv_def)
  from effectD[OF down_build[OF this] down(3)] down(1) show ?thesis by simp
next
  case (sync st)
  then show ?thesis using still_build(9)[OF prod.collapse[symmetric]] by simp
next
  case (health ok)
  then show ?thesis
    using still_build(10)[OF prod.collapse[symmetric], of "pdSup p" FailHealthCheck]
    by (auto simp: healthCheck_def buildR_def)
next
  case (down_wait st)
  then show ?thesis by (simp add: buildR_def)
next
  case (outer r s)
  with outer_build[OF outer(3)] show ?thesis by simp
qed (auto dest: still_build)

text \<open>
  C17: Every image is built from a Dockerfile and a context that are clean paths in the build directory or the clone
  of the repository: no spec, workspace file, devcontainer or compose file of a repository makes the
  supervisor read files elsewhere.
\<close>

theorem builds_confined:
  assumes "(pod_step env fuel)\<^sup>*\<^sup>* (startPod (newSup key pub net)) p"
    and "(ActPodman (''build'' # args), r) \<in> set (suLog (pdSup p))"
  shows "\<exists>df opts cd. args = [''--tag'', ''workspace''] @ (if df = [] then [] else [''-f'', df]) @ opts @ [''--'', cd]
     \<and> (df = [] \<or> belowRoot df) \<and> belowRoot cd \<and> (\<forall>x \<in> set opts. hasPrefix x ''--build-arg='')"
proof -
  have "step_invariant (\<lambda>p. p = startPod (newSup key pub net)) (pod_step env fuel)
      (\<lambda>p. podInv p \<and> suBuildDir (pdSup p) \<in> buildRoots \<and> list_all (confinedBuild \<circ> fst) (suLog (pdSup p)))"
  proof
    fix p q
    assume "podInv p \<and> suBuildDir (pdSup p) \<in> buildRoots \<and> list_all (confinedBuild \<circ> fst) (suLog (pdSup p))"
      "pod_step env fuel p q"
    then show "podInv q \<and> suBuildDir (pdSup q) \<in> buildRoots \<and> list_all (confinedBuild \<circ> fst) (suLog (pdSup q))"
      using podInv_step buildR_step unfolding buildR_def by blast
  next
    fix p assume "p = startPod (newSup key pub net)"
    then show "podInv p \<and> suBuildDir (pdSup p) \<in> buildRoots \<and> list_all (confinedBuild \<circ> fst) (suLog (pdSup p))"
      using pod_start(1) by simp (simp add: startPod_def newSup_def buildRoots_def)
  qed
  from step_invariant.reachable_inv[OF this refl assms(1)]
  have "list_all (confinedBuild \<circ> fst) (suLog (pdSup p))" by blast
  with assms(2) have "confinedBuild (ActPodman (''build'' # args))" by (auto simp: list_all_iff)
  then show ?thesis by (simp add: confinedBuild_def)
qed

section \<open>A start that takes too long\<close>

definition textual :: "err \<Rightarrow> bool" where
  "textual e \<longleftrightarrow> (\<exists>m. e = Errorf m \<or> e = Panic m)"

definition fails :: "(err \<Rightarrow> bool) \<Rightarrow> ('w, 'a) io \<Rightarrow> bool" where
  "fails E m \<longleftrightarrow> (\<forall>s e s'. m s = (Inl e, s') \<longrightarrow> E e)"

lemma fails_intros:
  "fails E (retE x)" "E e \<Longrightarrow> fails E (throwE e)" "fails E (tryE m)" "fails E (getSup f)" "fails E (modSup h)"
  "fails E (setStatus st)" "fails E (setFailure ft)" "fails E (tryAct env a)"
  "(\<And>e. E (g e)) \<Longrightarrow> fails E (mapErrE g m)"
  by (auto simp: fails_def retE_def throwE_def tryE_def getSup_def modSup_def setStatus_def setFailure_def tryAct_def
      bindE_def mapErrE_def split: prod.splits sum.splits)

lemma fails_bindE: "fails E m \<Longrightarrow> (\<And>x. fails E (f x)) \<Longrightarrow> fails E (bindE m f)"
  unfolding fails_def bindE_def by (auto split: prod.splits sum.splits)

lemma fails_whenE: "fails E m \<Longrightarrow> fails E (whenE c m)"
  by (auto simp: whenE_def fails_intros)

lemma fails_forE: "(\<And>x. x \<in> set xs \<Longrightarrow> fails E (f x)) \<Longrightarrow> fails E (forE xs f)"
  by (induction xs) (auto intro!: fails_intros fails_bindE)

lemma textual_wrap [simp]: "textual (wrapErr m e)" "textual (Errorf t)" "textual (Panic p)"
  by (cases e) (auto simp: textual_def)

lemmas fails_rules = fails_intros fails_bindE fails_whenE fails_forE

lemma fails_attempts: "fails textual (prepareAttempts env n)"
  by (induction n) (auto intro!: fails_rules split: sum.splits)

lemma fails_phase: "m \<in> set (initPhases env fuel) \<Longrightarrow> fails textual m"
  by (auto simp: initPhases_def phaseRequest_def phaseOwners_def phaseCgroups_def phaseProxies_def phaseImage_def
      phaseRuntime_def phasePolicy_def phaseStart_def phaseRunning_def phaseAgent_def phasePrepare_def prepareCgroups_def
      moveSelfToWorkspaceLeafCgroup_def returnToMyCgroup_def
      intro!: fails_rules fails_attempts split: option.splits prod.splits sum.splits)

text \<open>
  Whatever \<open>doInitialize\<close> fails with, the failure that \<open>initialize\<close> guesses is not that the start
  took too long: every error has become a text on its way up.
\<close>

theorem timeout_never_guessed:
  assumes "doInitialize env fuel s = (Inl e, s')" "suFailure s' = None"
  shows "suFailure (snd (initialize env fuel s)) \<noteq> Some \<lparr>flMessage = [], flType = FailOther ''StartupTimeoutExceeded''\<rparr>"
proof -
  have "fails textual (doInitialize env fuel)"
    unfolding doInitialize_def by (intro fails_rules fails_phase)
  with assms(1) have "textual e" by (auto simp: fails_def)
  with assms show ?thesis
    by (auto simp: initialize_def endInitialize_def isDeadline_def isPanicErr_def textual_def tryE_def bindE_def getSup_def
        setFailure_def modSup_def throwE_def retE_def)
qed

end
