(* ===== verification/Sup_Witnesses.thy ===== *)
theory Sup_Witnesses
  imports Sup_Guarantees Sup_Build
begin

text \<open>
  The theorems on the supervisor at concrete inputs: a pod whose kernel is the script it ran
  last, runs of the pod that start, fail, build an image and stop, and a directory in which an image is built.
\<close>

section \<open>The egress policy\<close>

definition podNetwork :: network where
  "podNetwork = (case crNetwork exampleReq of Some n \<Rightarrow> n | None \<Rightarrow> \<lparr>netEgress = None\<rparr>)"

definition within :: "string \<Rightarrow> err + string" where
  "within bs = (if length bs < 100 then Inr bs else Inl (Errorf ''message cut off''))"

definition podEnv :: "'k \<Rightarrow> (string \<Rightarrow> 'k) \<Rightarrow> 'k net_env" where
  "podEnv k0 f = \<lparr>neUID = 1000, neIsTest = False,
     neRouteList = Inr [\<lparr>nrtDst = Some ''10.0.0.0/8'', nrtHasSrc = True, nrtLink = 1, nrtGw = None\<rparr>,
       \<lparr>nrtDst = None, nrtHasSrc = False, nrtLink = 2, nrtGw = None\<rparr>],
     neLinkByIndex = Inr,
     neAddrList = (\<lambda>i. if i = 2 then Inr [map char_of [10, 0, 0, 7 :: nat], ''bad''] else Inl (Errorf ''no link'')),
     neMarshal = (\<lambda>n. if n = podNetwork then Inr ''pod'' else Inl (Errorf ''not marshalled'')),
     neUnmarshal = (\<lambda>b. if b = ''pod'' then Inr podNetwork else Inl (Errorf ''not a network'')),
     neEncodeReq = (\<lambda>b. b), neDecodeReq = within, neEncodeResp = (\<lambda>m. m), neDecodeResp = within,
     neErrString = (\<lambda>_. ''failed''), neFile = (\<lambda>_. None), neSocket = (\<lambda>_. None),
     neRunNft = (\<lambda>s k. (None, f s))\<rparr>"

abbreviation scriptEnv :: "string net_env" where "scriptEnv \<equiv> podEnv [] (\<lambda>s. s)"

lemma podEnv_codecs: "net_codecs (podEnv k0 f)"
  by (auto simp: net_codecs_def podEnv_def within_def maxNetPolicyRequestBytes_def split: if_splits)

lemma pod_protected: "getLocalProtectedPrefixes (podEnv k0 f) = [Prefix (V4 0x0A000007) 32]"
  by code_simp

definition scriptVerdict :: "string \<Rightarrow> packet \<Rightarrow> verdict" where
  "scriptVerdict k pk =
     (case Compile (Some (policyReq scriptEnv podNetwork)) of
        Some (Inr p) \<Rightarrow> if RenderNFT (Some p) = Inr k then nftVerdict p pk else Accept
      | _ \<Rightarrow> Accept)"

lemma pod_renders:
  "\<exists>p script. Compile (Some (policyReq scriptEnv podNetwork)) = Some (Inr p) \<and> RenderNFT (Some p) = Inr script"
proof -
  have "\<exists>p. Compile (Some (policyReq scriptEnv podNetwork)) = Some (Inr p)"
    by (rule Compile_ok) (code_simp+)
  then obtain p where p: "Compile (Some (policyReq scriptEnv podNetwork)) = Some (Inr p)" by blast
  have "list_all (\<lambda>sp. checkSystemPort sp = None) (crSystemSourcePorts (policyReq scriptEnv podNetwork))"
    by code_simp
  then have "Policy_Check (Some p) = None" using Compile_passes_Check[OF p] by (simp add: list_all_iff)
  with p show ?thesis by (auto simp: RenderNFT_def)
qed

definition openSrv :: "'k \<Rightarrow> 'k net_srv" where
  "openSrv k = \<lparr>nvListening = True, nvApplied = False, nvKernel = k\<rparr>"

lemma pod_policy_set:
  "\<exists>script. doSetNetworkPolicy scriptEnv (Some podNetwork) (openSrv [])
     = (Inr (), \<lparr>nvListening = True, nvApplied = True, nvKernel = script\<rparr>)"
proof -
  obtain p script where p: "Compile (Some (policyReq scriptEnv podNetwork)) = Some (Inr p)"
    and script: "RenderNFT (Some p) = Inr script"
    using pod_renders by blast
  then show ?thesis
    by (simp add: doSetNetworkPolicy_def handleNetworkPolicyConn_def doHandleNetworkPolicyConn_def
        compileNetworkPolicy_def applyNetworkPolicy_def runNetworkPolicyScript_def setApplied_def
        podEnv_def openSrv_def within_def maxNetPolicyRequestBytes_def bindE_def liftE_def mapErrE_def
        tryE_def retE_def readE_def throw_if_def mapErrS_def bindS_def policyReq_def)
qed

lemma pod_nft_runs:
  "Compile (Some (policyReq scriptEnv (networkOf (Some podNetwork)))) = Some (Inr q) \<Longrightarrow> nft_runs scriptEnv scriptVerdict q"
  by (auto simp: nft_runs_def scriptVerdict_def networkOf_def podEnv_def)

lemma RenderNFT_not_teardown: "RenderNFT (Some p) \<noteq> Inr RenderNFTTeardown"
  by (auto simp: RenderNFT_def RenderNFTTeardown_def Let_def split: option.splits)

lemma applied_iff_table_witness:
  "nvApplied (fold (netCall (podEnv False (\<lambda>s. s \<noteq> RenderNFTTeardown)))
     [NetStart, NetConn ''pod'', NetConn ''???'', NetTeardown, NetClose] (openSrv False)) \<longleftrightarrow>
   nvKernel (fold (netCall (podEnv False (\<lambda>s. s \<noteq> RenderNFTTeardown)))
     [NetStart, NetConn ''pod'', NetConn ''???'', NetTeardown, NetClose] (openSrv False))"
proof -
  let ?env = "podEnv False (\<lambda>s. s \<noteq> RenderNFTTeardown)"
  have "nft_atomic ?env (\<lambda>k. k)"
    by (auto simp: nft_atomic_def podEnv_def RenderNFT_not_teardown)
  then show ?thesis
    by (rule applied_iff_table) (simp add: openSrv_def)
qed

section \<open>Paths\<close>

lemma checkPathWithin_below_witness:
  "checkPathWithin ''/octelium/build/'' ''src/./sub/../Dockerfile'' = Inr ''/octelium/build/src/Dockerfile''
   \<and> (\<exists>bs es. pathClean ''/octelium/build/'' = absPath bs \<and> list_all cleanElem (bs @ es)
        \<and> ''/octelium/build/src/Dockerfile'' = absPath (bs @ es))
   \<and> \<not> (\<exists>p. checkPathWithin ''/octelium/build'' ''../build2'' = Inr p)"
proof -
  have base: "isAbs ''/octelium/build/''"
    and ok: "checkPathWithin ''/octelium/build/'' ''src/./sub/../Dockerfile'' = Inr ''/octelium/build/src/Dockerfile''"
    and no: "isl (checkPathWithin ''/octelium/build'' ''../build2'')"
    by code_simp+
  show ?thesis
    using ok no conjunct2[OF iffD1[OF checkPathWithin_below[OF base] ok]] by auto
qed

section \<open>Runs of the pod\<close>

definition podSpec :: ws_spec where
  "podSpec = emptySpec\<lparr>spRuntime := Some (emptyRuntime\<lparr>rtNetwork := Some podNetwork\<rparr>),
     spImage := Some (ImgDockerfile (DfInline ''FROM scratch''))\<rparr>"

definition podWorkspace :: workspace where
  "podWorkspace = \<lparr>wsMetadata = emptyMetadata, wsSpec = podSpec, wsStatus = emptyStatus\<lparr>stIsBuild := True\<rparr>\<rparr>"

definition podRequest :: "persistent_source \<Rightarrow> sup_req" where
  "podRequest src = \<lparr>sqWorkspace = Some podWorkspace, sqSpace = None, sqTemplate = None, sqDomain = None,
     sqClusterCaps = None, sqSecrets = [], sqUserSecrets = [], sqTemplateHasSnapshot = False, sqSource = src\<rparr>"

definition podSupEnv :: "bool \<Rightarrow> string sup_env" where
  "podSupEnv t = \<lparr>seNet = scriptEnv\<lparr>neIsTest := t\<rparr>, seIsDev = False, seOutcome = (\<lambda>_ _. None), seExists = (\<lambda>_ _. False),
     seReadYAML = (\<lambda>_ _. Inl (Errorf ''no file'')), seDevcontainer = (\<lambda>_ _. Inl (Errorf ''no file'')),
     seCompose = (\<lambda>_ _ _. Inl (Errorf ''no file'')), seInspect = (\<lambda>_ _. Inr (Some (True, ''running''))),
     seValidators = exampleValidators, seMerge = (\<lambda>_ sp. sp), seVarOrd = (\<lambda>_ vs. vs), seImage = ''base'',
     seCPUs = (\<lambda>_. ''1.00''), seIsDeadline = (\<lambda>_. False)\<rparr>"

abbreviation podStart :: "string pod" where
  "podStart \<equiv> startPod (newSup ''key'' ''pub'' (openSrv []))"

text \<open>The request arrives, and a number of phases run.\<close>

definition runRequest :: "sup_req \<Rightarrow> 'k pod \<Rightarrow> 'k pod" where
  "runRequest req p =
     (case Initialize req (pdSup p) of (r, s) \<Rightarrow> p\<lparr>pdSup := s, pdInit := (if r = Inr True then At 0 else pdInit p)\<rparr>)"

definition runPhase :: "'k sup_env \<Rightarrow> 'k pod \<Rightarrow> 'k pod" where
  "runPhase env p =
     (case pdInit p of At k \<Rightarrow> afterPhase env 0 k ((initPhases env 0 ! k) (pdSup p)) p | _ \<Rightarrow> p)"

definition runDown :: "'k sup_env \<Rightarrow> 'k pod \<Rightarrow> 'k pod" where
  "runDown env p =
     (case pdDown p of
        At (st, k) \<Rightarrow>
          p\<lparr>pdSup := snd ((downPhases env st ! k) (pdSup p)), pdDown := (if Suc k < length (downPhases env st) then At (st, Suc k) else Done)\<rparr>
      | _ \<Rightarrow> p)"

lemma runRequest_steps: "(pod_step env fuel)\<^sup>*\<^sup>* p (runRequest req p)"
proof -
  obtain b s where i: "Initialize req (pdSup p) = (Inr b, s)"
    by (cases "suRequested (pdSup p)") (auto simp: Initialize_def)
  have "runRequest req p = p\<lparr>pdSup := s, pdInit := (if b then At 0 else pdInit p)\<rparr>" by (simp add: runRequest_def i)
  then show ?thesis using pod_step.request[OF i] by (metis r_into_rtranclp)
qed

lemma runPhase_steps: "(pod_step env 0)\<^sup>*\<^sup>* p ((runPhase env ^^ n) p)"
proof (induction n)
  case (Suc n)
  have "(pod_step env 0)\<^sup>*\<^sup>* q (runPhase env q)" for q
    by (cases "pdInit q") (auto simp: runPhase_def intro: pod_step.init)
  with Suc show ?case by (metis (no_types) comp_apply funpow.simps(2) rtranclp_trans)
qed simp

lemma runDown_steps: "(pod_step env fuel)\<^sup>*\<^sup>* p ((runDown env ^^ n) p)"
proof (induction n)
  case (Suc n)
  have "(pod_step env fuel)\<^sup>*\<^sup>* q (runDown env q)" for q
  proof (cases "pdDown q")
    case (At d)
    then obtain st k where "pdDown q = At (st, k)" by (cases d) auto
    from pod_step.down[OF this prod.collapse[symmetric], of env fuel] this show ?thesis
      by (simp add: runDown_def r_into_rtranclp del: downPhases_length)
  qed (auto simp: runDown_def)
  with Suc show ?case by (metis (no_types) comp_apply funpow.simps(2) rtranclp_trans)
qed simp

definition builtPod :: "string pod" where
  "builtPod = (runPhase (podSupEnv True) ^^ 5) (runRequest (podRequest SOURCE_EMPTY) podStart)"

lemma builtPod_steps: "(pod_step (podSupEnv True) 0)\<^sup>*\<^sup>* podStart builtPod"
  unfolding builtPod_def by (rule rtranclp_trans[OF runRequest_steps runPhase_steps])

lemma runs:
  "runAct (podSupEnv t) a s = (Inr (), s\<lparr>suLog := suLog s @ [(a, None)]\<rparr>)"
  "tryAct (podSupEnv t) a s = (Inr (), s\<lparr>suLog := suLog s @ [(a, None)]\<rparr>)"
  "getCommandAsOctelium (podSupEnv t) args s = (Inr (), s\<lparr>suLog := suLog s @ [(ActPodman args, None)]\<rparr>)"
  "tryE (getCommandAsOctelium (podSupEnv t) args) s = (Inr (Inr ()), s\<lparr>suLog := suLog s @ [(ActPodman args, None)]\<rparr>)"
  "seTest (podSupEnv t) = t" "\<not> seIsDev (podSupEnv t)" "\<not> seExists (podSupEnv t) log f"
  by (simp_all add: runAct_def tryAct_def getCommandAsOctelium_def tryE_def bindE_def retE_def podSupEnv_def Let_def)

lemmas steps = runs setStatus_def setFailure_def modSup_def getSup_def whenE_def bindE_def retE_def throwE_def liftE_def
  mapErrE_def tryE_def

lemma podMerge:
  "MergeSpec (seMerge (podSupEnv t)) (seVarOrd (podSupEnv t))
     \<lparr>mrWorkspace = Some podWorkspace, mrTemplate = None, mrChildWorkspace = None\<rparr> = Inr podSpec"
  by (simp add: MergeSpec_def mergeSpec_def renderSpec_def resolveVars_def runConfigVars_def podWorkspace_def podSpec_def
      emptySpec_def emptyStatus_def)

lemma run_request:
  assumes "suInitReq s = Some (podRequest src)" "suKey s \<noteq> None"
  shows "phaseRequest (podSupEnv t) s = (Inr (), s\<lparr>suSpec := podSpec, suSource := src,
     suFresh := freshRun t src podWorkspace None False, suWsUID := []\<rparr>)"
  using assms podMerge[of t]
  by (auto simp: phaseRequest_def steps podRequest_def podWorkspace_def emptyMetadata_def)

lemma run_owners:
  "phaseOwners (podSupEnv t) s = (Inr (), if suFresh s
     then s\<lparr>suLog := suLog s @ [(ActChown ''/octelium'', None), (ActChown ''/home/octelium'', None)],
            suCopies := suCopies s @ [(''/octelium/workspace'', ''/workspace'')]\<rparr>
     else s)"
  by (simp add: phaseOwners_def steps)

lemma run_forE: "forE cs (\<lambda>c. tryAct (podSupEnv t) (f c)) s = (Inr (), s\<lparr>suLog := suLog s @ map (\<lambda>c. (f c, None)) cs\<rparr>)"
  by (induction cs arbitrary: s) (auto simp: steps)

lemma run_cgroups:
  "\<exists>as. phaseCgroups (podSupEnv t) s = (Inr (), s\<lparr>suLog := as\<rparr>)"
proof -
  have "phaseCgroups (podSupEnv t) s = (Inr (), s\<lparr>suLog := suLog (snd (phaseCgroups (podSupEnv t) s))\<rparr>)"
    by (auto simp: phaseCgroups_def prepareCgroups_def moveSelfToWorkspaceLeafCgroup_def steps run_forE)
  then show ?thesis by blast
qed

lemma run_proxies: "suInitReq s = Some (podRequest src) \<Longrightarrow> phaseProxies (podSupEnv t) s = (Inr (), s)"
  by (auto simp: phaseProxies_def runOcteliumProxy_def runSSHAgent_def steps isBuildReq_def podRequest_def podWorkspace_def)

lemma run_runtime:
  "\<not> suFresh s \<Longrightarrow> phaseRuntime (podSupEnv t) s =
     (Inr (), s\<lparr>suStatus := STARTING_RUNTIME, suBus := publishAll STARTING_RUNTIME (suBus s)\<rparr>)"
  by (simp add: phaseRuntime_def steps)

lemma run_image: "\<not> suFresh s \<Longrightarrow> phaseImage (podSupEnv t) fuel s = (Inr (), s)"
  by (simp add: phaseImage_def steps)

lemma run_build:
  assumes "suFresh s" "suSpec s = podSpec" "suBuildDir s = ''/octelium/build''"
  shows "\<exists>s' args. phaseImage (podSupEnv True) fuel s = (Inr (), s') \<and> (ActPodman (''build'' # args), None) \<in> set (suLog s')"
    (is "\<exists>s' args. ?run s' args")
proof -
  have paths: "checkPathWithin ''/octelium/build'' ''/octelium/build'' = Inr ''/octelium/build''"
    "checkPathWithin ''/octelium/build'' ''/octelium/build/Dockerfile'' = Inr ''/octelium/build/Dockerfile''"
    "checkPathWithin ''/octelium/build'' ''.'' = Inr ''/octelium/build''"
    "pathJoin ''/octelium/build'' ''Dockerfile'' = ''/octelium/build/Dockerfile''"
    by code_simp+
  have "\<exists>s'. ?run s' [''--tag'', ''workspace'', ''-f'', ''/octelium/build/Dockerfile'', ''--'', ''/octelium/build'']"
    using assms paths
    by (simp add: phaseImage_def createPod_def prepareAndBuildImage_def chooseImage_def podSpec_def
        prepareImageContainerfile_def buildImage_def buildArgs_def steps Let_def)
  then show ?thesis by blast
qed

lemma builds_confined_witness:
  "\<exists>args r. (ActPodman (''build'' # args), r) \<in> set (suLog (pdSup builtPod))
     \<and> (\<exists>df opts cd. args = [''--tag'', ''workspace''] @ (if df = [] then [] else [''-f'', df]) @ opts @ [''--'', cd]
          \<and> (df = [] \<or> belowRoot df) \<and> belowRoot cd \<and> (\<forall>x \<in> set opts. hasPrefix x ''--build-arg=''))"
proof -
  let ?env = "podSupEnv True"
  let ?s = "newSup ''key'' ''pub'' (openSrv []) :: string sup"
  obtain s0 where s0: "phaseRequest ?env (?s\<lparr>suRequested := True, suInitReq := Some (podRequest SOURCE_EMPTY)\<rparr>) = (Inr (), s0)"
    "suFresh s0" "suSpec s0 = podSpec" "suBuildDir s0 = ''/octelium/build''" "suInitReq s0 = Some (podRequest SOURCE_EMPTY)"
    using run_request[of "?s\<lparr>suRequested := True, suInitReq := Some (podRequest SOURCE_EMPTY)\<rparr>" SOURCE_EMPTY True]
    by (auto simp: newSup_def freshRun_def)
  obtain s1 where s1: "phaseOwners ?env s0 = (Inr (), s1)" "suFresh s1" "suSpec s1 = podSpec"
    "suBuildDir s1 = ''/octelium/build''" "suInitReq s1 = Some (podRequest SOURCE_EMPTY)"
    using s0 by (auto simp: run_owners)
  obtain s2 where s2: "phaseCgroups ?env s1 = (Inr (), s2)" "suFresh s2" "suSpec s2 = podSpec"
    "suBuildDir s2 = ''/octelium/build''" "suInitReq s2 = Some (podRequest SOURCE_EMPTY)"
    using s1 run_cgroups[of True s1] by auto
  obtain s4 args where s4: "phaseImage ?env 0 s2 = (Inr (), s4)" "(ActPodman (''build'' # args), None) \<in> set (suLog s4)"
    using run_build s2 by blast
  have "pdSup builtPod = s4"
    using s0(1) s1(1) s2(1) run_proxies[OF s2(5), of True] s4(1)
    by (simp add: builtPod_def eval_nat_numeral runPhase_def runRequest_def startPod_def Initialize_def newSup_def afterPhase_def
        initPhases_def)
  with s4 have "(ActPodman (''build'' # args), None) \<in> set (suLog (pdSup builtPod))" by simp
  from builds_confined[OF builtPod_steps this] this show ?thesis by blast
qed

definition startedPod :: "string pod" where
  "startedPod = (runPhase (podSupEnv False) ^^ 8) (runRequest (podRequest SOURCE_EXISTING) podStart)"

lemma startedPod_steps: "(pod_step (podSupEnv False) 0)\<^sup>*\<^sup>* podStart startedPod"
  unfolding startedPod_def by (rule rtranclp_trans[OF runRequest_steps runPhase_steps])

lemma podSupEnv_net [simp]: "seNet (podSupEnv False) = scriptEnv"
  by (simp add: podSupEnv_def podEnv_def)

lemma run_policy:
  assumes "suSpec s = podSpec" "suNet s = openSrv []"
  shows "\<exists>n as. phasePolicy (podSupEnv False) s = (Inr (), s\<lparr>suNet := n, suLog := as\<rparr>)"
proof -
  obtain script where "doSetNetworkPolicy scriptEnv (Some podNetwork) (openSrv [])
     = (Inr (), \<lparr>nvListening = True, nvApplied = True, nvKernel = script\<rparr>)"
    using pod_policy_set by blast
  moreover have "\<not> neIsTest scriptEnv" by (simp add: podEnv_def)
  ultimately show ?thesis
    using assms by (simp add: phasePolicy_def setNetworkPolicySup_def setNetworkPolicy_def podSpec_def steps Let_def)
      (metis (no_types))
qed

lemma run_start:
  "\<not> suFresh s \<Longrightarrow> \<exists>as. phaseStart (podSupEnv t) s = (Inr (), s\<lparr>suLog := as\<rparr>)
     \<and> didStart (s\<lparr>suLog := as\<rparr>)"
  by (rule exI[where x = "suLog s @ [(ActPodman [''system'', ''migrate''], None), (ActPodman [''init'', ''workspace''], None),
      (ActPodman [''start'', ''workspace''], None)]"])
    (simp add: phaseStart_def doStartContainer_def steps didStart_def containerStart_def)

lemma startedPod_state: "didStart (pdSup startedPod)" "suSpec (pdSup startedPod) = podSpec" "\<not> suOuterDone (pdSup startedPod)"
proof -
  let ?env = "podSupEnv False"
  let ?s = "newSup ''key'' ''pub'' (openSrv []) :: string sup"
  let ?r = "?s\<lparr>suRequested := True, suInitReq := Some (podRequest SOURCE_EXISTING)\<rparr>"
  define ok where "ok s \<longleftrightarrow> \<not> suFresh s \<and> suSpec s = podSpec \<and> suInitReq s = Some (podRequest SOURCE_EXISTING)
     \<and> suNet s = openSrv [] \<and> \<not> suOuterDone s" for s :: "string sup"
  obtain s0 where s0: "phaseRequest ?env ?r = (Inr (), s0)" "ok s0"
    using run_request[of ?r SOURCE_EXISTING False] by (auto simp: newSup_def freshRun_def ok_def)
  have s1: "phaseOwners ?env s0 = (Inr (), s0)" using s0 by (simp add: run_owners ok_def)
  obtain s2 where s2: "phaseCgroups ?env s0 = (Inr (), s2)" "ok s2"
    using s0 run_cgroups[of False s0] by (auto simp: ok_def)
  have s4: "phaseProxies ?env s2 = (Inr (), s2)" "phaseImage ?env 0 s2 = (Inr (), s2)"
    using s2 run_proxies run_image by (auto simp: ok_def)
  obtain s5 where s5: "phaseRuntime ?env s2 = (Inr (), s5)" "ok s5"
    using s2 by (auto simp: run_runtime ok_def)
  obtain s6 where s6: "phasePolicy ?env s5 = (Inr (), s6)" "\<not> suFresh s6" "suSpec s6 = podSpec" "\<not> suOuterDone s6"
    using run_policy[of s5] s5 by (auto simp: ok_def)
  obtain as where s7: "phaseStart ?env s6 = (Inr (), s6\<lparr>suLog := as\<rparr>)" "didStart (s6\<lparr>suLog := as\<rparr>)"
    using run_start s6(2) by blast
  have "pdSup startedPod = s6\<lparr>suLog := as\<rparr>"
    using s0(1) s1 s2(1) s4 s5(1) s6(1) s7(1)
    by (simp add: startedPod_def eval_nat_numeral runPhase_def runRequest_def startPod_def Initialize_def newSup_def
        afterPhase_def initPhases_def)
  with s6 s7(2) show "didStart (pdSup startedPod)" "suSpec (pdSup startedPod) = podSpec" "\<not> suOuterDone (pdSup startedPod)"
    by simp_all
qed

lemma container_confined_witness:
  "didStart (pdSup startedPod)
   \<and> enforces scriptEnv scriptVerdict (Some podNetwork) (nvKernel (suNet (pdSup startedPod)))"
proof -
  have policy: "policyOf (pdSup startedPod) = Some podNetwork"
    by (simp add: policyOf_def startedPod_state podSpec_def)
  have "net_codecs (seNet (podSupEnv False))" "\<not> seTest (podSupEnv False)"
    using podEnv_codecs[of "[]" "\<lambda>s. s"] by (simp_all add: podEnv_def)
  moreover have "nft_runs_net (podSupEnv False) scriptVerdict (policyOf (pdSup startedPod))"
    using pod_nft_runs by (simp add: nft_runs_net_def policy)
  ultimately show ?thesis
    using container_confined[OF _ _ startedPod_steps] startedPod_state policy by (metis podSupEnv_net)
qed

text \<open>A request without a Workspace fails, and a second one is not looked at.\<close>

definition failedPod :: "string pod" where
  "failedPod = runPhase (podSupEnv False) (runRequest ((podRequest SOURCE_EMPTY)\<lparr>sqWorkspace := None\<rparr>) podStart)"

lemma failedPod_steps: "(pod_step (podSupEnv False) 0)\<^sup>*\<^sup>* podStart failedPod"
  unfolding failedPod_def
  by (rule rtranclp_trans[OF runRequest_steps runPhase_steps[where n = 1, simplified]])

lemma one_initialization_witness:
  "length (suInitErrs (pdSup failedPod)) = 1 \<and> suFailure (pdSup failedPod) \<noteq> None
   \<and> suInitReq (pdSup (runRequest (podRequest SOURCE_EMPTY) failedPod)) = suInitReq (pdSup failedPod)"
proof -
  have "suInitErrs (pdSup failedPod) \<noteq> []" "suRequested (pdSup failedPod)"
    by (simp_all add: failedPod_def runPhase_def runRequest_def startPod_def Initialize_def newSup_def afterPhase_def
        initPhases_def phaseRequest_def podRequest_def steps isPanicErr_def endInitialize_def)
  then show ?thesis
    using one_initialization[OF failedPod_steps, of "runRequest (podRequest SOURCE_EMPTY) failedPod"]
      runRequest_steps[of "podSupEnv False" 0 failedPod]
    by (cases "suInitErrs (pdSup failedPod)") auto
qed

text \<open>A pod that is shut down before it was asked for anything.\<close>

definition stoppedPod :: "string pod" where
  "stoppedPod = (runDown (podSupEnv False) ^^ 4)
     (podStart\<lparr>pdSup := (pdSup podStart)\<lparr>suShuttingDown := True\<rparr>, pdDown := At (INITIALIZING, 0)\<rparr>)"

lemma stopped_after_stop_witness:
  "suStatus (pdSup stoppedPod) = STOPPED \<and> didStop (pdSup stoppedPod)"
proof -
  have b: "beginShutdown (pdSup podStart) = (Inr True, (pdSup podStart)\<lparr>suShuttingDown := True\<rparr>)"
    by (simp add: beginShutdown_def startPod_def newSup_def)
  have "pod_step (podSupEnv False) 0 podStart
      (podStart\<lparr>pdSup := (pdSup podStart)\<lparr>suShuttingDown := True\<rparr>, pdDown := At (INITIALIZING, 0)\<rparr>)"
    using pod_step.down_begin[OF b] by (simp add: startPod_def newSup_def)
  then have run: "(pod_step (podSupEnv False) 0)\<^sup>*\<^sup>* podStart stoppedPod"
    unfolding stoppedPod_def by (intro rtranclp_trans[OF r_into_rtranclp runDown_steps])
  have "suStatus (pdSup stoppedPod) = STOPPED"
    by (simp add: stoppedPod_def eval_nat_numeral runDown_def startPod_def downPhases_def newSup_def stopContainer_def
        savesStorage_def steps del: downPhases_length)
  with stopped_after_stop[OF run] show ?thesis by blast
qed

end
