(* ===== verification/Agent_Env.thy ===== *)
theory Agent_Env
  imports Sup_State Volume_Resolve
begin

text \<open>
  The environment variables and command lines of the agent that runs inside a Workspace
  (\<open>setEnv\<close>, \<open>setEnvVars\<close> of \<open>cluster/workspace/workspace/server.go\<close>, \<open>getTerminalEnv\<close> of \<open>terminal.go\<close>, \<open>shellJoin\<close> and
  \<open>getEnv\<close> of \<open>task.go\<close>).
\<close>

section \<open>Lists of variables\<close>

text \<open>A variable is \<open>key=value\<close>; what has no \<open>=\<close> is all key.\<close>

definition envKey :: "string \<Rightarrow> string" where
  "envKey e = takeWhile (\<lambda>c. c \<noteq> CHR ''='') e"

definition envEntry :: "string \<Rightarrow> string \<Rightarrow> string" where
  "envEntry k v = k @ ''='' @ v"

text \<open>Whether the key was there, and the list with its first entry replaced.\<close>

fun setEnvExistingKey :: "string list \<Rightarrow> string \<Rightarrow> string \<Rightarrow> bool \<times> string list" where
  "setEnvExistingKey [] k v = (False, [])"
| "setEnvExistingKey (e # es) k v =
     (if envKey e = k then (True, envEntry k v # es)
      else (case setEnvExistingKey es k v of (found, es') \<Rightarrow> (found, e # es')))"

definition setEnv :: "string list \<Rightarrow> string \<Rightarrow> string \<Rightarrow> string list" where
  "setEnv es k v =
     (case setEnvExistingKey es k v of (found, es') \<Rightarrow> if found then es' else es @ [envEntry k v])"

text \<open>
  What a program sees: \<open>os/exec\<close> keeps the last entry of every key.
\<close>

definition envValue :: "string list \<Rightarrow> string \<Rightarrow> string option" where
  "envValue es k =
     (case filter (\<lambda>e. hasPrefix e (k @ ''='')) es of [] \<Rightarrow> None | fs \<Rightarrow> Some (drop (length k + 1) (last fs)))"

definition plainKey :: "string \<Rightarrow> bool" where
  "plainKey k \<longleftrightarrow> CHR ''='' \<notin> set k"

text \<open>No key has two entries.\<close>

definition envDistinct :: "string list \<Rightarrow> bool" where
  "envDistinct es \<longleftrightarrow> distinct (map envKey es) \<and> list_all (\<lambda>e. CHR ''='' \<in> set e) es"

section \<open>The request and the variables of a Workspace\<close>

record git_creds =
  gcUsername :: string
  gcEmail :: string
  gcToken :: string

text \<open>The fields of a \<open>PrepareRequest\<close> that the agent reads.\<close>

record prep_req =
  pqWorkspace :: workspace
  pqSpace :: "space option"
  pqTemplate :: "template option"
  pqDomain :: string
  pqSecrets :: "secret list option"
  pqUserSecrets :: "user_secret list option"
  pqUserConfig :: "user_config option"
  pqGitInfo :: "git_creds option"
  pqTemplateHasSnapshot :: bool
  pqSource :: persistent_source
  pqVolumeMounts :: "resolved_mount list"

text \<open>A variable whose Secret is missing is left out.\<close>

definition userEnvValue :: "user_secret list option \<Rightarrow> user_env_var \<Rightarrow> string option" where
  "userEnvValue secs e =
     (case ueType e of
        UserEnvValue v \<Rightarrow> Some v
      | UserEnvFromUserSecret n \<Rightarrow>
          (case secs of
             None \<Rightarrow> None
           | Some ss \<Rightarrow> (case UserSecretList_GetByName ss n of Inl _ \<Rightarrow> None | Inr s \<Rightarrow> Some (UserSecret_GetValueStr s)))
      | UserEnvUnset \<Rightarrow> None)"

definition envVarValue :: "secret list option \<Rightarrow> env_var \<Rightarrow> string option" where
  "envVarValue secs e =
     (case evType e of
        EnvValue v \<Rightarrow> Some v
      | EnvFromSecret n \<Rightarrow>
          (case secs of
             None \<Rightarrow> None
           | Some ss \<Rightarrow> (case SecretList_GetByName ss n of Inl _ \<Rightarrow> None | Inr s \<Rightarrow> Some (Secret_GetValueStr s)))
      | EnvUnset \<Rightarrow> None)"

definition setEnvOpt :: "string list \<Rightarrow> string \<times> string option \<Rightarrow> string list" where
  "setEnvOpt es kv = (case snd kv of None \<Rightarrow> es | Some v \<Rightarrow> setEnv es (fst kv) v)"

definition userEnv :: "prep_req \<Rightarrow> (string \<times> string option) list" where
  "userEnv rq =
     (case pqUserConfig rq of
        None \<Rightarrow> []
      | Some uc \<Rightarrow> map (\<lambda>e. (ueKey e, userEnvValue (pqUserSecrets rq) e)) (ucEnvVars uc))"

definition runtimeEnv :: "secret list option \<Rightarrow> env_var list \<Rightarrow> (string \<times> string option) list" where
  "runtimeEnv secs vars = map (\<lambda>e. (evKey e, envVarValue secs e)) vars"

definition spaceEnv :: "prep_req \<Rightarrow> (string \<times> string option) list" where
  "spaceEnv rq =
     (case Option.bind (pqSpace rq) (\<lambda>sp. ssRuntime (spcSpec sp)) of
        None \<Rightarrow> []
      | Some rt \<Rightarrow> runtimeEnv (pqSecrets rq) (srEnvVars rt))"

definition specEnv :: "prep_req \<Rightarrow> ws_spec \<Rightarrow> (string \<times> string option) list" where
  "specEnv rq spec =
     (case spRuntime spec of None \<Rightarrow> [] | Some rt \<Rightarrow> runtimeEnv (pqSecrets rq) (rtEnvVars rt))"

definition fixedEnv :: "prep_req \<Rightarrow> workspace \<Rightarrow> (string \<times> string option) list" where
  "fixedEnv rq ws =
     [(''OCTELIUM_AUTH_PROXY_SOCKET'', Some ''/var/run/octelium-proxy.sock''), (''OCTELIUM_DOMAIN'', Some (pqDomain rq)),
      (''CORDIUM_NAME'', Some (mdName (wsMetadata ws))), (''CORDIUM_HOSTNAME'', Some (stHostname (wsStatus ws))),
      (''SSH_AUTH_SOCK'', Some ''/var/run/octelium-ssh-agent.sock''), (''OCTELIUM_HOME'', Some ''mem'')]"

text \<open>\<open>base\<close> is \<open>os.Environ\<close>, \<open>ws\<close> the merged Workspace.\<close>

definition setEnvVars :: "string list \<Rightarrow> prep_req \<Rightarrow> workspace \<Rightarrow> string list" where
  "setEnvVars base rq ws =
     foldl setEnvOpt base (userEnv rq @ spaceEnv rq @ specEnv rq (wsSpec ws) @ fixedEnv rq ws)"

definition getTerminalEnv :: "bool \<Rightarrow> string list \<Rightarrow> string \<Rightarrow> string \<Rightarrow> string \<Rightarrow> string \<Rightarrow> string list" where
  "getTerminalEnv hasVim env user homeDir domain shellPath =
     (let editor = (if hasVim then ''vim'' else ''nano'')
      in foldl (\<lambda>es (k, v). setEnv es k v) env
        [(''USERNAME'', user), (''TERM'', ''xterm-256color''), (''COLORTERM'', ''truecolor''), (''HOME'', homeDir),
         (''LANG'', ''en_US.utf8''), (''SHELL'', shellPath), (''OCTELIUM_DOMAIN'', domain), (''EDITOR'', editor),
         (''VISUAL'', editor), (''OCTELIUM_AUTH_PROXY_SOCKET'', ''/var/run/octelium-proxy.sock''),
         (''SSH_AUTH_SOCK'', ''/var/run/octelium-ssh-agent.sock'')])"

section \<open>Quoting\<close>

definition quoteChar :: "char \<Rightarrow> string" where
  "quoteChar c = (if c = CHR 0x27 then [CHR 0x27, CHR 0x22, CHR 0x27, CHR 0x22, CHR 0x27] else [c])"

definition shellQuote :: "string \<Rightarrow> string" where
  "shellQuote s =
     (if s = [] then [CHR 0x27, CHR 0x27] else [CHR 0x27] @ concat (map quoteChar s) @ [CHR 0x27])"

definition shellJoin :: "string list \<Rightarrow> string" where
  "shellJoin args = joinWith '' '' (map shellQuote args)"

text \<open>
  The words that a shell takes a command line for: blanks separate them, single quotes keep
  everything, double quotes keep all that does not expand. \<open>None\<close> is anything that is more than
  words: an expansion, an operator, an open quote.
\<close>

definition shellPlain :: "char \<Rightarrow> bool" where
  "shellPlain c \<longleftrightarrow> isLowerDigit c \<or> ((65 :: nat) \<le> of_char c \<and> of_char c \<le> (90 :: nat))
     \<or> c \<in> set ''-_./:,@%+''"

datatype shell_quote = Unquoted | Single | Double

fun shellLex :: "shell_quote \<Rightarrow> string option \<Rightarrow> string \<Rightarrow> string list option" where
  "shellLex Unquoted w [] = Some (case w of None \<Rightarrow> [] | Some x \<Rightarrow> [x])"
| "shellLex Single w [] = None"
| "shellLex Double w [] = None"
| "shellLex Unquoted w (c # s) =
     (if c = CHR '' '' then
        map_option (\<lambda>ws. (case w of None \<Rightarrow> ws | Some x \<Rightarrow> x # ws)) (shellLex Unquoted None s)
      else if c = CHR 0x27 then shellLex Single (Some (case w of None \<Rightarrow> [] | Some x \<Rightarrow> x)) s
      else if c = CHR 0x22 then shellLex Double (Some (case w of None \<Rightarrow> [] | Some x \<Rightarrow> x)) s
      else if shellPlain c then shellLex Unquoted (Some ((case w of None \<Rightarrow> [] | Some x \<Rightarrow> x) @ [c])) s
      else None)"
| "shellLex Single w (c # s) =
     (if c = CHR 0x27 then shellLex Unquoted w s
      else shellLex Single (Some ((case w of None \<Rightarrow> [] | Some x \<Rightarrow> x) @ [c])) s)"
| "shellLex Double w (c # s) =
     (if c = CHR 0x22 then shellLex Unquoted w s
      else if c \<in> {CHR ''$'', CHR 0x60, CHR 0x5C} then None
      else shellLex Double (Some ((case w of None \<Rightarrow> [] | Some x \<Rightarrow> x) @ [c])) s)"

definition shellWords :: "string \<Rightarrow> string list option" where
  "shellWords s = shellLex Unquoted None s"

lemma shellLex_single:
  "shellLex Single (Some w) (concat (map quoteChar s) @ CHR 0x27 # r) = shellLex Unquoted (Some (w @ s)) r"
  by (induction s arbitrary: w) (simp_all add: quoteChar_def)

lemma shellLex_quoted: "shellLex Unquoted None (shellQuote a @ r) = shellLex Unquoted (Some a) r"
  using shellLex_single[of "[]" a r] by (cases "a = []") (simp_all add: shellQuote_def)

text \<open>
  Whatever the arguments are, the shell takes the command line made from them for exactly these words:
  no argument is split, expanded or run.
\<close>

theorem shellJoin_words: "shellWords (shellJoin args) = Some args"
proof -
  have "shellLex Unquoted None (joinWith '' '' (map shellQuote args)) = Some args"
  proof (induction args)
    case (Cons a as)
    show ?case
    proof (cases as)
      case Nil
      then show ?thesis using shellLex_quoted[of a "[]"] by simp
    next
      case (Cons b bs)
      then have "joinWith '' '' (map shellQuote (a # as)) = shellQuote a @ '' '' @ joinWith '' '' (map shellQuote as)"
        by (simp add: joinWith_Cons)
      then show ?thesis using Cons.IH shellLex_quoted[of a] by simp
    qed
  qed simp
  then show ?thesis by (simp add: shellWords_def shellJoin_def)
qed

section \<open>What programs see\<close>

lemma takeWhile_key: "plainKey k \<Longrightarrow> takeWhile (\<lambda>c. c \<noteq> CHR ''='') (k @ CHR ''='' # r) = k"
  by (induction k) (auto simp: plainKey_def)

lemma envKey_entry [simp]: "plainKey k \<Longrightarrow> envKey (envEntry k v) = k"
  using takeWhile_key[of k v] by (simp add: envKey_def envEntry_def)

lemma envKey_plain [simp]: "plainKey k \<Longrightarrow> envKey (k @ CHR ''='' # v) = k"
  by (simp add: envKey_def takeWhile_key)

lemma envKey_split:
  "CHR ''='' \<in> set e \<Longrightarrow> \<exists>v. e = envEntry (envKey e) v" "plainKey (envKey e)"
proof -
  show "CHR ''='' \<in> set e \<Longrightarrow> \<exists>v. e = envEntry (envKey e) v"
    by (induction e) (auto simp: envKey_def envEntry_def)
  show "plainKey (envKey e)"
    by (auto simp: plainKey_def envKey_def dest: set_takeWhileD)
qed

lemma hasPrefix_entry:
  assumes "plainKey k" "CHR ''='' \<in> set e"
  shows "hasPrefix e (k @ ''='') \<longleftrightarrow> envKey e = k"
proof
  assume "hasPrefix e (k @ ''='')"
  then obtain r where "e = k @ CHR ''='' # r" by (auto simp: hasPrefix_conv)
  with assms(1) show "envKey e = k" by (simp add: envKey_def takeWhile_key)
next
  assume "envKey e = k"
  with envKey_split(1)[OF assms(2)] show "hasPrefix e (k @ ''='')"
    by (auto simp: envEntry_def hasPrefix_conv)
qed

definition envMap :: "string list \<Rightarrow> string \<Rightarrow> string option" where
  "envMap es = map_of (map (\<lambda>e. (envKey e, drop (length (envKey e) + 1) e)) es)"

lemma envValue_map:
  assumes "plainKey k" "list_all (\<lambda>e. CHR ''='' \<in> set e) es"
  shows "envValue es k = map_of (map (\<lambda>e. (envKey e, drop (length (envKey e) + 1) e)) (rev es)) k"
  using assms(2)
proof (induction es rule: rev_induct)
  case (snoc e es)
  then show ?case by (auto simp: envValue_def hasPrefix_entry[OF assms(1)] split: list.splits)
qed (simp add: envValue_def)

lemma map_of_rev: "distinct (map fst xs) \<Longrightarrow> map_of (rev xs) = map_of xs"
  by (rule map_of_eqI) (auto simp: rev_map[symmetric])

lemma envValue_distinct:
  assumes "envDistinct es" "plainKey k"
  shows "envValue es k = envMap es k"
  using assms map_of_rev[of "map (\<lambda>e. (envKey e, drop (length (envKey e) + 1) e)) es"]
  by (simp add: envValue_map envDistinct_def envMap_def rev_map comp_def)

lemma setEnvExistingKey_keys:
  "plainKey k \<Longrightarrow> setEnvExistingKey es k v = (found, es') \<Longrightarrow>
   (found \<longleftrightarrow> k \<in> envKey ` set es) \<and> map envKey es' = map envKey es
   \<and> (list_all (\<lambda>e. CHR ''='' \<in> set e) es \<longrightarrow> list_all (\<lambda>e. CHR ''='' \<in> set e) es')
   \<and> envMap es' = (if found then (envMap es)(k \<mapsto> v) else envMap es)"
  by (induction es arbitrary: es' found) (auto simp: envMap_def envEntry_def split: if_splits prod.splits)

lemma envMap_append: "envMap (es @ fs) = envMap fs ++ envMap es"
  by (simp add: envMap_def)

lemma envMap_None: "k \<notin> envKey ` set es \<Longrightarrow> envMap es k = None"
  by (auto simp: envMap_def map_of_eq_None_iff image_comp comp_def)

lemma setEnv_map:
  assumes "plainKey k" "envDistinct es"
  shows "envMap (setEnv es k v) = (envMap es)(k \<mapsto> v)" "envDistinct (setEnv es k v)"
proof -
  obtain found es' where s: "setEnvExistingKey es k v = (found, es')" by fastforce
  note keys = setEnvExistingKey_keys[OF assms(1) s]
  have new: "envMap [envEntry k v] = [k \<mapsto> v]" by (simp add: envMap_def envEntry_def assms(1))
  show "envMap (setEnv es k v) = (envMap es)(k \<mapsto> v)"
    using keys envMap_None[of k es]
    by (auto simp: setEnv_def s envMap_append new map_add_def fun_eq_iff split: option.splits)
  show "envDistinct (setEnv es k v)"
    using keys assms by (auto simp: setEnv_def s envDistinct_def envEntry_def)
qed

text \<open>The values that are given, the later ones first.\<close>

definition given :: "(string \<times> string option) list \<Rightarrow> string \<Rightarrow> string option" where
  "given kvs = foldl (\<lambda>m (k, v). case v of None \<Rightarrow> m | Some x \<Rightarrow> m(k \<mapsto> x)) Map.empty kvs"

lemma given_snoc: "given (kvs @ [(k, v)]) = (case v of None \<Rightarrow> given kvs | Some x \<Rightarrow> (given kvs)(k \<mapsto> x))"
  by (simp add: given_def split: option.split)

lemma given_Nil: "given [] = Map.empty"
  by (simp add: given_def)

lemma given_append: "given (kvs @ ls) = given kvs ++ given ls"
proof (induction ls rule: rev_induct)
  case (snoc l ls)
  obtain k v where l: "l = (k, v)" by (cases l)
  have "given (kvs @ ls @ [(k, v)]) = given ((kvs @ ls) @ [(k, v)])" by simp
  then show ?case using snoc unfolding l given_snoc by (auto simp: map_add_def fun_eq_iff split: option.splits)
qed (simp add: given_Nil)

lemma setEnvOpts:
  assumes "envDistinct es" "list_all (plainKey \<circ> fst) kvs"
  shows "envMap (foldl setEnvOpt es kvs) = envMap es ++ given kvs \<and> envDistinct (foldl setEnvOpt es kvs)"
  using assms(2)
proof (induction kvs rule: rev_induct)
  case (snoc kv kvs)
  obtain k v where kv: "kv = (k, v)" by (cases kv)
  from snoc setEnv_map[of k "foldl setEnvOpt es kvs"] show ?case
    unfolding kv given_snoc by (cases v) (auto simp: setEnvOpt_def[of _ "(k, _)"] map_add_def fun_eq_iff split: option.splits)
qed (simp add: given_Nil assms(1))

lemma fixedEnv_plain: "list_all (plainKey \<circ> fst) (fixedEnv rq ws)"
  by (simp add: fixedEnv_def plainKey_def)

text \<open>
  What a program in the Workspace sees of a variable: the agent's own variables first, then what the
  spec gives, then its Space, its user, and last what the container had.
\<close>

theorem env_precedence:
  assumes "envDistinct base" "plainKey k"
    and "list_all (plainKey \<circ> fst) (userEnv rq @ spaceEnv rq @ specEnv rq (wsSpec ws))"
  shows "envValue (setEnvVars base rq ws) k =
    (envMap base ++ given (userEnv rq) ++ given (spaceEnv rq) ++ given (specEnv rq (wsSpec ws)) ++ given (fixedEnv rq ws)) k"
  using assms(2,3) setEnvOpts[OF assms(1), of "userEnv rq @ spaceEnv rq @ specEnv rq (wsSpec ws) @ fixedEnv rq ws"]
    fixedEnv_plain[of rq ws]
  by (simp add: setEnvVars_def envValue_distinct given_append map_add_assoc)

end
