(* ===== verification/Agent_Git.thy ===== *)
theory Agent_Git
  imports Agent_Env
begin

text \<open>
  The credentials that git gets inside a Workspace: \<open>cluster/workspace/workspace/git.go\<close> and the helper
  \<open>cluster/workspace/gitcredhelper\<close>. \<open>urlHost\<close> is the host name that \<open>net/url\<close> finds in a
  URL; \<open>None\<close> when it does not parse or has none.
\<close>

section \<open>Hosts\<close>

definition equalFold :: "string \<Rightarrow> string \<Rightarrow> bool" where
  "equalFold a b \<longleftrightarrow> map charLower a = map charLower b"

definition addURL :: "(string \<Rightarrow> string option) \<Rightarrow> string \<Rightarrow> string list" where
  "addURL urlHost raw =
     (if raw = [] then []
      else case urlHost (trimSpace raw) of None \<Rightarrow> [] | Some h \<Rightarrow> if h = [] then [] else [h])"

text \<open>The URLs that the user configured: in the merged spec, and of the dotfiles.\<close>

definition configuredURLs :: "ws_spec option \<Rightarrow> prep_req option \<Rightarrow> string list" where
  "configuredURLs spec rq =
     (case spec of
        None \<Rightarrow> []
      | Some sp \<Rightarrow>
          (case spRepository sp of None \<Rightarrow> [] | Some r \<Rightarrow> [repoUrl r])
          @ concat (map (\<lambda>a. case arRepository a of None \<Rightarrow> [] | Some r \<Rightarrow> [repoUrl r]) (spAdditionalRepositories sp))
          @ (case spImage sp of Some (ImgGit gi) \<Rightarrow> [giUrl gi] | _ \<Rightarrow> []))
     @ (case Option.bind (Option.bind rq pqUserConfig) ucDotfiles of None \<Rightarrow> [] | Some d \<Rightarrow> [dfUrl d])"

definition getGitProviderHosts :: "(string \<Rightarrow> string option) \<Rightarrow> ws_spec option \<Rightarrow> prep_req option \<Rightarrow> string list" where
  "getGitProviderHosts urlHost spec rq = concat (map (addURL urlHost) (configuredURLs spec rq))"

definition isGitProviderHostAllowed ::
  "(string \<Rightarrow> string option) \<Rightarrow> ws_spec option \<Rightarrow> prep_req option \<Rightarrow> string \<Rightarrow> bool" where
  "isGitProviderHostAllowed urlHost spec rq host \<longleftrightarrow>
     host \<noteq> [] \<and> list_ex (\<lambda>h. equalFold h host) (getGitProviderHosts urlHost spec rq)"

section \<open>The requests of the helper\<close>

record git_entry =
  geHost :: string
  geUsername :: string
  gePassword :: string
  geProtocol :: string
  gePath :: string
  geURL :: string

type_synonym git_store = "string \<Rightarrow> git_entry option"
type_synonym git_request = "(string \<Rightarrow> string option) option"

text \<open>A field of a map of Go; empty if it is missing, also in a nil map.\<close>

definition field :: "git_request \<Rightarrow> string \<Rightarrow> string" where
  "field req k = (case Option.bind req (\<lambda>m. m k) of None \<Rightarrow> [] | Some v \<Rightarrow> v)"

definition credsAnswer :: "(string \<Rightarrow> string option) \<Rightarrow> string \<Rightarrow> string \<Rightarrow> string \<Rightarrow> string option" where
  "credsAnswer m user password = m(''username'' \<mapsto> user, ''password'' \<mapsto> password)"

definition GetGitCreds ::
  "(string \<Rightarrow> string option) \<Rightarrow> ws_spec option \<Rightarrow> prep_req option \<Rightarrow> git_store \<Rightarrow> git_request
    \<Rightarrow> err + (string \<Rightarrow> string option)" where
  "GetGitCreds urlHost spec rq st req =
     (case req of
        None \<Rightarrow> Inl (NotFoundErr ''Nil request'')
      | Some m \<Rightarrow>
          (case st (field req ''host'') of
             Some e \<Rightarrow> Inr (credsAnswer m (geUsername e) (gePassword e))
           | None \<Rightarrow>
               (case Option.bind rq pqGitInfo of
                  None \<Rightarrow> Inl (NotFoundErr ''No git creds found'')
                | Some info \<Rightarrow>
                    if isGitProviderHostAllowed urlHost spec rq (field req ''host'')
                    then Inr (credsAnswer m (gcUsername info) (gcToken info))
                    else Inl (NotFoundErr ''No git creds found''))))"

definition StoreGitCreds :: "git_request \<Rightarrow> (git_store, unit) io" where
  "StoreGitCreds req =
     bindE (throw_if (req = None \<or> field req ''host'' = [] \<or> field req ''username'' = [] \<or> field req ''password'' = [])
       (InvalidArg ''host, username and password fields must be set'')) (\<lambda>_.
     (\<lambda>st. (Inr (), st(field req ''host'' \<mapsto>
        \<lparr>geHost = field req ''host'', geUsername = field req ''username'', gePassword = field req ''password'',
         geProtocol = field req ''protocol'', gePath = field req ''path'', geURL = field req ''url''\<rparr>))))"

definition EraseGitCreds :: "git_request \<Rightarrow> (git_store, unit) io" where
  "EraseGitCreds req =
     bindE (throw_if (req = None) (InvalidArg ''Nil request'')) (\<lambda>_.
     bindE (throw_if (field req ''host'' = []) (InvalidArg ''host, username and password fields must be set'')) (\<lambda>_.
     (\<lambda>st. (Inr (), st(field req ''host'' := None)))))"

section \<open>The lines that git and the helper exchange\<close>

text \<open>
  \<open>parseFromStdin\<close>: of every line \<open>key=value\<close>; a line with more than one equals sign is dropped.
\<close>

definition parseLine :: "string \<Rightarrow> (string \<times> string) option" where
  "parseLine l =
     (case splitOn CHR ''='' (trimSpace l) of [k, v] \<Rightarrow> Some (k, trimSpace v) | _ \<Rightarrow> None)"

definition parseFromStdin :: "string list \<Rightarrow> string \<Rightarrow> string option" where
  "parseFromStdin ls = foldl (\<lambda>m l. case parseLine l of None \<Rightarrow> m | Some (k, v) \<Rightarrow> m(k \<mapsto> v)) Map.empty ls"

section \<open>Who gets the token of the git provider\<close>

lemma in_addURL: "h \<in> set (addURL urlHost u) \<longleftrightarrow> u \<noteq> [] \<and> urlHost (trimSpace u) = Some h \<and> h \<noteq> []"
  by (cases "urlHost (trimSpace u)"; cases "u = []") (auto simp add: addURL_def)

lemma in_hosts:
  "h \<in> set (getGitProviderHosts urlHost spec rq) \<longleftrightarrow>
     (\<exists>u \<in> set (configuredURLs spec rq). u \<noteq> [] \<and> urlHost (trimSpace u) = Some h \<and> h \<noteq> [])"
  by (simp add: getGitProviderHosts_def in_addURL)

text \<open>
  What git gets for a host: the credentials that were stored for it; else, and only for the host of a URL
  that the Workspace or its user configured, the token of the git provider; else nothing.
\<close>

theorem git_creds_exact:
  "GetGitCreds urlHost spec rq st (Some m) = Inr resp \<longleftrightarrow>
     (\<exists>e. st (field (Some m) ''host'') = Some e \<and> resp = credsAnswer m (geUsername e) (gePassword e))
     \<or> (st (field (Some m) ''host'') = None \<and> field (Some m) ''host'' \<noteq> []
        \<and> (\<exists>info. Option.bind rq pqGitInfo = Some info \<and> resp = credsAnswer m (gcUsername info) (gcToken info))
        \<and> (\<exists>u h. u \<in> set (configuredURLs spec rq) \<and> u \<noteq> [] \<and> urlHost (trimSpace u) = Some h \<and> h \<noteq> []
             \<and> equalFold h (field (Some m) ''host'')))"
  using in_hosts[of _ urlHost spec rq]
  by (auto simp: GetGitCreds_def isGitProviderHostAllowed_def list_ex_iff split: option.splits if_splits) blast+

text \<open>The store is a map: what is got is what was stored last, unless it was erased.\<close>

datatype git_op = GitStore git_request | GitErase git_request

definition gitOp :: "git_op \<Rightarrow> git_store \<Rightarrow> git_store" where
  "gitOp op st = (case op of GitStore r \<Rightarrow> snd (StoreGitCreds r st) | GitErase r \<Rightarrow> snd (EraseGitCreds r st))"

text \<open>The credentials that requests leave for a host, the last one first.\<close>

fun lastCreds :: "git_op list \<Rightarrow> string \<Rightarrow> (string \<times> string) option" where
  "lastCreds [] h = None"
| "lastCreds (GitStore r # ops) h =
     (if r \<noteq> None \<and> field r ''host'' = h \<and> h \<noteq> [] \<and> field r ''username'' \<noteq> [] \<and> field r ''password'' \<noteq> []
      then Some (field r ''username'', field r ''password'') else lastCreds ops h)"
| "lastCreds (GitErase r # ops) h =
     (if r \<noteq> None \<and> field r ''host'' = h \<and> h \<noteq> [] then None else lastCreds ops h)"

theorem git_store_map:
  "map_option (\<lambda>e. (geUsername e, gePassword e)) (fold gitOp ops Map.empty h) = lastCreds (rev ops) h"
proof (induction ops rule: rev_induct)
  case (snoc op ops)
  then show ?case
    by (cases op) (auto simp: gitOp_def StoreGitCreds_def EraseGitCreds_def throw_if_def bindE_def retE_def throwE_def)
qed simp

end
