(* ===== verification/Agent_Task.thy ===== *)
theory Agent_Task
  imports Agent_Env
begin

text \<open>
  The tasks of a Workspace: \<open>cluster/workspace/workspace/task.go\<close>. Which command lines the task manager
  starts, in which order, what their failures do, and what is left running when it is closed.
\<close>

section \<open>Tasks\<close>

record ws_user =
  wuName :: string
  wuHome :: string

record atask =
  atName :: string
  atCommand :: string
  atRoot :: bool
  atUser :: string
  atHome :: string
  atEnv :: "(string \<times> string) list"
  atWorkingDir :: string
  atBackground :: bool
  atType :: task_type
  atOnFailure :: on_failure
  atParentEnv :: "string list"

text \<open>The variables of a task are a map of Go; here its entries in the order in which the keys came.\<close>

definition taskEnvMap :: "task_env_var list \<Rightarrow> (string \<times> string) list" where
  "taskEnvMap vars = foldl (\<lambda>m e. AList.update (teKey e) (teValue e) m) [] vars"

definition newTask :: "ws_user \<Rightarrow> string list \<Rightarrow> task \<Rightarrow> atask" where
  "newTask u env t =
     \<lparr>atName = tkName t, atCommand = tkRun t, atRoot = tkRunAsRoot t,
      atUser = (if tkRunAsRoot t then ''root'' else wuName u), atHome = (if tkRunAsRoot t then ''/root'' else wuHome u),
      atEnv = taskEnvMap (tkEnvVars t), atWorkingDir = tkWorkingDir t, atBackground = tkIsBackground t, atType = tkType t,
      atOnFailure = tkOnFailure t, atParentEnv = env\<rparr>"

definition getEnv :: "atask \<Rightarrow> string list" where
  "getEnv t = setEnv (atParentEnv t @ map (\<lambda>(k, v). envEntry k v) (atEnv t)) ''HOME'' (atHome t)"

definition shouldAbortOnFailure :: "atask \<Rightarrow> bool" where
  "shouldAbortOnFailure t \<longleftrightarrow> atOnFailure t = ON_FAILURE_ABORT"

text \<open>The task that connects the Workspace to the cluster; \<open>validName\<close> is \<open>apivalidation.ValidateName\<close>.\<close>

definition connectArgs :: "(string \<Rightarrow> err option) \<Rightarrow> ws_spec \<Rightarrow> err + string list" where
  "connectArgs validName spec =
     (case Option.bind (spRuntime spec) (\<lambda>rt. map_option (\<lambda>svcs. (rtServeAll rt, svcs)) (rtServeServices rt)) of
        None \<Rightarrow> Inr [''octelium'', ''connect'']
      | Some (all, svcs) \<Rightarrow>
          bindS (checkS (firstErr validName svcs)) (\<lambda>_.
          Inr ([''octelium'', ''connect''] @ (if all then [''--serve-all''] else [])
            @ concat (map (\<lambda>s. [''--serve'', s]) svcs))))"

definition newTaskOcteliumConnect ::
  "(string \<Rightarrow> err option) \<Rightarrow> ws_user \<Rightarrow> string list \<Rightarrow> ws_spec \<Rightarrow> string \<Rightarrow> err + atask" where
  "newTaskOcteliumConnect validName u env spec domain =
     bindS (connectArgs validName spec) (\<lambda>args.
     Inr (newTask u env
       \<lparr>tkName = ''octelium-connect'', tkRun = shellJoin args, tkType = Task_POST_START,
        tkEnvVars = map (\<lambda>(k, v). \<lparr>teKey = k, teValue = v\<rparr>)
          [(''OCTELIUM_DOMAIN'', domain), (''OCTELIUM_HOME'', ''mem''), (''OCTELIUM_USER_HOME'', wuHome u),
           (''OCTELIUM_AUTH_PROXY_SOCKET'', ''/var/run/octelium-proxy.sock''), (''OCTELIUM_ESSH'', ''true''),
           (''OCTELIUM_ESSH_USER'', wuName u), (''OCTELIUM_ESSH_IP_ADDRS'', ''0.0.0.0''), (''OCTELIUM_ESSH_PORT'', ''2022''),
           (''OCTELIUM_LOCAL_DNS_SERVER'', ''true''), (''OCTELIUM_ESSH_SFTP_USER'', ''true'')],
        tkWorkingDir = [], tkIsBackground = True, tkOnFailure = ON_FAILURE_UNSET, tkRunAsRoot = True\<rparr>))"

section \<open>The manager\<close>

text \<open>How a command ended: \<open>Waited\<close> is an error of \<open>Wait\<close> that is no exit status.\<close>

datatype task_exit = Exited int | Signaled | Waited err

definition exitOk :: "task_exit \<Rightarrow> bool" where
  "exitOk x \<longleftrightarrow> x = Exited 0"

definition exitCodeFromError :: "task_exit \<Rightarrow> int" where
  "exitCodeFromError x = (case x of Exited n \<Rightarrow> n | _ \<Rightarrow> -1)"

text \<open>The exit code in a published failure: \<open>ExitCode\<close> of a signalled process is -1.\<close>

definition failureCode :: "task_exit option \<Rightarrow> int" where
  "failureCode x = (case x of Some (Exited n) \<Rightarrow> n | Some Signaled \<Rightarrow> -1 | _ \<Rightarrow> 0)"

datatype task_event =
    Began atask
  | NotBegun atask
  | Ended atask task_exit
  | Failed string int
  | Killed atask

record task_manager =
  tmTasks :: "atask list"
  tmRunning :: "atask list"
  tmClosed :: bool
  tmCancelled :: bool
  tmLog :: "task_event list"

definition newTaskManager :: task_manager where
  "newTaskManager = \<lparr>tmTasks = [], tmRunning = [], tmClosed = False, tmCancelled = False, tmLog = []\<rparr>"

text \<open>
  How commands start and end, after what was started before; a command that is not
  in the background runs in the context of the manager, and does not start once that is cancelled.
\<close>

record task_env =
  xeStart :: "task_event list \<Rightarrow> atask \<Rightarrow> err option"
  xeExit :: "task_event list \<Rightarrow> atask \<Rightarrow> task_exit"

type_synonym 'a tm_io = "(task_manager, 'a) io"

definition tmEmit :: "task_event \<Rightarrow> unit tm_io" where
  "tmEmit ev = (\<lambda>m. (Inr (), m\<lparr>tmLog := tmLog m @ [ev]\<rparr>))"

definition publishFailure :: "atask \<Rightarrow> task_exit option \<Rightarrow> unit tm_io" where
  "publishFailure t x = tmEmit (Failed (atName t) (failureCode x))"

definition addRunningTask :: "atask \<Rightarrow> unit tm_io" where
  "addRunningTask t = (\<lambda>m. (Inr (), m\<lparr>tmRunning := tmRunning m @ [t]\<rparr>))"

definition removeRunningTask :: "atask \<Rightarrow> unit tm_io" where
  "removeRunningTask t = (\<lambda>m. (Inr (), m\<lparr>tmRunning := remove1 t (tmRunning m)\<rparr>))"

text \<open>A failure with \<open>ON_FAILURE_ABORT\<close> is published and stops the run; any other is only logged.\<close>

definition taskFailed :: "atask \<Rightarrow> task_exit option \<Rightarrow> unit tm_io" where
  "taskFailed t x =
     (if shouldAbortOnFailure t
      then bindE (publishFailure t x) (\<lambda>_. throwE (Errorf (''Running task: '' @ atName t @ '' failed'')))
      else retE ())"

definition waitTask :: "task_env \<Rightarrow> atask \<Rightarrow> task_exit tm_io" where
  "waitTask xe t =
     bindE (\<lambda>m. (Inr (xeExit xe (tmLog m) t), m)) (\<lambda>x.
     bindE (tmEmit (Ended t x)) (\<lambda>_.
     bindE (removeRunningTask t) (\<lambda>_. retE x)))"

definition startErr :: "task_env \<Rightarrow> atask \<Rightarrow> task_manager \<Rightarrow> err option" where
  "startErr xe t m =
     (if tmCancelled m \<and> \<not> atBackground t then Some (Errorf ''context canceled'') else xeStart xe (tmLog m) t)"

definition runTask :: "task_env \<Rightarrow> atask \<Rightarrow> unit tm_io" where
  "runTask xe t =
     bindE (\<lambda>m. (Inr (startErr xe t m), m)) (\<lambda>e.
     case e of
       Some _ \<Rightarrow> bindE (tmEmit (NotBegun t)) (\<lambda>_. taskFailed t None)
     | None \<Rightarrow>
         bindE (tmEmit (Began t)) (\<lambda>_.
         bindE (addRunningTask t) (\<lambda>_.
         if atBackground t then retE ()
         else bindE (waitTask xe t) (\<lambda>x. if exitOk x then retE () else taskFailed t (Some x)))))"

text \<open>The goroutine that waits for a task in the background.\<close>

definition backgroundExit :: "task_env \<Rightarrow> atask \<Rightarrow> unit tm_io" where
  "backgroundExit xe t =
     bindE (waitTask xe t) (\<lambda>x.
     if exitOk x \<or> \<not> shouldAbortOnFailure t then retE () else publishFailure t (Some x))"

definition filterByType :: "task_type \<Rightarrow> atask list \<Rightarrow> atask list" where
  "filterByType ty ts = filter (\<lambda>t. atType t = ty) ts"

text \<open>A build starts no task in the background.\<close>

definition skipped :: "bool \<Rightarrow> atask \<Rightarrow> bool" where
  "skipped isBuild t \<longleftrightarrow> isBuild \<and> atBackground t"

definition runOrSkip :: "task_env \<Rightarrow> bool \<Rightarrow> atask \<Rightarrow> unit tm_io" where
  "runOrSkip xe isBuild t = (if skipped isBuild t then retE () else runTask xe t)"

definition tasksOf :: "bool \<Rightarrow> task_type \<Rightarrow> atask list \<Rightarrow> atask list" where
  "tasksOf isBuild ty ts = filter (\<lambda>t. \<not> skipped isBuild t) (filterByType ty ts)"

definition runTasksByType :: "task_env \<Rightarrow> bool \<Rightarrow> task_type \<Rightarrow> unit tm_io" where
  "runTasksByType xe isBuild ty =
     bindE (\<lambda>m. (Inr (filterByType ty (tmTasks m)), m)) (\<lambda>ts.
     forE ts (runOrSkip xe isBuild))"

text \<open>The tasks of a Workspace in the order in which they are appended.\<close>

definition devTasks :: "bool \<Rightarrow> task list" where
  "devTasks isDev =
     (if isDev then map (\<lambda>c. \<lparr>tkName = [], tkRun = c, tkType = Task_POST_START, tkEnvVars = [], tkWorkingDir = [],
          tkIsBackground = False, tkOnFailure = ON_FAILURE_UNSET, tkRunAsRoot = False\<rparr>)
        [''cat /etc/passwd'', ''ls -lah'', ''whoami'', ''users'']
      else [])"

definition allTasks :: "bool \<Rightarrow> prep_req \<Rightarrow> ws_spec \<Rightarrow> task list" where
  "allTasks isDev rq spec =
     devTasks isDev
     @ (case spRuntime spec of None \<Rightarrow> [] | Some rt \<Rightarrow> rtTasks rt)
     @ (case pqUserConfig rq of None \<Rightarrow> [] | Some uc \<Rightarrow> ucTasks uc)
     @ (case Option.bind (pqSpace rq) (\<lambda>sp. ssRuntime (spcSpec sp)) of None \<Rightarrow> [] | Some rt \<Rightarrow> srTasks rt)"

definition appendTasks ::
  "(string \<Rightarrow> err option) \<Rightarrow> bool \<Rightarrow> ws_user \<Rightarrow> string list \<Rightarrow> prep_req \<Rightarrow> ws_spec \<Rightarrow> unit tm_io" where
  "appendTasks validName isDev u env rq spec =
     bindE (if stIsBuild (wsStatus (pqWorkspace rq)) then retE []
            else bindE (liftE (newTaskOcteliumConnect validName u env spec (pqDomain rq))) (\<lambda>t. retE [t])) (\<lambda>conn.
     (\<lambda>m. (Inr (), m\<lparr>tmTasks := tmTasks m @ conn @ map (newTask u env) (allTasks isDev rq spec)\<rparr>)))"

definition runTypes :: "task_env \<Rightarrow> bool \<Rightarrow> bool \<Rightarrow> unit tm_io" where
  "runTypes xe isBuild doOnCreate =
     bindE (if doOnCreate then runTasksByType xe isBuild Task_ON_CREATE else retE ()) (\<lambda>_.
     runTasksByType xe isBuild Task_POST_START)"

text \<open>The run has a context of its own: a cancellation that came before it does not reach it.\<close>

definition startContext :: "unit tm_io" where
  "startContext = (\<lambda>m. (Inr (), m\<lparr>tmCancelled := False\<rparr>))"

definition taskManagerRun ::
  "task_env \<Rightarrow> (string \<Rightarrow> err option) \<Rightarrow> bool \<Rightarrow> ws_user \<Rightarrow> string list \<Rightarrow> prep_req \<Rightarrow> ws_spec \<Rightarrow> bool \<Rightarrow> unit tm_io" where
  "taskManagerRun xe validName isDev u env rq spec doOnCreate =
     bindE (appendTasks validName isDev u env rq spec) (\<lambda>_.
     bindE startContext (\<lambda>_.
     runTypes xe (stIsBuild (wsStatus (pqWorkspace rq))) doOnCreate))"

section \<open>Closing\<close>

definition closeRunningTasks :: "unit tm_io" where
  "closeRunningTasks = (\<lambda>m. (Inr (), m\<lparr>tmLog := tmLog m @ map Killed (tmRunning m), tmRunning := []\<rparr>))"

definition beginClose :: "unit tm_io" where
  "beginClose = (\<lambda>m. (Inr (), m\<lparr>tmClosed := True, tmCancelled := True\<rparr>))"

text \<open>
  \<open>PRE_STOP\<close> tasks run in a context of their own, so that the cancelled one does not stop them.
\<close>

definition runPreStop :: "task_env \<Rightarrow> bool \<Rightarrow> unit tm_io" where
  "runPreStop xe isBuild = (\<lambda>m.
     (case (if isBuild then retE () else runTasksByType xe isBuild Task_PRE_STOP) (m\<lparr>tmCancelled := False\<rparr>) of
        (r, m') \<Rightarrow> (r, m'\<lparr>tmCancelled := tmCancelled m\<rparr>)))"

definition closeManager :: "task_env \<Rightarrow> bool \<Rightarrow> unit tm_io" where
  "closeManager xe isBuild = (\<lambda>m.
     if tmClosed m then (Inr (), m)
     else (bindE beginClose (\<lambda>_.
       bindE (tryE (runPreStop xe isBuild)) (\<lambda>r.
       bindE closeRunningTasks (\<lambda>_. liftE r)))) m)"

section \<open>What a run starts\<close>

text \<open>The tasks that a run tried to start, in their order.\<close>

definition attempted :: "task_manager \<Rightarrow> atask list" where
  "attempted m = concat (map (\<lambda>ev. case ev of Began t \<Rightarrow> [t] | NotBegun t \<Rightarrow> [t] | _ \<Rightarrow> []) (tmLog m))"

definition failurePublished :: "task_manager \<Rightarrow> atask \<Rightarrow> bool" where
  "failurePublished m t \<longleftrightarrow> (\<exists>code. Failed (atName t) code \<in> set (tmLog m))"

lemmas tm_defs = runTask_def tmEmit_def publishFailure_def addRunningTask_def removeRunningTask_def taskFailed_def
  waitTask_def backgroundExit_def bindE_def retE_def throwE_def

lemma runTask_result:
  assumes "runTask xe t m = (r, m')"
  shows "attempted m' = attempted m @ [t]" "tmTasks m' = tmTasks m" "tmClosed m' = tmClosed m" "tmCancelled m' = tmCancelled m"
    "r \<noteq> Inr () \<Longrightarrow> shouldAbortOnFailure t \<and> failurePublished m' t"
  using assms
  by (auto simp: tm_defs attempted_def failurePublished_def split: option.splits if_splits)

text \<open>A part of a plan was run: all of it, or up to a task that aborts.\<close>

definition ranPlan :: "atask list \<Rightarrow> task_manager \<Rightarrow> err + unit \<Rightarrow> task_manager \<Rightarrow> bool" where
  "ranPlan plan m r m' \<longleftrightarrow> tmTasks m' = tmTasks m \<and> (\<exists>ran rest. plan = ran @ rest \<and> attempted m' = attempted m @ ran
     \<and> (if r = Inr () then rest = []
        else ran \<noteq> [] \<and> shouldAbortOnFailure (last ran) \<and> failurePublished m' (last ran)))"

lemma ranPlan_Nil: "ranPlan [] m (Inr ()) m"
  by (simp add: ranPlan_def)

lemma ranPlan_stop:
  "ranPlan plan m (Inl e) m' \<Longrightarrow> ranPlan (plan @ plan') m (Inl e) m'"
  unfolding ranPlan_def by (auto intro: exI)

lemma ranPlan_append:
  assumes "ranPlan plan m (Inr ()) m1" "ranPlan plan' m1 r m'"
  shows "ranPlan (plan @ plan') m r m'"
proof -
  obtain ran rest where plan': "plan' = ran @ rest" "attempted m' = attempted m1 @ ran"
    "if r = Inr () then rest = [] else ran \<noteq> [] \<and> shouldAbortOnFailure (last ran) \<and> failurePublished m' (last ran)"
    using assms(2) by (auto simp: ranPlan_def)
  have "plan @ plan' = (plan @ ran) @ rest" "attempted m' = attempted m @ plan @ ran" "tmTasks m' = tmTasks m"
    using assms plan' by (auto simp: ranPlan_def)
  with plan'(3) show ?thesis
    unfolding ranPlan_def by (intro conjI exI[where x = "plan @ ran"] exI[where x = rest]) (auto split: if_splits)
qed

lemma runTask_ran: "runTask xe t m = (r, m') \<Longrightarrow> ranPlan [t] m r m'"
  using runTask_result[of xe t m r m'] unfolding ranPlan_def
  by (intro conjI exI[where x = "[t]"] exI[where x = "[]"]) auto

lemma ranPlan_bind:
  assumes "bindE a f m = (r, m')"
    and "\<And>r1 m1. a m = (r1, m1) \<Longrightarrow> ranPlan plan m r1 m1"
    and "\<And>m1. a m = (Inr (), m1) \<Longrightarrow> f () m1 = (r, m') \<Longrightarrow> ranPlan plan' m1 r m'"
  shows "ranPlan (plan @ plan') m r m'"
proof -
  obtain r1 m1 where one: "a m = (r1, m1)" by fastforce
  show ?thesis
  proof (cases r1)
    case (Inl e)
    then have "r = Inl e" "m' = m1" using assms(1) one by (auto simp: bindE_def)
    then show ?thesis using ranPlan_stop assms(2)[OF one] Inl by blast
  next
    case (Inr u)
    then have "f () m1 = (r, m')" using assms(1) one by (auto simp: bindE_def)
    then show ?thesis using ranPlan_append assms(2)[OF one] assms(3) one Inr by simp
  qed
qed

lemma forE_tasks:
  "forE ts (runOrSkip xe isBuild) m = (r, m') \<Longrightarrow>
   ranPlan (filter (\<lambda>t. \<not> skipped isBuild t) ts) m r m'"
proof (induction ts arbitrary: m)
  case (Cons t ts)
  have "filter (\<lambda>t. \<not> skipped isBuild t) (t # ts) =
      (if skipped isBuild t then [] else [t]) @ filter (\<lambda>t. \<not> skipped isBuild t) ts" by simp
  moreover have "ranPlan ((if skipped isBuild t then [] else [t])
      @ filter (\<lambda>t. \<not> skipped isBuild t) ts) m r m'"
    using Cons.prems unfolding forE.simps
  proof (rule ranPlan_bind)
    show "runOrSkip xe isBuild t m = (r1, m1) \<Longrightarrow> ranPlan (if skipped isBuild t then [] else [t]) m r1 m1" for r1 m1
      by (auto simp: runOrSkip_def retE_def intro: runTask_ran ranPlan_Nil split: if_splits)
  qed (rule Cons.IH)
  ultimately show ?case by simp
qed (auto simp: retE_def intro: ranPlan_Nil)

lemma runTasksByType_ran:
  "runTasksByType xe isBuild ty m = (r, m') \<Longrightarrow> ranPlan (tasksOf isBuild ty (tmTasks m)) m r m'"
  using forE_tasks[of "filterByType ty (tmTasks m)" xe isBuild m r m']
  by (simp add: runTasksByType_def bindE_def tasksOf_def)

definition planOf :: "bool \<Rightarrow> bool \<Rightarrow> atask list \<Rightarrow> atask list" where
  "planOf isBuild doOnCreate ts =
     (if doOnCreate then tasksOf isBuild Task_ON_CREATE ts else []) @ tasksOf isBuild Task_POST_START ts"

lemma runTypes_ran:
  assumes "runTypes xe isBuild doOnCreate m = (r, m')"
  shows "ranPlan (planOf isBuild doOnCreate (tmTasks m)) m r m'"
  using assms unfolding runTypes_def planOf_def
proof (rule ranPlan_bind)
  fix r1 m1 assume "(if doOnCreate then runTasksByType xe isBuild Task_ON_CREATE else retE ()) m = (r1, m1)"
  then show "ranPlan (if doOnCreate then tasksOf isBuild Task_ON_CREATE (tmTasks m) else []) m r1 m1"
    by (auto intro: runTasksByType_ran ranPlan_Nil simp: retE_def split: if_splits)
  fix m2 assume "(if doOnCreate then runTasksByType xe isBuild Task_ON_CREATE else retE ()) m = (Inr (), m2)"
    "runTasksByType xe isBuild Task_POST_START m2 = (r, m')"
  moreover from this(1) have "tmTasks m2 = tmTasks m"
    using runTasksByType_ran[of xe isBuild Task_ON_CREATE m "Inr ()" m2] by (auto simp: retE_def ranPlan_def split: if_splits)
  ultimately show "ranPlan (tasksOf isBuild Task_POST_START (tmTasks m)) m2 r m'"
    using runTasksByType_ran by metis
qed

lemma appendTasks_result:
  assumes "appendTasks validName isDev u env rq spec m = (r, m')"
  shows "r \<noteq> Inr () \<Longrightarrow> m' = m"
    and "r = Inr () \<Longrightarrow> attempted m' = attempted m \<and>
      (\<exists>conn. tmTasks m' = tmTasks m @ conn @ map (newTask u env) (allTasks isDev rq spec)
         \<and> (conn = [] \<longleftrightarrow> stIsBuild (wsStatus (pqWorkspace rq))))"
  using assms
  by (auto simp: appendTasks_def bindE_def liftE_def retE_def attempted_def split: if_splits sum.splits)

text \<open>
  A run adds the task that connects to the cluster, unless it is a build, and the tasks of
  the spec, of the user and of the Space, in this order, to those the manager has. Then
  those for the creation, in a fresh run only, and those for the start begin in the order of the
  manager; a build starts none in the background. All are started unless one fails that is to abort the
  run: then its failure is published and nothing after it starts. If the task
  that connects to the cluster is not valid, nothing starts at all.
\<close>

theorem tasks_run_in_order:
  assumes "taskManagerRun xe validName isDev u env rq spec doOnCreate m = (r, m')"
  shows "m' = m \<and> isl r
     \<or> (\<exists>conn ran rest. tmTasks m' = tmTasks m @ conn @ map (newTask u env) (allTasks isDev rq spec)
          \<and> (conn = [] \<longleftrightarrow> stIsBuild (wsStatus (pqWorkspace rq)))
          \<and> planOf (stIsBuild (wsStatus (pqWorkspace rq))) doOnCreate (tmTasks m') = ran @ rest
          \<and> attempted m' = attempted m @ ran
          \<and> (if r = Inr () then rest = []
             else ran \<noteq> [] \<and> shouldAbortOnFailure (last ran) \<and> failurePublished m' (last ran)))"
proof -
  obtain r0 m0 where app: "appendTasks validName isDev u env rq spec m = (r0, m0)" by fastforce
  show ?thesis
  proof (cases r0)
    case (Inl e)
    then show ?thesis using app assms(1) appendTasks_result(1)[OF app] by (auto simp: taskManagerRun_def bindE_def)
  next
    case (Inr x)
    let ?m = "m0\<lparr>tmCancelled := False\<rparr>"
    have run: "runTypes xe (stIsBuild (wsStatus (pqWorkspace rq))) doOnCreate ?m = (r, m')"
      using app assms(1) Inr by (simp add: taskManagerRun_def bindE_def startContext_def)
    obtain conn where m0: "attempted ?m = attempted m"
      "tmTasks ?m = tmTasks m @ conn @ map (newTask u env) (allTasks isDev rq spec)"
      "conn = [] \<longleftrightarrow> stIsBuild (wsStatus (pqWorkspace rq))"
      using appendTasks_result(2)[OF app] Inr by (auto simp: attempted_def)
    from runTypes_ran[OF run] obtain ran rest where "tmTasks m' = tmTasks ?m"
      "planOf (stIsBuild (wsStatus (pqWorkspace rq))) doOnCreate (tmTasks ?m) = ran @ rest"
      "attempted m' = attempted ?m @ ran"
      "if r = Inr () then rest = [] else ran \<noteq> [] \<and> shouldAbortOnFailure (last ran) \<and> failurePublished m' (last ran)"
      unfolding ranPlan_def by blast
    with m0 show ?thesis
      by (intro disjI2 exI[of _ conn] exI[of _ ran] exI[of _ rest]) simp
  qed
qed

section \<open>Nothing is left running\<close>

definition begun :: "task_event list \<Rightarrow> atask multiset" where
  "begun l = mset (concat (map (\<lambda>ev. case ev of Began t \<Rightarrow> [t] | _ \<Rightarrow> []) l))"

definition over :: "task_event list \<Rightarrow> atask multiset" where
  "over l = mset (concat (map (\<lambda>ev. case ev of Ended t x \<Rightarrow> [t] | Killed t \<Rightarrow> [t] | _ \<Rightarrow> []) l))"

text \<open>The tasks that run are those that began and have neither ended nor been killed.\<close>

definition balanced :: "task_manager \<Rightarrow> bool" where
  "balanced m \<longleftrightarrow> begun (tmLog m) = over (tmLog m) + mset (tmRunning m)"

lemma balanced_runTask: "balanced m \<Longrightarrow> runTask xe t m = (r, m') \<Longrightarrow> balanced m'"
  by (auto simp: tm_defs balanced_def begun_def over_def split: option.splits if_splits)

lemma balanced_background: "balanced m \<Longrightarrow> t \<in> set (tmRunning m) \<Longrightarrow> backgroundExit xe t m = (r, m') \<Longrightarrow> balanced m'"
  by (auto simp: tm_defs balanced_def begun_def over_def split: option.splits if_splits)

lemma balanced_forE:
  "balanced m \<Longrightarrow> forE ts (runOrSkip xe isBuild) m = (r, m') \<Longrightarrow>
   balanced m' \<and> tmClosed m' = tmClosed m \<and> tmCancelled m' = tmCancelled m"
proof (induction ts arbitrary: m)
  case (Cons t ts)
  then show ?case
    by (auto simp: bindE_def retE_def runOrSkip_def split: if_splits prod.splits sum.splits
        dest: balanced_runTask runTask_result(3,4))
qed (simp add: retE_def)

lemma balanced_preStop:
  assumes "balanced m" "runPreStop xe isBuild m = (r, m')"
  shows "balanced m'" "tmClosed m' = tmClosed m" "tmCancelled m' = tmCancelled m"
proof -
  obtain r1 m1 where one: "(if isBuild then retE () else runTasksByType xe isBuild Task_PRE_STOP) (m\<lparr>tmCancelled := False\<rparr>) = (r1, m1)"
    by fastforce
  have "balanced (m\<lparr>tmCancelled := False\<rparr>)" using assms(1) by (simp add: balanced_def)
  then have "balanced m1 \<and> tmClosed m1 = tmClosed m"
    using one balanced_forE[of "m\<lparr>tmCancelled := False\<rparr>" "filterByType Task_PRE_STOP (tmTasks m)" xe isBuild r1 m1]
    by (auto simp: runTasksByType_def retE_def bindE_def split: if_splits)
  moreover have "m' = m1\<lparr>tmCancelled := tmCancelled m\<rparr>" using assms(2) one by (simp add: runPreStop_def)
  ultimately show "balanced m'" "tmClosed m' = tmClosed m" "tmCancelled m' = tmCancelled m"
    by (simp_all add: balanced_def)
qed

lemma balanced_killed: "balanced m \<Longrightarrow> balanced (m\<lparr>tmLog := tmLog m @ map Killed (tmRunning m), tmRunning := []\<rparr>)"
  by (simp add: balanced_def begun_def over_def comp_def concat_map_singleton)

text \<open>
  Closing the manager leaves no task behind that it knows to run: every one that began has ended or was
  killed, also when a task of the shutdown fails.
\<close>

theorem close_leaves_nothing:
  assumes "balanced m" "\<not> tmClosed m" "closeManager xe isBuild m = (r, m')"
  shows "tmRunning m' = [] \<and> tmClosed m' \<and> tmCancelled m' \<and> begun (tmLog m') = over (tmLog m')"
proof -
  let ?m = "m\<lparr>tmClosed := True, tmCancelled := True\<rparr>"
  obtain r1 m1 where pre: "runPreStop xe isBuild ?m = (r1, m1)" by fastforce
  have "balanced ?m" using assms(1) by (simp add: balanced_def)
  note m1 = balanced_preStop[OF this pre]
  have "m' = m1\<lparr>tmLog := tmLog m1 @ map Killed (tmRunning m1), tmRunning := []\<rparr>"
    using assms(2,3) pre by (auto simp: closeManager_def beginClose_def closeRunningTasks_def bindE_def tryE_def liftE_def)
  with m1 balanced_killed[OF m1(1)] show ?thesis by (auto simp: balanced_def)
qed

end
