(* ===== verification/Agent_Volume.thy ===== *)
theory Agent_Volume
  imports Agent_Task
begin

text \<open>
  How the agent mounts the Volumes of a run: \<open>cluster/workspace/workspace/volume.go\<close>. A mount is a
  symbolic link from the mount path to the directory of the Volume; a file keeps the paths
  that the last run mounted, so that the next run removes those that are gone.
\<close>

section \<open>Files\<close>

text \<open>
  The files the code touches, by their clean absolute paths. A path above a mount path that is a
  link counts as a directory of its own. \<open>stuck\<close> are the paths that cannot be removed.
\<close>

datatype fs_node = FsDir | FsFile string | FsLink string

type_synonym fs = "(string \<times> fs_node) list"

record vol_fs =
  vfNodes :: fs
  vfOwned :: "string list"

type_synonym 'a fs_io = "(vol_fs, 'a) io"

definition node :: "vol_fs \<Rightarrow> string \<Rightarrow> fs_node option" where
  "node s p = map_of (vfNodes s) p"

text \<open>The entries of a directory: their names, and whether they are directories.\<close>

definition osEntries :: "vol_fs \<Rightarrow> string \<Rightarrow> (string \<times> bool) list" where
  "osEntries s p =
     map (\<lambda>(q, n). (drop (length p + 1) q, n = FsDir))
       (filter (\<lambda>(q, n). hasPrefix q (p @ ''/'') \<and> CHR ''/'' \<notin> set (drop (length p + 1) q)) (vfNodes s))"

definition osReadlink :: "vol_fs \<Rightarrow> string \<Rightarrow> string option" where
  "osReadlink s p = (case node s p of Some (FsLink t) \<Rightarrow> Some t | _ \<Rightarrow> None)"

definition osStat :: "string \<Rightarrow> unit fs_io" where
  "osStat p = (\<lambda>s. (if node s p = None then Inl (Errorf ''stat'') else Inr (), s))"

definition osRemove :: "(string \<Rightarrow> bool) \<Rightarrow> string \<Rightarrow> unit fs_io" where
  "osRemove stuck p = (\<lambda>s.
     if stuck p \<or> node s p = None \<or> (node s p = Some FsDir \<and> osEntries s p \<noteq> []) then (Inl (Errorf ''remove''), s)
     else (Inr (), s\<lparr>vfNodes := filter (\<lambda>(q, n). q \<noteq> p) (vfNodes s)\<rparr>))"

definition osMkdir :: "string \<Rightarrow> unit fs_io" where
  "osMkdir p = (\<lambda>s. case node s p of
     None \<Rightarrow> (Inr (), s\<lparr>vfNodes := (p, FsDir) # vfNodes s\<rparr>)
   | Some (FsFile c) \<Rightarrow> (Inl (Errorf ''not a directory''), s)
   | Some _ \<Rightarrow> (Inr (), s))"

definition osMkdirAll :: "string \<Rightarrow> unit fs_io" where
  "osMkdirAll p = forE (map (\<lambda>n. absPath (take n (pathElems p))) [1..<Suc (length (pathElems p))]) osMkdir"

definition osSymlink :: "string \<Rightarrow> string \<Rightarrow> unit fs_io" where
  "osSymlink target p = (\<lambda>s.
     if node s p \<noteq> None then (Inl (Errorf ''file exists''), s)
     else (Inr (), s\<lparr>vfNodes := (p, FsLink target) # vfNodes s\<rparr>))"

definition osWriteFile :: "string \<Rightarrow> string \<Rightarrow> unit fs_io" where
  "osWriteFile p c = (\<lambda>s. case node s p of
     Some FsDir \<Rightarrow> (Inl (Errorf ''is a directory''), s)
   | _ \<Rightarrow> (Inr (), s\<lparr>vfNodes := (p, FsFile c) # filter (\<lambda>(q, n). q \<noteq> p) (vfNodes s)\<rparr>))"

section \<open>The code\<close>

definition volumeStatePath :: string where
  "volumeStatePath = ''/run/octelium/volume-mounts''"

definition getVolumePath :: "string \<Rightarrow> string" where
  "getVolumePath uid = pathJoin VolumeRootDir uid"

definition mountSource :: "resolved_mount \<Rightarrow> string" where
  "mountSource m = getVolumePath (refUid (rmVolumeRef m))"

text \<open>The new owner of an empty Volume; an error of it is only logged.\<close>

definition initVolumeOwnership :: "bool \<Rightarrow> string \<Rightarrow> resolved_mount \<Rightarrow> unit fs_io" where
  "initVolumeOwnership hasUser src m = (\<lambda>s.
     if rmReadOnly m \<or> \<not> hasUser then (Inr (), s)
     else (case IsEmptyVolumeDir (if node s src = Some FsDir then Inr (osEntries s src) else Inl (Errorf ''readdir'')) of
        Inl e \<Rightarrow> (Inl e, s)
      | Inr False \<Rightarrow> (Inr (), s)
      | Inr True \<Rightarrow> (Inr (), s\<lparr>vfOwned := vfOwned s @ [src]\<rparr>)))"

definition clearMountPath :: "(string \<Rightarrow> bool) \<Rightarrow> string \<Rightarrow> string \<Rightarrow> bool fs_io" where
  "clearMountPath stuck src p = (\<lambda>s.
     (case osReadlink s p of
        Some cur \<Rightarrow> if cur = src then (Inr True, s) else bindE (osRemove stuck p) (\<lambda>_. retE False) s
      | None \<Rightarrow>
          (case node s p of
             None \<Rightarrow> (Inr False, s)
           | Some n \<Rightarrow>
               if n \<noteq> FsDir then (Inl (Errorf ''The mountPath already exists inside the Workspace and it is not a directory''), s)
               else if osEntries s p \<noteq> []
               then (Inl (Errorf ''The mountPath already exists inside the Workspace and it is not empty''), s)
               else bindE (osRemove stuck p) (\<lambda>_. retE False) s)))"

definition setVolumeMount :: "(string \<Rightarrow> bool) \<Rightarrow> bool \<Rightarrow> resolved_mount \<Rightarrow> unit fs_io" where
  "setVolumeMount stuck hasUser m =
     (let src = mountSource m; p = rmMountPath m in
      bindE (mapErrE (\<lambda>_. Errorf ''The Volume storage is not attached to the Workspace'') (osStat src)) (\<lambda>_.
      bindE (tryE (initVolumeOwnership hasUser src m)) (\<lambda>_.
      bindE (clearMountPath stuck src p) (\<lambda>mounted.
      if mounted then retE ()
      else bindE (osMkdirAll (pathDir p)) (\<lambda>_. osSymlink src p)))))"

definition getVolumeMountState :: "vol_fs \<Rightarrow> string list" where
  "getVolumeMountState s =
     (case node s volumeStatePath of
        Some (FsFile c) \<Rightarrow> filter (\<lambda>l. l \<noteq> []) (map trimSpace (splitOn (CHR 0x0A) c))
      | _ \<Rightarrow> [])"

definition isCurrent :: "resolved_mount list \<Rightarrow> string \<Rightarrow> string \<Rightarrow> bool" where
  "isCurrent ms p target \<longleftrightarrow> list_ex (\<lambda>m. rmMountPath m = p \<and> target = mountSource m) ms"

text \<open>Whether the path is a link to a Volume that is not mounted there any more.\<close>

definition isStale :: "resolved_mount list \<Rightarrow> vol_fs \<Rightarrow> string \<Rightarrow> bool" where
  "isStale ms s p \<longleftrightarrow>
     (case osReadlink s p of
        None \<Rightarrow> False
      | Some target \<Rightarrow> hasPrefix target (VolumeRootDir @ ''/'') \<and> \<not> isCurrent ms p target)"

text \<open>The paths that could not be removed.\<close>

fun removeStale :: "(string \<Rightarrow> bool) \<Rightarrow> resolved_mount list \<Rightarrow> string list \<Rightarrow> vol_fs \<Rightarrow> string list \<times> vol_fs" where
  "removeStale stuck ms [] s = ([], s)"
| "removeStale stuck ms (p # ps) s =
     (if \<not> isStale ms s p then removeStale stuck ms ps s
      else (case osRemove stuck p s of
        (Inl _, s') \<Rightarrow> (case removeStale stuck ms ps s' of (ret, s'') \<Rightarrow> (p # ret, s''))
      | (Inr _, s') \<Rightarrow> removeStale stuck ms ps s'))"

definition removeStaleVolumeMounts :: "(string \<Rightarrow> bool) \<Rightarrow> resolved_mount list \<Rightarrow> string list fs_io" where
  "removeStaleVolumeMounts stuck ms = (\<lambda>s.
     (case removeStale stuck ms (getVolumeMountState s) s of (ret, s') \<Rightarrow> (Inr ret, s')))"

fun addStale :: "string list \<Rightarrow> string list \<Rightarrow> string list" where
  "addStale ps [] = ps"
| "addStale ps (q # qs) = addStale (if q \<in> set ps then ps else ps @ [q]) qs"

definition setVolumeMountState :: "(string \<Rightarrow> bool) \<Rightarrow> resolved_mount list \<Rightarrow> string list \<Rightarrow> unit fs_io" where
  "setVolumeMountState stuck ms stale = (\<lambda>s.
     if ms = [] \<and> stale = [] then
       (if node s volumeStatePath = None then (Inr (), s) else osRemove stuck volumeStatePath s)
     else bindE (osMkdirAll (pathDir volumeStatePath)) (\<lambda>_.
       osWriteFile volumeStatePath
         (joinWith [CHR 0x0A] (sort (addStale (map rmMountPath ms) stale)))) s)"

definition setVolumeMountsAg :: "(string \<Rightarrow> bool) \<Rightarrow> bool \<Rightarrow> resolved_mount list \<Rightarrow> unit fs_io" where
  "setVolumeMountsAg stuck hasUser ms =
     bindE (removeStaleVolumeMounts stuck ms) (\<lambda>stale.
     bindE (forE ms (\<lambda>m. mapErrE (\<lambda>_. Errorf (''Could not mount the Volume at '' @ rmMountPath m))
       (setVolumeMount stuck hasUser m))) (\<lambda>_.
     setVolumeMountState stuck ms stale))"

section \<open>What the operations change\<close>

lemma node_simps:
  "node (s\<lparr>vfNodes := (p, n) # vfNodes s\<rparr>) q = (if q = p then Some n else node s q)"
  "node (s\<lparr>vfNodes := filter (\<lambda>(q, n). q \<noteq> p) (vfNodes s)\<rparr>) q = (if q = p then None else node s q)"
  "node (s\<lparr>vfNodes := (p, n) # filter (\<lambda>(q, n). q \<noteq> p) (vfNodes s)\<rparr>) q = (if q = p then Some n else node s q)"
  "node (s\<lparr>vfOwned := os\<rparr>) q = node s q"
proof -
  have f: "map_of (filter (\<lambda>(q, n). q \<noteq> p) xs) q = (if q = p then None else map_of xs q)" for xs :: "(string \<times> fs_node) list"
    by (induction xs) auto
  show "node (s\<lparr>vfNodes := (p, n) # vfNodes s\<rparr>) q = (if q = p then Some n else node s q)"
    "node (s\<lparr>vfNodes := filter (\<lambda>(q, n). q \<noteq> p) (vfNodes s)\<rparr>) q = (if q = p then None else node s q)"
    "node (s\<lparr>vfNodes := (p, n) # filter (\<lambda>(q, n). q \<noteq> p) (vfNodes s)\<rparr>) q = (if q = p then Some n else node s q)"
    "node (s\<lparr>vfOwned := os\<rparr>) q = node s q"
    by (auto simp: node_def f)
qed

text \<open>What is neither a mount path nor in the way is kept: new directories and nothing else.\<close>

definition keepsFs :: "string set \<Rightarrow> vol_fs \<Rightarrow> vol_fs \<Rightarrow> bool" where
  "keepsFs P s s' \<longleftrightarrow> (\<forall>p n. node s p = Some n \<and> p \<notin> P \<longrightarrow> node s' p = Some n)
     \<and> (\<forall>p. node s p = None \<and> p \<notin> P \<longrightarrow> node s' p = None \<or> node s' p = Some FsDir)
     \<and> (\<forall>p c. node s p = Some (FsFile c) \<and> p \<noteq> volumeStatePath \<longrightarrow> node s' p = Some (FsFile c))"

lemma keepsFs_refl: "keepsFs P s s"
  by (simp add: keepsFs_def)

lemma keepsFs_mono: "keepsFs P s s' \<Longrightarrow> P \<subseteq> Q \<Longrightarrow> keepsFs Q s s'"
  unfolding keepsFs_def by blast

lemma keepsFs_trans:
  assumes a: "keepsFs P s t" and b: "keepsFs P t u"
  shows "keepsFs P s u"
proof -
  have "node u p = Some n" if "node s p = Some n" "p \<notin> P" for p n
    using a b that by (simp add: keepsFs_def)
  moreover have "node u p = None \<or> node u p = Some FsDir" if "node s p = None" "p \<notin> P" for p
  proof -
    have "node t p = None \<or> node t p = Some FsDir" using a that by (simp add: keepsFs_def)
    then show ?thesis using b that(2) by (auto simp: keepsFs_def)
  qed
  moreover have "node u p = Some (FsFile c)" if "node s p = Some (FsFile c)" "p \<noteq> volumeStatePath" for p c
    using a b that by (simp add: keepsFs_def)
  ultimately show ?thesis by (simp add: keepsFs_def)
qed

definition keepsIo :: "string set \<Rightarrow> 'a fs_io \<Rightarrow> bool" where
  "keepsIo P f \<longleftrightarrow> (\<forall>s. keepsFs P s (snd (f s)))"

lemma keepsIoD: "keepsIo P f \<Longrightarrow> f s = (r, s') \<Longrightarrow> keepsFs P s s'"
  unfolding keepsIo_def by (metis snd_conv)

lemma keepsIo_mono: "keepsIo P f \<Longrightarrow> P \<subseteq> Q \<Longrightarrow> keepsIo Q f"
  unfolding keepsIo_def using keepsFs_mono by blast

lemma keepsIo_bind:
  assumes "keepsIo P f" "\<And>x. keepsIo P (g x)"
  shows "keepsIo P (bindE f g)"
  unfolding keepsIo_def
proof
  fix s
  obtain r t where f: "f s = (r, t)" by (cases "f s")
  then have t: "keepsFs P s t" using assms(1) keepsIoD by blast
  show "keepsFs P s (snd (bindE f g s))"
  proof (cases r)
    case (Inl e)
    then show ?thesis using f t by (simp add: bindE_def)
  next
    case (Inr x)
    have "keepsFs P t (snd (g x t))" using assms(2) by (simp add: keepsIo_def)
    then show ?thesis using f t Inr keepsFs_trans by (simp add: bindE_def)
  qed
qed

lemma keepsIo_ret: "keepsIo P (retE x)"
  by (simp add: keepsIo_def retE_def keepsFs_refl)

lemma keepsIo_try: "keepsIo P f \<Longrightarrow> keepsIo P (tryE f)"
  by (auto simp: keepsIo_def tryE_def split: prod.splits) (metis snd_conv)

lemma keepsIo_mapErr: "keepsIo P f \<Longrightarrow> keepsIo P (mapErrE h f)"
  by (auto simp: keepsIo_def mapErrE_def split: prod.splits sum.splits) (metis snd_conv)+

lemma keepsIo_for: "(\<And>x. x \<in> set xs \<Longrightarrow> keepsIo P (f x)) \<Longrightarrow> keepsIo P (forE xs f)"
  by (induction xs) (auto intro: keepsIo_bind keepsIo_ret)

lemma keepsIo_stat: "keepsIo P (osStat p)"
  by (simp add: keepsIo_def osStat_def keepsFs_refl)

lemma keepsIo_mkdir: "keepsIo P (osMkdir p)"
  by (auto simp: keepsIo_def osMkdir_def keepsFs_refl keepsFs_def node_simps split: option.splits fs_node.splits)

lemma keepsIo_mkdirAll: "keepsIo P (osMkdirAll p)"
  unfolding osMkdirAll_def by (intro keepsIo_for keepsIo_mkdir)

lemma keepsIo_symlink: "keepsIo {p} (osSymlink t p)"
  by (auto simp: keepsIo_def osSymlink_def keepsFs_refl keepsFs_def node_simps)

lemma keepsIo_write: "keepsIo {volumeStatePath} (osWriteFile volumeStatePath c)"
  by (auto simp: keepsIo_def osWriteFile_def keepsFs_refl keepsFs_def node_simps split: option.splits fs_node.splits)

text \<open>What is removed was not a file, unless it is the state file.\<close>

lemma keepsFs_remove:
  "(\<forall>c. node s p \<noteq> Some (FsFile c)) \<or> p = volumeStatePath \<Longrightarrow> keepsFs {p} s (snd (osRemove stuck p s))"
  by (auto simp: osRemove_def keepsFs_refl keepsFs_def node_simps)

lemma keepsFs_owned: "keepsFs P s (s\<lparr>vfOwned := os\<rparr>)"
  by (simp add: keepsFs_def node_simps)

lemma keepsIo_owner: "keepsIo P (initVolumeOwnership hu src m)"
  by (auto simp: keepsIo_def initVolumeOwnership_def keepsFs_refl keepsFs_owned split: sum.splits bool.splits)

lemma snd_bind_ret: "snd (bindE f (\<lambda>_. retE x) s) = snd (f s)"
  by (simp add: bindE_def retE_def split: prod.splits sum.splits)

lemma keepsIo_clear: "keepsIo {p} (clearMountPath stuck src p)"
  unfolding keepsIo_def
proof
  fix s
  show "keepsFs {p} s (snd (clearMountPath stuck src p s))"
  proof (cases "node s p")
    case None
    then show ?thesis by (simp add: clearMountPath_def osReadlink_def keepsFs_refl)
  next
    case (Some n)
    then show ?thesis
      by (cases n) (simp_all add: clearMountPath_def osReadlink_def keepsFs_refl keepsFs_remove snd_bind_ret)
  qed
qed

lemma keepsIo_setVolumeMount: "keepsIo {rmMountPath m} (setVolumeMount stuck hu m)"
  unfolding setVolumeMount_def Let_def
  by (intro keepsIo_bind keepsIo_try keepsIo_mapErr keepsIo_stat keepsIo_owner keepsIo_clear)
    (simp add: keepsIo_ret keepsIo_bind keepsIo_mkdirAll keepsIo_symlink)

lemma keepsFs_removeStale: "keepsFs (set ps) s (snd (removeStale stuck ms ps s))"
proof (induction ps arbitrary: s)
  case Nil
  show ?case by (simp add: keepsFs_refl)
next
  case (Cons p ps)
  have t: "keepsFs (set (p # ps)) t (snd (removeStale stuck ms ps t))" for t
    by (rule keepsFs_mono[OF Cons.IH]) auto
  show ?case
  proof (cases "isStale ms s p")
    case False
    then show ?thesis using t[of s] by simp
  next
    case True
    obtain r u where r: "osRemove stuck p s = (r, u)" by (cases "osRemove stuck p s")
    have "\<forall>c. node s p \<noteq> Some (FsFile c)" using True by (auto simp: isStale_def osReadlink_def)
    then have "keepsFs {p} s u" using keepsFs_remove[of s p stuck] r by simp
    then have "keepsFs (set (p # ps)) s u" by (rule keepsFs_mono) simp
    from keepsFs_trans[OF this t[of u]] show ?thesis
      using True r by (cases r) (auto split: prod.splits)
  qed
qed

section \<open>What a run of the mounts leaves\<close>

lemma keepsIo_state: "keepsIo {volumeStatePath} (setVolumeMountState stuck ms stale)"
proof (cases "ms = [] \<and> stale = []")
  case True
  then show ?thesis by (simp add: keepsIo_def setVolumeMountState_def keepsFs_refl keepsFs_remove)
next
  case False
  have "keepsIo {volumeStatePath} (bindE (osMkdirAll (pathDir volumeStatePath)) (\<lambda>_.
       osWriteFile volumeStatePath (joinWith [CHR 0x0A] (sort (addStale (map rmMountPath ms) stale)))))"
    by (intro keepsIo_bind keepsIo_mkdirAll keepsIo_write)
  then show ?thesis unfolding setVolumeMountState_def if_not_P[OF False] by simp
qed

lemma keepsIo_mounts:
  "keepsIo (rmMountPath ` set ms) (forE ms (\<lambda>m. mapErrE (h m) (setVolumeMount stuck hu m)))"
  by (intro keepsIo_for keepsIo_mapErr keepsIo_mono[OF keepsIo_setVolumeMount]) auto

text \<open>
  The mounts of a run never take a file that was there: whatever their outcome, every
  file but the file of the paths is kept with its content, and a path that is neither a
  mount path of this run or of the last nor the file of the paths is kept as it was or, where there was nothing, is a new directory.
\<close>

theorem mounts_keep_files:
  "keepsFs (insert volumeStatePath (rmMountPath ` set ms \<union> set (getVolumeMountState s))) s
     (snd (setVolumeMountsAg stuck hu ms s))"
proof -
  let ?P = "insert volumeStatePath (rmMountPath ` set ms \<union> set (getVolumeMountState s))"
  obtain stale t where r: "removeStale stuck ms (getVolumeMountState s) s = (stale, t)"
    by (cases "removeStale stuck ms (getVolumeMountState s) s")
  have st: "keepsFs ?P s t"
    using keepsFs_removeStale[of "getVolumeMountState s" s stuck ms] r by (auto intro: keepsFs_mono)
  have "keepsIo ?P (bindE (forE ms (\<lambda>m. mapErrE (\<lambda>_. Errorf (''Could not mount the Volume at '' @ rmMountPath m))
       (setVolumeMount stuck hu m))) (\<lambda>_. setVolumeMountState stuck ms stale))"
    by (intro keepsIo_bind keepsIo_mono[OF keepsIo_mounts] keepsIo_mono[OF keepsIo_state]) auto
  then have "keepsFs ?P t (snd (bindE (forE ms (\<lambda>m. mapErrE (\<lambda>_. Errorf (''Could not mount the Volume at '' @ rmMountPath m))
       (setVolumeMount stuck hu m))) (\<lambda>_. setVolumeMountState stuck ms stale) t))"
    by (simp add: keepsIo_def)
  from keepsFs_trans[OF st this] show ?thesis
    by (simp add: setVolumeMountsAg_def removeStaleVolumeMounts_def bindE_def r)
qed






















end
