(* ===== verification/Agent_Server.thy ===== *)
theory Agent_Server
  imports Agent_Task Agent_Volume Step_Invariant
begin

text \<open>
  The agent in the container of a Workspace as a state machine: \<open>cluster/workspace/workspace/server.go\<close>
  (\<open>Prepare\<close>, \<open>doPrepare\<close>, \<open>startWaitAndSetRunning\<close>, \<open>Run\<close>, \<open>Close\<close>, \<open>ListenState\<close>) and \<open>completeRepoClone\<close> of
  \<open>repo.go\<close>. Every \<open>Prepare\<close> is a goroutine; each of its accesses of the shared state is a step, so that
  requests, the clones in the background, the waiting goroutine and the shutdown interleave
  freely.
\<close>

section \<open>State\<close>

text \<open>What a preparation does one after the other.\<close>

datatype prep_op =
    MergeSpec | SetUser | SetVolumeMounts | ShallowClone | SetWorkspaceFile | SetEnvVars | SetSSHKeys | SetHostsFile
  | RunTunnel | SetPreparing | NewTaskManager | SetDevContainer | SetFeatures | SetupGit | SetupDotFiles | CompleteRepoClone

definition prepareOps :: "prep_op list" where
  "prepareOps =
     [MergeSpec, SetUser, SetVolumeMounts, ShallowClone, SetWorkspaceFile, SetEnvVars, SetSSHKeys, SetHostsFile, RunTunnel,
      SetPreparing, NewTaskManager, SetDevContainer, SetFeatures, SetupGit, SetupDotFiles, CompleteRepoClone]"

text \<open>The operations that return an error, and those whose error ends the preparation.\<close>

definition canFail :: "prep_op \<Rightarrow> bool" where
  "canFail op \<longleftrightarrow> op \<notin> {SetEnvVars, SetPreparing}"

definition isFatal :: "prep_op \<Rightarrow> bool" where
  "isFatal op \<longleftrightarrow> op \<in> {MergeSpec, SetUser, SetVolumeMounts, NewTaskManager}"

text \<open>Where a preparation, the waiting goroutine and the main goroutine are.\<close>

datatype prep_pc =
    PcCheck
  | PcSet
  | PcOps "prep_op list"
  | PcAdd
  | PcSpawn
  | PcTasks
  | PcFail
  | PcDone bool
  | PcSignal
  | PcEnd

datatype wait_pc = WaWait | WaCheck | WaRun | WaSleep | WaEnd

datatype main_pc = MnSelect | MnClose | MnClosed

record agent_cfg =
  acRequest :: prep_req
  acSpec :: ws_spec
  acUser :: ws_user
  acEnv :: "string list"
  acTasks :: task_env
  acValidName :: "string \<Rightarrow> err option"
  acIsDev :: bool

record agent =
  asState :: ws_state
  asBus :: "ws_state bus"
  asStarted :: bool
  asFailed :: bool
  asWG :: nat
  asClones :: nat
  asDone :: nat
  asManager :: "task_manager option"
  asPrepares :: "prep_pc list"
  asWaiters :: "wait_pc list"
  asMain :: main_pc

definition isBuildRun :: "agent_cfg \<Rightarrow> bool" where
  "isBuildRun cfg = stIsBuild (wsStatus (pqWorkspace (acRequest cfg)))"

definition isFreshRun :: "agent_cfg \<Rightarrow> bool" where
  "isFreshRun cfg =
     freshRun False (pqSource (acRequest cfg)) (pqWorkspace (acRequest cfg)) (pqTemplate (acRequest cfg))
       (pqTemplateHasSnapshot (acRequest cfg))"

definition stopsByItself :: "agent_cfg \<Rightarrow> bool" where
  "stopsByItself cfg \<longleftrightarrow> isBuildRun cfg \<or> (case spRuntime (acSpec cfg) of None \<Rightarrow> False | Some rt \<Rightarrow> rtAutoStop rt)"

definition NewServer :: agent where
  "NewServer =
     \<lparr>asState = STARTING_RUNTIME, asBus = (\<lambda>_. None), asStarted = False, asFailed = False, asWG = 0, asClones = 0,
      asDone = 0, asManager = None, asPrepares = [], asWaiters = [], asMain = MnSelect\<rparr>"

section \<open>Operations\<close>

definition agSetState :: "ws_state \<Rightarrow> agent \<Rightarrow> agent" where
  "agSetState st s = s\<lparr>asState := st, asBus := publishAll st (asBus s)\<rparr>"

definition doneSize :: nat where "doneSize = 5"

definition signalDone :: "agent \<Rightarrow> agent" where
  "signalDone s = (if asDone s < doneSize then s\<lparr>asDone := asDone s + 1\<rparr> else s)"

definition setPc :: "nat \<Rightarrow> prep_pc \<Rightarrow> agent \<Rightarrow> agent" where
  "setPc i pc s = s\<lparr>asPrepares := (asPrepares s)[i := pc]\<rparr>"

definition setWaiter :: "nat \<Rightarrow> wait_pc \<Rightarrow> agent \<Rightarrow> agent" where
  "setWaiter i pc s = s\<lparr>asWaiters := (asWaiters s)[i := pc]\<rparr>"

definition atPc :: "agent \<Rightarrow> nat \<Rightarrow> prep_pc \<Rightarrow> bool" where
  "atPc s i pc \<longleftrightarrow> i < length (asPrepares s) \<and> asPrepares s ! i = pc"

definition atWaiter :: "agent \<Rightarrow> nat \<Rightarrow> wait_pc \<Rightarrow> bool" where
  "atWaiter s i pc \<longleftrightarrow> i < length (asWaiters s) \<and> asWaiters s ! i = pc"

text \<open>
  What an operation that succeeds does to the shared state; \<open>ts\<close> are the tasks that a devcontainer and
  its features add. The clones in the background count in the wait group.
\<close>

definition opEffect :: "agent_cfg \<Rightarrow> prep_op \<Rightarrow> atask list \<Rightarrow> agent \<Rightarrow> agent" where
  "opEffect cfg op ts s =
     (case op of
        SetPreparing \<Rightarrow> agSetState PREPARING s
      | NewTaskManager \<Rightarrow> s\<lparr>asManager := Some newTaskManager\<rparr>
      | SetDevContainer \<Rightarrow> s\<lparr>asManager := map_option (\<lambda>m. m\<lparr>tmTasks := tmTasks m @ ts\<rparr>) (asManager s)\<rparr>
      | SetFeatures \<Rightarrow> s\<lparr>asManager := map_option (\<lambda>m. m\<lparr>tmTasks := tmTasks m @ ts\<rparr>) (asManager s)\<rparr>
      | CompleteRepoClone \<Rightarrow>
          if isFreshRun cfg \<and> \<not> isBuildRun cfg then s\<lparr>asWG := asWG s + 2, asClones := asClones s + 2\<rparr> else s
      | _ \<Rightarrow> s)"

text \<open>The error of an operation comes before or after the tasks it adds.\<close>

definition opError :: "prep_op \<Rightarrow> atask list \<Rightarrow> agent \<Rightarrow> agent" where
  "opError op ts s =
     (case op of
        SetDevContainer \<Rightarrow> s\<lparr>asManager := map_option (\<lambda>m. m\<lparr>tmTasks := tmTasks m @ ts\<rparr>) (asManager s)\<rparr>
      | SetFeatures \<Rightarrow> s\<lparr>asManager := map_option (\<lambda>m. m\<lparr>tmTasks := tmTasks m @ ts\<rparr>) (asManager s)\<rparr>
      | _ \<Rightarrow> s)"

definition nextPc :: "prep_op list \<Rightarrow> prep_pc" where
  "nextPc ops = (if ops = [] then PcAdd else PcOps ops)"

definition runTasks :: "agent_cfg \<Rightarrow> unit tm_io" where
  "runTasks cfg =
     taskManagerRun (acTasks cfg) (acValidName cfg) (acIsDev cfg) (acUser cfg) (acEnv cfg) (acRequest cfg) (acSpec cfg)
       (isFreshRun cfg)"

definition agClose :: "agent_cfg \<Rightarrow> agent \<Rightarrow> agent" where
  "agClose cfg s =
     (case asManager s of
        None \<Rightarrow> s
      | Some m \<Rightarrow>
          (if tmClosed m then s
           else agSetState STOPPING (s\<lparr>asManager := Some (snd (closeManager (acTasks cfg) (isBuildRun cfg) m))\<rparr>)))"

section \<open>Steps\<close>

inductive agent_step :: "agent_cfg \<Rightarrow> agent \<Rightarrow> agent \<Rightarrow> bool" for cfg where
  prepare: "agent_step cfg s (s\<lparr>asPrepares := asPrepares s @ [PcCheck]\<rparr>)"
| started: "atPc s i PcCheck \<Longrightarrow> asStarted s \<Longrightarrow> agent_step cfg s (setPc i PcEnd s)"
| check: "atPc s i PcCheck \<Longrightarrow> \<not> asStarted s \<Longrightarrow> agent_step cfg s (setPc i PcSet s)"
| set_started: "atPc s i PcSet \<Longrightarrow> agent_step cfg s (setPc i (nextPc prepareOps) (s\<lparr>asStarted := True\<rparr>))"
| op_ok: "atPc s i (PcOps (op # ops)) \<Longrightarrow> agent_step cfg s (setPc i (nextPc ops) (opEffect cfg op ts s))"
| op_failed: "atPc s i (PcOps (op # ops)) \<Longrightarrow> canFail op \<Longrightarrow> \<not> isFatal op \<Longrightarrow>
    agent_step cfg s (setPc i (nextPc ops) (opError op ts s))"
| op_fatal: "atPc s i (PcOps (op # ops)) \<Longrightarrow> isFatal op \<Longrightarrow> agent_step cfg s (setPc i PcSignal s)"
| add: "atPc s i PcAdd \<Longrightarrow> agent_step cfg s (setPc i PcSpawn (s\<lparr>asWG := asWG s + 1\<rparr>))"
| spawn: "atPc s i PcSpawn \<Longrightarrow> agent_step cfg s (setPc i PcTasks (s\<lparr>asWaiters := asWaiters s @ [WaWait]\<rparr>))"
| tasks: "atPc s i PcTasks \<Longrightarrow> asMain s = MnSelect \<Longrightarrow> asManager s = Some m \<Longrightarrow> runTasks cfg m = (r, m') \<Longrightarrow>
    agent_step cfg s (setPc i (if r = Inr () then PcDone False else PcFail) (s\<lparr>asManager := Some m'\<rparr>))"
| tasks_closing: "atPc s i PcTasks \<Longrightarrow> asMain s \<noteq> MnSelect \<Longrightarrow>
    agent_step cfg s (setPc i (if ok then PcDone False else PcFail) (s\<lparr>asManager := Some m'\<rparr>))"
| fail: "atPc s i PcFail \<Longrightarrow> agent_step cfg s (setPc i (PcDone True) (s\<lparr>asFailed := True\<rparr>))"
| wg_done: "atPc s i (PcDone b) \<Longrightarrow>
    agent_step cfg s (setPc i (if b then PcSignal else PcEnd) (s\<lparr>asWG := asWG s - 1\<rparr>))"
| signal: "atPc s i PcSignal \<Longrightarrow> agent_step cfg s (setPc i PcEnd (signalDone s))"
| background: "asManager s = Some m \<Longrightarrow> t \<in> set (tmRunning m) \<Longrightarrow>
    agent_step cfg s (s\<lparr>asManager := Some (snd (backgroundExit (acTasks cfg) t m))\<rparr>)"
| cloned: "asClones s > 0 \<Longrightarrow> agent_step cfg s (s\<lparr>asClones := asClones s - 1, asWG := asWG s - 1\<rparr>)"
| wait_over: "atWaiter s j WaWait \<Longrightarrow> asWG s = 0 \<Longrightarrow> agent_step cfg s (setWaiter j WaCheck s)"
| wait_failed: "atWaiter s j WaCheck \<Longrightarrow> asFailed s \<Longrightarrow> agent_step cfg s (setWaiter j WaEnd (signalDone s))"
| wait_ok: "atWaiter s j WaCheck \<Longrightarrow> \<not> asFailed s \<Longrightarrow> agent_step cfg s (setWaiter j WaRun s)"
| set_running: "atWaiter s j WaRun \<Longrightarrow> agent_step cfg s (setWaiter j WaSleep (agSetState RUNNING s))"
| auto_stop: "atWaiter s j WaSleep \<Longrightarrow>
    agent_step cfg s (setWaiter j WaEnd (if stopsByItself cfg then signalDone s else s))"
| listen: "agent_step cfg s (s\<lparr>asBus := subscribeBus k (asBus s)\<rparr>)"
| unlisten: "agent_step cfg s (s\<lparr>asBus := unsubscribeBus k (asBus s)\<rparr>)"
| sent: "receiveBus k (asBus s) = Some (st, b) \<Longrightarrow> agent_step cfg s (s\<lparr>asBus := b\<rparr>)"
| terminated: "asMain s = MnSelect \<Longrightarrow> agent_step cfg s (s\<lparr>asMain := MnClose\<rparr>)"
| signalled: "asMain s = MnSelect \<Longrightarrow> asDone s > 0 \<Longrightarrow> agent_step cfg s (s\<lparr>asMain := MnClose, asDone := asDone s - 1\<rparr>)"
| closed: "asMain s = MnClose \<Longrightarrow> agent_step cfg s (agClose cfg (s\<lparr>asMain := MnClosed\<rparr>))"

definition agentInit :: "agent \<Rightarrow> bool" where
  "agentInit s \<longleftrightarrow> s = NewServer"

section \<open>One preparation\<close>

definition holdsGroup :: "prep_pc \<Rightarrow> bool" where
  "holdsGroup pc \<longleftrightarrow> pc \<in> {PcSpawn, PcTasks, PcFail, PcDone True, PcDone False}"

definition beforeWaiter :: "prep_pc \<Rightarrow> bool" where
  "beforeWaiter pc \<longleftrightarrow> pc \<in> {PcCheck, PcSet, PcAdd, PcSpawn} \<or> (\<exists>ops. pc = PcOps ops)"

text \<open>Who is counted by the wait group, and how far the waiting goroutine can be.\<close>

definition groupInv :: "agent \<Rightarrow> prep_pc \<Rightarrow> bool" where
  "groupInv s pc \<longleftrightarrow> asWG s = asClones s + (if holdsGroup pc then 1 else 0)
     \<and> (beforeWaiter pc \<longrightarrow> asWaiters s = [])
     \<and> (pc = PcTasks \<or> pc = PcFail \<or> (\<exists>b. pc = PcDone b) \<longrightarrow> asWaiters s = [WaWait])
     \<and> (asWaiters s = [] \<or> (\<exists>w. asWaiters s = [w] \<and> (w \<noteq> WaWait \<longrightarrow> asWG s = 0)))"

definition failedInv :: "agent \<Rightarrow> prep_pc \<Rightarrow> bool" where
  "failedInv s pc \<longleftrightarrow> (beforeWaiter pc \<or> pc = PcTasks \<or> pc = PcFail \<or> pc = PcDone False \<longrightarrow> \<not> asFailed s)
     \<and> (pc = PcDone True \<longrightarrow> asFailed s)
     \<and> (pc = PcSignal \<longrightarrow> asFailed s \<or> asWaiters s = [])
     \<and> (asWaiters s = [WaRun] \<or> asWaiters s = [WaSleep] \<longrightarrow> \<not> asFailed s)"

definition runningInv :: "agent \<Rightarrow> bool" where
  "runningInv s \<longleftrightarrow> (asState s = RUNNING \<longrightarrow> (asWaiters s = [WaSleep] \<or> asWaiters s = [WaEnd]) \<and> \<not> asFailed s)"

definition readyManager :: "agent \<Rightarrow> bool" where
  "readyManager s \<longleftrightarrow> (\<exists>m. asManager s = Some m \<and> attempted m = [])"

definition ranManager :: "agent_cfg \<Rightarrow> agent \<Rightarrow> bool" where
  "ranManager cfg s \<longleftrightarrow> (\<exists>m. asManager s = Some m \<and> attempted m = planOf (isBuildRun cfg) (isFreshRun cfg) (tmTasks m))"

definition managerInv :: "agent_cfg \<Rightarrow> agent \<Rightarrow> prep_pc \<Rightarrow> bool" where
  "managerInv cfg s pc \<longleftrightarrow>
     (pc = PcAdd \<or> pc = PcSpawn \<or> pc = PcTasks \<or> (\<exists>ops. pc = PcOps ops \<and> NewTaskManager \<notin> set ops) \<longrightarrow> readyManager s)
     \<and> (pc = PcDone False \<or> (pc = PcEnd \<and> asWaiters s \<noteq> [] \<and> \<not> asFailed s) \<longrightarrow> ranManager cfg s)
     \<and> (pc = PcEnd \<and> (asWaiters s = [] \<or> asFailed s) \<longrightarrow> asDone s > 0)"

definition soloPc :: "agent_cfg \<Rightarrow> agent \<Rightarrow> prep_pc \<Rightarrow> bool" where
  "soloPc cfg s pc \<longleftrightarrow> groupInv s pc \<and> failedInv s pc \<and> runningInv s \<and> (asStarted s \<longleftrightarrow> pc \<noteq> PcCheck \<and> pc \<noteq> PcSet)
     \<and> (asMain s = MnSelect \<longrightarrow> managerInv cfg s pc)"

definition noPc :: "agent \<Rightarrow> bool" where
  "noPc s \<longleftrightarrow> asWG s = 0 \<and> asClones s = 0 \<and> asWaiters s = [] \<and> \<not> asStarted s \<and> \<not> asFailed s \<and> asState s \<noteq> RUNNING"

definition soloInv :: "agent_cfg \<Rightarrow> agent \<Rightarrow> bool" where
  "soloInv cfg s \<longleftrightarrow> (asPrepares s = [] \<longrightarrow> noPc s) \<and> (\<forall>pc. asPrepares s = [pc] \<longrightarrow> soloPc cfg s pc)"

lemma solo_at:
  assumes "soloInv cfg s" "atPc s i pc" "asPrepares s' = (asPrepares s)[i := pc']" "soloPc cfg s pc \<Longrightarrow> soloPc cfg s' pc'"
  shows "soloInv cfg s'"
proof -
  consider "asPrepares s = [pc]" "i = 0" | "length (asPrepares s) > 1"
    using assms(2) by (cases "asPrepares s"; cases "tl (asPrepares s)") (auto simp: atPc_def)
  then show ?thesis
  proof cases
    case 1
    then show ?thesis using assms by (simp add: soloInv_def)
  next
    case 2
    then have "length (asPrepares s') > 1" using assms(3) by simp
    then show ?thesis by (auto simp: soloInv_def)
  qed
qed

lemma solo_other:
  assumes "soloInv cfg s" "asPrepares s' = asPrepares s" "noPc s \<Longrightarrow> noPc s'" "\<And>pc. soloPc cfg s pc \<Longrightarrow> soloPc cfg s' pc"
  shows "soloInv cfg s'"
  using assms by (auto simp: soloInv_def)

lemma signalDone_simps [simp]:
  "asState (signalDone s) = asState s" "asStarted (signalDone s) = asStarted s" "asFailed (signalDone s) = asFailed s"
  "asWG (signalDone s) = asWG s" "asClones (signalDone s) = asClones s" "asManager (signalDone s) = asManager s"
  "asPrepares (signalDone s) = asPrepares s" "asWaiters (signalDone s) = asWaiters s" "asMain (signalDone s) = asMain s"
  "asDone (signalDone s) > 0" "asDone s \<le> asDone (signalDone s)"
  by (auto simp: signalDone_def doneSize_def)

lemma nextPc_cases: "nextPc ops = PcAdd \<and> ops = [] \<or> nextPc ops = PcOps ops \<and> ops \<noteq> []"
  by (simp add: nextPc_def)

lemmas solo_defs = soloPc_def noPc_def groupInv_def failedInv_def runningInv_def managerInv_def readyManager_def ranManager_def
  holdsGroup_def beforeWaiter_def setPc_def setWaiter_def

lemma backgroundExit_attempted:
  "attempted (snd (backgroundExit xe t m)) = attempted m \<and> tmTasks (snd (backgroundExit xe t m)) = tmTasks m"
  by (auto simp: tm_defs attempted_def split: if_splits)

lemma runTasks_ran:
  assumes "runTasks cfg m = (Inr (), m')" "attempted m = []"
  shows "attempted m' = planOf (isBuildRun cfg) (isFreshRun cfg) (tmTasks m')"
proof -
  obtain r0 m0 where app: "appendTasks (acValidName cfg) (acIsDev cfg) (acUser cfg) (acEnv cfg) (acRequest cfg) (acSpec cfg) m = (r0, m0)"
    by fastforce
  then have r0: "r0 = Inr ()" using assms(1) by (cases r0) (auto simp: runTasks_def taskManagerRun_def bindE_def)
  let ?m = "m0\<lparr>tmCancelled := False\<rparr>"
  have "runTypes (acTasks cfg) (isBuildRun cfg) (isFreshRun cfg) ?m = (Inr (), m')"
    using assms(1) app r0 by (simp add: runTasks_def taskManagerRun_def bindE_def startContext_def isBuildRun_def)
  from runTypes_ran[OF this] have m': "tmTasks m' = tmTasks ?m"
    "attempted m' = attempted ?m @ planOf (isBuildRun cfg) (isFreshRun cfg) (tmTasks ?m)"
    by (auto simp: ranPlan_def)
  have "attempted ?m = []" using appendTasks_result(2)[OF app r0] assms(2) by (simp add: attempted_def)
  then show ?thesis using m' by simp
qed

text \<open>What an operation leaves of the parts of the invariant.\<close>

definition opStep :: "prep_op \<Rightarrow> agent \<Rightarrow> agent \<Rightarrow> bool" where
  "opStep op s s' \<longleftrightarrow> asWaiters s' = asWaiters s \<and> asStarted s' = asStarted s \<and> asFailed s' = asFailed s
     \<and> asPrepares s' = asPrepares s \<and> asMain s' = asMain s \<and> (asState s' = asState s \<or> asState s' = PREPARING)
     \<and> (asWG s = asClones s \<longrightarrow> asWG s' = asClones s') \<and> (readyManager s \<or> op = NewTaskManager \<longrightarrow> readyManager s')"

lemma opEffect_step: "opStep op s (opEffect cfg op ts s)"
  by (cases op) (auto simp: opStep_def opEffect_def agSetState_def readyManager_def attempted_def newTaskManager_def)

lemma opError_step: "op \<noteq> NewTaskManager \<Longrightarrow> opStep op s (opError op ts s)"
  by (cases op) (auto simp: opStep_def opError_def readyManager_def attempted_def)

lemma solo_op:
  assumes "soloPc cfg s (PcOps (op # ops))" "opStep op s s'"
  shows "soloPc cfg s' (nextPc ops)"
proof -
  have s: "asWaiters s = []" "\<not> asFailed s" "asWG s = asClones s" "asState s \<noteq> RUNNING" "asStarted s"
    "asMain s = MnSelect \<Longrightarrow> NewTaskManager \<notin> set (op # ops) \<Longrightarrow> readyManager s"
    using assms(1) by (auto simp: soloPc_def groupInv_def failedInv_def runningInv_def managerInv_def beforeWaiter_def holdsGroup_def)
  have s': "asWaiters s' = []" "\<not> asFailed s'" "asWG s' = asClones s'" "asState s' \<noteq> RUNNING" "asStarted s'"
    using assms(2) s by (auto simp: opStep_def)
  have "asMain s' = MnSelect \<Longrightarrow> NewTaskManager \<notin> set ops \<Longrightarrow> readyManager s'"
    using assms(2) s(6) by (auto simp: opStep_def)
  with s' show ?thesis
    using nextPc_cases[of ops]
    by (auto simp: soloPc_def groupInv_def failedInv_def runningInv_def managerInv_def beforeWaiter_def holdsGroup_def)
qed

lemma soloPc_setPc [simp]: "soloPc cfg (setPc i pc' s) pc = soloPc cfg s pc"
  by (simp add: soloPc_def groupInv_def failedInv_def runningInv_def managerInv_def readyManager_def ranManager_def setPc_def)

lemma soloPc_same:
  assumes "asWG s' = asWG s" "asClones s' = asClones s" "asWaiters s' = asWaiters s" "asFailed s' = asFailed s"
    "asState s' = asState s" "asStarted s' = asStarted s" "asMain s' = asMain s" "asDone s' = asDone s"
    "readyManager s' = readyManager s" "ranManager cfg s' = ranManager cfg s"
  shows "soloPc cfg s' pc = soloPc cfg s pc"
  unfolding soloPc_def groupInv_def failedInv_def runningInv_def managerInv_def using assms by simp

text \<open>Outside \<open>MnSelect\<close> nothing is said of the manager.\<close>

lemma soloPc_closing:
  assumes same: "asWG s' = asWG s" "asClones s' = asClones s" "asWaiters s' = asWaiters s" "asFailed s' = asFailed s"
      "asStarted s' = asStarted s"
    and state: "asState s' = asState s \<or> asState s' \<noteq> RUNNING" and main: "asMain s' \<noteq> MnSelect"
    and pc: "soloPc cfg s pc"
  shows "soloPc cfg s' pc"
proof -
  have "groupInv s' pc = groupInv s pc" unfolding groupInv_def using same by simp
  moreover have "failedInv s' pc = failedInv s pc" unfolding failedInv_def using same by simp
  moreover have "runningInv s \<Longrightarrow> runningInv s'" using same state by (auto simp: runningInv_def)
  ultimately show ?thesis using pc same main by (simp add: soloPc_def)
qed

text \<open>A step of the waiting goroutine or of a clone keeps the place of the preparation.\<close>

lemma soloPc_group:
  assumes "asFailed s' = asFailed s" "asState s' = asState s" "asStarted s' = asStarted s" "asMain s' = asMain s"
      "asDone s' \<ge> asDone s" "asManager s' = asManager s" "asWaiters s' = asWaiters s"
    and "groupInv s pc \<Longrightarrow> groupInv s' pc" "soloPc cfg s pc"
  shows "soloPc cfg s' pc"
proof -
  have "failedInv s' pc = failedInv s pc" "runningInv s' = runningInv s"
    unfolding failedInv_def runningInv_def using assms by simp_all
  moreover have "managerInv cfg s pc \<Longrightarrow> managerInv cfg s' pc"
    unfolding managerInv_def readyManager_def ranManager_def using assms(1,5,6,7) by auto
  ultimately show ?thesis using assms by (simp add: soloPc_def)
qed

text \<open>Once the wait is over, the preparation has nothing left but its signal.\<close>

lemma solo_waiter:
  assumes inv: "soloInv cfg s" and j: "atWaiter s j w" "asWG s = 0 \<or> w \<noteq> WaWait"
    and same: "asPrepares s' = asPrepares s" "asWG s' = asWG s" "asClones s' = asClones s" "asFailed s' = asFailed s"
      "asStarted s' = asStarted s" "asMain s' = asMain s" "asManager s' = asManager s" "asDone s' \<ge> asDone s"
    and w': "asWaiters s' = (asWaiters s)[j := w']" "w' \<noteq> WaWait"
    and ok: "w = WaRun \<Longrightarrow> \<not> asFailed s \<Longrightarrow> w' = WaSleep" "w = WaSleep \<Longrightarrow> w' = WaEnd" "w = WaEnd \<Longrightarrow> w' = WaEnd"
      "w' = WaRun \<Longrightarrow> \<not> asFailed s" "w' = WaSleep \<Longrightarrow> w = WaRun"
    and state: "asState s' = asState s \<or> asState s' = RUNNING \<and> w = WaRun"
  shows "soloInv cfg s'"
proof (rule solo_other[OF inv same(1)])
  show "noPc s'" if "noPc s" using that j(1) by (simp add: noPc_def atWaiter_def)
  fix pc assume pc: "soloPc cfg s pc"
  then have g: "asWaiters s = [] \<or> (\<exists>w. asWaiters s = [w] \<and> (w \<noteq> WaWait \<longrightarrow> asWG s = 0))"
    unfolding soloPc_def groupInv_def by (elim conjE)
  have w: "asWaiters s = [w]" "asWG s = 0" using g j by (auto simp: atWaiter_def)
  then have s': "asWaiters s' = [w']" using w'(1) j(1) by (simp add: atWaiter_def)
  have end_pc: "pc = PcSignal \<or> pc = PcEnd"
  proof -
    have g: "groupInv s pc" using pc by (simp add: soloPc_def)
    then have "\<not> beforeWaiter pc" using w(1) by (auto simp: groupInv_def)
    moreover have "\<not> holdsGroup pc" using g w(2) by (auto simp: groupInv_def split: if_splits)
    ultimately show ?thesis by (cases pc) (auto simp: beforeWaiter_def holdsGroup_def)
  qed
  have f: "w = WaRun \<or> w = WaSleep \<Longrightarrow> \<not> asFailed s"
    using pc unfolding soloPc_def failedInv_def w by simp
  have "groupInv s' pc"
  proof -
    have "asClones s = 0" using pc w(2) by (simp add: soloPc_def groupInv_def)
    then show ?thesis
      using end_pc w same s' w'(2) by (elim disjE) (simp_all add: groupInv_def holdsGroup_def beforeWaiter_def)
  qed
  moreover have "failedInv s' pc"
  proof -
    have "pc = PcSignal \<longrightarrow> asFailed s" using pc w unfolding soloPc_def failedInv_def by simp
    moreover have "w' = WaRun \<or> w' = WaSleep \<longrightarrow> \<not> asFailed s" using f ok(4,5) by blast
    ultimately show ?thesis
      using end_pc unfolding failedInv_def same(4) s' by (elim disjE) (simp_all add: beforeWaiter_def)
  qed
  moreover have "runningInv s'"
  proof -
    have "asState s = RUNNING \<longrightarrow> (w = WaSleep \<or> w = WaEnd) \<and> \<not> asFailed s"
      using pc unfolding soloPc_def runningInv_def w by simp
    moreover have "w = WaRun \<longrightarrow> \<not> asFailed s \<and> w' = WaSleep" using f ok(1) by blast
    ultimately show ?thesis unfolding runningInv_def same(4) s' using state ok(2,3) by auto
  qed
  moreover have "managerInv cfg s' pc" if "asMain s = MnSelect"
  proof -
    have m: "managerInv cfg s pc" using pc that by (simp add: soloPc_def)
    show ?thesis
      using end_pc m w(1) same(4,7,8) s' by (elim disjE) (auto simp: managerInv_def readyManager_def ranManager_def)
  qed
  ultimately show "soloPc cfg s' pc" using pc same by (simp add: soloPc_def)
qed

lemma soloInv_step:
  assumes "agent_step cfg s s'" "soloInv cfg s"
  shows "soloInv cfg s'"
  using assms(1)
proof (cases rule: agent_step.cases)
  case prepare
  then show ?thesis using assms(2) by (auto simp: solo_defs soloInv_def)
next
  case (started i)
  show ?thesis by (rule solo_at[OF assms(2) started(2)]) (use started in \<open>auto simp: solo_defs\<close>)
next
  case (check i)
  show ?thesis by (rule solo_at[OF assms(2) check(2)]) (use check in \<open>auto simp: solo_defs\<close>)
next
  case (set_started i)
  show ?thesis by (rule solo_at[OF assms(2) set_started(2)])
    (use set_started in \<open>auto simp: solo_defs nextPc_def prepareOps_def\<close>)
next
  case (add i)
  show ?thesis by (rule solo_at[OF assms(2) add(2)]) (use add in \<open>auto simp: solo_defs\<close>)
next
  case (spawn i)
  show ?thesis by (rule solo_at[OF assms(2) spawn(2)]) (use spawn in \<open>auto simp: solo_defs\<close>)
next
  case (fail i)
  show ?thesis by (rule solo_at[OF assms(2) fail(2)]) (use fail in \<open>auto simp: solo_defs\<close>)
next
  case (wg_done i b)
  show ?thesis by (rule solo_at[OF assms(2) wg_done(2)]) (use wg_done in \<open>auto simp: solo_defs split: if_splits\<close>)
next
  case (signal i)
  show ?thesis by (rule solo_at[OF assms(2) signal(2)]) (use signal in \<open>auto simp: solo_defs\<close>)
next
  case (tasks i m r m')
  show ?thesis by (rule solo_at[OF assms(2) tasks(2)])
    (use tasks runTasks_ran[of cfg m m'] in \<open>auto simp: solo_defs split: if_splits\<close>)
next
  case (tasks_closing i ok m')
  show ?thesis by (rule solo_at[OF assms(2) tasks_closing(2)])
    (use tasks_closing in \<open>auto simp: solo_defs split: if_splits\<close>)
next
  case (op_fatal i op ops)
  show ?thesis by (rule solo_at[OF assms(2) op_fatal(2)]) (use op_fatal in \<open>auto simp: solo_defs\<close>)
next
  case (op_ok i op ops ts)
  show ?thesis
  proof (rule solo_at[OF assms(2) op_ok(2)])
    show "asPrepares s' = (asPrepares s)[i := nextPc ops]"
      using op_ok opEffect_step[of op s cfg ts] by (simp add: setPc_def opStep_def)
    show "soloPc cfg s' (nextPc ops)" if "soloPc cfg s (PcOps (op # ops))"
      using solo_op[OF that opEffect_step] op_ok by simp
  qed
next
  case (op_failed i op ops ts)
  then have step: "opStep op s (opError op ts s)" by (intro opError_step) (auto simp: isFatal_def)
  show ?thesis
  proof (rule solo_at[OF assms(2) op_failed(2)])
    show "asPrepares s' = (asPrepares s)[i := nextPc ops]"
      using op_failed step by (simp add: setPc_def opStep_def)
    show "soloPc cfg s' (nextPc ops)" if "soloPc cfg s (PcOps (op # ops))"
      using solo_op[OF that step] op_failed by simp
  qed
next
  case (background m t)
  have "soloPc cfg s' pc = soloPc cfg s pc" for pc
    by (rule soloPc_same) (use background in \<open>simp_all add: readyManager_def ranManager_def backgroundExit_attempted\<close>)
  then show ?thesis using background by (intro solo_other[OF assms(2)]) (auto simp: noPc_def)
next
  case cloned
  show ?thesis
  proof (rule solo_other[OF assms(2)])
    have "groupInv s pc \<Longrightarrow> groupInv s' pc" for pc
      using cloned by (auto simp: groupInv_def)
    then show "soloPc cfg s pc \<Longrightarrow> soloPc cfg s' pc" for pc
      by (intro soloPc_group[of s' s]) (use cloned in simp_all)
  qed (use cloned in \<open>auto simp: noPc_def\<close>)
next
  case (wait_over j)
  show ?thesis by (rule solo_waiter[OF assms(2) wait_over(2)])
    (use wait_over in \<open>auto simp: setWaiter_def agSetState_def intro: less_imp_le\<close>)
next
  case (wait_failed j)
  show ?thesis by (rule solo_waiter[OF assms(2) wait_failed(2)])
    (use wait_failed in \<open>auto simp: setWaiter_def agSetState_def intro: less_imp_le\<close>)
next
  case (wait_ok j)
  show ?thesis by (rule solo_waiter[OF assms(2) wait_ok(2)])
    (use wait_ok in \<open>auto simp: setWaiter_def agSetState_def intro: less_imp_le\<close>)
next
  case (set_running j)
  show ?thesis by (rule solo_waiter[OF assms(2) set_running(2)])
    (use set_running in \<open>auto simp: setWaiter_def agSetState_def intro: less_imp_le\<close>)
next
  case (auto_stop j)
  show ?thesis by (rule solo_waiter[OF assms(2) auto_stop(2)])
    (use auto_stop in \<open>auto simp: setWaiter_def agSetState_def intro: less_imp_le\<close>)
next
  case (listen k)
  have "soloPc cfg s' pc = soloPc cfg s pc" for pc
    by (rule soloPc_same) (use listen in \<open>simp_all add: readyManager_def ranManager_def\<close>)
  then show ?thesis using listen by (intro solo_other[OF assms(2)]) (auto simp: noPc_def)
next
  case (unlisten k)
  have "soloPc cfg s' pc = soloPc cfg s pc" for pc
    by (rule soloPc_same) (use unlisten in \<open>simp_all add: readyManager_def ranManager_def\<close>)
  then show ?thesis using unlisten by (intro solo_other[OF assms(2)]) (auto simp: noPc_def)
next
  case (sent k st b)
  have "soloPc cfg s' pc = soloPc cfg s pc" for pc
    by (rule soloPc_same) (use sent in \<open>simp_all add: readyManager_def ranManager_def\<close>)
  then show ?thesis using sent by (intro solo_other[OF assms(2)]) (auto simp: noPc_def)
next
  case terminated
  show ?thesis
  proof (rule solo_other[OF assms(2)])
    show "soloPc cfg s pc \<Longrightarrow> soloPc cfg s' pc" for pc
      by (rule soloPc_closing) (use terminated in \<open>auto simp: agClose_def agSetState_def split: option.splits\<close>)
  qed (use terminated in \<open>auto simp: noPc_def agClose_def agSetState_def split: option.splits\<close>)
next
  case signalled
  show ?thesis
  proof (rule solo_other[OF assms(2)])
    show "soloPc cfg s pc \<Longrightarrow> soloPc cfg s' pc" for pc
      by (rule soloPc_closing) (use signalled in \<open>auto simp: agClose_def agSetState_def split: option.splits\<close>)
  qed (use signalled in \<open>auto simp: noPc_def agClose_def agSetState_def split: option.splits\<close>)
next
  case closed
  show ?thesis
  proof (rule solo_other[OF assms(2)])
    show "soloPc cfg s pc \<Longrightarrow> soloPc cfg s' pc" for pc
      by (rule soloPc_closing) (use closed in \<open>auto simp: agClose_def agSetState_def split: option.splits\<close>)
  qed (use closed in \<open>auto simp: noPc_def agClose_def agSetState_def split: option.splits\<close>)
qed

interpretation solo: step_invariant agentInit "agent_step cfg" "soloInv cfg" for cfg
proof
  show "agentInit s \<Longrightarrow> soloInv cfg s" for s
    by (simp add: agentInit_def NewServer_def soloInv_def noPc_def)
qed (rule soloInv_step)

lemma solo_running:
  assumes "soloInv cfg s" "length (asPrepares s) \<le> 1" "asState s = RUNNING"
  shows "asPrepares s = [PcEnd] \<and> \<not> asFailed s \<and> asWG s = 0 \<and> asClones s = 0 \<and> (asMain s = MnSelect \<longrightarrow> ranManager cfg s)"
proof -
  obtain pc where p: "asPrepares s = [pc]" and pc: "soloPc cfg s pc"
    using assms by (cases "asPrepares s") (auto simp: soloInv_def noPc_def)
  have run: "asWaiters s = [WaSleep] \<or> asWaiters s = [WaEnd]" "\<not> asFailed s"
    using pc assms(3) unfolding soloPc_def runningInv_def by simp_all
  have g: "groupInv s pc" and f: "failedInv s pc" using pc by (simp_all add: soloPc_def)
  have wg: "asWG s = 0" using g run(1) unfolding groupInv_def by auto
  have "\<not> beforeWaiter pc" using g run(1) unfolding groupInv_def by auto
  moreover have "\<not> holdsGroup pc" "asClones s = 0" using g wg unfolding groupInv_def by (auto split: if_splits)
  moreover have "pc \<noteq> PcSignal" using f run unfolding failedInv_def by auto
  ultimately have end_pc: "pc = PcEnd" "asClones s = 0" by (cases pc; auto simp: beforeWaiter_def holdsGroup_def)+
  have "ranManager cfg s" if "asMain s = MnSelect"
    using pc that end_pc(1) run unfolding soloPc_def managerInv_def by auto
  then show ?thesis using p end_pc run(2) wg by simp
qed

text \<open>
  Where the supervisor prepares the Workspace once, however the tasks, the clones and the waiting goroutine
  interleave: the agent reports \<open>RUNNING\<close> only when the preparation has returned, no clone is left, none of it
  failed, and, unless a shutdown began, every task of the plan was started. A preparation that returned has
  done all of this, or the signal that ends the agent waits for it.
\<close>

theorem running_after_tasks:
  assumes "(agent_step cfg)\<^sup>*\<^sup>* NewServer s" "length (asPrepares s) \<le> 1"
  shows "(asState s = RUNNING \<longrightarrow> asPrepares s = [PcEnd] \<and> \<not> asFailed s \<and> asWG s = 0 \<and> asClones s = 0
        \<and> (asMain s = MnSelect \<longrightarrow> ranManager cfg s))
    \<and> (asPrepares s = [PcEnd] \<and> asMain s = MnSelect \<longrightarrow>
        (\<not> asFailed s \<and> asWaiters s \<noteq> [] \<and> ranManager cfg s) \<or> asDone s > 0)"
proof -
  have inv: "soloInv cfg s" by (rule solo.reachable_inv[OF _ assms(1)]) (simp add: agentInit_def)
  have "(\<not> asFailed s \<and> asWaiters s \<noteq> [] \<and> ranManager cfg s) \<or> asDone s > 0" if "asPrepares s = [PcEnd]" "asMain s = MnSelect"
  proof -
    have "managerInv cfg s PcEnd" using inv that by (simp add: soloInv_def soloPc_def)
    then show ?thesis unfolding managerInv_def by auto
  qed
  moreover note solo_running[OF inv assms(2)]
  ultimately show ?thesis by simp
qed

section \<open>Where the code falls short\<close>

text \<open>Two requests can both pass the test of \<open>startedPrepare\<close>: it is read and set in two sections of the lock.\<close>

lemma two_preparations:
  "\<exists>s. (agent_step cfg)\<^sup>*\<^sup>* NewServer s \<and> asPrepares s = [PcOps prepareOps, PcOps prepareOps]"
proof -
  let ?p = "\<lambda>ps st. NewServer\<lparr>asPrepares := ps, asStarted := st\<rparr>"
  have n: "nextPc prepareOps = PcOps prepareOps" by (simp add: nextPc_def prepareOps_def)
  have 1: "agent_step cfg NewServer (?p [PcCheck] False)"
    using agent_step.prepare[of cfg NewServer] by (simp add: NewServer_def)
  have 2: "agent_step cfg (?p [PcCheck] False) (?p [PcCheck, PcCheck] False)"
    using agent_step.prepare[of cfg "?p [PcCheck] False"] by (simp add: NewServer_def)
  have 3: "agent_step cfg (?p [PcCheck, PcCheck] False) (?p [PcSet, PcCheck] False)"
    using agent_step.check[of "?p [PcCheck, PcCheck] False" 0 cfg] by (simp add: atPc_def setPc_def NewServer_def)
  have 4: "agent_step cfg (?p [PcSet, PcCheck] False) (?p [PcSet, PcSet] False)"
    using agent_step.check[of "?p [PcSet, PcCheck] False" 1 cfg] by (simp add: atPc_def setPc_def NewServer_def)
  have 5: "agent_step cfg (?p [PcSet, PcSet] False) (?p [PcOps prepareOps, PcSet] True)"
    using agent_step.set_started[of "?p [PcSet, PcSet] False" 0 cfg] by (simp add: atPc_def setPc_def n NewServer_def)
  have 6: "agent_step cfg (?p [PcOps prepareOps, PcSet] True) (?p [PcOps prepareOps, PcOps prepareOps] True)"
    using agent_step.set_started[of "?p [PcOps prepareOps, PcSet] True" 1 cfg] by (simp add: atPc_def setPc_def n NewServer_def)
  have "(agent_step cfg)\<^sup>*\<^sup>* NewServer (?p [PcOps prepareOps, PcOps prepareOps] True)"
    using 1 2 3 4 5 6 by (meson converse_rtranclp_into_rtranclp rtranclp.rtrancl_refl)
  moreover have "asPrepares (?p [PcOps prepareOps, PcOps prepareOps] True) = [PcOps prepareOps, PcOps prepareOps]" by simp
  ultimately show ?thesis by blast
qed

text \<open>A preparation all of whose operations succeed.\<close>

lemma ops_run:
  "asPrepares s = [nextPc ops] \<Longrightarrow> \<not> isFreshRun cfg \<Longrightarrow>
   \<exists>s'. (agent_step cfg)\<^sup>*\<^sup>* s s' \<and> asPrepares s' = [PcAdd] \<and> asWG s' = asWG s \<and> asWaiters s' = asWaiters s
     \<and> asFailed s' = asFailed s \<and> asMain s' = asMain s
     \<and> asManager s' = (if NewTaskManager \<in> set ops then Some newTaskManager else asManager s)"
proof (induction ops arbitrary: s)
  case Nil
  then show ?case by (intro exI[of _ s]) (simp add: nextPc_def)
next
  case (Cons op ops)
  let ?s = "setPc 0 (nextPc ops) (opEffect cfg op [] s)"
  have "atPc s 0 (PcOps (op # ops))" using Cons.prems(1) by (simp add: atPc_def nextPc_def)
  then have step: "agent_step cfg s ?s" by (rule agent_step.op_ok)
  have s: "asWG ?s = asWG s" "asWaiters ?s = asWaiters s" "asFailed ?s = asFailed s" "asMain ?s = asMain s"
      "asPrepares ?s = [nextPc ops]"
    "asManager ?s = (if op = NewTaskManager then Some newTaskManager else asManager s)"
    using Cons.prems by (cases op; cases "asManager s"; simp add: opEffect_def setPc_def agSetState_def)+
  obtain s' where s': "(agent_step cfg)\<^sup>*\<^sup>* ?s s'" "asPrepares s' = [PcAdd]" "asWG s' = asWG ?s" "asWaiters s' = asWaiters ?s"
    "asFailed s' = asFailed ?s" "asMain s' = asMain ?s"
    "asManager s' = (if NewTaskManager \<in> set ops then Some newTaskManager else asManager ?s)"
    using Cons.IH[OF s(5) Cons.prems(2)] by blast
  have "(agent_step cfg)\<^sup>*\<^sup>* s s'" using step s'(1) by (rule converse_rtranclp_into_rtranclp)
  moreover have "asManager s' = (if NewTaskManager \<in> set (op # ops) then Some newTaskManager else asManager s)"
    unfolding s'(7) s(6) by simp
  ultimately show ?case using s' s by (intro exI[of _ s']) auto
qed

lemma prepared:
  assumes "\<not> isFreshRun cfg"
  shows "\<exists>a. (agent_step cfg)\<^sup>*\<^sup>* NewServer a \<and> asPrepares a = [PcAdd] \<and> asWG a = 0 \<and> asWaiters a = [] \<and> \<not> asFailed a
     \<and> asMain a = MnSelect \<and> asManager a = Some newTaskManager"
proof -
  let ?p = "\<lambda>ps st. NewServer\<lparr>asPrepares := ps, asStarted := st\<rparr>"
  have p1: "agent_step cfg NewServer (?p [PcCheck] False)"
    using agent_step.prepare[of cfg NewServer] by (simp add: NewServer_def)
  have p2: "agent_step cfg (?p [PcCheck] False) (?p [PcSet] False)"
    using agent_step.check[of "?p [PcCheck] False" 0 cfg] by (simp add: atPc_def setPc_def NewServer_def)
  have p3: "agent_step cfg (?p [PcSet] False) (?p [nextPc prepareOps] True)"
    using agent_step.set_started[of "?p [PcSet] False" 0 cfg] by (simp add: atPc_def setPc_def NewServer_def)
  obtain a where a: "(agent_step cfg)\<^sup>*\<^sup>* (?p [nextPc prepareOps] True) a" "asPrepares a = [PcAdd]" "asWG a = 0" "asWaiters a = []"
    "asFailed a = False" "asMain a = MnSelect" "asManager a = Some newTaskManager"
    using ops_run[of "?p [nextPc prepareOps] True" prepareOps cfg] assms by (auto simp: NewServer_def prepareOps_def)
  have "(agent_step cfg)\<^sup>*\<^sup>* NewServer a"
    using p1 p2 p3 a(1) by (meson converse_rtranclp_into_rtranclp)
  with a show ?thesis by blast
qed

text \<open>A preparation whose tasks ran ends in \<open>RUNNING\<close>.\<close>

lemma done_runs:
  assumes "asPrepares s = [PcDone False]" "asWG s = 1" "asWaiters s = [WaWait]" "\<not> asFailed s"
  shows "\<exists>s'. (agent_step cfg)\<^sup>*\<^sup>* s s' \<and> asState s' = RUNNING \<and> asMain s' = asMain s \<and> asPrepares s' = [PcEnd]"
proof -
  let ?g = "setPc 0 PcEnd (s\<lparr>asWG := asWG s - 1\<rparr>)"
  let ?h = "setWaiter 0 WaCheck ?g"
  let ?i = "setWaiter 0 WaRun ?h"
  let ?j = "setWaiter 0 WaSleep (agSetState RUNNING ?i)"
  have sg: "agent_step cfg s ?g" using agent_step.wg_done[of s 0 False cfg] assms by (simp add: atPc_def)
  have gh: "agent_step cfg ?g ?h" by (rule agent_step.wait_over) (simp_all add: atWaiter_def setPc_def assms)
  have hi: "agent_step cfg ?h ?i" by (rule agent_step.wait_ok) (simp_all add: atWaiter_def setPc_def setWaiter_def assms)
  have ij: "agent_step cfg ?i ?j" by (rule agent_step.set_running) (simp add: atWaiter_def setPc_def setWaiter_def assms)
  have "(agent_step cfg)\<^sup>*\<^sup>* s ?j"
    using sg gh hi ij by (meson converse_rtranclp_into_rtranclp rtranclp.rtrancl_refl)
  moreover have "asState ?j = RUNNING" "asMain ?j = asMain s" "asPrepares ?j = [PcEnd]"
    by (simp_all add: setWaiter_def agSetState_def setPc_def assms)
  ultimately show ?thesis by blast
qed

text \<open>A shutdown that comes while the tasks run does not keep the waiting goroutine from reporting \<open>RUNNING\<close>.\<close>

lemma stopping_then_running:
  assumes "\<not> isFreshRun cfg"
  shows "\<exists>s s'. (agent_step cfg)\<^sup>*\<^sup>* NewServer s \<and> asMain s = MnClosed \<and> asState s = STOPPING
    \<and> (agent_step cfg)\<^sup>*\<^sup>* s s' \<and> asState s' = RUNNING \<and> length (asPrepares s') = 1"
proof -
  obtain a where a: "(agent_step cfg)\<^sup>*\<^sup>* NewServer a" "asPrepares a = [PcAdd]" "asWG a = 0" "asWaiters a = []"
    "\<not> asFailed a" "asMain a = MnSelect" "asManager a = Some newTaskManager"
    using prepared[OF assms] by blast
  let ?b = "setPc 0 PcSpawn (a\<lparr>asWG := asWG a + 1\<rparr>)"
  let ?c = "setPc 0 PcTasks (?b\<lparr>asWaiters := asWaiters ?b @ [WaWait]\<rparr>)"
  let ?d = "?c\<lparr>asMain := MnClose\<rparr>"
  obtain e where e_def: "e = agClose cfg (?d\<lparr>asMain := MnClosed\<rparr>)" by blast
  have e: "asMain e = MnClosed" "asState e = STOPPING" "asPrepares e = [PcTasks]" "asWG e = 1" "asWaiters e = [WaWait]"
    "\<not> asFailed e"
    unfolding e_def using a by (auto simp: agClose_def agSetState_def setPc_def newTaskManager_def)
  let ?f = "setPc 0 (PcDone False) (e\<lparr>asManager := Some newTaskManager\<rparr>)"
  have ab: "agent_step cfg a ?b" by (rule agent_step.add) (simp add: atPc_def a)
  have bc: "agent_step cfg ?b ?c" by (rule agent_step.spawn) (simp add: atPc_def setPc_def a)
  have cd: "agent_step cfg ?c ?d" by (rule agent_step.terminated) (simp add: setPc_def a)
  have de: "agent_step cfg ?d e" unfolding e_def by (rule agent_step.closed) simp
  have ef: "agent_step cfg e ?f"
    using agent_step.tasks_closing[of e 0 cfg True newTaskManager] e by (simp add: atPc_def)
  obtain s' where s': "(agent_step cfg)\<^sup>*\<^sup>* ?f s'" "asState s' = RUNNING" "asPrepares s' = [PcEnd]"
    using done_runs[of ?f cfg] e by (auto simp: setPc_def)
  have "(agent_step cfg)\<^sup>*\<^sup>* NewServer e" using a(1) ab bc cd de by (meson rtranclp.rtrancl_into_rtrancl)
  moreover have "(agent_step cfg)\<^sup>*\<^sup>* e s'" using ef s'(1) by (rule converse_rtranclp_into_rtranclp)
  moreover have "length (asPrepares s') = 1" using s'(3) by simp
  ultimately show ?thesis using e(1,2) s'(2) by blast
qed

end
