(* ===== verification/Agent_Terminal.thy ===== *)
theory Agent_Terminal
  imports Agent_Task Pub_Sub Spec_Vars Step_Invariant
begin

text \<open>
  The terminals of the agent and the commands it runs for clients:
  \<open>cluster/workspace/workspace/terminal.go\<close> and \<open>terminalSrv\<close> of \<open>server.go\<close>. A terminal is an object with goroutines
  of its own, so it has a number, and a map leads from the identifiers to the numbers.
\<close>

section \<open>The shell of a user\<close>

record passwd_entry =
  pePass :: string
  peUid :: string
  peGid :: string
  peGecos :: string
  peHome :: string
  peShell :: string

definition passwdLine :: "string \<Rightarrow> err + string \<times> passwd_entry" where
  "passwdLine l =
     (case splitOn (CHR '':'') l of
        [n, p, u, g, c, h, s] \<Rightarrow> Inr (n, \<lparr>pePass = p, peUid = u, peGid = g, peGecos = c, peHome = h, peShell = s\<rparr>)
      | _ \<Rightarrow> Inl (Errorf ''Invalid number of fields''))"

fun passwdLines :: "string list \<Rightarrow> (string \<Rightarrow> passwd_entry option) \<Rightarrow> err + (string \<Rightarrow> passwd_entry option)" where
  "passwdLines [] m = Inr m"
| "passwdLines (l # ls) m = bindS (passwdLine l) (\<lambda>(n, e). passwdLines ls (m(n \<mapsto> e)))"

text \<open>\<open>file\<close> holds the lines of \<open>/etc/passwd\<close>, if it can be opened.\<close>

definition parsePasswdFile :: "string list option \<Rightarrow> err + (string \<Rightarrow> passwd_entry option)" where
  "parsePasswdFile file = (case file of None \<Rightarrow> Inl (Errorf ''open'') | Some ls \<Rightarrow> passwdLines ls Map.empty)"

definition lookShell :: "(string \<Rightarrow> string option) \<Rightarrow> err + string" where
  "lookShell lookPath =
     (case List.map_filter lookPath [''zsh'', ''bash'', ''sh''] of
        [] \<Rightarrow> Inl (Errorf ''Could not find shell path'')
      | p # _ \<Rightarrow> Inr p)"

text \<open>A user without an entry has the empty shell.\<close>

definition getShellPath :: "string list option \<Rightarrow> (string \<Rightarrow> string option) \<Rightarrow> string \<Rightarrow> err + string" where
  "getShellPath file lookPath user =
     (case parsePasswdFile file of
        Inl _ \<Rightarrow> lookShell lookPath
      | Inr m \<Rightarrow> Inr (case m user of None \<Rightarrow> [] | Some e \<Rightarrow> peShell e))"

section \<open>One terminal\<close>

type_synonym u16 = "16 word"

datatype term_msg = TStdout string | TWindowSize u32 u32 | TClose

record agent_terminal =
  toId :: string
  toCreatedAt :: time
  toCols :: u16
  toRows :: u16
  toBuf :: string
  toStdin :: "string list"
  toStdout :: "string list"
  toSubs :: "term_msg bus"
  toDrain :: "term_msg bus"
  toKill :: bool
  toExited :: bool
  toClosed :: bool

definition maxSizeTermBuf :: nat where
  "maxSizeTermBuf = 500000"

definition setBuf :: "string \<Rightarrow> agent_terminal \<Rightarrow> agent_terminal" where
  "setBuf arg t =
     (let b = toBuf t @ arg
      in t\<lparr>toBuf := (if length b > maxSizeTermBuf then drop (length b - maxSizeTermBuf) b else b)\<rparr>)"

definition publishMsg :: "term_msg \<Rightarrow> agent_terminal \<Rightarrow> agent_terminal" where
  "publishMsg msg t = t\<lparr>toSubs := publishAll msg (toSubs t)\<rparr>"

text \<open>\<open>got\<close> is the size that the terminal reports after it was set, if it can be read.\<close>

definition setWinSize :: "bool \<Rightarrow> (u16 \<times> u16) option \<Rightarrow> u16 \<Rightarrow> u16 \<Rightarrow> (agent_terminal, unit) io" where
  "setWinSize ok got w h = (\<lambda>t.
     if toCols t = w \<and> toRows t = h then (Inr (), t)
     else if \<not> ok then (Inl (Internal ''Could not set terminal size''), t)
     else (case got of
        None \<Rightarrow> (Inr (), t\<lparr>toCols := w, toRows := h\<rparr>)
      | Some (w', h') \<Rightarrow> (Inr (), t\<lparr>toCols := w', toRows := h'\<rparr>)))"

definition windowMsg :: "agent_terminal \<Rightarrow> term_msg" where
  "windowMsg t = TWindowSize (ucast (toCols t)) (ucast (toRows t))"

definition sendInitListenMsg :: "agent_terminal \<Rightarrow> term_msg list" where
  "sendInitListenMsg t = windowMsg t # (if toBuf t = [] then [] else [TStdout (toBuf t)])"

text \<open>What the shell writes goes through a channel to the loop that keeps and publishes it.\<close>

definition startSendLoop :: "agent_terminal \<Rightarrow> agent_terminal" where
  "startSendLoop t =
     (case toStdout t of
        [] \<Rightarrow> t
      | d # ds \<Rightarrow> publishMsg (TStdout d) (setBuf d (t\<lparr>toStdout := ds\<rparr>)))"

definition killAndClose :: "agent_terminal \<Rightarrow> agent_terminal" where
  "killAndClose t = t\<lparr>toKill := True\<rparr>"

text \<open>A subscriber of a terminal that was closed still gets what waits in its channel.\<close>

definition closeTerminal :: "agent_terminal \<Rightarrow> agent_terminal" where
  "closeTerminal t = (if toClosed t then t else t\<lparr>toClosed := True, toDrain := toSubs t, toSubs := (\<lambda>_. None)\<rparr>)"

section \<open>The server\<close>

record term_srv =
  tsTerms :: "agent_terminal list"
  tsMap :: "(string \<times> nat) list"
  tsPending :: "nat list"

definition tsGet :: "string \<Rightarrow> term_srv \<Rightarrow> nat option" where
  "tsGet i s = (if CheckTerminalID i = None then map_of (tsMap s) i else None)"

definition tsDelete :: "string \<Rightarrow> term_srv \<Rightarrow> term_srv" where
  "tsDelete i s = (if CheckTerminalID i = None then s\<lparr>tsMap := AList.delete i (tsMap s)\<rparr> else s)"

definition tsLen :: "term_srv \<Rightarrow> nat" where
  "tsLen s = length (tsMap s)"

definition onTerm :: "nat \<Rightarrow> (agent_terminal \<Rightarrow> agent_terminal) \<Rightarrow> term_srv \<Rightarrow> term_srv" where
  "onTerm n f s = (if n < length (tsTerms s) then s\<lparr>tsTerms := (tsTerms s)[n := f (tsTerms s ! n)]\<rparr> else s)"

text \<open>
  What a new terminal needs of the system: the user, the files and programs it looks for, its size, and
  whether the pseudo-terminal opens and the shell starts. \<open>teSuffix\<close> are the four random letters.
\<close>

record term_env =
  teHasUser :: bool
  teUser :: string
  tePasswd :: "string list option"
  teLookPath :: "string \<Rightarrow> string option"
  tePty :: "err option"
  teSized :: bool
  teGot :: "(u16 \<times> u16) option"
  teStart :: "string \<Rightarrow> err option"
  teName :: string
  teSuffix :: string
  teNow :: time

definition genTerminalID :: "term_env \<Rightarrow> string" where
  "genTerminalID te = teName te @ ''-'' @ teSuffix te"

definition newTerminal :: "term_env \<Rightarrow> u32 \<Rightarrow> u32 \<Rightarrow> err + agent_terminal \<times> string" where
  "newTerminal te cols rows =
     (let t = \<lparr>toId = genTerminalID te, toCreatedAt = teNow te, toCols = 0, toRows = 0, toBuf = [], toStdin = [],
               toStdout = [], toSubs = (\<lambda>_. None), toDrain = (\<lambda>_. None), toKill = False, toExited = False, toClosed = False\<rparr>
      in if \<not> teHasUser te then Inl (Errorf ''Terminal user owner is not available. Please trying again later'')
         else bindS (getShellPath (tePasswd te) (teLookPath te) (teUser te)) (\<lambda>sh.
              bindS (checkS (tePty te)) (\<lambda>_.
              (case setWinSize (teSized te) (teGot te) (ucast cols) (ucast rows) t of
                 (Inl e, _) \<Rightarrow> Inl e
               | (Inr _, t') \<Rightarrow> Inr (t', sh)))))"

text \<open>
  The first part of \<open>CreateTerminal\<close> starts the terminal with its goroutines, the second, which may come
  later, puts it into the map.
\<close>

definition startTerminal :: "term_env \<Rightarrow> u32 \<Rightarrow> u32 \<Rightarrow> (term_srv, nat) io" where
  "startTerminal te cols rows =
     bindE (\<lambda>s. ((if tsLen s > 150 then Inl (InvalidArg ''Too many Terminals'') else Inr ()), s)) (\<lambda>_.
     bindE (liftE (newTerminal te cols rows)) (\<lambda>(t, sh).
     bindE (checkE (teStart te sh)) (\<lambda>_.
     (\<lambda>s. (Inr (length (tsTerms s)),
        s\<lparr>tsTerms := tsTerms s @ [t], tsPending := length (tsTerms s) # tsPending s\<rparr>)))))"

definition putTerminal :: "nat \<Rightarrow> term_srv \<Rightarrow> term_srv" where
  "putTerminal n s = s\<lparr>tsMap := AList.update (toId (tsTerms s ! n)) n (tsMap s), tsPending := removeAll n (tsPending s)\<rparr>"

definition CreateTerminalAg :: "term_env \<Rightarrow> u32 \<Rightarrow> u32 \<Rightarrow> (term_srv, string) io" where
  "CreateTerminalAg te cols rows =
     bindE (startTerminal te cols rows) (\<lambda>n.
     (\<lambda>s. (Inr (toId (tsTerms s ! n)), putTerminal n s)))"

definition RemoveTerminalAg :: "string \<Rightarrow> term_srv \<Rightarrow> term_srv" where
  "RemoveTerminalAg i s = (case tsGet i s of None \<Rightarrow> s | Some n \<Rightarrow> tsDelete i (onTerm n killAndClose s))"

text \<open>The times at which terminals are made differ, so that the order of the list is theirs.\<close>

definition ListTerminalAg :: "term_srv \<Rightarrow> string list" where
  "ListTerminalAg s = map toId (sort_key toCreatedAt (map (\<lambda>(i, n). tsTerms s ! n) (tsMap s)))"

text \<open>Writing waits while the channel of the terminal is full; \<open>None\<close> is a call that waits.\<close>

definition WriteDataTerminalAg :: "string \<Rightarrow> string \<Rightarrow> term_srv \<Rightarrow> ((err + unit) \<times> term_srv) option" where
  "WriteDataTerminalAg i d s =
     (case tsGet i s of
        None \<Rightarrow> Some (Inl (InvalidArg ''Terminal does not exist''), s)
      | Some n \<Rightarrow>
          if d = [] then Some (Inr (), s)
          else if length d > 5000 then Some (Inl (InvalidArg ''Data buffer size is too large''), s)
          else if length (toStdin (tsTerms s ! n)) < chanSize
          then Some (Inr (), onTerm n (\<lambda>t. t\<lparr>toStdin := toStdin t @ [d]\<rparr>) s)
          else None)"

definition SetWindowSizeAg :: "bool \<Rightarrow> (u16 \<times> u16) option \<Rightarrow> string \<Rightarrow> u32 \<Rightarrow> u32 \<Rightarrow> (term_srv, unit) io" where
  "SetWindowSizeAg ok got i cols rows = (\<lambda>s.
     (case tsGet i s of
        None \<Rightarrow> (Inl (InvalidArg (''Terminal does not exist: '' @ i)), s)
      | Some n \<Rightarrow>
          (case setWinSize ok got (ucast cols) (ucast rows) (tsTerms s ! n) of
             (Inl e, _) \<Rightarrow> (Inl e, s)
           | (Inr _, t) \<Rightarrow> (Inr (), onTerm n (\<lambda>_. publishMsg (windowMsg t) t) s))))"

text \<open>\<open>ListenTerminal\<close> sends what is kept, and then subscribes; what is sent, and the number.\<close>

definition listenInit :: "string \<Rightarrow> term_srv \<Rightarrow> err + nat \<times> term_msg list" where
  "listenInit i s =
     (case tsGet i s of
        None \<Rightarrow> Inl (InvalidArg ''Terminal not found'')
      | Some n \<Rightarrow> Inr (n, sendInitListenMsg (tsTerms s ! n)))"

definition listenSubscribe :: "nat \<Rightarrow> string \<Rightarrow> term_srv \<Rightarrow> term_srv" where
  "listenSubscribe n k s = onTerm n (\<lambda>t. t\<lparr>toSubs := subscribeBus k (toSubs t)\<rparr>) s"

text \<open>The goroutine that waits for the shell, or for the end of the terminal.\<close>

definition waitAndClose :: "nat \<Rightarrow> term_srv \<Rightarrow> term_srv" where
  "waitAndClose n s =
     tsDelete (toId (tsTerms s ! n))
       (onTerm n (\<lambda>t. closeTerminal (publishMsg TClose (if toExited t then t else t\<lparr>toExited := True\<rparr>))) s)"

inductive term_step :: "term_srv \<Rightarrow> term_srv \<Rightarrow> bool" where
  start: "startTerminal te cols rows s = (Inr n, s') \<Longrightarrow> term_step s s'"
| put: "n \<in> set (tsPending s) \<Longrightarrow> term_step s (putTerminal n s)"
| remove: "term_step s (RemoveTerminalAg i s)"
| input: "WriteDataTerminalAg i d s = Some (r, s') \<Longrightarrow> term_step s s'"
| resize: "SetWindowSizeAg ok got i cols rows s = (r, s') \<Longrightarrow> term_step s s'"
| subscribe: "n < length (tsTerms s) \<Longrightarrow> term_step s (listenSubscribe n k s)"
| unsubscribe: "term_step s (onTerm n (\<lambda>t. t\<lparr>toSubs := unsubscribeBus k (toSubs t)\<rparr>) s)"
| sent: "n < length (tsTerms s) \<Longrightarrow> receiveBus k (toSubs (tsTerms s ! n)) = Some (msg, b) \<Longrightarrow>
    term_step s (onTerm n (\<lambda>t. t\<lparr>toSubs := b\<rparr>) s)"
| drained: "n < length (tsTerms s) \<Longrightarrow> receiveBus k (toDrain (tsTerms s ! n)) = Some (msg, b) \<Longrightarrow>
    term_step s (onTerm n (\<lambda>t. t\<lparr>toDrain := b\<rparr>) s)"
| typed: "n < length (tsTerms s) \<Longrightarrow> \<not> toClosed (tsTerms s ! n) \<Longrightarrow>
    term_step s (onTerm n (\<lambda>t. t\<lparr>toStdin := tl (toStdin t)\<rparr>) s)"
| printed: "n < length (tsTerms s) \<Longrightarrow> length (toStdout (tsTerms s ! n)) < chanSize \<Longrightarrow> length d \<le> 3072 \<Longrightarrow>
    term_step s (onTerm n (\<lambda>t. t\<lparr>toStdout := toStdout t @ [d]\<rparr>) s)"
| published: "term_step s (onTerm n startSendLoop s)"
| exited: "term_step s (onTerm n (\<lambda>t. t\<lparr>toExited := True\<rparr>) s)"
| closes: "n < length (tsTerms s) \<Longrightarrow> toExited (tsTerms s ! n) \<or> toKill (tsTerms s ! n) \<Longrightarrow> \<not> toClosed (tsTerms s ! n) \<Longrightarrow>
    term_step s (waitAndClose n s)"

definition noTerminals :: term_srv where
  "noTerminals = \<lparr>tsTerms = [], tsMap = [], tsPending = []\<rparr>"

section \<open>Commands of clients\<close>

record exec_req =
  erCommand :: string
  erWorkingDir :: string
  erRunAsRoot :: bool
  erEnvVars :: "task_env_var list"

text \<open>A command of a client runs like a task in the background, in a context of its own.\<close>

definition execTask :: "ws_user \<Rightarrow> string list \<Rightarrow> exec_req \<Rightarrow> string \<Rightarrow> atask" where
  "execTask u env req i =
     (newTask u env
       \<lparr>tkName = i, tkRun = erCommand req, tkType = Task_UNKNOWN, tkEnvVars = erEnvVars req, tkWorkingDir = erWorkingDir req,
        tkIsBackground = False, tkOnFailure = ON_FAILURE_UNSET, tkRunAsRoot = erRunAsRoot req\<rparr>)\<lparr>atBackground := True\<rparr>"

text \<open>The agent has no task manager before it was prepared.\<close>

definition Exec :: "task_env \<Rightarrow> ws_user \<Rightarrow> string list \<Rightarrow> exec_req \<Rightarrow> string \<Rightarrow> task_manager option
    \<Rightarrow> (err + unit) \<times> task_manager option" where
  "Exec xe u env req i m =
     (case m of
        None \<Rightarrow> (Inl (Panic ''nil pointer dereference''), None)
      | Some m \<Rightarrow> (case runTask xe (execTask u env req i) m of (r, m') \<Rightarrow> (r, Some m')))"

definition execClose :: "atask \<Rightarrow> task_manager \<Rightarrow> task_manager" where
  "execClose t m =
     (if t \<in> set (tmRunning m) then m\<lparr>tmLog := tmLog m @ [Killed t], tmRunning := remove1 t (tmRunning m)\<rparr> else m)"

text \<open>When the client goes, its command has ended or is killed.\<close>

lemma execClose_balanced: "balanced m \<Longrightarrow> balanced (execClose t m)"
  by (auto simp: balanced_def execClose_def begun_def over_def)

text \<open>
  A command that does not start, say for a working directory that is not there, is no error of
  \<open>Exec\<close>, and no exit of it is ever reported.
\<close>

lemma exec_silent:
  assumes "xeStart xe (tmLog m) (execTask u env req i) = Some e"
  shows "Exec xe u env req i (Some m) = (Inr (), Some (m\<lparr>tmLog := tmLog m @ [NotBegun (execTask u env req i)]\<rparr>))"
  using assms
  by (simp add: Exec_def runTask_def startErr_def bindE_def tmEmit_def taskFailed_def shouldAbortOnFailure_def retE_def
      execTask_def newTask_def)

section \<open>What is kept of the output\<close>

lemma setBuf_suffix: "toBuf (fold setBuf ds t) = drop (length (toBuf t @ concat ds) - maxSizeTermBuf) (toBuf t @ concat ds)"
  if "length (toBuf t) \<le> maxSizeTermBuf"
  using that
proof (induction ds arbitrary: t)
  case (Cons d ds)
  let ?b = "toBuf t @ d"
  have b: "toBuf (setBuf d t) = drop (length ?b - maxSizeTermBuf) ?b"
    by (auto simp: setBuf_def Let_def)
  let ?k = "length ?b - maxSizeTermBuf"
  have len: "length (toBuf (setBuf d t)) \<le> maxSizeTermBuf" using b by simp
  have 1: "drop ?k ?b @ concat ds = drop ?k (?b @ concat ds)" by simp
  have 2: "length (drop ?k ?b @ concat ds) - maxSizeTermBuf + ?k = length (?b @ concat ds) - maxSizeTermBuf" by auto
  have "toBuf (fold setBuf (d # ds) t) =
      drop (length (drop ?k ?b @ concat ds) - maxSizeTermBuf) (drop ?k ?b @ concat ds)"
    unfolding fold_simps Cons.IH[OF len] b ..
  also have "\<dots> = drop (length (?b @ concat ds) - maxSizeTermBuf) (?b @ concat ds)"
    unfolding 2[symmetric] drop_drop[symmetric] 1 ..
  finally show ?case by (simp only: concat.simps append_assoc)
qed simp

text \<open>
  What a terminal keeps for later listeners is the end of its output, as long as it fits.
\<close>

lemma kept_output:
  "toBuf t = [] \<Longrightarrow> length (concat ds) \<le> maxSizeTermBuf \<Longrightarrow> toBuf (fold setBuf ds t) = concat ds"
  using setBuf_suffix[of t ds] by simp

text \<open>
  A chunk that is published after a listener was sent what was kept, but before it subscribed, does not
  reach it.
\<close>

lemma output_lost:
  assumes "listenInit i s = Inr (n, msgs)" "n < length (tsTerms s)" "\<not> toClosed (tsTerms s ! n)"
  shows "toSubs (tsTerms (listenSubscribe n k (onTerm n startSendLoop s)) ! n) k = Some []
    \<and> msgs = sendInitListenMsg (tsTerms s ! n)"
  using assms by (auto simp: listenInit_def listenSubscribe_def onTerm_def subscribeBus_def split: option.splits)

section \<open>The map of terminals\<close>

text \<open>
  Steps in which identifiers are well-formed and no terminal ends before \<open>CreateTerminal\<close> has put
  it into the map.
\<close>

definition orderly :: "term_srv \<Rightarrow> term_srv \<Rightarrow> bool" where
  "orderly s s' \<longleftrightarrow> term_step s s' \<and> list_all (\<lambda>t. CheckTerminalID (toId t) = None) (tsTerms s')
     \<and> list_all (\<lambda>n. \<not> toClosed (tsTerms s' ! n)) (tsPending s')"

definition mapInv :: "term_srv \<Rightarrow> bool" where
  "mapInv s \<longleftrightarrow> distinct (map fst (tsMap s))
     \<and> list_all (\<lambda>(i, n). n < length (tsTerms s) \<and> toId (tsTerms s ! n) = i \<and> \<not> toClosed (tsTerms s ! n)) (tsMap s)
     \<and> list_all (\<lambda>n. n < length (tsTerms s) \<and> \<not> toClosed (tsTerms s ! n)) (tsPending s)
     \<and> list_all (\<lambda>t. CheckTerminalID (toId t) = None) (tsTerms s)"

lemma closing_simps [simp]:
  "toId (closeTerminal t) = toId t" "toClosed (closeTerminal t)" "toId (publishMsg m t) = toId t" "toClosed (publishMsg m t) = toClosed t"
  "toId (setBuf d t) = toId t" "toClosed (setBuf d t) = toClosed t"
  by (simp_all add: closeTerminal_def publishMsg_def setBuf_def Let_def)

text \<open>What keeps the identifier and does not close keeps the invariant.\<close>

lemma mapInv_onTerm:
  "mapInv s \<Longrightarrow> toId (f (tsTerms s ! n)) = toId (tsTerms s ! n) \<and> toClosed (f (tsTerms s ! n)) = toClosed (tsTerms s ! n)
   \<Longrightarrow> mapInv (onTerm n f s)"
  by (auto simp: mapInv_def onTerm_def list_all_length nth_list_update split: prod.splits)

lemma mapInv_delete: "mapInv s \<Longrightarrow> mapInv (tsDelete i s)"
  by (auto simp: mapInv_def tsDelete_def list_all_iff AList.delete_eq distinct_map_filter)

lemma mapInv_put:
  assumes "mapInv s" "n \<in> set (tsPending s)"
  shows "mapInv (putTerminal n s)"
proof -
  have n: "n < length (tsTerms s)" "\<not> toClosed (tsTerms s ! n)" using assms by (auto simp: mapInv_def list_all_iff)
  have sub: "set (AList.update i n m) \<subseteq> insert (i, n) (set m)" for i m by (induction m) auto
  have "distinct (map fst (AList.update (toId (tsTerms s ! n)) n (tsMap s)))"
    using assms(1) by (intro distinct_update) (simp add: mapInv_def)
  moreover have "list_all (\<lambda>(i, n). n < length (tsTerms s) \<and> toId (tsTerms s ! n) = i \<and> \<not> toClosed (tsTerms s ! n))
      (AList.update (toId (tsTerms s ! n)) n (tsMap s))"
    using assms(1) n sub[of "toId (tsTerms s ! n)" "tsMap s"] by (auto simp: mapInv_def list_all_iff)
  ultimately show ?thesis using assms(1) by (auto simp: mapInv_def putTerminal_def list_all_iff)
qed

text \<open>A terminal that closes leaves the map with it.\<close>

lemma mapInv_close:
  assumes "mapInv s" "n < length (tsTerms s)" "n \<notin> set (tsPending s)"
  shows "mapInv (waitAndClose n s)"
proof -
  let ?f = "\<lambda>t. closeTerminal (publishMsg TClose (if toExited t then t else t\<lparr>toExited := True\<rparr>))"
  have id: "toId (?f t) = toId t" for t by simp
  have "CheckTerminalID (toId (tsTerms s ! n)) = None" using assms(1,2) by (simp add: mapInv_def list_all_length)
  then have w: "tsTerms (waitAndClose n s) = (tsTerms s)[n := ?f (tsTerms s ! n)]"
      "tsMap (waitAndClose n s) = AList.delete (toId (tsTerms s ! n)) (tsMap s)"
      "tsPending (waitAndClose n s) = tsPending s"
    using assms(2) by (simp_all add: waitAndClose_def onTerm_def tsDelete_def)
  have other: "m \<noteq> n" if "(i, m) \<in> set (AList.delete (toId (tsTerms s ! n)) (tsMap s))" for i m
    using that assms(1) by (auto simp: mapInv_def AList.delete_eq list_all_iff)
  show ?thesis
    unfolding w mapInv_def
  proof (intro conjI)
    show "distinct (map fst (AList.delete (toId (tsTerms s ! n)) (tsMap s)))"
      using assms(1) by (simp add: mapInv_def AList.delete_eq distinct_map_filter)
    show "list_all (\<lambda>(i, m). m < length ((tsTerms s)[n := ?f (tsTerms s ! n)]) \<and> toId ((tsTerms s)[n := ?f (tsTerms s ! n)] ! m) = i
        \<and> \<not> toClosed ((tsTerms s)[n := ?f (tsTerms s ! n)] ! m)) (AList.delete (toId (tsTerms s ! n)) (tsMap s))"
      using assms(1) other by (fastforce simp: mapInv_def list_all_iff AList.delete_eq)
    show "list_all (\<lambda>m. m < length ((tsTerms s)[n := ?f (tsTerms s ! n)]) \<and> \<not> toClosed ((tsTerms s)[n := ?f (tsTerms s ! n)] ! m)) (tsPending s)"
      using assms by (auto simp: mapInv_def list_all_iff nth_list_update)
    show "list_all (\<lambda>t. CheckTerminalID (toId t) = None) ((tsTerms s)[n := ?f (tsTerms s ! n)])"
      using assms(1,2) by (auto simp: mapInv_def list_all_length nth_list_update id)
  qed
qed

lemma mapInv_start:
  assumes "mapInv s" "startTerminal te cols rows s = (Inr n, s')" "list_all (\<lambda>t. CheckTerminalID (toId t) = None) (tsTerms s')"
  shows "mapInv s'"
proof -
  obtain t sh where t: "newTerminal te cols rows = Inr (t, sh)"
    and s': "s' = s\<lparr>tsTerms := tsTerms s @ [t], tsPending := length (tsTerms s) # tsPending s\<rparr>"
    using assms(2) by (auto simp: startTerminal_def io_simps split: prod.splits if_splits)
  have "\<not> toClosed t"
    using t by (auto simp: newTerminal_def Let_def setWinSize_def io_simps split: if_splits prod.splits sum.splits option.splits)
  then show ?thesis
    using assms(1,3) by (auto simp: mapInv_def s' nth_append list_all_iff)
qed

lemma mapInv_step:
  assumes "orderly s s'" "mapInv s"
  shows "mapInv s'"
  using assms(1)[unfolded orderly_def, THEN conjunct1]
proof (cases rule: term_step.cases)
  case (start te cols rows n)
  then show ?thesis using mapInv_start assms by (auto simp: orderly_def)
next
  case (put n)
  then show ?thesis using mapInv_put assms by simp
next
  case (remove i)
  then show ?thesis
    using assms(2) by (auto simp: RemoveTerminalAg_def killAndClose_def intro!: mapInv_delete mapInv_onTerm split: option.splits)
next
  case (input i d r)
  then show ?thesis
    using assms(2) by (auto simp: WriteDataTerminalAg_def intro!: mapInv_onTerm split: option.splits if_splits)
next
  case (resize ok got i cols rows r)
  have size: "toId t' = toId t \<and> toClosed t' = toClosed t" if "setWinSize ok got w h t = (Inr (), t')" for w h t t'
    using that by (auto simp: setWinSize_def split: if_splits option.splits)
  from resize assms(2) show ?thesis
    by (auto simp: SetWindowSizeAg_def size intro!: mapInv_onTerm split: option.splits prod.splits sum.splits)
next
  case (closes n)
  have "tsPending s' = tsPending s" "toClosed (tsTerms s' ! n)"
    using closes by (auto simp: waitAndClose_def onTerm_def tsDelete_def)
  then have "n \<notin> set (tsPending s)" using assms(1) by (auto simp: orderly_def list_all_iff)
  then show ?thesis using mapInv_close[OF assms(2)] closes by simp
next
  case (subscribe n k)
  then show ?thesis using assms(2) by (auto simp: listenSubscribe_def intro!: mapInv_onTerm)
next
  case (published n)
  then show ?thesis
    using assms(2) by (auto simp: startSendLoop_def intro!: mapInv_onTerm split: list.splits)
qed (use assms(2) in \<open>auto intro!: mapInv_onTerm\<close>)

interpretation terms: step_invariant "\<lambda>s. s = noTerminals" orderly mapInv
proof
  show "mapInv s" if "s = noTerminals" for s using that by (simp add: mapInv_def noTerminals_def)
qed (rule mapInv_step)

text \<open>
  What the map of terminals holds, as long as no terminal ends before \<open>CreateTerminal\<close> has put it there: every
  identifier leads to one terminal, which has this identifier and is not closed.
\<close>

theorem terminals_live:
  assumes "orderly\<^sup>*\<^sup>* noTerminals s"
  shows "distinct (map fst (tsMap s))
    \<and> (tsGet i s = Some n \<longrightarrow> n < length (tsTerms s) \<and> toId (tsTerms s ! n) = i \<and> \<not> toClosed (tsTerms s ! n))"
proof -
  have "mapInv s" by (rule terms.reachable_inv[OF refl assms])
  then show ?thesis
    by (auto simp: mapInv_def tsGet_def list_all_iff dest!: map_of_SomeD split: if_splits)
qed

text \<open>
  A shell that ends at once closes its terminal before \<open>CreateTerminal\<close> puts it into the map: the dead
  terminal stays there, and counts, until it is removed.
\<close>

lemma dead_terminal_stays:
  assumes "startTerminal te cols rows noTerminals = (Inr n, s)" "CheckTerminalID (genTerminalID te) = None"
  shows "\<exists>s'. term_step\<^sup>*\<^sup>* s s' \<and> tsGet (genTerminalID te) s' = Some n \<and> toClosed (tsTerms s' ! n) \<and> tsLen s' = 1"
proof -
  obtain t sh where t: "newTerminal te cols rows = Inr (t, sh)"
    and s: "s = \<lparr>tsTerms = [t], tsMap = [], tsPending = [0]\<rparr>" and n: "n = 0"
    using assms(1) by (auto simp: startTerminal_def noTerminals_def io_simps split: prod.splits if_splits)
  have tid: "toId t = genTerminalID te" and live: "\<not> toClosed t"
    using t by (auto simp: newTerminal_def Let_def setWinSize_def io_simps split: if_splits prod.splits sum.splits option.splits)
  let ?a = "onTerm 0 (\<lambda>t. t\<lparr>toExited := True\<rparr>) s"
  let ?b = "waitAndClose 0 ?a"
  let ?c = "putTerminal 0 ?b"
  have "term_step s ?a" by (rule term_step.exited)
  moreover have "term_step ?a ?b" by (rule term_step.closes) (simp_all add: s onTerm_def live)
  moreover have "term_step ?b ?c"
    by (rule term_step.put) (simp add: s onTerm_def waitAndClose_def tsDelete_def)
  ultimately have "term_step\<^sup>*\<^sup>* s ?c"
    by (meson rtranclp.rtrancl_into_rtrancl rtranclp.rtrancl_refl)
  moreover have "tsGet (genTerminalID te) ?c = Some n" "toClosed (tsTerms ?c ! n)" "tsLen ?c = 1"
    using assms(2) tid by (simp_all add: s n onTerm_def waitAndClose_def tsDelete_def putTerminal_def tsGet_def tsLen_def)
  ultimately show ?thesis by blast
qed

end
