(* ===== verification/Agent_Setup.thy ===== *)
theory Agent_Setup
  imports Agent_Task
begin

text \<open>
  What the agent sets up before the tasks run: the user of the Workspace and its files (\<open>setUser\<close>, \<open>setCmdAsUser\<close>,
  \<open>getDevContainerJSONPath\<close> of \<open>cluster/workspace/workspace/server.go\<close>), the dotfiles (\<open>dotfiles.go\<close>) and the tasks of a
  devcontainer and its features (\<open>devcontainers.go\<close>).
\<close>

section \<open>The user\<close>

text \<open>\<open>strconv.Atoi\<close> on a 64-bit machine.\<close>

definition digitsValue :: "string \<Rightarrow> int" where
  "digitsValue ds = foldl (\<lambda>n c. 10 * n + (of_char c - 48)) 0 ds"

definition strconvAtoi :: "string \<Rightarrow> err + int" where
  "strconvAtoi s =
     (let (sign, ds) = (case s of [] \<Rightarrow> (1, []) | c # cs \<Rightarrow>
        if c = CHR ''-'' then (-1, cs) else if c = CHR ''+'' then (1, cs) else (1, s));
        n = sign * digitsValue ds
      in if ds = [] \<or> \<not> list_all (\<lambda>c. (48 :: nat) \<le> of_char c \<and> of_char c \<le> (57 :: nat)) ds
            \<or> n < - (2 ^ 63) \<or> n \<ge> 2 ^ 63
         then Inl (Errorf ''strconv.Atoi'') else Inr n)"

definition itoa :: "int \<Rightarrow> string" where
  "itoa n = (if n < 0 then ''-'' @ showNat (nat (- n)) else showNat (nat n))"

record os_user =
  ouUsername :: string
  ouUid :: string
  ouGid :: string
  ouHomeDir :: string

record agent_user =
  uiName :: string
  uiUid :: int
  uiGid :: int
  uiHomeDir :: string
  uiGroup :: string

text \<open>The operating system: its users, groups, programs and files, and the commands and file operations on it.\<close>

record 'w os_env =
  oeLookup :: "'w \<Rightarrow> string \<Rightarrow> os_user option"
  oeLookupId :: "'w \<Rightarrow> string \<Rightarrow> os_user option"
  oeLookupGroupId :: "'w \<Rightarrow> string \<Rightarrow> string option"
  oeLookPath :: "'w \<Rightarrow> string \<Rightarrow> string option"
  oeExists :: "'w \<Rightarrow> string \<Rightarrow> bool"
  oeRun :: "string \<Rightarrow> ('w, unit) io"
  oeChown :: "string \<Rightarrow> int \<Rightarrow> int \<Rightarrow> ('w, unit) io"
  oeChmod :: "string \<Rightarrow> nat \<Rightarrow> ('w, unit) io"
  oeMkdirAll :: "string \<Rightarrow> nat \<Rightarrow> ('w, unit) io"
  oeWriteFile :: "string \<Rightarrow> string \<Rightarrow> nat \<Rightarrow> ('w, unit) io"

definition fileMode :: "nat \<Rightarrow> nat \<Rightarrow> nat \<Rightarrow> nat" where
  "fileMode a b c = 64 * a + 8 * b + c"

definition setShell :: "'w os_env \<Rightarrow> 'w \<Rightarrow> err + string" where
  "setShell oe w =
     (case List.map_filter (oeLookPath oe w) [''bash'', ''sh'', ''zsh''] of
        [] \<Rightarrow> Inl (Errorf ''Could not find shell path'')
      | p # _ \<Rightarrow> Inr p)"

definition doSetUserInfo :: "'w os_env \<Rightarrow> os_user \<Rightarrow> 'w \<Rightarrow> err + agent_user" where
  "doSetUserInfo oe usr w =
     bindS (strconvAtoi (ouUid usr)) (\<lambda>uid.
     bindS (strconvAtoi (ouGid usr)) (\<lambda>gid.
     (case oeLookupGroupId oe w (itoa gid) of
        None \<Rightarrow> Inl (Errorf ''group: unknown groupid'')
      | Some g \<Rightarrow> Inr \<lparr>uiName = ouUsername usr, uiUid = uid, uiGid = gid, uiHomeDir = ouHomeDir usr, uiGroup = g\<rparr>)))"

text \<open>The first user there is: the override, which is empty, the one named octelium, the one with the id 1000.\<close>

definition existingUser :: "'w os_env \<Rightarrow> 'w \<Rightarrow> os_user option" where
  "existingUser oe w =
     (case oeLookup oe w [] of
        Some u \<Rightarrow> Some u
      | None \<Rightarrow> (case oeLookup oe w ''octelium'' of Some u \<Rightarrow> Some u | None \<Rightarrow> oeLookupId oe w ''1000''))"

definition createUserCmds :: "'w os_env \<Rightarrow> string \<Rightarrow> 'w \<Rightarrow> err + string list" where
  "createUserCmds oe shell w =
     (if oeLookPath oe w ''useradd'' \<noteq> None then
        Inr [''groupadd octelium --gid 1000'', ''useradd octelium -g octelium -m -s '' @ shell @ '' --uid 1000'']
      else if oeLookPath oe w ''adduser'' \<noteq> None then
        Inr [''addgroup -g 1000 octelium'', ''adduser -G octelium -D -h /home/octelium -s '' @ shell @ '' -u 1000 octelium'']
      else Inl (Errorf ''Cannot find either useradd or adduser commands. Cannot create octelium user''))"

definition createUser :: "'w os_env \<Rightarrow> string \<Rightarrow> ('w, os_user) io" where
  "createUser oe shell =
     bindE (readE (createUserCmds oe shell)) (\<lambda>cmds.
     bindE (forE cmds (oeRun oe)) (\<lambda>_.
     readE (\<lambda>w. case oeLookup oe w ''octelium'' of None \<Rightarrow> Inl (Errorf ''user: unknown user octelium'') | Some u \<Rightarrow> Inr u)))"

definition setSocketPermissions :: "'w os_env \<Rightarrow> string \<Rightarrow> agent_user \<Rightarrow> ('w, unit) io" where
  "setSocketPermissions oe socketPath u =
     (if socketPath = [] then retE ()
      else bindE (tryE (oeChown oe socketPath (-1) (uiGid u))) (\<lambda>r.
        case r of Inl _ \<Rightarrow> oeChmod oe socketPath (fileMode 7 7 7) | Inr _ \<Rightarrow> oeChmod oe socketPath (fileMode 6 6 0)))"

definition setWorkloadSocketOwnership :: "'w os_env \<Rightarrow> agent_user \<Rightarrow> ('w, unit) io" where
  "setWorkloadSocketOwnership oe u =
     forE [''/var/run/octelium-proxy.sock'', ''/var/run/octelium-ssh-agent.sock''] (\<lambda>p.
       bindE (readE (\<lambda>w. Inr (oeExists oe w p))) (\<lambda>ex.
       if \<not> ex then retE ()
       else bindE (tryE (oeChown oe p (uiUid u) (uiGid u))) (\<lambda>r.
         case r of
           Inl _ \<Rightarrow> bindE (tryE (oeChmod oe p (fileMode 6 6 6))) (\<lambda>_. retE ())
         | Inr _ \<Rightarrow> bindE (tryE (oeChmod oe p (fileMode 6 0 0))) (\<lambda>_. retE ()))))"

definition setSudoersFile :: "'w os_env \<Rightarrow> string \<Rightarrow> ('w, unit) io" where
  "setSudoersFile oe username =
     (let dir = ''/etc/sudoers.d''; path = pathJoin dir username in
      bindE (readE (\<lambda>w. Inr (oeExists oe w dir))) (\<lambda>dirEx.
      bindE (if dirEx then retE () else oeMkdirAll oe dir (fileMode 7 5 5)) (\<lambda>_.
      bindE (readE (\<lambda>w. Inr (oeExists oe w path))) (\<lambda>ex.
      if ex then retE ()
      else oeWriteFile oe path (username @ '' ALL=(ALL) NOPASSWD: ALL'' @ [CHR 0x0A]) (fileMode 4 4 0)))))"

text \<open>An error of the command is only logged.\<close>

definition chownDirToUser :: "'w os_env \<Rightarrow> agent_user \<Rightarrow> string \<Rightarrow> ('w, unit) io" where
  "chownDirToUser oe u dir =
     bindE (tryE (oeRun oe (''chown -R '' @ uiName u @ '':'' @ uiGroup u @ '' '' @ dir))) (\<lambda>_. retE ())"

definition setUser :: "'w os_env \<Rightarrow> string \<Rightarrow> string \<Rightarrow> bool \<Rightarrow> ('w, agent_user) io" where
  "setUser oe shell socketPath fresh =
     bindE (readE (\<lambda>w. Inr (existingUser oe w))) (\<lambda>found.
     bindE (case found of Some usr \<Rightarrow> retE usr | None \<Rightarrow> createUser oe shell) (\<lambda>usr.
     bindE (readE (doSetUserInfo oe usr)) (\<lambda>u.
     bindE (tryE (setSocketPermissions oe socketPath u)) (\<lambda>_.
     bindE (setWorkloadSocketOwnership oe u) (\<lambda>_.
     bindE (if fresh then bindE (tryE (setSudoersFile oe (uiName u))) (\<lambda>_. retE ()) else retE ()) (\<lambda>_.
     bindE (readE (\<lambda>w. Inr (fresh \<and> oeExists oe w ''/workspace''))) (\<lambda>own.
     bindE (if own then bindE (tryE (chownDirToUser oe u ''/workspace'')) (\<lambda>_. retE ()) else retE ()) (\<lambda>_.
     retE u))))))))"

text \<open>The environment of a command that runs as the user.\<close>

definition setCmdAsUser :: "string list option \<Rightarrow> string list \<Rightarrow> agent_user \<Rightarrow> string list" where
  "setCmdAsUser env osEnviron u =
     setEnv (setEnv (case env of None \<Rightarrow> osEnviron | Some e \<Rightarrow> e) ''HOME'' (uiHomeDir u)) ''USERNAME'' (uiName u)"

section \<open>Dotfiles\<close>

definition wantsDotfiles :: "prep_req \<Rightarrow> workspace \<Rightarrow> dotfiles option" where
  "wantsDotfiles rq ws =
     (if stIsBuild (wsStatus ws) then None
      else if pqSource rq = SOURCE_EXISTING \<or> pqSource rq = SOURCE_WORKSPACE_SNAPSHOT then None
      else if \<not> spIsEphemeral (wsSpec ws) \<and> stSuccessfulRuns (wsStatus ws) > 0 then None
      else (case Option.bind (pqUserConfig rq) ucDotfiles of
         None \<Rightarrow> None
       | Some d \<Rightarrow> if dfUrl d = [] then None else Some d))"

text \<open>
  The repository of the dotfiles, with the User's Secrets as its Secrets; without a list of
  them, reading it panics.
\<close>

definition dotfilesRepo :: "prep_req \<Rightarrow> dotfiles \<Rightarrow> err + repository \<times> (string \<times> string) list option" where
  "dotfilesRepo rq d =
     (let repo = \<lparr>repoUrl = dfUrl d,
            repoCloneOptions = (if dfBranch d = [] then None else Some \<lparr>coBranch = dfBranch d, coCheckout = []\<rparr>),
            repoAuthentication = None\<rparr>
      in (case dfAuthentication d of
            None \<Rightarrow> Inr (repo, None)
          | Some a \<Rightarrow>
              (case pqUserSecrets rq of
                 None \<Rightarrow> Inl (Panic ''nil pointer dereference'')
               | Some secs \<Rightarrow>
                   Inr (repo\<lparr>repoAuthentication := Some
                       (case a of
                          AuthHttp h \<Rightarrow>
                            (case haPassword h of
                               None \<Rightarrow> AuthUnset
                             | Some pw \<Rightarrow> AuthHttp \<lparr>haUsername = haUsername h,
                                 haPassword = Some (PwFromSecret (case pw of PwFromSecret n \<Rightarrow> n | PwUnset \<Rightarrow> []))\<rparr>)
                        | AuthUnset \<Rightarrow> AuthUnset)\<rparr>,
                     Some (map (\<lambda>sec. (mdName (usMetadata sec), UserSecret_GetValueStr sec)) secs)))))"

definition installFiles :: "string list" where
  "installFiles = [''install.sh'', ''install'', ''bootstrap.sh'', ''bootstrap'', ''script/bootstrap'', ''setup.sh'', ''setup'', ''script/setup'']"

text \<open>The first of them that is a file its owner may execute: \<open>stat\<close> tells whether it is a directory, and its mode.\<close>

definition installFilePath :: "(string \<Rightarrow> (bool \<times> nat) option) \<Rightarrow> string \<Rightarrow> string option" where
  "installFilePath stat dir =
     find (\<lambda>p. case stat p of None \<Rightarrow> False | Some (isDir, m) \<Rightarrow> \<not> isDir \<and> m div 64 mod 2 = 1)
       (map (pathJoin dir) installFiles)"

definition setupDotFiles ::
  "'w os_env \<Rightarrow> (string \<Rightarrow> repository \<Rightarrow> (string \<times> string) list option \<Rightarrow> ('w, unit) io) \<Rightarrow> ('w \<Rightarrow> string \<Rightarrow> (bool \<times> nat) option)
    \<Rightarrow> (string \<Rightarrow> ('w, unit) io) \<Rightarrow> prep_req \<Rightarrow> workspace \<Rightarrow> agent_user \<Rightarrow> ('w, unit) io" where
  "setupDotFiles oe clone stat runAsUser rq ws u =
     (case wantsDotfiles rq ws of
        None \<Rightarrow> retE ()
      | Some d \<Rightarrow>
          (let dir = pathJoin (uiHomeDir u) ''dotfiles'' in
           bindE (liftE (dotfilesRepo rq d)) (\<lambda>(repo, secs).
           bindE (clone dir repo secs) (\<lambda>_.
           bindE (chownDirToUser oe u dir) (\<lambda>_.
           bindE (readE (\<lambda>w. Inr (installFilePath (stat w) dir))) (\<lambda>p.
           case p of None \<Rightarrow> retE () | Some path \<Rightarrow> runAsUser path))))))"

section \<open>Devcontainers\<close>

definition getDevContainerJSONPath :: "(string \<Rightarrow> bool) \<Rightarrow> ws_spec \<Rightarrow> string \<Rightarrow> string" where
  "getDevContainerJSONPath exist spec repoDir =
     (if \<not> exist repoDir then []
      else if spRepository spec = None then []
      else
        (let byDefault =
           (if exist (pathJoin repoDir ''.devcontainer/devcontainer.json'') then pathJoin repoDir ''.devcontainer/devcontainer.json''
            else if exist (pathJoin repoDir ''.devcontainer.json'') then pathJoin repoDir ''.devcontainer.json''
            else [])
         in (case spImage spec of
               None \<Rightarrow> byDefault
             | Some ImgUnset \<Rightarrow> byDefault
             | Some (ImgRepository (RiDevcontainer d)) \<Rightarrow>
                 (let p = pathJoin repoDir d in
                  if \<not> exist p then byDefault
                  else if p = repoDir then pathJoin repoDir ''.devcontainer.json''
                  else pathJoin p ''devcontainer.json'')
             | Some _ \<Rightarrow> [])))"

record dc_hooks =
  dhContainerEnv :: "(string \<times> string) list"
  dhOnCreate :: "string list option"
  dhUpdateContent :: "string list option"
  dhPostCreate :: "string list option"
  dhPostStart :: "string list option"
  dhCodeExtensions :: "string list"
  dhExtensions :: "string list"

definition dcTask :: "string \<Rightarrow> task_type \<Rightarrow> string \<Rightarrow> string \<Rightarrow> task" where
  "dcTask n ty repoDir cmd = \<lparr>tkName = n, tkRun = cmd, tkType = ty, tkEnvVars = [], tkWorkingDir = repoDir,
     tkIsBackground = False, tkOnFailure = ON_FAILURE_UNSET, tkRunAsRoot = False\<rparr>"

definition hookTasks :: "bool \<Rightarrow> string \<Rightarrow> task_type \<Rightarrow> string \<Rightarrow> string list option \<Rightarrow> task list" where
  "hookTasks cond n ty repoDir cmds = (if cond then (case cmds of None \<Rightarrow> [] | Some cs \<Rightarrow> map (dcTask n ty repoDir) cs) else [])"

definition getCodeBinary :: "(string \<Rightarrow> string option) \<Rightarrow> string option" where
  "getCodeBinary lookPath = find (\<lambda>c. lookPath c \<noteq> None) [''code'', ''code-server'', ''openvscode-server'']"

text \<open>The command that installs an extension of the editor as the user; its error is only logged.\<close>

definition installVSCodExtension :: "(string \<Rightarrow> string option) \<Rightarrow> string \<Rightarrow> string list" where
  "installVSCodExtension lookPath ext =
     (case getCodeBinary lookPath of None \<Rightarrow> [] | Some c \<Rightarrow> [c @ '' --install-extension '' @ ext])"

text \<open>
  The environment, to which the variables of the container are added first, the tasks, and the commands that run. There
  is no devcontainer when the Workspace has no file of one, or when nothing was requested yet.
\<close>

definition setDevContainer ::
  "(string \<Rightarrow> string option) \<Rightarrow> bool \<Rightarrow> string \<Rightarrow> dc_hooks option \<Rightarrow> string list \<Rightarrow> string list \<times> task list \<times> string list" where
  "setDevContainer lookPath fresh repoDir spec env =
     (case spec of None \<Rightarrow> (env, [], []) | Some dc \<Rightarrow>
     (foldl (\<lambda>es (k, v). setEnv es k v) env (dhContainerEnv dc),
      hookTasks fresh ''devcontainers-on-create-cmd'' Task_ON_CREATE repoDir (dhOnCreate dc)
      @ hookTasks fresh ''devcontainers-on-update-content-cmd'' Task_ON_CREATE repoDir (dhUpdateContent dc)
      @ hookTasks fresh ''devcontainers-post-create-cmd'' Task_ON_CREATE repoDir (dhPostCreate dc)
      @ hookTasks True ''devcontainers-post-start-cmd'' Task_POST_START repoDir (dhPostStart dc),
      concat (map (installVSCodExtension lookPath) (dhCodeExtensions dc @ dhExtensions dc))))"

text \<open>The options of a feature, as they come from JSON: a number is none of the cases.\<close>

datatype dc_value = DcString string | DcInt int | DcBool bool | DcOther

definition getFeatureVariableMap :: "(string \<times> dc_value) list \<Rightarrow> (string \<times> string) list" where
  "getFeatureVariableMap vs =
     List.map_filter (\<lambda>(k, v). case v of
        DcString x \<Rightarrow> Some (k, x)
      | DcInt n \<Rightarrow> Some (k, itoa n)
      | DcBool b \<Rightarrow> Some (k, if b then ''true'' else ''false'')
      | DcOther \<Rightarrow> None) vs"

record dc_feature =
  ftName :: string
  ftPath :: string
  ftOptions :: "(string \<times> dc_value) list"
  ftContainerEnv :: "(string \<times> string) list"
  ftEntryPoint :: string
  ftCodeExtensions :: "string list"

definition charUpper :: "char \<Rightarrow> char" where
  "charUpper c = (let n = of_char c :: nat in if 97 \<le> n \<and> n \<le> 122 then char_of (n - 32) else c)"

definition featureEnv :: "agent_user \<Rightarrow> dc_feature \<Rightarrow> task_env_var list" where
  "featureEnv u ft =
     [\<lparr>teKey = ''_REMOTE_USER'', teValue = uiName u\<rparr>, \<lparr>teKey = ''_REMOTE_USER_HOME'', teValue = uiHomeDir u\<rparr>]
     @ map (\<lambda>(k, v). \<lparr>teKey = map charUpper k, teValue = v\<rparr>)
         (filter (\<lambda>(k, v). k \<noteq> [] \<and> v \<noteq> []) (getFeatureVariableMap (ftOptions ft)))"

definition installTasks :: "bool \<Rightarrow> agent_user \<Rightarrow> dc_feature \<Rightarrow> task list" where
  "installTasks fresh u ft =
     (if fresh then [(dcTask (''devcontainer-feature-install-'' @ ftName ft) Task_ON_CREATE (ftPath ft) (pathJoin (ftPath ft) ''install.sh''))
        \<lparr>tkRunAsRoot := True, tkEnvVars := featureEnv u ft\<rparr>] else [])"

definition entryPointTasks :: "bool \<Rightarrow> agent_user \<Rightarrow> dc_feature \<Rightarrow> task list" where
  "entryPointTasks isBuild u ft =
     (if \<not> isBuild \<and> ftEntryPoint ft \<noteq> []
      then [(dcTask (''devcontainer-feature-entrypoint-'' @ ftName ft) Task_POST_START (ftPath ft) (ftEntryPoint ft))
          \<lparr>tkEnvVars := take 2 (featureEnv u ft)\<rparr>] else [])"

text \<open>
  A task keeps the environment there was when it was added: a feature is installed without its own variables, and its
  entry point runs with them.
\<close>

definition addFeature ::
  "(string \<Rightarrow> string option) \<Rightarrow> bool \<Rightarrow> bool \<Rightarrow> agent_user \<Rightarrow> string list \<times> (string list \<times> task) list \<times> string list \<Rightarrow> dc_feature
    \<Rightarrow> string list \<times> (string list \<times> task) list \<times> string list" where
  "addFeature lookPath fresh isBuild u st ft =
     (case st of (env, tasks, cmds) \<Rightarrow>
        let env' = foldl (\<lambda>es (k, v). setEnv es k v) env (ftContainerEnv ft)
        in (env', tasks @ map (Pair env) (installTasks fresh u ft) @ map (Pair env') (entryPointTasks isBuild u ft),
            cmds @ (if fresh then concat (map (installVSCodExtension lookPath) (ftCodeExtensions ft)) else [])))"

definition featuresPath :: string where
  "featuresPath = ''/workspace/.octelium/devcontainers/features''"

text \<open>\<open>download\<close> fetches the features of a fresh run, \<open>readSorted\<close> reads what is there in the order of the dependencies.\<close>

definition setupDevContainersFeatures ::
  "'w os_env \<Rightarrow> ('w, unit) io \<Rightarrow> (string list \<Rightarrow> 'w \<Rightarrow> err + dc_feature list) \<Rightarrow> bool \<Rightarrow> bool \<Rightarrow> agent_user \<Rightarrow> string list
    \<Rightarrow> ('w, string list \<times> (string list \<times> task) list \<times> string list) io" where
  "setupDevContainersFeatures oe download readSorted fresh isBuild u env =
     bindE (if \<not> fresh then retE ()
            else bindE download (\<lambda>_.
                 bindE (readE (\<lambda>w. Inr (oeExists oe w featuresPath))) (\<lambda>ex.
                 if ex then chownDirToUser oe u featuresPath else retE ()))) (\<lambda>_.
     bindE (readE (\<lambda>w. Inr (oeExists oe w featuresPath))) (\<lambda>ex.
     if \<not> ex then retE (env, [], [])
     else bindE (readE (readSorted env)) (\<lambda>fts.
          readE (\<lambda>w. Inr (foldl (addFeature (oeLookPath oe w) fresh isBuild u) (env, [], []) fts)))))"

section \<open>What is set up\<close>

text \<open>
  The user of a Workspace is the first one there is; nothing is created for it, and where there is none the user that
  the commands created is taken.
\<close>

lemma setUser_user:
  assumes "setUser oe shell sock fresh w = (Inr u, w')"
  shows "\<exists>usr w1. doSetUserInfo oe usr w1 = Inr u
    \<and> (case existingUser oe w of Some x \<Rightarrow> usr = x \<and> w1 = w
        | None \<Rightarrow> createUser oe shell w = (Inr usr, w1) \<and> oeLookup oe w1 ''octelium'' = Some usr)"
proof -
  obtain usr w1 where usr: "(case existingUser oe w of Some x \<Rightarrow> retE x | None \<Rightarrow> createUser oe shell) w = (Inr usr, w1)"
    and u: "doSetUserInfo oe usr w1 = Inr u"
    using assms by (auto simp: setUser_def io_simps)
  show ?thesis
  proof (cases "existingUser oe w")
    case None
    then have c: "createUser oe shell w = (Inr usr, w1)" using usr by simp
    then have "oeLookup oe w1 ''octelium'' = Some usr" by (auto simp: createUser_def io_simps split: option.splits)
    with None c u show ?thesis by auto
  next
    case (Some x)
    then show ?thesis using usr u by (auto simp: retE_def)
  qed
qed

text \<open>A command of the user runs under its home and name, whatever the Workspace sets.\<close>

lemma setCmdAsUser_home:
  assumes "envDistinct e"
  shows "envValue (setCmdAsUser (Some e) osEnviron u) ''HOME'' = Some (uiHomeDir u)"
    "envValue (setCmdAsUser (Some e) osEnviron u) ''USERNAME'' = Some (uiName u)"
proof -
  have plain: "plainKey ''HOME''" "plainKey ''USERNAME''" by (simp_all add: plainKey_def)
  let ?e = "setEnv e ''HOME'' (uiHomeDir u)"
  note h = setEnv_map[OF plain(1) assms, of "uiHomeDir u"]
  note n = setEnv_map[OF plain(2) h(2), of "uiName u"]
  show "envValue (setCmdAsUser (Some e) osEnviron u) ''HOME'' = Some (uiHomeDir u)"
    "envValue (setCmdAsUser (Some e) osEnviron u) ''USERNAME'' = Some (uiName u)"
    using h n plain by (simp_all add: setCmdAsUser_def envValue_distinct)
qed

text \<open>Dotfiles are set up only for the first use of a storage, and never in a build.\<close>

lemma dotfiles_once:
  "wantsDotfiles rq ws = Some d \<Longrightarrow> dfUrl d \<noteq> [] \<and> \<not> stIsBuild (wsStatus ws)
    \<and> pqSource rq \<notin> {SOURCE_EXISTING, SOURCE_WORKSPACE_SNAPSHOT}
    \<and> (spIsEphemeral (wsSpec ws) \<or> stSuccessfulRuns (wsStatus ws) = 0)"
  by (auto simp: wantsDotfiles_def word_gt_0 split: if_splits option.splits)

text \<open>
  Dotfiles with authentication end the agent when the request has no list of the User's Secrets: no recovery
  stands between the goroutine of the preparation and the process.
\<close>

lemma dotfiles_panic:
  "dfAuthentication d \<noteq> None \<Longrightarrow> pqUserSecrets rq = None \<Longrightarrow> dotfilesRepo rq d = Inl (Panic ''nil pointer dereference'')"
  by (auto simp: dotfilesRepo_def Let_def split: option.splits)

text \<open>Features are installed as root, in a fresh run only; their entry points run as the user, and in no build.\<close>

definition featureTask :: "bool \<Rightarrow> bool \<Rightarrow> string list \<times> task \<Rightarrow> bool" where
  "featureTask fresh isBuild et \<longleftrightarrow>
     (tkType (snd et) = Task_ON_CREATE \<and> fresh \<and> tkRunAsRoot (snd et)) \<or> (tkType (snd et) = Task_POST_START \<and> \<not> isBuild \<and> \<not> tkRunAsRoot (snd et))"

lemma addFeatures_types:
  "list_all (featureTask fresh isBuild) (fst (snd st)) \<Longrightarrow>
   list_all (featureTask fresh isBuild) (fst (snd (foldl (addFeature lookPath fresh isBuild u) st fts)))"
  by (induction fts arbitrary: st)
    (auto simp: addFeature_def Let_def installTasks_def entryPointTasks_def dcTask_def featureTask_def split: prod.splits)

lemma features_types:
  assumes "setupDevContainersFeatures oe download readSorted fresh isBuild u env w = (Inr r, w')"
  shows "list_all (featureTask fresh isBuild) (fst (snd r))"
  using assms addFeatures_types[of fresh isBuild "(env, [], [])"]
  by (auto simp: setupDevContainersFeatures_def io_simps split: if_splits)

text \<open>A devcontainer's file is looked for only in a Workspace with a repository.\<close>

lemma devcontainer_path:
  "getDevContainerJSONPath exist spec repoDir \<noteq> [] \<Longrightarrow> exist repoDir \<and> spRepository spec \<noteq> None"
  by (auto simp: getDevContainerJSONPath_def split: if_splits)

end
