(* ===== verification/Spec2Isabelle.thy ===== *)
theory Spec2Isabelle
  imports Nft_Semantics Resource_Helpers Volume_Mounts Spec_Vars Workspace_Validate
    Api_Membership Api_Workspace Api_Witnesses Ctl_Witnesses Access_Witnesses Sup_Witnesses
    Agent_Witnesses Agent_Terminal Agent_Setup
begin

text \<open>
  A verification development of Cordium, the workspace platform of Octelium: the Go code of the
  cluster's control plane under \<open>src/cluster\<close>, with the helpers it uses from \<open>src/pkg\<close>.

  \<^bold>\<open>The program.\<close> Users own Workspaces (containers with a repository, tasks, ports and terminals) that
  are made from Templates and belong to Spaces. All resources are records of Octelium's resource
  server. The \<^emph>\<open>API server\<close> (\<open>cluster/apiserver\<close>) answers the requests of users and writes the
  resources; \<^emph>\<open>nocturne\<close> (\<open>cluster/nocturne\<close>) watches them, makes the Kubernetes objects of a
  Workspace that starts, talks to the \<^emph>\<open>supervisor\<close> in its pod and writes the state the supervisor
  reports; the supervisor starts the container and has the \<^emph>\<open>agent\<close> in it prepare the Workspace and run its tasks; the \<^emph>\<open>portal\<close> (\<open>cluster/portal\<close>) serves the ports and terminals of running Workspaces to
  browsers, \<^emph>\<open>vigil\<close> (\<open>cluster/vigil\<close>) their SSH. The components share no memory: they interact
  through the stored resources, the watch events of the resource server, and gRPC calls.

  \<^bold>\<open>How the code is read.\<close> A Go \<open>struct\<close> is a \<open>record\<close> with the fields that the modelled code reads or
  writes, an enum a \<open>datatype\<close>, a \<open>uint32\<close> a \<open>32 word\<close>, a pointer that may be nil an \<open>option\<close>, a map of
  Go a list of pairs or a function to options, a string the list of its bytes. A function that may fail returns
  \<open>err + 'a\<close>; a handler is a function \<open>('w, 'a) io\<close> of the state \<open>'w\<close> it works on (\<open>Cordium_Prelude\<close>), in
  which every early return is a branch and the writes made before an error stay. A dereference of
  nil and an index out of range are the error \<open>Panic\<close>, so that theorems speak of panics too. What is
  not under \<open>src/\<close> is a parameter: the resource server through its clients \<open>rsc_client\<close>, Octelium's validators
  and CEL engine, Kubernetes, the gRPC transport, the caches (records \<open>env\<close>, \<open>ctl_env\<close>, \<open>wrks_env\<close>,
  \<open>kv\<close>, \<open>bolt\<close>, \<open>portal_env\<close>); what a theorem needs of one is a named hypothesis
  (\<open>kv_laws\<close>, \<open>bolt_laws\<close>), and \<open>Memory_Env\<close>, \<open>Memory_Ctl\<close> and \<open>Access_Witnesses\<close> hold concrete
  instances, on which the witnesses run.

  \<^bold>\<open>Atomicity.\<close> A handler runs as one step over the state it is given. Where the code interleaves, this is
  made explicit: \<open>Workspace_Lifecycle\<close> states what every single write does to a stored Workspace
  whatever was written in between; \<open>ctl_step\<close> runs events and the goroutines of the controller in any order;
  \<open>wrks_run\<close>, \<open>vigil_run\<close> and \<open>portal_run\<close> are all sequences of watch events and requests.

  \<^bold>\<open>Shared theories.\<close> \<open>Cordium_Prelude\<close> (errors, the monad and its step lemmas \<open>io_simps\<close>), \<open>Go_Strings\<close>
  (the packages \<open>strings\<close>, \<open>strconv\<close>, \<open>path\<close>), \<open>Netip\<close> (\<open>net/netip\<close>), \<open>Resources\<close> (the messages of
  \<open>apis/main/cordiumv1\<close>), \<open>K8s_Objects\<close>, \<open>Step_Invariant\<close> (the contracts of invariants and of
  fields that steps keep), \<open>Resource_Helpers\<close> (\<open>pkg/apiutils/ucordiumv1\<close>, \<open>cluster/common/common.go\<close>).
\<close>

text \<open>
  \<^bold>\<open>Egress policies\<close> (\<open>cluster/common/netpolicy\<close>): \<open>Net_Policy\<close> translates the compilation of the network
  rules of a spec and their rendering as nftables text; \<open>Nft_Semantics\<close> gives the rendered
  statements a meaning on packets and proves that it is the one of the spec
  (\<open>nft_enforces_spec\<close>), and that \<open>Compile\<close> succeeds exactly on valid requests.

  \<^bold>\<open>Specs\<close> (\<open>cluster/common/wsutils\<close>): \<open>Spec_Vars\<close> (merging of Template and Workspace, variables),
  \<open>Volume_Mounts\<close> and \<open>Volume_Resolve\<close> (mount paths; the Volumes of a run), \<open>Workspace_Validate\<close> (every check
  of \<open>ValidateWorkspace\<close>). What an accepted spec satisfies is proved, that its Secrets are
  of its Space, which source of a variable wins, and that rendering replaces the references in a text by these values.

  \<^bold>\<open>API server\<close> (\<open>cluster/apiserver/apiserver/mains\<close>, \<open>commonw\<close>): \<open>Api_Env\<close> (context, names and the gates on
  roles, as one locale), \<open>Api_Limits\<close> (quotas, resource limits), \<open>Api_Validation\<close>, \<open>Api_Template\<close>, \<open>Api_Space\<close>,
  \<open>Api_Membership\<close>, \<open>Api_Secret\<close>, \<open>Api_Volume\<close>, \<open>Api_Snapshot\<close>, \<open>Api_Workspace\<close>: one definition per
  handler. For each: who may call it, what it stores on success, and what an error leaves alone.
  \<open>Api_Witnesses\<close> runs the handlers on the cluster of \<open>Memory_Env\<close>.

  \<^bold>\<open>Nocturne\<close> (\<open>cluster/nocturne/nocturne\<close>): \<open>Workspace_Lifecycle\<close> is the specification of a stored
  Workspace: the relation \<open>ws_step\<close> has a step for every write that API server and controllers make but one, the forced
  stop of the watchdog, which breaks the invariant and is the relation \<open>stale_step\<close>; \<open>Ctl_Env\<close>,
  \<open>Ctl_Deploy\<close> and \<open>Ctl_Storage\<close> (\<open>k8s.go\<close>), \<open>Ctl_Volume\<close>, \<open>Ctl_Snapshot\<close>, \<open>Ctl_Watchdog\<close> (\<open>watcher.go\<close> of nocturne) and
  \<open>Ctl_Watcher\<close> (the controller and its status watchers) are the code; \<open>Ctl_Invariant\<close> proves that the map
  of watchers holds exactly the open ones whatever the order of events, \<open>Ctl_Effects\<close> that every
  handler writes a Workspace only as a step of \<open>ctl_ws_step\<close>, the steps of the life cycle that controllers take, from
  a version that its event brought or that it has read (the relation \<open>ctl_call\<close> carries these versions
  along), \<open>Ctl_Properties\<close> what is reconciled, restored and spared.
  \<open>Ctl_Witnesses\<close> runs the controllers on \<open>Memory_Ctl\<close>, and shows the panic of a watcher
  without a client.

  \<^bold>\<open>Access\<close>: \<open>Sup_Cmap\<close> (\<open>cluster/common/suputils\<close>, the connections to supervisors), \<open>Terminal_Service\<close>
  (\<open>apiserver/wrks\<close>), \<open>Vigil_Access\<close> (\<open>cluster/vigil\<close>), \<open>Portal_Domain\<close> and \<open>Portal_Server\<close>
  (\<open>cluster/portal/portal\<close>). \<open>Portal_Invariant\<close> and the run theorems of the others show that decisions
  taken on cached resources are the ones the reported resources call for; \<open>Access_Witnesses\<close> runs them.

  \<^bold>\<open>Supervisor\<close> (\<open>cluster/supervisor/supervisor\<close>): \<open>Sup_Network\<close> (\<open>network.go\<close>, the socket over which the
  inner supervisor has the outer one set the egress policy), \<open>Build_Paths\<close> (\<open>checkPathWithin\<close> and the
  packages \<open>path\<close> and \<open>filepath\<close> it uses), \<open>Pub_Sub\<close> (the fan-out of states and events), \<open>Sup_State\<close> (\<open>server.go\<close>,
  \<open>utils.go\<close>, the requests of \<open>api.go\<close>), \<open>Sup_Image\<close> (\<open>image.go\<close>, \<open>repo.go\<close>), \<open>Sup_Container\<close>
  (\<open>podman.go\<close>, \<open>cgroup.go\<close>) and \<open>Sup_Init\<close> (\<open>initialization.go\<close>, \<open>shutdown.go\<close>, \<open>heathcheck.go\<close>). Every command is
  recorded with its outcome, which the environment decides; \<open>doInitialize\<close> is a list of
  phases, and \<open>pod_step\<close> interleaves them with the phases of the shutdown and the other goroutines. \<open>Sup_Effects\<close>
  holds the contracts of the functions as locales over a relation between states, which
  \<open>Sup_Properties\<close>, \<open>Sup_Guarantees\<close> and \<open>Sup_Build\<close> interpret: the container runs only behind the
  policy of its spec, \<open>STOPPED\<close> is reported only after it was stopped, one initialization runs, and
  images are built below the build directory. \<open>Sup_Witnesses\<close> runs a pod.

  \<^bold>\<open>Agent\<close> (\<open>cluster/workspace/workspace\<close>, the process in the container): \<open>Agent_Env\<close> (the environment variables
  and the quoting of command lines, with the lexer of a shell that reads them back), \<open>Agent_Task\<close> (\<open>task.go\<close>: a
  manager whose log says which commands began, ended and were killed), \<open>Agent_Git\<close> (\<open>git.go\<close> and the helper that git
  calls), \<open>Agent_Volume\<close> (\<open>volume.go\<close> over a map of files), \<open>Agent_Terminal\<close> (\<open>terminal.go\<close>: the map of terminals, what a
  terminal keeps and publishes, \<open>Exec\<close>), \<open>Agent_Setup\<close> (the user of a Workspace, its dotfiles, its devcontainer and
  the features of it) and \<open>Agent_Server\<close> (\<open>server.go\<close>): \<open>agent_step\<close> interleaves
  any number of \<open>Prepare\<close> requests, the clones in the background, the goroutine that waits for them and the
  shutdown. With one request, \<open>RUNNING\<close> means that all tasks were started and nothing failed; the lemmas
  \<open>two_preparations\<close> and \<open>stopping_then_running\<close> show what the code does not exclude. \<open>Agent_Witnesses\<close> runs them.
\<close>

text \<open>
  \<^bold>\<open>Bounds and fuel.\<close> Loops over lists are structural. The loop \<open>doUpdateStatus\<close> takes its bound of ten
  attempts from the code; \<open>doSetState\<close>, which has none, gets fuel, and \<open>doSetState_ends\<close> says that it
  ends within any fuel above the number of writes that others make in between, although the store may
  refuse writes from outdated versions for ever. \<open>listPages\<close> gets the
  number of pages as fuel. \<open>prepareImageFromRepository\<close> calls itself after a clone; its fuel bounds the clones, and
  running out of it is a stack overflow in \<open>phaseImage\<close>, hence a panic, which no theorem takes
  for success. No theorem holds because fuel ran out.

  \<^bold>\<open>Not modelled.\<close> Code that only moves bytes or calls other programs: the reverse proxy, the
  WireGuard stack and the web pages of the portal, what podman, git and nft do when they are
  called, the set-up of the supervisor's outer container, the devices of pseudo-terminals, what the clones and downloads of
  a preparation fetch (\<open>agent_step\<close> leaves the outcome of its operations open), the builds of Templates and git providers in the API
  server, the watch of Workspaces by clients, the CLI, the SDK, installation (genesis) and the end-to-end tests; generated
  protobuf code beyond the fields that are read; time passing (the clock is read, tickers
  are not modelled). \<open>PROJECT.json\<close> lists every part with its reason.
\<close>

end
